(* ===== verification/Prelude.thy ===== *)
theory Prelude
  imports Complex_Main "HOL-Library.Word" "HOL-Library.AList" "HOL-Library.Multiset"
    "HOL-Library.Char_ord" "HOL-Library.List_Lexorder" "HOL-Library.Product_Lexorder"
begin

text \<open>
  Shared vocabulary of the development: the Go types and the pieces of Go's standard library
  that the modelled components use, and the lemmas about them that carry the component proofs.

  \<^item> Machine integers: \<open>int64\<close> and \<open>uint64\<close> are 64-bit words, read as two's complement with
    \<open>sint\<close> and as unsigned with \<open>unat\<close>; \<open>+\<close> and \<open>-\<close> wrap around as in Go.
  \<^item> \<open>time.Time\<close> is the number of nanoseconds since Go's zero time, so that \<open>IsZero\<close> is
    equality with 0; \<open>time.Duration\<close> is a number of nanoseconds. \<open>Time.Sub\<close> saturates at about
    292 years, far above every duration the code compares it with, so it is plain subtraction.
  \<^item> Strings are byte strings. \<open>strings.ToLower\<close> is modelled on ASCII, which is what Azure
    resource identifiers, SKU names, zones and capacity types consist of.
  \<^item> A Go map that is only looked up and updated is a function \<open>'k \<rightharpoonup> 'v\<close>. A map that is also ranged
    over is an association list with distinct keys; the order of the list stands for the
    iteration order, which Go leaves unspecified, so a theorem about every list covers every order.
  \<^item> \<open>sort.SliceStable\<close> is a stable insertion sort: for a strict weak order the stably sorted
    permutation is unique. \<open>sort.Slice\<close> need not be stable, so it is a parameter constrained by
    the locale \<open>slice_sort\<close>.
\<close>

named_theorems key_simps \<open>rewrite rules that tell composite string keys apart\<close>

type_synonym int64 = "64 word"
type_synonym int32 = "32 word"
type_synonym uint64 = "64 word"
type_synonym time = int
type_synonym duration = int
type_synonym ('k, 'v) gomap = "('k \<times> 'v) list"

definition Second :: duration where
  "Second = 1000000000"

definition Minute :: duration where
  "Minute = 60 * Second"

definition Hour :: duration where
  "Hour = 60 * Minute"

lemmas duration_defs = Second_def Minute_def Hour_def

text \<open>
  An error value is its message. A function that returns \<open>(T, error)\<close> returns a sum, \<open>Inl\<close> for
  the error. A run-time panic is a value of \<open>panic\<close>, in a sum of its own.
\<close>

type_synonym error = string
type_synonym 'a result = "error + 'a"

datatype panic = SliceBounds | NilDereference | TypeAssertion

text \<open>Where an operation can both fail and panic; the panic carries its message.\<close>

datatype failure = Panic string | Failed error

subsection \<open>Strings\<close>

definition lower_char :: "char \<Rightarrow> char" where
  "lower_char c =
     (if CHR ''A'' \<le> c \<and> c \<le> CHR ''Z'' then char_of (of_char c + 32 :: nat) else c)"

definition ToLower :: "string \<Rightarrow> string" where
  "ToLower s = map lower_char s"

definition HasPrefix :: "string \<Rightarrow> string \<Rightarrow> bool" where
  "HasPrefix s p \<longleftrightarrow> take (length p) s = p"

definition HasSuffix :: "string \<Rightarrow> string \<Rightarrow> bool" where
  "HasSuffix s p \<longleftrightarrow> HasPrefix (rev s) (rev p)"

fun Contains :: "string \<Rightarrow> string \<Rightarrow> bool" where
  "Contains [] p = (p = [])"
| "Contains (c # s) p = (HasPrefix (c # s) p \<or> Contains s p)"

definition TrimPrefix :: "string \<Rightarrow> string \<Rightarrow> string" where
  "TrimPrefix s p = (if HasPrefix s p then drop (length p) s else s)"

definition TrimSuffix :: "string \<Rightarrow> string \<Rightarrow> string" where
  "TrimSuffix s p = (if HasSuffix s p then take (length s - length p) s else s)"

text \<open>\<open>strings.LastIndex\<close> for one character, and \<open>strings.Replace(s, old, new, 1)\<close>.\<close>

definition LastIndex :: "char \<Rightarrow> string \<Rightarrow> int" where
  "LastIndex c s = int (length s) - 1 - int (length (takeWhile (\<lambda>d. d \<noteq> c) (rev s)))"

fun Replace1 :: "string \<Rightarrow> string \<Rightarrow> string \<Rightarrow> string" where
  "Replace1 [] old new = (if old = [] then new else [])"
| "Replace1 (c # s) old new = (if HasPrefix (c # s) old then new @ drop (length old) (c # s) else c # Replace1 s old new)"

text \<open>\<open>lo.FromPtr\<close> of a string pointer.\<close>

definition FromPtr :: "string option \<Rightarrow> string" where
  "FromPtr s = (case s of None \<Rightarrow> [] | Some s \<Rightarrow> s)"

text \<open>\<open>strings.Split\<close> by a character and \<open>strings.Join\<close>.\<close>

fun Split :: "char \<Rightarrow> string \<Rightarrow> string list" where
  "Split c [] = [[]]"
| "Split c (x # xs) = (if x = c then [] # Split c xs else (case Split c xs of p # ps \<Rightarrow> (x # p) # ps | [] \<Rightarrow> [[x]]))"

fun Join :: "string \<Rightarrow> string list \<Rightarrow> string" where
  "Join sep [] = []"
| "Join sep [s] = s"
| "Join sep (s # t # ss) = s @ sep @ Join sep (t # ss)"

definition colon_free :: "string \<Rightarrow> bool" where
  "colon_free s \<longleftrightarrow> CHR '':'' \<notin> set s"

lemma Split_not_Nil [simp]: "Split c s \<noteq> []"
  by (induction s) (auto split: list.splits)

lemma Split_free: "p \<in> set (Split c s) \<Longrightarrow> c \<notin> set p"
proof (induction s arbitrary: p)
  case (Cons x s)
  obtain q qs where "Split c s = q # qs" by (cases "Split c s") simp_all
  with Cons show ?case by (auto split: if_splits)
qed simp

lemma Split_append: "c \<notin> set p \<Longrightarrow> Split c (p @ c # s) = p # Split c s"
proof (induction p)
  case (Cons x p)
  then show ?case by auto
qed simp

lemma Split_single: "c \<notin> set p \<Longrightarrow> Split c p = [p]"
  by (induction p) auto

lemma Join_Split: "Join [c] (Split c s) = s"
proof (induction s)
  case (Cons x s)
  obtain q qs where "Split c s = q # qs" by (cases "Split c s") simp_all
  with Cons show ?case by (cases qs) auto
qed simp

lemma Split_Join: "ps \<noteq> [] \<Longrightarrow> (\<And>p. p \<in> set ps \<Longrightarrow> c \<notin> set p) \<Longrightarrow> Split c (Join [c] ps) = ps"
proof (induction ps rule: induct_list012)
  case (3 p q ps)
  then show ?case using Split_append [of c p "Join [c] (q # ps)"] by simp
qed (simp_all add: Split_single)

lemma HasPrefix_iff: "HasPrefix s p \<longleftrightarrow> (\<exists>t. s = p @ t)"
  unfolding HasPrefix_def by (metis append_eq_conv_conj append_take_drop_id)

lemma HasPrefix_append [simp]: "HasPrefix (p @ s) p"
  by (simp add: HasPrefix_def)

lemma HasSuffix_iff: "HasSuffix s p \<longleftrightarrow> (\<exists>t. s = t @ p)"
proof -
  have "HasSuffix s p \<longleftrightarrow> (\<exists>t. rev s = rev p @ t)"
    by (simp add: HasSuffix_def HasPrefix_iff)
  also have "\<dots> \<longleftrightarrow> (\<exists>t. s = t @ p)"
    by (metis rev_append rev_rev_ident)
  finally show ?thesis .
qed

lemma ToLower_append [simp]: "ToLower (s @ t) = ToLower s @ ToLower t"
  by (simp add: ToLower_def)

lemma ToLower_Nil_iff [simp]: "ToLower s = [] \<longleftrightarrow> s = []"
  by (simp add: ToLower_def)

lemma lower_char_range: "CHR ''A'' \<le> c \<Longrightarrow> c \<le> CHR ''Z'' \<Longrightarrow>
    (of_char (lower_char c) :: nat) = of_char c + 32 \<and> (of_char c :: nat) \<le> 90"
  by (simp add: lower_char_def less_eq_char_def)

lemma lower_char_idem [simp]: "lower_char (lower_char c) = lower_char c"
proof (cases "CHR ''A'' \<le> c \<and> c \<le> CHR ''Z''")
  case True
  then have "(of_char (lower_char c) :: nat) = of_char c + 32" "(65::nat) \<le> of_char c"
    by (simp_all add: lower_char_range) (simp add: less_eq_char_def)
  then have "\<not> lower_char c \<le> CHR ''Z''"
    by (simp add: less_eq_char_def)
  then show ?thesis by (simp add: lower_char_def [of "lower_char c"])
next
  case False
  then show ?thesis by (auto simp: lower_char_def)
qed

lemma ToLower_idem [simp]: "ToLower (ToLower s) = ToLower s"
  by (simp add: ToLower_def)

text \<open>A character below the capital letters has only itself as upper case.\<close>

lemma lower_char_below:
  assumes "(of_char d :: nat) < 65"
  shows "lower_char c = d \<longleftrightarrow> c = d"
proof (cases "CHR ''A'' \<le> c \<and> c \<le> CHR ''Z''")
  case True
  then have "(of_char (lower_char c) :: nat) = of_char c + 32" and "(65::nat) \<le> of_char c"
    by (simp_all add: lower_char_range) (simp add: less_eq_char_def)
  with assms have "(of_char (lower_char c) :: nat) \<noteq> of_char d" and "(of_char c :: nat) \<noteq> of_char d" by linarith+
  then show ?thesis by metis
qed (auto simp: lower_char_def)

lemma lower_char_iff [simp]:
  "lower_char c = CHR '':'' \<longleftrightarrow> c = CHR '':''" "lower_char c = CHR ''/'' \<longleftrightarrow> c = CHR ''/''" "lower_char c = CHR 0x0A \<longleftrightarrow> c = CHR 0x0A"
  by (simp_all add: lower_char_below)

lemma ToLower_member_iff: "(of_char d :: nat) < 65 \<Longrightarrow> d \<in> set (ToLower s) \<longleftrightarrow> d \<in> set s"
  using lower_char_below [of d] unfolding ToLower_def set_map image_iff by (metis (no_types, lifting))

lemma colon_free_ToLower [simp]: "colon_free (ToLower s) \<longleftrightarrow> colon_free s"
  by (simp add: colon_free_def ToLower_member_iff)

text \<open>
  Two strings that agree up to their first colon have the same part before it: the fact behind
  every statement that composite cache keys do not collide.
\<close>

lemma colon_split [key_simps]:
  assumes "colon_free a" and "colon_free b"
  shows "a @ CHR '':'' # s = b @ CHR '':'' # t \<longleftrightarrow> a = b \<and> s = t"
  using assms
proof (induction a arbitrary: b)
  case Nil
  then show ?case by (cases b) (auto simp: colon_free_def)
next
  case (Cons x a)
  then show ?case by (cases b) (auto simp: colon_free_def)
qed

lemma colon_free_neq_key [key_simps]: "colon_free a \<Longrightarrow> a \<noteq> b @ CHR '':'' # t"
  by (auto simp: colon_free_def)

text \<open>
  \<open>%d\<close> on an integer, and \<open>%q\<close> on a string of printable characters without quotes and backslashes.
\<close>

fun digits :: "nat \<Rightarrow> string" where
  "digits n = (if n < 10 then [''0123456789'' ! n] else digits (n div 10) @ [''0123456789'' ! (n mod 10)])"

declare digits.simps [simp del]

definition Itoa :: "int \<Rightarrow> string" where
  "Itoa i = (if i < 0 then ''-'' @ digits (nat (- i)) else digits (nat i))"

definition quoted :: "string \<Rightarrow> string" where
  "quoted s = [CHR 0x22] @ s @ [CHR 0x22]"

subsection \<open>Sorting and shuffling slices\<close>

fun stable_insert :: "('a \<Rightarrow> 'a \<Rightarrow> bool) \<Rightarrow> 'a \<Rightarrow> 'a list \<Rightarrow> 'a list" where
  "stable_insert lt x [] = [x]"
| "stable_insert lt x (y # ys) =
     (if lt y x then y # stable_insert lt x ys else x # y # ys)"

definition SliceStable :: "('a \<Rightarrow> 'a \<Rightarrow> bool) \<Rightarrow> 'a list \<Rightarrow> 'a list" where
  "SliceStable lt xs = foldr (stable_insert lt) xs []"

definition strict_weak :: "('a \<Rightarrow> 'a \<Rightarrow> bool) \<Rightarrow> bool" where
  "strict_weak lt \<longleftrightarrow>
     (\<forall>x. \<not> lt x x) \<and>
     (\<forall>x y z. lt x y \<longrightarrow> lt y z \<longrightarrow> lt x z) \<and>
     (\<forall>x y z. lt x y \<longrightarrow> lt x z \<or> lt z y)"

lemma mset_stable_insert: "mset (stable_insert lt x ys) = add_mset x (mset ys)"
  by (induction ys) auto

lemma SliceStable_simps [simp]:
  "SliceStable lt [] = []"
  "SliceStable lt (x # xs) = stable_insert lt x (SliceStable lt xs)"
  by (simp_all add: SliceStable_def)

lemma mset_SliceStable [simp]: "mset (SliceStable lt xs) = mset xs"
  by (induction xs) (simp_all add: mset_stable_insert)

lemma set_SliceStable [simp]: "set (SliceStable lt xs) = set xs"
  by (metis mset_SliceStable set_mset_mset)

lemma set_stable_insert [simp]: "set (stable_insert lt x ys) = insert x (set ys)"
  by (induction ys) auto

lemma sorted_stable_insert:
  assumes "strict_weak lt" and "sorted_wrt (\<lambda>x y. \<not> lt y x) ys"
  shows "sorted_wrt (\<lambda>x y. \<not> lt y x) (stable_insert lt x ys)"
  using assms(2)
proof (induction ys)
  case (Cons y ys)
  from assms(1) have swo: "\<And>a b c. lt a b \<Longrightarrow> lt a c \<or> lt c b" and irr: "\<And>a. \<not> lt a a"
    and tr: "\<And>a b c. lt a b \<Longrightarrow> lt b c \<Longrightarrow> lt a c"
    by (auto simp: strict_weak_def)
  show ?case
  proof (cases "lt y x")
    case True
    then have "\<not> lt x y" using irr tr by blast
    with True Cons show ?thesis by auto
  next
    case False
    have "\<not> lt z x" if "z \<in> set ys" for z
      using Cons.prems that False swo [of z x y] by auto
    with False Cons.prems show ?thesis by auto
  qed
qed simp

text \<open>The contract of \<open>sort.Slice\<close>: a permutation that is sorted for every strict weak order.\<close>

locale slice_sort =
  fixes srt :: "('a \<Rightarrow> 'a \<Rightarrow> bool) \<Rightarrow> 'a list \<Rightarrow> 'a list"
  assumes srt_mset: "mset (srt lt xs) = mset xs"
    and srt_sorted: "strict_weak lt \<Longrightarrow> sorted_wrt (\<lambda>x y. \<not> lt y x) (srt lt xs)"
begin

lemma srt_set: "set (srt lt xs) = set xs"
  by (metis srt_mset set_mset_mset)

lemma srt_Nil_iff: "srt lt xs = [] \<longleftrightarrow> xs = []"
  by (metis srt_mset mset_zero_iff)

lemma srt_hd_least:
  assumes "strict_weak lt" and "srt lt xs = y # ys" and "x \<in> set xs"
  shows "\<not> lt x y"
proof -
  from assms(2,3) have "x = y \<or> x \<in> set ys" by (metis srt_set set_ConsD)
  moreover from srt_sorted [OF assms(1), of xs] assms(2) have "\<forall>z \<in> set ys. \<not> lt z y"
    by simp
  moreover from assms(1) have "\<not> lt y y" by (simp add: strict_weak_def)
  ultimately show ?thesis by blast
qed

end

interpretation stable: slice_sort SliceStable
proof
  show "mset (SliceStable lt xs) = mset xs" for lt :: "'a \<Rightarrow> 'a \<Rightarrow> bool" and xs
    by simp
  show "sorted_wrt (\<lambda>x y. \<not> lt y x) (SliceStable lt xs)"
    if "strict_weak lt" for lt :: "'a \<Rightarrow> 'a \<Rightarrow> bool" and xs
    using that by (induction xs) (auto intro: sorted_stable_insert)
qed

lemma less_pair: "(a, b) < (c, d) \<longleftrightarrow> (if a = c then b < d else a < c)"
  for a c :: "'a :: linorder" and b d :: "'b :: linorder"
  by (auto simp: less_prod_simp order_le_less)

text \<open>
  An order that compares keys of a linear order is a strict weak order, and sorting by it stably
  is HOL's \<open>sort_key\<close>.
\<close>

locale key_order =
  fixes lt :: "'a \<Rightarrow> 'a \<Rightarrow> bool"
    and key :: "'a \<Rightarrow> 'k :: linorder"
  assumes less_iff: "lt x y \<longleftrightarrow> key x < key y"
begin

lemma strict_weak_less: "strict_weak lt"
  unfolding strict_weak_def less_iff by (metis less_irrefl less_trans not_less_iff_gr_or_eq)

lemma SliceStable_sort_key: "SliceStable lt xs = sort_key key xs"
proof (induction xs)
  case (Cons x xs)
  have "stable_insert lt x ys = insort_key key x ys" for ys
    by (induction ys) (auto simp: less_iff)
  with Cons show ?case by simp
qed simp

lemma SliceStable_sorted: "sorted (map key (SliceStable lt xs))"
  by (simp add: SliceStable_sort_key)

lemma SliceStable_ties: "filter (\<lambda>y. key y = k) (SliceStable lt xs) = filter (\<lambda>y. key y = k) xs"
  by (simp add: SliceStable_sort_key sort_key_stable)

lemma SliceStable_hd_least:
  assumes "SliceStable lt xs = y # ys" and "x \<in> set xs"
  shows "key y \<le> key x"
proof -
  from assms(2) have "x \<in> set (y # ys)" using assms(1) by (metis set_SliceStable)
  with SliceStable_sorted [of xs] assms(1) show ?thesis by auto
qed

end

text \<open>
  \<open>rand.Shuffle\<close> is the Fisher-Yates loop: for \<open>i\<close> from the last index down to 1 it draws an index
  \<open>j \<le> i\<close> and swaps positions \<open>i\<close> and \<open>j\<close>. The draws are the argument \<open>rnd\<close>.
\<close>

definition swap_at :: "nat \<Rightarrow> nat \<Rightarrow> 'a list \<Rightarrow> 'a list" where
  "swap_at i j xs = xs[j := xs ! i, i := xs ! j]"

fun shuffle_from :: "(nat \<Rightarrow> nat) \<Rightarrow> nat \<Rightarrow> 'a list \<Rightarrow> 'a list" where
  "shuffle_from rnd 0 xs = xs"
| "shuffle_from rnd (Suc i) xs =
     shuffle_from rnd i (swap_at (Suc i) (rnd (Suc i) mod Suc (Suc i)) xs)"

definition Shuffle :: "(nat \<Rightarrow> nat) \<Rightarrow> 'a list \<Rightarrow> 'a list" where
  "Shuffle rnd xs = shuffle_from rnd (length xs - 1) xs"

lemma length_swap_at [simp]: "length (swap_at i j xs) = length xs"
  by (simp add: swap_at_def)

lemma mset_swap_at: "i < length xs \<Longrightarrow> j < length xs \<Longrightarrow> mset (swap_at i j xs) = mset xs"
  by (simp add: swap_at_def mset_swap)

lemma mset_shuffle_from: "i < length xs \<Longrightarrow> mset (shuffle_from rnd i xs) = mset xs"
proof (induction i arbitrary: xs)
  case (Suc i)
  have "rnd (Suc i) mod Suc (Suc i) < length xs"
    using Suc.prems mod_less_divisor [of "Suc (Suc i)" "rnd (Suc i)"] by linarith
  with Suc show ?case by (simp add: mset_swap_at)
qed simp

lemma mset_Shuffle [simp]: "mset (Shuffle rnd xs) = mset xs"
  by (cases xs) (simp_all add: Shuffle_def mset_shuffle_from)

lemma set_Shuffle [simp]: "set (Shuffle rnd xs) = set xs"
  by (metis mset_Shuffle set_mset_mset)

subsection \<open>Maps and slices\<close>

lemma distinct_keys_update [simp]: "distinct (map fst m) \<Longrightarrow> distinct (map fst (AList.update k v m))"
  by (rule distinct_update)

lemma sum_list_filter_update:
  fixes f :: "'k \<times> 'v \<Rightarrow> 'a :: ab_group_add"
  assumes "k \<notin> fst ` set m"
  shows "sum_list (map f (AList.update k v m)) = sum_list (map f m) + f (k, v)"
  using assms by (induction m) (auto simp: add.assoc)

lemma sum_list_delete:
  fixes f :: "'k \<times> 'v \<Rightarrow> 'a :: ab_group_add"
  assumes "distinct (map fst m)" and "map_of m k = Some v"
  shows "sum_list (map f (AList.delete k m)) = sum_list (map f m) - f (k, v)"
  using assms
proof (induction m)
  case (Cons p m)
  obtain k' v' where p: "p = (k', v')" by (cases p)
  show ?case
  proof (cases "k' = k")
    case True
    with Cons.prems p have "k \<notin> fst ` set m" "v' = v" by auto
    with True p show ?thesis by (simp add: AList.delete_idem)
  next
    case False
    with Cons p show ?thesis by (simp add: algebra_simps)
  qed
qed simp

lemma list_all2_in_left: "list_all2 P xs ys \<Longrightarrow> x \<in> set xs \<Longrightarrow> \<exists>y \<in> set ys. P x y"
  by (induction rule: list_all2_induct) auto

lemma list_all2_in_right: "list_all2 P xs ys \<Longrightarrow> y \<in> set ys \<Longrightarrow> \<exists>x \<in> set xs. P x y"
  by (induction rule: list_all2_induct) auto

subsection \<open>Loops that may panic\<close>

fun foldM :: "('a \<Rightarrow> 'b \<Rightarrow> 'e + 'a) \<Rightarrow> 'a \<Rightarrow> 'b list \<Rightarrow> 'e + 'a" where
  "foldM f acc [] = Inr acc"
| "foldM f acc (x # xs) = (case f acc x of Inl e \<Rightarrow> Inl e | Inr acc' \<Rightarrow> foldM f acc' xs)"

lemma foldM_invariant:
  assumes "foldM f acc xs = Inr out" and "P acc"
    and "\<And>a x a'. x \<in> set xs \<Longrightarrow> P a \<Longrightarrow> f a x = Inr a' \<Longrightarrow> P a'"
  shows "P out"
  using assms
proof (induction xs arbitrary: acc)
  case (Cons x xs)
  then obtain a' where a': "f acc x = Inr a'" "foldM f a' xs = Inr out" by (auto split: sum.splits)
  with Cons.prems have "P a'" by auto
  with a' Cons show ?case by auto
qed simp

lemma foldM_total:
  assumes "P acc" and "\<And>a x. x \<in> set xs \<Longrightarrow> P a \<Longrightarrow> \<exists>a'. f a x = Inr a' \<and> P a'"
  shows "\<exists>out. foldM f acc xs = Inr out \<and> P out"
  using assms
proof (induction xs arbitrary: acc)
  case (Cons x xs)
  from Cons.prems obtain a' where "f acc x = Inr a'" "P a'" by force
  with Cons.IH [of a'] Cons.prems(2) show ?case by auto
qed simp

text \<open>A loop that appends one result per element.\<close>

lemma foldM_collect:
  assumes "foldM (\<lambda>acc x. case g x of Inl e \<Rightarrow> Inl e | Inr y \<Rightarrow> Inr (acc @ [h x y])) acc xs = Inr out"
  shows "\<exists>ys. out = acc @ ys \<and> list_all2 (\<lambda>x z. \<exists>y. g x = Inr y \<and> z = h x y) xs ys"
  using assms
proof (induction xs arbitrary: acc)
  case (Cons x xs)
  then obtain y where "g x = Inr y" by (auto split: sum.splits)
  with Cons.prems Cons.IH [of "acc @ [h x y]"] show ?case by force
qed simp

lemma foldM_collect_total:
  assumes "\<And>x. x \<in> set xs \<Longrightarrow> \<exists>y. g x = Inr y"
  shows "\<exists>out. foldM (\<lambda>acc x. case g x of Inl e \<Rightarrow> Inl e | Inr y \<Rightarrow> Inr (acc @ [h x y])) acc xs = Inr out"
  using assms
proof (induction xs arbitrary: acc)
  case (Cons x xs)
  then obtain y where "g x = Inr y" by auto
  with Cons show ?case by simp
qed simp

subsection \<open>Iteration over maps\<close>

text \<open>
  Go iterates over a map in an unspecified order. \<open>rng xs\<close> is the order in which a loop visits the
  distinct keys of a map to which the keys \<open>xs\<close> were added.
\<close>

locale map_range =
  fixes rng :: "'k list \<Rightarrow> 'k list"
  assumes rng_set: "set (rng xs) = set xs" and rng_distinct: "distinct (rng xs)"

interpretation first_added: map_range remdups
  by unfold_locales simp_all

end
