(* ===== verification/Karpenter_Core.thy ===== *)
theory Karpenter_Core
  imports Prelude
begin

text \<open>
  The data the provider exchanges with Karpenter core (sigs.k8s.io/karpenter) and with the SKU
  catalogue (Azure/skewer). Neither package is part of the repository: \<open>offering\<close>,
  \<open>instanceType\<close> and \<open>SKU\<close> carry the fields and accessor results the provider reads, the type of
  scheduling requirements is a type variable \<open>'r\<close>, and the operations of the package on it are
  the record \<open>karpenter_api\<close>, an argument of the definitions that call them. The locale
  \<open>karpenter_core\<close> states what those operations are documented to do.
\<close>

text \<open>Well-known label keys and values of Karpenter and Kubernetes.\<close>

definition CapacityTypeLabelKey :: string where
  "CapacityTypeLabelKey = ''karpenter.sh/capacity-type''"

definition LabelTopologyZone :: string where
  "LabelTopologyZone = ''topology.kubernetes.io/zone''"

definition LabelOSStable :: string where
  "LabelOSStable = ''kubernetes.io/os''"

definition LabelInstanceTypeStable :: string where
  "LabelInstanceTypeStable = ''node.kubernetes.io/instance-type''"

definition CapacityTypeSpot :: string where
  "CapacityTypeSpot = ''spot''"

definition CapacityTypeOnDemand :: string where
  "CapacityTypeOnDemand = ''on-demand''"

definition Linux :: string where
  "Linux = ''linux''"

definition Windows :: string where
  "Windows = ''windows''"

lemmas label_defs = CapacityTypeLabelKey_def LabelTopologyZone_def LabelOSStable_def
  LabelInstanceTypeStable_def CapacityTypeSpot_def CapacityTypeOnDemand_def Linux_def Windows_def

lemma capacity_types_distinct [simp]:
  "CapacityTypeSpot \<noteq> CapacityTypeOnDemand" "CapacityTypeOnDemand \<noteq> CapacityTypeSpot"
  by (simp_all add: CapacityTypeSpot_def CapacityTypeOnDemand_def)

lemma capacity_types_colon_free [simp]:
  "colon_free CapacityTypeSpot" "colon_free CapacityTypeOnDemand"
  by (simp_all add: CapacityTypeSpot_def CapacityTypeOnDemand_def colon_free_def)

text \<open>Prices are finite floating-point numbers that the code only compares: rationals.\<close>

record 'r offering =
  Requirements :: 'r
  Price :: rat
  Available :: bool

record 'r instanceType =
  Name :: string
  ITRequirements :: 'r
  ITOfferings :: "'r offering list"

text \<open>The fields of a \<open>NodeClaim\<close> that the provider reads.\<close>

record nodeClaim =
  NCName :: string
  UID :: string
  Labels :: "string \<rightharpoonup> string"
  Annotations :: "string \<rightharpoonup> string"

text \<open>
  What \<open>skewer.SKU\<close> reports: \<open>GetName\<close>, \<open>GetFamilyName\<close> and \<open>VCPU\<close>, where \<open>None\<close> is the error of
  \<open>VCPU\<close>.
\<close>

record SKU =
  GetName :: string
  GetFamilyName :: string
  VCPU :: "int64 option"

text \<open>
  \<open>getAny K r key\<close> is \<open>Requirements.Get(key).Any()\<close>; \<open>offsAvailable\<close> and \<open>offsCompatible\<close> are the
  methods \<open>Available\<close> and \<open>Compatible\<close> of \<open>Offerings\<close>.
\<close>

record 'r karpenter_api =
  getAny :: "'r \<Rightarrow> string \<Rightarrow> string"
  offsAvailable :: "'r offering list \<Rightarrow> 'r offering list"
  offsCompatible :: "'r \<Rightarrow> 'r offering list \<Rightarrow> 'r offering list"
  isCompatible :: "'r \<Rightarrow> 'r \<Rightarrow> bool"

locale karpenter_core =
  fixes K :: "'r karpenter_api"
  assumes available_filter: "offsAvailable K offs = filter Available offs"
    and compatible_filter:
      "offsCompatible K reqs offs = filter (\<lambda>off. isCompatible K reqs (Requirements off)) offs"
begin

lemma available_compatible:
  "offsCompatible K reqs (offsAvailable K offs) =
     filter (\<lambda>off. Available off \<and> isCompatible K reqs (Requirements off)) offs"
  by (simp add: available_filter compatible_filter conj_commute)

end

text \<open>
  Requirements that give every key at most one value, as association lists: the shape of the
  requirements the provider puts on its own offerings. Two such lists are compatible when they
  agree on every key both define.
\<close>

type_synonym labels = "(string \<times> string) list"

definition labels_any :: "labels \<Rightarrow> string \<Rightarrow> string" where
  "labels_any ls key = (case map_of ls key of None \<Rightarrow> [] | Some v \<Rightarrow> v)"

definition labels_compatible :: "labels \<Rightarrow> labels \<Rightarrow> bool" where
  "labels_compatible rs ls =
     list_all (\<lambda>(k, v). case map_of ls k of None \<Rightarrow> True | Some w \<Rightarrow> v = w) rs"

definition labels_api :: "labels karpenter_api" where
  "labels_api =
     \<lparr>getAny = labels_any,
      offsAvailable = filter Available,
      offsCompatible = (\<lambda>rs. filter (\<lambda>off. labels_compatible rs (Requirements off))),
      isCompatible = labels_compatible\<rparr>"

lemma labels_api_simps [simp]:
  "getAny labels_api = labels_any"
  "offsAvailable labels_api = filter Available"
  "offsCompatible labels_api = (\<lambda>rs. filter (\<lambda>off. labels_compatible rs (Requirements off)))"
  "isCompatible labels_api = labels_compatible"
  by (simp_all add: labels_api_def)

interpretation labels_api: karpenter_core labels_api
  by unfold_locales simp_all

end
