(* ===== verification/Zones.thy ===== *)
theory Zones
  imports Karpenter_Core
begin

text \<open>
  Zone labels (src/pkg/utils/zones): the translation between ARM zone arrays and the AKS zone
  label \<open><region>-<zone-id>\<close>, the placement scope of a zone or an offering, and the registration
  of the CSI drivers' zone labels in Karpenter's normalization maps. Slices of \<open>*string\<close> are
  lists of options. \<open>MakeARMZonesFromAKSLabelZone\<close> slices the last byte off its argument, which
  panics on the empty string.
\<close>

definition Regional :: string where
  "Regional = ''0''"

definition Group :: string where
  "Group = ''karpenter.azure.com''"

definition LabelPlacementScope :: string where
  "LabelPlacementScope = Group @ ''/placement-scope''"

definition PlacementScopeZonal :: string where
  "PlacementScopeZonal = ''zonal''"

definition PlacementScopeRegional :: string where
  "PlacementScopeRegional = ''regional''"

lemmas scope_defs = Regional_def Group_def LabelPlacementScope_def PlacementScopeZonal_def
  PlacementScopeRegional_def

lemma scopes_distinct [simp]:
  "PlacementScopeZonal \<noteq> PlacementScopeRegional" "PlacementScopeRegional \<noteq> PlacementScopeZonal"
  by (simp_all add: scope_defs)

definition PlacementScopeForZone :: "string \<Rightarrow> string" where
  "PlacementScopeForZone zone =
     (if zone = Regional then PlacementScopeRegional else PlacementScopeZonal)"

definition PlacementScopeForOffering :: "'r karpenter_api \<Rightarrow> 'r offering \<Rightarrow> string" where
  "PlacementScopeForOffering K off = getAny K (Requirements off) LabelPlacementScope"

definition MakeAKSLabelZoneFromARMZone :: "string \<Rightarrow> string \<Rightarrow> string" where
  "MakeAKSLabelZoneFromARMZone location zoneID = ToLower location @ ''-'' @ zoneID"

fun MakeAKSLabelZoneFromARMZones :: "string \<Rightarrow> string option list \<Rightarrow> string result" where
  "MakeAKSLabelZoneFromARMZones location [] = Inr Regional"
| "MakeAKSLabelZoneFromARMZones location (None # zs) = Inr Regional"
| "MakeAKSLabelZoneFromARMZones location [Some z] =
     (if location = [] then Inl ''location is required for zonal resource''
      else Inr (MakeAKSLabelZoneFromARMZone location z))"
| "MakeAKSLabelZoneFromARMZones location (Some z # z' # zs) = Inl ''resource has multiple zones''"

definition MakeARMZonesFromAKSLabelZone :: "string \<Rightarrow> panic + string option list" where
  "MakeARMZonesFromAKSLabelZone z =
     (if z = Regional then Inr []
      else if z = [] then Inl SliceBounds
      else Inr [Some [last z]])"

text \<open>The two fields of \<open>armcompute.VirtualMachine\<close> that the function reads.\<close>

record virtualMachine =
  Location :: "string option"
  VMZones :: "string option list"

fun MakeAKSLabelZoneFromVM :: "virtualMachine option \<Rightarrow> string result" where
  "MakeAKSLabelZoneFromVM None = Inl ''cannot pass in a nil virtual machine''"
| "MakeAKSLabelZoneFromVM (Some vm) =
     MakeAKSLabelZoneFromARMZones (case Location vm of None \<Rightarrow> [] | Some l \<Rightarrow> l) (VMZones vm)"

text \<open>
  Karpenter's global normalization maps: label aliases, and per label the aliases of its values,
  \<open>None\<close> for a nil map.
\<close>

record normalization =
  NormalizedLabels :: "string \<rightharpoonup> string"
  NormalizedLabelValues :: "(string \<rightharpoonup> (string \<rightharpoonup> string)) option"

definition LabelAzureDiskCSIZone :: string where
  "LabelAzureDiskCSIZone = ''topology.disk.csi.azure.com/zone''"

definition LabelAzureElasticSANCSIZone :: string where
  "LabelAzureElasticSANCSIZone = ''topology.san.csi.azure.com/zone''"

definition CSIZoneLabels :: "string list" where
  "CSIZoneLabels = [LabelAzureDiskCSIZone, LabelAzureElasticSANCSIZone]"

definition RegisterCSIZoneNormalization :: "normalization \<Rightarrow> normalization" where
  "RegisterCSIZoneNormalization n =
     (let values = (case NormalizedLabelValues n of None \<Rightarrow> Map.empty | Some m \<Rightarrow> m);
          zoneValues = (case values LabelTopologyZone of None \<Rightarrow> Map.empty | Some m \<Rightarrow> m)
      in n\<lparr>NormalizedLabels := NormalizedLabels n ++
               map_of (map (\<lambda>label. (label, LabelTopologyZone)) CSIZoneLabels),
           NormalizedLabelValues :=
             Some (values(LabelTopologyZone \<mapsto> zoneValues ++ [[] \<mapsto> Regional]))\<rparr>)"

subsection \<open>Facts\<close>

lemma AKSLabelZone_not_Regional: "MakeAKSLabelZoneFromARMZone location z \<noteq> Regional"
proof -
  have "CHR ''-'' \<in> set (MakeAKSLabelZoneFromARMZone location z)"
    by (simp add: MakeAKSLabelZoneFromARMZone_def)
  moreover have "CHR ''-'' \<notin> set Regional" by (simp add: Regional_def)
  ultimately show ?thesis by metis
qed

lemma AKSLabelZone_not_Nil [simp]: "MakeAKSLabelZoneFromARMZone location z \<noteq> []"
  by (simp add: MakeAKSLabelZoneFromARMZone_def)

lemma last_AKSLabelZone: "z \<noteq> [] \<Longrightarrow> last (MakeAKSLabelZoneFromARMZone location z) = last z"
  by (simp add: MakeAKSLabelZoneFromARMZone_def)

lemma ARMZones_panics_iff: "MakeARMZonesFromAKSLabelZone z = Inl p \<longleftrightarrow> z = [] \<and> p = SliceBounds"
  by (auto simp: MakeARMZonesFromAKSLabelZone_def Regional_def)

subsection \<open>Properties\<close>

text \<open>
  The translation between ARM zones and zone labels loses nothing: the label of a zonal resource
  (zone identifiers have one character) leads back to its zone and counts as zonal, the label of
  a resource without zones leads back to no zone and counts as regional, the two kinds of labels never
  coincide, and of all labels only the empty one makes the translation panic.
\<close>

theorem zone_labels_round_trip:
  assumes "location \<noteq> []"
  shows "MakeAKSLabelZoneFromARMZones location [Some [z]] = Inr (MakeAKSLabelZoneFromARMZone location [z]) \<and>
    MakeARMZonesFromAKSLabelZone (MakeAKSLabelZoneFromARMZone location [z]) = Inr [Some [z]] \<and>
    PlacementScopeForZone (MakeAKSLabelZoneFromARMZone location [z]) = PlacementScopeZonal \<and>
    MakeAKSLabelZoneFromARMZones location [] = Inr Regional \<and> MakeARMZonesFromAKSLabelZone Regional = Inr [] \<and>
    PlacementScopeForZone Regional = PlacementScopeRegional \<and>
    (\<forall>label p. MakeARMZonesFromAKSLabelZone label = Inl p \<longleftrightarrow> label = [] \<and> p = SliceBounds)"
  using assms AKSLabelZone_not_Regional [of location "[z]"] last_AKSLabelZone [of "[z]" location] ARMZones_panics_iff
  by (simp add: MakeARMZonesFromAKSLabelZone_def [of "MakeAKSLabelZoneFromARMZone location [z]"]
      MakeARMZonesFromAKSLabelZone_def [of Regional] PlacementScopeForZone_def)

theorem zone_labels_round_trip_witness:
  "MakeARMZonesFromAKSLabelZone ''eastus-1'' = Inr [Some ''1'']"
proof -
  have "MakeAKSLabelZoneFromARMZone ''EastUS'' ''1'' = ''eastus-1''"
    by (simp add: MakeAKSLabelZoneFromARMZone_def ToLower_def lower_char_def char_of_def bit_simps)
  then show ?thesis using zone_labels_round_trip [of "''EastUS''" "CHR ''1''"] by simp
qed

end
