(* ===== verification/Offering_Rank.thy ===== *)
theory Offering_Rank
  imports Zones
begin

text \<open>
  The default stages of the allocation strategy (src/pkg/providers/allocationstrategy/stages):
  filtering instance types to their available, compatible offerings, and ranking. A stage maps a
  list of instance offerings to one. \<open>sort.Slice\<close> is the argument \<open>srt\<close>, the random draws of the
  \<open>idx\<close>-th shuffle of a ranking are \<open>rnd idx\<close>, and Karpenter's operations on requirements and
  offerings are the argument \<open>K\<close>.

  Shown here: comparing offerings is comparing keys of a linear order; ranking permutes the
  candidates and puts a best offering of a best candidate first.
\<close>

record 'r instanceOffering =
  InstanceType :: "'r instanceType option"
  Offerings :: "'r offering list"

subsection \<open>Availability and compatibility\<close>

definition availabilityCompatibility_Process :: "'r karpenter_api \<Rightarrow> 'r \<Rightarrow> 'r instanceOffering list
    \<Rightarrow> 'r instanceOffering list" where
  "availabilityCompatibility_Process K requirements ios =
     List.map_filter (\<lambda>io.
       let io' = io\<lparr>Offerings := offsCompatible K requirements (offsAvailable K (Offerings io))\<rparr>
       in if length (Offerings io') > 0 then Some io' else None) ios"

subsection \<open>Ranking\<close>

definition placementScopeRank :: "'r karpenter_api \<Rightarrow> 'r offering \<Rightarrow> int" where
  "placementScopeRank K off =
     (let s = PlacementScopeForOffering K off in
      if s = PlacementScopeZonal then 0 else if s = PlacementScopeRegional then 1 else 2)"

definition capacityTypeRank :: "'r karpenter_api \<Rightarrow> 'r offering \<Rightarrow> int" where
  "capacityTypeRank K off =
     (let ct = getAny K (Requirements off) CapacityTypeLabelKey in
      if ct = CapacityTypeSpot then 0 else if ct = CapacityTypeOnDemand then 1 else 2)"

fun compareOfferings :: "'r karpenter_api \<Rightarrow> 'r offering option \<Rightarrow> 'r offering option \<Rightarrow> int" where
  "compareOfferings K None None = 0"
| "compareOfferings K None (Some j) = 1"
| "compareOfferings K (Some i) None = -1"
| "compareOfferings K (Some i) (Some j) =
     (if Price i < Price j then -1
      else if Price i > Price j then 1
      else if capacityTypeRank K i \<noteq> capacityTypeRank K j
      then capacityTypeRank K i - capacityTypeRank K j
      else if placementScopeRank K i \<noteq> placementScopeRank K j
      then placementScopeRank K i - placementScopeRank K j
      else 0)"

definition firstOffering :: "'r instanceOffering \<Rightarrow> 'r offering option" where
  "firstOffering io = (if length (Offerings io) = 0 then None else Some (Offerings io ! 0))"

definition instanceOfferingName :: "'r instanceOffering \<Rightarrow> string" where
  "instanceOfferingName io = (case InstanceType io of None \<Rightarrow> [] | Some it \<Rightarrow> Name it)"

definition rankOfferings :: "'r karpenter_api \<Rightarrow> (nat \<Rightarrow> nat) \<Rightarrow> 'r offering list \<Rightarrow> 'r offering list" where
  "rankOfferings K rnd offs =
     SliceStable (\<lambda>i j. compareOfferings K (Some i) (Some j) < 0) (Shuffle rnd offs)"

definition rankLess :: "'r karpenter_api \<Rightarrow> 'r instanceOffering \<Rightarrow> 'r instanceOffering \<Rightarrow> bool" where
  "rankLess K i j =
     (let comparison = compareOfferings K (firstOffering i) (firstOffering j) in
      if comparison = 0 then instanceOfferingName i < instanceOfferingName j
      else comparison < 0)"

definition rankInstanceOfferings :: "'r karpenter_api
    \<Rightarrow> (('r instanceOffering \<Rightarrow> 'r instanceOffering \<Rightarrow> bool) \<Rightarrow> 'r instanceOffering list \<Rightarrow> 'r instanceOffering list)
    \<Rightarrow> (nat \<Rightarrow> nat \<Rightarrow> nat) \<Rightarrow> 'r instanceOffering list \<Rightarrow> 'r instanceOffering list" where
  "rankInstanceOfferings K srt rnd ios =
     srt (rankLess K)
       (map (\<lambda>(idx, io). io\<lparr>Offerings := rankOfferings K (rnd idx) (Offerings io)\<rparr>)
         (enumerate 0 ios))"

definition defaultOfferingRank_Process where
  "defaultOfferingRank_Process K srt rnd ios = rankInstanceOfferings K srt rnd ios"

subsection \<open>Comparing is comparing keys\<close>

text \<open>Rank of an offering: missing last, then price, capacity type, placement scope.\<close>

definition offering_key :: "'r karpenter_api \<Rightarrow> 'r offering \<Rightarrow> rat \<times> int \<times> int" where
  "offering_key K off = (Price off, capacityTypeRank K off, placementScopeRank K off)"

definition first_key :: "'r karpenter_api \<Rightarrow> 'r offering option \<Rightarrow> nat \<times> rat \<times> int \<times> int" where
  "first_key K o' = (case o' of None \<Rightarrow> (1, 0, 0, 0) | Some off \<Rightarrow> (0, offering_key K off))"

lemma compareOfferings_less: "compareOfferings K i j < 0 \<longleftrightarrow> first_key K i < first_key K j"
  by (cases "(K, i, j)" rule: compareOfferings.cases)
     (auto simp: first_key_def offering_key_def less_prod_def)

lemma compareOfferings_zero: "compareOfferings K i j = 0 \<longleftrightarrow> first_key K i = first_key K j"
  by (cases "(K, i, j)" rule: compareOfferings.cases) (auto simp: first_key_def offering_key_def)

declare compareOfferings.simps [simp del]

lemma first_key_Some [simp]: "first_key K (Some i) < first_key K (Some j) \<longleftrightarrow> offering_key K i < offering_key K j"
  "first_key K (Some i) \<le> first_key K (Some j) \<longleftrightarrow> offering_key K i \<le> offering_key K j"
  by (simp_all add: first_key_def)

interpretation offering_order: key_order "\<lambda>i j. compareOfferings K (Some i) (Some j) < 0" "offering_key K" for K
  by unfold_locales (simp add: compareOfferings_less)

interpretation candidate_order: key_order "rankLess K" "\<lambda>io. (first_key K (firstOffering io), instanceOfferingName io)" for K
  by unfold_locales (simp add: rankLess_def Let_def compareOfferings_less compareOfferings_zero less_pair del: less_prod_simp)

subsection \<open>Ranking\<close>

lemma set_rankOfferings [simp]: "set (rankOfferings K rnd offs) = set offs"
  by (simp add: rankOfferings_def)

lemma mset_rankOfferings [simp]: "mset (rankOfferings K rnd offs) = mset offs"
  by (simp add: rankOfferings_def)

lemma rankOfferings_Nil_iff [simp]: "rankOfferings K rnd offs = [] \<longleftrightarrow> offs = []"
  by (metis mset_rankOfferings mset_zero_iff)

lemma rankOfferings_hd:
  assumes "rankOfferings K rnd offs = off # rest" and "x \<in> set offs"
  shows "offering_key K off \<le> offering_key K x"
  using offering_order.SliceStable_hd_least [OF assms(1) [unfolded rankOfferings_def]] assms(2) by simp

lemma firstOffering_Nil [simp]: "firstOffering io = None \<longleftrightarrow> Offerings io = []"
  by (simp add: firstOffering_def)

definition ranked :: "'r karpenter_api \<Rightarrow> (nat \<Rightarrow> nat) \<Rightarrow> 'r instanceOffering \<Rightarrow> 'r instanceOffering" where
  "ranked K rnd io = io\<lparr>Offerings := rankOfferings K rnd (Offerings io)\<rparr>"

lemma ranked_simps [simp]:
  "InstanceType (ranked K rnd io) = InstanceType io"
  "set (Offerings (ranked K rnd io)) = set (Offerings io)"
  "Offerings (ranked K rnd io) = [] \<longleftrightarrow> Offerings io = []"
  by (simp_all add: ranked_def)

lemma map_enumerate_image: "set (map (\<lambda>(i, x). f i x) (enumerate k xs)) = {f (k + i) (xs ! i) |i. i < length xs}"
proof -
  have "map (\<lambda>(i, x). f i x) (enumerate k xs) = map (\<lambda>i. f (k + i) (xs ! i)) [0..<length xs]"
    by (rule nth_equalityI) (auto simp: nth_enumerate_eq)
  then show ?thesis by (auto simp: image_iff)
qed

locale ranking = slice_sort srt
  for srt :: "('r instanceOffering \<Rightarrow> 'r instanceOffering \<Rightarrow> bool) \<Rightarrow> 'r instanceOffering list \<Rightarrow> 'r instanceOffering list" +
  fixes K :: "'r karpenter_api" and rnd :: "nat \<Rightarrow> nat \<Rightarrow> nat"
begin

lemma set_ranked:
  "set (rankInstanceOfferings K srt rnd ios) = {ranked K (rnd i) (ios ! i) |i. i < length ios}"
  unfolding rankInstanceOfferings_def srt_set ranked_def [symmetric]
  using map_enumerate_image [of "\<lambda>i. ranked K (rnd i)" 0 ios] by simp

lemma length_ranked: "length (rankInstanceOfferings K srt rnd ios) = length ios"
  unfolding rankInstanceOfferings_def
  using arg_cong [OF srt_mset [of "rankLess K"], of size] by (simp add: size_mset)

text \<open>The head of a ranking offers a best offering among all candidates.\<close>

lemma ranked_head:
  assumes "rankInstanceOfferings K srt rnd ios = best # rest" and "\<forall>io \<in> set ios. Offerings io \<noteq> []"
  obtains io off offs where "io \<in> set ios" "InstanceType best = InstanceType io"
    "Offerings best = off # offs" "off \<in> set (Offerings io)"
    "\<forall>io' \<in> set ios. \<forall>x \<in> set (Offerings io'). offering_key K off \<le> offering_key K x"
proof -
  have "best \<in> set (rankInstanceOfferings K srt rnd ios)" using assms(1) by simp
  then obtain i where i: "i < length ios" "best = ranked K (rnd i) (ios ! i)" unfolding set_ranked by blast
  then have "ios ! i \<in> set ios" by simp
  with assms(2) i(2) obtain off offs where off: "Offerings best = off # offs"
    by (cases "Offerings best") (auto simp: ranked_def)
  have "off \<in> set (Offerings best)" using off by simp
  then have mem: "off \<in> set (Offerings (ios ! i))" using i(2) by simp
  have least: "offering_key K off \<le> offering_key K x" if "io' \<in> set ios" "x \<in> set (Offerings io')" for io' x
  proof -
    from that(1) obtain j where j: "j < length ios" "ios ! j = io'" by (auto simp: in_set_conv_nth)
    let ?c = "ranked K (rnd j) io'"
    from that(2) obtain off' offs' where o': "Offerings ?c = off' # offs'"
      by (cases "Offerings ?c") (auto simp: ranked_def)
    then have "offering_key K off' \<le> offering_key K x"
      using rankOfferings_hd [OF _ that(2)] by (simp add: ranked_def)
    moreover have "?c \<in> set (map (\<lambda>(idx, io). ranked K (rnd idx) io) (enumerate 0 ios))"
      unfolding map_enumerate_image using j by auto
    then have "\<not> rankLess K ?c best"
      using srt_hd_least [OF candidate_order.strict_weak_less assms(1) [unfolded rankInstanceOfferings_def]]
      by (simp add: ranked_def)
    then have "\<not> first_key K (firstOffering ?c) < first_key K (firstOffering best)"
      unfolding candidate_order.less_iff less_pair by (auto split: if_splits)
    then have "offering_key K off \<le> offering_key K off'"
      using off o' by (simp add: firstOffering_def not_less)
    ultimately show ?thesis by (rule order_trans [rotated])
  qed
  show thesis
    by (rule that [OF \<open>ios ! i \<in> set ios\<close> _ off mem]) (use i(2) least in auto)
qed

end

interpretation stable_ranking: ranking SliceStable K rnd for K rnd
  by unfold_locales

subsection \<open>Filtering\<close>

lemma in_map_filter: "y \<in> set (List.map_filter f xs) \<longleftrightarrow> (\<exists>x \<in> set xs. f x = Some y)"
  by (induction xs) (auto simp: List.map_filter_def split: option.splits)

context karpenter_core
begin

lemma availabilityCompatibility:
  "io \<in> set (availabilityCompatibility_Process K reqs ios) \<longleftrightarrow>
     Offerings io \<noteq> [] \<and>
     (\<exists>io0 \<in> set ios. io = io0\<lparr>Offerings := filter (\<lambda>off. Available off \<and> isCompatible K reqs (Requirements off)) (Offerings io0)\<rparr>)"
proof -
  define g where "g = (\<lambda>io0 :: 'r instanceOffering. io0\<lparr>Offerings :=
    filter (\<lambda>off. Available off \<and> isCompatible K reqs (Requirements off)) (Offerings io0)\<rparr>)"
  have "io \<in> set (availabilityCompatibility_Process K reqs ios) \<longleftrightarrow>
      (\<exists>x \<in> set ios. (if 0 < length (Offerings (g x)) then Some (g x) else None) = Some io)"
    unfolding availabilityCompatibility_Process_def in_map_filter Let_def available_compatible g_def ..
  also have "\<dots> \<longleftrightarrow> Offerings io \<noteq> [] \<and> (\<exists>x \<in> set ios. io = g x)" by (auto split: if_splits)
  finally show ?thesis unfolding g_def .
qed

end

end
