(* ===== verification/Go_Cache.thy ===== *)
theory Go_Cache
  imports Prelude
begin

text \<open>
  The interface of the third-party expiring cache (patrickmn/go-cache) that the components keep
  their entries in. Its code is not part of the repository, so every component takes the cache
  operations as an argument, the record \<open>cache_api\<close>, and relies on the documented behaviour of
  the package stated by the locale \<open>go_cache\<close>: a value set with a positive duration is found
  until its expiry and not after it, \<open>Delete\<close> and \<open>Flush\<close> remove entries, \<open>Items\<close> lists the
  unexpired keys, the janitor removes expired entries only, and the \<open>OnEvicted\<close> callback runs
  once per entry removed by \<open>Delete\<close> or by the janitor (the second component of
  \<open>cache_delete\<close> and \<open>cache_expire\<close> counts those calls).

  \<open>exp_cache\<close> is an expiring association list with that behaviour; it discharges the laws and
  lets the definitions of the development be evaluated.
\<close>

record ('c, 'v) cache_api =
  cache_get :: "time \<Rightarrow> 'c \<Rightarrow> string \<Rightarrow> 'v option"
  cache_set :: "time \<Rightarrow> string \<Rightarrow> 'v \<Rightarrow> duration \<Rightarrow> 'c \<Rightarrow> 'c"
  cache_items :: "time \<Rightarrow> 'c \<Rightarrow> string list"
  cache_delete :: "string \<Rightarrow> 'c \<Rightarrow> 'c \<times> nat"
  cache_flush :: "'c \<Rightarrow> 'c"
  cache_expire :: "time \<Rightarrow> 'c \<Rightarrow> 'c \<times> nat"

text \<open>Deleting a list of keys one after the other, as the loops over \<open>Items\<close> do.\<close>

fun cache_delete_all :: "('c, 'v) cache_api \<Rightarrow> string list \<Rightarrow> 'c \<Rightarrow> 'c \<times> nat" where
  "cache_delete_all C [] c = (c, 0)"
| "cache_delete_all C (k # ks) c =
     (let (c1, n) = cache_delete C k c; (c2, m) = cache_delete_all C ks c1 in (c2, n + m))"

locale go_cache =
  fixes C :: "('c, 'v) cache_api"
  assumes get_set: "\<lbrakk>0 < d; now \<le> t\<rbrakk> \<Longrightarrow>
      cache_get C t (cache_set C now k v d c) k' =
        (if k' = k then (if t \<le> now + d then Some v else None) else cache_get C t c k')"
    and get_anti: "\<lbrakk>t \<le> t'; cache_get C t' c k = Some v\<rbrakk> \<Longrightarrow> cache_get C t c k = Some v"
    and items: "k \<in> set (cache_items C t c) \<longleftrightarrow> cache_get C t c k \<noteq> None"
    and get_delete: "cache_get C t (fst (cache_delete C k c)) k' =
        (if k' = k then None else cache_get C t c k')"
    and delete_evicts: "cache_get C t c k \<noteq> None \<Longrightarrow> snd (cache_delete C k c) = 1"
    and get_flush: "cache_get C t (cache_flush C c) k = None"
    and get_expire: "now \<le> t \<Longrightarrow> cache_get C t (fst (cache_expire C now c)) k = cache_get C t c k"
    and expire_evicts: "\<lbrakk>cache_get C t c k \<noteq> None; cache_get C now c k = None; t \<le> now\<rbrakk> \<Longrightarrow>
        0 < snd (cache_expire C now c)"
begin

lemma get_set_now: "0 < d \<Longrightarrow>
    cache_get C now (cache_set C now k v d c) k' = (if k' = k then Some v else cache_get C now c k')"
  by (simp add: get_set)

lemma get_set_other: "\<lbrakk>0 < d; now \<le> t; k' \<noteq> k\<rbrakk> \<Longrightarrow>
    cache_get C t (cache_set C now k v d c) k' = cache_get C t c k'"
  by (simp add: get_set)

lemma get_set_same: "\<lbrakk>0 < d; now \<le> t; t \<le> now + d\<rbrakk> \<Longrightarrow>
    cache_get C t (cache_set C now k v d c) k = Some v"
  by (simp add: get_set)

lemma get_delete_all:
  "cache_get C t (fst (cache_delete_all C ks c)) k' =
     (if k' \<in> set ks then None else cache_get C t c k')"
proof (induction ks arbitrary: c)
  case (Cons k ks)
  obtain c' m where d: "cache_delete C k c = (c', m)" by fastforce
  have "cache_get C t c' k' = (if k' = k then None else cache_get C t c k')"
    using get_delete [of t k c k'] d by simp
  with Cons d show ?case by (auto simp: case_prod_beta)
qed simp

lemma get_delete_matching:
  assumes "now \<le> t"
  shows "cache_get C t (fst (cache_delete_all C (filter P (cache_items C now c)) c)) k =
    (if P k then None else cache_get C t c k)"
proof -
  have "cache_get C now c k = None \<Longrightarrow> cache_get C t c k = None"
    using get_anti [OF assms] by (metis not_None_eq)
  then show ?thesis by (auto simp: get_delete_all items)
qed

lemma delete_all_evicts:
  assumes "k \<in> set ks" and "cache_get C t c k \<noteq> None"
  shows "0 < snd (cache_delete_all C ks c)"
  using assms
proof (induction ks arbitrary: c)
  case (Cons k' ks)
  obtain c' m where d: "cache_delete C k' c = (c', m)" by fastforce
  show ?case
  proof (cases "k' = k")
    case True
    with Cons.prems d delete_evicts [of t c k] have "m = 1" by simp
    with d show ?thesis by (simp add: case_prod_beta)
  next
    case False
    with d get_delete [of t k' c k] have "cache_get C t c' k = cache_get C t c k" by simp
    with False Cons have "0 < snd (cache_delete_all C ks c')" by simp
    with d show ?thesis by (simp add: case_prod_beta)
  qed
qed simp

end

subsection \<open>An expiring association list\<close>

type_synonym 'v exp_cache = "(string \<times> 'v \<times> time option) list"

definition ec_get :: "time \<Rightarrow> 'v exp_cache \<Rightarrow> string \<Rightarrow> 'v option" where
  "ec_get t c k =
     (case map_of c k of
        None \<Rightarrow> None
      | Some (v, e) \<Rightarrow> (case e of None \<Rightarrow> Some v | Some x \<Rightarrow> if t \<le> x then Some v else None))"

definition ec_set :: "time \<Rightarrow> string \<Rightarrow> 'v \<Rightarrow> duration \<Rightarrow> 'v exp_cache \<Rightarrow> 'v exp_cache" where
  "ec_set now k v d c = AList.update k (v, if 0 < d then Some (now + d) else None) c"

definition ec_live :: "time \<Rightarrow> 'v exp_cache \<Rightarrow> 'v exp_cache" where
  "ec_live t c = filter (\<lambda>(k, _). ec_get t c k \<noteq> None) c"

definition exp_cache :: "('v exp_cache, 'v) cache_api" where
  "exp_cache =
     \<lparr>cache_get = ec_get,
      cache_set = ec_set,
      cache_items = (\<lambda>t c. map fst (ec_live t c)),
      cache_delete = (\<lambda>k c. (AList.delete k c, if map_of c k = None then 0 else 1)),
      cache_flush = (\<lambda>_. []),
      cache_expire = (\<lambda>t c. (ec_live t c, length c - length (ec_live t c)))\<rparr>"

lemma exp_cache_simps [simp]:
  "cache_get exp_cache = ec_get"
  "cache_set exp_cache = ec_set"
  "cache_items exp_cache = (\<lambda>t c. map fst (ec_live t c))"
  "cache_delete exp_cache = (\<lambda>k c. (AList.delete k c, if map_of c k = None then 0 else 1))"
  "cache_flush exp_cache = (\<lambda>_. [])"
  "cache_expire exp_cache = (\<lambda>t c. (ec_live t c, length c - length (ec_live t c)))"
  by (simp_all add: exp_cache_def)

lemma map_of_filter_key: "map_of (filter (\<lambda>(k, _). P k) c) k = (if P k then map_of c k else None)"
  by (induction c) auto

lemma map_of_ec_live: "map_of (ec_live t c) k = (if ec_get t c k = None then None else map_of c k)"
  unfolding ec_live_def by (simp add: map_of_filter_key)

lemma ec_live_shorter:
  assumes "k \<in> fst ` set c" and "ec_get t c k = None"
  shows "length (ec_live t c) < length c"
proof -
  from assms obtain p where "p \<in> set c" "fst p = k" by auto
  with assms(2) show ?thesis
    unfolding ec_live_def by (auto simp: case_prod_beta intro!: length_filter_less)
qed

interpretation exp_cache: go_cache exp_cache
proof (unfold_locales, unfold exp_cache_simps, goal_cases)
  case (1 d now t k v c k')
  then show ?case by (simp add: ec_get_def ec_set_def update_conv')
next
  case (2 t t' c k v)
  then show ?case by (auto simp: ec_get_def split: option.splits if_splits)
next
  case (3 k t c)
  show ?case
    by (auto simp: ec_live_def ec_get_def image_iff split: option.splits dest: map_of_SomeD)
next
  case (4 t k c k')
  then show ?case by (simp add: ec_get_def delete_conv')
next
  case (5 t c k)
  then show ?case by (auto simp: ec_get_def split: option.splits)
next
  case (6 t c k)
  then show ?case by (simp add: ec_get_def)
next
  case (7 now t c k)
  then show ?case
    by (auto simp: ec_get_def map_of_ec_live split: option.splits if_splits)
next
  case (8 t c k now)
  from 8(1) have "k \<in> fst ` set c"
    by (force simp: ec_get_def split: option.splits dest: map_of_SomeD)
  with 8(2) show ?case by (simp add: ec_live_shorter)
qed

end
