(* ===== verification/Capacity_Recommendation.thy ===== *)
theory Capacity_Recommendation
  imports Go_Cache Karpenter_Core
begin

text \<open>
  The capacity recommendation provider (src/pkg/providers/capacityrecommendation). It asks the SKU
  mix placement API for placement choices, orders them, flattens them into recommendations and
  caches the result per request. The API's \<open>Post\<close> and the structure hash are arguments; the cache is
  the one of \<open>Go_Cache\<close>. \<open>GetRecommendations\<close> returns the cache it leaves and the requests it sent.
  The model is one caller: \<open>singleflight\<close> runs the function it is given once for callers that
  overlap. One call reads the clock once. Cloning is the identity on values.

  Shown here: the comparison of choices is a strict weak order, the order of their keys; every size,
  zone and capacity type of the response is recommended once, with its best score; a result is served
  from the cache for at least the default time; invalid requests never reach the API.
\<close>

definition defaultCacheTTL :: duration where
  "defaultCacheTTL = 45 * Second"

record rankingInput =
  VMSizes :: "string list"
  RZones :: "string list"
  RCapacityType :: string
  OSType :: string
  Count :: int32

record recommendation =
  VMSize :: string
  RecZone :: string
  RecCapacityType :: string
  RecScore :: int32
  RecID :: string
  RecCount :: int32

text \<open>
  The SDK types of the SKU mix placement API; pointers are options, the SDK's string enumerations
  are datatypes with the constants the code uses and one constructor for every other value.
\<close>

datatype placementPriority =
    SKUMixPlacementPriorityRegular | SKUMixPlacementPrioritySpot | OtherPriority string

datatype placementOSType =
    SKUMixPlacementOSTypeLinux | SKUMixPlacementOSTypeWindows | OtherOSType string

datatype placementCapacityType = SKUMixPlacementCapacityTypeVM

datatype placementStrategy = SKUMixPlacementAllocationStrategyPrioritized

record capacityLimit =
  LimitValue :: "int32 option"
  LimitName :: "string option"
  LimitPriority :: "placementPriority option"
  LimitReason :: "string option"
  LimitZone :: "string option"

record placementItem =
  ItemName :: "string option"
  ItemCapacity :: "int32 option"
  ItemPriority :: "placementPriority option"
  ItemZone :: "string option"

record deploymentChoice =
  Score :: "int32 option"
  SKUSplit :: "placementItem option list option"

record placementResponse =
  ResponseID :: "string option"
  PlacementChoices :: "deploymentChoice option list"
  ResponseLimits :: "capacityLimit option list"
  ValidUntil :: "time option"

record placementRequest =
  ReqZones :: "string list"
  ReqCapacity :: int32
  ReqCapacityType :: placementCapacityType
  ReqPriority :: placementPriority
  ReqStrategy :: placementStrategy
  ReqOSType :: placementOSType
  ReqVMSizes :: "(string \<times> int32) list"

record recommendationDetails =
  Recommendations :: "recommendation list"
  CapacityLimits :: "capacityLimit option list"

definition deref32 :: "int32 option \<Rightarrow> int32" where
  "deref32 p = (case p of None \<Rightarrow> 0 | Some n \<Rightarrow> n)"

definition derefStr :: "string option \<Rightarrow> string" where
  "derefStr p = (case p of None \<Rightarrow> [] | Some s \<Rightarrow> s)"

definition splitItems :: "deploymentChoice \<Rightarrow> placementItem option list" where
  "splitItems choice = (case SKUSplit choice of None \<Rightarrow> [] | Some items \<Rightarrow> items)"

subsection \<open>Requests\<close>

definition validateInput :: "rankingInput option \<Rightarrow> error option" where
  "validateInput input =
     (case input of
        None \<Rightarrow> Some ''input is nil''
      | Some inp \<Rightarrow>
          if VMSizes inp = [] then Some ''no VM sizes specified''
          else if sint (Count inp) \<le> 0 then Some (''count '' @ Itoa (sint (Count inp)) @ '' is outside the supported range'')
          else if RCapacityType inp \<noteq> CapacityTypeOnDemand \<and> RCapacityType inp \<noteq> CapacityTypeSpot
          then Some (''unsupported capacity type '' @ quoted (RCapacityType inp))
          else if OSType inp \<noteq> Linux \<and> OSType inp \<noteq> Windows
          then Some (''unsupported OS type '' @ quoted (OSType inp))
          else None)"

definition hex_digit :: "nat \<Rightarrow> char" where
  "hex_digit d = ''0123456789abcdef'' ! d"

text \<open>The format \<open>%016x\<close>.\<close>

definition hex16 :: "uint64 \<Rightarrow> string" where
  "hex16 w = map (\<lambda>i. hex_digit (unat w div 16 ^ i mod 16)) (rev [0..<16])"

definition cacheKey :: "(string \<Rightarrow> string \<Rightarrow> string list \<Rightarrow> string list \<Rightarrow> uint64 result) \<Rightarrow> rankingInput \<Rightarrow> string result" where
  "cacheKey hash input =
     (case hash (RCapacityType input) (OSType input) (VMSizes input) (sort (RZones input)) of
        Inl e \<Rightarrow> Inl e
      | Inr v \<Rightarrow> Inr (hex16 v))"

definition toSKUMixPlacementRequest :: "rankingInput \<Rightarrow> placementRequest" where
  "toSKUMixPlacementRequest input =
     \<lparr>ReqZones = RZones input,
      ReqCapacity = Count input,
      ReqCapacityType = SKUMixPlacementCapacityTypeVM,
      ReqPriority = (if RCapacityType input = CapacityTypeSpot then SKUMixPlacementPrioritySpot
                     else SKUMixPlacementPriorityRegular),
      ReqStrategy = SKUMixPlacementAllocationStrategyPrioritized,
      ReqOSType = (if OSType input = Linux then SKUMixPlacementOSTypeLinux
                   else if OSType input = Windows then SKUMixPlacementOSTypeWindows else OtherOSType []),
      ReqVMSizes = map (\<lambda>(rank, name). (name, of_nat rank)) (enumerate 0 (VMSizes input))\<rparr>"

subsection \<open>Ordering the choices\<close>

text \<open>Allocated capacity of a size, and the number of requested zones it is spread over.\<close>

definition skuStats :: "deploymentChoice \<Rightarrow> string \<Rightarrow> string list \<Rightarrow> int32 \<times> nat" where
  "skuStats choice vmSize requestedZones =
     (let items = filter (\<lambda>i. derefStr (ItemName i) = vmSize) (List.map_filter id (splitItems choice)) in
      (sum_list (map (\<lambda>i. deref32 (ItemCapacity i)) items),
       length (remdups (filter (\<lambda>z. z \<in> set requestedZones) (List.map_filter ItemZone items)))))"

definition requestedZoneCoverage :: "deploymentChoice \<Rightarrow> string list \<Rightarrow> nat" where
  "requestedZoneCoverage choice requestedZones =
     length (remdups (filter (\<lambda>z. z \<in> set requestedZones)
       (List.map_filter ItemZone (List.map_filter id (splitItems choice)))))"

fun betterBySizes :: "deploymentChoice \<Rightarrow> deploymentChoice \<Rightarrow> string list \<Rightarrow> string list \<Rightarrow> bool option" where
  "betterBySizes candidate current requestedZones [] = None"
| "betterBySizes candidate current requestedZones (vmSize # sizes) =
     (let (candidateCapacity, candidateZones) = skuStats candidate vmSize requestedZones;
          (currentCapacity, currentZones) = skuStats current vmSize requestedZones
      in if candidateCapacity \<noteq> currentCapacity then Some (sint candidateCapacity > sint currentCapacity)
         else if candidateZones \<noteq> currentZones then Some (candidateZones > currentZones)
         else betterBySizes candidate current requestedZones sizes)"

definition placementChoiceIsBetter :: "rankingInput \<Rightarrow> deploymentChoice \<Rightarrow> deploymentChoice \<Rightarrow> bool" where
  "placementChoiceIsBetter input candidate current =
     (let currentScore = deref32 (Score current); candidateScore = deref32 (Score candidate) in
      if candidateScore \<noteq> currentScore then sint candidateScore > sint currentScore
      else case betterBySizes candidate current (RZones input) (VMSizes input) of
        Some b \<Rightarrow> b
      | None \<Rightarrow> requestedZoneCoverage candidate (RZones input) > requestedZoneCoverage current (RZones input))"

definition sortedPlacementChoices :: "placementResponse \<Rightarrow> rankingInput \<Rightarrow> deploymentChoice list" where
  "sortedPlacementChoices response input =
     SliceStable (placementChoiceIsBetter input) (List.map_filter id (PlacementChoices response))"

subsection \<open>Recommendations\<close>

fun capacityTypeForPriority :: "placementPriority \<Rightarrow> string option" where
  "capacityTypeForPriority SKUMixPlacementPriorityRegular = Some CapacityTypeOnDemand"
| "capacityTypeForPriority SKUMixPlacementPrioritySpot = Some CapacityTypeSpot"
| "capacityTypeForPriority (OtherPriority p) = None"

fun priorityText :: "placementPriority \<Rightarrow> string" where
  "priorityText (OtherPriority p) = p"
| "priorityText _ = []"

definition recommendation_key :: "recommendation \<Rightarrow> string \<times> string \<times> string" where
  "recommendation_key r = (VMSize r, RecZone r, RecCapacityType r)"

definition recommendationFromSplit :: "string \<Rightarrow> deploymentChoice \<Rightarrow> placementItem option \<Rightarrow> recommendation result" where
  "recommendationFromSplit responseID choice split =
     (case split of
        None \<Rightarrow> Inl (''SKU Mix Placement response for ID: '' @ responseID @ '' contained an invalid SKU split'')
      | Some item \<Rightarrow>
          (case (ItemName item, ItemCapacity item, ItemPriority item) of
             (Some name, Some capacity, Some priority) \<Rightarrow>
               (case capacityTypeForPriority priority of
                  None \<Rightarrow> Inl (''SKU Mix Placement response contained unsupported priority '' @ quoted (priorityText priority))
                | Some capacityType \<Rightarrow>
                    Inr \<lparr>VMSize = name, RecZone = derefStr (ItemZone item), RecCapacityType = capacityType,
                         RecScore = deref32 (Score choice), RecID = responseID, RecCount = capacity\<rparr>)
           | _ \<Rightarrow> Inl (''SKU Mix Placement response for ID: '' @ responseID @ '' contained an invalid SKU split'')))"

text \<open>The inner and the outer loop; \<open>acc\<close> is the result so far, whose keys are the keys seen.\<close>

fun addSplits :: "string \<Rightarrow> deploymentChoice \<Rightarrow> placementItem option list \<Rightarrow> recommendation list
    \<Rightarrow> recommendation list result" where
  "addSplits responseID choice [] acc = Inr acc"
| "addSplits responseID choice (split # splits) acc =
     (case recommendationFromSplit responseID choice split of
        Inl e \<Rightarrow> Inl e
      | Inr r \<Rightarrow>
          if recommendation_key r \<in> set (map recommendation_key acc)
          then addSplits responseID choice splits acc
          else addSplits responseID choice splits (acc @ [r]))"

fun addChoices :: "string \<Rightarrow> deploymentChoice list \<Rightarrow> recommendation list \<Rightarrow> recommendation list result" where
  "addChoices responseID [] acc = Inr acc"
| "addChoices responseID (choice # choices) acc =
     (case (Score choice, SKUSplit choice) of
        (Some _, Some splits) \<Rightarrow>
          (case addSplits responseID choice splits acc of
             Inl e \<Rightarrow> Inl e
           | Inr acc' \<Rightarrow> addChoices responseID choices acc')
      | _ \<Rightarrow> Inl (''SKU Mix Placement response for ID: '' @ responseID @ '' contained an invalid placement choice''))"

definition recommendationsFromChoices :: "string \<Rightarrow> deploymentChoice list \<Rightarrow> recommendation list result" where
  "recommendationsFromChoices responseID choices =
     (case addChoices responseID choices [] of
        Inl e \<Rightarrow> Inl e
      | Inr [] \<Rightarrow> Inl ''SKU Mix Placement response contained no recommended VM sizes''
      | Inr result \<Rightarrow> Inr result)"

definition clonePointer :: "'a option \<Rightarrow> 'a option" where
  "clonePointer v = (case v of None \<Rightarrow> None | Some x \<Rightarrow> Some x)"

definition cloneRecommendationDetails :: "recommendationDetails \<Rightarrow> recommendationDetails" where
  "cloneRecommendationDetails d =
     \<lparr>Recommendations = Recommendations d,
      CapacityLimits = map (map_option (\<lambda>l.
        \<lparr>LimitValue = clonePointer (LimitValue l), LimitName = clonePointer (LimitName l),
         LimitPriority = clonePointer (LimitPriority l), LimitReason = clonePointer (LimitReason l),
         LimitZone = clonePointer (LimitZone l)\<rparr>)) (CapacityLimits d)\<rparr>"

subsection \<open>The provider\<close>

type_synonym post = "string \<Rightarrow> placementRequest \<Rightarrow> placementResponse result"
type_synonym structure_hash = "string \<Rightarrow> string \<Rightarrow> string list \<Rightarrow> string list \<Rightarrow> uint64 result"

definition getCached :: "('c, recommendationDetails) cache_api \<Rightarrow> time \<Rightarrow> 'c \<Rightarrow> string \<Rightarrow> recommendationDetails option" where
  "getCached C now cache key = map_option cloneRecommendationDetails (cache_get C now cache key)"

definition fetchAndCache :: "('c, recommendationDetails) cache_api \<Rightarrow> post \<Rightarrow> string \<Rightarrow> time \<Rightarrow> 'c \<Rightarrow> string
    \<Rightarrow> rankingInput \<Rightarrow> recommendationDetails result \<times> 'c" where
  "fetchAndCache C post location now cache key input =
     (case post location (toSKUMixPlacementRequest input) of
        Inl e \<Rightarrow> (Inl e, cache)
      | Inr response \<Rightarrow>
          let choices = sortedPlacementChoices response input in
          if choices = [] then (Inl ''SKU Mix Placement response contained no placement choices'', cache)
          else case recommendationsFromChoices (derefStr (ResponseID response)) choices of
            Inl e \<Rightarrow> (Inl e, cache)
          | Inr recs \<Rightarrow>
              let result = \<lparr>Recommendations = recs, CapacityLimits = ResponseLimits response\<rparr>;
                  validUntil = (case ValidUntil response of None \<Rightarrow> now + defaultCacheTTL | Some t \<Rightarrow> t);
                  ttl = validUntil - now;
                  ttl' = (if ttl < defaultCacheTTL then defaultCacheTTL else ttl)
              in (Inr (cloneRecommendationDetails result), cache_set C now key result ttl' cache))"

definition GetRecommendations :: "('c, recommendationDetails) cache_api \<Rightarrow> structure_hash \<Rightarrow> post \<Rightarrow> string
    \<Rightarrow> time \<Rightarrow> 'c \<Rightarrow> rankingInput option
    \<Rightarrow> recommendationDetails result \<times> 'c \<times> placementRequest list" where
  "GetRecommendations C hash post location now cache input =
     (case validateInput input of
        Some e \<Rightarrow> (Inl (''invalid SKU Mix Placement recommendation input: '' @ e), cache, [])
      | None \<Rightarrow>
          let inp = the input in
          (case cacheKey hash inp of
             Inl e \<Rightarrow> (Inl (''hashing SKU Mix Placement recommendation input: '' @ e), cache, [])
           | Inr key \<Rightarrow>
               (case getCached C now cache key of
                  Some cachedResult \<Rightarrow> (Inr cachedResult, cache, [])
                | None \<Rightarrow>
                    let (result, cache') = fetchAndCache C post location now cache key inp in
                    (map_sum id cloneRecommendationDetails result, cache', [toSKUMixPlacementRequest inp]))))"

subsection \<open>The order of the choices\<close>

text \<open>
  What the comparison compares: the score, then for each requested size in order the allocated
  capacity and the number of requested zones, then the requested zones covered; each larger first.
\<close>

definition choice_key :: "rankingInput \<Rightarrow> deploymentChoice \<Rightarrow> int \<times> (int \<times> int) list \<times> int" where
  "choice_key input c =
     (- sint (deref32 (Score c)),
      map (\<lambda>vm. (- sint (fst (skuStats c vm (RZones input))), - int (snd (skuStats c vm (RZones input))))) (VMSizes input),
      - int (requestedZoneCoverage c (RZones input)))"

lemma sint_int32_eq: "sint x = sint y \<longleftrightarrow> x = y" for x y :: int32
  by (auto intro: signed_word_eqI)

lemma betterBySizes_Some:
  "betterBySizes a b zs sizes = Some True \<longleftrightarrow>
     map (\<lambda>vm. (- sint (fst (skuStats a vm zs)), - int (snd (skuStats a vm zs)))) sizes <
     map (\<lambda>vm. (- sint (fst (skuStats b vm zs)), - int (snd (skuStats b vm zs)))) sizes"
  "betterBySizes a b zs sizes = None \<longleftrightarrow>
     map (\<lambda>vm. (- sint (fst (skuStats a vm zs)), - int (snd (skuStats a vm zs)))) sizes =
     map (\<lambda>vm. (- sint (fst (skuStats b vm zs)), - int (snd (skuStats b vm zs)))) sizes"
  by (induction sizes) (auto simp: Let_def case_prod_beta order_le_less sint_int32_eq)

interpretation choice_order: key_order "placementChoiceIsBetter input" "choice_key input" for input
proof
  fix a b
  have "placementChoiceIsBetter input a b \<longleftrightarrow>
      (if deref32 (Score a) \<noteq> deref32 (Score b) then sint (deref32 (Score b)) < sint (deref32 (Score a))
       else if betterBySizes a b (RZones input) (VMSizes input) = None
       then requestedZoneCoverage b (RZones input) < requestedZoneCoverage a (RZones input)
       else betterBySizes a b (RZones input) (VMSizes input) = Some True)"
    by (auto simp: placementChoiceIsBetter_def Let_def split: option.splits)
  also have "\<dots> \<longleftrightarrow> choice_key input a < choice_key input b"
    unfolding betterBySizes_Some choice_key_def less_pair by (simp add: sint_int32_eq)
  finally show "placementChoiceIsBetter input a b \<longleftrightarrow> choice_key input a < choice_key input b" .
qed

subsection \<open>Flattening keeps the first of each key\<close>

fun keep_first :: "recommendation list \<Rightarrow> recommendation list \<Rightarrow> recommendation list" where
  "keep_first acc [] = acc"
| "keep_first acc (r # rs) =
     (if recommendation_key r \<in> set (map recommendation_key acc) then keep_first acc rs
      else keep_first (acc @ [r]) rs)"

lemma addSplits_keep:
  "addSplits rid c splits acc = Inr out \<longleftrightarrow>
     (\<exists>rs. map (recommendationFromSplit rid c) splits = map Inr rs \<and> out = keep_first acc rs)"
proof (induction splits arbitrary: acc)
  case (Cons s splits)
  show ?case
  proof (cases "recommendationFromSplit rid c s")
    case (Inl e)
    then show ?thesis by (auto simp: map_eq_Cons_conv Cons_eq_map_conv)
  next
    case (Inr r)
    then show ?thesis by (auto simp: Cons map_eq_Cons_conv Cons_eq_map_conv)
  qed
qed auto

lemma keep_first_append: "keep_first acc (rs @ rs') = keep_first (keep_first acc rs) rs'"
  by (induction acc rs rule: keep_first.induct) auto

lemma addChoices_keep:
  "addChoices rid cs acc = Inr out \<Longrightarrow>
     \<exists>rss. list_all2 (\<lambda>c rs. Score c \<noteq> None \<and> SKUSplit c \<noteq> None \<and>
         map (recommendationFromSplit rid c) (splitItems c) = map Inr rs) cs rss \<and>
       out = keep_first acc (concat rss)"
proof (induction cs arbitrary: acc)
  case (Cons c cs)
  then obtain sc splits acc' where c: "Score c = Some sc" "SKUSplit c = Some splits"
      "addSplits rid c splits acc = Inr acc'" "addChoices rid cs acc' = Inr out"
    by (auto split: option.splits sum.splits)
  obtain rs where rs: "map (recommendationFromSplit rid c) splits = map Inr rs" "acc' = keep_first acc rs"
    using c(3) unfolding addSplits_keep by blast
  obtain rss where "list_all2 (\<lambda>c rs. Score c \<noteq> None \<and> SKUSplit c \<noteq> None \<and>
         map (recommendationFromSplit rid c) (splitItems c) = map Inr rs) cs rss" "out = keep_first acc' (concat rss)"
    using Cons.IH [OF c(4)] by blast
  with c rs show ?case
    by (intro exI [of _ "rs # rss"]) (simp add: keep_first_append splitItems_def)
qed simp

lemma keep_first_distinct:
  "distinct (map recommendation_key acc) \<Longrightarrow> distinct (map recommendation_key (keep_first acc rs))"
  by (induction acc rs rule: keep_first.induct) auto

lemma keep_first_mono: "set acc \<subseteq> set (keep_first acc rs)"
  by (induction acc rs rule: keep_first.induct) auto

lemma keep_first_subset: "set (keep_first acc rs) \<subseteq> set acc \<union> set rs"
  by (induction acc rs rule: keep_first.induct) auto

lemma keep_first_best:
  assumes "sorted_wrt (\<lambda>a b. sint (RecScore b) \<le> sint (RecScore a)) (acc @ rs)" and "r \<in> set rs"
  shows "\<exists>r' \<in> set (keep_first acc rs). recommendation_key r' = recommendation_key r \<and>
    sint (RecScore r) \<le> sint (RecScore r')"
  using assms
proof (induction acc rs rule: keep_first.induct)
  case (2 acc x rs)
  show ?case
  proof (cases "recommendation_key x \<in> set (map recommendation_key acc)")
    case True
    then obtain r' where r': "r' \<in> set acc" "recommendation_key r' = recommendation_key x" by auto
    with 2(3) have "sint (RecScore x) \<le> sint (RecScore r')" by (auto simp: sorted_wrt_append)
    moreover have "r' \<in> set (keep_first acc rs)" using keep_first_mono r'(1) by blast
    moreover have "sorted_wrt (\<lambda>a b. sint (RecScore b) \<le> sint (RecScore a)) (acc @ rs)"
      using 2(3) by (auto simp: sorted_wrt_append)
    ultimately show ?thesis using True 2(1,4) r'(2) by auto
  next
    case False
    have "x \<in> set (keep_first (acc @ [x]) rs)" using keep_first_mono [of "acc @ [x]" rs] by auto
    with False 2(2-4) show ?thesis by auto
  qed
qed simp

lemma recommendationFromSplit_score:
  "recommendationFromSplit rid c s = Inr r \<Longrightarrow> RecScore r = deref32 (Score c)"
  by (auto simp: recommendationFromSplit_def split: option.splits)

lemma concat_scores_sorted:
  assumes "list_all2 (\<lambda>c rs. map (recommendationFromSplit rid c) (splitItems c) = map Inr rs) cs rss"
    and "sorted_wrt (\<lambda>a b. sint (deref32 (Score b)) \<le> sint (deref32 (Score a))) cs"
  shows "sorted_wrt (\<lambda>a b. sint (RecScore b) \<le> sint (RecScore a)) (concat rss)"
  using assms
proof (induction rule: list_all2_induct)
  case (Cons c cs rs rss)
  have score: "RecScore r = deref32 (Score c')"
    if "map (recommendationFromSplit rid c') (splitItems c') = map Inr rs'" "r \<in> set rs'" for c' rs' r
  proof -
    from that have "Inr r \<in> set (map (recommendationFromSplit rid c') (splitItems c'))" by (metis image_eqI set_map)
    then show ?thesis using recommendationFromSplit_score [OF sym] by auto
  qed
  have "sint (RecScore b) \<le> sint (deref32 (Score c))" if "b \<in> set (concat rss)" for b
  proof -
    from that obtain rs' where "rs' \<in> set rss" "b \<in> set rs'" by auto
    with list_all2_in_right [OF Cons.hyps(2)] obtain c' where
        "c' \<in> set cs" "map (recommendationFromSplit rid c') (splitItems c') = map Inr rs'" by blast
    with score [of c' rs' b] \<open>b \<in> set rs'\<close> Cons.prems show ?thesis by auto
  qed
  moreover have "sorted_wrt (\<lambda>a b. sint (RecScore b) \<le> sint (RecScore a)) rs"
    using score [OF Cons.hyps(1)] by (auto simp: sorted_wrt_iff_nth_less)
  ultimately show ?case using Cons score [OF Cons.hyps(1)] by (auto simp: sorted_wrt_append)
qed simp

lemma sortedPlacementChoices_scores:
  "sorted_wrt (\<lambda>a b. sint (deref32 (Score b)) \<le> sint (deref32 (Score a))) (sortedPlacementChoices response input)"
proof -
  have "sorted (map (choice_key input) (sortedPlacementChoices response input))"
    unfolding sortedPlacementChoices_def by (rule choice_order.SliceStable_sorted)
  then show ?thesis
    unfolding sorted_map by (rule sorted_wrt_mono_rel [rotated]) (auto simp: choice_key_def)
qed

lemma clone_id [simp]: "cloneRecommendationDetails d = d"
proof -
  have "clonePointer v = v" for v :: "'a option" by (cases v) (simp_all add: clonePointer_def)
  then have "(\<lambda>l. \<lparr>LimitValue = clonePointer (LimitValue l), LimitName = clonePointer (LimitName l),
      LimitPriority = clonePointer (LimitPriority l), LimitReason = clonePointer (LimitReason l),
      LimitZone = clonePointer (LimitZone l)\<rparr>) = (\<lambda>l :: capacityLimit. l)"
    by (auto simp: clonePointer_def split: option.splits)
  moreover have "map_option (\<lambda>l. l) = (\<lambda>l :: capacityLimit option. l)" by (simp add: fun_eq_iff option.map_ident)
  ultimately show ?thesis by (simp add: cloneRecommendationDetails_def)
qed

lemma fetchAndCache_ttl:
  assumes "fetchAndCache C post location now cache key input = (Inr d, cache')"
  shows "\<exists>ttl \<ge> defaultCacheTTL. cache' = cache_set C now key d ttl cache"
proof -
  have at_least: "(if x < defaultCacheTTL then defaultCacheTTL else x) = max x defaultCacheTTL" for x
    by (simp add: max_def)
  obtain x where "cache' = cache_set C now key d (max x defaultCacheTTL) cache"
    using assms by (auto simp: fetchAndCache_def Let_def at_least split: sum.splits if_splits simp del: if_split)
  then show ?thesis by (intro exI [of _ "max x defaultCacheTTL"]) simp
qed

subsection \<open>Properties\<close>

text \<open>
  The recommendations made from a response list every combination of VM size, zone and capacity
  type once, and every combination that occurs in a placement choice of the response is listed with
  a score at least that of the choice: of several choices the best scored one wins.\<close>

theorem recommendations_keep_the_best_score:
  assumes "recommendationsFromChoices rid (sortedPlacementChoices response input) = Inr recs"
  shows "recs \<noteq> [] \<and> distinct (map recommendation_key recs) \<and>
    (\<forall>choice item. Some choice \<in> set (PlacementChoices response) \<and> item \<in> set (splitItems choice) \<longrightarrow>
      (\<exists>r. recommendationFromSplit rid choice item = Inr r \<and>
        (\<exists>r' \<in> set recs. recommendation_key r' = recommendation_key r \<and>
          sint (deref32 (Score choice)) \<le> sint (RecScore r'))))"
proof -
  let ?cs = "sortedPlacementChoices response input"
  have add: "addChoices rid ?cs [] = Inr recs" "recs \<noteq> []"
    using assms by (auto simp: recommendationsFromChoices_def split: sum.splits list.splits)
  obtain rss where rss: "list_all2 (\<lambda>c rs. Score c \<noteq> None \<and> SKUSplit c \<noteq> None \<and>
      map (recommendationFromSplit rid c) (splitItems c) = map Inr rs) ?cs rss" "recs = keep_first [] (concat rss)"
    using addChoices_keep [OF add(1)] by blast
  have splits: "list_all2 (\<lambda>c rs. map (recommendationFromSplit rid c) (splitItems c) = map Inr rs) ?cs rss"
    using rss(1) by (rule list_all2_mono) simp
  have sorted: "sorted_wrt (\<lambda>a b. sint (RecScore b) \<le> sint (RecScore a)) ([] @ concat rss)"
    using concat_scores_sorted [OF splits sortedPlacementChoices_scores] by simp
  have "\<exists>r. recommendationFromSplit rid choice item = Inr r \<and>
      (\<exists>r' \<in> set recs. recommendation_key r' = recommendation_key r \<and> sint (deref32 (Score choice)) \<le> sint (RecScore r'))"
    if "Some choice \<in> set (PlacementChoices response)" "item \<in> set (splitItems choice)" for choice item
  proof -
    have "choice \<in> set ?cs" using that(1) by (force simp: sortedPlacementChoices_def List.map_filter_def)
    then obtain rs where rs: "rs \<in> set rss" "map (recommendationFromSplit rid choice) (splitItems choice) = map Inr rs"
      using list_all2_in_left [OF splits] by blast
    from that(2) have "recommendationFromSplit rid choice item \<in> set (map Inr rs)"
      unfolding rs(2) [symmetric] by simp
    then obtain r where r: "recommendationFromSplit rid choice item = Inr r" "r \<in> set rs" by auto
    with rs(1) have "r \<in> set (concat rss)" by auto
    from keep_first_best [OF sorted this] recommendationFromSplit_score [OF r(1)] r(1) rss(2) show ?thesis by auto
  qed
  with add(2) keep_first_distinct [of "[]" "concat rss"] rss(2) show ?thesis by auto
qed

definition demo_item :: "string \<Rightarrow> string \<Rightarrow> placementItem option" where
  "demo_item name z = Some \<lparr>ItemName = Some name, ItemCapacity = Some 10,
     ItemPriority = Some SKUMixPlacementPriorityRegular, ItemZone = Some z\<rparr>"

definition demo_response :: placementResponse where
  "demo_response = \<lparr>ResponseID = Some ''r1'', PlacementChoices =
     [Some \<lparr>Score = Some 40, SKUSplit = Some [demo_item ''D4'' ''1'']\<rparr>, None,
      Some \<lparr>Score = Some 90, SKUSplit = Some [demo_item ''D4'' ''1'', demo_item ''D8'' ''2'']\<rparr>],
     ResponseLimits = [], ValidUntil = None\<rparr>"

definition demo_input :: rankingInput where
  "demo_input = \<lparr>VMSizes = [''D4'', ''D8''], RZones = [''2'', ''1''], RCapacityType = CapacityTypeOnDemand,
     OSType = Linux, Count = 10\<rparr>"

lemma demo_recommendations:
  "recommendationsFromChoices ''r1'' (sortedPlacementChoices demo_response demo_input) =
     Inr [\<lparr>VMSize = ''D4'', RecZone = ''1'', RecCapacityType = CapacityTypeOnDemand, RecScore = 90, RecID = ''r1'', RecCount = 10\<rparr>,
          \<lparr>VMSize = ''D8'', RecZone = ''2'', RecCapacityType = CapacityTypeOnDemand, RecScore = 90, RecID = ''r1'', RecCount = 10\<rparr>]"
  by (simp add: demo_response_def demo_input_def demo_item_def sortedPlacementChoices_def placementChoiceIsBetter_def
    List.map_filter_def deref32_def derefStr_def recommendationsFromChoices_def recommendationFromSplit_def
    recommendation_key_def)

theorem recommendations_keep_the_best_score_witness:
  "\<exists>r' \<in> set [\<lparr>VMSize = ''D4'', RecZone = ''1'', RecCapacityType = CapacityTypeOnDemand, RecScore = 90, RecID = ''r1'', RecCount = 10\<rparr>,
          \<lparr>VMSize = ''D8'', RecZone = ''2'', RecCapacityType = CapacityTypeOnDemand, RecScore = 90, RecID = ''r1'', RecCount = 10\<rparr>].
     recommendation_key r' = (''D4'', ''1'', CapacityTypeOnDemand) \<and> 40 \<le> sint (RecScore r')"
proof -
  let ?choice = "\<lparr>Score = Some 40, SKUSplit = Some [demo_item ''D4'' ''1'']\<rparr>"
  have "Some ?choice \<in> set (PlacementChoices demo_response)" "demo_item ''D4'' ''1'' \<in> set (splitItems ?choice)"
    by (simp_all add: demo_response_def splitItems_def)
  with recommendations_keep_the_best_score [OF demo_recommendations] obtain r r' where
      "recommendationFromSplit ''r1'' ?choice (demo_item ''D4'' ''1'') = Inr r"
      "r' \<in> set [\<lparr>VMSize = ''D4'', RecZone = ''1'', RecCapacityType = CapacityTypeOnDemand, RecScore = 90, RecID = ''r1'', RecCount = 10\<rparr>,
          \<lparr>VMSize = ''D8'', RecZone = ''2'', RecCapacityType = CapacityTypeOnDemand, RecScore = 90, RecID = ''r1'', RecCount = 10\<rparr>]"
      "recommendation_key r' = recommendation_key r" "sint (deref32 (Score ?choice)) \<le> sint (RecScore r')"
    by blast
  then show ?thesis
    by (intro bexI [of _ r']) (auto simp: recommendationFromSplit_def demo_item_def derefStr_def deref32_def recommendation_key_def)
qed

text \<open>
  Once a request was answered by the API, the same request is served from the cache without
  another API call for at least 45 seconds, also when it lists its zones in another order or asks for
  another count, whatever the API would answer now.\<close>

theorem recommendations_are_served_from_the_cache:
  assumes "go_cache C" and "GetRecommendations C hash post location now cache (Some input) = (Inr d, cache', reqs)"
    and "reqs \<noteq> []" and "now \<le> t" and "t \<le> now + 45 * Second"
    and "mset zones' = mset (RZones input)" and "0 < sint count'"
  shows "GetRecommendations C hash post' location t cache' (Some (input\<lparr>RZones := zones', Count := count'\<rparr>)) = (Inr d, cache', [])"
proof -
  have v: "validateInput (Some input) = None"
    using assms(2) by (auto simp: GetRecommendations_def split: option.splits)
  obtain key where key: "cacheKey hash input = Inr key"
    using assms(2) v by (auto simp: GetRecommendations_def split: sum.splits)
  have "getCached C now cache key = None"
    using assms(2,3) v key by (auto simp: GetRecommendations_def split: option.splits)
  moreover obtain r c where rc: "fetchAndCache C post location now cache key input = (r, c)" by fastforce
  ultimately have "map_sum id cloneRecommendationDetails r = Inr d" "c = cache'"
    using assms(2) v key by (simp_all add: GetRecommendations_def)
  then have "fetchAndCache C post location now cache key input = (Inr d, cache')" using rc by (cases r) simp_all
  then obtain ttl where "defaultCacheTTL \<le> ttl" "cache' = cache_set C now key d ttl cache"
    by (auto dest: fetchAndCache_ttl)
  then have hit: "cache_get C t cache' key = Some d"
    using assms(4,5) go_cache.get_set_same [OF assms(1)] by (simp add: defaultCacheTTL_def duration_defs)
  have "sort zones' = sort (RZones input)" using assms(6) by (metis properties_for_sort mset_sort sorted_sort)
  then have "cacheKey hash (input\<lparr>RZones := zones', Count := count'\<rparr>) = Inr key"
    using key by (simp add: cacheKey_def)
  moreover have "validateInput (Some (input\<lparr>RZones := zones', Count := count'\<rparr>)) = None"
    using v assms(7) by (auto simp: validateInput_def split: if_splits)
  ultimately show ?thesis using hit by (simp add: GetRecommendations_def getCached_def)
qed

theorem recommendations_are_served_from_the_cache_witness:
  "\<exists>d cache'. GetRecommendations exp_cache (\<lambda>_ _ _ _. Inr 7) (\<lambda>_ _. Inl ''API down'') ''eastus'' (30 * Second) cache'
     (Some (demo_input\<lparr>RZones := [''1'', ''2''], Count := 3\<rparr>)) = (Inr d, cache', [])"
proof -
  let ?g = "GetRecommendations exp_cache (\<lambda>_ _ _ _. Inr 7) (\<lambda>_ _. Inr demo_response) ''eastus'' 0 [] (Some demo_input)"
  have "derefStr (ResponseID demo_response) = ''r1''" by (simp add: demo_response_def derefStr_def)
  moreover have "sortedPlacementChoices demo_response demo_input \<noteq> []"
    using demo_recommendations by (auto simp: recommendationsFromChoices_def)
  moreover have "validateInput (Some demo_input) = None" by (simp add: demo_input_def validateInput_def)
  ultimately obtain d c reqs where g: "?g = (Inr d, c, reqs)" "reqs \<noteq> []"
    using demo_recommendations
    by (simp add: GetRecommendations_def cacheKey_def getCached_def ec_get_def fetchAndCache_def Let_def)
  have "GetRecommendations exp_cache (\<lambda>_ _ _ _. Inr 7) (\<lambda>_ _. Inl ''API down'') ''eastus'' (30 * Second) c
     (Some (demo_input\<lparr>RZones := [''1'', ''2''], Count := 3\<rparr>)) = (Inr d, c, [])"
    by (rule recommendations_are_served_from_the_cache [OF exp_cache.go_cache_axioms g])
       (simp_all add: duration_defs demo_input_def)
  then show ?thesis by blast
qed

text \<open>
  A request that fails, for whatever reason, leaves the cache as it was; and a request that is
  invalid fails without a call of the API.\<close>

theorem failed_recommendations_are_not_cached:
  assumes "GetRecommendations C hash post location now cache input = (Inl e, cache', reqs)"
  shows "cache' = cache \<and> (validateInput input \<noteq> None \<longrightarrow> reqs = [])"
  using assms
  by (auto simp: GetRecommendations_def fetchAndCache_def Let_def case_prod_beta split: option.splits sum.splits if_splits)

theorem failed_recommendations_are_not_cached_witness:
  "snd (GetRecommendations exp_cache (\<lambda>_ _ _ _. Inr 7) (\<lambda>_ _. Inl ''API down'') ''eastus'' 0 [] (Some (demo_input\<lparr>VMSizes := []\<rparr>))) = ([], [])"
proof -
  obtain e c reqs where g: "GetRecommendations exp_cache (\<lambda>_ _ _ _. Inr 7) (\<lambda>_ _. Inl ''API down'') ''eastus'' 0 []
      (Some (demo_input\<lparr>VMSizes := []\<rparr>)) = (Inl e, c, reqs)"
    by (simp add: GetRecommendations_def validateInput_def)
  from failed_recommendations_are_not_cached [OF g] g show ?thesis by (simp add: validateInput_def)
qed

end
