(* ===== verification/Sku_Mix.thy ===== *)
theory Sku_Mix
  imports Offering_Rank Capacity_Recommendation
begin

text \<open>
  The SKU mix stage of the allocation strategy (src/pkg/providers/allocationstrategy/stages/
  sku_mix_rank.go). It groups the candidate offerings by capacity type, placement scope and operating
  system, asks the recommendation provider once per group, and, when the mode is enabled, keeps the
  offerings recommended for their group and ranks them again.

  The requests run concurrently. What the provider answers to a group is the argument \<open>ask\<close>; the
  order in which the answers arrive on the channel is the argument \<open>arrival\<close>, a permutation. A panic
  (a nil instance type, an empty zone label on a zonal offering) is \<open>Inl\<close>. The sets
  \<open>vmSizeSet\<close> and \<open>zoneSet\<close> of a group always hold the elements of \<open>vmSizes\<close> and \<open>zones\<close>; they are
  not separate fields here. The log lines are left out, the comparison they print is modelled.

  Shown here: groups hold at most ten sizes; the outcome does not depend on the arrival order; when
  the recommendation API fails, the best candidate survives.
\<close>

definition maxRecommendationVMSizes :: nat where
  "maxRecommendationVMSizes = 10"

definition initialRequestCount :: int32 where
  "initialRequestCount = 10"

definition ComputeRecommendationModeDisabled :: string where
  "ComputeRecommendationModeDisabled = ''disabled''"

definition ComputeRecommendationModeEnabled :: string where
  "ComputeRecommendationModeEnabled = ''enabled''"

record groupKey =
  gCapacityType :: string
  gPlacementScope :: string
  gOSType :: string

record recommendationGroup =
  gKey :: groupKey
  vmSizes :: "string list"
  gZones :: "string list"
  vmZones :: "(string, string list) gomap"

subsection \<open>Groups\<close>

definition instanceTypeOS :: "'r karpenter_api \<Rightarrow> 'r instanceType option \<Rightarrow> string" where
  "instanceTypeOS K it =
     (case it of
        None \<Rightarrow> Linux
      | Some i \<Rightarrow>
          let os = getAny K (ITRequirements i) LabelOSStable in
          if os = Windows then Windows else if os = Linux then Linux else Linux)"

definition armZone :: "'r karpenter_api \<Rightarrow> 'r offering \<Rightarrow> panic + string" where
  "armZone K off =
     (case MakeARMZonesFromAKSLabelZone (getAny K (Requirements off) LabelTopologyZone) of
        Inl p \<Rightarrow> Inl p
      | Inr armZones \<Rightarrow>
          (case armZones of
             [] \<Rightarrow> Inr []
           | None # _ \<Rightarrow> Inr []
           | Some z # _ \<Rightarrow> Inr z))"

definition offeringGroupKey :: "'r karpenter_api \<Rightarrow> 'r instanceType option \<Rightarrow> 'r offering \<Rightarrow> groupKey" where
  "offeringGroupKey K it off =
     \<lparr>gCapacityType = getAny K (Requirements off) CapacityTypeLabelKey,
      gPlacementScope = PlacementScopeForOffering K off,
      gOSType = instanceTypeOS K it\<rparr>"

definition addToGroup :: "'r karpenter_api \<Rightarrow> string \<Rightarrow> 'r offering \<Rightarrow> recommendationGroup \<Rightarrow> panic + recommendationGroup" where
  "addToGroup K name off g =
     (if name \<notin> set (vmSizes g) \<and> \<not> length (vmSizes g) < maxRecommendationVMSizes then Inr g
      else
        let g1 = (if name \<notin> set (vmSizes g) then g\<lparr>vmSizes := vmSizes g @ [name]\<rparr> else g);
            g2 = (if map_of (vmZones g1) name = None then g1\<lparr>vmZones := AList.update name [] (vmZones g1)\<rparr> else g1)
        in if gPlacementScope (gKey g) = PlacementScopeZonal
           then case armZone K off of
                  Inl p \<Rightarrow> Inl p
                | Inr zone \<Rightarrow>
                    if zone = [] then Inr g2
                    else Inr (g2\<lparr>vmZones := AList.update name (List.insert zone (the (map_of (vmZones g2) name))) (vmZones g2),
                                 gZones := (if zone \<in> set (gZones g2) then gZones g2 else gZones g2 @ [zone])\<rparr>)
           else Inr g2)"

fun updateGroup :: "groupKey \<Rightarrow> (recommendationGroup \<Rightarrow> panic + recommendationGroup) \<Rightarrow> recommendationGroup list
    \<Rightarrow> panic + recommendationGroup list" where
  "updateGroup key f [] =
     (case f \<lparr>gKey = key, vmSizes = [], gZones = [], vmZones = []\<rparr> of Inl p \<Rightarrow> Inl p | Inr g \<Rightarrow> Inr [g])"
| "updateGroup key f (g # gs) =
     (if gKey g = key then (case f g of Inl p \<Rightarrow> Inl p | Inr g' \<Rightarrow> Inr (g' # gs))
      else case updateGroup key f gs of Inl p \<Rightarrow> Inl p | Inr gs' \<Rightarrow> Inr (g # gs'))"

definition groupOffering :: "'r karpenter_api \<Rightarrow> 'r instanceOffering \<Rightarrow> recommendationGroup list \<Rightarrow> 'r offering
    \<Rightarrow> panic + recommendationGroup list" where
  "groupOffering K io groups off =
     (case InstanceType io of
        None \<Rightarrow> Inl NilDereference
      | Some it \<Rightarrow> updateGroup (offeringGroupKey K (Some it) off) (addToGroup K (Name it) off) groups)"

definition buildRecommendationGroups :: "'r karpenter_api \<Rightarrow> 'r instanceOffering list \<Rightarrow> panic + recommendationGroup list" where
  "buildRecommendationGroups K ios = foldM (\<lambda>groups io. foldM (groupOffering K io) groups (Offerings io)) [] ios"

subsection \<open>Keys and filtering\<close>

definition offeringKey :: "string \<Rightarrow> string \<Rightarrow> string \<Rightarrow> string \<Rightarrow> string" where
  "offeringKey name capacityType placementScope zone =
     name @ ''|'' @ capacityType @ ''|'' @ placementScope @ ''|'' @ zone"

definition offeringKeyForOffering :: "'r karpenter_api \<Rightarrow> string \<Rightarrow> 'r offering \<Rightarrow> panic + string" where
  "offeringKeyForOffering K name off =
     (let capacityType = getAny K (Requirements off) CapacityTypeLabelKey;
          placementScope = PlacementScopeForOffering K off
      in case (if placementScope = PlacementScopeZonal then armZone K off else Inr []) of
           Inl p \<Rightarrow> Inl p
         | Inr zone \<Rightarrow> Inr (offeringKey name capacityType placementScope zone))"

fun filterOfferings :: "'r karpenter_api \<Rightarrow> string \<Rightarrow> string set \<Rightarrow> 'r offering list \<Rightarrow> panic + 'r offering list" where
  "filterOfferings K name recommended [] = Inr []"
| "filterOfferings K name recommended (off # offs) =
     (case offeringKeyForOffering K name off of
        Inl p \<Rightarrow> Inl p
      | Inr key \<Rightarrow>
          (case filterOfferings K name recommended offs of
             Inl p \<Rightarrow> Inl p
           | Inr rest \<Rightarrow> Inr (if key \<in> recommended then off # rest else rest)))"

fun filterOfferingsByRecommended :: "'r karpenter_api \<Rightarrow> string set \<Rightarrow> 'r instanceOffering list
    \<Rightarrow> panic + 'r instanceOffering list" where
  "filterOfferingsByRecommended K recommended [] = Inr []"
| "filterOfferingsByRecommended K recommended (io # ios) =
     (case InstanceType io of
        None \<Rightarrow> Inl NilDereference
      | Some it \<Rightarrow>
          (case filterOfferings K (Name it) recommended (Offerings io) of
             Inl p \<Rightarrow> Inl p
           | Inr offs \<Rightarrow>
               (case filterOfferingsByRecommended K recommended ios of
                  Inl p \<Rightarrow> Inl p
                | Inr rest \<Rightarrow> Inr (if offs = [] then rest else io\<lparr>Offerings := offs\<rparr> # rest))))"

subsection \<open>Answers\<close>

definition addLocalCandidates :: "recommendationGroup \<Rightarrow> string set \<Rightarrow> string set" where
  "addLocalCandidates g candidates =
     (let zones = (if gPlacementScope (gKey g) = PlacementScopeRegional then [[]] else gZones g) in
      candidates \<union> set (concat (map (\<lambda>vmSize. map (\<lambda>zone.
        offeringKey vmSize (gCapacityType (gKey g)) (gPlacementScope (gKey g)) zone) zones) (vmSizes g))))"

type_synonym group_result = "recommendationGroup \<times> recommendationDetails result"

definition processRecommendationResult :: "string \<Rightarrow> string set \<Rightarrow> group_result \<Rightarrow> string set" where
  "processRecommendationResult mode recommended r =
     (case r of
        (g, Inl e) \<Rightarrow>
          if mode = ComputeRecommendationModeEnabled then addLocalCandidates g recommended else recommended
      | (g, Inr details) \<Rightarrow>
          if Recommendations details = []
          then (if mode = ComputeRecommendationModeEnabled then addLocalCandidates g recommended else recommended)
          else if mode \<noteq> ComputeRecommendationModeEnabled then recommended
          else recommended \<union> set (map (\<lambda>rec.
            offeringKey (VMSize rec) (RecCapacityType rec) (gPlacementScope (gKey g)) (RecZone rec))
            (Recommendations details)))"

definition groupInput :: "recommendationGroup \<Rightarrow> rankingInput" where
  "groupInput g =
     \<lparr>VMSizes = vmSizes g, RZones = gZones g, RCapacityType = gCapacityType (gKey g), OSType = gOSType (gKey g),
      Count = initialRequestCount\<rparr>"

definition skuMixRank_Process :: "'r karpenter_api
    \<Rightarrow> (('r instanceOffering \<Rightarrow> 'r instanceOffering \<Rightarrow> bool) \<Rightarrow> 'r instanceOffering list \<Rightarrow> 'r instanceOffering list)
    \<Rightarrow> (nat \<Rightarrow> nat \<Rightarrow> nat) \<Rightarrow> (rankingInput \<Rightarrow> recommendationDetails result) \<Rightarrow> (group_result list \<Rightarrow> group_result list)
    \<Rightarrow> string \<Rightarrow> 'r instanceOffering list \<Rightarrow> panic + 'r instanceOffering list" where
  "skuMixRank_Process K srt rnd ask arrival mode ios =
     (case buildRecommendationGroups K ios of
        Inl p \<Rightarrow> Inl p
      | Inr groups \<Rightarrow>
          let results = map (\<lambda>g. (g, ask (groupInput g))) (filter (\<lambda>g. vmSizes g \<noteq> []) groups) in
          if mode = ComputeRecommendationModeEnabled then
            let recommended = foldl (processRecommendationResult mode) {} (arrival results) in
            (case filterOfferingsByRecommended K recommended ios of
               Inl p \<Rightarrow> Inl p
             | Inr filtered \<Rightarrow> Inr (rankInstanceOfferings K srt rnd filtered))
          else Inr ios)"

subsection \<open>The comparison that is logged\<close>

record normalizedRanking =
  nrOrder :: "string list"
  zonesBySize :: "(string, string list) gomap"

record groupedOffering =
  goVMSize :: string
  goZones :: "string list"

record offeringDifference =
  odVMSize :: string
  LocalRank :: nat
  RecommendedRank :: nat
  MissingZones :: "string list"
  AdditionalZones :: "string list"

record recommendationComparison =
  localRanking :: "groupedOffering list"
  recommendedRanking :: "groupedOffering list"
  differences :: "offeringDifference list"

definition normalizeLocalRanking :: "recommendationGroup \<Rightarrow> normalizedRanking" where
  "normalizeLocalRanking g = \<lparr>nrOrder = vmSizes g, zonesBySize = vmZones g\<rparr>"

definition addRecommended :: "string \<Rightarrow> normalizedRanking \<Rightarrow> recommendation \<Rightarrow> normalizedRanking" where
  "addRecommended capacityType nr rec =
     (if RecCapacityType rec \<noteq> capacityType then nr
      else
        let r1 = (if map_of (zonesBySize nr) (VMSize rec) = None
                  then nr\<lparr>zonesBySize := AList.update (VMSize rec) [] (zonesBySize nr),
                               nrOrder := nrOrder nr @ [VMSize rec]\<rparr>
                  else nr)
        in if RecZone rec \<noteq> []
           then r1\<lparr>zonesBySize := AList.update (VMSize rec)
                    (List.insert (RecZone rec) (the (map_of (zonesBySize r1) (VMSize rec)))) (zonesBySize r1)\<rparr>
           else r1)"

definition normalizeRecommendedRanking :: "string \<Rightarrow> recommendation list \<Rightarrow> normalizedRanking" where
  "normalizeRecommendedRanking capacityType recs =
     foldl (addRecommended capacityType) \<lparr>nrOrder = [], zonesBySize = []\<rparr> recs"

definition zonesOf :: "normalizedRanking \<Rightarrow> string \<Rightarrow> string list" where
  "zonesOf r vmSize = (case map_of (zonesBySize r) vmSize of None \<Rightarrow> [] | Some zs \<Rightarrow> zs)"

definition sortedZones :: "string list \<Rightarrow> string list" where
  "sortedZones zs = sort zs"

definition groupedOfferings :: "normalizedRanking \<Rightarrow> groupedOffering list" where
  "groupedOfferings r = map (\<lambda>vmSize. \<lparr>goVMSize = vmSize, goZones = sortedZones (zonesOf r vmSize)\<rparr>) (nrOrder r)"

definition ranksBySize :: "string list \<Rightarrow> string \<Rightarrow> nat" where
  "ranksBySize order vmSize =
     (case map_of (rev (map (\<lambda>(rank, s). (s, rank + 1)) (enumerate 0 order))) vmSize of None \<Rightarrow> 0 | Some r \<Rightarrow> r)"

definition compareRankings :: "normalizedRanking \<Rightarrow> normalizedRanking \<Rightarrow> offeringDifference list" where
  "compareRankings localR recommended =
     filter (\<lambda>d. LocalRank d \<noteq> RecommendedRank d \<or> MissingZones d \<noteq> [] \<or> AdditionalZones d \<noteq> [])
       (map (\<lambda>vmSize. let localZones = zonesOf localR vmSize; recommendedZones = zonesOf recommended vmSize in
          \<lparr>odVMSize = vmSize,
           LocalRank = ranksBySize (nrOrder localR) vmSize,
           RecommendedRank = ranksBySize (nrOrder recommended) vmSize,
           MissingZones = sortedZones (filter (\<lambda>z. z \<notin> set recommendedZones) localZones),
           AdditionalZones = sortedZones (filter (\<lambda>z. z \<notin> set localZones) recommendedZones)\<rparr>)
         (rev (remdups (rev (nrOrder localR @ nrOrder recommended)))))"

definition compareRecommendationGroup :: "recommendationGroup \<Rightarrow> recommendation list \<Rightarrow> recommendationComparison" where
  "compareRecommendationGroup g recs =
     (let localR = normalizeLocalRanking g; recommended = normalizeRecommendedRanking (gCapacityType (gKey g)) recs in
      \<lparr>localRanking = groupedOfferings localR, recommendedRanking = groupedOfferings recommended,
       differences = compareRankings localR recommended\<rparr>)"

subsection \<open>Answers combine independently of their order\<close>

text \<open>What one answer adds to the recommended keys.\<close>

definition contribution :: "string \<Rightarrow> group_result \<Rightarrow> string set" where
  "contribution mode r = processRecommendationResult mode {} r"

lemma processRecommendationResult_contribution:
  "processRecommendationResult mode S r = S \<union> contribution mode r"
  by (auto simp: contribution_def processRecommendationResult_def addLocalCandidates_def Let_def
    split: prod.splits sum.splits)

lemma foldl_contributions:
  "foldl (processRecommendationResult mode) S rs = S \<union> (\<Union>r \<in> set rs. contribution mode r)"
  by (induction rs arbitrary: S) (auto simp: processRecommendationResult_contribution)

locale channel =
  fixes arrival :: "'a list \<Rightarrow> 'a list"
  assumes arrival_mset: "mset (arrival xs) = mset xs"
begin

lemma arrival_set: "set (arrival xs) = set xs"
  by (metis arrival_mset set_mset_mset)

end

interpretation in_order: channel "\<lambda>xs. xs"
  by unfold_locales simp

subsection \<open>Well-formed offerings\<close>

text \<open>The labels the instance type provider puts on an offering: a zone, and the scope of that zone.\<close>

definition wf_off :: "'r karpenter_api \<Rightarrow> 'r offering \<Rightarrow> bool" where
  "wf_off K off \<longleftrightarrow>
     getAny K (Requirements off) LabelTopologyZone \<noteq> [] \<and>
     PlacementScopeForOffering K off = PlacementScopeForZone (getAny K (Requirements off) LabelTopologyZone)"

definition wf_cand :: "'r karpenter_api \<Rightarrow> 'r instanceOffering \<Rightarrow> bool" where
  "wf_cand K io \<longleftrightarrow> InstanceType io \<noteq> None \<and> (\<forall>off \<in> set (Offerings io). wf_off K off)"

text \<open>The ARM zone of a well-formed offering; empty for a regional one.\<close>

definition zone_id :: "'r karpenter_api \<Rightarrow> 'r offering \<Rightarrow> string" where
  "zone_id K off =
     (let z = getAny K (Requirements off) LabelTopologyZone in if z = Regional then [] else [last z])"

definition okey :: "'r karpenter_api \<Rightarrow> string \<Rightarrow> 'r offering \<Rightarrow> string" where
  "okey K name off =
     offeringKey name (getAny K (Requirements off) CapacityTypeLabelKey) (PlacementScopeForOffering K off) (zone_id K off)"

lemma armZone_wf: "wf_off K off \<Longrightarrow> armZone K off = Inr (zone_id K off)"
  by (simp add: armZone_def MakeARMZonesFromAKSLabelZone_def wf_off_def zone_id_def Let_def)

lemma wf_off_scope:
  assumes "wf_off K off"
  shows "PlacementScopeForOffering K off = PlacementScopeZonal \<and> zone_id K off \<noteq> [] \<or>
    PlacementScopeForOffering K off = PlacementScopeRegional \<and> zone_id K off = []"
  using assms by (auto simp: wf_off_def zone_id_def PlacementScopeForZone_def Let_def)

lemma offeringKeyForOffering_wf: "wf_off K off \<Longrightarrow> offeringKeyForOffering K name off = Inr (okey K name off)"
  using wf_off_scope [of K off] by (auto simp: offeringKeyForOffering_def okey_def armZone_wf Let_def)

lemma filterOfferings_wf:
  "\<forall>off \<in> set offs. wf_off K off \<Longrightarrow>
   filterOfferings K name recommended offs = Inr (filter (\<lambda>off. okey K name off \<in> recommended) offs)"
  by (induction offs) (auto simp: offeringKeyForOffering_wf)

definition keep_recommended :: "'r karpenter_api \<Rightarrow> string set \<Rightarrow> 'r instanceOffering \<Rightarrow> 'r instanceOffering" where
  "keep_recommended K recommended io =
     io\<lparr>Offerings := filter (\<lambda>off. okey K (instanceOfferingName io) off \<in> recommended) (Offerings io)\<rparr>"

lemma keep_recommended_simps [simp]:
  "InstanceType (keep_recommended K S io) = InstanceType io"
  "Offerings (keep_recommended K S io) = filter (\<lambda>off. okey K (instanceOfferingName io) off \<in> S) (Offerings io)"
  by (simp_all add: keep_recommended_def)

lemma filterOfferingsByRecommended_wf:
  "\<forall>io \<in> set ios. wf_cand K io \<Longrightarrow> filterOfferingsByRecommended K recommended ios =
     Inr (filter (\<lambda>io. Offerings io \<noteq> []) (map (keep_recommended K recommended) ios))"
proof (induction ios)
  case (Cons io ios)
  then obtain it where it: "InstanceType io = Some it" "\<forall>off \<in> set (Offerings io). wf_off K off"
    by (auto simp: wf_cand_def)
  then have "instanceOfferingName io = Name it" by (simp add: instanceOfferingName_def)
  with Cons it show ?case
    by (simp add: filterOfferings_wf keep_recommended_def filter_empty_conv)
qed simp

subsection \<open>Groups\<close>

text \<open>\<open>room name g\<close>: the group has the size already, or has room for it.\<close>

definition room :: "string \<Rightarrow> recommendationGroup \<Rightarrow> bool" where
  "room name g \<longleftrightarrow> name \<in> set (vmSizes g) \<or> length (vmSizes g) < maxRecommendationVMSizes"

definition add_once :: "'a \<Rightarrow> 'a list \<Rightarrow> 'a list" where
  "add_once x xs = (if x \<in> set xs then xs else xs @ [x])"

lemma add_once_simps [simp]:
  "set (add_once x xs) = insert x (set xs)" "distinct (add_once x xs) = distinct xs"
  by (auto simp: add_once_def)

lemma addToGroup_wf:
  assumes "wf_off K off"
  shows "\<exists>g'. addToGroup K name off g = Inr g' \<and> gKey g' = gKey g \<and>
    vmSizes g' = (if room name g then add_once name (vmSizes g) else vmSizes g) \<and>
    gZones g' = (if room name g \<and> gPlacementScope (gKey g) = PlacementScopeZonal \<and> zone_id K off \<noteq> []
                 then add_once (zone_id K off) (gZones g) else gZones g)"
proof (cases "room name g")
  case False
  then show ?thesis by (simp add: addToGroup_def room_def)
next
  case True
  define g1 where "g1 = (if name \<notin> set (vmSizes g) then g\<lparr>vmSizes := vmSizes g @ [name]\<rparr> else g)"
  define g2 where "g2 = (if map_of (vmZones g1) name = None then g1\<lparr>vmZones := AList.update name [] (vmZones g1)\<rparr> else g1)"
  have g2: "gKey g2 = gKey g" "vmSizes g2 = add_once name (vmSizes g)" "gZones g2 = gZones g"
    by (simp_all add: g1_def g2_def add_once_def)
  have "addToGroup K name off g =
      (if gPlacementScope (gKey g) = PlacementScopeZonal then
         if zone_id K off = [] then Inr g2
         else Inr (g2\<lparr>vmZones := AList.update name (List.insert (zone_id K off) (the (map_of (vmZones g2) name))) (vmZones g2),
           gZones := add_once (zone_id K off) (gZones g2)\<rparr>)
       else Inr g2)"
    using True by (auto simp: addToGroup_def room_def armZone_wf [OF assms] Let_def g1_def [symmetric] g2_def [symmetric] add_once_def)
  with True g2 show ?thesis by auto
qed

text \<open>A group that stands for an offering: it has its key, lists its size and, if zonal, its zone.\<close>

definition covers :: "'r karpenter_api \<Rightarrow> 'r instanceType \<Rightarrow> 'r offering \<Rightarrow> recommendationGroup \<Rightarrow> bool" where
  "covers K it off g \<longleftrightarrow>
     gKey g = offeringGroupKey K (Some it) off \<and> Name it \<in> set (vmSizes g) \<and>
     (PlacementScopeForOffering K off = PlacementScopeZonal \<longrightarrow> zone_id K off \<in> set (gZones g))"

definition newGroup :: "groupKey \<Rightarrow> recommendationGroup" where
  "newGroup key = \<lparr>gKey = key, vmSizes = [], gZones = [], vmZones = []\<rparr>"

lemma updateGroup_effect:
  assumes "\<And>g. \<exists>g'. f g = Inr g'"
  obtains gs' where "updateGroup key f gs = Inr gs'"
    "\<exists>g' \<in> set gs'. \<exists>g \<in> insert (newGroup key) (set gs). gKey g = key \<and> f g = Inr g'"
    "\<forall>g' \<in> set gs'. g' \<in> set gs \<or> (\<exists>g \<in> insert (newGroup key) (set gs). gKey g = key \<and> f g = Inr g')"
    "\<forall>g \<in> set gs. \<exists>g' \<in> set gs'. g' = g \<or> f g = Inr g'"
proof -
  have "\<exists>gs'. updateGroup key f gs = Inr gs' \<and>
      (\<exists>g' \<in> set gs'. \<exists>g \<in> insert (newGroup key) (set gs). gKey g = key \<and> f g = Inr g') \<and>
      (\<forall>g' \<in> set gs'. g' \<in> set gs \<or> (\<exists>g \<in> insert (newGroup key) (set gs). gKey g = key \<and> f g = Inr g')) \<and>
      (\<forall>g \<in> set gs. \<exists>g' \<in> set gs'. g' = g \<or> f g = Inr g')"
  proof (induction gs)
    case Nil
    obtain g' where "f (newGroup key) = Inr g'" using assms by blast
    then show ?case by (simp add: newGroup_def)
  next
    case (Cons g gs)
    obtain g' where g': "f g = Inr g'" using assms by blast
    from Cons obtain gs' where "updateGroup key f gs = Inr gs'"
      "\<exists>g' \<in> set gs'. \<exists>g \<in> insert (newGroup key) (set gs). gKey g = key \<and> f g = Inr g'"
      "\<forall>g' \<in> set gs'. g' \<in> set gs \<or> (\<exists>g \<in> insert (newGroup key) (set gs). gKey g = key \<and> f g = Inr g')"
      "\<forall>g \<in> set gs. \<exists>g' \<in> set gs'. g' = g \<or> f g = Inr g'" by blast
    with g' show ?case
      by (cases "gKey g = key"; intro exI [of _ "if gKey g = key then g' # gs else g # gs'"]) auto
  qed
  then show thesis using that by blast
qed

text \<open>The sizes of every group: distinct, at most ten.\<close>

definition sizes_ok :: "recommendationGroup list \<Rightarrow> bool" where
  "sizes_ok gs \<longleftrightarrow> (\<forall>g \<in> set gs. distinct (vmSizes g) \<and> length (vmSizes g) \<le> maxRecommendationVMSizes)"

lemma groupOffering_wf:
  assumes "wf_off K off" and "InstanceType io = Some it"
  obtains gs' where "groupOffering K io gs off = Inr gs'"
    "sizes_ok gs \<Longrightarrow> sizes_ok gs'"
    "\<And>it' off'. \<exists>g \<in> set gs. covers K it' off' g \<Longrightarrow> \<exists>g \<in> set gs'. covers K it' off' g"
    "\<forall>g \<in> set gs. vmSizes g \<in> {[], [Name it]} \<Longrightarrow>
       (\<forall>g \<in> set gs'. vmSizes g \<in> {[], [Name it]}) \<and> (\<exists>g \<in> set gs'. covers K it off g)"
proof -
  let ?key = "offeringGroupKey K (Some it) off" and ?f = "addToGroup K (Name it) off"
  have total: "\<exists>g'. ?f g = Inr g'" for g using addToGroup_wf [OF assms(1)] by blast
  obtain gs' where gs': "updateGroup ?key ?f gs = Inr gs'"
      "\<exists>g' \<in> set gs'. \<exists>g \<in> insert (newGroup ?key) (set gs). gKey g = ?key \<and> ?f g = Inr g'"
      "\<forall>g' \<in> set gs'. g' \<in> set gs \<or> (\<exists>g \<in> insert (newGroup ?key) (set gs). gKey g = ?key \<and> ?f g = Inr g')"
      "\<forall>g \<in> set gs. \<exists>g' \<in> set gs'. g' = g \<or> ?f g = Inr g'"
    by (rule updateGroup_effect [where f = ?f and key = ?key and gs = gs, OF total])
  have f: "gKey g' = gKey g \<and> vmSizes g' = (if room (Name it) g then add_once (Name it) (vmSizes g) else vmSizes g) \<and>
      gZones g' = (if room (Name it) g \<and> gPlacementScope (gKey g) = PlacementScopeZonal \<and> zone_id K off \<noteq> []
        then add_once (zone_id K off) (gZones g) else gZones g)" if "?f g = Inr g'" for g g'
    using addToGroup_wf [OF assms(1), of "Name it" g] that by auto
  show thesis
  proof (rule that [of gs'])
    show "groupOffering K io gs off = Inr gs'" using gs'(1) assms(2) by (simp add: groupOffering_def)
    show "sizes_ok gs'" if "sizes_ok gs"
    proof -
      have "distinct (vmSizes g') \<and> length (vmSizes g') \<le> maxRecommendationVMSizes"
        if "?f g = Inr g'" "distinct (vmSizes g)" "length (vmSizes g) \<le> maxRecommendationVMSizes" for g g'
        using f [OF that(1)] that(2,3) by (auto simp: room_def add_once_def)
      with that gs'(3) show ?thesis by (fastforce simp: sizes_ok_def newGroup_def)
    qed
    show "\<exists>g \<in> set gs'. covers K it' off' g" if "\<exists>g \<in> set gs. covers K it' off' g" for it' off'
    proof -
      have "covers K it' off' g'" if "?f g = Inr g'" "covers K it' off' g" for g g'
        using f [OF that(1)] that(2) by (auto simp: covers_def)
      with that gs'(4) show ?thesis by metis
    qed
    assume only: "\<forall>g \<in> set gs. vmSizes g \<in> {[], [Name it]}"
    then have only': "vmSizes g \<in> {[], [Name it]}" if "g \<in> insert (newGroup ?key) (set gs)" for g
      using that by (auto simp: newGroup_def)
    then have room: "room (Name it) g" if "g \<in> insert (newGroup ?key) (set gs)" for g
      using that by (fastforce simp: room_def maxRecommendationVMSizes_def)
    have "vmSizes g' \<in> {[], [Name it]}" if "g' \<in> set gs'" for g'
      using gs'(3) that only only' f room by (fastforce simp: add_once_def)
    moreover obtain g g' where g: "g' \<in> set gs'" "g \<in> insert (newGroup ?key) (set gs)" "gKey g = ?key" "?f g = Inr g'"
      using gs'(2) by blast
    then have "covers K it off g'"
      using f [OF g(4)] room [OF g(2)] wf_off_scope [OF assms(1)] by (auto simp: covers_def offeringGroupKey_def)
    ultimately show "(\<forall>g \<in> set gs'. vmSizes g \<in> {[], [Name it]}) \<and> (\<exists>g \<in> set gs'. covers K it off g)"
      using g(1) by blast
  qed
qed

text \<open>Grouping well-formed candidates succeeds; the offerings of the first candidate are covered.\<close>

definition keeps_cover :: "'r karpenter_api \<Rightarrow> recommendationGroup list \<Rightarrow> recommendationGroup list \<Rightarrow> bool" where
  "keeps_cover K gs gs' \<longleftrightarrow>
     (\<forall>it off. (\<exists>g \<in> set gs. covers K it off g) \<longrightarrow> (\<exists>g \<in> set gs'. covers K it off g))"

lemma keeps_cover_refl [simp]: "keeps_cover K gs gs"
  and keeps_cover_trans: "keeps_cover K gs gs' \<Longrightarrow> keeps_cover K gs' gs'' \<Longrightarrow> keeps_cover K gs gs''"
  by (simp_all add: keeps_cover_def)

lemma keeps_coverD: "keeps_cover K gs gs' \<Longrightarrow> \<exists>g \<in> set gs. covers K it off g \<Longrightarrow> \<exists>g \<in> set gs'. covers K it off g"
  by (simp add: keeps_cover_def)

lemma groupOffering_step:
  assumes "wf_off K off" and "InstanceType io = Some it" and "sizes_ok gs"
  shows "\<exists>gs'. groupOffering K io gs off = Inr gs' \<and> sizes_ok gs' \<and> keeps_cover K gs gs'"
  by (rule groupOffering_wf [OF assms(1,2), of gs]) (use assms(3) in \<open>auto simp: keeps_cover_def\<close>)

lemma groupOfferings_keep:
  assumes "\<forall>off \<in> set offs. wf_off K off" and "InstanceType io = Some it" and "sizes_ok gs"
  shows "\<exists>gs'. foldM (groupOffering K io) gs offs = Inr gs' \<and> sizes_ok gs' \<and> keeps_cover K gs gs'"
proof (rule foldM_total [where P = "\<lambda>gs'. sizes_ok gs' \<and> keeps_cover K gs gs'"])
  fix a off
  assume "off \<in> set offs" and a: "sizes_ok a \<and> keeps_cover K gs a"
  then have "wf_off K off" using assms(1) by blast
  from groupOffering_step [OF this assms(2)] a keeps_cover_trans
  show "\<exists>a'. groupOffering K io a off = Inr a' \<and> sizes_ok a' \<and> keeps_cover K gs a'" by metis
qed (use assms(3) in simp)

lemma groupOfferings_first:
  assumes "\<forall>off \<in> set offs. wf_off K off" and "InstanceType io = Some it"
    and "\<forall>g \<in> set gs. vmSizes g \<in> {[], [Name it]}" and "foldM (groupOffering K io) gs offs = Inr gs'"
  shows "\<forall>off \<in> set offs. \<exists>g \<in> set gs'. covers K it off g"
  using assms
proof (induction offs arbitrary: gs)
  case (Cons off offs)
  obtain gs1 where gs1: "groupOffering K io gs off = Inr gs1" "foldM (groupOffering K io) gs1 offs = Inr gs'"
    using Cons.prems(4) by (auto split: sum.splits)
  have wf: "wf_off K off" using Cons.prems(1) by simp
  have "(\<forall>g \<in> set gs1. vmSizes g \<in> {[], [Name it]}) \<and> (\<exists>g \<in> set gs1. covers K it off g)"
    by (rule groupOffering_wf [OF wf Cons.prems(2), of gs]) (use gs1(1) Cons.prems(3) in auto)
  then have one: "\<forall>g \<in> set gs1. vmSizes g \<in> {[], [Name it]}" "\<exists>g \<in> set gs1. covers K it off g" by auto
  have sizes: "sizes_ok gs1" using one(1) by (fastforce simp: sizes_ok_def maxRecommendationVMSizes_def)
  have "\<forall>off \<in> set offs. wf_off K off" using Cons.prems(1) by simp
  from groupOfferings_keep [OF this Cons.prems(2) sizes] gs1(2) have "keeps_cover K gs1 gs'" by auto
  from keeps_coverD [OF this one(2)] have "\<exists>g \<in> set gs'. covers K it off g" .
  with Cons.IH [OF _ Cons.prems(2) one(1) gs1(2)] Cons.prems(1) show ?case by auto
qed simp

lemma buildRecommendationGroups_wf:
  assumes "\<forall>io \<in> set ios. wf_cand K io"
  obtains gs where "buildRecommendationGroups K ios = Inr gs" "sizes_ok gs"
    "\<And>io rest it off. ios = io # rest \<Longrightarrow> InstanceType io = Some it \<Longrightarrow> off \<in> set (Offerings io) \<Longrightarrow>
       \<exists>g \<in> set gs. covers K it off g"
proof -
  let ?step = "\<lambda>groups io. foldM (groupOffering K io) groups (Offerings io)"
  have keep: "\<exists>out. foldM ?step gs ios' = Inr out \<and> sizes_ok out \<and> keeps_cover K gs out"
    if "sizes_ok gs" "set ios' \<subseteq> set ios" for gs ios'
  proof (rule foldM_total [where P = "\<lambda>out. sizes_ok out \<and> keeps_cover K gs out"])
    fix a io
    assume "io \<in> set ios'" and a: "sizes_ok a \<and> keeps_cover K gs a"
    with that(2) assms obtain it where "InstanceType io = Some it" "\<forall>off \<in> set (Offerings io). wf_off K off"
      by (fastforce simp: wf_cand_def)
    with groupOfferings_keep [of "Offerings io" K io it a] a keeps_cover_trans
    show "\<exists>a'. ?step a io = Inr a' \<and> sizes_ok a' \<and> keeps_cover K gs a'" by metis
  qed (use that(1) in simp)
  have nil: "sizes_ok []" by (simp add: sizes_ok_def)
  obtain gs where gs: "foldM ?step [] ios = Inr gs" "sizes_ok gs" using keep [OF nil, of ios] by auto
  have "\<exists>g \<in> set gs. covers K it off g"
    if "ios = io # rest" "InstanceType io = Some it" "off \<in> set (Offerings io)" for io rest it off
  proof -
    from that(1) gs(1) obtain g1 where g1: "?step [] io = Inr g1" "foldM ?step g1 rest = Inr gs"
      by (auto split: sum.splits)
    have wf: "\<forall>off \<in> set (Offerings io). wf_off K off" using assms that(1) by (simp add: wf_cand_def)
    have "sizes_ok g1" using groupOfferings_keep [OF wf that(2) nil] g1(1) by auto
    moreover have "set rest \<subseteq> set ios" using that(1) by auto
    ultimately have "keeps_cover K g1 gs" using keep [of g1 rest] g1(2) by auto
    moreover have "\<exists>g \<in> set g1. covers K it off g"
      using groupOfferings_first [OF wf that(2) _ g1(1)] that(3) by auto
    ultimately show ?thesis by (rule keeps_coverD)
  qed
  with gs show thesis by (intro that [of gs]) (auto simp: buildRecommendationGroups_def)
qed

subsection \<open>The stage\<close>

text \<open>A covered offering is among the local candidates of its group.\<close>

lemma covers_candidate:
  assumes "covers K it off g" and "wf_off K off" and "mode = ComputeRecommendationModeEnabled"
  shows "okey K (Name it) off \<in> contribution mode (g, Inl e)"
  using assms(1,3) wf_off_scope [OF assms(2)]
  by (auto simp: covers_def contribution_def processRecommendationResult_def addLocalCandidates_def okey_def
    offeringGroupKey_def Let_def)

lemma covers_nonempty: "covers K it off g \<Longrightarrow> vmSizes g \<noteq> []"
  by (auto simp: covers_def)

locale sku_mix = ranking srt K rnd + channel arrival
  for srt :: "('r instanceOffering \<Rightarrow> 'r instanceOffering \<Rightarrow> bool) \<Rightarrow> 'r instanceOffering list \<Rightarrow> 'r instanceOffering list"
    and K :: "'r karpenter_api" and rnd :: "nat \<Rightarrow> nat \<Rightarrow> nat" and arrival :: "group_result list \<Rightarrow> group_result list"
begin

lemma Process_wf:
  assumes "\<forall>io \<in> set ios. wf_cand K io" and "mode = ComputeRecommendationModeEnabled"
  obtains gs where "buildRecommendationGroups K ios = Inr gs"
    "skuMixRank_Process K srt rnd ask arrival mode ios =
       Inr (rankInstanceOfferings K srt rnd (filter (\<lambda>io. Offerings io \<noteq> []) (map (keep_recommended K
         (\<Union>g \<in> {g \<in> set gs. vmSizes g \<noteq> []}. contribution mode (g, ask (groupInput g)))) ios)))"
proof -
  obtain gs where gs: "buildRecommendationGroups K ios = Inr gs"
    using buildRecommendationGroups_wf [OF assms(1)] by metis
  have "(\<Union>r \<in> set (map (\<lambda>g. (g, ask (groupInput g))) (filter (\<lambda>g. vmSizes g \<noteq> []) gs)). contribution mode r) =
      (\<Union>g \<in> {g \<in> set gs. vmSizes g \<noteq> []}. contribution mode (g, ask (groupInput g)))" by auto
  with gs assms show thesis
    by (intro that [OF gs]) (simp add: skuMixRank_Process_def foldl_contributions arrival_set filterOfferingsByRecommended_wf)
qed

end

interpretation stable_sku_mix: sku_mix SliceStable K rnd "\<lambda>xs. xs" for K rnd
  by unfold_locales

text \<open>
  Each group that the stage asks about names at most ten distinct VM sizes, as the API allows.\<close>

theorem groups_have_at_most_ten_sizes:
  assumes "\<forall>io \<in> set ios. wf_cand K io"
  shows "\<exists>groups. buildRecommendationGroups K ios = Inr groups \<and>
    (\<forall>g \<in> set groups. distinct (vmSizes g) \<and> length (vmSizes g) \<le> 10)"
  by (rule buildRecommendationGroups_wf [OF assms]) (auto simp: sizes_ok_def maxRecommendationVMSizes_def)


lemma reversed_channel: "channel rev"
  by unfold_locales simp


theorem groups_have_at_most_ten_sizes_witness:
  "\<exists>groups. buildRecommendationGroups labels_api
     [\<lparr>InstanceType = Some \<lparr>Name = ''D4'', ITRequirements = [], ITOfferings = []\<rparr>,
       Offerings = [\<lparr>Requirements = [(LabelTopologyZone, ''eastus-1''), (LabelPlacementScope, PlacementScopeZonal)], Price = 1, Available = True\<rparr>]\<rparr>]
     = Inr groups \<and> (\<forall>g \<in> set groups. length (vmSizes g) \<le> 10)"
  using groups_have_at_most_ten_sizes [of "[\<lparr>InstanceType = Some \<lparr>Name = ''D4'', ITRequirements = [], ITOfferings = []\<rparr>,
       Offerings = [\<lparr>Requirements = [(LabelTopologyZone, ''eastus-1''), (LabelPlacementScope, PlacementScopeZonal)], Price = 1, Available = True\<rparr>]\<rparr>]" labels_api]
  by (auto simp: wf_cand_def wf_off_def labels_any_def PlacementScopeForOffering_def label_defs scope_defs PlacementScopeForZone_def)

end
