(* ===== verification/Allocation.thy ===== *)
theory Allocation
  imports Sku_Mix
begin

text \<open>
  The allocation strategy (src/pkg/providers/allocationstrategy): from the instance types of a
  NodeClaim to one instance type and offering, through the filtering, ranking and SKU mix stages.

  Shown here: what is selected is available and compatible; without recommendations it is a best
  offering, one exists whenever any compatible offering is available, and a failing recommendation
  API changes neither.
\<close>

record 'r selection =
  SelInstanceType :: "'r instanceType"
  SelOffering :: "'r offering"

definition CapacityType :: "'r karpenter_api \<Rightarrow> 'r selection \<Rightarrow> string" where
  "CapacityType K s = getAny K (Requirements (SelOffering s)) CapacityTypeLabelKey"

definition Zone :: "'r karpenter_api \<Rightarrow> 'r selection \<Rightarrow> string" where
  "Zone K s = getAny K (Requirements (SelOffering s)) LabelTopologyZone"

definition PlacementScope :: "'r karpenter_api \<Rightarrow> 'r selection \<Rightarrow> string" where
  "PlacementScope K s = PlacementScopeForOffering K (SelOffering s)"

definition NewInstanceOfferings :: "'r instanceType option list \<Rightarrow> 'r instanceOffering list" where
  "NewInstanceOfferings its =
     map (\<lambda>it. case it of
        None \<Rightarrow> \<lparr>InstanceType = None, Offerings = []\<rparr>
      | Some i \<Rightarrow> \<lparr>InstanceType = Some i, Offerings = ITOfferings i\<rparr>) its"

text \<open>\<open>rnd1\<close> and \<open>rnd2\<close> are the draws of the ranking stage and of the SKU mix stage's ranking.\<close>

definition FilterInstanceOfferings :: "'r karpenter_api
    \<Rightarrow> (('r instanceOffering \<Rightarrow> 'r instanceOffering \<Rightarrow> bool) \<Rightarrow> 'r instanceOffering list \<Rightarrow> 'r instanceOffering list)
    \<Rightarrow> (nat \<Rightarrow> nat \<Rightarrow> nat) \<Rightarrow> (nat \<Rightarrow> nat \<Rightarrow> nat) \<Rightarrow> (rankingInput \<Rightarrow> recommendationDetails result)
    \<Rightarrow> (group_result list \<Rightarrow> group_result list) \<Rightarrow> string \<Rightarrow> 'r instanceOffering list \<Rightarrow> 'r
    \<Rightarrow> panic + 'r instanceOffering list" where
  "FilterInstanceOfferings K srt rnd1 rnd2 ask arrival mode ios requirements =
     (let ranked = defaultOfferingRank_Process K srt rnd1 (availabilityCompatibility_Process K requirements ios) in
      if mode \<noteq> ComputeRecommendationModeDisabled
      then skuMixRank_Process K srt rnd2 ask arrival mode ranked
      else Inr ranked)"

definition Allocate :: "'r karpenter_api
    \<Rightarrow> (('r instanceOffering \<Rightarrow> 'r instanceOffering \<Rightarrow> bool) \<Rightarrow> 'r instanceOffering list \<Rightarrow> 'r instanceOffering list)
    \<Rightarrow> (nat \<Rightarrow> nat \<Rightarrow> nat) \<Rightarrow> (nat \<Rightarrow> nat \<Rightarrow> nat) \<Rightarrow> (rankingInput \<Rightarrow> recommendationDetails result)
    \<Rightarrow> (group_result list \<Rightarrow> group_result list) \<Rightarrow> string \<Rightarrow> 'r instanceType option list \<Rightarrow> 'r
    \<Rightarrow> panic + 'r selection option" where
  "Allocate K srt rnd1 rnd2 ask arrival mode instanceTypes requirements =
     (case FilterInstanceOfferings K srt rnd1 rnd2 ask arrival mode (NewInstanceOfferings instanceTypes) requirements of
        Inl p \<Rightarrow> Inl p
      | Inr [] \<Rightarrow> Inr None
      | Inr (best # rest) \<Rightarrow>
          (case InstanceType best of
             None \<Rightarrow> Inr None
           | Some it \<Rightarrow>
               (case Offerings best of
                  [] \<Rightarrow> Inr None
                | off # offs \<Rightarrow> Inr (Some \<lparr>SelInstanceType = it, SelOffering = off\<rparr>))))"

subsection \<open>Eligible offerings\<close>

text \<open>The pairs a NodeClaim may be given: an offering of an instance type, available and compatible.\<close>

definition eligible_pairs :: "'r karpenter_api \<Rightarrow> 'r instanceType option list \<Rightarrow> 'r \<Rightarrow> ('r instanceType \<times> 'r offering) set" where
  "eligible_pairs K its reqs =
     {(it, off). Some it \<in> set its \<and> off \<in> set (ITOfferings it) \<and> Available off \<and> isCompatible K reqs (Requirements off)}"

definition cand_pairs :: "'r instanceOffering list \<Rightarrow> ('r instanceType \<times> 'r offering) set" where
  "cand_pairs ios = {(it, off). \<exists>io \<in> set ios. InstanceType io = Some it \<and> off \<in> set (Offerings io)}"

definition cands_ok :: "'r instanceOffering list \<Rightarrow> bool" where
  "cands_ok ios \<longleftrightarrow> (\<forall>io \<in> set ios. InstanceType io \<noteq> None \<and> Offerings io \<noteq> [])"

context karpenter_core
begin

lemma filter_stage:
  "cands_ok (availabilityCompatibility_Process K reqs (NewInstanceOfferings its))"
  "cand_pairs (availabilityCompatibility_Process K reqs (NewInstanceOfferings its)) = eligible_pairs K its reqs"
proof -
  have new: "io0 \<in> set (NewInstanceOfferings its) \<longleftrightarrow>
      (None \<in> set its \<and> io0 = \<lparr>InstanceType = None, Offerings = []\<rparr>) \<or>
      (\<exists>it. Some it \<in> set its \<and> io0 = \<lparr>InstanceType = Some it, Offerings = ITOfferings it\<rparr>)" for io0
    by (force simp: NewInstanceOfferings_def split: option.splits)
  have stage: "io \<in> set (availabilityCompatibility_Process K reqs (NewInstanceOfferings its)) \<longleftrightarrow>
      (\<exists>it. Some it \<in> set its \<and> Offerings io \<noteq> [] \<and> io = \<lparr>InstanceType = Some it, Offerings =
        filter (\<lambda>off. Available off \<and> isCompatible K reqs (Requirements off)) (ITOfferings it)\<rparr>)" for io
    unfolding availabilityCompatibility Bex_def new by auto
  show "cands_ok (availabilityCompatibility_Process K reqs (NewInstanceOfferings its))"
    unfolding cands_ok_def Ball_def stage by auto
  show "cand_pairs (availabilityCompatibility_Process K reqs (NewInstanceOfferings its)) = eligible_pairs K its reqs"
  proof (intro subset_antisym subrelI)
    fix it off
    assume "(it, off) \<in> cand_pairs (availabilityCompatibility_Process K reqs (NewInstanceOfferings its))"
    then show "(it, off) \<in> eligible_pairs K its reqs"
      unfolding cand_pairs_def eligible_pairs_def Bex_def stage by auto
  next
    fix it off
    assume el: "(it, off) \<in> eligible_pairs K its reqs"
    let ?io = "\<lparr>InstanceType = Some it, Offerings =
      filter (\<lambda>off. Available off \<and> isCompatible K reqs (Requirements off)) (ITOfferings it)\<rparr>"
    from el have "?io \<in> set (availabilityCompatibility_Process K reqs (NewInstanceOfferings its))"
      unfolding stage by (auto simp: eligible_pairs_def filter_empty_conv)
    with el show "(it, off) \<in> cand_pairs (availabilityCompatibility_Process K reqs (NewInstanceOfferings its))"
      unfolding cand_pairs_def by (auto simp: eligible_pairs_def intro!: bexI [of _ ?io])
  qed
qed

end

context ranking
begin

lemma ranked_member:
  "io \<in> set (rankInstanceOfferings K srt rnd ios) \<Longrightarrow>
     \<exists>io0 \<in> set ios. InstanceType io = InstanceType io0 \<and> set (Offerings io) = set (Offerings io0)"
  "io0 \<in> set ios \<Longrightarrow>
     \<exists>io \<in> set (rankInstanceOfferings K srt rnd ios). InstanceType io = InstanceType io0 \<and> set (Offerings io) = set (Offerings io0)"
  unfolding set_ranked using nth_mem by (fastforce, fastforce simp: in_set_conv_nth)

lemma rank_stage:
  "cands_ok ios \<Longrightarrow> cands_ok (rankInstanceOfferings K srt rnd ios)"
  "cand_pairs (rankInstanceOfferings K srt rnd ios) = cand_pairs ios"
proof -
  show "cands_ok (rankInstanceOfferings K srt rnd ios)" if "cands_ok ios"
    using that ranked_member(1) unfolding cands_ok_def by (metis set_empty)
  show "cand_pairs (rankInstanceOfferings K srt rnd ios) = cand_pairs ios"
    unfolding cand_pairs_def using ranked_member by (fastforce simp: set_eq_iff)
qed

lemma rank_Nil: "rankInstanceOfferings K srt rnd ios = [] \<longleftrightarrow> ios = []"
  using length_ranked [of ios] by (metis length_0_conv)

text \<open>The head of a ranked list of candidates is a best pair.\<close>

lemma rank_best:
  assumes "cands_ok ios" and "ios \<noteq> []"
  obtains best rest it off offs where "rankInstanceOfferings K srt rnd ios = best # rest"
    "InstanceType best = Some it" "Offerings best = off # offs" "(it, off) \<in> cand_pairs ios"
    "\<forall>(it', off') \<in> cand_pairs ios. offering_key K off \<le> offering_key K off'"
proof -
  obtain best rest where br: "rankInstanceOfferings K srt rnd ios = best # rest"
    using assms(2) rank_Nil by (cases "rankInstanceOfferings K srt rnd ios") auto
  have "\<forall>io \<in> set ios. Offerings io \<noteq> []" using assms(1) by (simp add: cands_ok_def)
  from ranked_head [OF br this] obtain io off offs where h: "io \<in> set ios" "InstanceType best = InstanceType io"
    "Offerings best = off # offs" "off \<in> set (Offerings io)"
    "\<forall>io' \<in> set ios. \<forall>x \<in> set (Offerings io'). offering_key K off \<le> offering_key K x" by blast
  moreover from h(1) assms(1) obtain it where "InstanceType io = Some it" by (fastforce simp: cands_ok_def)
  ultimately show thesis using br by (intro that [of best rest it off offs]) (auto simp: cand_pairs_def)
qed

end

text \<open>The strategy as its users rely on it: Karpenter core, sorting and the answer channel.\<close>

locale allocation = karpenter_core K + rank1: ranking srt K rnd1 + mix: sku_mix srt K rnd2 arrival
  for K :: "'r karpenter_api"
    and srt :: "('r instanceOffering \<Rightarrow> 'r instanceOffering \<Rightarrow> bool) \<Rightarrow> 'r instanceOffering list \<Rightarrow> 'r instanceOffering list"
    and rnd1 rnd2 :: "nat \<Rightarrow> nat \<Rightarrow> nat" and arrival :: "group_result list \<Rightarrow> group_result list"
begin

definition ranked_candidates where
  "ranked_candidates its reqs = rankInstanceOfferings K srt rnd1 (availabilityCompatibility_Process K reqs (NewInstanceOfferings its))"

lemma ranked_candidates:
  "cands_ok (ranked_candidates its reqs)" "cand_pairs (ranked_candidates its reqs) = eligible_pairs K its reqs"
  "ranked_candidates its reqs = [] \<longleftrightarrow> eligible_pairs K its reqs = {}"
proof -
  show ok: "cands_ok (ranked_candidates its reqs)" and pairs: "cand_pairs (ranked_candidates its reqs) = eligible_pairs K its reqs"
    unfolding ranked_candidates_def using rank1.rank_stage filter_stage by blast+
  show "ranked_candidates its reqs = [] \<longleftrightarrow> eligible_pairs K its reqs = {}"
    unfolding pairs [symmetric] using ok by (cases "ranked_candidates its reqs") (fastforce simp: cand_pairs_def cands_ok_def neq_Nil_conv)+
qed

lemma Allocate_candidates:
  "Allocate K srt rnd1 rnd2 ask arrival mode its reqs =
     (case (if mode \<noteq> ComputeRecommendationModeDisabled
            then skuMixRank_Process K srt rnd2 ask arrival mode (ranked_candidates its reqs)
            else Inr (ranked_candidates its reqs)) of
        Inl p \<Rightarrow> Inl p
      | Inr [] \<Rightarrow> Inr None
      | Inr (best # rest) \<Rightarrow>
          (case InstanceType best of
             None \<Rightarrow> Inr None
           | Some it \<Rightarrow>
               (case Offerings best of
                  [] \<Rightarrow> Inr None
                | off # offs \<Rightarrow> Inr (Some \<lparr>SelInstanceType = it, SelOffering = off\<rparr>))))"
  by (simp add: Allocate_def FilterInstanceOfferings_def defaultOfferingRank_Process_def ranked_candidates_def Let_def)

lemma ranked_candidates_wf:
  assumes "\<forall>(it, off) \<in> eligible_pairs K its reqs. wf_off K off"
  shows "\<forall>io \<in> set (ranked_candidates its reqs). wf_cand K io"
proof
  fix io
  assume io: "io \<in> set (ranked_candidates its reqs)"
  then obtain it where it: "InstanceType io = Some it" using ranked_candidates(1) by (fastforce simp: cands_ok_def)
  have "(it, off) \<in> eligible_pairs K its reqs" if "off \<in> set (Offerings io)" for off
    using io it that unfolding ranked_candidates(2) [symmetric] cand_pairs_def by blast
  with it assms show "wf_cand K io" by (auto simp: wf_cand_def)
qed

text \<open>\<open>selects P r\<close>: the result is a best pair of \<open>P\<close>, or none when \<open>P\<close> is empty.\<close>

definition selects where
  "selects P r \<longleftrightarrow> (if P = {} then r = Inr None
     else \<exists>sel. r = Inr (Some sel) \<and> (SelInstanceType sel, SelOffering sel) \<in> P \<and>
       (\<forall>(it, off) \<in> P. offering_key K (SelOffering sel) \<le> offering_key K off))"

lemma Allocate_unrecommended:
  assumes "mode \<noteq> ComputeRecommendationModeEnabled"
    and "mode = ComputeRecommendationModeDisabled \<or> (\<forall>(it, off) \<in> eligible_pairs K its reqs. wf_off K off)"
  shows "selects (eligible_pairs K its reqs) (Allocate K srt rnd1 rnd2 ask arrival mode its reqs)"
proof -
  have "skuMixRank_Process K srt rnd2 ask arrival mode (ranked_candidates its reqs) = Inr (ranked_candidates its reqs)"
    if "mode \<noteq> ComputeRecommendationModeDisabled"
  proof -
    have "\<forall>io \<in> set (ranked_candidates its reqs). wf_cand K io" using assms(2) that ranked_candidates_wf by blast
    then obtain gs where "buildRecommendationGroups K (ranked_candidates its reqs) = Inr gs"
      by (rule buildRecommendationGroups_wf)
    with assms(1) show ?thesis by (simp add: skuMixRank_Process_def Let_def)
  qed
  then have A: "Allocate K srt rnd1 rnd2 ask arrival mode its reqs = Allocate K srt rnd1 rnd2 ask arrival ComputeRecommendationModeDisabled its reqs"
    by (simp add: Allocate_candidates)
  show ?thesis
  proof (cases "eligible_pairs K its reqs = {}")
    case True
    then show ?thesis unfolding A using ranked_candidates(3) [of its reqs] by (simp add: selects_def Allocate_candidates)
  next
    case False
    let ?c = "availabilityCompatibility_Process K reqs (NewInstanceOfferings its)"
    have "?c \<noteq> []" using False filter_stage(2) [of reqs its] by (auto simp: cand_pairs_def)
    from rank1.rank_best [OF filter_stage(1) this] obtain best rest it off offs where b:
      "ranked_candidates its reqs = best # rest" "InstanceType best = Some it" "Offerings best = off # offs"
      "(it, off) \<in> eligible_pairs K its reqs"
      "\<forall>(it', off') \<in> eligible_pairs K its reqs. offering_key K off \<le> offering_key K off'"
      unfolding ranked_candidates_def filter_stage(2) by blast
    then show ?thesis unfolding A using False by (auto simp: selects_def Allocate_candidates)
  qed
qed

text \<open>In enabled mode the choice is a best one among the recommended pairs.\<close>

definition recommended_keys where
  "recommended_keys ask its reqs =
     (case buildRecommendationGroups K (ranked_candidates its reqs) of
        Inl p \<Rightarrow> {}
      | Inr gs \<Rightarrow> \<Union>g \<in> {g \<in> set gs. vmSizes g \<noteq> []}. contribution ComputeRecommendationModeEnabled (g, ask (groupInput g)))"

lemma Allocate_enabled:
  assumes "\<forall>(it, off) \<in> eligible_pairs K its reqs. wf_off K off"
  shows "selects {(it, off) \<in> eligible_pairs K its reqs. okey K (Name it) off \<in> recommended_keys ask its reqs}
    (Allocate K srt rnd1 rnd2 ask arrival ComputeRecommendationModeEnabled its reqs)"
proof -
  let ?C = "ranked_candidates its reqs" and ?R = "recommended_keys ask its reqs"
  let ?kept = "filter (\<lambda>io. Offerings io \<noteq> []) (map (keep_recommended K ?R) ?C)"
  have wf: "\<forall>io \<in> set ?C. wf_cand K io" using ranked_candidates_wf [OF assms] .
  obtain gs where "buildRecommendationGroups K ?C = Inr gs" and
      "skuMixRank_Process K srt rnd2 ask arrival ComputeRecommendationModeEnabled ?C =
       Inr (rankInstanceOfferings K srt rnd2 (filter (\<lambda>io. Offerings io \<noteq> []) (map (keep_recommended K
         (\<Union>g \<in> {g \<in> set gs. vmSizes g \<noteq> []}. contribution ComputeRecommendationModeEnabled (g, ask (groupInput g)))) ?C)))"
    by (rule mix.Process_wf [OF wf refl])
  then have P: "skuMixRank_Process K srt rnd2 ask arrival ComputeRecommendationModeEnabled ?C =
      Inr (rankInstanceOfferings K srt rnd2 ?kept)" by (simp add: recommended_keys_def)
  have "ComputeRecommendationModeEnabled \<noteq> ComputeRecommendationModeDisabled"
    by (simp add: ComputeRecommendationModeEnabled_def ComputeRecommendationModeDisabled_def)
  note A = Allocate_candidates [of ask ComputeRecommendationModeEnabled its reqs, unfolded P if_P [OF this]]
  have ok: "cands_ok ?kept" using ranked_candidates(1) [of its reqs] by (auto simp: cands_ok_def)
  have pairs: "cand_pairs ?kept = {(it, off) \<in> eligible_pairs K its reqs. okey K (Name it) off \<in> ?R}"
    unfolding ranked_candidates(2) [symmetric] cand_pairs_def
    by (auto simp: instanceOfferingName_def filter_empty_conv) (metis (mono_tags, lifting) option.case(2))
  show ?thesis
  proof (cases "?kept = []")
    case True
    then have "cand_pairs ?kept = {}" by (simp only: cand_pairs_def) simp
    with True A pairs mix.rank_Nil [of ?kept] show ?thesis by (simp add: selects_def)
  next
    case False
    from mix.rank_best [OF ok False] obtain best rest it off offs where b:
      "rankInstanceOfferings K srt rnd2 ?kept = best # rest" "InstanceType best = Some it" "Offerings best = off # offs"
      "(it, off) \<in> cand_pairs ?kept" "\<forall>(it', off') \<in> cand_pairs ?kept. offering_key K off \<le> offering_key K off'" by blast
    with A pairs show ?thesis by (auto simp: selects_def)
  qed
qed

lemma Allocate_api_failure:
  assumes "\<forall>(it, off) \<in> eligible_pairs K its reqs. wf_off K off" and "\<And>input. \<exists>e. ask input = Inl e"
  shows "selects (eligible_pairs K its reqs) (Allocate K srt rnd1 rnd2 ask arrival ComputeRecommendationModeEnabled its reqs)"
proof (cases "eligible_pairs K its reqs = {}")
  case True
  with Allocate_enabled [OF assms(1), of ask] show ?thesis by (simp add: selects_def)
next
  case False
  let ?R = "recommended_keys ask its reqs" and ?c = "availabilityCompatibility_Process K reqs (NewInstanceOfferings its)"
  have "?c \<noteq> []" using False filter_stage(2) [of reqs its] by (auto simp: cand_pairs_def)
  from rank1.rank_best [OF filter_stage(1) this] obtain best rest it off offs where b:
    "ranked_candidates its reqs = best # rest" "InstanceType best = Some it" "Offerings best = off # offs"
    "(it, off) \<in> eligible_pairs K its reqs"
    "\<forall>(it', off') \<in> eligible_pairs K its reqs. offering_key K off \<le> offering_key K off'"
    unfolding ranked_candidates_def filter_stage(2) by blast
  obtain gs where gs: "buildRecommendationGroups K (ranked_candidates its reqs) = Inr gs"
      "\<exists>g \<in> set gs. covers K it off g"
    by (rule buildRecommendationGroups_wf [OF ranked_candidates_wf [OF assms(1)]]) (use b(1-3) in auto)
  then obtain g where g: "g \<in> set gs" "covers K it off g" by blast
  obtain e where "ask (groupInput g) = Inl e" using assms(2) by blast
  moreover have "wf_off K off" using assms(1) b(4) by blast
  ultimately have "okey K (Name it) off \<in> ?R"
    using covers_candidate [OF g(2)] covers_nonempty [OF g(2)] g(1) gs(1) by (auto simp: recommended_keys_def)
  with b(4) have best: "(it, off) \<in> {(it, off) \<in> eligible_pairs K its reqs. okey K (Name it) off \<in> ?R}" by simp
  then have ne: "{(it, off) \<in> eligible_pairs K its reqs. okey K (Name it) off \<in> ?R} \<noteq> {}" by blast
  from Allocate_enabled [OF assms(1), of ask, unfolded selects_def if_not_P [OF ne]] obtain sel where sel:
    "Allocate K srt rnd1 rnd2 ask arrival ComputeRecommendationModeEnabled its reqs = Inr (Some sel)"
    "(SelInstanceType sel, SelOffering sel) \<in> eligible_pairs K its reqs"
    "\<forall>(it, off) \<in> {(it, off) \<in> eligible_pairs K its reqs. okey K (Name it) off \<in> ?R}. offering_key K (SelOffering sel) \<le> offering_key K off"
    by blast
  have "offering_key K (SelOffering sel) \<le> offering_key K off" using sel(3) best by blast
  with b(5) have "\<forall>(it', off') \<in> eligible_pairs K its reqs. offering_key K (SelOffering sel) \<le> offering_key K off'"
    by (auto intro: order_trans)
  with False sel show ?thesis by (auto simp: selects_def)
qed

end

interpretation demo_allocation: allocation labels_api SliceStable rnd1 rnd2 "\<lambda>xs. xs" for rnd1 rnd2
  by unfold_locales

lemma allocationI:
  "karpenter_core K \<Longrightarrow> slice_sort srt \<Longrightarrow> channel arrival \<Longrightarrow> allocation K srt arrival"
  by (simp add: allocation_def ranking_def sku_mix_def)

text \<open>
  C1: Without recommendations (the mode is disabled, or only logs them), Allocate selects an
  available offering compatible with the requirements that is cheapest, then spot before on-demand,
  then zonal before regional; it selects nothing only if no offering is available and compatible.\<close>

theorem Allocate_selects_a_best_offering:
  assumes "karpenter_core K" and "slice_sort srt" and "channel arrival"
    and "mode \<noteq> ComputeRecommendationModeEnabled"
    and "mode = ComputeRecommendationModeDisabled \<or> (\<forall>(it, off) \<in> eligible_pairs K its reqs. wf_off K off)"
  shows "if eligible_pairs K its reqs = {}
    then Allocate K srt rnd1 rnd2 ask arrival mode its reqs = Inr None
    else \<exists>sel. Allocate K srt rnd1 rnd2 ask arrival mode its reqs = Inr (Some sel) \<and>
      (SelInstanceType sel, SelOffering sel) \<in> eligible_pairs K its reqs \<and>
      (\<forall>(it, off) \<in> eligible_pairs K its reqs. offering_key K (SelOffering sel) \<le> offering_key K off)"
  using allocation.Allocate_unrecommended [OF allocationI [OF assms(1-3)] assms(4,5)]
  unfolding allocation.selects_def [OF allocationI [OF assms(1-3)]] .

definition demo_offering :: "string \<Rightarrow> string \<Rightarrow> rat \<Rightarrow> labels offering" where
  "demo_offering z ct p = \<lparr>Requirements = [(LabelTopologyZone, z), (CapacityTypeLabelKey, ct),
       (LabelPlacementScope, PlacementScopeForZone z)], Price = p, Available = True\<rparr>"

definition demo_type :: "labels instanceType" where
  "demo_type = \<lparr>Name = ''D4'', ITRequirements = [(LabelOSStable, Linux)], ITOfferings =
     [demo_offering ''eastus-1'' CapacityTypeOnDemand 3, demo_offering ''eastus-2'' CapacityTypeSpot 1]\<rparr>"

lemma demo_eligible: "(demo_type, demo_offering ''eastus-2'' CapacityTypeSpot 1) \<in> eligible_pairs labels_api [Some demo_type] []"
  by (simp add: eligible_pairs_def demo_type_def demo_offering_def labels_compatible_def)

theorem Allocate_selects_a_best_offering_witness:
  "\<exists>sel. Allocate labels_api SliceStable (\<lambda>_ _. 0) (\<lambda>_ _. 0) (\<lambda>_. Inl ''unused'') (\<lambda>xs. xs) ComputeRecommendationModeDisabled
      [None, Some demo_type] [] = Inr (Some sel)"
proof -
  have ne: "eligible_pairs labels_api [None, Some demo_type] [] \<noteq> {}"
    using demo_eligible by (auto simp: eligible_pairs_def)
  have "ComputeRecommendationModeDisabled \<noteq> ComputeRecommendationModeEnabled"
    by (simp add: ComputeRecommendationModeEnabled_def ComputeRecommendationModeDisabled_def)
  from Allocate_selects_a_best_offering [OF labels_api.karpenter_core_axioms stable.slice_sort_axioms in_order.channel_axioms this,
      where its = "[None, Some demo_type]" and reqs = "[]", unfolded if_not_P [OF ne]] show ?thesis by blast
qed

text \<open>
  With recommendations enabled and offerings labelled as the provider labels them, the selection
  is again available and compatible, and a failure of the recommendation API neither prevents nor
  worsens it: Allocate selects an offering whenever one is available and compatible, of least price,
  capacity type and scope rank.\<close>

theorem Allocate_survives_recommendation_failure:
  assumes "karpenter_core K" and "slice_sort srt" and "channel arrival"
    and "\<forall>(it, off) \<in> eligible_pairs K its reqs. wf_off K off"
    and "\<And>input. \<exists>e. ask input = Inl e"
  shows "if eligible_pairs K its reqs = {}
    then Allocate K srt rnd1 rnd2 ask arrival ComputeRecommendationModeEnabled its reqs = Inr None
    else \<exists>sel. Allocate K srt rnd1 rnd2 ask arrival ComputeRecommendationModeEnabled its reqs = Inr (Some sel) \<and>
      (SelInstanceType sel, SelOffering sel) \<in> eligible_pairs K its reqs \<and>
      (\<forall>(it, off) \<in> eligible_pairs K its reqs. offering_key K (SelOffering sel) \<le> offering_key K off)"
  using allocation.Allocate_api_failure [OF allocationI [OF assms(1-3)] assms(4,5)]
  unfolding allocation.selects_def [OF allocationI [OF assms(1-3)]] .

lemma demo_wf_off: "(it, off) \<in> eligible_pairs labels_api [Some demo_type] [] \<Longrightarrow> wf_off labels_api off"
  by (auto simp: eligible_pairs_def demo_type_def demo_offering_def wf_off_def labels_any_def PlacementScopeForOffering_def
    label_defs scope_defs PlacementScopeForZone_def)

theorem Allocate_survives_recommendation_failure_witness:
  "\<exists>sel. Allocate labels_api SliceStable (\<lambda>_ _. 0) (\<lambda>_ _. 0) (\<lambda>_. Inl ''API down'') (\<lambda>xs. xs) ComputeRecommendationModeEnabled
      [Some demo_type] [] = Inr (Some sel)"
proof -
  have ne: "eligible_pairs labels_api [Some demo_type] [] \<noteq> {}" using demo_eligible by blast
  have wf: "\<forall>(it, off) \<in> eligible_pairs labels_api [Some demo_type] []. wf_off labels_api off" using demo_wf_off by blast
  have down: "\<And>input :: rankingInput. \<exists>e. (\<lambda>_. Inl ''API down'' :: recommendationDetails result) input = Inl e" by simp
  from Allocate_survives_recommendation_failure [OF labels_api.karpenter_core_axioms stable.slice_sort_axioms
      in_order.channel_axioms wf down, unfolded if_not_P [OF ne]]
  show ?thesis by blast
qed

text \<open>
  C24: With recommendations enabled, whatever the API answers, the stages do not panic on offerings
  labelled as the provider labels them, and what is selected is available and compatible.\<close>

theorem Allocate_with_recommendations_is_sound:
  assumes "karpenter_core K" and "slice_sort srt" and "channel arrival"
    and "\<forall>(it, off) \<in> eligible_pairs K its reqs. wf_off K off"
  shows "\<exists>r. Allocate K srt rnd1 rnd2 ask arrival ComputeRecommendationModeEnabled its reqs = Inr r \<and>
    (\<forall>sel. r = Some sel \<longrightarrow> (SelInstanceType sel, SelOffering sel) \<in> eligible_pairs K its reqs)"
  using allocation.Allocate_enabled [OF allocationI [OF assms(1-3)] assms(4), where ask = ask and ?rnd1.0 = rnd1 and ?rnd2.0 = rnd2]
  unfolding allocation.selects_def [OF allocationI [OF assms(1-3)]] by (auto split: if_splits)

theorem Allocate_with_recommendations_is_sound_witness:
  "\<exists>r. Allocate labels_api SliceStable (\<lambda>_ _. 0) (\<lambda>_ _. 0) (\<lambda>_. Inr \<lparr>Recommendations = [], CapacityLimits = []\<rparr>) (\<lambda>xs. xs)
     ComputeRecommendationModeEnabled [Some demo_type] [] = Inr r"
proof -
  have wf: "\<forall>(it, off) \<in> eligible_pairs labels_api [Some demo_type] []. wf_off labels_api off" using demo_wf_off by blast
  from Allocate_with_recommendations_is_sound [OF labels_api.karpenter_core_axioms stable.slice_sort_axioms
      in_order.channel_axioms wf, where ask = "\<lambda>_. Inr \<lparr>Recommendations = [], CapacityLimits = []\<rparr>"] show ?thesis by blast
qed

end
