(* ===== verification/Batcher.thy ===== *)
theory Batcher
  imports Prelude
begin

text \<open>
  The request batcher (src/pkg/utils/batcher/batcher.go). Requests are grouped by a key that the
  caller computes; a background loop wakes up on a trigger channel with a buffer of one, waits until a
  batch is full or a timer fires, swaps out the pending batches and runs each one in a goroutine of
  its own. Each request has a channel of capacity one on which it is answered.

  The parts that hold the mutex are functions on \<open>batcher_state\<close>. \<open>batcher_step\<close> interleaves them: an
  enqueuer adds its request and signals the trigger in two separate steps, the loop is at one of the
  program points of \<open>loop_point\<close>, timers may fire whenever the loop waits, the context may be cancelled at any
  time, and a running batch may finish at any time. A request is identified by the number of its
  \<open>Enqueue\<close> call; \<open>sent id\<close> lists the responses sent on its channel. The executor is a parameter.
  Batch identifiers and log lines are left out.

  Shown here: a request is always in exactly one place, and is answered at most once; a wake-up is never
  lost; a batch holds requests of its key only; after the loop has drained, a request that is still
  accepted is never answered.
\<close>

record 'p batchedRequest =
  ReqID :: nat
  Key :: string
  Payload :: 'p

record 'p batch =
  BatchKey :: string
  Requests :: "'p batchedRequest list"

record 'v response =
  RespPayload :: "'v option"
  Err :: "error option"

record options =
  MaxBatchSize :: nat

type_synonym 'p determineBatchKey = "'p \<Rightarrow> string result"

text \<open>What one run of the executor does: the responses it sends in order, and the panic it ends in, if any.\<close>

type_synonym ('p, 'v) executeBatch = "'p batch \<Rightarrow> (nat \<times> 'v response) list \<times> string option"

datatype loop_point = Selecting | Checking | Waiting | Woken | Waited | Executing | Draining | Stopped

record ('p, 'v) batcher_state =
  pendingBatches :: "(string, 'p batch) gomap"
  trigger :: bool
  unsignalled :: nat
  enqueued :: nat
  running :: "'p batch list"
  sent :: "nat \<Rightarrow> 'v response list"
  cancelled :: bool
  point :: loop_point

definition New :: "('p, 'v) batcher_state" where
  "New = \<lparr>pendingBatches = [], trigger = False, unsignalled = 0, enqueued = 0, running = [], sent = (\<lambda>_. []),
     cancelled = False, point = Selecting\<rparr>"

subsection \<open>Operations\<close>

definition addRequest :: "(string, 'p batch) gomap \<Rightarrow> 'p batchedRequest \<Rightarrow> (string, 'p batch) gomap" where
  "addRequest batches req =
     (let batch = (case map_of batches (Key req) of
                     Some b \<Rightarrow> b
                   | None \<Rightarrow> \<lparr>BatchKey = Key req, Requests = []\<rparr>)
      in AList.update (Key req) (batch\<lparr>Requests := Requests batch @ [req]\<rparr>) batches)"

text \<open>The part of \<open>Enqueue\<close> under the mutex; it fails without an effect if there is no key.\<close>

definition Enqueue :: "'p determineBatchKey \<Rightarrow> 'p \<Rightarrow> ('p, 'v) batcher_state \<Rightarrow> nat result \<times> ('p, 'v) batcher_state" where
  "Enqueue dk payload s =
     (case dk payload of
        Inl e \<Rightarrow> (Inl (''failed to determine batch key: '' @ e), s)
      | Inr key \<Rightarrow>
          (Inr (enqueued s),
           s\<lparr>pendingBatches := addRequest (pendingBatches s) \<lparr>ReqID = enqueued s, Key = key, Payload = payload\<rparr>,
             enqueued := enqueued s + 1,
             unsignalled := unsignalled s + 1\<rparr>))"

text \<open>The non-blocking send on the trigger channel, which \<open>Enqueue\<close> does after the mutex.\<close>

definition signal :: "('p, 'v) batcher_state \<Rightarrow> ('p, 'v) batcher_state" where
  "signal s = s\<lparr>trigger := True, unsignalled := unsignalled s - 1\<rparr>"

definition anyBatchFull :: "options \<Rightarrow> ('p, 'v) batcher_state \<Rightarrow> bool" where
  "anyBatchFull opts s = list_ex (\<lambda>(k, b). length (Requests b) \<ge> MaxBatchSize opts) (pendingBatches s)"

definition swapBatches :: "('p, 'v) batcher_state \<Rightarrow> 'p batch list \<times> ('p, 'v) batcher_state" where
  "swapBatches s = (map snd (pendingBatches s), s\<lparr>pendingBatches := []\<rparr>)"

definition executeBatches :: "('p, 'v) batcher_state \<Rightarrow> ('p, 'v) batcher_state" where
  "executeBatches s = (let (batches, s') = swapBatches s in s'\<lparr>running := running s' @ batches\<rparr>)"

definition sendAll :: "(nat \<times> 'v response) list \<Rightarrow> (nat \<Rightarrow> 'v response list) \<Rightarrow> (nat \<Rightarrow> 'v response list)" where
  "sendAll rs m = foldl (\<lambda>m (i, r). m(i := m i @ [r])) m rs"

definition panicError :: "string \<Rightarrow> 'v response" where
  "panicError r = \<lparr>RespPayload = None, Err = Some (''batch execution panicked: '' @ r)\<rparr>"

text \<open>
  The goroutine of one batch. After a panic every request whose channel can take a response without
  blocking gets the panic error: the requests that have no response yet, and those whose response has
  already been received by their caller (\<open>received\<close>).
\<close>

definition runBatch :: "('p, 'v) executeBatch \<Rightarrow> (nat \<Rightarrow> bool) \<Rightarrow> 'p batch \<Rightarrow> (nat \<times> 'v response) list" where
  "runBatch execute received batch =
     (let (rs, p) = execute batch in
      case p of
        None \<Rightarrow> rs
      | Some r \<Rightarrow> rs @ map (\<lambda>req. (ReqID req, panicError r))
          (filter (\<lambda>req. ReqID req \<notin> fst ` set rs \<or> received (ReqID req)) (Requests batch)))"

definition shutdownResponse :: "'v response" where
  "shutdownResponse = \<lparr>RespPayload = None, Err = Some ''batcher shutting down''\<rparr>"

definition drain :: "('p, 'v) batcher_state \<Rightarrow> ('p, 'v) batcher_state" where
  "drain s =
     (let (batches, s') = swapBatches s in
      s'\<lparr>sent := sendAll (map (\<lambda>req. (ReqID req, shutdownResponse)) (concat (map Requests batches))) (sent s')\<rparr>)"

subsection \<open>Interleavings\<close>

inductive batcher_step :: "'p determineBatchKey \<Rightarrow> ('p, 'v) executeBatch \<Rightarrow> options
    \<Rightarrow> ('p, 'v) batcher_state \<Rightarrow> ('p, 'v) batcher_state \<Rightarrow> bool"
  for dk :: "'p determineBatchKey" and execute :: "('p, 'v) executeBatch" and opts :: options where
  enqueue: "batcher_step dk execute opts s (snd (Enqueue dk payload s))"
| signal: "0 < unsignalled s \<Longrightarrow> batcher_step dk execute opts s (signal s)"
| cancel: "batcher_step dk execute opts s (s\<lparr>cancelled := True\<rparr>)"
| select_done: "point s = Selecting \<Longrightarrow> cancelled s \<Longrightarrow> batcher_step dk execute opts s (s\<lparr>point := Draining\<rparr>)"
| select_trigger: "point s = Selecting \<Longrightarrow> trigger s \<Longrightarrow>
    batcher_step dk execute opts s (s\<lparr>trigger := False, point := Checking\<rparr>)"
| check_full: "point s = Checking \<Longrightarrow>
    batcher_step dk execute opts s (s\<lparr>point := (if anyBatchFull opts s then Waited else Waiting)\<rparr>)"
| wait_done: "point s = Waiting \<Longrightarrow> cancelled s \<Longrightarrow> batcher_step dk execute opts s (s\<lparr>point := Waited\<rparr>)"
| wait_trigger: "point s = Waiting \<Longrightarrow> trigger s \<Longrightarrow>
    batcher_step dk execute opts s (s\<lparr>trigger := False, point := Woken\<rparr>)"
| recheck_full: "point s = Woken \<Longrightarrow>
    batcher_step dk execute opts s (s\<lparr>point := (if anyBatchFull opts s then Waited else Waiting)\<rparr>)"
| timer: "point s = Waiting \<Longrightarrow> batcher_step dk execute opts s (s\<lparr>point := Waited\<rparr>)"
| waited: "point s = Waited \<Longrightarrow>
    batcher_step dk execute opts s (s\<lparr>point := (if cancelled s then Draining else Executing)\<rparr>)"
| execute: "point s = Executing \<Longrightarrow>
    batcher_step dk execute opts s ((executeBatches s)\<lparr>point := Selecting\<rparr>)"
| finish: "running s = bs @ batch # bs' \<Longrightarrow>
    batcher_step dk execute opts s (s\<lparr>running := bs @ bs', sent := sendAll (runBatch execute received batch) (sent s)\<rparr>)"
| drain: "point s = Draining \<Longrightarrow> batcher_step dk execute opts s ((drain s)\<lparr>point := Stopped\<rparr>)"

inductive batcher_reach :: "'p determineBatchKey \<Rightarrow> ('p, 'v) executeBatch \<Rightarrow> options \<Rightarrow> ('p, 'v) batcher_state \<Rightarrow> bool"
  for dk :: "'p determineBatchKey" and execute :: "('p, 'v) executeBatch" and opts :: options where
  new: "batcher_reach dk execute opts New"
| step: "batcher_reach dk execute opts s \<Longrightarrow> batcher_step dk execute opts s s' \<Longrightarrow> batcher_reach dk execute opts s'"

text \<open>
  What the batcher expects of an executor: it answers each request of the batch once, and if it
  panics it does so before it sends the first response.
\<close>

locale batch_executor =
  fixes execute :: "('p, 'v) executeBatch"
  assumes answers_all: "execute batch = (rs, None) \<Longrightarrow> mset (map fst rs) = mset (map ReqID (Requests batch))"
    and panics_first: "execute batch = (rs, Some r) \<Longrightarrow> rs = []"

subsection \<open>Where requests are\<close>

definition batch_ids :: "'p batch list \<Rightarrow> nat list" where
  "batch_ids bs = concat (map (\<lambda>b. map ReqID (Requests b)) bs)"

lemma batch_ids_simps [simp]:
  "batch_ids [] = []" "batch_ids (b # bs) = map ReqID (Requests b) @ batch_ids bs"
  "batch_ids (bs @ bs') = batch_ids bs @ batch_ids bs'"
  by (simp_all add: batch_ids_def)

text \<open>In how many places request \<open>i\<close> is: pending, running, answered.\<close>

definition places :: "('p, 'v) batcher_state \<Rightarrow> nat \<Rightarrow> nat" where
  "places s i = count (mset (batch_ids (map snd (pendingBatches s)))) i +
     count (mset (batch_ids (running s))) i + length (sent s i)"

lemma length_sendAll: "length (sendAll rs m i) = length (m i) + count (mset (map fst rs)) i"
  by (induction rs arbitrary: m) (auto simp: sendAll_def)

lemma sendAll_other: "i \<notin> fst ` set rs \<Longrightarrow> sendAll rs m i = m i"
  by (induction rs arbitrary: m) (auto simp: sendAll_def)

lemma batch_ids_update:
  assumes "distinct (map fst bs)"
  shows "mset (batch_ids (map snd (addRequest bs req))) = add_mset (ReqID req) (mset (batch_ids (map snd bs)))"
proof -
  have fresh: "mset (batch_ids (map snd (AList.update k b bs))) = mset (batch_ids (map snd bs)) + mset (map ReqID (Requests b))"
    if "map_of bs k = None" for k and b :: "'a batch"
    using that by (induction bs) (auto split: if_splits)
  have present: "mset (batch_ids (map snd (AList.update k (b\<lparr>Requests := Requests b @ [req]\<rparr>) bs))) =
      add_mset (ReqID req) (mset (batch_ids (map snd bs)))" if "map_of bs k = Some b" for k b
    using that by (induction bs) (auto split: if_splits)
  show ?thesis
    by (cases "map_of bs (Key req)") (simp_all add: addRequest_def fresh present)
qed

lemma addRequest_keeps:
  assumes "i \<in> set (batch_ids (map snd bs))"
  shows "i \<in> set (batch_ids (map snd (addRequest bs req)))"
proof -
  have fresh: "i \<in> set (batch_ids (map snd (AList.update k b bs)))" if "map_of bs k = None" for k and b :: "'a batch"
    using that assms by (induction bs) (auto split: if_splits)
  have present: "i \<in> set (batch_ids (map snd (AList.update k (b\<lparr>Requests := Requests b @ [req]\<rparr>) bs)))"
    if "map_of bs k = Some b" for k b
    using that assms by (induction bs) (auto split: if_splits)
  show ?thesis
    by (cases "map_of bs (Key req)") (simp_all add: addRequest_def fresh present)
qed

lemma length_sent_drain:
  fixes s :: "('p, 'v) batcher_state"
  shows "length (sent (drain s) i) = length (sent s i) + count (mset (batch_ids (map snd (pendingBatches s)))) i"
proof -
  have "map fst (map (\<lambda>req. (ReqID req, r)) (concat (map Requests bs))) = batch_ids bs"
    for bs :: "'p batch list" and r :: "'v response"
    by (induction bs) (simp_all add: comp_def)
  then show ?thesis
    unfolding drain_def swapBatches_def Let_def prod.case
    by (simp add: length_sendAll del: map_map mset_map)
qed

subsection \<open>The invariant\<close>

definition keyed :: "'p determineBatchKey \<Rightarrow> 'p batch \<Rightarrow> bool" where
  "keyed dk b \<longleftrightarrow> (\<forall>req \<in> set (Requests b). Key req = BatchKey b \<and> dk (Payload req) = Inr (BatchKey b))"

definition batcher_inv :: "'p determineBatchKey \<Rightarrow> ('p, 'v) batcher_state \<Rightarrow> bool" where
  "batcher_inv dk s \<longleftrightarrow>
     (\<forall>i. places s i = (if i < enqueued s then 1 else 0)) \<and>
     distinct (map fst (pendingBatches s)) \<and>
     (\<forall>(k, b) \<in> set (pendingBatches s). BatchKey b = k \<and> keyed dk b) \<and>
     (\<forall>b \<in> set (running s). keyed dk b) \<and>
     (pendingBatches s \<noteq> [] \<longrightarrow> point s \<noteq> Selecting \<or> trigger s \<or> 0 < unsignalled s)"

lemma addRequest_keyed:
  assumes "distinct (map fst bs)" and "\<forall>(k, b) \<in> set bs. BatchKey b = k \<and> keyed dk b"
    and "dk (Payload req) = Inr (Key req)"
  shows "distinct (map fst (addRequest bs req)) \<and> (\<forall>(k, b) \<in> set (addRequest bs req). BatchKey b = k \<and> keyed dk b)"
proof -
  have upd: "\<forall>(k', b') \<in> set (AList.update k b bs). BatchKey b' = k' \<and> keyed dk b'" if "BatchKey b = k" "keyed dk b" for k b
    using assms(2) that by (induction bs) auto
  have "BatchKey b = k \<and> keyed dk b" if "map_of bs k = Some b" for k b
    using assms(2) map_of_SomeD [OF that] by auto
  then have "\<forall>(k', b') \<in> set (addRequest bs req). BatchKey b' = k' \<and> keyed dk b'"
    unfolding addRequest_def Let_def
    by (intro upd) (auto simp: keyed_def assms(3) split: option.splits)
  then show ?thesis using assms(1) by (simp add: addRequest_def Let_def)
qed

lemma places_Enqueue:
  assumes "batcher_inv dk s" and "dk payload = Inr key"
  shows "places (snd (Enqueue dk payload s)) i = places s i + (if i = enqueued s then 1 else 0)"
  using assms by (simp add: places_def Enqueue_def batcher_inv_def batch_ids_update)

lemma inv_Enqueue:
  assumes "batcher_inv dk s"
  shows "batcher_inv dk (snd (Enqueue dk payload s))"
proof (cases "dk payload")
  case (Inl e)
  then show ?thesis using assms by (simp add: Enqueue_def)
next
  case (Inr key)
  let ?req = "\<lparr>ReqID = enqueued s, Key = key, Payload = payload\<rparr>"
  have "distinct (map fst (addRequest (pendingBatches s) ?req)) \<and>
      (\<forall>(k, b) \<in> set (addRequest (pendingBatches s) ?req). BatchKey b = k \<and> keyed dk b)"
    using assms Inr by (intro addRequest_keyed) (simp_all add: batcher_inv_def)
  then show ?thesis using assms places_Enqueue [OF assms Inr] Inr
    by (auto simp: batcher_inv_def Enqueue_def)
qed

context batch_executor
begin

lemma runBatch_answers:
  "mset (map fst (runBatch execute received batch)) = mset (map ReqID (Requests batch))"
proof -
  obtain rs p where rp: "execute batch = (rs, p)" by fastforce
  show ?thesis
  proof (cases p)
    case None
    with rp answers_all show ?thesis by (simp add: runBatch_def)
  next
    case (Some r)
    with rp panics_first have "rs = []" by simp
    with rp Some show ?thesis by (simp add: runBatch_def comp_def)
  qed
qed

lemma inv_finish:
  assumes inv: "batcher_inv dk s" and run: "running s = bs @ batch # bs'"
  shows "batcher_inv dk (s\<lparr>running := bs @ bs', sent := sendAll (runBatch execute received batch) (sent s)\<rparr>)"
proof -
  have "places (s\<lparr>running := bs @ bs', sent := sendAll (runBatch execute received batch) (sent s)\<rparr>) i = places s i" for i
    by (simp add: places_def run length_sendAll runBatch_answers del: mset_map)
  with inv run show ?thesis by (simp add: batcher_inv_def)
qed

lemma inv_step:
  assumes "batcher_step dk execute opts s s'" and "batcher_inv dk s"
  shows "batcher_inv dk s'"
  using assms
proof (cases rule: batcher_step.cases)
  case (enqueue payload)
  with assms(2) show ?thesis by (simp add: inv_Enqueue)
next
  case (finish bs batch bs' received)
  with assms(2) show ?thesis by (simp add: inv_finish)
next
  case execute
  have "places ((executeBatches s)\<lparr>point := Selecting\<rparr>) i = places s i" for i
    by (simp add: executeBatches_def swapBatches_def places_def)
  with execute assms(2) show ?thesis
    by (auto simp: batcher_inv_def executeBatches_def swapBatches_def)
next
  case drain
  have "length (sent (drain s) i) = length (sent s i) + count (mset (batch_ids (map snd (pendingBatches s)))) i" for i
    by (rule length_sent_drain)
  moreover have "pendingBatches (drain s) = []" "running (drain s) = running s"
    by (simp_all add: drain_def swapBatches_def)
  ultimately have "places ((drain s)\<lparr>point := Stopped\<rparr>) i = places s i" for i by (simp add: places_def)
  with drain assms(2) show ?thesis
    by (auto simp: batcher_inv_def drain_def swapBatches_def)
qed (auto simp: batcher_inv_def places_def signal_def)

lemma reach_inv: "batcher_reach dk execute opts s \<Longrightarrow> batcher_inv dk s"
proof (induction rule: batcher_reach.induct)
  case new
  then show ?case by (simp add: batcher_inv_def New_def places_def)
next
  case (step s s')
  then show ?case using inv_step by blast
qed

end

subsection \<open>Progress and shutdown\<close>

context batch_executor
begin

text \<open>The loop drives itself from any point to the end of its iteration, without new requests.\<close>

abbreviation steps where
  "steps dk opts \<equiv> (batcher_step dk execute opts)\<^sup>*\<^sup>*"

lemma to_Waited:
  assumes "point s \<in> {Checking, Waiting, Woken, Waited}"
  shows "steps dk opts s (s\<lparr>point := Waited\<rparr>)"
proof -
  have w: "steps dk opts s' (s'\<lparr>point := Waited\<rparr>)" if "point s' = Waiting" for s' :: "('p, 'v) batcher_state"
    using batcher_step.timer [OF that] by blast
  have c: "steps dk opts s (s\<lparr>point := Waited\<rparr>)" if "point s = Checking \<or> point s = Woken"
  proof -
    have "batcher_step dk execute opts s (s\<lparr>point := (if anyBatchFull opts s then Waited else Waiting)\<rparr>)"
      using that batcher_step.check_full batcher_step.recheck_full by metis
    moreover have "steps dk opts (s\<lparr>point := Waiting\<rparr>) (s\<lparr>point := Waited\<rparr>)" using w [of "s\<lparr>point := Waiting\<rparr>"] by simp
    ultimately show ?thesis by (auto split: if_splits intro: converse_rtranclp_into_rtranclp)
  qed
  have "steps dk opts s (s\<lparr>point := Waited\<rparr>)" if "point s = Waited"
  proof -
    have "s\<lparr>point := Waited\<rparr> = s" using that by simp
    then show ?thesis by simp
  qed
  with assms w [of s] c show ?thesis by auto
qed

lemma settle:
  assumes "point s \<in> {Checking, Waiting, Woken, Waited, Executing, Draining}"
  shows "steps dk opts s ((executeBatches s)\<lparr>point := Selecting\<rparr>) \<or> steps dk opts s ((drain s)\<lparr>point := Stopped\<rparr>)"
proof -
  have e: "steps dk opts (s\<lparr>point := Executing\<rparr>) ((executeBatches s)\<lparr>point := Selecting\<rparr>)"
    using batcher_step.execute [of "s\<lparr>point := Executing\<rparr>" dk execute opts]
    by (simp add: executeBatches_def swapBatches_def r_into_rtranclp)
  have d: "steps dk opts (s\<lparr>point := Draining\<rparr>) ((drain s)\<lparr>point := Stopped\<rparr>)"
    using batcher_step.drain [of "s\<lparr>point := Draining\<rparr>" dk execute opts]
    by (simp add: drain_def swapBatches_def r_into_rtranclp)
  have w: "steps dk opts s ((executeBatches s)\<lparr>point := Selecting\<rparr>) \<or> steps dk opts s ((drain s)\<lparr>point := Stopped\<rparr>)"
    if "steps dk opts s (s\<lparr>point := Waited\<rparr>)"
  proof -
    have "batcher_step dk execute opts (s\<lparr>point := Waited\<rparr>) (s\<lparr>point := (if cancelled s then Draining else Executing)\<rparr>)"
      using batcher_step.waited [of "s\<lparr>point := Waited\<rparr>" dk execute opts] by simp
    with that have "steps dk opts s (s\<lparr>point := (if cancelled s then Draining else Executing)\<rparr>)"
      by (rule rtranclp.rtrancl_into_rtrancl)
    with e d show ?thesis by (cases "cancelled s") (auto intro: rtranclp_trans)
  qed
  have "steps dk opts s ((executeBatches s)\<lparr>point := Selecting\<rparr>)" if "point s = Executing"
    using batcher_step.execute [OF that] by blast
  moreover have "steps dk opts s ((drain s)\<lparr>point := Stopped\<rparr>)" if "point s = Draining"
    using batcher_step.drain [OF that] by blast
  ultimately show ?thesis using assms w to_Waited [of s dk opts] by auto
qed

text \<open>Every request in a running batch can be answered.\<close>

lemma finish_running:
  assumes "batcher_inv dk s" and "i \<in> set (batch_ids (running s))"
  shows "\<exists>s'. batcher_step dk execute opts s s' \<and> sent s' i \<noteq> [] \<and> enqueued s' = enqueued s"
proof -
  from assms(2) obtain b where "b \<in> set (running s)" and i: "i \<in> ReqID ` set (Requests b)" by (auto simp: batch_ids_def)
  then obtain bs bs' where run: "running s = bs @ b # bs'" by (meson split_list)
  let ?s = "s\<lparr>running := bs @ bs', sent := sendAll (runBatch execute (\<lambda>_. False) b) (sent s)\<rparr>"
  have "count (mset (map fst (runBatch execute (\<lambda>_. False) b))) i = count (mset (map ReqID (Requests b))) i"
    by (simp add: runBatch_answers del: mset_map)
  also have "\<dots> > 0" using i by simp
  finally have "length (sent ?s i) > 0" by (simp add: length_sendAll del: mset_map)
  moreover have "batcher_step dk execute opts s ?s" using run by (rule batcher_step.finish)
  ultimately show ?thesis by (intro exI [of _ ?s]) simp
qed

text \<open>A loop that is not at its outer select answers every pending request.\<close>

lemma iteration_answers:
  assumes inv: "batcher_inv dk s" and "i \<in> set (batch_ids (map snd (pendingBatches s)))"
    and "point s \<in> {Checking, Waiting, Woken, Waited, Executing, Draining}"
  shows "\<exists>s'. steps dk opts s s' \<and> sent s' i \<noteq> [] \<and> enqueued s' = enqueued s"
  using settle [OF assms(3), of dk opts]
proof
  let ?e = "(executeBatches s)\<lparr>point := Selecting\<rparr>"
  assume r: "steps dk opts s ?e"
  have "batcher_inv dk ?e" using r inv by (induction rule: rtranclp_induct) (auto intro: inv_step)
  moreover have "i \<in> set (batch_ids (running ?e))" using assms(2) by (simp add: executeBatches_def swapBatches_def)
  ultimately obtain s' where "batcher_step dk execute opts ?e s'" "sent s' i \<noteq> []" "enqueued s' = enqueued ?e"
    using finish_running by blast
  moreover have "enqueued ?e = enqueued s" by (simp add: executeBatches_def swapBatches_def)
  ultimately show ?thesis using r by (metis rtranclp.rtrancl_into_rtrancl)
next
  let ?d = "(drain s)\<lparr>point := Stopped\<rparr>"
  assume r: "steps dk opts s ?d"
  have "length (sent ?d i) > 0" using assms(2) by (simp add: length_sent_drain)
  moreover have "enqueued ?d = enqueued s" by (simp add: drain_def swapBatches_def)
  ultimately show ?thesis using r by (intro exI [of _ ?d]) simp
qed

lemma selecting_starts_iteration:
  assumes "batcher_inv dk s" and "pendingBatches s \<noteq> []" and "point s = Selecting"
  shows "\<exists>s'. steps dk opts s s' \<and> point s' = Checking \<and> pendingBatches s' = pendingBatches s \<and> enqueued s' = enqueued s"
proof -
  have go: "\<exists>s'. batcher_step dk execute opts t s' \<and> point s' = Checking \<and> pendingBatches s' = pendingBatches t \<and> enqueued s' = enqueued t"
    if "point t = Selecting" "trigger t" for t :: "('p, 'v) batcher_state"
    using batcher_step.select_trigger [OF that, of dk execute opts]
    by (intro exI [of _ "t\<lparr>trigger := False, point := Checking\<rparr>"]) simp
  show ?thesis
  proof (cases "trigger s")
    case True
    with go [OF assms(3)] show ?thesis by blast
  next
    case False
    with assms have "0 < unsignalled s" by (simp add: batcher_inv_def)
    then have "batcher_step dk execute opts s (signal s)" by (rule batcher_step.signal)
    with go [of "signal s"] assms(3) show ?thesis
      by (simp add: signal_def) (meson converse_rtranclp_into_rtranclp r_into_rtranclp)
  qed
qed

lemma pending_or_running:
  assumes "batcher_inv dk s" and "i < enqueued s" and "sent s i = []"
  shows "i \<in> set (batch_ids (map snd (pendingBatches s))) \<or> i \<in> set (batch_ids (running s))"
proof (rule ccontr)
  assume "\<not> ?thesis"
  then have "places s i = 0" using assms(3) unfolding places_def by (simp add: count_mset_0_iff del: mset_map)
  with assms show False by (simp add: batcher_inv_def)
qed

lemma unanswered_can_be_answered:
  assumes inv: "batcher_inv dk s" and "i < enqueued s" and "sent s i = []" and "point s \<noteq> Stopped"
  shows "\<exists>s'. steps dk opts s s' \<and> sent s' i \<noteq> [] \<and> enqueued s' = enqueued s"
  using pending_or_running [OF assms(1-3)]
proof
  assume "i \<in> set (batch_ids (running s))"
  with inv show ?thesis using finish_running by blast
next
  assume i: "i \<in> set (batch_ids (map snd (pendingBatches s)))"
  then have pending: "pendingBatches s \<noteq> []" by auto
  show ?thesis
  proof (cases "point s = Selecting")
    case False
    with assms(4) have "point s \<in> {Checking, Waiting, Woken, Waited, Executing, Draining}" by (cases "point s") auto
    with inv i show ?thesis by (rule iteration_answers)
  next
    case True
    then obtain s' where r: "steps dk opts s s'" and "point s' = Checking" "pendingBatches s' = pendingBatches s"
      and e: "enqueued s' = enqueued s"
      using selecting_starts_iteration [OF inv pending] by blast
    moreover have "batcher_inv dk s'" using r inv by (induction rule: rtranclp_induct) (auto intro: inv_step)
    ultimately obtain s'' where "steps dk opts s' s''" "sent s'' i \<noteq> []" "enqueued s'' = enqueued s'"
      using iteration_answers [of dk s' i opts] i by auto
    with r e show ?thesis by (metis rtranclp_trans)
  qed
qed

text \<open>Once the loop has stopped, what is pending stays pending.\<close>

lemma stopped_step:
  assumes "batcher_step dk execute opts s s'" and "point s = Stopped" and "i \<in> set (batch_ids (map snd (pendingBatches s)))"
  shows "point s' = Stopped \<and> i \<in> set (batch_ids (map snd (pendingBatches s')))"
  using assms
proof (cases rule: batcher_step.cases)
  case (enqueue payload)
  show ?thesis
  proof (cases "dk payload")
    case (Inl e)
    with enqueue assms show ?thesis by (simp add: Enqueue_def)
  next
    case (Inr key)
    have "i \<in> set (batch_ids (map snd (addRequest (pendingBatches s) req)))" for req
      using assms(3) by (rule addRequest_keeps)
    with enqueue assms Inr show ?thesis by (simp add: Enqueue_def)
  qed
qed (auto simp: signal_def)

lemma stopped_reach:
  assumes "steps dk opts s s'" and "point s = Stopped" and "i \<in> set (batch_ids (map snd (pendingBatches s)))"
  shows "point s' = Stopped \<and> i \<in> set (batch_ids (map snd (pendingBatches s')))"
  using assms by (induction rule: rtranclp_induct) (use stopped_step in blast)+

lemma steps_reach: "steps dk opts s s' \<Longrightarrow> batcher_reach dk execute opts s \<Longrightarrow> batcher_reach dk execute opts s'"
  by (induction rule: rtranclp_induct) (auto intro: batcher_reach.step)

lemma accepted_after_stop:
  assumes "batcher_reach dk execute opts s" and "point s = Stopped"
    and "Enqueue dk payload s = (Inr i, s')" and "steps dk opts s' s''"
  shows "sent s'' i = []"
proof -
  from assms(3) obtain key where k: "dk payload = Inr key" and i: "i = enqueued s"
    and s': "s' = snd (Enqueue dk payload s)" by (auto simp: Enqueue_def split: sum.splits)
  have inv: "batcher_inv dk s" using assms(1) by (rule reach_inv)
  then have "i \<in> set (batch_ids (map snd (pendingBatches s')))"
    using k i s' by (simp add: Enqueue_def batcher_inv_def set_mset_mset [symmetric] batch_ids_update del: set_mset_mset)
  moreover have "point s' = Stopped" using assms(2) k s' by (simp add: Enqueue_def)
  ultimately have "i \<in> set (batch_ids (map snd (pendingBatches s'')))" using stopped_reach [OF assms(4)] by blast
  then have "count (mset (batch_ids (map snd (pendingBatches s'')))) i > 0" by (simp del: mset_map)
  moreover have "batcher_inv dk s''"
    using assms(4) inv_Enqueue [OF inv, of payload] unfolding s' [symmetric]
    by (induction rule: rtranclp_induct) (auto intro: inv_step)
  then have "places s'' i \<le> 1" by (simp add: batcher_inv_def)
  ultimately have "length (sent s'' i) = 0" unfolding places_def by linarith
  then show ?thesis by simp
qed

end

text \<open>An executor that answers every request with its payload, for the concrete runs below.\<close>

definition echo :: "('p, 'p) executeBatch" where
  "echo batch = (map (\<lambda>req. (ReqID req, \<lparr>RespPayload = Some (Payload req), Err = None\<rparr>)) (Requests batch), None)"

lemma batch_executor_echo: "batch_executor echo"
  by unfold_locales (auto simp: echo_def comp_def image_mset.compositionality)

subsection \<open>Properties\<close>

text \<open>
  C3: Whatever the interleaving of enqueuers, the loop, the timers, cancellation and the batch
  goroutines, a request that has been accepted is in exactly one place: waiting in one pending batch, in
  one running batch, or answered once. In particular no request is answered twice, so no send on a
  response channel ever blocks.
\<close>

theorem requests_are_in_exactly_one_place:
  assumes "batch_executor execute" and "batcher_reach dk execute opts s"
  shows "count (mset (batch_ids (map snd (pendingBatches s)))) i + count (mset (batch_ids (running s))) i
      + length (sent s i) = (if i < enqueued s then 1 else 0)"
  using batch_executor.reach_inv [OF assms] by (simp add: batcher_inv_def places_def)

definition echo_run :: "(string, string) batcher_state" where
  "echo_run = snd (Enqueue Inr ''b'' (snd (Enqueue Inr ''a'' (snd (Enqueue Inr ''a'' New)))))"

lemma echo_run_reach: "batcher_reach Inr echo opts echo_run"
  unfolding echo_run_def
  by (rule batcher_reach.step [OF batcher_reach.step [OF batcher_reach.step [OF batcher_reach.new]]]; rule batcher_step.enqueue)

theorem requests_are_in_exactly_one_place_witness:
  "count (mset (batch_ids (map snd (pendingBatches echo_run)))) 2 + count (mset (batch_ids (running echo_run))) 2
      + length (sent echo_run 2) = 1 \<and> enqueued echo_run = 3"
proof -
  have "enqueued echo_run = 3" by (simp add: echo_run_def Enqueue_def New_def)
  then show ?thesis
    using requests_are_in_exactly_one_place [OF batch_executor_echo echo_run_reach [of "\<lparr>MaxBatchSize = 2\<rparr>"], of 2] by simp
qed

text \<open>
  A batch, pending or running, only holds requests whose key is the key of the batch, and the
  pending batches have different keys.
\<close>

theorem batches_hold_requests_of_their_key:
  assumes "batch_executor execute" and "batcher_reach dk execute opts s"
    and "b \<in> set (map snd (pendingBatches s)) \<union> set (running s)" and "req \<in> set (Requests b)"
  shows "dk (Payload req) = Inr (BatchKey b) \<and> distinct (map fst (pendingBatches s))
      \<and> (b \<in> set (map snd (pendingBatches s)) \<longrightarrow> map_of (pendingBatches s) (BatchKey b) = Some b)"
proof -
  have inv: "batcher_inv dk s" using batch_executor.reach_inv [OF assms(1,2)] .
  with assms(3,4) have "dk (Payload req) = Inr (BatchKey b)" by (auto simp: batcher_inv_def keyed_def)
  moreover have "map_of (pendingBatches s) (BatchKey b) = Some b" if "b \<in> set (map snd (pendingBatches s))"
    using inv that by (auto simp: batcher_inv_def)
  ultimately show ?thesis using inv by (simp add: batcher_inv_def)
qed

theorem batches_hold_requests_of_their_key_witness:
  "map_of (pendingBatches echo_run) ''a'' = Some (snd (hd (pendingBatches echo_run)))"
proof -
  let ?b = "\<lparr>BatchKey = ''a'', Requests = [\<lparr>ReqID = 0, Key = ''a'', Payload = ''a''\<rparr>, \<lparr>ReqID = 1, Key = ''a'', Payload = ''a''\<rparr>]\<rparr>"
  have "?b \<in> set (map snd (pendingBatches echo_run))" and hd: "snd (hd (pendingBatches echo_run)) = ?b"
    by (simp_all add: echo_run_def Enqueue_def New_def addRequest_def)
  then show ?thesis
    using batches_hold_requests_of_their_key [OF batch_executor_echo echo_run_reach [of "\<lparr>MaxBatchSize = 2\<rparr>"],
        of ?b "\<lparr>ReqID = 0, Key = ''a'', Payload = ''a''\<rparr>"] by simp
qed

text \<open>
  C25: No wake-up is lost and the batcher never deadlocks: as long as the loop has not stopped,
  every accepted request that has no answer yet can still be answered, without any further request
  arriving (the trigger channel drops signals, but never the last one).
\<close>

theorem accepted_requests_can_be_answered:
  assumes "batch_executor execute" and "batcher_reach dk execute opts s"
    and "i < enqueued s" and "sent s i = []" and "point s \<noteq> Stopped"
  shows "\<exists>s'. (batcher_step dk execute opts)\<^sup>*\<^sup>* s s' \<and> length (sent s' i) = 1 \<and> enqueued s' = enqueued s"
proof -
  obtain s' where s': "(batcher_step dk execute opts)\<^sup>*\<^sup>* s s'" "sent s' i \<noteq> []" "enqueued s' = enqueued s"
    using batch_executor.unanswered_can_be_answered [OF assms(1) batch_executor.reach_inv [OF assms(1,2)] assms(3-5)] by blast
  then have "batcher_inv dk s'"
    using batch_executor.steps_reach [OF assms(1) _ assms(2)] batch_executor.reach_inv [OF assms(1)] by blast
  then have "places s' i \<le> 1" by (simp add: batcher_inv_def)
  then have "length (sent s' i) \<le> 1" unfolding places_def by linarith
  with s' have "length (sent s' i) = 1" by (cases "sent s' i") auto
  with s' show ?thesis by blast
qed

theorem accepted_requests_can_be_answered_witness:
  "\<exists>s'. (batcher_step Inr echo \<lparr>MaxBatchSize = 50\<rparr>)\<^sup>*\<^sup>* echo_run s' \<and> length (sent s' 1) = 1 \<and> enqueued s' = enqueued echo_run"
  by (rule accepted_requests_can_be_answered [OF batch_executor_echo echo_run_reach])
    (simp_all add: echo_run_def Enqueue_def New_def)

text \<open>
  After the loop has stopped, \<open>Enqueue\<close> still accepts requests, and a request accepted then
  is never answered, whatever happens next: the shutdown error only reaches the requests that were
  pending when \<open>drain\<close> ran.
\<close>

theorem requests_after_shutdown_are_never_answered:
  assumes "batch_executor execute" and "batcher_reach dk execute opts s" and "point s = Stopped"
    and "dk payload = Inr key" and "(batcher_step dk execute opts)\<^sup>*\<^sup>* (snd (Enqueue dk payload s)) s'"
  shows "fst (Enqueue dk payload s) = Inr (enqueued s) \<and> sent s' (enqueued s) = []"
proof -
  have "Enqueue dk payload s = (Inr (enqueued s), snd (Enqueue dk payload s))" using assms(4) by (simp add: Enqueue_def)
  with batch_executor.accepted_after_stop [OF assms(1-3) _ assms(5)] show ?thesis by (metis fst_conv)
qed

definition stopped_run :: "(string, string) batcher_state" where
  "stopped_run = (drain (New\<lparr>cancelled := True, point := Draining\<rparr>))\<lparr>point := Stopped\<rparr>"

lemma stopped_run_reach: "batcher_reach Inr echo opts stopped_run"
proof -
  have "batcher_reach Inr echo opts (New\<lparr>cancelled := True\<rparr> :: (string, string) batcher_state)"
    by (intro batcher_reach.step [OF batcher_reach.new] batcher_step.cancel)
  moreover have "batcher_step Inr echo opts (New\<lparr>cancelled := True\<rparr>) (New\<lparr>cancelled := True, point := Draining\<rparr>)"
    using batcher_step.select_done [of "New\<lparr>cancelled := True\<rparr>" Inr echo opts] by (simp add: New_def)
  ultimately have "batcher_reach Inr echo opts (New\<lparr>cancelled := True, point := Draining\<rparr>)" by (rule batcher_reach.step)
  then show ?thesis unfolding stopped_run_def
    by (rule batcher_reach.step) (rule batcher_step.drain, simp)
qed

theorem requests_after_shutdown_are_never_answered_witness:
  "sent (signal (snd (Enqueue Inr ''a'' stopped_run))) 0 = []"
proof -
  have "(batcher_step Inr echo \<lparr>MaxBatchSize = 50\<rparr>)\<^sup>*\<^sup>* (snd (Enqueue Inr ''a'' stopped_run)) (signal (snd (Enqueue Inr ''a'' stopped_run)))"
    by (intro r_into_rtranclp batcher_step.signal) (simp add: Enqueue_def)
  moreover have "point stopped_run = Stopped" "enqueued stopped_run = 0"
    by (simp_all add: stopped_run_def drain_def swapBatches_def New_def)
  ultimately show ?thesis
    using requests_after_shutdown_are_never_answered [OF batch_executor_echo stopped_run_reach [of "\<lparr>MaxBatchSize = 50\<rparr>"], of "''a''" "''a''"]
    by simp
qed

end
