(* ===== verification/Unavailable_Offerings.thy ===== *)
theory Unavailable_Offerings
  imports Go_Cache Karpenter_Core
begin

text \<open>
  The cache of offerings rejected at launch (src/pkg/cache/unavailableofferings.go). Its state is
  two expiring caches and a sequence number; a view for a capacity reservation group (CRG) is the
  scope it was created with, over the same state. Every operation takes the cache operations
  \<open>CS\<close>, \<open>CF\<close> of the two caches and the current time, which one call reads once. The mutex makes
  every operation atomic; logging, and the reason arguments it alone uses, are left out.

  Shown here: composite keys do not collide on colon-free components; what each marking operation
  blocks and for how long; that a CRG's failures stay in that CRG; that marking never unblocks;
  that the answers change only together with the sequence number; and what invalidating a group
  removes.
\<close>

type_synonym scope = string

text \<open>A value of Go's type \<open>any\<close> read back from a cache: an \<open>int64\<close> or a value of another type.\<close>

datatype any_value = AnyInt64 int64 | AnyOther

record ('s, 'f) unavailableOfferings =
  singleOfferingCache :: 's
  vmFamilyCache :: 'f
  seqNum :: uint64

definition UnavailableOfferingsTTL :: duration where
  "UnavailableOfferingsTTL = 3 * Minute"

definition unreservedScope :: scope where
  "unreservedScope = []"

definition wholeVMFamilyBlockedSentinel :: int64 where
  "wholeVMFamilyBlockedSentinel = -1"

subsection \<open>Keys\<close>

definition capacityReservationGroupScope :: "string \<Rightarrow> scope" where
  "capacityReservationGroupScope groupID = ToLower groupID"

definition skuZoneKey :: "string \<Rightarrow> string \<Rightarrow> string" where
  "skuZoneKey instType zone = ''skuZone:'' @ instType @ '':'' @ zone"

definition singleInstanceKey :: "scope \<Rightarrow> string \<Rightarrow> string \<Rightarrow> string \<Rightarrow> string" where
  "singleInstanceKey scope instType zone capacityType =
     (if scope = unreservedScope then capacityType @ '':'' @ instType @ '':'' @ zone
      else ''crg:'' @ scope @ '':'' @ capacityType @ '':'' @ instType @ '':'' @ zone)"

definition vmFamilyKey :: "scope \<Rightarrow> string \<Rightarrow> string \<Rightarrow> string \<Rightarrow> string" where
  "vmFamilyKey scope skuFamilyName zone capacityType =
     (if scope = unreservedScope
      then ToLower (''skuFamily:'' @ skuFamilyName @ '':'' @ zone @ '':'' @ capacityType)
      else ToLower (''crg:'' @ scope @ '':skuFamily:'' @ skuFamilyName @ '':'' @ zone @ '':''
                    @ capacityType))"

definition spotKey :: string where
  "spotKey = singleInstanceKey unreservedScope [] [] CapacityTypeSpot"

subsection \<open>Queries\<close>

definition isFamilyUnavailable :: "('f, any_value) cache_api \<Rightarrow> time \<Rightarrow> ('s, 'f) unavailableOfferings
    \<Rightarrow> scope \<Rightarrow> SKU \<Rightarrow> string \<Rightarrow> string \<Rightarrow> bool" where
  "isFamilyUnavailable CF now u scope sku zone capacityType =
     (let skuVCPUCount = (case VCPU sku of None \<Rightarrow> 0 | Some n \<Rightarrow> n) in
      case cache_get CF now (vmFamilyCache u)
             (vmFamilyKey scope (GetFamilyName sku) zone capacityType) of
        Some (AnyInt64 blockedCPUCount) \<Rightarrow>
          if blockedCPUCount = wholeVMFamilyBlockedSentinel then True
          else sint blockedCPUCount \<le> sint skuVCPUCount
      | _ \<Rightarrow> False)"

definition isUnavailable :: "('s, unit) cache_api \<Rightarrow> ('f, any_value) cache_api \<Rightarrow> time
    \<Rightarrow> ('s, 'f) unavailableOfferings \<Rightarrow> scope \<Rightarrow> SKU \<Rightarrow> string \<Rightarrow> string \<Rightarrow> bool" where
  "isUnavailable CS CF now u scope sku zone capacityType =
     (let found = (\<lambda>key. cache_get CS now (singleOfferingCache u) key \<noteq> None) in
      if found (skuZoneKey (GetName sku) zone) then True
      else if capacityType = CapacityTypeSpot \<and> found spotKey then True
      else if isFamilyUnavailable CF now u scope sku zone capacityType then True
      else found (singleInstanceKey scope (GetName sku) zone capacityType))"

definition IsUnavailable :: "('s, unit) cache_api \<Rightarrow> ('f, any_value) cache_api \<Rightarrow> time
    \<Rightarrow> ('s, 'f) unavailableOfferings \<Rightarrow> SKU \<Rightarrow> string \<Rightarrow> string \<Rightarrow> bool" where
  "IsUnavailable CS CF now u sku zone capacityType =
     isUnavailable CS CF now u unreservedScope sku zone capacityType"

text \<open>
  The view of one capacity reservation group is the scope of that group; an empty identifier
  yields the unreserved view.
\<close>

definition ForCapacityReservationGroup :: "string \<Rightarrow> scope" where
  "ForCapacityReservationGroup groupID = capacityReservationGroupScope groupID"

definition IsForCapacityReservationGroup :: "scope \<Rightarrow> bool" where
  "IsForCapacityReservationGroup view \<longleftrightarrow> view \<noteq> unreservedScope"

definition view_IsUnavailable :: "('s, unit) cache_api \<Rightarrow> ('f, any_value) cache_api \<Rightarrow> time
    \<Rightarrow> ('s, 'f) unavailableOfferings \<Rightarrow> scope \<Rightarrow> SKU \<Rightarrow> string \<Rightarrow> string \<Rightarrow> bool" where
  "view_IsUnavailable CS CF now u view sku zone capacityType =
     isUnavailable CS CF now u view sku zone capacityType"

subsection \<open>Marking\<close>

definition markFamilyUnavailableAtCPUCountImpl :: "('f, any_value) cache_api \<Rightarrow> time
    \<Rightarrow> ('s, 'f) unavailableOfferings \<Rightarrow> scope \<Rightarrow> SKU \<Rightarrow> string \<Rightarrow> string \<Rightarrow> int64 \<Rightarrow> duration
    \<Rightarrow> ('s, 'f) unavailableOfferings \<times> bool" where
  "markFamilyUnavailableAtCPUCountImpl CF now u scope sku zone capacityType cpuCount ttl =
     (if GetFamilyName sku = [] then (u, False)
      else let key = vmFamilyKey scope (GetFamilyName sku) zone capacityType;
               (count, changed) =
                 (case cache_get CF now (vmFamilyCache u) key of
                    Some (AnyInt64 currentBlockedCPUCount) \<Rightarrow>
                      if sint currentBlockedCPUCount \<le> sint cpuCount
                      then (currentBlockedCPUCount, False) else (cpuCount, True)
                  | _ \<Rightarrow> (cpuCount, True))
           in (u\<lparr>vmFamilyCache := cache_set CF now key (AnyInt64 count) ttl (vmFamilyCache u)\<rparr>,
               changed))"

definition markFamilyUnavailableAtCPUCount :: "('f, any_value) cache_api \<Rightarrow> time
    \<Rightarrow> ('s, 'f) unavailableOfferings \<Rightarrow> scope \<Rightarrow> SKU \<Rightarrow> string \<Rightarrow> string \<Rightarrow> duration
    \<Rightarrow> ('s, 'f) unavailableOfferings \<times> bool" where
  "markFamilyUnavailableAtCPUCount CF now u scope sku zone capacityType ttl =
     (let cpuCount = (case VCPU sku of None \<Rightarrow> 0 | Some n \<Rightarrow> n)
      in markFamilyUnavailableAtCPUCountImpl CF now u scope sku zone capacityType cpuCount ttl)"

definition markFamilyUnavailable :: "('f, any_value) cache_api \<Rightarrow> time
    \<Rightarrow> ('s, 'f) unavailableOfferings \<Rightarrow> scope \<Rightarrow> SKU \<Rightarrow> string \<Rightarrow> string \<Rightarrow> duration
    \<Rightarrow> ('s, 'f) unavailableOfferings" where
  "markFamilyUnavailable CF now u scope sku zone capacityType ttl =
     (let (u', changed) = markFamilyUnavailableAtCPUCountImpl CF now u scope sku zone capacityType
                            wholeVMFamilyBlockedSentinel ttl
      in if changed then u'\<lparr>seqNum := seqNum u' + 1\<rparr> else u')"

definition MarkFamilyUnavailable :: "('f, any_value) cache_api \<Rightarrow> time
    \<Rightarrow> ('s, 'f) unavailableOfferings \<Rightarrow> SKU \<Rightarrow> string \<Rightarrow> string \<Rightarrow> duration
    \<Rightarrow> ('s, 'f) unavailableOfferings" where
  "MarkFamilyUnavailable CF now u sku zone capacityType ttl =
     markFamilyUnavailable CF now u unreservedScope sku zone capacityType ttl"

definition MarkSpotUnavailableWithTTL :: "('s, unit) cache_api \<Rightarrow> time
    \<Rightarrow> ('s, 'f) unavailableOfferings \<Rightarrow> duration \<Rightarrow> ('s, 'f) unavailableOfferings" where
  "MarkSpotUnavailableWithTTL CS now u ttl =
     (let wasUnavailable = cache_get CS now (singleOfferingCache u) spotKey \<noteq> None;
          u' = u\<lparr>singleOfferingCache := cache_set CS now spotKey () ttl (singleOfferingCache u)\<rparr>
      in if \<not> wasUnavailable then u'\<lparr>seqNum := seqNum u' + 1\<rparr> else u')"

definition markUnavailableWithTTL :: "('s, unit) cache_api \<Rightarrow> ('f, any_value) cache_api \<Rightarrow> time
    \<Rightarrow> ('s, 'f) unavailableOfferings \<Rightarrow> scope \<Rightarrow> SKU \<Rightarrow> string \<Rightarrow> string \<Rightarrow> duration
    \<Rightarrow> ('s, 'f) unavailableOfferings" where
  "markUnavailableWithTTL CS CF now u scope sku zone capacityType ttl =
     (let wasUnavailable = isUnavailable CS CF now u scope sku zone capacityType;
          u1 = u\<lparr>singleOfferingCache :=
                   cache_set CS now (singleInstanceKey scope (GetName sku) zone capacityType) () ttl
                     (singleOfferingCache u)\<rparr>;
          (u2, familyChanged) =
            (if scope = unreservedScope
             then markFamilyUnavailableAtCPUCount CF now u1 scope sku zone capacityType ttl
             else (u1, False))
      in if \<not> wasUnavailable \<or> familyChanged then u2\<lparr>seqNum := seqNum u2 + 1\<rparr> else u2)"

definition MarkUnavailableWithTTL :: "('s, unit) cache_api \<Rightarrow> ('f, any_value) cache_api \<Rightarrow> time
    \<Rightarrow> ('s, 'f) unavailableOfferings \<Rightarrow> SKU \<Rightarrow> string \<Rightarrow> string \<Rightarrow> duration
    \<Rightarrow> ('s, 'f) unavailableOfferings" where
  "MarkUnavailableWithTTL CS CF now u sku zone capacityType ttl =
     markUnavailableWithTTL CS CF now u unreservedScope sku zone capacityType ttl"

definition MarkUnavailable :: "('s, unit) cache_api \<Rightarrow> ('f, any_value) cache_api \<Rightarrow> time
    \<Rightarrow> ('s, 'f) unavailableOfferings \<Rightarrow> SKU \<Rightarrow> string \<Rightarrow> string \<Rightarrow> ('s, 'f) unavailableOfferings" where
  "MarkUnavailable CS CF now u sku zone capacityType =
     MarkUnavailableWithTTL CS CF now u sku zone capacityType UnavailableOfferingsTTL"

definition MarkSKUZoneUnavailableWithTTL :: "('s, unit) cache_api \<Rightarrow> time
    \<Rightarrow> ('s, 'f) unavailableOfferings \<Rightarrow> string \<Rightarrow> string \<Rightarrow> duration \<Rightarrow> ('s, 'f) unavailableOfferings" where
  "MarkSKUZoneUnavailableWithTTL CS now u instType zone ttl =
     (let key = skuZoneKey instType zone;
          wasUnavailable = cache_get CS now (singleOfferingCache u) key \<noteq> None;
          u' = u\<lparr>singleOfferingCache := cache_set CS now key () ttl (singleOfferingCache u)\<rparr>
      in if \<not> wasUnavailable then u'\<lparr>seqNum := seqNum u' + 1\<rparr> else u')"

text \<open>The methods of a CRG view delegate to the operations above with the view's scope.\<close>

definition view_MarkFamilyUnavailable :: "('f, any_value) cache_api \<Rightarrow> time
    \<Rightarrow> ('s, 'f) unavailableOfferings \<Rightarrow> scope \<Rightarrow> SKU \<Rightarrow> string \<Rightarrow> string \<Rightarrow> duration
    \<Rightarrow> ('s, 'f) unavailableOfferings" where
  "view_MarkFamilyUnavailable CF now u view sku zone capacityType ttl =
     markFamilyUnavailable CF now u view sku zone capacityType ttl"

definition view_MarkSpotUnavailableWithTTL :: "('s, unit) cache_api \<Rightarrow> time
    \<Rightarrow> ('s, 'f) unavailableOfferings \<Rightarrow> scope \<Rightarrow> duration \<Rightarrow> ('s, 'f) unavailableOfferings" where
  "view_MarkSpotUnavailableWithTTL CS now u view ttl = MarkSpotUnavailableWithTTL CS now u ttl"

definition view_MarkUnavailableWithTTL :: "('s, unit) cache_api \<Rightarrow> ('f, any_value) cache_api \<Rightarrow> time
    \<Rightarrow> ('s, 'f) unavailableOfferings \<Rightarrow> scope \<Rightarrow> SKU \<Rightarrow> string \<Rightarrow> string \<Rightarrow> duration
    \<Rightarrow> ('s, 'f) unavailableOfferings" where
  "view_MarkUnavailableWithTTL CS CF now u view sku zone capacityType ttl =
     markUnavailableWithTTL CS CF now u view sku zone capacityType ttl"

definition view_MarkUnavailable :: "('s, unit) cache_api \<Rightarrow> ('f, any_value) cache_api \<Rightarrow> time
    \<Rightarrow> ('s, 'f) unavailableOfferings \<Rightarrow> scope \<Rightarrow> SKU \<Rightarrow> string \<Rightarrow> string
    \<Rightarrow> ('s, 'f) unavailableOfferings" where
  "view_MarkUnavailable CS CF now u view sku zone capacityType =
     view_MarkUnavailableWithTTL CS CF now u view sku zone capacityType UnavailableOfferingsTTL"

definition view_MarkSKUZoneUnavailableWithTTL :: "('s, unit) cache_api \<Rightarrow> time
    \<Rightarrow> ('s, 'f) unavailableOfferings \<Rightarrow> scope \<Rightarrow> string \<Rightarrow> string \<Rightarrow> duration
    \<Rightarrow> ('s, 'f) unavailableOfferings" where
  "view_MarkSKUZoneUnavailableWithTTL CS now u view instType zone ttl =
     MarkSKUZoneUnavailableWithTTL CS now u instType zone ttl"

subsection \<open>Clearing and eviction\<close>

definition Flush :: "('s, unit) cache_api \<Rightarrow> ('f, any_value) cache_api
    \<Rightarrow> ('s, 'f) unavailableOfferings \<Rightarrow> ('s, 'f) unavailableOfferings" where
  "Flush CS CF u =
     u\<lparr>singleOfferingCache := cache_flush CS (singleOfferingCache u),
       vmFamilyCache := cache_flush CF (vmFamilyCache u),
       seqNum := seqNum u + 1\<rparr>"

text \<open>Every entry deleted calls \<open>OnEvicted\<close>, which the constructor wires to the sequence number.\<close>

definition InvalidateCapacityReservationGroup :: "('s, unit) cache_api \<Rightarrow> ('f, any_value) cache_api
    \<Rightarrow> time \<Rightarrow> ('s, 'f) unavailableOfferings \<Rightarrow> string \<Rightarrow> ('s, 'f) unavailableOfferings" where
  "InvalidateCapacityReservationGroup CS CF now u groupID =
     (let scope = capacityReservationGroupScope groupID in
      if scope = unreservedScope then u
      else let prefix = ''crg:'' @ scope @ '':'';
               (s, n) = cache_delete_all CS
                  (filter (\<lambda>key. HasPrefix key prefix) (cache_items CS now (singleOfferingCache u)))
                  (singleOfferingCache u);
               (f, m) = cache_delete_all CF
                  (filter (\<lambda>key. HasPrefix key prefix) (cache_items CF now (vmFamilyCache u)))
                  (vmFamilyCache u)
           in u\<lparr>singleOfferingCache := s, vmFamilyCache := f,
                seqNum := seqNum u + of_nat n + of_nat m\<rparr>)"

text \<open>One run of the janitors of both caches, with the callbacks the constructor installs.\<close>

definition evictExpired :: "('s, unit) cache_api \<Rightarrow> ('f, any_value) cache_api \<Rightarrow> time
    \<Rightarrow> ('s, 'f) unavailableOfferings \<Rightarrow> ('s, 'f) unavailableOfferings" where
  "evictExpired CS CF now u =
     (let (s, n) = cache_expire CS now (singleOfferingCache u);
          (f, m) = cache_expire CF now (vmFamilyCache u)
      in u\<lparr>singleOfferingCache := s, vmFamilyCache := f,
           seqNum := seqNum u + of_nat n + of_nat m\<rparr>)"

lemmas view_defs = view_MarkFamilyUnavailable_def view_MarkSpotUnavailableWithTTL_def
  view_MarkUnavailableWithTTL_def view_MarkUnavailable_def view_MarkSKUZoneUnavailableWithTTL_def
  view_IsUnavailable_def IsUnavailable_def MarkUnavailable_def MarkUnavailableWithTTL_def
  MarkFamilyUnavailable_def ForCapacityReservationGroup_def IsForCapacityReservationGroup_def

subsection \<open>Keys do not collide\<close>

definition valid_capacity :: "string \<Rightarrow> bool" where
  "valid_capacity ct \<longleftrightarrow> ct = CapacityTypeSpot \<or> ct = CapacityTypeOnDemand"

definition wf_offering :: "SKU \<Rightarrow> string \<Rightarrow> string \<Rightarrow> bool" where
  "wf_offering sku zone ct \<longleftrightarrow>
     GetName sku \<noteq> [] \<and> colon_free (GetName sku) \<and> colon_free (GetFamilyName sku) \<and>
     colon_free zone \<and> valid_capacity ct"

lemma valid_capacity_cases:
  assumes "valid_capacity ct"
  obtains "ct = ''spot''" | "ct = ''on-demand''"
  using assms by (auto simp: valid_capacity_def CapacityTypeSpot_def CapacityTypeOnDemand_def)

lemma singleInstanceKey_inj [key_simps]:
  assumes "colon_free scope" "colon_free scope'" "colon_free n" "colon_free n'"
    and "valid_capacity ct" "valid_capacity ct'"
  shows "singleInstanceKey scope n z ct = singleInstanceKey scope' n' z' ct' \<longleftrightarrow>
    scope = scope' \<and> n = n' \<and> z = z' \<and> ct = ct'"
  using assms
  by (auto simp: singleInstanceKey_def unreservedScope_def colon_split
    elim!: valid_capacity_cases)

lemma singleInstanceKey_not_skuZone [key_simps]:
  "valid_capacity ct \<Longrightarrow> singleInstanceKey scope n z ct \<noteq> skuZoneKey n' z'"
  by (auto simp: singleInstanceKey_def skuZoneKey_def elim!: valid_capacity_cases)

lemma spotKey_eq: "spotKey = ''spot::''"
  by (simp add: spotKey_def singleInstanceKey_def CapacityTypeSpot_def)

lemma singleInstanceKey_not_spot [key_simps]:
  assumes "valid_capacity ct" and "n \<noteq> []" and "colon_free n"
  shows "singleInstanceKey scope n z ct \<noteq> spotKey"
  using assms by (cases n)
    (auto simp: singleInstanceKey_def spotKey_eq colon_free_def elim!: valid_capacity_cases)

lemma skuZoneKey_not_spot [simp]: "skuZoneKey n z \<noteq> spotKey" "spotKey \<noteq> skuZoneKey n z"
  by (simp_all add: skuZoneKey_def spotKey_eq)

lemma skuZoneKey_inj [key_simps]:
  "colon_free n \<Longrightarrow> colon_free n' \<Longrightarrow> skuZoneKey n z = skuZoneKey n' z' \<longleftrightarrow> n = n' \<and> z = z'"
  by (simp add: skuZoneKey_def colon_split)

lemma lower_skuFamily:
  "ToLower ''skuFamily:'' = ''skufamily:''" "ToLower '':skuFamily:'' = '':skufamily:''"
  "ToLower ''crg:'' = ''crg:''" "ToLower '':'' = '':''"
  by code_simp+

lemma vmFamilyKey_unreserved:
  "vmFamilyKey unreservedScope fam zone ct =
     ''skufamily:'' @ ToLower fam @ '':'' @ ToLower zone @ '':'' @ ToLower ct"
  by (simp add: vmFamilyKey_def lower_skuFamily del: append_Cons append_Nil)

lemma vmFamilyKey_group: "scope \<noteq> unreservedScope \<Longrightarrow>
  vmFamilyKey scope fam zone ct =
     ''crg:'' @ ToLower scope @ '':skufamily:'' @ ToLower fam @ '':'' @ ToLower zone @ '':'' @ ToLower ct"
  by (simp add: vmFamilyKey_def lower_skuFamily del: append_Cons append_Nil)

lemma vmFamilyKey_scope:
  assumes "ToLower scope = scope" "ToLower scope' = scope'" "colon_free scope" "colon_free scope'"
    and "vmFamilyKey scope fam z ct = vmFamilyKey scope' fam' z' ct'"
  shows "scope = scope'"
proof (cases "scope = unreservedScope \<or> scope' = unreservedScope")
  case True
  then show ?thesis
    using assms(5) by (cases "scope = unreservedScope"; cases "scope' = unreservedScope")
      (simp_all add: vmFamilyKey_unreserved vmFamilyKey_group)
next
  case False
  then show ?thesis
    using assms by (simp add: vmFamilyKey_group colon_split)
qed

text \<open>The prefix \<open>crg:<group>:\<close> selects the keys of that group and no others.\<close>

lemma HasPrefix_singleInstanceKey [key_simps]:
  assumes "colon_free scope" "colon_free g" "g \<noteq> []" "valid_capacity ct"
  shows "HasPrefix (singleInstanceKey scope n z ct) (''crg:'' @ g @ '':'') \<longleftrightarrow> scope = g"
  using assms
  by (auto simp: HasPrefix_iff singleInstanceKey_def unreservedScope_def colon_split
    elim!: valid_capacity_cases)

lemma HasPrefix_vmFamilyKey [key_simps]:
  assumes "ToLower scope = scope" "colon_free scope" "colon_free g" "g \<noteq> []"
  shows "HasPrefix (vmFamilyKey scope fam z ct) (''crg:'' @ g @ '':'') \<longleftrightarrow> scope = g"
  using assms
  by (cases "scope = unreservedScope")
    (auto simp: HasPrefix_iff vmFamilyKey_unreserved [unfolded unreservedScope_def]
      vmFamilyKey_group colon_split unreservedScope_def)

lemma HasPrefix_global_keys [key_simps]:
  "\<not> HasPrefix (skuZoneKey n z) (''crg:'' @ g)" "\<not> HasPrefix spotKey (''crg:'' @ g)"
  by (simp_all add: HasPrefix_iff skuZoneKey_def spotKey_eq)

subsection \<open>The effect of one marking operation\<close>

text \<open>
  The limit a family entry holds after a mark, and when an entry blocks a size: the two decisions
  of the family code, on the value found in the cache.
\<close>

definition family_count :: "any_value option \<Rightarrow> int64 \<Rightarrow> int64" where
  "family_count found cpuCount =
     (case found of Some (AnyInt64 c) \<Rightarrow> if sint c \<le> sint cpuCount then c else cpuCount
      | _ \<Rightarrow> cpuCount)"

definition family_blocks :: "any_value option \<Rightarrow> int64 \<Rightarrow> bool" where
  "family_blocks found vcpus =
     (case found of Some (AnyInt64 b) \<Rightarrow> b = wholeVMFamilyBlockedSentinel \<or> sint b \<le> sint vcpus
      | _ \<Rightarrow> False)"

definition vcpus_of :: "SKU \<Rightarrow> int64" where
  "vcpus_of sku = (case VCPU sku of None \<Rightarrow> 0 | Some n \<Rightarrow> n)"

lemma isFamilyUnavailable_blocks:
  "isFamilyUnavailable CF t u scope sku zone ct =
     family_blocks (cache_get CF t (vmFamilyCache u) (vmFamilyKey scope (GetFamilyName sku) zone ct))
       (vcpus_of sku)"
  by (auto simp: isFamilyUnavailable_def family_blocks_def vcpus_of_def Let_def
    split: option.splits any_value.splits)

lemma isUnavailable_iff:
  "isUnavailable CS CF t u scope sku zone ct \<longleftrightarrow>
     cache_get CS t (singleOfferingCache u) (skuZoneKey (GetName sku) zone) \<noteq> None \<or>
     (ct = CapacityTypeSpot \<and> cache_get CS t (singleOfferingCache u) spotKey \<noteq> None) \<or>
     isFamilyUnavailable CF t u scope sku zone ct \<or>
     cache_get CS t (singleOfferingCache u) (singleInstanceKey scope (GetName sku) zone ct) \<noteq> None"
  by (auto simp: isUnavailable_def Let_def)

lemma family_count_le: "sint (family_count found cpuCount) \<le> sint cpuCount"
  by (auto simp: family_count_def split: option.splits any_value.splits)

lemma family_blocks_count: "sint cpuCount \<le> sint vcpus \<Longrightarrow>
    family_blocks (Some (AnyInt64 (family_count found cpuCount))) vcpus"
  using family_count_le [of found cpuCount] by (simp add: family_blocks_def)

lemma family_blocks_mono:
  assumes "family_blocks found vcpus" and "0 \<le> sint vcpus"
  shows "family_blocks (Some (AnyInt64 (family_count found cpuCount))) vcpus"
  using assms
  by (auto simp: family_blocks_def family_count_def wholeVMFamilyBlockedSentinel_def
    split: option.splits any_value.splits)

lemma Impl_effect:
  "vmFamilyCache (fst (markFamilyUnavailableAtCPUCountImpl CF now u scope sku zone ct cpu ttl)) =
     (if GetFamilyName sku = [] then vmFamilyCache u
      else cache_set CF now (vmFamilyKey scope (GetFamilyName sku) zone ct)
        (AnyInt64 (family_count
           (cache_get CF now (vmFamilyCache u) (vmFamilyKey scope (GetFamilyName sku) zone ct)) cpu))
        ttl (vmFamilyCache u))"
  "singleOfferingCache (fst (markFamilyUnavailableAtCPUCountImpl CF now u scope sku zone ct cpu ttl)) =
     singleOfferingCache u"
  "seqNum (fst (markFamilyUnavailableAtCPUCountImpl CF now u scope sku zone ct cpu ttl)) = seqNum u"
  by (simp_all add: markFamilyUnavailableAtCPUCountImpl_def family_count_def Let_def
    split: option.splits any_value.splits)

lemma Impl_unchanged:
  assumes "\<not> snd (markFamilyUnavailableAtCPUCountImpl CF now u scope sku zone ct cpu ttl)"
    and "GetFamilyName sku \<noteq> []"
    and "found = cache_get CF now (vmFamilyCache u) (vmFamilyKey scope (GetFamilyName sku) zone ct)"
  shows "found = Some (AnyInt64 (family_count found cpu))"
  using assms
  by (auto simp: markFamilyUnavailableAtCPUCountImpl_def family_count_def Let_def
    split: option.splits any_value.splits if_splits)

lemma Impl_update_single:
  "markFamilyUnavailableAtCPUCountImpl CF now (u\<lparr>singleOfferingCache := x\<rparr>) scope sku zone ct cpu ttl =
     (let (u', ch) = markFamilyUnavailableAtCPUCountImpl CF now u scope sku zone ct cpu ttl
      in (u'\<lparr>singleOfferingCache := x\<rparr>, ch))"
  by (simp add: markFamilyUnavailableAtCPUCountImpl_def Let_def split: prod.splits)

lemma markUnavailable_effect:
  "singleOfferingCache (markUnavailableWithTTL CS CF now u scope sku zone ct ttl) =
     cache_set CS now (singleInstanceKey scope (GetName sku) zone ct) () ttl (singleOfferingCache u)"
  "vmFamilyCache (markUnavailableWithTTL CS CF now u scope sku zone ct ttl) =
     (if scope = unreservedScope
      then vmFamilyCache (fst (markFamilyUnavailableAtCPUCountImpl CF now u scope sku zone ct
             (vcpus_of sku) ttl))
      else vmFamilyCache u)"
  "seqNum (markUnavailableWithTTL CS CF now u scope sku zone ct ttl) =
     (if \<not> isUnavailable CS CF now u scope sku zone ct \<or>
         scope = unreservedScope \<and>
         snd (markFamilyUnavailableAtCPUCountImpl CF now u scope sku zone ct (vcpus_of sku) ttl)
      then seqNum u + 1 else seqNum u)"
  unfolding markUnavailableWithTTL_def markFamilyUnavailableAtCPUCount_def vcpus_of_def [symmetric]
    Impl_update_single Let_def
  by (simp_all add: case_prod_beta Impl_effect)

lemma markFamily_effect:
  "singleOfferingCache (markFamilyUnavailable CF now u scope sku zone ct ttl) = singleOfferingCache u"
  "vmFamilyCache (markFamilyUnavailable CF now u scope sku zone ct ttl) =
     vmFamilyCache (fst (markFamilyUnavailableAtCPUCountImpl CF now u scope sku zone ct
       wholeVMFamilyBlockedSentinel ttl))"
  "seqNum (markFamilyUnavailable CF now u scope sku zone ct ttl) =
     (if snd (markFamilyUnavailableAtCPUCountImpl CF now u scope sku zone ct
            wholeVMFamilyBlockedSentinel ttl)
      then seqNum u + 1 else seqNum u)"
  by (simp_all add: markFamilyUnavailable_def Let_def case_prod_beta Impl_effect)

lemma markSpot_effect:
  "singleOfferingCache (MarkSpotUnavailableWithTTL CS now u ttl) =
     cache_set CS now spotKey () ttl (singleOfferingCache u)"
  "vmFamilyCache (MarkSpotUnavailableWithTTL CS now u ttl) = vmFamilyCache u"
  "seqNum (MarkSpotUnavailableWithTTL CS now u ttl) =
     (if cache_get CS now (singleOfferingCache u) spotKey = None then seqNum u + 1 else seqNum u)"
  by (simp_all add: MarkSpotUnavailableWithTTL_def Let_def)

lemma markSKUZone_effect:
  "singleOfferingCache (MarkSKUZoneUnavailableWithTTL CS now u n zone ttl) =
     cache_set CS now (skuZoneKey n zone) () ttl (singleOfferingCache u)"
  "vmFamilyCache (MarkSKUZoneUnavailableWithTTL CS now u n zone ttl) = vmFamilyCache u"
  "seqNum (MarkSKUZoneUnavailableWithTTL CS now u n zone ttl) =
     (if cache_get CS now (singleOfferingCache u) (skuZoneKey n zone) = None
      then seqNum u + 1 else seqNum u)"
  by (simp_all add: MarkSKUZoneUnavailableWithTTL_def Let_def)

lemmas mark_effects = markUnavailable_effect markFamily_effect markSpot_effect markSKUZone_effect

text \<open>The marking operations of a view, as one type, so that a law can range over all of them.\<close>

datatype mark =
    MUnavailable SKU string string duration
  | MFamily SKU string string duration
  | MSpot duration
  | MSKUZone string string duration

fun applyMark :: "('s, unit) cache_api \<Rightarrow> ('f, any_value) cache_api \<Rightarrow> time
    \<Rightarrow> ('s, 'f) unavailableOfferings \<Rightarrow> scope \<Rightarrow> mark \<Rightarrow> ('s, 'f) unavailableOfferings" where
  "applyMark CS CF now u view (MUnavailable sku zone ct ttl) =
     view_MarkUnavailableWithTTL CS CF now u view sku zone ct ttl"
| "applyMark CS CF now u view (MFamily sku zone ct ttl) =
     view_MarkFamilyUnavailable CF now u view sku zone ct ttl"
| "applyMark CS CF now u view (MSpot ttl) = view_MarkSpotUnavailableWithTTL CS now u view ttl"
| "applyMark CS CF now u view (MSKUZone n zone ttl) =
     view_MarkSKUZoneUnavailableWithTTL CS now u view n zone ttl"

fun mark_ttl :: "mark \<Rightarrow> duration" where
  "mark_ttl (MUnavailable sku zone ct ttl) = ttl"
| "mark_ttl (MFamily sku zone ct ttl) = ttl"
| "mark_ttl (MSpot ttl) = ttl"
| "mark_ttl (MSKUZone n zone ttl) = ttl"

fun mark_wf :: "mark \<Rightarrow> bool" where
  "mark_wf (MUnavailable sku zone ct ttl) = wf_offering sku zone ct"
| "mark_wf (MFamily sku zone ct ttl) = True"
| "mark_wf (MSpot ttl) = True"
| "mark_wf (MSKUZone n zone ttl) = colon_free n"

text \<open>Marks that record a capacity failure of one view, as opposed to the global ones.\<close>

fun capacity_mark :: "mark \<Rightarrow> bool" where
  "capacity_mark (MUnavailable sku zone ct ttl) = wf_offering sku zone ct"
| "capacity_mark (MFamily sku zone ct ttl) = True"
| "capacity_mark m = False"

text \<open>A SKU name identifies the SKU: the queried SKU is the marked one if they share the name.\<close>

fun same_catalogue :: "mark \<Rightarrow> SKU \<Rightarrow> bool" where
  "same_catalogue (MUnavailable sku zone ct ttl) sku' = (GetName sku' = GetName sku \<longrightarrow> sku' = sku)"
| "same_catalogue m sku' = True"

locale unavailable_offerings = single: go_cache CS + family: go_cache CF
  for CS :: "('s, unit) cache_api" and CF :: "('f, any_value) cache_api"
begin

lemma mark_blocks:
  assumes "0 < ttl" "now \<le> t" "t \<le> now + ttl"
  shows "isUnavailable CS CF t (markUnavailableWithTTL CS CF now u scope sku zone ct ttl) scope sku zone ct"
  using assms by (simp add: isUnavailable_iff mark_effects single.get_set)

lemma mark_widens:
  assumes "0 < ttl" "now \<le> t" "t \<le> now + ttl" and "GetFamilyName sku \<noteq> []"
    and "ToLower (GetFamilyName sku') = ToLower (GetFamilyName sku)"
    and "sint (vcpus_of sku) \<le> sint (vcpus_of sku')"
  shows "isUnavailable CS CF t (markUnavailableWithTTL CS CF now u unreservedScope sku zone ct ttl)
     unreservedScope sku' zone ct"
proof -
  have "vmFamilyKey unreservedScope (GetFamilyName sku') zone ct =
      vmFamilyKey unreservedScope (GetFamilyName sku) zone ct"
    by (simp add: vmFamilyKey_unreserved assms(5))
  then have "isFamilyUnavailable CF t (markUnavailableWithTTL CS CF now u unreservedScope sku zone ct ttl)
      unreservedScope sku' zone ct"
    using assms(1-4,6)
    by (simp add: isFamilyUnavailable_blocks mark_effects Impl_effect family.get_set_same
      family_blocks_count)
  then show ?thesis by (simp add: isUnavailable_iff)
qed

lemma family_get_other:
  assumes "0 < ttl" "now \<le> t" "k \<noteq> vmFamilyKey scope (GetFamilyName sku) zone ct"
  shows "cache_get CF t (vmFamilyCache (fst (markFamilyUnavailableAtCPUCountImpl CF now u scope sku
      zone ct cpu ttl))) k = cache_get CF t (vmFamilyCache u) k"
  using assms by (simp add: Impl_effect family.get_set_other)

lemma family_get_unchanged:
  assumes "\<not> snd (markFamilyUnavailableAtCPUCountImpl CF now u scope sku zone ct cpu ttl)" and "0 < ttl"
  shows "cache_get CF now (vmFamilyCache (fst (markFamilyUnavailableAtCPUCountImpl CF now u scope sku
      zone ct cpu ttl))) k = cache_get CF now (vmFamilyCache u) k"
  using assms(2) Impl_unchanged [OF assms(1) _ refl, symmetric]
  by (simp add: Impl_effect family.get_set_now)

lemma family_monotone:
  assumes "0 < ttl" "0 \<le> sint (vcpus_of sku')"
    and "family_blocks (cache_get CF now (vmFamilyCache u) k) (vcpus_of sku')"
  shows "family_blocks (cache_get CF now (vmFamilyCache (fst
      (markFamilyUnavailableAtCPUCountImpl CF now u scope sku zone ct cpu ttl))) k) (vcpus_of sku')"
proof (cases "GetFamilyName sku \<noteq> [] \<and> k = vmFamilyKey scope (GetFamilyName sku) zone ct")
  case True
  with assms show ?thesis
    using family_blocks_mono [OF assms(3,2)] by (simp add: Impl_effect family.get_set_now)
next
  case False
  with assms show ?thesis by (auto simp: Impl_effect family.get_set_now)
qed

lemma mark_isolated:
  assumes "0 < mark_ttl m" "now \<le> t" "capacity_mark m"
    and "ToLower view = view" "ToLower view' = view'" "colon_free view" "colon_free view'" "view \<noteq> view'"
    and "wf_offering sku zone ct"
  shows "isUnavailable CS CF t (applyMark CS CF now u view m) view' sku zone ct \<longleftrightarrow>
    isUnavailable CS CF t u view' sku zone ct"
proof -
  have fam: "vmFamilyKey view' fam' z' c' \<noteq> vmFamilyKey view fam z c" for fam' z' c' fam z c
    using vmFamilyKey_scope assms(4-8) by metis
  show ?thesis
  proof (cases m)
    case (MUnavailable sku' zone' ct' ttl)
    with assms have keys:
        "skuZoneKey (GetName sku) zone \<noteq> singleInstanceKey view (GetName sku') zone' ct'"
        "spotKey \<noteq> singleInstanceKey view (GetName sku') zone' ct'"
        "singleInstanceKey view' (GetName sku) zone ct \<noteq> singleInstanceKey view (GetName sku') zone' ct'"
      by (simp_all add: wf_offering_def key_simps singleInstanceKey_not_skuZone [symmetric]
        singleInstanceKey_not_spot [symmetric])
    with MUnavailable assms(1,2) fam show ?thesis
      by (cases "view = unreservedScope")
        (simp_all add: isUnavailable_iff isFamilyUnavailable_blocks view_defs mark_effects
          family_get_other single.get_set_other)
  next
    case (MFamily sku' zone' ct' ttl)
    with assms(1,2) fam show ?thesis
      by (simp add: isUnavailable_iff isFamilyUnavailable_blocks view_defs mark_effects
        family_get_other)
  qed (use assms in simp_all)
qed

lemma mark_monotone:
  assumes "0 < mark_ttl m" "0 \<le> sint (vcpus_of sku)"
    and "isUnavailable CS CF now u scope sku zone ct"
  shows "isUnavailable CS CF now (applyMark CS CF now u view m) scope sku zone ct"
  using assms
  by (cases m) (auto simp: isUnavailable_iff isFamilyUnavailable_blocks view_defs mark_effects
      single.get_set_now family_monotone)

lemma mark_seq_coherent:
  assumes "0 < mark_ttl m" "mark_wf m" "colon_free view" "colon_free scope"
    and "wf_offering sku zone ct" "same_catalogue m sku"
    and "seqNum (applyMark CS CF now u view m) = seqNum u"
  shows "isUnavailable CS CF now (applyMark CS CF now u view m) scope sku zone ct =
    isUnavailable CS CF now u scope sku zone ct"
proof (cases m)
  case (MUnavailable sku' zone' ct' ttl)
  let ?K = "singleInstanceKey view (GetName sku') zone' ct'"
  from MUnavailable assms(7) have was: "isUnavailable CS CF now u view sku' zone' ct'"
    and unch: "view = unreservedScope \<Longrightarrow>
      \<not> snd (markFamilyUnavailableAtCPUCountImpl CF now u view sku' zone' ct' (vcpus_of sku') ttl)"
    by (auto simp: view_defs mark_effects split: if_splits)
  from MUnavailable assms have other: "skuZoneKey (GetName sku) zone \<noteq> ?K" "spotKey \<noteq> ?K"
    by (simp_all add: wf_offering_def singleInstanceKey_not_skuZone [symmetric]
      singleInstanceKey_not_spot [symmetric])
  have same: "singleInstanceKey scope (GetName sku) zone ct = ?K \<Longrightarrow>
      isUnavailable CS CF now u scope sku zone ct"
    using MUnavailable assms(2-6) was by (auto simp: wf_offering_def singleInstanceKey_inj)
  from MUnavailable assms(1) have fam: "isFamilyUnavailable CF now (applyMark CS CF now u view m) scope sku zone ct =
      isFamilyUnavailable CF now u scope sku zone ct"
    using unch by (auto simp: isFamilyUnavailable_blocks view_defs mark_effects family_get_unchanged)
  show ?thesis
  proof (cases "singleInstanceKey scope (GetName sku) zone ct = ?K")
    case True
    with MUnavailable assms(1)
    have "isUnavailable CS CF now (applyMark CS CF now u view m) scope sku zone ct"
      by (simp add: isUnavailable_iff view_defs mark_effects single.get_set_now)
    with same [OF True] show ?thesis by simp
  next
    case False
    with other fam MUnavailable assms(1) show ?thesis
      by (simp add: isUnavailable_iff view_defs mark_effects single.get_set_now)
  qed
next
  case (MFamily sku' zone' ct' ttl)
  with assms(1,7) show ?thesis
    by (simp add: isUnavailable_iff isFamilyUnavailable_blocks view_defs mark_effects
      family_get_unchanged split: if_splits)
next
  case (MSpot ttl)
  with assms(1,7) show ?thesis
    by (auto simp: isUnavailable_iff isFamilyUnavailable_blocks view_defs mark_effects
      single.get_set_now split: if_splits)
next
  case (MSKUZone n zone' ttl)
  with assms(1,7) show ?thesis
    by (auto simp: isUnavailable_iff isFamilyUnavailable_blocks view_defs mark_effects
      single.get_set_now split: if_splits)
qed

text \<open>What a mark leaves in the caches for the offerings it is not about.\<close>

lemma mark_single_other:
  assumes "0 < ttl" "now \<le> t" "wf_offering sku zone ct" "wf_offering sku' zone ct"
    and "GetName sku' \<noteq> GetName sku"
    and "k \<in> {skuZoneKey (GetName sku') zone, spotKey,
      singleInstanceKey unreservedScope (GetName sku') zone ct}"
  shows "cache_get CS t (singleOfferingCache
      (markUnavailableWithTTL CS CF now u unreservedScope sku zone ct ttl)) k =
    cache_get CS t (singleOfferingCache u) k"
proof -
  have "colon_free unreservedScope" by (simp add: unreservedScope_def colon_free_def)
  with assms have "k \<noteq> singleInstanceKey unreservedScope (GetName sku) zone ct"
    by (auto simp: wf_offering_def key_simps singleInstanceKey_not_skuZone [symmetric]
      singleInstanceKey_not_spot [symmetric])
  with assms(1,2) show ?thesis by (simp add: mark_effects single.get_set_other)
qed

lemma mark_family_expired:
  assumes "0 < ttl" "now + ttl < t" "GetFamilyName sku \<noteq> []"
    and "GetFamilyName sku' = GetFamilyName sku"
  shows "\<not> isFamilyUnavailable CF t (markUnavailableWithTTL CS CF now u unreservedScope sku zone ct ttl)
    unreservedScope sku' zone ct"
  using assms
  by (simp add: isFamilyUnavailable_blocks mark_effects Impl_effect family.get_set family_blocks_def)

lemma spot_mark_blocks:
  assumes "0 < ttl" "now \<le> t" "t \<le> now + ttl"
  shows "isUnavailable CS CF t (MarkSpotUnavailableWithTTL CS now u ttl) scope sku zone CapacityTypeSpot"
  using assms by (simp add: isUnavailable_iff mark_effects single.get_set)

lemma spot_mark_on_demand:
  assumes "0 < ttl" "now \<le> t" "wf_offering sku zone CapacityTypeOnDemand"
  shows "isUnavailable CS CF t (MarkSpotUnavailableWithTTL CS now u ttl) scope sku zone CapacityTypeOnDemand
    = isUnavailable CS CF t u scope sku zone CapacityTypeOnDemand"
proof -
  from assms(3) have "singleInstanceKey scope (GetName sku) zone CapacityTypeOnDemand \<noteq> spotKey"
    by (simp add: wf_offering_def singleInstanceKey_not_spot)
  with assms(1,2) show ?thesis
    by (simp add: isUnavailable_iff isFamilyUnavailable_blocks mark_effects single.get_set)
qed

lemma skuZone_mark:
  assumes "0 < ttl" "now \<le> t" "t \<le> now + ttl" "wf_offering sku zone ct" "colon_free n"
  shows "isUnavailable CS CF t (MarkSKUZoneUnavailableWithTTL CS now u n z ttl) scope sku zone ct \<longleftrightarrow>
    GetName sku = n \<and> zone = z \<or> isUnavailable CS CF t u scope sku zone ct"
proof -
  from assms(4) have "singleInstanceKey scope (GetName sku) zone ct \<noteq> skuZoneKey n z"
    by (simp add: wf_offering_def singleInstanceKey_not_skuZone)
  moreover from assms(4,5) have "skuZoneKey (GetName sku) zone = skuZoneKey n z \<longleftrightarrow> GetName sku = n \<and> zone = z"
    by (simp add: wf_offering_def skuZoneKey_inj)
  ultimately show ?thesis using assms(1-3)
    by (auto simp: isUnavailable_iff isFamilyUnavailable_blocks mark_effects single.get_set)
qed

lemma invalidate_effect:
  assumes "groupID \<noteq> []" "now \<le> t"
  shows "cache_get CS t (singleOfferingCache (InvalidateCapacityReservationGroup CS CF now u groupID)) k =
      (if HasPrefix k (''crg:'' @ ToLower groupID @ '':'') then None
       else cache_get CS t (singleOfferingCache u) k)"
    and "cache_get CF t (vmFamilyCache (InvalidateCapacityReservationGroup CS CF now u groupID)) k =
      (if HasPrefix k (''crg:'' @ ToLower groupID @ '':'') then None
       else cache_get CF t (vmFamilyCache u) k)"
  using assms unfolding InvalidateCapacityReservationGroup_def
  by (simp_all add: capacityReservationGroupScope_def unreservedScope_def Let_def case_prod_beta
    single.get_delete_matching family.get_delete_matching)

lemma invalidate_group:
  assumes "groupID \<noteq> []" "colon_free groupID" "now \<le> t" "wf_offering sku zone ct"
    and "ToLower view = view" "colon_free view"
  shows "isUnavailable CS CF t (InvalidateCapacityReservationGroup CS CF now u groupID) view sku zone ct \<longleftrightarrow>
    (if view = ToLower groupID
     then cache_get CS t (singleOfferingCache u) (skuZoneKey (GetName sku) zone) \<noteq> None \<or>
       ct = CapacityTypeSpot \<and> cache_get CS t (singleOfferingCache u) spotKey \<noteq> None
     else isUnavailable CS CF t u view sku zone ct)"
proof -
  define p where "p = ''crg:'' @ ToLower groupID @ '':''"
  note effect = invalidate_effect [OF assms(1,3), folded p_def]
  from assms have "HasPrefix (singleInstanceKey view (GetName sku) zone ct) p \<longleftrightarrow> view = ToLower groupID"
    unfolding p_def by (intro HasPrefix_singleInstanceKey) (simp_all add: wf_offering_def)
  moreover from assms have "HasPrefix (vmFamilyKey view (GetFamilyName sku) zone ct) p \<longleftrightarrow>
      view = ToLower groupID"
    unfolding p_def by (intro HasPrefix_vmFamilyKey) simp_all
  moreover have "\<not> HasPrefix (skuZoneKey (GetName sku) zone) p" "\<not> HasPrefix spotKey p"
    unfolding p_def by (rule HasPrefix_global_keys)+
  ultimately show ?thesis
    by (simp add: isUnavailable_iff isFamilyUnavailable_blocks effect family_blocks_def)
qed

end

interpretation uo: unavailable_offerings exp_cache exp_cache
  by unfold_locales

subsection \<open>Properties\<close>

text \<open>Sample values the witnesses evaluate the definitions on.\<close>

definition D4 :: SKU where
  "D4 = \<lparr>GetName = ''D4'', GetFamilyName = ''DFamily'', VCPU = Some 4\<rparr>"

definition D8 :: SKU where
  "D8 = \<lparr>GetName = ''D8'', GetFamilyName = ''dfamily'', VCPU = Some 8\<rparr>"

definition D64 :: SKU where
  "D64 = \<lparr>GetName = ''D64'', GetFamilyName = ''DFamily'', VCPU = Some 64\<rparr>"

definition no_offerings :: "(unit exp_cache, any_value exp_cache) unavailableOfferings" where
  "no_offerings = \<lparr>singleOfferingCache = [], vmFamilyCache = [], seqNum = 0\<rparr>"

lemmas sample_defs = D4_def D8_def D64_def no_offerings_def

lemma wf_samples [simp]:
  "wf_offering D4 ''eastus-1'' CapacityTypeOnDemand" "wf_offering D8 ''eastus-1'' CapacityTypeOnDemand"
  "wf_offering D64 ''eastus-1'' CapacityTypeOnDemand"
  by (simp_all add: wf_offering_def sample_defs colon_free_def valid_capacity_def)

lemma lower_family: "ToLower ''dfamily'' = ToLower ''DFamily''"
  by code_simp

text \<open>
  C4: after \<open>MarkUnavailableWithTTL\<close> for a SKU, a zone and a capacity type, every SKU of the same
  family (compared case-insensitively) with at least as many vCPUs is reported unavailable there,
  for the whole time to live of the mark.
\<close>

theorem mark_blocks_larger_family_sizes:
  assumes "go_cache CS" and "go_cache CF"
    and "0 < ttl" and "now \<le> t" and "t \<le> now + ttl"
    and "GetFamilyName sku \<noteq> []"
    and "ToLower (GetFamilyName sku') = ToLower (GetFamilyName sku)"
    and "sint (vcpus_of sku) \<le> sint (vcpus_of sku')"
  shows "IsUnavailable CS CF t (MarkUnavailableWithTTL CS CF now u sku zone ct ttl) sku' zone ct"
  using unavailable_offerings.mark_widens [OF unavailable_offerings.intro, OF assms]
  by (simp add: view_defs)

theorem mark_blocks_larger_family_sizes_witness:
  "IsUnavailable exp_cache exp_cache 5
     (MarkUnavailableWithTTL exp_cache exp_cache 0 no_offerings D4 ''eastus-1'' CapacityTypeOnDemand 10)
     D8 ''eastus-1'' CapacityTypeOnDemand"
  by (rule mark_blocks_larger_family_sizes [OF exp_cache.go_cache_axioms exp_cache.go_cache_axioms])
     (simp_all add: sample_defs lower_family vcpus_of_def)

text \<open>
  a capacity failure recorded through the view of one capacity reservation group (or outside
  any group) leaves the answers of every other view unchanged, now and later.
\<close>

theorem capacity_mark_stays_in_its_view:
  assumes "go_cache CS" and "go_cache CF"
    and "0 < mark_ttl m" and "now \<le> t" and "capacity_mark m"
    and "view = ForCapacityReservationGroup g" and "view' = ForCapacityReservationGroup g'"
    and "colon_free g" and "colon_free g'" and "view \<noteq> view'"
    and "wf_offering sku zone ct"
  shows "view_IsUnavailable CS CF t (applyMark CS CF now u view m) view' sku zone ct =
    view_IsUnavailable CS CF t u view' sku zone ct"
  using unavailable_offerings.mark_isolated
    [OF unavailable_offerings.intro, OF assms(1-5), of view view' sku zone ct u] assms(6-11)
  by (simp add: view_defs capacityReservationGroupScope_def)

theorem capacity_mark_stays_in_its_view_witness:
  "view_IsUnavailable exp_cache exp_cache 5
     (applyMark exp_cache exp_cache 0 no_offerings (ForCapacityReservationGroup ''/groups/G1'')
        (MUnavailable D4 ''eastus-1'' CapacityTypeOnDemand 10))
     (ForCapacityReservationGroup []) D4 ''eastus-1'' CapacityTypeOnDemand =
   view_IsUnavailable exp_cache exp_cache 5 no_offerings
     (ForCapacityReservationGroup []) D4 ''eastus-1'' CapacityTypeOnDemand"
  by (rule capacity_mark_stays_in_its_view
       [OF exp_cache.go_cache_axioms exp_cache.go_cache_axioms, of _ _ _ _ "''/groups/G1''" _ "[]"])
     (simp_all add: ForCapacityReservationGroup_def capacityReservationGroupScope_def colon_free_def
       ToLower_def)

text \<open>
  no marking operation, through any view, makes an offering available again at that moment: an
  offering that is unavailable in some view just before it is unavailable there just after it.
\<close>

theorem marking_never_unblocks:
  assumes "go_cache CS" and "go_cache CF"
    and "0 < mark_ttl m" and "0 \<le> sint (vcpus_of sku)"
    and "view_IsUnavailable CS CF now u view' sku zone ct"
  shows "view_IsUnavailable CS CF now (applyMark CS CF now u view m) view' sku zone ct"
  using unavailable_offerings.mark_monotone [OF unavailable_offerings.intro, OF assms(1-4)] assms(5)
  by (simp add: view_IsUnavailable_def)

theorem marking_never_unblocks_witness:
  "view_IsUnavailable exp_cache exp_cache 3
     (applyMark exp_cache exp_cache 3
        (MarkUnavailableWithTTL exp_cache exp_cache 0 no_offerings D4 ''eastus-1'' CapacityTypeOnDemand 10)
        unreservedScope (MUnavailable D64 ''eastus-1'' CapacityTypeOnDemand 1))
     unreservedScope D8 ''eastus-1'' CapacityTypeOnDemand"
proof (rule marking_never_unblocks [OF exp_cache.go_cache_axioms exp_cache.go_cache_axioms])
  show "view_IsUnavailable exp_cache exp_cache 3
     (MarkUnavailableWithTTL exp_cache exp_cache 0 no_offerings D4 ''eastus-1'' CapacityTypeOnDemand 10)
     unreservedScope D8 ''eastus-1'' CapacityTypeOnDemand"
    using uo.mark_widens [of 10 0 3 D4 D8] by (simp add: view_defs sample_defs lower_family vcpus_of_def)
qed (simp_all add: sample_defs vcpus_of_def)

text \<open>
  the sequence number tells a client that its cached answers are stale: if a marking operation
  leaves the sequence number alone, then no query of any view changes its answer. (A SKU name
  identifies its SKU: two SKUs of the same name are the same.)
\<close>

theorem unchanged_seqNum_means_unchanged_answers:
  assumes "go_cache CS" and "go_cache CF"
    and "0 < mark_ttl m" and "mark_wf m" and "colon_free view" and "colon_free view'"
    and "wf_offering sku zone ct" and "same_catalogue m sku"
    and "seqNum (applyMark CS CF now u view m) = seqNum u"
  shows "view_IsUnavailable CS CF now (applyMark CS CF now u view m) view' sku zone ct =
    view_IsUnavailable CS CF now u view' sku zone ct"
  using unavailable_offerings.mark_seq_coherent [OF unavailable_offerings.intro, OF assms]
  by (simp add: view_IsUnavailable_def)

theorem unchanged_seqNum_means_unchanged_answers_witness:
  "view_IsUnavailable exp_cache exp_cache 0
     (applyMark exp_cache exp_cache 0 (MarkSpotUnavailableWithTTL exp_cache 0 no_offerings 7)
        unreservedScope (MSpot 9))
     unreservedScope D8 ''eastus-1'' CapacityTypeOnDemand =
   view_IsUnavailable exp_cache exp_cache 0 (MarkSpotUnavailableWithTTL exp_cache 0 no_offerings 7)
     unreservedScope D8 ''eastus-1'' CapacityTypeOnDemand"
  by (rule unchanged_seqNum_means_unchanged_answers
       [OF exp_cache.go_cache_axioms exp_cache.go_cache_axioms])
     (simp_all add: view_defs mark_effects no_offerings_def ec_get_def ec_set_def unreservedScope_def
       colon_free_def)

text \<open>
  invalidating a capacity reservation group clears that group's capacity failures, so only the
  global spot and SKU-zone exclusions still block its offerings, and it leaves the answers of every
  other view as they were.
\<close>

theorem invalidation_clears_exactly_one_group:
  assumes "go_cache CS" and "go_cache CF"
    and "groupID \<noteq> []" and "colon_free groupID" and "now \<le> t" and "wf_offering sku zone ct"
    and "view = ForCapacityReservationGroup g" and "colon_free g"
  shows "view_IsUnavailable CS CF t (InvalidateCapacityReservationGroup CS CF now u groupID)
      view sku zone ct \<longleftrightarrow>
    (if view = ForCapacityReservationGroup groupID
     then cache_get CS t (singleOfferingCache u) (skuZoneKey (GetName sku) zone) \<noteq> None \<or>
       ct = CapacityTypeSpot \<and> cache_get CS t (singleOfferingCache u) spotKey \<noteq> None
     else view_IsUnavailable CS CF t u view sku zone ct)"
  using unavailable_offerings.invalidate_group
    [OF unavailable_offerings.intro, OF assms(1-6), of view u] assms(7,8)
  by (simp add: view_defs capacityReservationGroupScope_def)

theorem invalidation_clears_exactly_one_group_witness:
  "\<not> view_IsUnavailable exp_cache exp_cache 5
      (InvalidateCapacityReservationGroup exp_cache exp_cache 4
        (applyMark exp_cache exp_cache 0 no_offerings (ForCapacityReservationGroup ''g1'')
          (MUnavailable D4 ''eastus-1'' CapacityTypeOnDemand 10)) ''G1'')
      (ForCapacityReservationGroup ''g1'') D4 ''eastus-1'' CapacityTypeOnDemand"
proof -
  have low: "ToLower ''G1'' = ''g1''" "ToLower ''g1'' = ''g1''" by code_simp+
  have "skuZoneKey ''D4'' ''eastus-1'' \<noteq> singleInstanceKey ''g1'' ''D4'' ''eastus-1'' ''on-demand''"
    by (simp add: skuZoneKey_def singleInstanceKey_def unreservedScope_def)
  then show ?thesis
    using low by (subst invalidation_clears_exactly_one_group
        [OF exp_cache.go_cache_axioms exp_cache.go_cache_axioms, of _ _ _ _ _ _ _ "''g1''"])
      (simp_all add: colon_free_def view_defs capacityReservationGroupScope_def mark_effects
        no_offerings_def ec_get_def ec_set_def CapacityTypeOnDemand_def CapacityTypeSpot_def
        sample_defs wf_offering_def valid_capacity_def)
qed

text \<open>
  the expiry of a family block is that of the last mark, which can shorten it. A first mark
  blocks the family from a small size on for \<open>ttl1\<close>; a later mark of a larger size with a
  shorter time to live keeps the small limit but moves its expiry forward. A size of that family
  that the first mark had blocked until \<open>now1 + ttl1\<close> is available again after \<open>now2 + ttl2\<close>.
\<close>

theorem later_mark_shortens_family_block:
  assumes "go_cache CS" and "go_cache CF"
    and "0 < ttl1" and "0 < ttl2" and "now1 \<le> now2" and "now2 + ttl2 < t" and "t \<le> now1 + ttl1"
    and "\<forall>key. cache_get CS t (singleOfferingCache u) key = None"
    and "GetFamilyName sku1 \<noteq> []" and "GetFamilyName sku2 = GetFamilyName sku1"
    and "GetFamilyName sku' = GetFamilyName sku1"
    and "sint (vcpus_of sku1) \<le> sint (vcpus_of sku')"
    and "wf_offering sku1 zone ct" and "wf_offering sku2 zone ct" and "wf_offering sku' zone ct"
    and "GetName sku' \<noteq> GetName sku1" and "GetName sku' \<noteq> GetName sku2"
    and "u1 = MarkUnavailableWithTTL CS CF now1 u sku1 zone ct ttl1"
    and "u2 = MarkUnavailableWithTTL CS CF now2 u1 sku2 zone ct ttl2"
  shows "IsUnavailable CS CF t u1 sku' zone ct \<and> \<not> IsUnavailable CS CF t u2 sku' zone ct"
proof -
  note uo = unavailable_offerings.intro [OF assms(1,2)]
  have "isUnavailable CS CF t u1 unreservedScope sku' zone ct"
    using unavailable_offerings.mark_widens [OF uo, of ttl1 now1 t sku1 sku'] assms
    by (simp add: view_defs)
  moreover have "\<not> isUnavailable CS CF t u2 unreservedScope sku' zone ct"
    using unavailable_offerings.mark_family_expired [OF uo, of ttl2 now2 t sku2 sku' u1 zone ct]
      unavailable_offerings.mark_single_other [OF uo] assms
    by (simp add: view_defs isUnavailable_iff)
  ultimately show ?thesis by (simp add: IsUnavailable_def)
qed

theorem later_mark_shortens_family_block_witness:
  "let u1 = MarkUnavailableWithTTL exp_cache exp_cache 0 no_offerings D4 ''eastus-1''
              CapacityTypeOnDemand Hour;
       u2 = MarkUnavailableWithTTL exp_cache exp_cache Minute u1 D64 ''eastus-1''
              CapacityTypeOnDemand (10 * Minute)
   in IsUnavailable exp_cache exp_cache (20 * Minute) u1 (D8\<lparr>GetFamilyName := ''DFamily''\<rparr>) ''eastus-1''
        CapacityTypeOnDemand \<and>
      \<not> IsUnavailable exp_cache exp_cache (20 * Minute) u2 (D8\<lparr>GetFamilyName := ''DFamily''\<rparr>) ''eastus-1''
        CapacityTypeOnDemand"
  unfolding Let_def
  by (rule later_mark_shortens_family_block [OF exp_cache.go_cache_axioms exp_cache.go_cache_axioms,
        of Hour "10 * Minute" 0 Minute])
     (simp_all add: duration_defs sample_defs ec_get_def vcpus_of_def wf_offering_def colon_free_def
       valid_capacity_def)

end
