(* ===== verification/Offering_Errors.thy ===== *)
theory Offering_Errors
  imports Unavailable_Offerings Zones
begin

text \<open>
  The handlers of launch errors (src/pkg/providers/instance/offerings). A launch error is classified
  by the first entry of a handler table that matches it; the entry's handler marks offerings
  unavailable through the view of the launch's capacity reservation group and returns the error to
  report. There are three tables: for SDK response errors of VM creates, for the error details of
  AKS machines, and for errors of the AKS machine begin-create call.

  The state is the one of \<open>Unavailable_Offerings\<close>. What a handler calls outside this package is in
  its context: the two cache implementations, Karpenter core, the iteration order of a map, and the
  clock, read once per handler call. The matchers of azure-sdk-for-go-extensions are the fields of
  \<open>sdk_matchers\<close>, and the result of \<open>errors.As\<close> on a response error is the field \<open>asResponseError\<close>.

  Shown here: a handler amounts to a list of marks; no handler ever unblocks an offering;
  allocation failures block exactly the attempted placement scope, zonal ones exactly one zone;
  failures in a group stay in it; the tables take the first match and agree with each other.
\<close>

record ('s, 'f, 'r) handler_ctx =
  ctxSingle :: "('s, unit) cache_api"
  ctxFamily :: "('f, any_value) cache_api"
  ctxKarpenter :: "'r karpenter_api"
  ctxRange :: "string list \<Rightarrow> string list"
  ctxNow :: time

text \<open>The errors the handlers return; a nil error is \<open>None\<close>.\<close>

datatype launch_error =
    CreateError (errReason: string) (errMessage: string)
  | InsufficientCapacityError (errMessage: string)

definition SubscriptionQuotaReachedReason :: string where
  "SubscriptionQuotaReachedReason = ''SubscriptionQuotaReached''"
definition RegionalQuotaReachedReason :: string where
  "RegionalQuotaReachedReason = ''RegionalQuotaReached''"
definition AllocationFailureReason :: string where
  "AllocationFailureReason = ''AllocationFailure''"
definition ZonalAllocationFailureReason :: string where
  "ZonalAllocationFailureReason = ''ZonalAllocationFailure''"
definition OverconstrainedZonalAllocationFailureReason :: string where
  "OverconstrainedZonalAllocationFailureReason = ''OverconstrainedZonalAllocationFailure''"
definition OverconstrainedAllocationFailureReason :: string where
  "OverconstrainedAllocationFailureReason = ''OverconstrainedAllocationFailure''"
definition SKUNotAvailableReason :: string where
  "SKUNotAvailableReason = ''SKUNotAvailable''"
definition InvalidAvailabilityZoneReason :: string where
  "InvalidAvailabilityZoneReason = ''InvalidAvailabilityZone''"

definition LowQuotaTTL :: duration where
  "LowQuotaTTL = 10 * Minute"
definition CapacityReservationQuotaReachedTTL :: duration where
  "CapacityReservationQuotaReachedTTL = 10 * Minute"
definition SubscriptionQuotaReachedTTL :: duration where
  "SubscriptionQuotaReachedTTL = 1 * Hour"
definition AllocationFailureTTL :: duration where
  "AllocationFailureTTL = 1 * Hour"
definition InvalidAvailabilityZoneTTL :: duration where
  "InvalidAvailabilityZoneTTL = 4 * Hour"
definition SKUNotAvailableSpotTTL :: duration where
  "SKUNotAvailableSpotTTL = 1 * Hour"
definition SKUNotAvailableOnDemandTTL :: duration where
  "SKUNotAvailableOnDemandTTL = 23 * Hour"

lemmas ttl_defs = LowQuotaTTL_def CapacityReservationQuotaReachedTTL_def SubscriptionQuotaReachedTTL_def
  AllocationFailureTTL_def InvalidAvailabilityZoneTTL_def SKUNotAvailableSpotTTL_def
  SKUNotAvailableOnDemandTTL_def duration_defs

subsection \<open>Offerings\<close>

definition getOfferingCapacityType :: "'r karpenter_api \<Rightarrow> 'r offering \<Rightarrow> string" where
  "getOfferingCapacityType K off = getAny K (Requirements off) CapacityTypeLabelKey"

definition getOfferingZone :: "'r karpenter_api \<Rightarrow> 'r offering \<Rightarrow> string" where
  "getOfferingZone K off = getAny K (Requirements off) LabelTopologyZone"

definition GetInstanceTypeFromVMSize :: "string \<Rightarrow> 'r instanceType list \<Rightarrow> 'r instanceType option" where
  "GetInstanceTypeFromVMSize vmSize possibleInstanceTypes =
     List.find (\<lambda>i. Name i = vmSize) possibleInstanceTypes"

subsection \<open>Shared marking loops\<close>

text \<open>\<open>MarkUnavailableWithTTL\<close> of the view the handler was given.\<close>

abbreviation ctxMark :: "('s, 'f, 'r) handler_ctx \<Rightarrow> scope \<Rightarrow> SKU \<Rightarrow> string \<Rightarrow> string \<Rightarrow> duration
    \<Rightarrow> ('s, 'f) unavailableOfferings \<Rightarrow> ('s, 'f) unavailableOfferings" where
  "ctxMark c view sku zone capacityType ttl u \<equiv>
     view_MarkUnavailableWithTTL (ctxSingle c) (ctxFamily c) (ctxNow c) u view sku zone capacityType ttl"

definition markOfferingsUnavailableForCapacityTypeAndPlacement :: "('s, 'f, 'r) handler_ctx
    \<Rightarrow> ('s, 'f) unavailableOfferings \<Rightarrow> scope \<Rightarrow> SKU \<Rightarrow> 'r instanceType \<Rightarrow> string \<Rightarrow> string \<Rightarrow> duration
    \<Rightarrow> ('s, 'f) unavailableOfferings" where
  "markOfferingsUnavailableForCapacityTypeAndPlacement c u view sku it zone capacityType ttl =
     (let K = ctxKarpenter c; selectedPlacementScope = PlacementScopeForZone zone in
      foldl (\<lambda>u off.
          if getOfferingCapacityType K off \<noteq> capacityType \<or>
             PlacementScopeForOffering K off \<noteq> selectedPlacementScope then u
          else if IsForCapacityReservationGroup view \<and> getOfferingZone K off \<noteq> zone then u
          else ctxMark c view sku (getOfferingZone K off) capacityType ttl u)
        u (ITOfferings it))"

definition markZonesForBothCapacityTypes :: "('s, 'f, 'r) handler_ctx \<Rightarrow> ('s, 'f) unavailableOfferings
    \<Rightarrow> scope \<Rightarrow> SKU \<Rightarrow> string list \<Rightarrow> duration \<Rightarrow> ('s, 'f) unavailableOfferings" where
  "markZonesForBothCapacityTypes c u view sku zonesToBlock ttl =
     foldl (\<lambda>u blockedZone.
         ctxMark c view sku blockedZone CapacityTypeSpot ttl
           (ctxMark c view sku blockedZone CapacityTypeOnDemand ttl u))
       u (ctxRange c zonesToBlock)"

definition markOfferingsUnavailableForPlacementForBothCapacityTypes :: "('s, 'f, 'r) handler_ctx
    \<Rightarrow> ('s, 'f) unavailableOfferings \<Rightarrow> scope \<Rightarrow> SKU \<Rightarrow> 'r instanceType \<Rightarrow> string \<Rightarrow> duration
    \<Rightarrow> ('s, 'f) unavailableOfferings" where
  "markOfferingsUnavailableForPlacementForBothCapacityTypes c u view sku it zone ttl =
     (let K = ctxKarpenter c; selectedPlacementScope = PlacementScopeForZone zone;
          zonesToBlock = map (getOfferingZone K)
            (filter (\<lambda>off. PlacementScopeForOffering K off = selectedPlacementScope \<and>
                \<not> (IsForCapacityReservationGroup view \<and> getOfferingZone K off \<noteq> zone))
              (ITOfferings it))
      in markZonesForBothCapacityTypes c u view sku zonesToBlock ttl)"

definition markAllPlacementsUnavailableForBothCapacityTypes :: "('s, 'f, 'r) handler_ctx
    \<Rightarrow> ('s, 'f) unavailableOfferings \<Rightarrow> scope \<Rightarrow> SKU \<Rightarrow> 'r instanceType \<Rightarrow> duration
    \<Rightarrow> ('s, 'f) unavailableOfferings" where
  "markAllPlacementsUnavailableForBothCapacityTypes c u view sku it ttl =
     markZonesForBothCapacityTypes c u view sku (map (getOfferingZone (ctxKarpenter c)) (ITOfferings it)) ttl"

definition cpuLimitIsZero :: "string \<Rightarrow> bool" where
  "cpuLimitIsZero errorMessage = Contains errorMessage ''Current Limit: 0''"

subsection \<open>Handlers\<close>

type_synonym ('s, 'f, 'r) errorHandle =
  "('s, 'f, 'r) handler_ctx \<Rightarrow> ('s, 'f) unavailableOfferings \<Rightarrow> scope \<Rightarrow> SKU \<Rightarrow> 'r instanceType
    \<Rightarrow> string \<Rightarrow> string \<Rightarrow> string \<Rightarrow> string \<Rightarrow> ('s, 'f) unavailableOfferings \<times> launch_error option"

definition handleLowPriorityQuotaError :: "('s, 'f, 'r) errorHandle" where
  "handleLowPriorityQuotaError c u view sku it zone capacityType errorCode errorMessage =
     (view_MarkSpotUnavailableWithTTL (ctxSingle c) (ctxNow c) u view SubscriptionQuotaReachedTTL,
      Some (CreateError SubscriptionQuotaReachedReason
        ''this subscription has reached the regional vCPU quota for spot (LowPriorityQuota). To scale beyond this limit, please review the quota increase process here: https://docs.microsoft.com/en-us/azure/azure-portal/supportability/low-priority-quota''))"

definition handleSKUFamilyQuotaError :: "('s, 'f, 'r) errorHandle" where
  "handleSKUFamilyQuotaError c u view sku it zone capacityType errorCode errorMessage =
     (let K = ctxKarpenter c in
      (foldl (\<lambda>u off.
           if getOfferingCapacityType K off \<noteq> capacityType then u
           else if IsForCapacityReservationGroup view \<and> getOfferingZone K off \<noteq> zone then u
           else if cpuLimitIsZero errorMessage
           then ctxMark c view sku (getOfferingZone K off) capacityType SubscriptionQuotaReachedTTL u
           else ctxMark c view sku (getOfferingZone K off) capacityType LowQuotaTTL u)
         u (ITOfferings it),
       Some (CreateError SubscriptionQuotaReachedReason
         (''subscription level '' @ capacityType @ '' vCPU quota for '' @ Name it @
          '' has been reached (may try provision an alternative instance type)''))))"

definition handleSKUNotAvailableError :: "('s, 'f, 'r) errorHandle" where
  "handleSKUNotAvailableError c u view sku it zone capacityType errorCode errorMessage =
     (let skuNotAvailableTTL = (if capacityType = CapacityTypeOnDemand then SKUNotAvailableOnDemandTTL
                                else SKUNotAvailableSpotTTL) in
      (markOfferingsUnavailableForCapacityTypeAndPlacement c u view sku it zone capacityType skuNotAvailableTTL,
       Some (CreateError SKUNotAvailableReason
         (''the requested SKU is unavailable for instance type '' @ Name it @ '' in zone '' @ zone @
          '' with capacity type '' @ capacityType @
          '', for more details please visit: https://aka.ms/azureskunotavailable''))))"

definition handleInvalidAvailabilityZoneError :: "('s, 'f, 'r) errorHandle" where
  "handleInvalidAvailabilityZoneError c u view sku it zone capacityType errorCode errorMessage =
     (if zone = [] \<or> zone = Regional then (u, None)
      else (view_MarkSKUZoneUnavailableWithTTL (ctxSingle c) (ctxNow c) u view (Name it) zone
              InvalidAvailabilityZoneTTL,
            Some (CreateError InvalidAvailabilityZoneReason
              (''availability zone '' @ zone @ '' is not supported for instance type '' @ Name it @
               '' (will try another available placement)''))))"

definition handleZonalAllocationFailureError :: "('s, 'f, 'r) errorHandle" where
  "handleZonalAllocationFailureError c u view sku it zone capacityType errorCode errorMessage =
     (ctxMark c view sku zone CapacityTypeSpot AllocationFailureTTL
        (ctxMark c view sku zone CapacityTypeOnDemand AllocationFailureTTL u),
      Some (CreateError ZonalAllocationFailureReason
        (''unable to allocate resources in the selected zone ('' @ zone @
         ''). (will try a different zone to fulfill your request)'')))"

definition handleAllocationFailureError :: "('s, 'f, 'r) errorHandle" where
  "handleAllocationFailureError c u view sku it zone capacityType errorCode errorMessage =
     (markOfferingsUnavailableForPlacementForBothCapacityTypes c u view sku it zone AllocationFailureTTL,
      Some (CreateError AllocationFailureReason
        (''unable to allocate resources with selected VM size ('' @ Name it @
         ''). (will try a different VM size to fulfill your request)'')))"

definition handleOverconstrainedZonalAllocationFailureError :: "('s, 'f, 'r) errorHandle" where
  "handleOverconstrainedZonalAllocationFailureError c u view sku it zone capacityType errorCode errorMessage =
     (ctxMark c view sku zone capacityType AllocationFailureTTL u,
      Some (CreateError OverconstrainedZonalAllocationFailureReason
        (''unable to allocate resources in the selected zone ('' @ zone @ '') with '' @ capacityType @
         '' capacity type and '' @ Name it @
         '' VM size. (will try a different zone, capacity type or VM size to fulfill your request)'')))"

definition handleOverconstrainedAllocationFailureError :: "('s, 'f, 'r) errorHandle" where
  "handleOverconstrainedAllocationFailureError c u view sku it zone capacityType errorCode errorMessage =
     (markOfferingsUnavailableForCapacityTypeAndPlacement c u view sku it zone capacityType AllocationFailureTTL,
      Some (CreateError OverconstrainedAllocationFailureReason
        (''unable to allocate resources in all zones with '' @ capacityType @ '' capacity type and '' @ Name it @
         '' VM size. (will try a different capacity type or VM size to fulfill your request)'')))"

definition handleRegionalQuotaError :: "('s, 'f, 'r) errorHandle" where
  "handleRegionalQuotaError c u view sku it zone capacityType errorCode errorMessage =
     (if IsForCapacityReservationGroup view
      then ctxMark c view sku zone capacityType CapacityReservationQuotaReachedTTL u else u,
      Some (InsufficientCapacityError
        (''regional '' @ capacityType @ '' vCPU quota limit for subscription has been reached. To scale beyond this limit, please review the quota increase process here: https://learn.microsoft.com/en-us/azure/quotas/regional-quota-requests'')))"

definition handleSKUNotAvailableForSubscriptionError :: "('s, 'f, 'r) errorHandle" where
  "handleSKUNotAvailableForSubscriptionError c u view sku it zone capacityType errorCode errorMessage =
     (markAllPlacementsUnavailableForBothCapacityTypes c u view sku it SKUNotAvailableOnDemandTTL,
      Some (CreateError SKUNotAvailableReason
        (''VM size '' @ Name it @ '' is not supported for this subscription in this location, for more details please visit: https://aka.ms/aks/vm-size-selector'')))"

subsection \<open>Handler tables\<close>

record 'e sdk_matchers =
  LowPriorityQuotaHasBeenReached :: "'e \<Rightarrow> bool"
  SKUFamilyQuotaHasBeenReached :: "'e \<Rightarrow> bool"
  IsSKUNotAvailable :: "'e \<Rightarrow> bool"
  ZonalAllocationFailureOccurred :: "'e \<Rightarrow> bool"
  AllocationFailureOccurred :: "'e \<Rightarrow> bool"
  OverconstrainedZonalAllocationFailureOccurred :: "'e \<Rightarrow> bool"
  OverconstrainedAllocationFailureOccurred :: "'e \<Rightarrow> bool"
  RegionalQuotaHasBeenReached :: "'e \<Rightarrow> bool"

record responseError =
  ErrorCode :: string
  ErrorText :: string

record 'e error_api =
  asResponseError :: "'e \<Rightarrow> responseError option"
  errorText :: "'e \<Rightarrow> string"

record errorDetail =
  Code :: "string option"
  Message :: "string option"

record handlableError =
  HECode :: string
  HEMessage :: string

type_synonym ('e, 's, 'f, 'r) handlerEntry = "('e \<Rightarrow> bool) \<times> ('s, 'f, 'r) errorHandle"

definition NewResponseErrorHandler :: "'e error_api \<Rightarrow> 'e sdk_matchers \<Rightarrow> ('e, 's, 'f, 'r) handlerEntry list" where
  "NewResponseErrorHandler E M =
     [(\<lambda>err. case asResponseError E err of
          Some responseError \<Rightarrow> ErrorCode responseError = InvalidAvailabilityZoneReason
        | None \<Rightarrow> False, handleInvalidAvailabilityZoneError),
      (LowPriorityQuotaHasBeenReached M, handleLowPriorityQuotaError),
      (SKUFamilyQuotaHasBeenReached M, handleSKUFamilyQuotaError),
      (IsSKUNotAvailable M, handleSKUNotAvailableError),
      (ZonalAllocationFailureOccurred M, handleZonalAllocationFailureError),
      (AllocationFailureOccurred M, handleAllocationFailureError),
      (OverconstrainedZonalAllocationFailureOccurred M, handleOverconstrainedZonalAllocationFailureError),
      (OverconstrainedAllocationFailureOccurred M, handleOverconstrainedAllocationFailureError),
      (RegionalQuotaHasBeenReached M, handleRegionalQuotaError)]"

definition response_extractErrorCodeAndMessage :: "'e error_api \<Rightarrow> 'e \<Rightarrow> string \<times> string" where
  "response_extractErrorCodeAndMessage E err =
     (case asResponseError E err of
        Some respErr \<Rightarrow> (ErrorCode respErr, ErrorText respErr)
      | None \<Rightarrow> ([], errorText E err))"

definition NewErrorDetailHandler :: "errorDetail sdk_matchers \<Rightarrow> (errorDetail, 's, 'f, 'r) handlerEntry list" where
  "NewErrorDetailHandler M =
     [(\<lambda>detail. (case Code detail of None \<Rightarrow> [] | Some code \<Rightarrow> code) = InvalidAvailabilityZoneReason,
         handleInvalidAvailabilityZoneError),
      (LowPriorityQuotaHasBeenReached M, handleLowPriorityQuotaError),
      (SKUFamilyQuotaHasBeenReached M, handleSKUFamilyQuotaError),
      (IsSKUNotAvailable M, handleSKUNotAvailableError),
      (ZonalAllocationFailureOccurred M, handleZonalAllocationFailureError),
      (AllocationFailureOccurred M, handleAllocationFailureError),
      (OverconstrainedZonalAllocationFailureOccurred M, handleOverconstrainedZonalAllocationFailureError),
      (OverconstrainedAllocationFailureOccurred M, handleOverconstrainedAllocationFailureError),
      (RegionalQuotaHasBeenReached M, handleRegionalQuotaError)]"

definition detail_extractErrorCodeAndMessage :: "errorDetail \<Rightarrow> string \<times> string" where
  "detail_extractErrorCodeAndMessage detail =
     (case Code detail of None \<Rightarrow> [] | Some code \<Rightarrow> code,
      case Message detail of None \<Rightarrow> [] | Some message \<Rightarrow> message)"

definition aksMachineAvailabilityZoneNotSupportedCode :: string where
  "aksMachineAvailabilityZoneNotSupportedCode = ''AvailabilityZoneNotSupported''"

definition HandlableError_Error :: "handlableError \<Rightarrow> string" where
  "HandlableError_Error e = HECode e @ '': '' @ HEMessage e"

definition ErrorToHandlableError :: "'e error_api \<Rightarrow> 'e \<Rightarrow> handlableError option" where
  "ErrorToHandlableError E err =
     map_option (\<lambda>respErr. \<lparr>HECode = ErrorCode respErr, HEMessage = ErrorText respErr\<rparr>) (asResponseError E err)"

definition isSKUNotAvailableForSubscription :: "handlableError \<Rightarrow> bool" where
  "isSKUNotAvailableForSubscription he \<longleftrightarrow> HECode he = ''VMSizeNotSupported''"

definition isSKUNotAvailableForSubscriptionBadRequest :: "handlableError \<Rightarrow> bool" where
  "isSKUNotAvailableForSubscriptionBadRequest he \<longleftrightarrow>
     HECode he = ''BadRequest'' \<and> Contains (HEMessage he) ''is not supported for subscription''"

definition NewAKSMachineBeginCreateErrorHandler :: "(handlableError, 's, 'f, 'r) handlerEntry list" where
  "NewAKSMachineBeginCreateErrorHandler =
     [(\<lambda>he. HECode he = aksMachineAvailabilityZoneNotSupportedCode, handleInvalidAvailabilityZoneError),
      (isSKUNotAvailableForSubscription, handleSKUNotAvailableForSubscriptionError),
      (isSKUNotAvailableForSubscriptionBadRequest, handleSKUNotAvailableForSubscriptionError)]"

text \<open>The loop of the three \<open>Handle\<close> methods, with the extraction of code and message they use.\<close>

fun handleFirst :: "('e, 's, 'f, 'r) handlerEntry list \<Rightarrow> ('e \<Rightarrow> string \<times> string)
    \<Rightarrow> ('s, 'f, 'r) handler_ctx \<Rightarrow> ('s, 'f) unavailableOfferings \<Rightarrow> SKU \<Rightarrow> 'r instanceType
    \<Rightarrow> string \<Rightarrow> string \<Rightarrow> string \<Rightarrow> 'e \<Rightarrow> ('s, 'f) unavailableOfferings \<times> launch_error option" where
  "handleFirst [] extract c u sku it zone capacityType groupID err = (u, None)"
| "handleFirst ((match, handle) # entries) extract c u sku it zone capacityType groupID err =
     (if match err
      then let (errorCode, errorMessage) = extract err in
        handle c u (ForCapacityReservationGroup groupID) sku it zone capacityType errorCode errorMessage
      else handleFirst entries extract c u sku it zone capacityType groupID err)"

definition response_Handle :: "'e error_api \<Rightarrow> 'e sdk_matchers \<Rightarrow> ('s, 'f, 'r) handler_ctx
    \<Rightarrow> ('s, 'f) unavailableOfferings \<Rightarrow> SKU \<Rightarrow> 'r instanceType \<Rightarrow> string \<Rightarrow> string \<Rightarrow> string \<Rightarrow> 'e
    \<Rightarrow> ('s, 'f) unavailableOfferings \<times> launch_error option" where
  "response_Handle E M = handleFirst (NewResponseErrorHandler E M) (response_extractErrorCodeAndMessage E)"

definition detail_Handle :: "errorDetail sdk_matchers \<Rightarrow> ('s, 'f, 'r) handler_ctx
    \<Rightarrow> ('s, 'f) unavailableOfferings \<Rightarrow> SKU \<Rightarrow> 'r instanceType \<Rightarrow> string \<Rightarrow> string \<Rightarrow> string \<Rightarrow> errorDetail
    \<Rightarrow> ('s, 'f) unavailableOfferings \<times> launch_error option" where
  "detail_Handle M = handleFirst (NewErrorDetailHandler M) detail_extractErrorCodeAndMessage"

definition beginCreate_Handle :: "('s, 'f, 'r) handler_ctx
    \<Rightarrow> ('s, 'f) unavailableOfferings \<Rightarrow> SKU \<Rightarrow> 'r instanceType \<Rightarrow> string \<Rightarrow> string \<Rightarrow> string \<Rightarrow> handlableError
    \<Rightarrow> ('s, 'f) unavailableOfferings \<times> launch_error option" where
  "beginCreate_Handle = handleFirst NewAKSMachineBeginCreateErrorHandler (\<lambda>he. (HECode he, HEMessage he))"

subsection \<open>Handlers as lists of marks\<close>

text \<open>
  The capacity handlers mark one SKU for a list of zone and capacity type pairs, all with the same
  time to live.
\<close>

definition markPairs :: "('s, 'f, 'r) handler_ctx \<Rightarrow> scope \<Rightarrow> SKU \<Rightarrow> duration \<Rightarrow> (string \<times> string) list
    \<Rightarrow> ('s, 'f) unavailableOfferings \<Rightarrow> ('s, 'f) unavailableOfferings" where
  "markPairs c view sku ttl ps u = foldl (\<lambda>u (z, ct). ctxMark c view sku z ct ttl u) u ps"

lemma markPairs_Nil [simp]: "markPairs c view sku ttl [] u = u"
  and markPairs_Cons [simp]: "markPairs c view sku ttl ((z, ct) # ps) u =
    markPairs c view sku ttl ps (ctxMark c view sku z ct ttl u)"
  by (simp_all add: markPairs_def)

lemma foldl_skip: "foldl (\<lambda>u x. if P x then u else f x u) u xs = foldl (\<lambda>u x. f x u) u (filter (\<lambda>x. \<not> P x) xs)"
  by (induction xs arbitrary: u) simp_all

lemma foldl_ctxMark: "foldl (\<lambda>u off. ctxMark c view sku (g off) ct ttl u) u offs =
    markPairs c view sku ttl (map (\<lambda>off. (g off, ct)) offs) u"
  by (induction offs arbitrary: u) simp_all

lemma marksCapacityType_pairs:
  "markOfferingsUnavailableForCapacityTypeAndPlacement c u view sku it zone ct ttl =
     markPairs c view sku ttl (map (\<lambda>off. (getOfferingZone (ctxKarpenter c) off, ct))
       (filter (\<lambda>off. \<not> ((getOfferingCapacityType (ctxKarpenter c) off \<noteq> ct \<or>
            PlacementScopeForOffering (ctxKarpenter c) off \<noteq> PlacementScopeForZone zone) \<or>
            IsForCapacityReservationGroup view \<and> getOfferingZone (ctxKarpenter c) off \<noteq> zone))
         (ITOfferings it))) u"
  unfolding markOfferingsUnavailableForCapacityTypeAndPlacement_def Let_def foldl_ctxMark [symmetric]
  by (subst foldl_skip [symmetric]) (intro arg_cong2 [where f = "\<lambda>f. foldl f u"] ext; simp)

lemma markZones_pairs:
  "markZonesForBothCapacityTypes c u view sku zs ttl =
     markPairs c view sku ttl
       (concat (map (\<lambda>z. [(z, CapacityTypeOnDemand), (z, CapacityTypeSpot)]) (ctxRange c zs))) u"
proof -
  have "foldl (\<lambda>u z. ctxMark c view sku z CapacityTypeSpot ttl (ctxMark c view sku z CapacityTypeOnDemand ttl u)) u zs' =
      markPairs c view sku ttl (concat (map (\<lambda>z. [(z, CapacityTypeOnDemand), (z, CapacityTypeSpot)]) zs')) u" for zs'
    by (induction zs' arbitrary: u) simp_all
  then show ?thesis by (simp add: markZonesForBothCapacityTypes_def)
qed

lemma familyQuota_pairs:
  "fst (handleSKUFamilyQuotaError c u view sku it zone ct code msg) =
     markPairs c view sku (if cpuLimitIsZero msg then SubscriptionQuotaReachedTTL else LowQuotaTTL)
       (map (\<lambda>off. (getOfferingZone (ctxKarpenter c) off, ct))
         (filter (\<lambda>off. \<not> (getOfferingCapacityType (ctxKarpenter c) off \<noteq> ct \<or>
              IsForCapacityReservationGroup view \<and> getOfferingZone (ctxKarpenter c) off \<noteq> zone))
           (ITOfferings it))) u"
  unfolding handleSKUFamilyQuotaError_def Let_def fst_conv foldl_ctxMark [symmetric]
  by (subst foldl_skip [symmetric]) (intro arg_cong2 [where f = "\<lambda>f. foldl f u"] ext; simp)

lemmas pairs_defs = marksCapacityType_pairs markZones_pairs familyQuota_pairs
  markOfferingsUnavailableForPlacementForBothCapacityTypes_def
  markAllPlacementsUnavailableForBothCapacityTypes_def Let_def

text \<open>Zone names as the provider makes them: in lower case and without a colon.\<close>

definition wf_zone :: "string \<Rightarrow> bool" where
  "wf_zone z \<longleftrightarrow> colon_free z \<and> ToLower z = z"

lemma lower_capacity: "valid_capacity ct \<Longrightarrow> ToLower ct = ct"
proof -
  have "ToLower ''spot'' = ''spot''" "ToLower ''on-demand'' = ''on-demand''" by code_simp+
  then show "valid_capacity ct \<Longrightarrow> ToLower ct = ct" by (elim valid_capacity_cases) simp_all
qed

lemma vmFamilyKey_zone:
  assumes "colon_free fam" "wf_zone z" "wf_zone z'" "valid_capacity ct" "valid_capacity ct'"
  shows "vmFamilyKey unreservedScope fam z ct = vmFamilyKey unreservedScope fam z' ct' \<longleftrightarrow> z = z' \<and> ct = ct'"
  using assms by (simp add: vmFamilyKey_unreserved wf_zone_def lower_capacity colon_split)

context unavailable_offerings
begin

lemma mark_exact:
  assumes "0 < ttl" "now \<le> t" "t \<le> now + ttl"
    and "wf_offering sku z ct" "wf_zone z" "wf_zone z1" "valid_capacity c1" "colon_free view"
  shows "isUnavailable CS CF t (markUnavailableWithTTL CS CF now u view sku z1 c1 ttl) view sku z ct \<longleftrightarrow>
    z = z1 \<and> ct = c1 \<or> isUnavailable CS CF t u view sku z ct"
proof (cases "z = z1 \<and> ct = c1")
  case True
  then show ?thesis using mark_blocks [OF assms(1-3)] by simp
next
  case False
  have keys: "skuZoneKey (GetName sku) z \<noteq> singleInstanceKey view (GetName sku) z1 c1"
      "spotKey \<noteq> singleInstanceKey view (GetName sku) z1 c1"
      "singleInstanceKey view (GetName sku) z ct \<noteq> singleInstanceKey view (GetName sku) z1 c1"
    using assms False by (auto simp: wf_offering_def singleInstanceKey_inj
      singleInstanceKey_not_skuZone [symmetric] singleInstanceKey_not_spot [symmetric])
  have "vmFamilyKey unreservedScope (GetFamilyName sku) z ct \<noteq> vmFamilyKey unreservedScope (GetFamilyName sku) z1 c1"
    using assms(4-7) False by (subst vmFamilyKey_zone) (auto simp: wf_offering_def)
  with keys assms(1,2) have "isUnavailable CS CF t (markUnavailableWithTTL CS CF now u view sku z1 c1 ttl) view sku z ct =
      isUnavailable CS CF t u view sku z ct"
    by (cases "view = unreservedScope") (simp_all add: isUnavailable_iff isFamilyUnavailable_blocks
      mark_effects family_get_other single.get_set_other)
  with False show ?thesis by blast
qed

lemma markPairs_exact:
  assumes "ctxSingle c = CS" "ctxFamily c = CF"
    and "0 < ttl" "ctxNow c \<le> t" "t \<le> ctxNow c + ttl"
    and "wf_offering sku z ct" "wf_zone z" "colon_free view"
    and "\<forall>(z1, c1) \<in> set ps. wf_zone z1 \<and> valid_capacity c1"
  shows "isUnavailable CS CF t (markPairs c view sku ttl ps u) view sku z ct \<longleftrightarrow>
    (z, ct) \<in> set ps \<or> isUnavailable CS CF t u view sku z ct"
  using assms(9)
proof (induction ps arbitrary: u)
  case (Cons p ps)
  obtain z1 c1 where p: "p = (z1, c1)" by (cases p)
  with Cons.prems have "wf_zone z1" "valid_capacity c1" by auto
  with Cons p assms show ?case
    by (auto simp: view_defs mark_exact)
qed simp

lemma marks_monotone:
  assumes "\<forall>m \<in> set ms. 0 < mark_ttl m" "0 \<le> sint (vcpus_of sku)" "isUnavailable CS CF now u scope sku zone ct"
  shows "isUnavailable CS CF now (foldl (\<lambda>u. applyMark CS CF now u view) u ms) scope sku zone ct"
  using assms by (induction ms arbitrary: u) (simp_all add: mark_monotone)

lemma marks_isolated:
  assumes "\<forall>m \<in> set ms. 0 < mark_ttl m \<and> capacity_mark m" "now \<le> t"
    and "ToLower view = view" "ToLower view' = view'" "colon_free view" "colon_free view'" "view \<noteq> view'"
    and "wf_offering sku zone ct"
  shows "isUnavailable CS CF t (foldl (\<lambda>u. applyMark CS CF now u view) u ms) view' sku zone ct =
    isUnavailable CS CF t u view' sku zone ct"
  using assms by (induction ms arbitrary: u) (simp_all add: mark_isolated)

end

subsection \<open>Every handler is a list of marks\<close>

definition is_marks :: "('s, 'f, 'r) handler_ctx \<Rightarrow> scope \<Rightarrow> (mark \<Rightarrow> bool) \<Rightarrow> ('s, 'f) unavailableOfferings
    \<Rightarrow> ('s, 'f) unavailableOfferings \<Rightarrow> bool" where
  "is_marks c view P u u' \<longleftrightarrow>
     (\<exists>ms. (\<forall>m \<in> set ms. 0 < mark_ttl m \<and> P m) \<and>
        u' = foldl (\<lambda>u. applyMark (ctxSingle c) (ctxFamily c) (ctxNow c) u view) u ms)"

lemma is_marks_refl [simp]: "is_marks c view P u u"
  unfolding is_marks_def by (rule exI [of _ "[]"]) simp

lemma is_marks_single:
  "0 < mark_ttl m \<Longrightarrow> P m \<Longrightarrow> is_marks c view P u (applyMark (ctxSingle c) (ctxFamily c) (ctxNow c) u view m)"
  unfolding is_marks_def by (rule exI [of _ "[m]"]) simp

lemma is_marks_pairs:
  assumes "0 < ttl" and "\<forall>(z, ct) \<in> set ps. P (MUnavailable sku z ct ttl)"
  shows "is_marks c view P u (markPairs c view sku ttl ps u)"
proof -
  have "markPairs c view sku ttl ps u = foldl (\<lambda>u. applyMark (ctxSingle c) (ctxFamily c) (ctxNow c) u view) u
      (map (\<lambda>(z, ct). MUnavailable sku z ct ttl) ps)"
    by (induction ps arbitrary: u) auto
  with assms show ?thesis unfolding is_marks_def by (intro exI) auto
qed

lemma ttl_positive [simp]:
  "0 < LowQuotaTTL" "0 < CapacityReservationQuotaReachedTTL" "0 < SubscriptionQuotaReachedTTL"
  "0 < AllocationFailureTTL" "0 < InvalidAvailabilityZoneTTL" "0 < SKUNotAvailableSpotTTL"
  "0 < SKUNotAvailableOnDemandTTL"
  by (simp_all add: ttl_defs)

lemma one_mark: "ctxMark c view sku zone ct ttl u = markPairs c view sku ttl [(zone, ct)] u"
  and markPairs_markPairs: "markPairs c view sku ttl qs (markPairs c view sku ttl ps u) =
    markPairs c view sku ttl (ps @ qs) u"
  by (simp_all add: markPairs_def)

text \<open>
  \<open>P\<close> holds of every capacity mark of the SKU in a zone the handler may block; the two global
  marks are allowed by \<open>global\<close> only.
\<close>

definition capacity_handlers :: "('s, 'f, 'r) errorHandle list" where
  "capacity_handlers =
     [handleSKUFamilyQuotaError, handleSKUNotAvailableError, handleZonalAllocationFailureError,
      handleAllocationFailureError, handleOverconstrainedZonalAllocationFailureError,
      handleOverconstrainedAllocationFailureError, handleRegionalQuotaError,
      handleSKUNotAvailableForSubscriptionError]"

definition global_handlers :: "('s, 'f, 'r) errorHandle list" where
  "global_handlers = [handleInvalidAvailabilityZoneError, handleLowPriorityQuotaError]"

lemma capacity_handler_marks:
  assumes "h \<in> set capacity_handlers"
    and "\<And>z ct' ttl. z = zone \<or> z \<in> getOfferingZone (ctxKarpenter c) ` set (ITOfferings it) \<Longrightarrow>
      ct' = ct \<or> valid_capacity ct' \<Longrightarrow> P (MUnavailable sku z ct' ttl)"
    and "\<And>zs. set (ctxRange c zs) = set zs"
  shows "is_marks c view P u (fst (h c u view sku it zone ct code msg))"
proof -
  have v: "valid_capacity CapacityTypeOnDemand" "valid_capacity CapacityTypeSpot" by (simp_all add: valid_capacity_def)
  show ?thesis
    using assms(1)
    by (auto simp: capacity_handlers_def familyQuota_pairs one_mark markPairs_markPairs handleSKUNotAvailableError_def
        handleZonalAllocationFailureError_def handleAllocationFailureError_def
        handleOverconstrainedZonalAllocationFailureError_def handleOverconstrainedAllocationFailureError_def
        handleRegionalQuotaError_def handleSKUNotAvailableForSubscriptionError_def pairs_defs assms(3) v
      simp del: markPairs_Cons markPairs_Nil intro!: is_marks_pairs assms(2))
qed

lemma global_handler_marks:
  assumes "h \<in> set global_handlers"
  shows "is_marks c view (\<lambda>_. True) u (fst (h c u view sku it zone ct code msg))"
  using assms
    is_marks_single [of "MSKUZone (Name it) zone InvalidAvailabilityZoneTTL" "\<lambda>_. True" c view u]
    is_marks_single [of "MSpot SubscriptionQuotaReachedTTL" "\<lambda>_. True" c view u]
  by (auto simp: global_handlers_def handleInvalidAvailabilityZoneError_def handleLowPriorityQuotaError_def)

lemma handleFirst_find:
  "handleFirst entries ex c u sku it zone ct g err =
     (case List.find (\<lambda>(m, h). m err) entries of
        None \<Rightarrow> (u, None)
      | Some (m, h) \<Rightarrow> h c u (ForCapacityReservationGroup g) sku it zone ct (fst (ex err)) (snd (ex err)))"
  by (induction entries) (auto simp: case_prod_beta)

lemma find_SomeD: "List.find P xs = Some x \<Longrightarrow> x \<in> set xs \<and> P x"
  by (induction xs) (auto split: if_splits)

lemma handleFirst_cases:
  obtains (none) "\<forall>e \<in> set entries. \<not> fst e err" "handleFirst entries ex c u sku it zone ct g err = (u, None)"
  | (hit) m h where "(m, h) \<in> set entries" "m err" "handleFirst entries ex c u sku it zone ct g err =
      h c u (ForCapacityReservationGroup g) sku it zone ct (fst (ex err)) (snd (ex err))"
proof (cases "List.find (\<lambda>(m, h). m err) entries")
  case None
  then have "\<forall>e \<in> set entries. \<not> fst e err" by (auto simp: find_None_iff)
  with None show thesis by (intro none) (simp_all add: handleFirst_find)
next
  case (Some e)
  obtain m h where e: "e = (m, h)" by (cases e)
  with Some show thesis
    by (intro hit [of m h]) (auto simp: handleFirst_find dest: find_SomeD)
qed

lemma table_handlers:
  "(m, h) \<in> set (NewResponseErrorHandler E M) \<Longrightarrow> h \<in> set capacity_handlers \<or> h \<in> set global_handlers"
  "(m', h) \<in> set (NewErrorDetailHandler M') \<Longrightarrow> h \<in> set capacity_handlers \<or> h \<in> set global_handlers"
  "(m'', h) \<in> set NewAKSMachineBeginCreateErrorHandler \<Longrightarrow> h \<in> set capacity_handlers \<or> h \<in> set global_handlers"
  by (auto simp: NewResponseErrorHandler_def NewErrorDetailHandler_def
    NewAKSMachineBeginCreateErrorHandler_def capacity_handlers_def global_handlers_def)

lemma handleFirst_marks:
  assumes "\<And>m h. (m, h) \<in> set entries \<Longrightarrow> h \<in> set capacity_handlers \<or> h \<in> set global_handlers"
    and "map_range (ctxRange c)"
  shows "is_marks c (ForCapacityReservationGroup g) (\<lambda>_. True) u (fst (handleFirst entries ex c u sku it zone ct g err))"
proof (cases rule: handleFirst_cases [of entries err ex c u sku it zone ct g])
  case (hit m h)
  with assms(1) [OF hit(1)] show ?thesis
    using capacity_handler_marks [of h zone c it ct "\<lambda>_. True"] global_handler_marks [of h c]
      map_range.rng_set [OF assms(2)] by auto
qed simp

subsection \<open>Properties\<close>

text \<open>A small catalogue entry the witnesses use: one SKU in two zones and region-wide.\<close>

definition demo_off :: "string \<Rightarrow> string \<Rightarrow> labels offering" where
  "demo_off z ct = \<lparr>Requirements = [(LabelTopologyZone, z), (CapacityTypeLabelKey, ct),
       (LabelPlacementScope, PlacementScopeForZone z)], Price = 1, Available = True\<rparr>"

definition demo_it :: "labels instanceType" where
  "demo_it = \<lparr>Name = ''D4'', ITRequirements = [], ITOfferings =
     [demo_off ''eastus-1'' CapacityTypeOnDemand, demo_off ''eastus-1'' CapacityTypeSpot,
      demo_off ''eastus-2'' CapacityTypeOnDemand, demo_off Regional CapacityTypeOnDemand]\<rparr>"

definition demo_ctx :: "(unit exp_cache, any_value exp_cache, labels) handler_ctx" where
  "demo_ctx = \<lparr>ctxSingle = exp_cache, ctxFamily = exp_cache, ctxKarpenter = labels_api,
     ctxRange = remdups, ctxNow = 0\<rparr>"

lemma demo_off_labels [simp]:
  "getOfferingZone labels_api (demo_off z ct) = z"
  "getOfferingCapacityType labels_api (demo_off z ct) = ct"
  "PlacementScopeForOffering labels_api (demo_off z ct) = PlacementScopeForZone z"
  by (simp_all add: getOfferingZone_def getOfferingCapacityType_def PlacementScopeForOffering_def
    labels_any_def demo_off_def label_defs scope_defs)

lemma demo_ctx_simps [simp]:
  "ctxSingle demo_ctx = exp_cache" "ctxFamily demo_ctx = exp_cache" "ctxKarpenter demo_ctx = labels_api"
  "ctxRange demo_ctx = remdups" "ctxNow demo_ctx = 0"
  by (simp_all add: demo_ctx_def)

lemma lower_zone: "ToLower ''eastus-1'' = ''eastus-1''" "ToLower ''eastus-2'' = ''eastus-2''" "ToLower ''0'' = ''0''"
  by code_simp+

lemma demo_zones [simp]: "wf_zone ''eastus-1''" "wf_zone ''eastus-2''" "wf_zone Regional"
  by (simp_all add: wf_zone_def colon_free_def lower_zone Regional_def)

text \<open>The capacity types and zones of an instance type, as the provider constructs its offerings.\<close>

definition wf_offerings :: "'r karpenter_api \<Rightarrow> 'r instanceType \<Rightarrow> bool" where
  "wf_offerings K it \<longleftrightarrow> (\<forall>off \<in> set (ITOfferings it). wf_zone (getOfferingZone K off))"

lemma demo_offs:
  "ITOfferings demo_it =
     [demo_off ''eastus-1'' CapacityTypeOnDemand, demo_off ''eastus-1'' CapacityTypeSpot,
      demo_off ''eastus-2'' CapacityTypeOnDemand, demo_off Regional CapacityTypeOnDemand]"
  "PlacementScopeForZone ''eastus-1'' = PlacementScopeZonal" "PlacementScopeForZone ''eastus-2'' = PlacementScopeZonal"
  "PlacementScopeForZone Regional = PlacementScopeRegional" "Regional \<noteq> ''eastus-1''" "''eastus-1'' \<noteq> Regional"
  "Regional \<noteq> ''eastus-2''" "''eastus-2'' \<noteq> Regional"
  by (simp_all add: demo_it_def PlacementScopeForZone_def Regional_def)

lemma demo_wf [simp]: "wf_offerings labels_api demo_it"
  by (simp add: wf_offerings_def demo_it_def)



text \<open>
  A family quota error blocks the SKU in every zone it is offered in with the attempted
  capacity type (inside a group in the attempted zone only): for an hour when the reported limit is
  zero, else for ten minutes, and no other offering of the SKU.\<close>

theorem family_quota_error_blocks_by_limit:
  assumes "go_cache (ctxSingle c)" and "go_cache (ctxFamily c)"
    and "ctxNow c \<le> t" and "t \<le> ctxNow c + (if cpuLimitIsZero msg then Hour else 10 * Minute)"
    and "view = ForCapacityReservationGroup g" and "colon_free g" and "valid_capacity ct"
    and "wf_offerings (ctxKarpenter c) it" and "wf_offering sku z ct'" and "wf_zone z"
  shows "view_IsUnavailable (ctxSingle c) (ctxFamily c) t
      (fst (handleSKUFamilyQuotaError c u view sku it zone ct code msg)) view sku z ct' \<longleftrightarrow>
    ct' = ct \<and> (\<exists>off \<in> set (ITOfferings it). getOfferingZone (ctxKarpenter c) off = z \<and>
       getOfferingCapacityType (ctxKarpenter c) off = ct \<and>
       (IsForCapacityReservationGroup view \<longrightarrow> z = zone)) \<or>
    view_IsUnavailable (ctxSingle c) (ctxFamily c) t u view sku z ct'"
proof -
  note uo = unavailable_offerings.intro [OF assms(1,2)]
  have "colon_free view" using assms(5,6) by (simp add: view_defs capacityReservationGroupScope_def)
  then show ?thesis
    unfolding familyQuota_pairs view_IsUnavailable_def
    using assms(3,4,7-10)
    by (subst unavailable_offerings.markPairs_exact [OF uo refl refl])
       (auto simp: wf_offerings_def ttl_defs split: if_splits)
qed

theorem family_quota_error_blocks_by_limit_witness:
  "view_IsUnavailable exp_cache exp_cache (10 * Minute) (fst (handleSKUFamilyQuotaError demo_ctx no_offerings
      (ForCapacityReservationGroup []) D4 demo_it ''eastus-1'' CapacityTypeOnDemand [] [])) (ForCapacityReservationGroup [])
      D4 ''eastus-1'' CapacityTypeOnDemand"
proof -
  have ctx: "go_cache (ctxSingle demo_ctx)" "go_cache (ctxFamily demo_ctx)"
    by (simp_all add: exp_cache.go_cache_axioms)
  have at: "ctxNow demo_ctx \<le> 10 * Minute" "10 * Minute \<le> ctxNow demo_ctx + (if cpuLimitIsZero [] then Hour else 10 * Minute)"
    by (simp_all add: ttl_defs)
  show ?thesis
    using family_quota_error_blocks_by_limit [OF ctx at refl, where g = "[]" and it = demo_it and sku = D4 and
      z = "''eastus-1''" and ct = CapacityTypeOnDemand and ct' = CapacityTypeOnDemand and u = no_offerings and
      zone = "''eastus-1''" and code = "[]"]
    by (simp add: colon_free_def demo_offs view_defs capacityReservationGroupScope_def unreservedScope_def
      ToLower_def valid_capacity_def)
qed

text \<open>
  Handling a launch error never makes an offering available: whatever the error and whichever
  of the three tables classifies it, an offering that some view reported unavailable before is
  reported unavailable after.\<close>

theorem handling_errors_never_unblocks:
  assumes "go_cache (ctxSingle c)" and "go_cache (ctxFamily c)" and "map_range (ctxRange c)"
    and "0 \<le> sint (vcpus_of sku')"
    and "view_IsUnavailable (ctxSingle c) (ctxFamily c) (ctxNow c) u view sku' z ct'"
  shows "view_IsUnavailable (ctxSingle c) (ctxFamily c) (ctxNow c)
      (fst (response_Handle E M c u sku it zone ct g err)) view sku' z ct' \<and>
    view_IsUnavailable (ctxSingle c) (ctxFamily c) (ctxNow c)
      (fst (detail_Handle M' c u sku it zone ct g detail)) view sku' z ct' \<and>
    view_IsUnavailable (ctxSingle c) (ctxFamily c) (ctxNow c)
      (fst (beginCreate_Handle c u sku it zone ct g he)) view sku' z ct'"
proof -
  have keep: "view_IsUnavailable (ctxSingle c) (ctxFamily c) (ctxNow c) u' view sku' z ct'"
    if "is_marks c (ForCapacityReservationGroup g) (\<lambda>_. True) u u'" for u'
    using that unavailable_offerings.marks_monotone [OF unavailable_offerings.intro, OF assms(1,2)] assms(4,5)
    by (auto simp: is_marks_def view_IsUnavailable_def)
  show ?thesis unfolding response_Handle_def detail_Handle_def beginCreate_Handle_def
    by (intro conjI keep handleFirst_marks assms(3); erule table_handlers)
qed

theorem handling_errors_never_unblocks_witness:
  "view_IsUnavailable exp_cache exp_cache 0
     (fst (beginCreate_Handle demo_ctx (MarkSpotUnavailableWithTTL exp_cache 0 no_offerings 7) D4 demo_it
       ''eastus-1'' CapacityTypeOnDemand [] \<lparr>HECode = ''VMSizeNotSupported'', HEMessage = []\<rparr>))
     unreservedScope D8 ''eastus-1'' CapacityTypeSpot"
proof -
  have "view_IsUnavailable (ctxSingle demo_ctx) (ctxFamily demo_ctx) (ctxNow demo_ctx)
      (MarkSpotUnavailableWithTTL exp_cache 0 no_offerings 7) unreservedScope D8 ''eastus-1'' CapacityTypeSpot"
    using uo.spot_mark_blocks [of 7 0 0] by (simp add: view_IsUnavailable_def)
  moreover have "0 \<le> sint (vcpus_of D8)" by (simp add: sample_defs vcpus_of_def)
  moreover have "go_cache (ctxSingle demo_ctx)" "go_cache (ctxFamily demo_ctx)" "map_range (ctxRange demo_ctx)"
    by (simp_all add: exp_cache.go_cache_axioms first_added.map_range_axioms)
  ultimately show ?thesis
    using handling_errors_never_unblocks [of demo_ctx D8, THEN conjunct2, THEN conjunct2] by simp
qed

text \<open>
  A capacity error of a launch into one capacity reservation group (or outside any) is not held
  against launches elsewhere: unless it is the spot quota error or a rejected zone, which concern the
  whole subscription, the answers of every other view are as before, now and later.\<close>

theorem capacity_errors_stay_in_their_group:
  assumes "go_cache (ctxSingle c)" and "go_cache (ctxFamily c)" and "map_range (ctxRange c)"
    and "\<not> LowPriorityQuotaHasBeenReached M err"
    and "\<forall>r. asResponseError E err = Some r \<longrightarrow> ErrorCode r \<noteq> InvalidAvailabilityZoneReason"
    and "view' = ForCapacityReservationGroup g'" and "view' \<noteq> ForCapacityReservationGroup g"
    and "colon_free g" and "colon_free g'" and "ctxNow c \<le> t"
    and "wf_offerings (ctxKarpenter c) it" and "wf_offering sku zone ct" and "wf_offering sku' z ct'"
  shows "view_IsUnavailable (ctxSingle c) (ctxFamily c) t
      (fst (response_Handle E M c u sku it zone ct g err)) view' sku' z ct' =
    view_IsUnavailable (ctxSingle c) (ctxFamily c) t u view' sku' z ct'"
proof -
  have "is_marks c (ForCapacityReservationGroup g) capacity_mark u (fst (response_Handle E M c u sku it zone ct g err))"
    unfolding response_Handle_def
  proof (cases rule: handleFirst_cases [of "NewResponseErrorHandler E M" err
        "response_extractErrorCodeAndMessage E" c u sku it zone ct g])
    case (hit m h)
    have "h \<in> set capacity_handlers" using hit(1,2) assms(4,5)
      by (auto simp: NewResponseErrorHandler_def capacity_handlers_def split: option.splits)
    then show "is_marks c (ForCapacityReservationGroup g) capacity_mark u (fst (handleFirst (NewResponseErrorHandler E M)
        (response_extractErrorCodeAndMessage E) c u sku it zone ct g err))"
      unfolding hit(3) using assms(11,12) map_range.rng_set [OF assms(3)]
      by (intro capacity_handler_marks) (auto simp: wf_offering_def wf_offerings_def wf_zone_def)
  qed simp
  then show ?thesis
    using unavailable_offerings.marks_isolated [OF unavailable_offerings.intro, OF assms(1,2)] assms(6-10,13)
    by (auto simp: is_marks_def view_IsUnavailable_def ForCapacityReservationGroup_def capacityReservationGroupScope_def)
qed

definition allocation_error :: "string sdk_matchers" where
  "allocation_error = \<lparr>LowPriorityQuotaHasBeenReached = (\<lambda>_. False), SKUFamilyQuotaHasBeenReached = (\<lambda>_. False),
     IsSKUNotAvailable = (\<lambda>_. False), ZonalAllocationFailureOccurred = (\<lambda>e. e = ''ZonalAllocationFailed''),
     AllocationFailureOccurred = (\<lambda>e. e = ''AllocationFailed''),
     OverconstrainedZonalAllocationFailureOccurred = (\<lambda>_. False),
     OverconstrainedAllocationFailureOccurred = (\<lambda>_. False), RegionalQuotaHasBeenReached = (\<lambda>_. False)\<rparr>"

theorem capacity_errors_stay_in_their_group_witness:
  "\<not> view_IsUnavailable exp_cache exp_cache Minute
     (fst (response_Handle \<lparr>asResponseError = (\<lambda>_. None), errorText = id\<rparr> allocation_error demo_ctx no_offerings D4 demo_it
        ''eastus-1'' CapacityTypeOnDemand ''g1'' ''ZonalAllocationFailed''))
     (ForCapacityReservationGroup []) D4 ''eastus-1'' CapacityTypeOnDemand"
proof -
  let ?E = "\<lparr>asResponseError = (\<lambda>_. None), errorText = id\<rparr> :: string error_api"
  have "go_cache (ctxSingle demo_ctx)" "go_cache (ctxFamily demo_ctx)" "map_range (ctxRange demo_ctx)"
    by (simp_all add: exp_cache.go_cache_axioms first_added.map_range_axioms)
  from capacity_errors_stay_in_their_group [OF this, where M = allocation_error and err = "''ZonalAllocationFailed''"
      and E = ?E and view' = "ForCapacityReservationGroup []" and g' = "[]" and g = "''g1''" and t = Minute and it = demo_it
      and sku = D4 and zone = "''eastus-1''" and ct = CapacityTypeOnDemand and sku' = D4 and z = "''eastus-1''"
      and ct' = CapacityTypeOnDemand and u = no_offerings]
  show ?thesis
    by (simp add: allocation_error_def view_defs capacityReservationGroupScope_def colon_free_def ToLower_def duration_defs)
       (simp add: isUnavailable_iff isFamilyUnavailable_blocks no_offerings_def family_blocks_def ec_get_def)
qed

text \<open>
  The tables for response errors and for error details are in sync: when the SDK classifies an
  error and a detail alike and they carry the same code and message, both tables leave the same
  state and return the same error.\<close>

theorem response_and_detail_tables_agree:
  assumes "asResponseError E err = Some r" and "Code detail = Some (ErrorCode r)" and "Message detail = Some (ErrorText r)"
    and "\<forall>match \<in> {(LowPriorityQuotaHasBeenReached M err, LowPriorityQuotaHasBeenReached M' detail),
      (SKUFamilyQuotaHasBeenReached M err, SKUFamilyQuotaHasBeenReached M' detail),
      (IsSKUNotAvailable M err, IsSKUNotAvailable M' detail),
      (ZonalAllocationFailureOccurred M err, ZonalAllocationFailureOccurred M' detail),
      (AllocationFailureOccurred M err, AllocationFailureOccurred M' detail),
      (OverconstrainedZonalAllocationFailureOccurred M err, OverconstrainedZonalAllocationFailureOccurred M' detail),
      (OverconstrainedAllocationFailureOccurred M err, OverconstrainedAllocationFailureOccurred M' detail),
      (RegionalQuotaHasBeenReached M err, RegionalQuotaHasBeenReached M' detail)}. fst match = snd match"
  shows "response_Handle E M c u sku it zone ct g err = detail_Handle M' c u sku it zone ct g detail"
proof -
  from assms(4) have same:
    "LowPriorityQuotaHasBeenReached M err = LowPriorityQuotaHasBeenReached M' detail"
    "SKUFamilyQuotaHasBeenReached M err = SKUFamilyQuotaHasBeenReached M' detail"
    "IsSKUNotAvailable M err = IsSKUNotAvailable M' detail"
    "ZonalAllocationFailureOccurred M err = ZonalAllocationFailureOccurred M' detail"
    "AllocationFailureOccurred M err = AllocationFailureOccurred M' detail"
    "OverconstrainedZonalAllocationFailureOccurred M err = OverconstrainedZonalAllocationFailureOccurred M' detail"
    "OverconstrainedAllocationFailureOccurred M err = OverconstrainedAllocationFailureOccurred M' detail"
    "RegionalQuotaHasBeenReached M err = RegionalQuotaHasBeenReached M' detail"
    by simp_all
  have "response_extractErrorCodeAndMessage E err = detail_extractErrorCodeAndMessage detail"
    using assms(1-3) by (simp add: response_extractErrorCodeAndMessage_def detail_extractErrorCodeAndMessage_def)
  then show ?thesis
    using assms(1,2) by (simp only: response_Handle_def detail_Handle_def NewResponseErrorHandler_def
      NewErrorDetailHandler_def handleFirst.simps same option.case)
qed

theorem response_and_detail_tables_agree_witness:
  "snd (detail_Handle \<lparr>LowPriorityQuotaHasBeenReached = (\<lambda>_. False), SKUFamilyQuotaHasBeenReached = (\<lambda>_. False),
     IsSKUNotAvailable = (\<lambda>_. False), ZonalAllocationFailureOccurred = (\<lambda>d. Code d = Some ''ZonalAllocationFailed''),
     AllocationFailureOccurred = (\<lambda>d. Code d = Some ''AllocationFailed''),
     OverconstrainedZonalAllocationFailureOccurred = (\<lambda>_. False),
     OverconstrainedAllocationFailureOccurred = (\<lambda>_. False), RegionalQuotaHasBeenReached = (\<lambda>_. False)\<rparr>
     demo_ctx no_offerings D4 demo_it ''eastus-1'' CapacityTypeOnDemand []
     \<lparr>Code = Some ''AllocationFailed'', Message = Some ''no capacity''\<rparr>) =
   Some (CreateError AllocationFailureReason
     ''unable to allocate resources with selected VM size (D4). (will try a different VM size to fulfill your request)'')"
  by (subst response_and_detail_tables_agree [symmetric, where err = "''AllocationFailed''" and
        r = "\<lparr>ErrorCode = ''AllocationFailed'', ErrorText = ''no capacity''\<rparr>" and M = allocation_error and
        E = "\<lparr>asResponseError = (\<lambda>e. Some \<lparr>ErrorCode = e, ErrorText = ''no capacity''\<rparr>), errorText = id\<rparr>"])
     (simp_all add: allocation_error_def response_Handle_def NewResponseErrorHandler_def InvalidAvailabilityZoneReason_def
       response_extractErrorCodeAndMessage_def handleAllocationFailureError_def demo_it_def)

end
