(* ===== verification/AKS_Machine.thy ===== *)
theory AKS_Machine
  imports Prelude
begin

text \<open>
  AKS machines as the pollers and the machine cache see them, and what their provisioning state means
  (src/pkg/utils/machine/machine.go). Of the SDK's machine the model keeps what that code
  reads. \<open>sdkError\<close> is an error together with what \<open>errors.As\<close> and \<open>errors.Is\<close> say about its chain.
\<close>

datatype errorDetail = ErrorDetail (DetailCode: "string option") (DetailMessage: "string option")
  (Target: "string option") (Details: "errorDetail option list")

datatype scaleSetPriority = PriorityRegular | PrioritySpot

record machineStatus =
  StProvisioningError :: "errorDetail option"
  StCreationTimestamp :: "time option"
  StVMState :: "string option"
  StDriftAction :: "string option"
  StDriftReason :: "string option"

record machineNetwork =
  NetEnableNodePublicIP :: "bool option"
  NetNodePublicIPPrefixID :: "string option"
  NetNodePublicIPTags :: "(string option \<times> string option) option list"

text \<open>
  A chain of pointers that the code only follows to its end is one field: \<open>AMVMSize\<close> and \<open>AMUltraSsdEnabled\<close> of the hardware,
  \<open>AMCapacityReservationGroupID\<close> of the capacity reservation.
\<close>

record aksMachineProperties =
  AMProvisioningState :: "string option"
  AMStatus :: "machineStatus option"
  AMTags :: "(string, string option) gomap option"
  AMPriority :: "scaleSetPriority option"
  AMVMSize :: "string option"
  AMUltraSsdEnabled :: "bool option"
  AMResourceID :: "string option"
  AMNodeImageVersion :: "string option"
  AMCapacityReservationGroupID :: "string option"
  AMNetwork :: "machineNetwork option"
  AMETag :: "string option"

record aksMachine =
  AMID :: "string option"
  AMName :: "string option"
  AMProperties :: "aksMachineProperties option"
  AMZones :: "string option list"

definition AMProvisioningError :: "aksMachineProperties \<Rightarrow> errorDetail option" where
  "AMProvisioningError props = Option.bind (AMStatus props) StProvisioningError"

lemma AMProvisioningError_update [simp]: "AMProvisioningError (p\<lparr>AMStatus := Some st\<rparr>) = StProvisioningError st"
  by (simp add: AMProvisioningError_def)

definition noStatus :: machineStatus where
  "noStatus = \<lparr>StProvisioningError = None, StCreationTimestamp = None, StVMState = None, StDriftAction = None, StDriftReason = None\<rparr>"

definition noProperties :: aksMachineProperties where
  "noProperties = \<lparr>AMProvisioningState = None, AMStatus = None, AMTags = None, AMPriority = None, AMVMSize = None, AMUltraSsdEnabled = None,
     AMResourceID = None, AMNodeImageVersion = None, AMCapacityReservationGroupID = None, AMNetwork = None, AMETag = None\<rparr>"

text \<open>\<open>ErrText\<close> is the text of the whole error, \<open>ResponseText\<close> that of the response error it wraps.\<close>

record sdkError =
  ErrText :: string
  ResponseText :: string
  StatusCode :: "int option"
  SDKErrorCode :: string
  IsContextError :: bool

definition ProvisioningStateCreating :: string where
  "ProvisioningStateCreating = ''Creating''"

definition ProvisioningStateUpdating :: string where
  "ProvisioningStateUpdating = ''Updating''"

definition ProvisioningStateSucceeded :: string where
  "ProvisioningStateSucceeded = ''Succeeded''"

definition ProvisioningStateFailed :: string where
  "ProvisioningStateFailed = ''Failed''"

definition ProvisioningStateDeleting :: string where
  "ProvisioningStateDeleting = ''Deleting''"

lemmas provisioning_defs = ProvisioningStateCreating_def ProvisioningStateUpdating_def ProvisioningStateSucceeded_def
  ProvisioningStateFailed_def ProvisioningStateDeleting_def

text \<open>The provisioning error, the error of the poll, and whether the poll is over.\<close>

type_synonym poll_result = "errorDetail option \<times> error option \<times> bool"

text \<open>The callers have checked that the properties are there and pass them.\<close>

definition HandleProvisioningState :: "aksMachine \<Rightarrow> aksMachineProperties \<Rightarrow> poll_result" where
  "HandleProvisioningState m props =
     (let state = FromPtr (AMProvisioningState props) in
      if state = ProvisioningStateCreating \<or> state = ProvisioningStateUpdating then (None, None, False)
      else if state = ProvisioningStateDeleting then
        (None, Some (''AKS machine '' @ quoted (FromPtr (AMName m)) @ '' sees canceled provisioning state '' @ state), True)
      else if state = ProvisioningStateSucceeded then (None, None, True)
      else if state = ProvisioningStateFailed then
        (case AMProvisioningError props of
           Some e \<Rightarrow> (Some e, None, True)
         | None \<Rightarrow> (None, Some (''AKS machine '' @ quoted (FromPtr (AMName m)) @ '' sees fatal provisioning state '' @ state @
                      '', but ProvisioningError is nil''), True))
      else (None, Some (''AKS machine '' @ quoted (FromPtr (AMName m)) @ '' sees unrecognized provisioning state '' @ state), False))"

definition IsAKSMachineOrMachinesPoolNotFound :: "sdkError \<Rightarrow> bool" where
  "IsAKSMachineOrMachinesPoolNotFound e \<longleftrightarrow>
     StatusCode e = Some 404 \<or>
     (StatusCode e = Some 400 \<and> SDKErrorCode e = ''InvalidParameter'' \<and> Contains (ResponseText e) ''Cannot find any valid machines'')"

definition ongoing :: "aksMachineProperties \<Rightarrow> bool" where
  "ongoing props \<longleftrightarrow> AMProvisioningState props \<in> {Some ProvisioningStateCreating, Some ProvisioningStateUpdating}"

definition terminal :: "aksMachineProperties \<Rightarrow> bool" where
  "terminal props \<longleftrightarrow>
     AMProvisioningState props \<in> {Some ProvisioningStateSucceeded, Some ProvisioningStateFailed, Some ProvisioningStateDeleting}"

lemma HandleProvisioningState_done:
  "AMProvisioningState props \<noteq> None \<Longrightarrow> snd (snd (HandleProvisioningState m props)) \<longleftrightarrow> terminal props"
  by (auto simp: HandleProvisioningState_def terminal_def FromPtr_def provisioning_defs split: option.splits)

lemma HandleProvisioningState_ongoing:
  "AMProvisioningState props \<noteq> None \<Longrightarrow> HandleProvisioningState m props = (None, None, False) \<longleftrightarrow> ongoing props"
  by (auto simp: HandleProvisioningState_def ongoing_def FromPtr_def provisioning_defs split: option.splits)

lemma HandleProvisioningState_not_done:
  "\<not> snd (snd (HandleProvisioningState m props)) \<Longrightarrow> fst (HandleProvisioningState m props) = None"
  by (auto simp: HandleProvisioningState_def Let_def split: option.splits if_splits)

end
