(* ===== verification/Header_Batch.thy ===== *)
theory Header_Batch
  imports Batcher Offering_Errors AKS_Machine
begin

text \<open>
  Batched creation of AKS machines (src/pkg/providers/azclient/aksmachinesheaderbatch): the key that
  groups requests (batchkey.go), the \<open>BatchPutMachine\<close> header (header.go), the executor that turns
  a batch into one API call and hands the outcome to each request (executor.go), the reading of the API
  error (apiresponseutils.go, and \<open>ReadResponseBody\<close> of src/pkg/utils/azuresdk.go) and the client (client.go).

  Of the SDK's machine the model keeps the fields that the code names; \<open>HardwareRest\<close> and
  \<open>PropertiesRest\<close> stand for all others, of a type the model does not fix. JSON encoding and decoding,
  the truncated hash and the API are parameters. A nil pointer or an index out of range panics.

  Shown here: requests of one batch have the same resource path and, unless the truncated
  hash collides, the same template; per-machine fields do not split batches; an error of the API reaches
  exactly the machines it is about and is never lost; the executor meets the batcher's contract.
\<close>

subsection \<open>Data\<close>

record 'r machineHardware =
  UltraSsdEnabled :: "bool option"
  HardwareRest :: 'r

record 'r machineProperties =
  MTags :: "(string, string option) gomap option"
  ETag :: "string option"
  ProvisioningState :: "string option"
  ResourceID :: "string option"
  MStatus :: "string option"
  Hardware :: "'r machineHardware option"
  PropertiesRest :: 'r

record 'r machine =
  MachineID :: "string option"
  MachineNameField :: "string option"
  MachineTypeField :: "string option"
  MProperties :: "'r machineProperties option"
  MZones :: "string option list"

record 'r aksMachineCreatePayload =
  resourceGroupName :: string
  resourceName :: string
  agentPoolName :: string
  machineName :: string
  machineBody :: "'r machine option"

record machineEntry =
  EntryName :: string
  EntryZones :: "string list"
  EntryTags :: "(string, string) gomap"

text \<open>A response error; its body is absent, fails to be read, or is there.\<close>

record responseError =
  ErrorCode :: string
  RawBody :: "string result option"

text \<open>An error of the API, with what \<open>errors.As\<close> finds in its chain.\<close>

record apiError =
  AsResponseError :: "responseError option"
  ErrorText :: string

record json_api =
  marshalHeader :: "machineEntry list \<Rightarrow> string result"
  unmarshalErrorDetail :: "string \<Rightarrow> errorDetail result"
  unmarshalDetails :: "string \<Rightarrow> errorDetail option list result"
  unmarshalWrapped :: "string \<Rightarrow> errorDetail option result"

record 'r template_api =
  marshalMachine :: "'r machine \<Rightarrow> string result"
  hash8 :: "string \<Rightarrow> string"

text \<open>The header, the resource path, the machine name and the template give the outcome of the call.\<close>

type_synonym 'r createAPI = "string \<Rightarrow> string \<Rightarrow> string \<Rightarrow> string \<Rightarrow> string \<Rightarrow> 'r machine \<Rightarrow> apiError option"

definition nilDereference :: string where
  "nilDereference = ''runtime error: invalid memory address or nil pointer dereference''"

subsection \<open>The batch key\<close>

definition isUltraSSDEnabled :: "'r machine option \<Rightarrow> bool" where
  "isUltraSSDEnabled m =
     (case m of None \<Rightarrow> False | Some m \<Rightarrow>
      case MProperties m of None \<Rightarrow> False | Some p \<Rightarrow>
      case Hardware p of None \<Rightarrow> False | Some h \<Rightarrow> UltraSsdEnabled h = Some True)"

definition requiresZonesInSharedTemplate :: "'r machine \<Rightarrow> bool" where
  "requiresZonesInSharedTemplate m = isUltraSSDEnabled (Some m)"

text \<open>The caller checks that the properties are there and passes them.\<close>

definition buildSharedAKSMachineTemplate :: "'r machine \<Rightarrow> 'r machineProperties \<Rightarrow> 'r machine" where
  "buildSharedAKSMachineTemplate m props =
     \<lparr>MachineID = None, MachineNameField = None, MachineTypeField = None,
      MProperties = Some (props\<lparr>MTags := None, ETag := None, ProvisioningState := None, ResourceID := None, MStatus := None\<rparr>),
      MZones = (if requiresZonesInSharedTemplate m then MZones m else [])\<rparr>"

definition determineBatchKey :: "'r template_api \<Rightarrow> 'r aksMachineCreatePayload \<Rightarrow> string result" where
  "determineBatchKey T item =
     (case machineBody item of
        None \<Rightarrow> Inl ''nil payload, machine body, or properties''
      | Some m \<Rightarrow>
        (case MProperties m of
           None \<Rightarrow> Inl ''nil payload, machine body, or properties''
         | Some props \<Rightarrow>
           (case marshalMachine T (buildSharedAKSMachineTemplate m props) of
              Inl e \<Rightarrow> Inl e
            | Inr bytes \<Rightarrow>
                Inr (resourceGroupName item @ ''/'' @ resourceName item @ ''/'' @ agentPoolName item @ ''/'' @ hash8 T bytes))))"

subsection \<open>The header\<close>

definition extractZones :: "string option list \<Rightarrow> string list" where
  "extractZones zs = List.map_filter (\<lambda>z. z) zs"

definition extractTags :: "(string, string option) gomap option \<Rightarrow> (string, string) gomap" where
  "extractTags tags =
     (case tags of
        None \<Rightarrow> []
      | Some m \<Rightarrow> foldl (\<lambda>r (k, v). case v of None \<Rightarrow> r | Some s \<Rightarrow> AList.update k s r) [] m)"

definition entryOf :: "'r aksMachineCreatePayload \<Rightarrow> failure + machineEntry" where
  "entryOf p =
     (case machineBody p of
        None \<Rightarrow> Inl (Panic nilDereference)
      | Some m \<Rightarrow>
          Inr \<lparr>EntryName = machineName p,
               EntryZones = extractZones (MZones m),
               EntryTags = (case MProperties m of None \<Rightarrow> [] | Some props \<Rightarrow> extractTags (MTags props))\<rparr>)"

definition buildBatchHeader :: "json_api \<Rightarrow> 'r aksMachineCreatePayload batch \<Rightarrow> failure + string \<times> machineEntry list" where
  "buildBatchHeader J batch =
     (case foldM (\<lambda>entries req. case entryOf (Payload req) of Inl f \<Rightarrow> Inl f | Inr e \<Rightarrow> Inr (entries @ [e])) [] (Requests batch) of
        Inl f \<Rightarrow> Inl f
      | Inr entries \<Rightarrow>
          (case marshalHeader J entries of
             Inl e \<Rightarrow> Inl (Failed (''failed to marshal batch header: '' @ e))
           | Inr header \<Rightarrow> Inr (header, entries)))"

subsection \<open>Reading an API error\<close>

definition BatchMachineClientError :: string where
  "BatchMachineClientError = ''BatchMachineClientError''"

definition BatchMachineInternalServerError :: string where
  "BatchMachineInternalServerError = ''BatchMachineInternalServerError''"

definition ReadResponseBody :: "responseError \<Rightarrow> string result" where
  "ReadResponseBody respErr =
     (case RawBody respErr of
        None \<Rightarrow> Inl ''no response body''
      | Some (Inl e) \<Rightarrow> Inl e
      | Some (Inr body) \<Rightarrow> if body = [] then Inl ''empty response body'' else Inr body)"

definition detailError :: "errorDetail \<Rightarrow> handlableError" where
  "detailError d = \<lparr>HECode = FromPtr (DetailCode d), HEMessage = FromPtr (DetailMessage d)\<rparr>"

definition parsePerMachineDetails :: "json_api \<Rightarrow> responseError \<Rightarrow> errorDetail option list result" where
  "parsePerMachineDetails J respErr =
     (case ReadResponseBody respErr of
        Inl e \<Rightarrow> Inl (''failed to parse response body: '' @ e)
      | Inr body \<Rightarrow>
        (case unmarshalErrorDetail J body of
           Inl e \<Rightarrow> Inl (''failed to parse ErrorDetail: '' @ e)
         | Inr errorDetail \<Rightarrow>
             if ErrorCode respErr = BatchMachineInternalServerError then
               (case unmarshalDetails J (FromPtr (DetailMessage errorDetail)) of
                  Inl e \<Rightarrow> Inl (''failed to parse BatchMachineInternalServerError message JSON: '' @ e)
                | Inr details \<Rightarrow> Inr details)
             else if ErrorCode respErr = BatchMachineClientError then Inr (Details errorDetail)
             else Inl (''unrecognized batch error code '' @ quoted (ErrorCode respErr) @ '' when parsing per-machine details'')))"

definition parseTopLevelError :: "json_api \<Rightarrow> responseError \<Rightarrow> handlableError result" where
  "parseTopLevelError J respErr =
     (case ReadResponseBody respErr of
        Inl e \<Rightarrow> Inl (''failed to parse response body: '' @ e)
      | Inr body \<Rightarrow>
        (case unmarshalWrapped J body of
           Inr (Some d) \<Rightarrow> Inr (detailError d)
         | _ \<Rightarrow>
           (case unmarshalErrorDetail J body of
              Inl e \<Rightarrow> Inl (''failed to parse API error body: '' @ e)
            | Inr d \<Rightarrow> Inr (detailError d))))"

type_synonym machineErrors = "(string, handlableError option) gomap"

definition codeAndMessage :: "errorDetail \<Rightarrow> string" where
  "codeAndMessage d = ''Code='' @ quoted (FromPtr (DetailCode d)) @ '' Message='' @ quoted (FromPtr (DetailMessage d))"

definition addDetail :: "machineErrors \<Rightarrow> errorDetail option \<Rightarrow> failure + machineErrors" where
  "addDetail m d =
     (case d of
        None \<Rightarrow> Inl (Panic nilDereference)
      | Some d \<Rightarrow>
          if FromPtr (Target d) = [] then
            Inl (Failed (''API error has batch error code but a detail is missing target: '' @ codeAndMessage d))
          else if map_of m (FromPtr (Target d)) = None then
            Inl (Failed (''API error detail references machine '' @ quoted (FromPtr (Target d)) @
                   '' which is not in the batch: '' @ codeAndMessage d))
          else Inr (AList.update (FromPtr (Target d)) (Some (detailError d)) m))"

definition extractPerMachineErrors :: "json_api \<Rightarrow> apiError \<Rightarrow> machineErrors \<Rightarrow> failure + machineErrors" where
  "extractPerMachineErrors J apiErr m =
     (case AsResponseError apiErr of
        None \<Rightarrow> Inl (Failed (''API error is not an *azcore.ResponseError: '' @ ErrorText apiErr))
      | Some respErr \<Rightarrow>
          if ErrorCode respErr = BatchMachineClientError \<or> ErrorCode respErr = BatchMachineInternalServerError then
            (case parsePerMachineDetails J respErr of
               Inl e \<Rightarrow> Inl (Failed (''API error has batch error code '' @ quoted (ErrorCode respErr) @
                               '' but failed to parse per-machine details: '' @ e))
             | Inr details \<Rightarrow>
                 if details = [] then
                   Inl (Failed (''API error has batch error code '' @ quoted (ErrorCode respErr) @ '' but have no per-machine details''))
                 else foldM addDetail m details)
          else
            (case parseTopLevelError J respErr of
               Inl e \<Rightarrow> Inl (Failed (''API error has no batch error code '' @ quoted (ErrorCode respErr) @
                               '' but failed to parse top-level error: '' @ e))
             | Inr topLevel \<Rightarrow> Inr (map (\<lambda>(name, _). (name, Some topLevel)) m)))"

subsection \<open>The executor\<close>

type_synonym answers = "(nat \<times> handlableError response) list"

definition distributePerMachine :: "'r aksMachineCreatePayload batch \<Rightarrow> machineErrors \<Rightarrow> answers" where
  "distributePerMachine batch m =
     map (\<lambda>req. (ReqID req, \<lparr>RespPayload = Option.bind (map_of m (machineName (Payload req))) (\<lambda>e. e), Err = None\<rparr>)) (Requests batch)"

definition distributeSuccess :: "'r aksMachineCreatePayload batch \<Rightarrow> answers" where
  "distributeSuccess batch = map (\<lambda>req. (ReqID req, \<lparr>RespPayload = None, Err = None\<rparr>)) (Requests batch)"

definition distributeOperationalError :: "'r aksMachineCreatePayload batch \<Rightarrow> error \<Rightarrow> answers" where
  "distributeOperationalError batch e = map (\<lambda>req. (ReqID req, \<lparr>RespPayload = None, Err = Some e\<rparr>)) (Requests batch)"

text \<open>Every machine of the batch starts without an error.\<close>

definition initialErrors :: "'r aksMachineCreatePayload batch \<Rightarrow> machineErrors" where
  "initialErrors batch = foldl (\<lambda>m req. AList.update (machineName (Payload req)) None m) [] (Requests batch)"

definition answerAPIError :: "json_api \<Rightarrow> 'r aksMachineCreatePayload batch \<Rightarrow> apiError \<Rightarrow> answers \<times> string option" where
  "answerAPIError J batch apiErr =
     (case extractPerMachineErrors J apiErr (initialErrors batch) of
        Inl (Panic p) \<Rightarrow> ([], Some p)
      | Inl (Failed e) \<Rightarrow> (distributeOperationalError batch (''failed to extract per-machine errors: '' @ e), None)
      | Inr m \<Rightarrow> (distributePerMachine batch m, None))"

definition callAPI :: "json_api \<Rightarrow> 'r createAPI \<Rightarrow> 'r aksMachineCreatePayload batch \<Rightarrow> string
    \<Rightarrow> 'r aksMachineCreatePayload \<Rightarrow> answers \<times> string option" where
  "callAPI J api batch header first =
     (case machineBody first of
        None \<Rightarrow> ([], Some nilDereference)
      | Some m \<Rightarrow>
        (case MProperties m of
           None \<Rightarrow> (distributeOperationalError batch ''AKS machine properties is nil'', None)
         | Some props \<Rightarrow>
           (case api header (resourceGroupName first) (resourceName first) (agentPoolName first) (machineName first)
                  (buildSharedAKSMachineTemplate m props) of
              None \<Rightarrow> (distributeSuccess batch, None)
            | Some apiErr \<Rightarrow> answerAPIError J batch apiErr)))"

definition executeBatch :: "json_api \<Rightarrow> 'r createAPI \<Rightarrow> ('r aksMachineCreatePayload, handlableError) executeBatch" where
  "executeBatch J api batch =
     (case buildBatchHeader J batch of
        Inl (Panic p) \<Rightarrow> ([], Some p)
      | Inl (Failed e) \<Rightarrow> (distributeOperationalError batch (''failed to build header for batch API: '' @ e), None)
      | Inr (header, entries) \<Rightarrow>
          (case Requests batch of
             [] \<Rightarrow> ([], Some ''runtime error: index out of range [0] with length 0'')
           | first # _ \<Rightarrow> callAPI J api batch header (Payload first)))"

subsection \<open>The client\<close>

text \<open>What the caller sees first: the response on its channel, or the end of its context.\<close>

datatype waited = Received "handlableError response" | ContextDone error

definition BeginCreateWithBatch :: "'r template_api \<Rightarrow> (nat \<Rightarrow> waited) \<Rightarrow> 'r aksMachineCreatePayload
    \<Rightarrow> ('r aksMachineCreatePayload, handlableError) batcher_state
    \<Rightarrow> (handlableError option \<times> error option) \<times> ('r aksMachineCreatePayload, handlableError) batcher_state" where
  "BeginCreateWithBatch T wait payload s =
     (case Enqueue (determineBatchKey T) payload s of
        (Inl e, s') \<Rightarrow> ((None, Some e), s')
      | (Inr i, s') \<Rightarrow>
          (case wait i of
             Received r \<Rightarrow> ((RespPayload r, Err r), s')
           | ContextDone e \<Rightarrow> ((None, Some e), s')))"

subsection \<open>The executor meets the batcher's contract\<close>

lemmas distribute_defs = distributePerMachine_def distributeSuccess_def distributeOperationalError_def

lemmas outcome_splits = option.splits sum.splits failure.splits prod.splits list.splits if_splits

lemma map_fst_distribute [simp]:
  "map fst (distributePerMachine batch m) = map ReqID (Requests batch)"
  "map fst (distributeSuccess batch) = map ReqID (Requests batch)"
  "map fst (distributeOperationalError batch e) = map ReqID (Requests batch)"
  by (simp_all add: distribute_defs comp_def)

lemma answerAPIError_ids:
  "answerAPIError J batch apiErr = (rs, p) \<Longrightarrow> (case p of None \<Rightarrow> map fst rs = map ReqID (Requests batch) | Some _ \<Rightarrow> rs = [])"
  by (auto simp: answerAPIError_def split: outcome_splits)

lemma callAPI_ids:
  "callAPI J api batch header first = (rs, p) \<Longrightarrow> (case p of None \<Rightarrow> map fst rs = map ReqID (Requests batch) | Some _ \<Rightarrow> rs = [])"
  by (auto simp: callAPI_def dest: answerAPIError_ids split: outcome_splits)

lemma executeBatch_ids:
  "executeBatch J api batch = (rs, p) \<Longrightarrow> (case p of None \<Rightarrow> map fst rs = map ReqID (Requests batch) | Some _ \<Rightarrow> rs = [])"
  by (auto simp: executeBatch_def dest: callAPI_ids split: outcome_splits)

interpretation header_executor: batch_executor "executeBatch J api"
proof
  fix batch rs r
  show "mset (map fst rs) = mset (map ReqID (Requests batch))" if "executeBatch J api batch = (rs, None)"
    using executeBatch_ids [OF that] by (simp del: mset_map)
  show "rs = []" if "executeBatch J api batch = (rs, Some r)"
    using executeBatch_ids [OF that] by simp
qed

subsection \<open>Errors reach their machines\<close>

lemma initialErrors_lookup:
  "map_of (initialErrors batch) n =
     (if n \<in> (\<lambda>req. machineName (Payload req)) ` set (Requests batch) then Some None else None)"
proof -
  have "map_of (foldl (\<lambda>m req. AList.update (machineName (Payload req)) None m) m0 reqs) n =
      (if n \<in> (\<lambda>req. machineName (Payload req)) ` set reqs then Some None else map_of m0 n)"
    for m0 :: machineErrors and reqs :: "'a aksMachineCreatePayload batchedRequest list"
    by (induction reqs arbitrary: m0) (auto simp: update_conv')
  then show ?thesis by (simp add: initialErrors_def)
qed

text \<open>What a successful run of the loop over the details has checked and recorded: the last detail wins.\<close>

lemma addDetails_sound:
  assumes "foldM addDetail m ds = Inr m'"
  shows "(\<forall>d \<in> set ds. \<exists>e. d = Some e \<and> FromPtr (Target e) \<noteq> [] \<and> map_of m (FromPtr (Target e)) \<noteq> None) \<and>
     map_of m' n = (case find (\<lambda>d. FromPtr (Target (the d)) = n) (rev ds) of
                      None \<Rightarrow> map_of m n | Some d \<Rightarrow> Some (Some (detailError (the d))))"
  using assms
proof (induction ds arbitrary: m)
  case (Cons d ds)
  then obtain m1 where m1: "addDetail m d = Inr m1" "foldM addDetail m1 ds = Inr m'" by (auto split: sum.splits)
  then obtain e where e: "d = Some e" "FromPtr (Target e) \<noteq> []" "map_of m (FromPtr (Target e)) \<noteq> None"
    "m1 = AList.update (FromPtr (Target e)) (Some (detailError e)) m"
    by (auto simp: addDetail_def split: option.splits if_splits)
  have find_append: "find P (xs @ [y]) = (case find P xs of None \<Rightarrow> if P y then Some y else None | Some z \<Rightarrow> Some z)" for P xs and y :: "errorDetail option"
    by (induction xs) auto
  show ?case using Cons.IH [OF m1(2)] e
    by (fastforce simp: find_append update_conv' split: option.splits if_splits)
qed simp

lemma addDetails_total:
  assumes "\<forall>d \<in> set ds. FromPtr (Target d) \<noteq> [] \<and> map_of m (FromPtr (Target d)) \<noteq> None"
  shows "\<exists>m'. foldM addDetail m (map Some ds) = Inr m'"
  using assms
proof (induction ds arbitrary: m)
  case (Cons d ds)
  have "\<exists>m'. foldM addDetail (AList.update (FromPtr (Target d)) (Some (detailError d)) m) (map Some ds) = Inr m'"
    using Cons.prems by (intro Cons.IH) (auto simp: update_conv')
  moreover have "addDetail m (Some d) = Inr (AList.update (FromPtr (Target d)) (Some (detailError d)) m)"
    using Cons.prems by (simp add: addDetail_def)
  ultimately show ?case by simp
qed simp

lemma extracted_errors_are_not_lost:
  assumes "extractPerMachineErrors J apiErr (initialErrors batch) = Inr m" and "Requests batch \<noteq> []"
  shows "\<exists>req \<in> set (Requests batch). \<exists>e. map_of m (machineName (Payload req)) = Some (Some e)"
proof -
  obtain respErr where resp: "AsResponseError apiErr = Some respErr"
    using assms(1) by (auto simp: extractPerMachineErrors_def split: option.splits)
  show ?thesis
  proof (cases "ErrorCode respErr = BatchMachineClientError \<or> ErrorCode respErr = BatchMachineInternalServerError")
    case True
    then obtain ds where ds: "ds \<noteq> []" "foldM addDetail (initialErrors batch) ds = Inr m"
      using assms(1) resp by (auto simp: extractPerMachineErrors_def split: sum.splits if_splits)
    let ?n = "FromPtr (Target (the (last ds)))"
    have "map_of (initialErrors batch) ?n \<noteq> None" using addDetails_sound [OF ds(2)] ds(1) last_in_set by fastforce
    then obtain req where "req \<in> set (Requests batch)" "machineName (Payload req) = ?n"
      by (auto simp: initialErrors_lookup split: if_splits)
    moreover have "rev ds = last ds # rev (butlast ds)" using ds(1) by (metis append_butlast_last_id rev_eq_Cons_iff rev_rev_ident)
    then have "find (\<lambda>d. FromPtr (Target (the d)) = ?n) (rev ds) = Some (last ds)" by (metis (mono_tags, lifting) find.simps(2))
    then have "map_of m ?n = Some (Some (detailError (the (last ds))))" using addDetails_sound [OF ds(2), of ?n] by simp
    ultimately show ?thesis by metis
  next
    case False
    then obtain topErr where "m = map (\<lambda>(name, _). (name, Some topErr)) (initialErrors batch)"
      using assms(1) resp by (auto simp: extractPerMachineErrors_def split: sum.splits)
    then have "map_of m n = map_option (\<lambda>_. Some topErr) (map_of (initialErrors batch) n)" for n by (simp add: map_of_map)
    moreover obtain req where "req \<in> set (Requests batch)" using assms(2) by (meson list.set_sel(1))
    ultimately show ?thesis by (auto simp: initialErrors_lookup)
  qed
qed

definition reportsError :: "nat \<times> handlableError response \<Rightarrow> bool" where
  "reportsError r \<longleftrightarrow> RespPayload (snd r) \<noteq> None \<or> Err (snd r) \<noteq> None"

lemma reportsError_operational: "Requests batch \<noteq> [] \<Longrightarrow> list_ex reportsError (distributeOperationalError batch e)"
  by (cases "Requests batch") (simp_all add: distributeOperationalError_def reportsError_def)

lemma answerAPIError_reports:
  assumes "answerAPIError J batch apiErr = (rs, None)" and "Requests batch \<noteq> []"
  shows "list_ex reportsError rs"
proof (cases "extractPerMachineErrors J apiErr (initialErrors batch)")
  case (Inl f)
  with assms show ?thesis by (cases f) (auto simp: answerAPIError_def reportsError_operational)
next
  case (Inr m)
  then obtain req e where "req \<in> set (Requests batch)" "map_of m (machineName (Payload req)) = Some (Some e)"
    using extracted_errors_are_not_lost assms(2) by blast
  moreover have "rs = distributePerMachine batch m" using Inr assms(1) by (simp add: answerAPIError_def)
  ultimately show ?thesis
    by (auto simp: distributePerMachine_def reportsError_def list_ex_iff intro!: bexI [of _ req])
qed

lemma callAPI_reports:
  assumes "callAPI J api batch header first = (rs, None)" and "Requests batch \<noteq> []"
    and "\<And>h rg rn ap mn t. api h rg rn ap mn t \<noteq> None"
  shows "list_ex reportsError rs"
proof (cases "machineBody first")
  case None
  with assms(1) show ?thesis by (simp add: callAPI_def)
next
  case (Some m)
  show ?thesis
  proof (cases "MProperties m")
    case None
    with Some assms(1,2) show ?thesis by (auto simp: callAPI_def reportsError_operational)
  next
    case (Some props)
    obtain apiErr where "api header (resourceGroupName first) (resourceName first) (agentPoolName first) (machineName first)
        (buildSharedAKSMachineTemplate m props) = Some apiErr" using assms(3) by blast
    with Some \<open>machineBody first = Some m\<close> assms(1) have "answerAPIError J batch apiErr = (rs, None)"
      by (simp add: callAPI_def)
    then show ?thesis using assms(2) by (rule answerAPIError_reports)
  qed
qed

lemma executeBatch_reports:
  assumes "executeBatch J api batch = (rs, None)" and "Requests batch \<noteq> []"
    and "\<And>h rg rn ap mn t. api h rg rn ap mn t \<noteq> None"
  shows "list_ex reportsError rs"
proof (cases "buildBatchHeader J batch")
  case (Inl f)
  with assms(1,2) show ?thesis by (cases f) (auto simp: executeBatch_def reportsError_operational)
next
  case (Inr he)
  obtain header entries where "he = (header, entries)" by fastforce
  with Inr assms(1,2) obtain first where "callAPI J api batch header first = (rs, None)"
    by (auto simp: executeBatch_def split: list.splits)
  then show ?thesis using assms(2,3) by (rule callAPI_reports)
qed

subsection \<open>Requests of one batch\<close>

lemma slash_split:
  assumes "CHR ''/'' \<notin> set a" and "CHR ''/'' \<notin> set c" and "a @ ''/'' @ b = c @ ''/'' @ d"
  shows "a = c \<and> b = d"
proof -
  have tw: "takeWhile (\<lambda>x. x \<noteq> CHR ''/'') (x @ ''/'' @ y) = x" if "CHR ''/'' \<notin> set x" for x y
    using that by (induction x) auto
  from tw [OF assms(1), of b] tw [OF assms(2), of d] assms(3) have "a = c" by simp
  with assms(3) show ?thesis by simp
qed

definition slashFree :: "'r aksMachineCreatePayload \<Rightarrow> bool" where
  "slashFree p \<longleftrightarrow> CHR ''/'' \<notin> set (resourceGroupName p) \<and> CHR ''/'' \<notin> set (resourceName p) \<and> CHR ''/'' \<notin> set (agentPoolName p)"

definition templateOf :: "'r aksMachineCreatePayload \<Rightarrow> 'r machine option" where
  "templateOf p = Option.bind (machineBody p) (\<lambda>m. map_option (buildSharedAKSMachineTemplate m) (MProperties m))"

text \<open>The truncated hash tells the encodings of two templates apart.\<close>

definition collision_free :: "'r template_api \<Rightarrow> 'r machine option \<Rightarrow> 'r machine option \<Rightarrow> bool" where
  "collision_free T t1 t2 \<longleftrightarrow>
     (case (Option.bind t1 (\<lambda>t. case marshalMachine T t of Inr a \<Rightarrow> Some a | _ \<Rightarrow> None),
            Option.bind t2 (\<lambda>t. case marshalMachine T t of Inr a \<Rightarrow> Some a | _ \<Rightarrow> None)) of
        (Some a, Some b) \<Rightarrow> hash8 T a = hash8 T b \<longrightarrow> t1 = t2
      | _ \<Rightarrow> True)"

lemma determineBatchKey_cases:
  assumes "determineBatchKey T p = Inr k"
  obtains t a where "templateOf p = Some t" "marshalMachine T t = Inr a"
    "k = resourceGroupName p @ ''/'' @ resourceName p @ ''/'' @ agentPoolName p @ ''/'' @ hash8 T a"
  using assms by (auto simp: determineBatchKey_def templateOf_def split: option.splits sum.splits)

lemma same_key:
  assumes "determineBatchKey T p = Inr k" and "determineBatchKey T q = Inr k"
    and "slashFree p" and "slashFree q" and "collision_free T (templateOf p) (templateOf q)"
  shows "resourceGroupName p = resourceGroupName q \<and> resourceName p = resourceName q \<and>
    agentPoolName p = agentPoolName q \<and> templateOf p = templateOf q"
proof -
  obtain t a where t: "templateOf p = Some t" "marshalMachine T t = Inr a"
    "k = resourceGroupName p @ ''/'' @ resourceName p @ ''/'' @ agentPoolName p @ ''/'' @ hash8 T a"
    using determineBatchKey_cases [OF assms(1)] by metis
  obtain u b where u: "templateOf q = Some u" "marshalMachine T u = Inr b"
    "k = resourceGroupName q @ ''/'' @ resourceName q @ ''/'' @ agentPoolName q @ ''/'' @ hash8 T b"
    using determineBatchKey_cases [OF assms(2)] by metis
  note free = assms(3,4) [unfolded slashFree_def]
  have 1: "resourceGroupName p = resourceGroupName q \<and> resourceName p @ ''/'' @ agentPoolName p @ ''/'' @ hash8 T a =
      resourceName q @ ''/'' @ agentPoolName q @ ''/'' @ hash8 T b" using t(3) u(3) free by (intro slash_split) auto
  then have 2: "resourceName p = resourceName q \<and> agentPoolName p @ ''/'' @ hash8 T a = agentPoolName q @ ''/'' @ hash8 T b"
    using free by (intro slash_split) auto
  then have 3: "agentPoolName p = agentPoolName q \<and> hash8 T a = hash8 T b" using free by (intro slash_split) auto
  then have "templateOf p = templateOf q" using assms(5) t(1,2) u(1,2) by (simp add: collision_free_def)
  with 1 2 3 show ?thesis by blast
qed

subsection \<open>A concrete batch\<close>

definition ex_payload :: "string \<Rightarrow> string \<Rightarrow> string aksMachineCreatePayload" where
  "ex_payload name zone = \<lparr>resourceGroupName = ''rg'', resourceName = ''aks'', agentPoolName = ''pool'', machineName = name,
     machineBody = Some \<lparr>MachineID = None, MachineNameField = None, MachineTypeField = None,
       MProperties = Some \<lparr>MTags = Some [(''nodeclaim'', Some name)], ETag = None, ProvisioningState = None, ResourceID = None,
         MStatus = None, Hardware = None, PropertiesRest = ''Standard_D2s_v5''\<rparr>,
       MZones = [Some zone]\<rparr>\<rparr>"

definition ex_template :: "string template_api" where
  "ex_template = \<lparr>marshalMachine = (\<lambda>m. case MProperties m of None \<Rightarrow> Inl ''nil'' | Some p \<Rightarrow> Inr (PropertiesRest p)), hash8 = (\<lambda>s. s)\<rparr>"

definition ex_json :: json_api where
  "ex_json = \<lparr>marshalHeader = (\<lambda>es. Inr (concat (map EntryName es))),
     unmarshalErrorDetail = (\<lambda>b. Inr (ErrorDetail (Some b) (Some b) None
        [Some (ErrorDetail (Some ''SkuNotAvailable'') (Some ''no capacity'') (Some ''m2'') [])])),
     unmarshalDetails = (\<lambda>b. Inr []), unmarshalWrapped = (\<lambda>b. Inr None)\<rparr>"

definition ex_error :: apiError where
  "ex_error = \<lparr>AsResponseError = Some \<lparr>ErrorCode = BatchMachineClientError, RawBody = Some (Inr ''body'')\<rparr>, ErrorText = ''400''\<rparr>"

definition ex_request :: "nat \<Rightarrow> string \<Rightarrow> string \<Rightarrow> string aksMachineCreatePayload batchedRequest" where
  "ex_request i name zone = \<lparr>ReqID = i, Key = ''rg/aks/pool/Standard_D2s_v5'', Payload = ex_payload name zone\<rparr>"

definition ex_batch :: "string aksMachineCreatePayload batch" where
  "ex_batch = \<lparr>BatchKey = ''rg/aks/pool/Standard_D2s_v5'', Requests = [ex_request 0 ''m1'' ''1'', ex_request 1 ''m2'' ''2'']\<rparr>"

definition ex_state :: "(string aksMachineCreatePayload, handlableError) batcher_state" where
  "ex_state = snd (Enqueue (determineBatchKey ex_template) (ex_payload ''m2'' ''2'')
     (snd (Enqueue (determineBatchKey ex_template) (ex_payload ''m1'' ''1'') New)))"

lemma ex_key: "determineBatchKey ex_template (ex_payload name zone) = Inr ''rg/aks/pool/Standard_D2s_v5''"
  by (simp add: determineBatchKey_def ex_payload_def ex_template_def buildSharedAKSMachineTemplate_def)

lemma ex_state_reach: "batcher_reach (determineBatchKey ex_template) (executeBatch ex_json api) opts ex_state"
  unfolding ex_state_def
  by (rule batcher_reach.step [OF batcher_reach.step [OF batcher_reach.new]]; rule batcher_step.enqueue)

lemma ex_state_pending: "map snd (pendingBatches ex_state) = [ex_batch]"
  by (simp add: ex_state_def Enqueue_def ex_key New_def addRequest_def ex_batch_def ex_request_def)

subsection \<open>Properties\<close>

text \<open>
  C9: All requests of one batch, pending or running, in any reachable state of the batcher, name the same
  resource group, cluster and agent pool (names have no slash), and, unless the truncated hash collides
  on their encodings, have the same shared template; so the one call made with the first request's path and
  template stands for all of them.
\<close>

theorem requests_of_a_batch_share_path_and_template:
  assumes "batcher_reach (determineBatchKey T) (executeBatch J api) opts s"
    and "b \<in> set (map snd (pendingBatches s)) \<union> set (running s)"
    and "r1 \<in> set (Requests b)" and "r2 \<in> set (Requests b)"
    and "slashFree (Payload r1)" and "slashFree (Payload r2)"
    and "collision_free T (templateOf (Payload r1)) (templateOf (Payload r2))"
  shows "resourceGroupName (Payload r1) = resourceGroupName (Payload r2) \<and> resourceName (Payload r1) = resourceName (Payload r2) \<and>
    agentPoolName (Payload r1) = agentPoolName (Payload r2) \<and> templateOf (Payload r1) = templateOf (Payload r2) \<and>
    templateOf (Payload r1) \<noteq> None"
proof -
  have "batcher_inv (determineBatchKey T) s" using assms(1) by (rule header_executor.reach_inv)
  with assms(2-4) have k: "determineBatchKey T (Payload r1) = Inr (BatchKey b)" "determineBatchKey T (Payload r2) = Inr (BatchKey b)"
    by (auto simp: batcher_inv_def keyed_def)
  then have "templateOf (Payload r1) \<noteq> None" by (metis determineBatchKey_cases option.distinct(1))
  with same_key [OF k assms(5-7)] show ?thesis by blast
qed

theorem requests_of_a_batch_share_path_and_template_witness:
  "templateOf (ex_payload ''m1'' ''1'') = templateOf (ex_payload ''m2'' ''2'')"
proof -
  have "templateOf (Payload (ex_request 0 ''m1'' ''1'')) = templateOf (Payload (ex_request 1 ''m2'' ''2''))"
    using requests_of_a_batch_share_path_and_template [OF ex_state_reach [of "\<lambda>_ _ _ _ _ _. None" "\<lparr>MaxBatchSize = 50\<rparr>"],
        of ex_batch "ex_request 0 ''m1'' ''1''" "ex_request 1 ''m2'' ''2''"] ex_state_pending
    by (simp add: ex_batch_def ex_request_def slashFree_def ex_payload_def collision_free_def templateOf_def
        buildSharedAKSMachineTemplate_def requiresZonesInSharedTemplate_def isUltraSSDEnabled_def)
  then show ?thesis by (simp add: ex_request_def)
qed

text \<open>
  Per-machine data does not split batches: the key is the same for another machine name,
  other tags, other read-only fields and, unless UltraSSD needs the zones in the template, other zones.
\<close>

theorem per_machine_fields_do_not_split_batches:
  assumes "machineBody p = Some m" and "MProperties m = Some props"
    and "isUltraSSDEnabled (Some m) \<Longrightarrow> zones = MZones m"
  shows "determineBatchKey T (p\<lparr>machineName := name, machineBody := Some (m\<lparr>MachineID := i, MachineNameField := n, MZones := zones,
      MProperties := Some (props\<lparr>MTags := tags, ETag := etag, ProvisioningState := ps, ResourceID := rid, MStatus := st\<rparr>)\<rparr>)\<rparr>)
    = determineBatchKey T p"
proof -
  let ?props = "props\<lparr>MTags := tags, ETag := etag, ProvisioningState := ps, ResourceID := rid, MStatus := st\<rparr>"
  let ?m = "m\<lparr>MachineID := i, MachineNameField := n, MZones := zones, MProperties := Some ?props\<rparr>"
  have ultra: "isUltraSSDEnabled (Some ?m) = isUltraSSDEnabled (Some m)" using assms(2) by (simp add: isUltraSSDEnabled_def)
  have "buildSharedAKSMachineTemplate ?m ?props = buildSharedAKSMachineTemplate m props"
    using assms(3) unfolding buildSharedAKSMachineTemplate_def requiresZonesInSharedTemplate_def ultra by simp
  then show ?thesis using assms(1,2)
    by (cases "marshalMachine T (buildSharedAKSMachineTemplate m props)") (simp_all add: determineBatchKey_def)
qed

theorem per_machine_fields_do_not_split_batches_witness:
  "determineBatchKey ex_template ((ex_payload ''m1'' ''1'')\<lparr>machineName := ''m3'', machineBody :=
     Some ((the (machineBody (ex_payload ''m1'' ''1'')))\<lparr>MachineID := None, MachineNameField := Some ''m3'', MZones := [Some ''3''],
       MProperties := Some ((the (MProperties (the (machineBody (ex_payload ''m1'' ''1'')))))\<lparr>MTags := None, ETag := Some ''e'',
         ProvisioningState := None, ResourceID := None, MStatus := None\<rparr>)\<rparr>)\<rparr>)
   = determineBatchKey ex_template (ex_payload ''m1'' ''1'')"
  by (rule per_machine_fields_do_not_split_batches)
    (simp_all add: ex_payload_def isUltraSSDEnabled_def)

text \<open>
  C26: When the API reports a batch error whose details name machines of the batch, each
  request is answered with the error of the last detail that names its machine, and every machine that no
  detail names succeeds; no operational error is reported.
\<close>

theorem batch_errors_reach_exactly_the_named_machines:
  assumes "AsResponseError apiErr = Some respErr"
    and "ErrorCode respErr \<in> {BatchMachineClientError, BatchMachineInternalServerError}"
    and "parsePerMachineDetails J respErr = Inr (map Some ds)" and "ds \<noteq> []"
    and "\<forall>d \<in> set ds. FromPtr (Target d) \<noteq> [] \<and> FromPtr (Target d) \<in> (\<lambda>req. machineName (Payload req)) ` set (Requests batch)"
  shows "answerAPIError J batch apiErr =
    (map (\<lambda>req. (ReqID req, \<lparr>RespPayload = map_option detailError
        (find (\<lambda>d. FromPtr (Target d) = machineName (Payload req)) (rev ds)), Err = None\<rparr>)) (Requests batch), None)"
proof -
  obtain m where m: "foldM addDetail (initialErrors batch) (map Some ds) = Inr m"
    using assms(5) addDetails_total [of ds "initialErrors batch"] by (auto simp: initialErrors_lookup)
  have find_Some: "find (\<lambda>d. P (the d)) (map Some xs) = map_option Some (find P xs)" for P and xs :: "errorDetail list"
    by (induction xs) auto
  have "map_of m (machineName (Payload req)) =
      Some (map_option detailError (find (\<lambda>d. FromPtr (Target d) = machineName (Payload req)) (rev ds)))"
    if "req \<in> set (Requests batch)" for req
    using addDetails_sound [OF m, of "machineName (Payload req)"] that
      find_Some [of "\<lambda>d. FromPtr (Target d) = machineName (Payload req)" "rev ds"]
    by (auto simp: rev_map initialErrors_lookup split: option.splits)
  then show ?thesis using assms(1-4) m
    by (auto simp: answerAPIError_def extractPerMachineErrors_def distributePerMachine_def)
qed

theorem batch_errors_reach_exactly_the_named_machines_witness:
  "answerAPIError ex_json ex_batch ex_error =
     ([(0, \<lparr>RespPayload = None, Err = None\<rparr>),
       (1, \<lparr>RespPayload = Some \<lparr>HECode = ''SkuNotAvailable'', HEMessage = ''no capacity''\<rparr>, Err = None\<rparr>)], None)"
  using batch_errors_reach_exactly_the_named_machines [of ex_error "the (AsResponseError ex_error)" ex_json
      "[ErrorDetail (Some ''SkuNotAvailable'') (Some ''no capacity'') (Some ''m2'') []]" ex_batch]
  by (simp add: ex_error_def ex_json_def ex_batch_def ex_request_def ex_payload_def parsePerMachineDetails_def
      ReadResponseBody_def FromPtr_def detailError_def BatchMachineClientError_def BatchMachineInternalServerError_def)

text \<open>
  An error that is not a batch error is about the whole call: its top-level code and message are
  given to every machine of the batch, and if it cannot be read every request fails with an
  operational error.
\<close>

theorem other_errors_reach_every_machine:
  assumes "AsResponseError apiErr = Some respErr"
    and "ErrorCode respErr \<notin> {BatchMachineClientError, BatchMachineInternalServerError}"
  shows "answerAPIError J batch apiErr =
    (case parseTopLevelError J respErr of
       Inr topErr \<Rightarrow> (map (\<lambda>req. (ReqID req, \<lparr>RespPayload = Some topErr, Err = None\<rparr>)) (Requests batch), None)
     | Inl e \<Rightarrow> (map (\<lambda>req. (ReqID req, \<lparr>RespPayload = None, Err = Some (''failed to extract per-machine errors: '' @
         ''API error has no batch error code '' @ quoted (ErrorCode respErr) @ '' but failed to parse top-level error: '' @ e)\<rparr>))
         (Requests batch), None))"
proof -
  have "map_of (map (\<lambda>(name, _). (name, Some topErr)) (initialErrors batch)) (machineName (Payload req)) = Some (Some topErr)"
    if "req \<in> set (Requests batch)" for req and topErr :: handlableError
    using that by (simp add: map_of_map initialErrors_lookup)
  with assms show ?thesis
    by (auto simp: answerAPIError_def extractPerMachineErrors_def distributePerMachine_def distributeOperationalError_def split: sum.splits)
qed

theorem other_errors_reach_every_machine_witness:
  "fst (answerAPIError ex_json ex_batch \<lparr>AsResponseError = Some \<lparr>ErrorCode = ''Conflict'', RawBody = Some (Inr ''busy'')\<rparr>, ErrorText = ''409''\<rparr>)
    = [(0, \<lparr>RespPayload = Some \<lparr>HECode = ''busy'', HEMessage = ''busy''\<rparr>, Err = None\<rparr>),
       (1, \<lparr>RespPayload = Some \<lparr>HECode = ''busy'', HEMessage = ''busy''\<rparr>, Err = None\<rparr>)]"
  using other_errors_reach_every_machine [of "\<lparr>AsResponseError = Some \<lparr>ErrorCode = ''Conflict'', RawBody = Some (Inr ''busy'')\<rparr>, ErrorText = ''409''\<rparr>"
      "\<lparr>ErrorCode = ''Conflict'', RawBody = Some (Inr ''busy'')\<rparr>" ex_json ex_batch]
  by (simp add: ex_json_def ex_batch_def ex_request_def parseTopLevelError_def
      ReadResponseBody_def FromPtr_def detailError_def BatchMachineClientError_def BatchMachineInternalServerError_def)

text \<open>
  C14: A failed API call is never reported as a success: if the call fails, at least one request of the
  batch is answered with an error, also when reading the error panics, and every request is
  answered exactly once.
\<close>

theorem failed_calls_are_reported:
  assumes "Requests batch \<noteq> []" and "\<And>h rg rn ap mn t. api h rg rn ap mn t \<noteq> None"
  shows "list_ex reportsError (runBatch (executeBatch J api) received batch) \<and>
    mset (map fst (runBatch (executeBatch J api) received batch)) = mset (map ReqID (Requests batch))"
proof -
  obtain rs p where rp: "executeBatch J api batch = (rs, p)" by fastforce
  have "list_ex reportsError (runBatch (executeBatch J api) received batch)"
  proof (cases p)
    case None
    with rp executeBatch_reports [OF _ assms] show ?thesis by (simp add: runBatch_def)
  next
    case (Some r)
    with rp header_executor.panics_first have "rs = []" by blast
    with rp Some assms(1) show ?thesis
      by (cases "Requests batch") (simp_all add: runBatch_def reportsError_def panicError_def)
  qed
  with header_executor.runBatch_answers show ?thesis by blast
qed

theorem failed_calls_are_reported_witness:
  "list_ex reportsError (runBatch (executeBatch ex_json (\<lambda>_ _ _ _ _ _. Some ex_error)) (\<lambda>_. False) ex_batch)"
  using failed_calls_are_reported [of ex_batch "\<lambda>_ _ _ _ _ _. Some ex_error" ex_json "\<lambda>_. False"]
  by (simp add: ex_batch_def)

end
