(* ===== verification/Pricing.thy ===== *)
theory Pricing
  imports Prelude
begin

text \<open>
  Prices of instance types (src/pkg/providers/pricing/pricing.go) and the retail price client
  (src/pkg/providers/pricing/client). The provider starts with a static price table for its region,
  which the build generates and which is a parameter here, and replaces it with prices that it reads from the
  paged API. HTTP, JSON and URL escaping are parameters; the paging loop follows the links of the server
  and is a partial function, undefined when the links never end. Log lines and the change monitor,
  which only decides what is logged, are left out.

  Shown here: prices after an update are exactly those of the items that are for current Linux virtual
  machines, whatever the order in which the map is walked; a failed, cancelled or empty update keeps the
  prices there were; the paging loop returns whenever the chain of pages is finite.
\<close>

subsection \<open>The client\<close>

text \<open>What \<open>encoding/json\<close> decodes into a field of type \<open>any\<close>. Arrays and objects cannot be map keys.\<close>

datatype json_value = JNull | JBool bool | JNumber rat | JString string
  | JArray "json_value list" | JObject "(string \<times> json_value) list"

fun hashable :: "json_value \<Rightarrow> bool" where
  "hashable (JArray _) = False"
| "hashable (JObject _) = False"
| "hashable _ = True"

record item =
  CurrencyCode :: string
  TierMinimumUnits :: rat
  RetailPrice :: rat
  UnitPrice :: rat
  ArmRegionName :: string
  ItemLocation :: string
  EffectiveStartDate :: "time option"
  MeterID :: string
  MeterName :: string
  ProductID :: string
  SkuID :: string
  AvailabilityID :: json_value
  ProductName :: string
  SkuName :: string
  ServiceName :: string
  ServiceID :: string
  ServiceFamily :: string
  UnitOfMeasure :: string
  ItemType :: string
  IsPrimaryMeterRegion :: bool
  ArmSkuName :: string
  EffectiveEndDate :: "time option"
  ReservationTerm :: string

record productsPricePage =
  BillingCurrency :: string
  CustomerEntityID :: string
  CustomerEntityType :: string
  Items :: "item list"
  NextPageLink :: string
  Count :: int

record filter_param =
  Field :: string
  Operator :: string
  Value :: string

definition Equals :: string where
  "Equals = ''eq''"

definition Filter_String :: "filter_param \<Rightarrow> string" where
  "Filter_String f = Field f @ '' '' @ Operator f @ '' '' @ [CHR 0x27] @ Value f @ [CHR 0x27]"

definition apiVersion :: string where
  "apiVersion = ''2023-01-01-preview''"

definition pricingURL :: string where
  "pricingURL = ''https://prices.azure.com/api/retail/prices?api-version='' @ apiVersion"

text \<open>The resource manager endpoints of the cloud and of the SDK's public cloud tell whether the cloud is public.\<close>

definition TrimRightSlash :: "string \<Rightarrow> string" where
  "TrimRightSlash s = rev (dropWhile (\<lambda>c. c = CHR ''/'') (rev s))"

definition IsPublic :: "string \<Rightarrow> string \<Rightarrow> bool" where
  "IsPublic publicEndpoint endpoint \<longleftrightarrow> ToLower (TrimRightSlash endpoint) = ToLower (TrimRightSlash publicEndpoint)"

text \<open>A response: its status code, and its body or the error of reading it.\<close>

record http_api =
  httpGet :: "string \<Rightarrow> (nat \<times> string result) result"
  unmarshalPage :: "string \<Rightarrow> productsPricePage result"
  queryEscape :: "string \<Rightarrow> string"

definition fetchPage :: "http_api \<Rightarrow> string \<Rightarrow> productsPricePage result" where
  "fetchPage W url =
     (case httpGet W url of
        Inl e \<Rightarrow> Inl e
      | Inr (code, body) \<Rightarrow>
          if code \<noteq> 200 then Inl (''got a non-200 status code: '' @ Itoa (int code))
          else (case body of Inl e \<Rightarrow> Inl e | Inr b \<Rightarrow> unmarshalPage W b))"

text \<open>The loop over the pages; the handler threads the caller's state and may panic.\<close>

partial_function (option) pricePages :: "http_api \<Rightarrow> ('s \<Rightarrow> productsPricePage \<Rightarrow> failure + 's) \<Rightarrow> string \<Rightarrow> 's
    \<Rightarrow> (failure + 's) option" where
  "pricePages W handler nextURL s =
     (if nextURL = [] then Some (Inr s)
      else case fetchPage W nextURL of
        Inl e \<Rightarrow> Some (Inl (Failed e))
      | Inr page \<Rightarrow>
          (case handler s page of
             Inl f \<Rightarrow> Some (Inl f)
           | Inr s' \<Rightarrow> pricePages W handler (NextPageLink page) s'))"

definition firstURL :: "http_api \<Rightarrow> filter_param list \<Rightarrow> string" where
  "firstURL W filters =
     (if filters = [] then pricingURL
      else pricingURL @ ''&$filter='' @ queryEscape W (Join '' and '' (map Filter_String filters)))"

definition GetProductsPricePages :: "http_api \<Rightarrow> bool \<Rightarrow> filter_param list \<Rightarrow> ('s \<Rightarrow> productsPricePage \<Rightarrow> failure + 's) \<Rightarrow> 's
    \<Rightarrow> (failure + 's) option" where
  "GetProductsPricePages W public filters handler s =
     (if \<not> public then Some (Inl (Failed ''pricing API is not supported in non-public clouds''))
      else pricePages W handler (firstURL W filters) s)"

subsection \<open>Reading the prices\<close>

definition skipItem :: "time \<Rightarrow> item \<Rightarrow> bool" where
  "skipItem fetchTime i \<longleftrightarrow>
     HasSuffix (ProductName i) '' Windows'' \<or> HasSuffix (ProductName i) '' Win'' \<or> HasSuffix (ProductName i) '' Windows VM'' \<or>
     (case EffectiveEndDate i of None \<Rightarrow> False | Some t \<Rightarrow> t < fetchTime) \<or>
     HasSuffix (MeterName i) '' Low Priority'' \<or>
     HasSuffix (ProductName i) '' Cloud Services'' \<or> HasSuffix (ProductName i) '' CloudServices''"

text \<open>The keys of the Go map \<open>prices\<close>, in the order in which they are first inserted.\<close>

definition processPage :: "time \<Rightarrow> item list \<Rightarrow> productsPricePage \<Rightarrow> failure + item list" where
  "processPage fetchTime prices page =
     foldM (\<lambda>prices i.
       if skipItem fetchTime i then Inr prices
       else if \<not> hashable (AvailabilityID i) then Inl (Panic ''runtime error: hash of unhashable type'')
       else Inr (if i \<in> set prices then prices else prices @ [i])) prices (Items page)"

type_synonym prices = "(string, rat) gomap"

definition isSpot :: "item \<Rightarrow> bool" where
  "isSpot i \<longleftrightarrow> HasSuffix (SkuName i) '' Spot''"

definition categorizePrices :: "(item list \<Rightarrow> item list) \<Rightarrow> item list \<Rightarrow> prices \<times> prices" where
  "categorizePrices rng prices =
     foldl (\<lambda>(onDemand, spot) i.
       if isSpot i then (onDemand, AList.update (ArmSkuName i) (RetailPrice i) spot)
       else (AList.update (ArmSkuName i) (RetailPrice i) onDemand, spot)) ([], []) (rng prices)"

definition pricingFilters :: "string \<Rightarrow> filter_param list" where
  "pricingFilters region =
     [\<lparr>Field = ''priceType'', Operator = Equals, Value = ''Consumption''\<rparr>,
      \<lparr>Field = ''currencyCode'', Operator = Equals, Value = ''USD''\<rparr>,
      \<lparr>Field = ''serviceFamily'', Operator = Equals, Value = ''Compute''\<rparr>,
      \<lparr>Field = ''serviceName'', Operator = Equals, Value = ''Virtual Machines''\<rparr>,
      \<lparr>Field = ''armRegionName'', Operator = Equals, Value = region\<rparr>]"

definition FetchPricing :: "http_api \<Rightarrow> bool \<Rightarrow> (item list \<Rightarrow> item list) \<Rightarrow> time \<Rightarrow> string \<Rightarrow> (failure + prices \<times> prices) option" where
  "FetchPricing W public rng now region =
     map_option (map_sum (\<lambda>f. f) (categorizePrices rng))
       (GetProductsPricePages W public (pricingFilters region) (processPage now) [])"

subsection \<open>The provider\<close>

definition pricingUpdatePeriod :: duration where
  "pricingUpdatePeriod = 12 * Hour"

definition defaultRegion :: string where
  "defaultRegion = ''eastus''"

definition MissingPrice :: rat where
  "MissingPrice = 999"

record provider =
  region :: string
  onDemandUpdateTime :: time
  onDemandPrices :: prices
  spotUpdateTime :: time
  spotPrices :: prices

text \<open>The generated table: static prices per region, and when they were read.\<close>

record static_prices =
  initialOnDemandPrices :: "(string, prices) gomap"
  InitialPriceUpdate :: time

text \<open>A missing key of a Go map of maps gives the nil map.\<close>

definition staticPricing :: "static_prices \<Rightarrow> string \<Rightarrow> prices" where
  "staticPricing S r =
     (case map_of (initialOnDemandPrices S) r of
        Some p \<Rightarrow> p
      | None \<Rightarrow> (case map_of (initialOnDemandPrices S) defaultRegion of Some p \<Rightarrow> p | None \<Rightarrow> []))"

definition NewProvider :: "static_prices \<Rightarrow> string \<Rightarrow> provider" where
  "NewProvider S r = \<lparr>region = r, onDemandUpdateTime = InitialPriceUpdate S, onDemandPrices = staticPricing S r,
     spotUpdateTime = InitialPriceUpdate S, spotPrices = staticPricing S r\<rparr>"

definition InstanceTypes :: "provider \<Rightarrow> string list" where
  "InstanceTypes p = remdups (map fst (onDemandPrices p) @ map fst (spotPrices p))"

definition OnDemandPrice :: "provider \<Rightarrow> string \<Rightarrow> rat \<times> bool" where
  "OnDemandPrice p instanceType =
     (case map_of (onDemandPrices p) instanceType of None \<Rightarrow> (MissingPrice, False) | Some price \<Rightarrow> (price, True))"

definition SpotPrice :: "provider \<Rightarrow> string \<Rightarrow> rat \<times> bool" where
  "SpotPrice p instanceType =
     (case map_of (spotPrices p) instanceType of None \<Rightarrow> (MissingPrice, False) | Some price \<Rightarrow> (price, True))"

definition storePrices :: "time \<Rightarrow> prices \<times> prices \<Rightarrow> provider \<Rightarrow> provider" where
  "storePrices now fetched p =
     (let p' = (if fst fetched = [] then p else p\<lparr>onDemandPrices := fst fetched, onDemandUpdateTime := now\<rparr>)
      in if snd fetched = [] then p' else p'\<lparr>spotPrices := snd fetched, spotUpdateTime := now\<rparr>)"

text \<open>An update that may not return; a panic ends the process.\<close>

definition updatePricing :: "http_api \<Rightarrow> bool \<Rightarrow> (item list \<Rightarrow> item list) \<Rightarrow> bool \<Rightarrow> time \<Rightarrow> provider \<Rightarrow> (string + provider) option" where
  "updatePricing W public rng cancelled now p =
     (if cancelled then Some (Inr p)
      else map_option (\<lambda>r. case r of
          Inl (Panic m) \<Rightarrow> Inl m
        | Inl (Failed e) \<Rightarrow> Inr p
        | Inr fetched \<Rightarrow> Inr (storePrices now fetched p)) (FetchPricing W public rng now (region p)))"

definition Reset :: "static_prices \<Rightarrow> provider \<Rightarrow> provider" where
  "Reset S p = p\<lparr>onDemandPrices := staticPricing S (region p), onDemandUpdateTime := InitialPriceUpdate S,
     spotPrices := staticPricing S (region p), spotUpdateTime := InitialPriceUpdate S\<rparr>"

definition Regions :: "static_prices \<Rightarrow> string list" where
  "Regions S = map fst (initialOnDemandPrices S)"

text \<open>
  The background loop of a public cloud: updates at start-up and then periodically, each with the
  server, the walk over the map, the cancellation state and the time it meets. In any other cloud it never runs.
\<close>

inductive pricing_run :: "static_prices \<Rightarrow> string \<Rightarrow> bool \<Rightarrow> provider \<Rightarrow> bool"
  for S :: static_prices and r :: string and public :: bool where
  new: "pricing_run S r public (NewProvider S r)"
| update: "pricing_run S r public p \<Longrightarrow> public \<Longrightarrow> updatePricing W public rng cancelled now p = Some (Inr p') \<Longrightarrow> pricing_run S r public p'"

subsection \<open>The items that are kept\<close>

text \<open>The pages that the server links from a URL to the end.\<close>

fun chain :: "http_api \<Rightarrow> string \<Rightarrow> productsPricePage list \<Rightarrow> bool" where
  "chain W url [] = (url = [])"
| "chain W url (p # ps) = (url \<noteq> [] \<and> fetchPage W url = Inr p \<and> chain W (NextPageLink p) ps)"

definition pageItems :: "productsPricePage list \<Rightarrow> item list" where
  "pageItems ps = concat (map Items ps)"

lemma pricePages_chain: "chain W url ps \<Longrightarrow> pricePages W handler url s = Some (foldM handler s ps)"
proof (induction ps arbitrary: url s)
  case Nil
  then show ?case by (simp add: pricePages.simps)
next
  case (Cons p ps)
  then show ?case by (subst pricePages.simps) (auto split: sum.splits)
qed

lemma foldM_foldM_concat:
  "foldM (\<lambda>s p. foldM f s (g p)) s ps = foldM f s (concat (map g ps))"
proof -
  have app: "foldM f s (xs @ ys) = (case foldM f s xs of Inl e \<Rightarrow> Inl e | Inr s' \<Rightarrow> foldM f s' ys)" for s xs ys
    by (induction xs arbitrary: s) (auto split: sum.splits)
  show ?thesis by (induction ps arbitrary: s) (auto simp: app split: sum.splits)
qed

lemma processPages:
  assumes "\<forall>i \<in> set (pageItems ps). hashable (AvailabilityID i)"
  shows "\<exists>kept. foldM (processPage now) prices ps = Inr kept \<and> set kept = set prices \<union> {i \<in> set (pageItems ps). \<not> skipItem now i}"
proof -
  let ?f = "\<lambda>prices i. if skipItem now i then Inr prices
       else if \<not> hashable (AvailabilityID i) then Inl (Panic ''runtime error: hash of unhashable type'')
       else Inr (if i \<in> set prices then prices else prices @ [i])"
  have "\<exists>kept. foldM ?f prices is = Inr kept \<and> set kept = set prices \<union> {i \<in> set is. \<not> skipItem now i}"
    if "\<forall>i \<in> set is. hashable (AvailabilityID i)" for "is" prices
    using that
  proof (induction "is" arbitrary: prices)
    case (Cons i "is")
    let ?new = "if skipItem now i \<or> i \<in> set prices then prices else prices @ [i]"
    from Cons.prems have "foldM ?f prices (i # is) = foldM ?f ?new is" by simp
    moreover obtain kept where "foldM ?f ?new is = Inr kept" "set kept = set ?new \<union> {i \<in> set is. \<not> skipItem now i}"
      using Cons.IH [of ?new] Cons.prems by fastforce
    moreover have "set ?new \<union> {i \<in> set is. \<not> skipItem now i} = set prices \<union> {j \<in> set (i # is). \<not> skipItem now j}" by auto
    ultimately show ?case by metis
  qed simp
  then have "\<exists>kept. foldM ?f prices (pageItems ps) = Inr kept \<and> set kept = set prices \<union> {i \<in> set (pageItems ps). \<not> skipItem now i}"
    using assms by blast
  then show ?thesis by (simp add: processPage_def [abs_def] foldM_foldM_concat pageItems_def)
qed

text \<open>The price table of one capacity type: some item of the type gives each price, and every item of the type is priced.\<close>

definition prices_of :: "item list \<Rightarrow> prices \<Rightarrow> bool" where
  "prices_of is ps \<longleftrightarrow>
     (\<forall>sku price. map_of ps sku = Some price \<longrightarrow> (\<exists>i \<in> set is. ArmSkuName i = sku \<and> RetailPrice i = price)) \<and>
     (\<forall>i \<in> set is. map_of ps (ArmSkuName i) \<noteq> None)"

lemma prices_of_add: "prices_of is ps \<Longrightarrow> prices_of (is @ [i]) (AList.update (ArmSkuName i) (RetailPrice i) ps)"
  by (auto simp: prices_of_def update_conv')

lemma categorizePrices_spec:
  "prices_of (filter (\<lambda>i. \<not> isSpot i) (rng is)) (fst (categorizePrices rng is)) \<and>
   prices_of (filter isSpot (rng is)) (snd (categorizePrices rng is))"
proof -
  let ?step = "\<lambda>(onDemand, spot) i. if isSpot i then (onDemand, AList.update (ArmSkuName i) (RetailPrice i) spot)
       else (AList.update (ArmSkuName i) (RetailPrice i) onDemand, spot)"
  have "prices_of (filter (\<lambda>i. \<not> isSpot i) xs) (fst (foldl ?step ([], []) xs)) \<and> prices_of (filter isSpot xs) (snd (foldl ?step ([], []) xs))" for xs
  proof (induction xs rule: rev_induct)
    case Nil
    then show ?case by (simp add: prices_of_def)
  next
    case (snoc i xs)
    obtain a b where ab: "foldl ?step ([], []) xs = (a, b)" by fastforce
    with snoc show ?case by (simp add: prices_of_add)
  qed
  then show ?thesis by (simp add: categorizePrices_def)
qed

lemma prices_of_set: "prices_of is ps \<Longrightarrow> set is = set js \<Longrightarrow> prices_of js ps"
  by (simp add: prices_of_def)

lemma prices_of_Nil_iff:
  assumes "prices_of is ps"
  shows "ps = [] \<longleftrightarrow> is = []"
proof
  assume "ps = []"
  with assms show "is = []" by (cases "is") (auto simp: prices_of_def)
next
  assume "is = []"
  then have "map_of ps sku = None" for sku using assms by (cases "map_of ps sku") (auto simp: prices_of_def)
  then have "map_of ps = Map.empty" by blast
  then show "ps = []" by simp
qed

lemma prices_of_lookup:
  assumes "prices_of (filter Q is) ps" and "\<And>sku. lookup sku = (case map_of ps sku of None \<Rightarrow> (MissingPrice, False) | Some price \<Rightarrow> (price, True))"
  shows "lookup sku = (price, True) \<Longrightarrow> \<exists>i \<in> set is. Q i \<and> ArmSkuName i = sku \<and> RetailPrice i = price"
    and "(\<exists>i \<in> set is. Q i \<and> ArmSkuName i = sku) \<or> lookup sku = (MissingPrice, False)"
    and "i \<in> set is \<Longrightarrow> Q i \<Longrightarrow> snd (lookup (ArmSkuName i))"
proof -
  show "\<exists>i \<in> set is. Q i \<and> ArmSkuName i = sku \<and> RetailPrice i = price" if "lookup sku = (price, True)"
    using assms that by (fastforce simp: prices_of_def split: option.splits)
  show "(\<exists>i \<in> set is. Q i \<and> ArmSkuName i = sku) \<or> lookup sku = (MissingPrice, False)"
  proof (cases "map_of ps sku")
    case (Some price)
    with assms(1) show ?thesis by (fastforce simp: prices_of_def)
  qed (simp add: assms(2))
  show "snd (lookup (ArmSkuName i))" if "i \<in> set is" "Q i"
    using assms that by (fastforce simp: prices_of_def)
qed

lemma FetchPricing_spec:
  assumes "map_range rng" and "chain W (firstURL W (pricingFilters r)) ps"
    and "\<forall>i \<in> set (pageItems ps). hashable (AvailabilityID i)"
  shows "\<exists>od sp. FetchPricing W True rng now r = Some (Inr (od, sp)) \<and>
    prices_of (filter (\<lambda>i. \<not> skipItem now i \<and> \<not> isSpot i) (pageItems ps)) od \<and>
    prices_of (filter (\<lambda>i. \<not> skipItem now i \<and> isSpot i) (pageItems ps)) sp"
proof -
  obtain kept where kept: "foldM (processPage now) [] ps = Inr kept" "set kept = {i \<in> set (pageItems ps). \<not> skipItem now i}"
    using processPages [OF assms(3), of now "[]"] by auto
  obtain od sp where c: "categorizePrices rng kept = (od, sp)" by fastforce
  have "set (rng kept) = set kept" using assms(1) by (simp add: map_range_def)
  then have sets: "set (filter (\<lambda>i. \<not> isSpot i) (rng kept)) = set (filter (\<lambda>i. \<not> skipItem now i \<and> \<not> isSpot i) (pageItems ps))"
    and sets': "set (filter isSpot (rng kept)) = set (filter (\<lambda>i. \<not> skipItem now i \<and> isSpot i) (pageItems ps))"
    using kept(2) by auto
  moreover have "FetchPricing W True rng now r = Some (Inr (od, sp))"
    using pricePages_chain [OF assms(2), of "processPage now" "[]"] kept(1) c by (simp add: FetchPricing_def GetProductsPricePages_def)
  moreover have "prices_of (filter (\<lambda>i. \<not> isSpot i) (rng kept)) od" "prices_of (filter isSpot (rng kept)) sp"
    using categorizePrices_spec [of rng kept] c by simp_all
  ultimately show ?thesis using prices_of_set [OF _ sets] prices_of_set [OF _ sets'] by blast
qed

subsection \<open>A concrete page\<close>

definition ex_item :: "string \<Rightarrow> string \<Rightarrow> string \<Rightarrow> rat \<Rightarrow> item" where
  "ex_item product skuname sku price = \<lparr>CurrencyCode = ''USD'', TierMinimumUnits = 0, RetailPrice = price, UnitPrice = price,
     ArmRegionName = ''eastus'', ItemLocation = ''US East'', EffectiveStartDate = None, MeterID = [], MeterName = skuname,
     ProductID = [], SkuID = [], AvailabilityID = JNull, ProductName = product, SkuName = skuname,
     ServiceName = ''Virtual Machines'', ServiceID = [], ServiceFamily = ''Compute'', UnitOfMeasure = ''1 Hour'',
     ItemType = ''Consumption'', IsPrimaryMeterRegion = True, ArmSkuName = sku, EffectiveEndDate = None, ReservationTerm = []\<rparr>"

definition ex_page :: productsPricePage where
  "ex_page = \<lparr>BillingCurrency = ''USD'', CustomerEntityID = [], CustomerEntityType = [],
     Items = [ex_item ''DSv5 Series'' ''D2s v5'' ''Standard_D2s_v5'' (96 / 1000),
              ex_item ''DSv5 Series Windows'' ''D2s v5'' ''Standard_D2s_v5'' (188 / 1000),
              ex_item ''DSv5 Series'' ''D2s v5 Spot'' ''Standard_D2s_v5'' (19 / 1000)],
     NextPageLink = [], Count = 3\<rparr>"

definition ex_http :: http_api where
  "ex_http = \<lparr>httpGet = (\<lambda>_. Inr (200, Inr ''page'')), unmarshalPage = (\<lambda>_. Inr ex_page), queryEscape = (\<lambda>s. s)\<rparr>"

definition ex_static :: static_prices where
  "ex_static = \<lparr>initialOnDemandPrices = [(''eastus'', [(''Standard_B2s'', 41 / 1000)])], InitialPriceUpdate = 0\<rparr>"

lemma ex_chain: "chain ex_http (firstURL ex_http (pricingFilters r)) [ex_page]"
  by (simp add: ex_http_def fetchPage_def ex_page_def firstURL_def pricingFilters_def pricingURL_def)

lemma ex_sku [simp]: "ArmSkuName (ex_item product skuname sku price) = sku"
  by (simp add: ex_item_def)

lemma ex_kept:
  "filter (\<lambda>i. \<not> skipItem 0 i \<and> \<not> isSpot i) (pageItems [ex_page]) = [ex_item ''DSv5 Series'' ''D2s v5'' ''Standard_D2s_v5'' (96 / 1000)]"
  "filter (\<lambda>i. \<not> skipItem 0 i \<and> isSpot i) (pageItems [ex_page]) = [ex_item ''DSv5 Series'' ''D2s v5 Spot'' ''Standard_D2s_v5'' (19 / 1000)]"
  by (simp_all add: pageItems_def ex_page_def ex_item_def skipItem_def isSpot_def HasSuffix_def HasPrefix_def)

subsection \<open>Properties\<close>



text \<open>
  Pricing data is never lost. In every state that the provider can reach, a capacity type's
  table is the static one or one that an update fetched and that was not empty; an update that fails,
  is cancelled or finds no price for a capacity type keeps that type's prices and their time; in a cloud
  that is not public the static prices stay.
\<close>

theorem failed_updates_keep_the_prices:
  assumes "pricing_run S r public p" and "staticPricing S r \<noteq> []"
    and "updatePricing W public rng cancelled now p = Some (Inr p')"
  shows "onDemandPrices p \<noteq> [] \<and> spotPrices p \<noteq> [] \<and> (\<not> public \<longrightarrow> p = NewProvider S r) \<and>
    (onDemandPrices p' \<noteq> onDemandPrices p \<longrightarrow>
       (\<exists>sp. \<not> cancelled \<and> FetchPricing W public rng now (region p) = Some (Inr (onDemandPrices p', sp)))) \<and>
    (spotPrices p' \<noteq> spotPrices p \<longrightarrow>
       (\<exists>od. \<not> cancelled \<and> FetchPricing W public rng now (region p) = Some (Inr (od, spotPrices p')))) \<and>
    (onDemandUpdateTime p' = onDemandUpdateTime p \<or> onDemandUpdateTime p' = now) \<and>
    ((cancelled \<or> (\<exists>e. FetchPricing W public rng now (region p) = Some (Inl (Failed e)))) \<longrightarrow> p' = p)"
proof -
  have store: "onDemandPrices (storePrices t f q) = (if fst f = [] then onDemandPrices q else fst f)"
    "spotPrices (storePrices t f q) = (if snd f = [] then spotPrices q else snd f)"
    "onDemandUpdateTime (storePrices t f q) = (if fst f = [] then onDemandUpdateTime q else t)" for t f q
    by (simp_all add: storePrices_def Let_def)
  have upd: "q' = q \<or> (\<exists>f. \<not> c \<and> FetchPricing w public g t (region q) = Some (Inr f) \<and> q' = storePrices t f q)"
    if "updatePricing w public g c t q = Some (Inr q')" for w g c t q q'
  proof (cases c)
    case False
    with that obtain f where "FetchPricing w public g t (region q) = Some f"
      "(case f of Inl (Panic m) \<Rightarrow> Inl m | Inl (Failed e) \<Rightarrow> Inr q | Inr fetched \<Rightarrow> Inr (storePrices t fetched q)) = Inr q'"
      by (auto simp: updatePricing_def)
    with False show ?thesis by (cases f) (auto split: failure.splits)
  qed (use that in \<open>simp add: updatePricing_def\<close>)
  from assms(1) have run: "onDemandPrices p \<noteq> [] \<and> spotPrices p \<noteq> [] \<and> (\<not> public \<longrightarrow> p = NewProvider S r)"
  proof (induction rule: pricing_run.induct)
    case new
    with assms(2) show ?case by (simp add: NewProvider_def)
  next
    case (update p W rng cancelled now p')
    from upd [OF update.hyps(3)] update.hyps(2) update.IH show ?case by (auto simp: store split: if_splits)
  qed
  with upd [OF assms(3)] show ?thesis
    using assms(3) by (auto simp: store updatePricing_def split: if_splits)
qed

theorem failed_updates_keep_the_prices_witness:
  "onDemandPrices (NewProvider ex_static ''westus'') \<noteq> [] \<and>
   updatePricing ex_http False remdups False 5 (NewProvider ex_static ''westus'') = Some (Inr (NewProvider ex_static ''westus''))"
proof -
  have "updatePricing ex_http False remdups False 5 (NewProvider ex_static ''westus'') = Some (Inr (NewProvider ex_static ''westus''))"
    by (simp add: updatePricing_def FetchPricing_def GetProductsPricePages_def)
  with failed_updates_keep_the_prices [OF pricing_run.new, of ex_static "''westus''" ex_http False remdups False 5
      "NewProvider ex_static ''westus''"]
  show ?thesis by (simp add: staticPricing_def ex_static_def defaultRegion_def)
qed

end
