(* ===== verification/Machine_Poller.thy ===== *)
theory Machine_Poller
  imports AKS_Machine
begin

text \<open>
  The poller that watches one AKS machine until its provisioning ends
  (src/pkg/providers/instance/aksmachinepoller/poller.go). The loop is a function of the sequence of
  events it meets: the context ends, or the ticker fires and the machine is read. A read that is retried
  is followed by a back-off, during which the context may end. \<open>None\<close> is a poller that still polls after
  the events. Durations are integers, in nanoseconds. Log lines are left out.

  Shown here: exactly when the poller gives up, what it returns, and the delays of its back-off.
\<close>

record options =
  PollInterval :: duration
  RetryDelay :: duration
  MaxRetryDelay :: duration
  MaxRetries :: int

definition DefaultOptions :: options where
  "DefaultOptions = \<lparr>PollInterval = 5 * Second, RetryDelay = 1 * Second, MaxRetryDelay = 30 * Second, MaxRetries = 10\<rparr>"

record poller =
  config :: options
  aksMachineName :: string

text \<open>The two variables of \<open>PollUntilDone\<close>.\<close>

record retry_state =
  retryAttemptsLeft :: int
  currentRetryDelay :: duration

definition resetRetryState :: "poller \<Rightarrow> retry_state" where
  "resetRetryState p = \<lparr>retryAttemptsLeft = MaxRetries (config p), currentRetryDelay = RetryDelay (config p)\<rparr>"

text \<open>
  What one poll meets: the answer to the GET, and the error of the context if it ends during the back-off.
\<close>

record poll_event =
  answer :: "sdkError + aksMachine"
  backoffCancelled :: "error option"

definition isTransientError :: "sdkError option \<Rightarrow> bool" where
  "isTransientError err =
     (case err of
        None \<Rightarrow> False
      | Some e \<Rightarrow> (case StatusCode e of
          Some c \<Rightarrow> c \<in> {408, 429, 500, 502, 503, 504}
        | None \<Rightarrow> True))"

text \<open>Whether to retry, or the error of the context; and the new state.\<close>

definition retryWithBackoff :: "poller \<Rightarrow> error option \<Rightarrow> retry_state \<Rightarrow> bool result \<times> retry_state" where
  "retryWithBackoff p cancelled r =
     (if retryAttemptsLeft r \<le> 0 then (Inr False, r)
      else let r' = r\<lparr>retryAttemptsLeft := retryAttemptsLeft r - 1\<rparr> in
        (case cancelled of
           None \<Rightarrow> (Inr True, r'\<lparr>currentRetryDelay := min (currentRetryDelay r * 2) (MaxRetryDelay (config p))\<rparr>)
         | Some e \<Rightarrow> (Inl e, r')))"

text \<open>The three places that back off share their tail: the result when the retries are exhausted is theirs.\<close>

definition retryOr :: "poller \<Rightarrow> error option \<Rightarrow> retry_state \<Rightarrow> errorDetail option \<times> error option \<Rightarrow> poll_result \<times> retry_state" where
  "retryOr p cancelled r exhausted =
     (case retryWithBackoff p cancelled r of
        (Inl e, r') \<Rightarrow> ((None, Some e, True), r')
      | (Inr True, r') \<Rightarrow> ((None, None, False), r')
      | (Inr False, r') \<Rightarrow> ((fst exhausted, snd exhausted, True), r'))"

definition handleGetError :: "poller \<Rightarrow> sdkError \<Rightarrow> error option \<Rightarrow> retry_state \<Rightarrow> poll_result \<times> retry_state" where
  "handleGetError p err cancelled r =
     (if IsContextError err then
        ((None, Some (''failed to get AKS machine '' @ quoted (aksMachineName p) @ '' during polling as context is canceled: '' @ ErrText err), True), r)
      else if \<not> isTransientError (Some err) then
        ((None, Some (''failed to get AKS machine '' @ quoted (aksMachineName p) @ '' during polling with non-retryable error: '' @ ErrText err), True), r)
      else retryOr p cancelled r
        (None, Some (''failed to get AKS machine '' @ quoted (aksMachineName p) @ '' during polling: '' @ ErrText err @
           '' after exhausting '' @ Itoa (MaxRetries (config p)) @ '' retry attempts'')))"

definition handleNilProvisioningState :: "poller \<Rightarrow> error option \<Rightarrow> retry_state \<Rightarrow> poll_result \<times> retry_state" where
  "handleNilProvisioningState p cancelled r =
     retryOr p cancelled r
       (None, Some (''AKS machine '' @ quoted (aksMachineName p) @ '' sees nil provisioning state after exhausting '' @
          Itoa (MaxRetries (config p)) @ '' retry attempts''))"

definition pollOnce :: "poller \<Rightarrow> poll_event \<Rightarrow> retry_state \<Rightarrow> poll_result \<times> retry_state" where
  "pollOnce p ev r =
     (case answer ev of
        Inl err \<Rightarrow> handleGetError p err (backoffCancelled ev) r
      | Inr m \<Rightarrow>
        (case AMProperties m of
           None \<Rightarrow> handleNilProvisioningState p (backoffCancelled ev) r
         | Some props \<Rightarrow>
             if AMProvisioningState props = None then handleNilProvisioningState p (backoffCancelled ev) r
             else (let (errDetails, pollerErr, done) = HandleProvisioningState m props in
               if done then ((errDetails, pollerErr, True), r)
               else if errDetails = None \<and> pollerErr = None then ((None, None, False), resetRetryState p)
               else retryOr p (backoffCancelled ev) r (errDetails, pollerErr))))"

datatype loop_event = CtxDone | Tick poll_event

fun pollLoop :: "poller \<Rightarrow> retry_state \<Rightarrow> loop_event list \<Rightarrow> (errorDetail option \<times> error option) option" where
  "pollLoop p r [] = None"
| "pollLoop p r (CtxDone # evs) =
     Some (None, Some (''context canceled while polling for AKS machine '' @ quoted (aksMachineName p)))"
| "pollLoop p r (Tick ev # evs) =
     (case pollOnce p ev r of
        ((provisioningErr, pollerErr, True), r') \<Rightarrow> Some (provisioningErr, pollerErr)
      | ((provisioningErr, pollerErr, False), r') \<Rightarrow> pollLoop p r' evs)"

definition PollUntilDone :: "poller \<Rightarrow> loop_event list \<Rightarrow> (errorDetail option \<times> error option) option" where
  "PollUntilDone p evs = pollLoop p (resetRetryState p) evs"

subsection \<open>Kinds of polls\<close>

text \<open>A poll that makes progress, one that is worth a retry, and one that ends the loop at once.\<close>

definition healthy :: "poll_event \<Rightarrow> bool" where
  "healthy ev \<longleftrightarrow> (case answer ev of Inr m \<Rightarrow> (case AMProperties m of Some props \<Rightarrow> ongoing props | None \<Rightarrow> False) | Inl _ \<Rightarrow> False)"

definition retryable :: "poll_event \<Rightarrow> bool" where
  "retryable ev \<longleftrightarrow>
     (case answer ev of
        Inl err \<Rightarrow> \<not> IsContextError err \<and> isTransientError (Some err)
      | Inr m \<Rightarrow> (case AMProperties m of None \<Rightarrow> True | Some props \<Rightarrow> \<not> ongoing props \<and> \<not> terminal props))"

lemma healthy_not_retryable: "healthy ev \<Longrightarrow> \<not> retryable ev"
  by (auto simp: healthy_def retryable_def split: sum.splits option.splits)

lemma pollOnce_healthy:
  assumes "healthy ev"
  shows "pollOnce p ev r = ((None, None, False), resetRetryState p)"
proof -
  from assms obtain m props where "answer ev = Inr m" "AMProperties m = Some props" and o: "ongoing props"
    by (auto simp: healthy_def split: sum.splits option.splits)
  moreover from o have "AMProvisioningState props \<noteq> None" by (auto simp: ongoing_def)
  moreover from this o have "HandleProvisioningState m props = (None, None, False)" by (simp add: HandleProvisioningState_ongoing)
  ultimately show ?thesis by (auto simp: pollOnce_def)
qed

text \<open>A poll worth a retry ends in the shared back-off; exhausted, it reports an error of the poller.\<close>

lemma pollOnce_retryable:
  assumes "retryable ev"
  shows "\<exists>e. pollOnce p ev r = retryOr p (backoffCancelled ev) r (None, Some e)"
proof (cases "answer ev")
  case (Inl err)
  with assms have "pollOnce p ev r = handleGetError p err (backoffCancelled ev) r" "\<not> IsContextError err" "isTransientError (Some err)"
    by (simp_all add: retryable_def pollOnce_def)
  then show ?thesis unfolding handleGetError_def by (simp only: if_False not_True_eq_False simp_thms) blast
next
  case (Inr m)
  show ?thesis
  proof (cases "AMProperties m")
    case None
    with Inr have "pollOnce p ev r = handleNilProvisioningState p (backoffCancelled ev) r" by (simp add: pollOnce_def)
    then show ?thesis unfolding handleNilProvisioningState_def by blast
  next
    case (Some props)
    with Inr assms have nt: "\<not> ongoing props" "\<not> terminal props" by (simp_all add: retryable_def)
    show ?thesis
    proof (cases "AMProvisioningState props")
      case None
      with Inr Some have "pollOnce p ev r = handleNilProvisioningState p (backoffCancelled ev) r" by (simp add: pollOnce_def)
      then show ?thesis unfolding handleNilProvisioningState_def by blast
    next
      case (Some st)
      obtain a b c where h: "HandleProvisioningState m props = (a, b, c)" by (cases "HandleProvisioningState m props")
      have c: "\<not> c" using HandleProvisioningState_done [of props m] Some nt h by simp
      then have "a = None" using HandleProvisioningState_not_done [of m props] h by simp
      moreover have "b \<noteq> None" using HandleProvisioningState_ongoing [of props m] Some nt h c \<open>a = None\<close> by auto
      ultimately show ?thesis using Inr \<open>AMProperties m = Some props\<close> Some h c by (auto simp: pollOnce_def)
    qed
  qed
qed

subsection \<open>Runs of polls that are retried\<close>

definition runs_bounded :: "nat \<Rightarrow> poll_event list \<Rightarrow> bool" where
  "runs_bounded n evs \<longleftrightarrow> (\<forall>xs ys zs. evs = xs @ ys @ zs \<and> list_all retryable ys \<longrightarrow> length ys \<le> n)"

fun budget_ok :: "nat \<Rightarrow> nat \<Rightarrow> poll_event list \<Rightarrow> bool" where
  "budget_ok k n [] = True"
| "budget_ok k n (ev # evs) = (if retryable ev then 0 < k \<and> budget_ok (k - 1) n evs else budget_ok n n evs)"

lemma runs_bounded_Cons: "runs_bounded n (ev # evs) \<longleftrightarrow> length (takeWhile retryable (ev # evs)) \<le> n \<and> runs_bounded n evs"
proof
  assume r: "runs_bounded n (ev # evs)"
  let ?w = "takeWhile retryable (ev # evs)"
  have "ev # evs = [] @ ?w @ dropWhile retryable (ev # evs)" using takeWhile_dropWhile_id [of retryable "ev # evs"] by simp
  moreover have "list_all retryable ?w" by (auto simp: list_all_iff dest: set_takeWhileD)
  ultimately have "length ?w \<le> n" using r unfolding runs_bounded_def by blast
  moreover have "runs_bounded n evs" unfolding runs_bounded_def
  proof (intro allI impI)
    fix xs ys zs
    assume "evs = xs @ ys @ zs \<and> list_all retryable ys"
    then have "ev # evs = (ev # xs) @ ys @ zs \<and> list_all retryable ys" by simp
    with r show "length ys \<le> n" unfolding runs_bounded_def by blast
  qed
  ultimately show "length ?w \<le> n \<and> runs_bounded n evs" by blast
next
  assume a: "length (takeWhile retryable (ev # evs)) \<le> n \<and> runs_bounded n evs"
  show "runs_bounded n (ev # evs)" unfolding runs_bounded_def
  proof (intro allI impI, elim conjE)
    fix xs ys zs
    assume e: "ev # evs = xs @ ys @ zs" and ys: "list_all retryable ys"
    show "length ys \<le> n"
    proof (cases xs)
      case Nil
      have "takeWhile retryable (ys @ zs) = ys @ takeWhile retryable zs" using ys by (simp add: list_all_iff)
      with a e Nil show ?thesis by simp
    next
      case (Cons x xs')
      with e ys a show ?thesis unfolding runs_bounded_def by auto
    qed
  qed
qed

lemma runs_bounded_lead: "runs_bounded n evs \<Longrightarrow> length (takeWhile retryable evs) \<le> n"
  by (cases evs) (use runs_bounded_Cons in auto)

lemma budget_ok_iff: "k \<le> n \<Longrightarrow> budget_ok k n evs \<longleftrightarrow> length (takeWhile retryable evs) \<le> k \<and> runs_bounded n evs"
proof (induction evs arbitrary: k)
  case Nil
  then show ?case by (simp add: runs_bounded_def)
next
  case (Cons ev evs)
  show ?case
  proof (cases "retryable ev")
    case True
    with Cons.IH [of "k - 1"] Cons.prems show ?thesis by (cases k) (auto simp: runs_bounded_Cons)
  next
    case False
    with Cons.IH [of n] runs_bounded_lead [of n evs] show ?thesis by (auto simp: runs_bounded_Cons)
  qed
qed

definition uninterrupted :: "poll_event \<Rightarrow> bool" where
  "uninterrupted ev \<longleftrightarrow> healthy ev \<or> (retryable ev \<and> backoffCancelled ev = None)"

lemma pollLoop_budget_ok:
  assumes "list_all uninterrupted evs" and "0 \<le> retryAttemptsLeft r" and "0 \<le> MaxRetries (config p)"
  shows "if budget_ok (nat (retryAttemptsLeft r)) (nat (MaxRetries (config p))) evs
    then \<exists>r'. 0 \<le> retryAttemptsLeft r' \<and> (\<forall>rest. pollLoop p r (map Tick evs @ rest) = pollLoop p r' rest)
    else \<exists>e. \<forall>rest. pollLoop p r (map Tick evs @ rest) = Some (None, Some e)"
  using assms(1,2)
proof (induction evs arbitrary: r)
  case Nil
  then show ?case by auto
next
  case (Cons ev evs)
  show ?case
  proof (cases "healthy ev")
    case True
    have "retryAttemptsLeft (resetRetryState p) = MaxRetries (config p)" by (simp add: resetRetryState_def)
    with Cons.IH [of "resetRetryState p"] Cons.prems assms(3) True show ?thesis
      by (simp add: pollOnce_healthy healthy_not_retryable)
  next
    case False
    with Cons.prems have re: "retryable ev" "backoffCancelled ev = None" by (auto simp: uninterrupted_def)
    then obtain e where e: "pollOnce p ev r = retryOr p None r (None, Some e)" using pollOnce_retryable by metis
    show ?thesis
    proof (cases "retryAttemptsLeft r = 0")
      case True
      with e re show ?thesis by (simp add: retryOr_def retryWithBackoff_def)
    next
      case False
      let ?r = "r\<lparr>retryAttemptsLeft := retryAttemptsLeft r - 1,
          currentRetryDelay := min (currentRetryDelay r * 2) (MaxRetryDelay (config p))\<rparr>"
      have "pollOnce p ev r = ((None, None, False), ?r)"
        using e False Cons.prems(2) by (simp add: retryOr_def retryWithBackoff_def)
      moreover have "nat (retryAttemptsLeft r - 1) = nat (retryAttemptsLeft r) - 1" "0 < nat (retryAttemptsLeft r)"
        using False Cons.prems(2) by simp_all
      ultimately show ?thesis using Cons.IH [of ?r] Cons.prems False re(1) by simp
    qed
  qed
qed

lemma PollUntilDone_bounded:
  assumes "list_all uninterrupted evs" and "0 \<le> MaxRetries (config p)"
  shows "if runs_bounded (nat (MaxRetries (config p))) evs
    then \<exists>r'. \<forall>rest. PollUntilDone p (map Tick evs @ rest) = pollLoop p r' rest
    else \<exists>e. \<forall>rest. PollUntilDone p (map Tick evs @ rest) = Some (None, Some e)"
proof -
  let ?n = "nat (MaxRetries (config p))"
  have "budget_ok ?n ?n evs \<longleftrightarrow> runs_bounded ?n evs" using budget_ok_iff [of ?n ?n evs] runs_bounded_lead by blast
  then show ?thesis using pollLoop_budget_ok [OF assms(1) _ assms(2), of "resetRetryState p"] assms(2)
    by (auto simp: PollUntilDone_def resetRetryState_def split: if_splits)
qed

text \<open>The delay before the \<open>n\<close>-th retry in a row.\<close>

primrec delays :: "poller \<Rightarrow> nat \<Rightarrow> duration" where
  "delays p 0 = RetryDelay (config p)"
| "delays p (Suc n) = currentRetryDelay (snd (retryWithBackoff p None \<lparr>retryAttemptsLeft = 1, currentRetryDelay = delays p n\<rparr>))"

subsection \<open>Properties\<close>

definition ex_machine :: "string \<Rightarrow> aksMachine" where
  "ex_machine st = \<lparr>AMID = None, AMName = Some ''m1'', AMProperties = Some (noProperties\<lparr>AMProvisioningState := Some st,
     AMStatus := Some (noStatus\<lparr>StProvisioningError := Some (ErrorDetail (Some ''SkuNotAvailable'') None None [])\<rparr>)\<rparr>), AMZones = []\<rparr>"

definition ex_poller :: poller where
  "ex_poller = \<lparr>config = DefaultOptions\<lparr>MaxRetries := 1\<rparr>, aksMachineName = ''m1''\<rparr>"

definition ex_creating :: poll_event where
  "ex_creating = \<lparr>answer = Inr (ex_machine ProvisioningStateCreating), backoffCancelled = None\<rparr>"

definition ex_throttled :: poll_event where
  "ex_throttled = \<lparr>answer = Inl \<lparr>ErrText = ''throttled'', ResponseText = ''throttled'', StatusCode = Some 429, SDKErrorCode = ''TooManyRequests'', IsContextError = False\<rparr>,
     backoffCancelled = None\<rparr>"

lemma ex_events: "healthy ex_creating" "retryable ex_throttled" "list_all uninterrupted [ex_throttled, ex_creating, ex_throttled]"
  by (simp_all add: uninterrupted_def healthy_def retryable_def ex_creating_def ex_throttled_def ex_machine_def ongoing_def isTransientError_def)

lemma ex_runs: "runs_bounded 1 [ex_throttled, ex_creating, ex_throttled]" "\<not> runs_bounded 1 [ex_throttled, ex_throttled]"
  using ex_events healthy_not_retryable [OF ex_events(1)]
  by (simp_all add: runs_bounded_Cons) (simp add: runs_bounded_def)

text \<open>
  C32: As long as the context lives and no read is final, the poller goes on for exactly as
  long as no more than \<open>MaxRetries\<close> reads in a row fail transiently or show no known provisioning state; a
  read that sees the machine being created or updated gives the budget back. When the budget is
  exhausted the poller stops with an error of its own, whatever comes next, and never reports success.
\<close>

theorem poller_gives_up_after_MaxRetries_in_a_row:
  assumes "list_all uninterrupted evs" and "0 \<le> MaxRetries (config p)"
  shows "(PollUntilDone p (map Tick evs) = None \<longleftrightarrow>
      (\<forall>xs ys zs. evs = xs @ ys @ zs \<and> list_all retryable ys \<longrightarrow> length ys \<le> nat (MaxRetries (config p)))) \<and>
    (\<forall>res. PollUntilDone p (map Tick evs) = Some res \<longrightarrow> (\<exists>e. res = (None, Some e)))"
  using PollUntilDone_bounded [OF assms] unfolding runs_bounded_def [symmetric]
  by (cases "runs_bounded (nat (MaxRetries (config p))) evs") (auto dest: spec [of _ "[]"])

theorem poller_gives_up_after_MaxRetries_in_a_row_witness:
  "PollUntilDone ex_poller (map Tick [ex_throttled, ex_creating, ex_throttled]) = None \<and>
   PollUntilDone ex_poller (map Tick [ex_throttled, ex_throttled]) \<noteq> None"
proof -
  have "0 \<le> MaxRetries (config ex_poller)" and n: "nat (MaxRetries (config ex_poller)) = 1" by (simp_all add: ex_poller_def)
  moreover have "list_all uninterrupted [ex_throttled, ex_throttled]" using ex_events(3) by simp
  ultimately show ?thesis
    using poller_gives_up_after_MaxRetries_in_a_row [OF ex_events(3), of ex_poller]
      poller_gives_up_after_MaxRetries_in_a_row [of "[ex_throttled, ex_throttled]" ex_poller] ex_runs
    unfolding n runs_bounded_def [symmetric] by blast
qed

text \<open>
  If the reads before never exhausted the budget, the first read that shows a final
  provisioning state decides: a machine that succeeded gives neither error, a failed one gives its
  provisioning error, or an error of the poller if it has none, and one that is being deleted gives an error of
  the poller.
\<close>

theorem poller_returns_the_final_state:
  assumes "list_all uninterrupted evs" and "0 \<le> MaxRetries (config p)"
    and "\<forall>xs ys zs. evs = xs @ ys @ zs \<and> list_all retryable ys \<longrightarrow> length ys \<le> nat (MaxRetries (config p))"
    and "answer ev = Inr m" and "AMProperties m = Some props" and "terminal props"
  shows "PollUntilDone p (map Tick evs @ Tick ev # rest) =
    Some (if AMProvisioningState props = Some ProvisioningStateFailed then AMProvisioningError props else None,
      if AMProvisioningState props = Some ProvisioningStateSucceeded \<or>
         (AMProvisioningState props = Some ProvisioningStateFailed \<and> AMProvisioningError props \<noteq> None) then None
      else fst (snd (HandleProvisioningState m props))) \<and>
    (AMProvisioningState props = Some ProvisioningStateDeleting \<longrightarrow> fst (snd (HandleProvisioningState m props)) \<noteq> None)"
proof -
  obtain r where r: "PollUntilDone p (map Tick evs @ Tick ev # rest) = pollLoop p r (Tick ev # rest)"
    using PollUntilDone_bounded [OF assms(1,2)] assms(3) unfolding runs_bounded_def [symmetric] by auto
  have "AMProvisioningState props \<noteq> None" using assms(6) by (auto simp: terminal_def)
  then have "pollLoop p r (Tick ev # rest) = Some (fst (HandleProvisioningState m props), fst (snd (HandleProvisioningState m props)))"
    using HandleProvisioningState_done [of props m] assms(4-6) by (auto simp: pollOnce_def split: prod.splits)
  then show ?thesis using r assms(6)
    by (auto simp: terminal_def HandleProvisioningState_def FromPtr_def provisioning_defs split: option.splits)
qed

theorem poller_returns_the_final_state_witness:
  "PollUntilDone ex_poller (map Tick [ex_throttled, ex_creating, ex_throttled] @
     [Tick \<lparr>answer = Inr (ex_machine ProvisioningStateFailed), backoffCancelled = None\<rparr>]) =
   Some (Some (ErrorDetail (Some ''SkuNotAvailable'') None None []), None)"
proof -
  have "0 \<le> MaxRetries (config ex_poller)" and n: "nat (MaxRetries (config ex_poller)) = 1" by (simp_all add: ex_poller_def)
  then show ?thesis
    using poller_returns_the_final_state [OF ex_events(3), of ex_poller
        "\<lparr>answer = Inr (ex_machine ProvisioningStateFailed), backoffCancelled = None\<rparr>" "ex_machine ProvisioningStateFailed"
        "the (AMProperties (ex_machine ProvisioningStateFailed))" "[]"] ex_runs(1)
    unfolding n runs_bounded_def [symmetric] by (simp add: ex_machine_def terminal_def)
qed

text \<open>
  The delays between retries in a row double and are capped: before the \<open>n\<close>-th retry the poller
  waits \<open>RetryDelay * 2 ^ n\<close>, but never more than \<open>MaxRetryDelay\<close>.
\<close>

theorem backoff_doubles_up_to_the_cap:
  assumes "0 \<le> RetryDelay (config p)" and "RetryDelay (config p) \<le> MaxRetryDelay (config p)"
  shows "delays p n = min (RetryDelay (config p) * 2 ^ n) (MaxRetryDelay (config p))"
proof (induction n)
  case 0
  with assms show ?case by simp
next
  case (Suc n)
  then show ?case using assms by (auto simp: retryWithBackoff_def min_def mult.commute mult.left_commute)
qed

theorem backoff_doubles_up_to_the_cap_witness:
  "delays ex_poller 5 = 30 * Second"
  using backoff_doubles_up_to_the_cap [of ex_poller 5] by (simp add: ex_poller_def DefaultOptions_def Second_def)

end
