(* ===== verification/Node_Class.thy ===== *)
theory Node_Class
  imports Prelude
begin

text \<open>
  The parts of an AKSNodeClass that the version and image controllers and drift detection work on
  (src/pkg/apis/v1beta1/aksnodeclass.go, aksnodeclass_status.go), and its readiness getters. The set of
  status conditions is a type of a third-party package; its operations are the argument
  \<open>CA\<close>, and the locale \<open>status_conditions\<close> states what the code relies on: a condition reads as it was last
  set, with the generation at which it was set, and setting one condition leaves the others alone.
\<close>

datatype cond_status = CondTrue | CondFalse | CondUnknown

record condition =
  Status :: cond_status
  Reason :: string
  Message :: string
  ObservedGeneration :: int

record 'c condition_api =
  cond_get :: "'c \<Rightarrow> string \<Rightarrow> condition"
  cond_set :: "string \<Rightarrow> condition \<Rightarrow> 'c \<Rightarrow> 'c"
  cond_clear :: "string \<Rightarrow> 'c \<Rightarrow> 'c"

locale status_conditions =
  fixes CA :: "'c condition_api"
  assumes get_set: "cond_get CA (cond_set CA t v c) t = v"
    and get_set_other: "t' \<noteq> t \<Longrightarrow> t' \<noteq> ''Ready'' \<Longrightarrow> cond_get CA (cond_set CA t v c) t' = cond_get CA c t'"
    and get_clear_other: "t' \<noteq> t \<Longrightarrow> t' \<noteq> ''Ready'' \<Longrightarrow> cond_get CA (cond_clear CA t c) t' = cond_get CA c t'"

text \<open>Conditions as a function of their type; a condition that was never set is unknown.\<close>

definition unknownConditions :: "string \<Rightarrow> condition" where
  "unknownConditions t = \<lparr>Status = CondUnknown, Reason = ''AwaitingReconciliation'', Message = [], ObservedGeneration = 0\<rparr>"

definition fun_conditions :: "(string \<Rightarrow> condition) condition_api" where
  "fun_conditions = \<lparr>cond_get = (\<lambda>c t. c t), cond_set = (\<lambda>t v c. c(t := v)), cond_clear = (\<lambda>t c. c(t := unknownConditions t))\<rparr>"

interpretation fun_conditions: status_conditions fun_conditions
  by unfold_locales (simp_all add: fun_conditions_def)

subsection \<open>The node class\<close>

definition ConditionTypeImagesReady :: string where
  "ConditionTypeImagesReady = ''ImagesReady''"

definition ConditionTypeKubernetesVersionReady :: string where
  "ConditionTypeKubernetesVersionReady = ''KubernetesVersionReady''"

lemma condition_types [simp]:
  "ConditionTypeImagesReady \<noteq> ConditionTypeKubernetesVersionReady" "ConditionTypeKubernetesVersionReady \<noteq> ConditionTypeImagesReady"
  "ConditionTypeImagesReady \<noteq> ''Ready''" "ConditionTypeKubernetesVersionReady \<noteq> ''Ready''"
  by (simp_all add: ConditionTypeImagesReady_def ConditionTypeKubernetesVersionReady_def)

record selectorRequirement =
  ReqKey :: string
  ReqOperator :: string
  ReqValues :: "string list"

record nodeImage =
  ImageIDOf :: string
  ImageRequirements :: "selectorRequirement list"

record recentlyUsedVersion =
  TimeUsed :: "time option"
  UsedImageVersion :: "string option"
  UsedKubernetesVersion :: "string option"

record observedVersions =
  CurrentControlPlaneKubernetesVersion :: "string option"
  LatestImageVersion :: "string option"
  RecentlyUsedVersions :: "recentlyUsedVersion list"

definition noObservedVersions :: observedVersions where
  "noObservedVersions = \<lparr>CurrentControlPlaneKubernetesVersion = None, LatestImageVersion = None, RecentlyUsedVersions = []\<rparr>"

record versions =
  SpecKubernetesVersion :: "string option"
  SpecNodeImageVersion :: "string option"

record nodePublicIP =
  PublicIPEnabled :: "bool option"
  PublicIPPrefixIDs :: "string list"
  PublicIPTags :: "(string \<times> string) list"

text \<open>The capacity reservation block holds one pointer, the group.\<close>

record trustedLaunch =
  TLSecureBoot :: "bool option"
  TLVTPM :: "bool option"

record security =
  SecEncryptionAtHost :: "bool option"
  SecTrustedLaunch :: "trustedLaunch option"

record localDNSZoneOverride =
  LZZone :: string
  LZQueryLogging :: string
  LZProtocol :: string
  LZForwardDestination :: string
  LZForwardPolicy :: string
  LZMaxConcurrent :: "int option"
  LZCacheDuration :: "duration option"
  LZServeStaleDuration :: "duration option"
  LZServeStale :: string

record localDNS =
  LDMode :: string
  LDVnetDNSOverrides :: "localDNSZoneOverride list"
  LDKubeDNSOverrides :: "localDNSZoneOverride list"

text \<open>A GPU block: the mode and, inside the NVIDIA block, the management mode.\<close>

record gpuSpec =
  GPUModeOf :: "string option"
  GPUNvidia :: "string option option"

record kubeReserved =
  KRCPUMillicores :: "int option"
  KRMemoryMB :: "int option"

record evictionThreshold =
  ETMemoryAvailable :: "string option"
  ETNodeFsAvailable :: "string option"
  ETNodeFsInodesFree :: "string option"

text \<open>The kubelet settings that change what a node can hold; the others are left out.\<close>

record kubeletConfiguration =
  KubeReservedOf :: "kubeReserved option"
  EvictionHardOf :: "evictionThreshold option"

record capacityReservation =
  CRID :: string
  CRName :: string
  CRVMSize :: string
  CRZones :: "string list"
  CRQuantity :: "int option"
  CRProvisioningState :: "string option"

record capacityReservationGroup =
  CRGID :: string
  CRGLocation :: string
  CRGZones :: "string list"
  CRGReservations :: "capacityReservation list"

record 'c nodeClass =
  ClassName :: string
  ClassFinalizers :: "string list"
  ClassDeletionTimestamp :: "time option"
  ClassAnnotations :: "string \<rightharpoonup> string"
  Generation :: int
  SpecImageID :: "string option"
  SpecImageFamily :: "string option"
  SpecFIPSMode :: "string option"
  SpecVersions :: "versions option"
  SpecCapacityReservation :: "string option option"
  SpecNodePublicIP :: "nodePublicIP option"
  SpecEnableNodePublicIP :: "bool option"
  SpecMaxPods :: "int option"
  SpecSecurity :: "security option"
  SpecVNETSubnetID :: "string option"
  SpecOSDiskType :: "string option"
  SpecOSDiskSizeGB :: "int option"
  SpecWorkloadRuntime :: "string option"
  SpecTags :: "(string, string) gomap"
  SpecKubelet :: "kubeletConfiguration option"
  SpecLocalDNS :: "localDNS option"
  SpecGPU :: "gpuSpec option"
  SpecArtifactStreaming :: "bool option option"
  Images :: "nodeImage list"
  ObservedVersions :: "observedVersions option"
  KubernetesVersion :: "string option"
  LocalDNSState :: "string option"
  CapacityReservationGroup :: "capacityReservationGroup option"
  Conditions :: 'c

definition emptyClass :: "'c \<Rightarrow> 'c nodeClass" where
  "emptyClass conds = \<lparr>ClassName = [], ClassFinalizers = [], ClassDeletionTimestamp = None, ClassAnnotations = Map.empty, Generation = 1, SpecImageID = None, SpecImageFamily = None,
     SpecFIPSMode = None, SpecVersions = None, SpecCapacityReservation = None, SpecNodePublicIP = None, SpecEnableNodePublicIP = None, SpecMaxPods = None, SpecSecurity = None,
     SpecVNETSubnetID = None, SpecOSDiskType = None, SpecOSDiskSizeGB = None, SpecWorkloadRuntime = None, SpecTags = [], SpecKubelet = None, SpecLocalDNS = None, SpecGPU = None,
     SpecArtifactStreaming = None, Images = [], ObservedVersions = None, KubernetesVersion = None, LocalDNSState = None, CapacityReservationGroup = None, Conditions = conds\<rparr>"

lemma emptyClass_simps [simp]:
  "ClassName (emptyClass c) = []" "ClassFinalizers (emptyClass c) = []" "ClassDeletionTimestamp (emptyClass c) = None" "ClassAnnotations (emptyClass c) = Map.empty"
  "Generation (emptyClass c) = 1" "SpecImageID (emptyClass c) = None" "SpecImageFamily (emptyClass c) = None" "SpecFIPSMode (emptyClass c) = None"
  "SpecVersions (emptyClass c) = None" "SpecCapacityReservation (emptyClass c) = None" "SpecNodePublicIP (emptyClass c) = None" "SpecEnableNodePublicIP (emptyClass c) = None"
  "SpecMaxPods (emptyClass c) = None" "SpecSecurity (emptyClass c) = None" "SpecVNETSubnetID (emptyClass c) = None" "SpecOSDiskType (emptyClass c) = None"
  "SpecOSDiskSizeGB (emptyClass c) = None" "SpecWorkloadRuntime (emptyClass c) = None" "SpecTags (emptyClass c) = []" "SpecKubelet (emptyClass c) = None"
  "SpecLocalDNS (emptyClass c) = None" "SpecGPU (emptyClass c) = None" "SpecArtifactStreaming (emptyClass c) = None" "Images (emptyClass c) = []"
  "ObservedVersions (emptyClass c) = None" "KubernetesVersion (emptyClass c) = None" "LocalDNSState (emptyClass c) = None" "CapacityReservationGroup (emptyClass c) = None"
  "Conditions (emptyClass c) = c"
  by (simp_all add: emptyClass_def)

definition Windows2025ImageFamily :: string where
  "Windows2025ImageFamily = ''Windows2025''"

definition FIPSModeFIPS :: string where
  "FIPSModeFIPS = ''FIPS''"

definition IsFIPSEnabled :: "'c nodeClass \<Rightarrow> bool" where
  "IsFIPSEnabled nc \<longleftrightarrow> FromPtr (SpecImageFamily nc) = Windows2025ImageFamily \<or> FromPtr (SpecFIPSMode nc) = FIPSModeFIPS"

definition IsWindowsImageFamily :: "string \<Rightarrow> bool" where
  "IsWindowsImageFamily imageFamily \<longleftrightarrow> ToLower imageFamily \<in> set (map ToLower [''Windows2022'', Windows2025ImageFamily])"

definition GetCapacityReservationGroupID :: "'c nodeClass \<Rightarrow> string" where
  "GetCapacityReservationGroupID nc = (case SpecCapacityReservation nc of None \<Rightarrow> [] | Some g \<Rightarrow> FromPtr g)"

definition IsNodePublicIPEnabled :: "'c nodeClass \<Rightarrow> bool" where
  "IsNodePublicIPEnabled nc \<longleftrightarrow>
     (case SpecNodePublicIP nc of Some ip \<Rightarrow> PublicIPEnabled ip = Some True | None \<Rightarrow> SpecEnableNodePublicIP nc = Some True)"

definition GetNodePublicIPPrefixIDs :: "'c nodeClass \<Rightarrow> string list" where
  "GetNodePublicIPPrefixIDs nc =
     (case SpecNodePublicIP nc of None \<Rightarrow> [] | Some ip \<Rightarrow> if \<not> IsNodePublicIPEnabled nc then [] else PublicIPPrefixIDs ip)"

definition GetNodePublicIPTags :: "'c nodeClass \<Rightarrow> (string \<times> string) list" where
  "GetNodePublicIPTags nc =
     (case SpecNodePublicIP nc of None \<Rightarrow> [] | Some ip \<Rightarrow> if \<not> IsNodePublicIPEnabled nc then [] else PublicIPTags ip)"

definition GetEncryptionAtHost :: "'c nodeClass \<Rightarrow> bool" where
  "GetEncryptionAtHost nc \<longleftrightarrow> Option.bind (SpecSecurity nc) SecEncryptionAtHost = Some True"

definition IsVTPMEnabled :: "'c nodeClass \<Rightarrow> bool" where
  "IsVTPMEnabled nc \<longleftrightarrow> Option.bind (Option.bind (SpecSecurity nc) SecTrustedLaunch) TLVTPM = Some True"

definition IsSecureBootEnabled :: "'c nodeClass \<Rightarrow> bool" where
  "IsSecureBootEnabled nc \<longleftrightarrow> Option.bind (Option.bind (SpecSecurity nc) SecTrustedLaunch) TLSecureBoot = Some True"

definition IsTrustedLaunchEnabled :: "'c nodeClass \<Rightarrow> bool" where
  "IsTrustedLaunchEnabled nc \<longleftrightarrow> IsVTPMEnabled nc \<or> IsSecureBootEnabled nc"

definition IsArtifactStreamingEnabled :: "'c nodeClass \<Rightarrow> string \<Rightarrow> bool" where
  "IsArtifactStreamingEnabled nc arch \<longleftrightarrow> arch \<noteq> ''arm64'' \<and> SpecArtifactStreaming nc = Some (Some True)"

definition IsArtifactStreamingExplicitlyEnabled :: "'c nodeClass \<Rightarrow> bool" where
  "IsArtifactStreamingExplicitlyEnabled nc \<longleftrightarrow> SpecArtifactStreaming nc = Some (Some True)"

definition LocalDNSModePreferred :: string where
  "LocalDNSModePreferred = ''Preferred''"

definition LocalDNSModeRequired :: string where
  "LocalDNSModeRequired = ''Required''"

definition LocalDNSModeDisabled :: string where
  "LocalDNSModeDisabled = ''Disabled''"

definition LocalDNSStateEnabled :: string where
  "LocalDNSStateEnabled = ''Enabled''"

definition LocalDNSStateDisabled :: string where
  "LocalDNSStateDisabled = ''Disabled''"

definition IsLocalDNSRequired :: "'c nodeClass \<Rightarrow> bool" where
  "IsLocalDNSRequired nc \<longleftrightarrow> map_option LDMode (SpecLocalDNS nc) = Some LocalDNSModeRequired"

definition IsLocalDNSEnabled :: "'c nodeClass \<Rightarrow> bool" where
  "IsLocalDNSEnabled nc \<longleftrightarrow> LocalDNSState nc = Some LocalDNSStateEnabled"

definition GPUModeDriver :: string where
  "GPUModeDriver = ''Driver''"

definition GPUModeNone :: string where
  "GPUModeNone = ''None''"

definition ManagementModeManaged :: string where
  "ManagementModeManaged = ''Managed''"

definition ManagementModeUnmanaged :: string where
  "ManagementModeUnmanaged = ''Unmanaged''"

definition GetGPUMode :: "'c nodeClass \<Rightarrow> string" where
  "GetGPUMode nc = (case Option.bind (SpecGPU nc) GPUModeOf of None \<Rightarrow> GPUModeDriver | Some m \<Rightarrow> m)"

definition IsGPUDriverInstallationEnabled :: "'c nodeClass \<Rightarrow> bool" where
  "IsGPUDriverInstallationEnabled nc \<longleftrightarrow> GetGPUMode nc \<noteq> GPUModeNone"

definition GetManagementMode :: "'c nodeClass \<Rightarrow> string" where
  "GetManagementMode nc = (case Option.bind (Option.bind (SpecGPU nc) GPUNvidia) (\<lambda>m. m) of None \<Rightarrow> ManagementModeUnmanaged | Some m \<Rightarrow> m)"

definition IsManagedGPUEnabled :: "'c nodeClass \<Rightarrow> bool" where
  "IsManagedGPUEnabled nc \<longleftrightarrow> GetManagementMode nc = ManagementModeManaged"

definition WorkloadRuntimeOCIContainer :: string where
  "WorkloadRuntimeOCIContainer = ''OCIContainer''"

definition WorkloadRuntimeKataVMIsolation :: string where
  "WorkloadRuntimeKataVMIsolation = ''KataVmIsolation''"

definition GetWorkloadRuntime :: "'c nodeClass \<Rightarrow> string" where
  "GetWorkloadRuntime nc = (case SpecWorkloadRuntime nc of None \<Rightarrow> WorkloadRuntimeOCIContainer | Some r \<Rightarrow> r)"

definition IsKataEnabled :: "'c nodeClass \<Rightarrow> bool" where
  "IsKataEnabled nc \<longleftrightarrow> GetWorkloadRuntime nc = WorkloadRuntimeKataVMIsolation"

definition NetworkPluginAzure :: string where
  "NetworkPluginAzure = ''azure''"

definition NetworkPluginNone :: string where
  "NetworkPluginNone = ''none''"

definition NetworkPluginModeOverlay :: string where
  "NetworkPluginModeOverlay = ''overlay''"

definition NetworkPluginModeNone :: string where
  "NetworkPluginModeNone = []"

definition GetMaxPods :: "'c nodeClass \<Rightarrow> string \<Rightarrow> string \<Rightarrow> int" where
  "GetMaxPods nc networkPlugin networkPluginMode =
     (case SpecMaxPods nc of
        Some n \<Rightarrow> n
      | None \<Rightarrow>
          if networkPlugin = NetworkPluginNone then 250
          else if networkPlugin = NetworkPluginAzure \<and> networkPluginMode = NetworkPluginModeOverlay then 250
          else if networkPlugin = NetworkPluginAzure \<and> networkPluginMode = NetworkPluginModeNone then 30
          else 110)"

subsection \<open>Conditions\<close>

definition GetCondition :: "'c condition_api \<Rightarrow> 'c nodeClass \<Rightarrow> string \<Rightarrow> condition" where
  "GetCondition CA nc t = cond_get CA (Conditions nc) t"

definition IsTrue :: "condition \<Rightarrow> bool" where
  "IsTrue c \<longleftrightarrow> Status c = CondTrue"

definition SetTrueWithReason :: "'c condition_api \<Rightarrow> string \<Rightarrow> string \<Rightarrow> string \<Rightarrow> 'c nodeClass \<Rightarrow> 'c nodeClass" where
  "SetTrueWithReason CA t reason message nc =
     nc\<lparr>Conditions := cond_set CA t \<lparr>Status = CondTrue, Reason = reason, Message = message, ObservedGeneration = Generation nc\<rparr> (Conditions nc)\<rparr>"

definition SetTrue :: "'c condition_api \<Rightarrow> string \<Rightarrow> 'c nodeClass \<Rightarrow> 'c nodeClass" where
  "SetTrue CA t nc = SetTrueWithReason CA t t [] nc"

definition SetFalse :: "'c condition_api \<Rightarrow> string \<Rightarrow> string \<Rightarrow> string \<Rightarrow> 'c nodeClass \<Rightarrow> 'c nodeClass" where
  "SetFalse CA t reason message nc =
     nc\<lparr>Conditions := cond_set CA t \<lparr>Status = CondFalse, Reason = reason, Message = message, ObservedGeneration = Generation nc\<rparr> (Conditions nc)\<rparr>"

definition statusText :: "cond_status \<Rightarrow> string" where
  "statusText s = (case s of CondTrue \<Rightarrow> ''True'' | CondFalse \<Rightarrow> ''False'' | CondUnknown \<Rightarrow> ''Unknown'')"

definition validateKubernetesVersionReadiness :: "'c condition_api \<Rightarrow> 'c nodeClass option \<Rightarrow> error option" where
  "validateKubernetesVersionReadiness CA nc =
     (case nc of
        None \<Rightarrow> Some (''NodeClass is nil, condition '' @ ConditionTypeKubernetesVersionReady @ '' is not true'')
      | Some nc \<Rightarrow>
          let c = GetCondition CA nc ConditionTypeKubernetesVersionReady in
          if Status c = CondFalse \<or> Status c = CondUnknown then
            Some (''NodeClass condition '' @ ConditionTypeKubernetesVersionReady @ '', is in Ready='' @ statusText (Status c) @ '', '' @ Message c)
          else if ObservedGeneration c \<noteq> Generation nc then
            Some (''NodeClass condition '' @ ConditionTypeKubernetesVersionReady @ '' ObservedGeneration '' @ Itoa (ObservedGeneration c) @
              '' does not match the NodeClass Generation '' @ Itoa (Generation nc))
          else if FromPtr (KubernetesVersion nc) = [] then Some ''NodeClass KubernetesVersion is uninitialized''
          else None)"

definition GetKubernetesVersion :: "'c condition_api \<Rightarrow> 'c nodeClass option \<Rightarrow> string result" where
  "GetKubernetesVersion CA nc =
     (case validateKubernetesVersionReadiness CA nc of
        Some e \<Rightarrow> Inl e
      | None \<Rightarrow> (case nc of None \<Rightarrow> Inr [] | Some nc \<Rightarrow> Inr (FromPtr (KubernetesVersion nc))))"

definition validateImagesReadiness :: "'c condition_api \<Rightarrow> 'c nodeClass option \<Rightarrow> error option" where
  "validateImagesReadiness CA nc =
     (case nc of
        None \<Rightarrow> Some (''NodeClass is nil, condition '' @ ConditionTypeImagesReady @ '' is not true'')
      | Some nc \<Rightarrow>
          let c = GetCondition CA nc ConditionTypeImagesReady in
          if Status c = CondFalse \<or> Status c = CondUnknown then
            Some (''NodeClass condition '' @ ConditionTypeImagesReady @ '', is in Ready='' @ statusText (Status c) @ '', '' @ Message c)
          else if ObservedGeneration c \<noteq> Generation nc then
            Some (''NodeClass condition '' @ ConditionTypeImagesReady @ '' ObservedGeneration '' @ Itoa (ObservedGeneration c) @
              '' does not match the NodeClass Generation '' @ Itoa (Generation nc))
          else None)"

definition GetImages :: "'c condition_api \<Rightarrow> 'c nodeClass option \<Rightarrow> nodeImage list result" where
  "GetImages CA nc =
     (case validateImagesReadiness CA nc of
        Some e \<Rightarrow> Inl e
      | None \<Rightarrow> (case nc of None \<Rightarrow> Inr [] | Some nc \<Rightarrow> Inr (Images nc)))"

subsection \<open>Facts\<close>

lemmas set_condition_defs = SetTrue_def SetTrueWithReason_def SetFalse_def

context status_conditions
begin

lemma get_SetTrueWithReason:
  "GetCondition CA (SetTrueWithReason CA t r m nc) t = \<lparr>Status = CondTrue, Reason = r, Message = m, ObservedGeneration = Generation nc\<rparr>"
  by (simp add: GetCondition_def SetTrueWithReason_def get_set)

lemma get_SetFalse:
  "GetCondition CA (SetFalse CA t r m nc) t = \<lparr>Status = CondFalse, Reason = r, Message = m, ObservedGeneration = Generation nc\<rparr>"
  by (simp add: GetCondition_def SetFalse_def get_set)

lemma get_Set_other:
  assumes "t' \<noteq> t" and "t' \<noteq> ''Ready''"
  shows "GetCondition CA (SetTrueWithReason CA t r m nc) t' = GetCondition CA nc t'"
    and "GetCondition CA (SetFalse CA t r m nc) t' = GetCondition CA nc t'"
  using assms by (simp_all add: GetCondition_def SetTrueWithReason_def SetFalse_def get_set_other)

end

lemma Set_other_fields [simp]:
  "KubernetesVersion (SetTrueWithReason CA t r m nc) = KubernetesVersion nc" "KubernetesVersion (SetFalse CA t r m nc) = KubernetesVersion nc"
  "Images (SetTrueWithReason CA t r m nc) = Images nc" "Images (SetFalse CA t r m nc) = Images nc"
  "ObservedVersions (SetTrueWithReason CA t r m nc) = ObservedVersions nc" "ObservedVersions (SetFalse CA t r m nc) = ObservedVersions nc"
  "SpecVersions (SetTrueWithReason CA t r m nc) = SpecVersions nc" "SpecVersions (SetFalse CA t r m nc) = SpecVersions nc"
  "Generation (SetTrueWithReason CA t r m nc) = Generation nc" "Generation (SetFalse CA t r m nc) = Generation nc"
  by (simp_all add: SetTrueWithReason_def SetFalse_def)

lemma Set_fields_SetTrue [simp]:
  "KubernetesVersion (SetTrue CA t nc) = KubernetesVersion nc" "Images (SetTrue CA t nc) = Images nc"
  "ObservedVersions (SetTrue CA t nc) = ObservedVersions nc" "SpecVersions (SetTrue CA t nc) = SpecVersions nc"
  "Generation (SetTrue CA t nc) = Generation nc"
  by (simp_all add: SetTrue_def)

lemma GetCondition_fields [simp]:
  "GetCondition CA (nc\<lparr>KubernetesVersion := v\<rparr>) t = GetCondition CA nc t"
  "GetCondition CA (nc\<lparr>Images := is\<rparr>) t = GetCondition CA nc t"
  "GetCondition CA (nc\<lparr>ObservedVersions := ov\<rparr>) t = GetCondition CA nc t"
  by (simp_all add: GetCondition_def)

end
