(* ===== verification/Kubernetes_Version.thy ===== *)
theory Kubernetes_Version
  imports Node_Class Go_Cache
begin

text \<open>
  Which Kubernetes version a node class uses: the provider that reads and caches the versions
  (src/pkg/providers/kubernetesversion/kubernetesversion.go) and the reconciler that decides
  (src/pkg/controllers/nodeclass/status/kubernetesversion.go), with the two version helpers of images.go that it
  calls. Parsing and comparing semantic versions is third-party code: the argument \<open>SV\<close>. The
  components of a version are 64-bit words, as the code subtracts them.

  Shown here: a pinned version that is accepted is supported and within the version skew of the control
  plane; without a pin the version never goes back; a rejected pin leaves the version alone.
\<close>

subsection \<open>The provider\<close>

datatype version_value = ServerVersion string | SupportedVersions "string list"

definition kubernetesVersionCacheKey :: string where
  "kubernetesVersionCacheKey = ''kubernetesVersion''"

definition supportedKubernetesVersionsCacheKey :: string where
  "supportedKubernetesVersionsCacheKey = ''supportedKubernetesVersions''"

definition KubernetesVersionTTL :: duration where
  "KubernetesVersionTTL = 15 * Minute"

text \<open>
  The two keys hold values of one kind each, so the type assertions of the source cannot fail; a
  value of the other kind panics.
\<close>

definition KubeServerVersion :: "('c, version_value) cache_api \<Rightarrow> time \<Rightarrow> string result \<Rightarrow> 'c \<Rightarrow> (panic + string result) \<times> 'c" where
  "KubeServerVersion C now discovered cache =
     (case cache_get C now cache kubernetesVersionCacheKey of
        Some (ServerVersion v) \<Rightarrow> (Inr (Inr v), cache)
      | Some (SupportedVersions _) \<Rightarrow> (Inl TypeAssertion, cache)
      | None \<Rightarrow>
          (case discovered of
             Inl e \<Rightarrow> (Inr (Inl e), cache)
           | Inr git \<Rightarrow>
               let v = TrimPrefix git ''v'' in
               (Inr (Inr v), cache_set C now kubernetesVersionCacheKey (ServerVersion v) KubernetesVersionTTL cache)))"

text \<open>The answer of the API: per version, \<open>None\<close> for a nil pointer, the keys of its patch versions.\<close>

definition supportedOf :: "string list option list \<Rightarrow> string list" where
  "supportedOf vs = concat (List.map_filter (\<lambda>v. v) vs)"

definition IsSupported :: "('c, version_value) cache_api \<Rightarrow> time \<Rightarrow> string list option list result \<Rightarrow> string \<Rightarrow> 'c
    \<Rightarrow> (panic + bool result) \<times> 'c" where
  "IsSupported C now listed v cache =
     (case cache_get C now cache supportedKubernetesVersionsCacheKey of
        Some (SupportedVersions vs) \<Rightarrow> (Inr (Inr (v \<in> set vs)), cache)
      | Some (ServerVersion _) \<Rightarrow> (Inl TypeAssertion, cache)
      | None \<Rightarrow>
          (case listed of
             Inl e \<Rightarrow> (Inr (Inl e), cache)
           | Inr resp \<Rightarrow>
               let vs = supportedOf resp in
               (Inr (Inr (v \<in> set vs)), cache_set C now supportedKubernetesVersionsCacheKey (SupportedVersions vs) KubernetesVersionTTL cache)))"

subsection \<open>Versions\<close>

record semver =
  Major :: uint64
  Minor :: uint64
  Patch :: uint64
  Pre :: "string list"

record semver_api =
  sv_parse :: "string \<Rightarrow> semver result"
  sv_less :: "semver \<Rightarrow> semver \<Rightarrow> bool"

locale semver_order =
  fixes SV :: semver_api
  assumes less_asym: "sv_less SV a b \<Longrightarrow> \<not> sv_less SV b a"

text \<open>Order by the three numbers; pre-release tags are left out of this instance.\<close>

definition numeric_semver :: "(string \<Rightarrow> semver result) \<Rightarrow> semver_api" where
  "numeric_semver parse = \<lparr>sv_parse = parse,
     sv_less = (\<lambda>a b. Major a < Major b \<or> (Major a = Major b \<and> (Minor a < Minor b \<or> (Minor a = Minor b \<and> Patch a < Patch b))))\<rparr>"

interpretation numeric_semver: semver_order "numeric_semver parse" for parse
  by unfold_locales (auto simp: numeric_semver_def)

definition requestedVersions :: "'c nodeClass \<Rightarrow> string \<times> string" where
  "requestedVersions nc =
     (case SpecVersions nc of
        None \<Rightarrow> ([], [])
      | Some v \<Rightarrow> (FromPtr (SpecNodeImageVersion v), FromPtr (SpecKubernetesVersion v)))"

definition parseVersion :: "string \<Rightarrow> string" where
  "parseVersion imageID =
     (let parts = Split CHR ''/'' imageID in if length parts < 2 then [] else last parts)"

text \<open>Whether an image version was recently used, and whether with the requested Kubernetes version.\<close>

fun findPair :: "string \<Rightarrow> string \<Rightarrow> bool \<Rightarrow> recentlyUsedVersion list \<Rightarrow> bool \<times> bool" where
  "findPair k8s img imageFound [] = (imageFound, False)"
| "findPair k8s img imageFound (used # us) =
     (if FromPtr (UsedImageVersion used) \<noteq> img then findPair k8s img imageFound us
      else if FromPtr (UsedKubernetesVersion used) = k8s then (True, True)
      else findPair k8s img True us)"

definition findRecentlyUsedPair :: "string \<Rightarrow> string \<Rightarrow> 'c nodeClass \<Rightarrow> bool \<times> bool" where
  "findRecentlyUsedPair reqK8sVersion reqImageVersion nc =
     (case ObservedVersions nc of
        None \<Rightarrow> (False, False)
      | Some ov \<Rightarrow> findPair reqK8sVersion reqImageVersion False (RecentlyUsedVersions ov))"

subsection \<open>The reconciler\<close>

definition skewFailure :: "'c condition_api \<Rightarrow> string \<Rightarrow> 'c nodeClass \<Rightarrow> bool \<times> 'c nodeClass" where
  "skewFailure CA message nc =
     (False, SetFalse CA ConditionTypeKubernetesVersionReady ''KubernetesVersionControlPlaneIncompatible'' message nc)"

definition versus :: "string \<Rightarrow> uint64 \<Rightarrow> uint64 \<Rightarrow> string" where
  "versus what a b = ''kubernetes version '' @ what @ '': node '' @ Itoa (uint a) @ '' vs control-plane '' @ Itoa (uint b)"

definition validateKubernetesVersionSkew :: "'c condition_api \<Rightarrow> semver \<Rightarrow> semver \<Rightarrow> 'c nodeClass \<Rightarrow> bool \<times> 'c nodeClass" where
  "validateKubernetesVersionSkew CA version controlPlane nc =
     (if Major version \<noteq> Major controlPlane then
        skewFailure CA (versus ''major mismatch'' (Major version) (Major controlPlane)) nc
      else if Minor version > Minor controlPlane then
        skewFailure CA (versus ''minor too new'' (Minor version) (Minor controlPlane)) nc
      else if Minor controlPlane - Minor version > 3 then
        skewFailure CA (versus ''minor too old'' (Minor version) (Minor controlPlane)) nc
      else if Minor version = Minor controlPlane \<and> Patch version > Patch controlPlane then
        skewFailure CA (versus ''patch too new'' (Patch version) (Patch controlPlane)) nc
      else (True, nc))"

text \<open>The caller has set the observed versions and passes them.\<close>

definition validateCurrentOrLatestImagePin :: "'c condition_api \<Rightarrow> observedVersions \<Rightarrow> string \<Rightarrow> string \<Rightarrow> string \<Rightarrow> 'c nodeClass
    \<Rightarrow> bool \<times> 'c nodeClass" where
  "validateCurrentOrLatestImagePin CA ov currentK8sVersion reqK8sVer reqImgVer nc =
     (let currentImageVersion = (case Images nc of [] \<Rightarrow> [] | i # _ \<Rightarrow> parseVersion (ImageIDOf i));
          latestImageVersion = FromPtr (LatestImageVersion ov);
          kubernetesVersionChanging = (currentK8sVersion \<noteq> [] \<and> currentK8sVersion \<noteq> reqK8sVer);
          pinningCurrentOrLatestImage = (reqImgVer \<noteq> [] \<and> (reqImgVer = currentImageVersion \<or> reqImgVer = latestImageVersion))
      in if kubernetesVersionChanging \<and> pinningCurrentOrLatestImage \<and> \<not> snd (findRecentlyUsedPair reqK8sVer reqImgVer nc) then
           (False, SetFalse CA ConditionTypeKubernetesVersionReady ''KubernetesVersionImagePinIncompatible''
              ''cannot change Kubernetes version while pinning to the current or latest node image version'' nc)
         else (True, nc))"

definition validatePinnedK8sVersion :: "'c condition_api \<Rightarrow> semver_api \<Rightarrow> (string \<Rightarrow> bool result) \<Rightarrow> observedVersions
    \<Rightarrow> string \<Rightarrow> string \<Rightarrow> string \<Rightarrow> 'c nodeClass \<Rightarrow> bool result \<times> 'c nodeClass" where
  "validatePinnedK8sVersion CA SV isSupported ov reqK8sVer reqImgVer controlPlaneVersion nc =
     (case sv_parse SV reqK8sVer of
        Inl e \<Rightarrow> (Inr False, SetFalse CA ConditionTypeKubernetesVersionReady ''KubernetesVersionInvalidFormat''
                    (''invalid kubernetes version format: '' @ e) nc)
      | Inr version \<Rightarrow>
        (case sv_parse SV controlPlaneVersion of
           Inl e \<Rightarrow> (Inl (''parsing control-plane kubernetes version: '' @ e), nc)
         | Inr controlPlane \<Rightarrow>
             let (ok, nc1) = validateKubernetesVersionSkew CA version controlPlane nc in
             if \<not> ok then (Inr False, nc1)
             else case isSupported reqK8sVer of
               Inl e \<Rightarrow> (Inl (''checking if kubernetes version is supported: '' @ e), nc1)
             | Inr supported \<Rightarrow>
                 if \<not> supported then
                   (Inr False, SetFalse CA ConditionTypeKubernetesVersionReady ''KubernetesVersionUnsupported''
                      (''kubernetes version '' @ reqK8sVer @ '' is not supported'') nc1)
                 else
                   let currentK8sVersion = FromPtr (KubernetesVersion nc1);
                       (ok', nc2) = validateCurrentOrLatestImagePin CA ov currentK8sVersion reqK8sVer reqImgVer nc1
                   in if \<not> ok' then (Inr False, nc2)
                      else (Inr True,
                        if currentK8sVersion \<noteq> reqK8sVer
                        then SetFalse CA ConditionTypeImagesReady ''KubernetesPinning''
                               ''Performing kubernetes version change, need to get latest images'' nc2
                        else nc2)))"

text \<open>The goal without a pin: the control plane's version, unless the class already has a later one.\<close>

definition unpinnedGoal :: "'c condition_api \<Rightarrow> semver_api \<Rightarrow> string \<Rightarrow> 'c nodeClass \<Rightarrow> string result \<times> 'c nodeClass" where
  "unpinnedGoal CA SV controlPlaneVersion nc =
     (if \<not> IsTrue (GetCondition CA nc ConditionTypeKubernetesVersionReady) \<or> FromPtr (KubernetesVersion nc) = [] then
        (Inr controlPlaneVersion, nc)
      else case sv_parse SV controlPlaneVersion of
        Inl e \<Rightarrow> (Inl (''parsing discovered kubernetes version, '' @ e), nc)
      | Inr newV \<Rightarrow>
        (case sv_parse SV (FromPtr (KubernetesVersion nc)) of
           Inl e \<Rightarrow> (Inl (''parsing current kubernetes version, '' @ e), nc)
         | Inr curV \<Rightarrow>
             if sv_less SV curV newV then
               (Inr controlPlaneVersion, SetFalse CA ConditionTypeImagesReady ''KubernetesUpgrade''
                  ''Performing kubernetes upgrade, need to get latest images'' nc)
             else if sv_less SV newV curV then (Inr (FromPtr (KubernetesVersion nc)), nc)
             else (Inr controlPlaneVersion, nc)))"

definition setVersion :: "'c condition_api \<Rightarrow> string \<Rightarrow> 'c nodeClass \<Rightarrow> 'c nodeClass" where
  "setVersion CA goal nc = SetTrue CA ConditionTypeKubernetesVersionReady (nc\<lparr>KubernetesVersion := Some goal\<rparr>)"

definition Reconcile :: "'c condition_api \<Rightarrow> semver_api \<Rightarrow> string result \<Rightarrow> (string \<Rightarrow> bool result) \<Rightarrow> 'c nodeClass
    \<Rightarrow> duration result \<times> 'c nodeClass" where
  "Reconcile CA SV serverVersion isSupported nc =
     (case serverVersion of
        Inl e \<Rightarrow> (Inl (''getting control plane kubernetes version, '' @ e), nc)
      | Inr controlPlaneVersion \<Rightarrow>
          let ov = (case ObservedVersions nc of None \<Rightarrow> noObservedVersions | Some o' \<Rightarrow> o')
                     \<lparr>CurrentControlPlaneKubernetesVersion := Some controlPlaneVersion\<rparr>;
              nc1 = nc\<lparr>ObservedVersions := Some ov\<rparr>;
              (reqImgVer, reqK8sVer) = requestedVersions nc1
          in if reqK8sVer \<noteq> [] then
               (case validatePinnedK8sVersion CA SV isSupported ov reqK8sVer reqImgVer controlPlaneVersion nc1 of
                  (Inl e, nc2) \<Rightarrow> (Inl e, nc2)
                | (Inr False, nc2) \<Rightarrow> (Inr KubernetesVersionTTL, nc2)
                | (Inr True, nc2) \<Rightarrow> (Inr KubernetesVersionTTL, setVersion CA reqK8sVer nc2))
             else
               (case unpinnedGoal CA SV controlPlaneVersion nc1 of
                  (Inl e, nc2) \<Rightarrow> (Inl e, nc2)
                | (Inr goal, nc2) \<Rightarrow> (Inr KubernetesVersionTTL, setVersion CA goal nc2)))"

subsection \<open>Facts\<close>

text \<open>The version skew that the control plane allows.\<close>

definition within_skew :: "semver \<Rightarrow> semver \<Rightarrow> bool" where
  "within_skew version controlPlane \<longleftrightarrow>
     Major version = Major controlPlane \<and> unat (Minor version) \<le> unat (Minor controlPlane) \<and>
     unat (Minor controlPlane) \<le> unat (Minor version) + 3 \<and>
     (Minor version = Minor controlPlane \<longrightarrow> unat (Patch version) \<le> unat (Patch controlPlane))"

lemma minor_distance:
  fixes a b :: uint64
  assumes "a \<le> b"
  shows "b - a > 3 \<longleftrightarrow> unat b > unat a + 3"
proof -
  have "unat (b - a) = unat b - unat a" using assms by (rule unat_sub)
  then show ?thesis by (simp add: word_less_nat_alt) linarith
qed

lemma skew_True: "within_skew version controlPlane \<Longrightarrow> validateKubernetesVersionSkew CA version controlPlane nc = (True, nc)"
  using minor_distance [of "Minor version" "Minor controlPlane"]
  by (auto simp: validateKubernetesVersionSkew_def within_skew_def word_le_nat_alt word_less_nat_alt)

lemma skew_False:
  assumes "\<not> within_skew version controlPlane"
  obtains r m where "validateKubernetesVersionSkew CA version controlPlane nc =
    (False, SetFalse CA ConditionTypeKubernetesVersionReady r m nc)"
proof (cases "fst (validateKubernetesVersionSkew CA version controlPlane nc)")
  case True
  then have "within_skew version controlPlane"
    using minor_distance [of "Minor version" "Minor controlPlane"]
    by (auto simp: validateKubernetesVersionSkew_def skewFailure_def within_skew_def word_le_nat_alt word_less_nat_alt split: if_splits)
  with assms show ?thesis by simp
next
  case False
  then show ?thesis using that by (auto simp: validateKubernetesVersionSkew_def skewFailure_def split: if_splits)
qed

text \<open>
  A validated pin is supported and within the skew and changes no version; a rejected one
  makes the version unready.
\<close>

lemma validatePinned_cases:
  assumes "validatePinnedK8sVersion CA SV isSupported ov k8s img cp nc = (Inr b, nc')"
  shows "if b then KubernetesVersion nc' = KubernetesVersion nc \<and> Generation nc' = Generation nc \<and>
      (\<exists>v c. sv_parse SV k8s = Inr v \<and> sv_parse SV cp = Inr c \<and> within_skew v c) \<and> isSupported k8s = Inr True
    else \<exists>r m. nc' = SetFalse CA ConditionTypeKubernetesVersionReady r m nc"
proof (cases "sv_parse SV k8s")
  case (Inl e)
  with assms have "\<not> b" "nc' = SetFalse CA ConditionTypeKubernetesVersionReady ''KubernetesVersionInvalidFormat''
      (''invalid kubernetes version format: '' @ e) nc" by (auto simp: validatePinnedK8sVersion_def)
  then show ?thesis by (simp only: if_False) blast
next
  case (Inr v)
  then obtain c where c: "sv_parse SV cp = Inr c" using assms by (auto simp: validatePinnedK8sVersion_def split: sum.splits)
  show ?thesis
  proof (cases "within_skew v c")
    case False
    then obtain r m where "validateKubernetesVersionSkew CA v c nc = (False, SetFalse CA ConditionTypeKubernetesVersionReady r m nc)"
      by (rule skew_False)
    with assms Inr c have "\<not> b" "nc' = SetFalse CA ConditionTypeKubernetesVersionReady r m nc"
      by (auto simp: validatePinnedK8sVersion_def)
    then show ?thesis by auto
  next
    case True
    then have s: "validateKubernetesVersionSkew CA v c nc = (True, nc)" by (rule skew_True)
    obtain sup where sup: "isSupported k8s = Inr sup"
      using assms Inr c s by (auto simp: validatePinnedK8sVersion_def split: sum.splits)
    obtain ok nc2 where p: "validateCurrentOrLatestImagePin CA ov (FromPtr (KubernetesVersion nc)) k8s img nc = (ok, nc2)" by fastforce
    then have p': "if ok then nc2 = nc else \<exists>r m. nc2 = SetFalse CA ConditionTypeKubernetesVersionReady r m nc"
      unfolding validateCurrentOrLatestImagePin_def Let_def by (simp split: if_splits) blast+
    show ?thesis
    proof (cases "sup \<and> ok")
      case False
      have "nc' = (if sup then nc2 else SetFalse CA ConditionTypeKubernetesVersionReady ''KubernetesVersionUnsupported''
           (''kubernetes version '' @ k8s @ '' is not supported'') nc)" "\<not> b"
        using assms Inr c s sup p False by (auto simp: validatePinnedK8sVersion_def split: if_splits)
      with p' False show ?thesis by (cases sup) (simp_all only: if_True if_False simp_thms, blast+)
    next
      case True
      then have "b" "nc' = (if FromPtr (KubernetesVersion nc) \<noteq> k8s then SetFalse CA ConditionTypeImagesReady ''KubernetesPinning''
           ''Performing kubernetes version change, need to get latest images'' nc else nc)"
        using assms Inr c s sup p p' by (auto simp: validatePinnedK8sVersion_def)
      with True Inr c sup \<open>within_skew v c\<close> show ?thesis by simp
    qed
  qed
qed

context status_conditions
begin

lemma get_setVersion:
  "IsTrue (GetCondition CA (setVersion CA goal nc) ConditionTypeKubernetesVersionReady)"
  "ObservedGeneration (GetCondition CA (setVersion CA goal nc) ConditionTypeKubernetesVersionReady) = Generation nc"
  "KubernetesVersion (setVersion CA goal nc) = Some goal"
  by (simp_all add: setVersion_def SetTrue_def get_SetTrueWithReason IsTrue_def)

end

subsection \<open>A concrete class\<close>

definition ex_semver :: semver_api where
  "ex_semver = numeric_semver (\<lambda>s.
     if s = ''1.31.2'' then Inr \<lparr>Major = 1, Minor = 31, Patch = 2, Pre = []\<rparr>
     else if s = ''1.30.4'' then Inr \<lparr>Major = 1, Minor = 30, Patch = 4, Pre = []\<rparr>
     else Inl ''malformed'')"

definition ex_class :: "string option \<Rightarrow> string option \<Rightarrow> (string \<Rightarrow> condition) nodeClass" where
  "ex_class pin current = (emptyClass (\<lambda>_. \<lparr>Status = CondTrue, Reason = [], Message = [], ObservedGeneration = 1\<rparr>))
     \<lparr>SpecVersions := map_option (\<lambda>v. \<lparr>SpecKubernetesVersion = Some v, SpecNodeImageVersion = None\<rparr>) pin, KubernetesVersion := current\<rparr>"

subsection \<open>Properties\<close>

text \<open>
  C12: A requested Kubernetes version takes effect only if it parses, has the control plane's major version,
  is at most three minor versions behind and not ahead of it, not even by a patch on the same minor
  version, and is supported; then the class gets exactly that version and is marked ready at its generation.
  Otherwise the class keeps the version it had and is marked not ready.
\<close>

theorem accepted_pins_are_supported_and_within_skew:
  assumes "status_conditions CA" and "Reconcile CA SV (Inr cp) isSupported nc = (Inr d, nc')"
    and "snd (requestedVersions nc) = k8s" and "k8s \<noteq> []"
  shows "if IsTrue (GetCondition CA nc' ConditionTypeKubernetesVersionReady)
    then KubernetesVersion nc' = Some k8s \<and>
      ObservedGeneration (GetCondition CA nc' ConditionTypeKubernetesVersionReady) = Generation nc \<and>
      (\<exists>v c. sv_parse SV k8s = Inr v \<and> sv_parse SV cp = Inr c \<and> Major v = Major c \<and>
         unat (Minor v) \<le> unat (Minor c) \<and> unat (Minor c) \<le> unat (Minor v) + 3 \<and>
         (Minor v = Minor c \<longrightarrow> unat (Patch v) \<le> unat (Patch c))) \<and>
      isSupported k8s = Inr True
    else KubernetesVersion nc' = KubernetesVersion nc"
proof -
  define ov where "ov = (case ObservedVersions nc of None \<Rightarrow> noObservedVersions | Some o' \<Rightarrow> o')
     \<lparr>CurrentControlPlaneKubernetesVersion := Some cp\<rparr>"
  define nc1 where "nc1 = nc\<lparr>ObservedVersions := Some ov\<rparr>"
  have rv: "requestedVersions nc1 = (fst (requestedVersions nc), k8s)"
    using assms(3) by (auto simp: requestedVersions_def nc1_def split: option.splits)
  define res where "res = validatePinnedK8sVersion CA SV isSupported ov k8s (fst (requestedVersions nc)) cp nc1"
  have r: "(Inr d, nc') = (case res of (Inl e, nc2) \<Rightarrow> (Inl e, nc2) | (Inr False, nc2) \<Rightarrow> (Inr KubernetesVersionTTL, nc2)
      | (Inr True, nc2) \<Rightarrow> (Inr KubernetesVersionTTL, setVersion CA k8s nc2))"
    unfolding res_def assms(2) [symmetric] Reconcile_def Let_def sum.case
    using rv assms(4) by (simp add: nc1_def ov_def)
  then obtain b nc2 where b: "res = (Inr b, nc2)" by (cases res) (auto split: sum.splits)
  show ?thesis
  proof (cases b)
    case True
    with r b have n: "nc' = setVersion CA k8s nc2" by simp
    from b True have v: "validatePinnedK8sVersion CA SV isSupported ov k8s (fst (requestedVersions nc)) cp nc1 = (Inr True, nc2)"
      unfolding res_def by simp
    from validatePinned_cases [OF v] status_conditions.get_setVersion [OF assms(1)] show ?thesis
      unfolding n by (auto simp: within_skew_def nc1_def)
  next
    case False
    with r b have n: "nc' = nc2" by simp
    from b False have v: "validatePinnedK8sVersion CA SV isSupported ov k8s (fst (requestedVersions nc)) cp nc1 = (Inr False, nc2)"
      unfolding res_def by simp
    then obtain rr m where "nc2 = SetFalse CA ConditionTypeKubernetesVersionReady rr m nc1" using validatePinned_cases [OF v] by auto
    then show ?thesis unfolding n by (simp add: status_conditions.get_SetFalse [OF assms(1)] IsTrue_def nc1_def)
  qed
qed

theorem accepted_pins_are_supported_and_within_skew_witness:
  "KubernetesVersion (snd (Reconcile fun_conditions ex_semver (Inr ''1.31.2'') (\<lambda>_. Inr True) (ex_class (Some ''1.30.4'') None)))
    = Some ''1.30.4''"
proof -
  let ?r = "Reconcile fun_conditions ex_semver (Inr ''1.31.2'') (\<lambda>_. Inr True) (ex_class (Some ''1.30.4'') None)"
  have r: "?r = (Inr KubernetesVersionTTL, snd ?r)" and t: "IsTrue (GetCondition fun_conditions (snd ?r) ConditionTypeKubernetesVersionReady)"
    by (simp_all add: Reconcile_def ex_class_def requestedVersions_def FromPtr_def validatePinnedK8sVersion_def ex_semver_def numeric_semver_def
        validateKubernetesVersionSkew_def validateCurrentOrLatestImagePin_def setVersion_def set_condition_defs fun_conditions_def
        GetCondition_def IsTrue_def)
  have "snd (requestedVersions (ex_class (Some ''1.30.4'') None)) = ''1.30.4''"
    by (simp add: ex_class_def requestedVersions_def FromPtr_def)
  from accepted_pins_are_supported_and_within_skew [OF fun_conditions.status_conditions_axioms r this] t show ?thesis by simp
qed

text \<open>
  Without a requested version, the version of a ready class never goes back: after a successful
  reconciliation the class is ready and has the control plane's version or, if that is older, the version it
  had. The images become unready exactly when the version went up, and otherwise their
  condition stays.
\<close>

theorem unpinned_versions_never_go_back:
  assumes "status_conditions CA" and "semver_order SV"
    and "Reconcile CA SV (Inr cp) isSupported nc = (Inr d, nc')" and "snd (requestedVersions nc) = []"
    and "IsTrue (GetCondition CA nc ConditionTypeKubernetesVersionReady)" and "KubernetesVersion nc = Some cur" and "cur \<noteq> []"
  shows "\<exists>new v c. KubernetesVersion nc' = Some new \<and> (new = cp \<or> new = cur) \<and>
    sv_parse SV cur = Inr v \<and> sv_parse SV new = Inr c \<and> \<not> sv_less SV c v \<and>
    IsTrue (GetCondition CA nc' ConditionTypeKubernetesVersionReady) \<and>
    GetCondition CA nc' ConditionTypeImagesReady =
      (if sv_less SV v c then \<lparr>Status = CondFalse, Reason = ''KubernetesUpgrade'',
           Message = ''Performing kubernetes upgrade, need to get latest images'', ObservedGeneration = Generation nc\<rparr>
       else GetCondition CA nc ConditionTypeImagesReady)"
proof -
  define nc1 where "nc1 = nc\<lparr>ObservedVersions := Some ((case ObservedVersions nc of None \<Rightarrow> noObservedVersions | Some o' \<Rightarrow> o')
     \<lparr>CurrentControlPlaneKubernetesVersion := Some cp\<rparr>)\<rparr>"
  have rv: "snd (requestedVersions nc1) = []"
    using assms(4) by (auto simp: requestedVersions_def nc1_def split: option.splits)
  have r: "(Inr d, nc') = (case unpinnedGoal CA SV cp nc1 of (Inl e, nc2) \<Rightarrow> (Inl e, nc2)
      | (Inr goal, nc2) \<Rightarrow> (Inr KubernetesVersionTTL, setVersion CA goal nc2))"
    unfolding assms(3) [symmetric] Reconcile_def using rv by (auto simp: Let_def nc1_def split: prod.splits)
  then obtain goal nc2 where g: "unpinnedGoal CA SV cp nc1 = (Inr goal, nc2)" and n: "nc' = setVersion CA goal nc2"
    by (auto split: prod.splits sum.splits)
  have f: "FromPtr (KubernetesVersion nc1) = cur" "GetCondition CA nc1 t = GetCondition CA nc t" "Generation nc1 = Generation nc" for t
    using assms(6) by (simp_all add: nc1_def FromPtr_def)
  obtain v c where vc: "sv_parse SV cp = Inr c" "sv_parse SV cur = Inr v"
    using g assms(5,7) f by (auto simp: unpinnedGoal_def split: sum.splits)
  note laws = status_conditions.get_SetTrueWithReason [OF assms(1)] status_conditions.get_SetFalse [OF assms(1)]
    status_conditions.get_Set_other [OF assms(1)]
  show ?thesis
    using g n vc f assms(5,7) semver_order.less_asym [OF assms(2)]
    by (auto simp: unpinnedGoal_def setVersion_def SetTrue_def laws IsTrue_def split: if_splits)
qed

theorem unpinned_versions_never_go_back_witness:
  "KubernetesVersion (snd (Reconcile fun_conditions ex_semver (Inr ''1.30.4'') (\<lambda>_. Inr True) (ex_class None (Some ''1.31.2''))))
    = Some ''1.31.2''"
proof -
  let ?r = "Reconcile fun_conditions ex_semver (Inr ''1.30.4'') (\<lambda>_. Inr True) (ex_class None (Some ''1.31.2''))"
  have r: "?r = (Inr KubernetesVersionTTL, snd ?r)"
    by (simp add: Reconcile_def ex_class_def requestedVersions_def FromPtr_def unpinnedGoal_def ex_semver_def numeric_semver_def
        setVersion_def set_condition_defs fun_conditions_def GetCondition_def IsTrue_def)
  have "semver_order ex_semver" unfolding ex_semver_def by (rule numeric_semver.semver_order_axioms)
  then obtain new v c where "KubernetesVersion (snd ?r) = Some new" "new = ''1.30.4'' \<or> new = ''1.31.2''"
      "sv_parse ex_semver ''1.31.2'' = Inr v" "sv_parse ex_semver new = Inr c" "\<not> sv_less ex_semver c v"
    using unpinned_versions_never_go_back [OF fun_conditions.status_conditions_axioms _ r, of "''1.31.2''"]
    by (auto simp: requestedVersions_def ex_class_def GetCondition_def fun_conditions_def IsTrue_def)
  then show ?thesis by (auto simp: ex_semver_def numeric_semver_def)
qed

end
