(* ===== verification/Node_Images.thy ===== *)
theory Node_Images
  imports Kubernetes_Version
begin

text \<open>
  Which images a node class uses: the image reconciler with its maintenance window and version pins
  (src/pkg/controllers/nodeclass/status/images.go), and the record of the version pair that was used before
  (\<open>snapshotRecentlyUsed\<close> of controller.go). The image provider's list, the ConfigMap and the time parser are
  arguments; \<open>srt\<close> is \<open>sort.Slice\<close>. An image identifier with too few parts makes
  \<open>trimVersionSuffix\<close> panic, which is the left side of the outer sum.

  Shown here: what a pin and a closed window do to the images; that a pin can be reported although some
  images do not follow it; that the pair recorded on a change is accepted as a rollback target; that replacing a
  version keeps the rest of the identifier.
\<close>

definition nodeOSMaintenanceWindowChannel :: string where
  "nodeOSMaintenanceWindowChannel = ''aksManagedNodeOSUpgradeSchedule''"

definition nodeImageVersionPinnedReason :: string where
  "nodeImageVersionPinnedReason = ''NodeImageVersionPinned''"

definition requeueTime :: duration where
  "requeueTime = 5 * Minute"

text \<open>An image as the provider lists it, with its requirements as node selector requirements.\<close>

record providerImage =
  PImageID :: string
  PRequirements :: "selectorRequirement list"

definition requirementLess :: "selectorRequirement \<Rightarrow> selectorRequirement \<Rightarrow> bool" where
  "requirementLess l r =
     (if length (ReqKey l) \<noteq> length (ReqKey r) then length (ReqKey l) < length (ReqKey r) else ReqKey l < ReqKey r)"

type_synonym req_sort = "(selectorRequirement \<Rightarrow> selectorRequirement \<Rightarrow> bool) \<Rightarrow> selectorRequirement list \<Rightarrow> selectorRequirement list"

definition nodeImageStatus :: "req_sort \<Rightarrow> providerImage list \<Rightarrow> nodeImage list" where
  "nodeImageStatus srt imgs = map (\<lambda>i. \<lparr>ImageIDOf = PImageID i, ImageRequirements = srt requirementLess (PRequirements i)\<rparr>) imgs"

definition imageVersionsUnready :: "'c condition_api \<Rightarrow> 'c nodeClass \<Rightarrow> bool" where
  "imageVersionsUnready CA nc \<longleftrightarrow> \<not> IsTrue (GetCondition CA nc ConditionTypeImagesReady)"

subsection \<open>The maintenance window\<close>

datatype configMap = NotFound | GetError error | Data "(string, string) gomap"

definition isMaintenanceWindowOpen :: "string \<Rightarrow> configMap \<Rightarrow> (string \<Rightarrow> time result) \<Rightarrow> time \<Rightarrow> bool result" where
  "isMaintenanceWindowOpen systemNamespace cm parseTime now =
     (if systemNamespace = [] then Inr True
      else case cm of
        NotFound \<Rightarrow> Inr True
      | GetError e \<Rightarrow> Inl (''error getting maintenance window configmap, '' @ e)
      | Data m \<Rightarrow>
          if m = [] then Inr True
          else
            let start = FromPtr (map_of m (nodeOSMaintenanceWindowChannel @ ''-start''));
                end' = FromPtr (map_of m (nodeOSMaintenanceWindowChannel @ ''-end''))
            in if start = [] \<and> end' = [] then Inr True
               else if start = [] \<or> end' = [] then
                 Inl (''unexpected state, with incomplete maintenance window data for channel '' @ nodeOSMaintenanceWindowChannel)
               else case parseTime start of
                 Inl e \<Rightarrow> Inl (''error parsing maintenance window start time for channel '' @ nodeOSMaintenanceWindowChannel @ '', '' @ e)
               | Inr s \<Rightarrow>
                   (case parseTime end' of
                      Inl e \<Rightarrow> Inl (''error parsing maintenance window end time for channel '' @ nodeOSMaintenanceWindowChannel @ '', '' @ e)
                    | Inr t \<Rightarrow> Inr (s < now \<and> now < t)))"

subsection \<open>Image identifiers\<close>

definition trimVersionSuffix :: "string \<Rightarrow> panic + string" where
  "trimVersionSuffix imageID =
     (let parts = Split CHR ''/'' imageID in
      if length parts < 2 then Inl SliceBounds else Inr (Join ''/'' (take (length parts - 2) parts)))"

definition mapImageBasesToImages :: "nodeImage list \<Rightarrow> panic + (string, nodeImage) gomap" where
  "mapImageBasesToImages images =
     foldM (\<lambda>m i. case trimVersionSuffix (ImageIDOf i) of Inl p \<Rightarrow> Inl p | Inr b \<Rightarrow> Inr (AList.update b i m)) [] images"

definition overrideAnyGoalStateVersionsWithExisting :: "nodeImage list \<Rightarrow> nodeImage list \<Rightarrow> panic + nodeImage list" where
  "overrideAnyGoalStateVersionsWithExisting existing discovered =
     (case mapImageBasesToImages existing of
        Inl p \<Rightarrow> Inl p
      | Inr m \<Rightarrow>
          foldM (\<lambda>acc i. case trimVersionSuffix (ImageIDOf i) of
              Inl p \<Rightarrow> Inl p
            | Inr b \<Rightarrow> Inr (acc @ [case map_of m b of Some e \<Rightarrow> e | None \<Rightarrow> i])) [] discovered)"

definition replaceSuffix :: "string \<Rightarrow> string \<Rightarrow> string result" where
  "replaceSuffix newSuffix imageID =
     (let parts = Split CHR ''/'' imageID in
      if length parts < 3 \<or> parts ! (length parts - 2) \<noteq> ''versions'' \<or> last parts = [] then
        Inl (''image ID does not have expected versions suffix: '' @ imageID)
      else Inr (Join ''/'' (butlast parts @ [newSuffix])))"

definition replaceSuffixes :: "nodeImage list \<Rightarrow> string \<Rightarrow> nodeImage list result" where
  "replaceSuffixes images newSuffix =
     (if newSuffix = [] \<or> CHR ''/'' \<in> set newSuffix then Inl (''invalid image version suffix '' @ quoted newSuffix)
      else foldM (\<lambda>acc i. case replaceSuffix newSuffix (ImageIDOf i) of
               Inl e \<Rightarrow> Inl e
             | Inr d \<Rightarrow> Inr (acc @ [i\<lparr>ImageIDOf := d\<rparr>])) [] images)"

subsection \<open>Pins\<close>

definition validateRollback :: "'c condition_api \<Rightarrow> string \<Rightarrow> string \<Rightarrow> 'c nodeClass \<Rightarrow> bool \<times> 'c nodeClass" where
  "validateRollback CA reqK8sVersion reqImageVersion nc =
     (if ObservedVersions nc = None then
        (False, SetFalse CA ConditionTypeImagesReady ''NodeImageVersionInvalid''
           ''requested node image version cannot be validated because version status is unavailable'' nc)
      else let (imageFound, pairFound) = findRecentlyUsedPair reqK8sVersion reqImageVersion nc in
        if pairFound then (True, nc)
        else if imageFound then
          (False, SetFalse CA ConditionTypeImagesReady ''RollbackTargetKubernetesVersionMismatch''
             ''requested image version is not paired with the requested Kubernetes version'' nc)
        else (False, SetFalse CA ConditionTypeImagesReady ''NodeImageVersionInvalid'' ''requested image version was not found'' nc))"

definition firstVersion :: "nodeImage list \<Rightarrow> string" where
  "firstVersion is = (case is of [] \<Rightarrow> [] | i # _ \<Rightarrow> parseVersion (ImageIDOf i))"

definition validatePinning :: "'c condition_api \<Rightarrow> string \<Rightarrow> string \<Rightarrow> 'c nodeClass \<Rightarrow> bool \<times> 'c nodeClass" where
  "validatePinning CA reqImgVer reqK8sVer nc =
     (let currentImgVer = firstVersion (Images nc);
          latestImgVer = (case ObservedVersions nc of None \<Rightarrow> [] | Some ov \<Rightarrow> FromPtr (LatestImageVersion ov))
      in if reqImgVer = currentImgVer \<or> reqImgVer = latestImgVer
         then (IsTrue (GetCondition CA nc ConditionTypeKubernetesVersionReady), nc)
         else validateRollback CA reqK8sVer reqImgVer nc)"

definition applyImagePinning :: "'c condition_api \<Rightarrow> nodeImage list \<Rightarrow> string \<Rightarrow> 'c nodeClass \<Rightarrow> nodeImage list option \<times> 'c nodeClass" where
  "applyImagePinning CA defaultImages reqImgVer nc =
     (if reqImgVer = [] then (Some defaultImages, nc)
      else case replaceSuffixes defaultImages reqImgVer of
        Inl e \<Rightarrow> (None, SetFalse CA ConditionTypeImagesReady ''RequestedNodeImageVersionUnavailable'' (''replacing image suffixes: '' @ e) nc)
      | Inr pinned \<Rightarrow> (Some pinned, nc))"

subsection \<open>The reconciler\<close>

definition reconcileCustomImage :: "'c condition_api \<Rightarrow> req_sort \<Rightarrow> providerImage list result \<Rightarrow> 'c nodeClass \<Rightarrow> duration result \<times> 'c nodeClass" where
  "reconcileCustomImage CA srt listed nc =
     (let r = (case listed of
                 Inl e \<Rightarrow> Inl e
               | Inr imgs \<Rightarrow> if length imgs \<noteq> 1 then Inl ''imageID must resolve to exactly one compatible image'' else Inr imgs);
          nc1 = nc\<lparr>ObservedVersions := map_option (\<lambda>ov. ov\<lparr>LatestImageVersion := None\<rparr>) (ObservedVersions nc)\<rparr>
      in case r of
           Inl e \<Rightarrow> (Inl e, SetFalse CA ConditionTypeImagesReady ''CustomImageError'' e (nc1\<lparr>Images := []\<rparr>))
         | Inr imgs \<Rightarrow> (Inr requeueTime, SetTrueWithReason CA ConditionTypeImagesReady ''CustomImageResolved''
             ''Using the configured Compute Gallery image version'' (nc1\<lparr>Images := nodeImageStatus srt imgs\<rparr>)))"

text \<open>The last part of \<open>Reconcile\<close>: the goal images become the images of the class.\<close>

definition storeImages :: "'c condition_api \<Rightarrow> string \<Rightarrow> string \<Rightarrow> nodeImage list \<Rightarrow> 'c nodeClass \<Rightarrow> 'c nodeClass" where
  "storeImages CA reqImgVer latestImageVersion goalImages nc =
     (if goalImages = [] then
        SetFalse CA ConditionTypeImagesReady ''ImagesNotFound'' ''ImageSelectors did not match any Images'' (nc\<lparr>Images := []\<rparr>)
      else
        let nc1 = nc\<lparr>Images := goalImages,
              ObservedVersions := Some ((case ObservedVersions nc of None \<Rightarrow> noObservedVersions | Some ov \<Rightarrow> ov)
                \<lparr>LatestImageVersion := Some latestImageVersion\<rparr>)\<rparr>
        in if reqImgVer \<noteq> [] then
             SetTrueWithReason CA ConditionTypeImagesReady nodeImageVersionPinnedReason ''Node image version is pinned'' nc1
           else SetTrue CA ConditionTypeImagesReady nc1)"

definition updateImages :: "'c condition_api \<Rightarrow> bool result \<Rightarrow> string \<Rightarrow> bool \<Rightarrow> string \<Rightarrow> nodeImage list \<Rightarrow> 'c nodeClass
    \<Rightarrow> panic + duration result \<times> 'c nodeClass" where
  "updateImages CA window reqImgVer mustUpdate latestImageVersion goalImages nc =
     (case (if mustUpdate then Inr True else window) of
        Inl e \<Rightarrow> Inr (Inl (''checking maintenance window, '' @ e), nc)
      | Inr shouldUpdate \<Rightarrow>
          (case (if shouldUpdate then Inr goalImages else overrideAnyGoalStateVersionsWithExisting (Images nc) goalImages) of
             Inl p \<Rightarrow> Inl p
           | Inr goal \<Rightarrow> Inr (Inr requeueTime, storeImages CA reqImgVer latestImageVersion goal nc)))"

definition ImagesReconcile :: "'c condition_api \<Rightarrow> req_sort \<Rightarrow> bool \<Rightarrow> ('c nodeClass \<Rightarrow> providerImage list result) \<Rightarrow> bool result \<Rightarrow> 'c nodeClass
    \<Rightarrow> panic + duration result \<times> 'c nodeClass" where
  "ImagesReconcile CA srt useSIG listImages window nc =
     (if SpecImageID nc \<noteq> None then Inr (reconcileCustomImage CA srt (listImages nc) nc)
      else if IsFIPSEnabled nc \<and> \<not> useSIG then
        Inr (Inr 0, SetFalse CA ConditionTypeImagesReady ''SIGRequiredForFIPS''
          ''FIPS images require UseSIG to be enabled, but UseSIG is false (note: UseSIG is only supported in AKS managed NAP)'' (nc\<lparr>Images := []\<rparr>))
      else
        let (reqImgVer, reqK8sVer) = requestedVersions nc;
            (valid, nc1) = (if reqImgVer = [] then (True, nc) else validatePinning CA reqImgVer reqK8sVer nc)
        in if \<not> valid then Inr (Inr requeueTime, nc1)
           else
             let unpinning = (reqImgVer = [] \<and> Reason (GetCondition CA nc1 ConditionTypeImagesReady) = nodeImageVersionPinnedReason)
             in case listImages nc1 of
                  Inl e \<Rightarrow> Inr (Inl (''getting nodeimages, '' @ e), nc1)
                | Inr listed \<Rightarrow>
                    let discovered = nodeImageStatus srt listed;
                        latestImageVersion = firstVersion discovered
                    in case applyImagePinning CA discovered reqImgVer nc1 of
                         (None, nc2) \<Rightarrow> Inr (Inr requeueTime, nc2)
                       | (Some goalImages, nc2) \<Rightarrow>
                           let pinningShouldUpdate = (reqImgVer \<noteq> [] \<and> (Images nc2 = [] \<or> firstVersion (Images nc2) \<noteq> reqImgVer))
                           in updateImages CA window reqImgVer (imageVersionsUnready CA nc2 \<or> pinningShouldUpdate \<or> unpinning)
                                latestImageVersion goalImages nc2)"

subsection \<open>The pair used before\<close>

text \<open>\<open>snapshotRecentlyUsed\<close> of the status controller, which runs after all reconcilers.\<close>

definition snapshotRecentlyUsed :: "'c condition_api \<Rightarrow> time \<Rightarrow> 'c nodeClass \<Rightarrow> 'c nodeClass \<Rightarrow> 'c nodeClass" where
  "snapshotRecentlyUsed CA now old new =
     (if \<not> IsTrue (GetCondition CA old ConditionTypeKubernetesVersionReady) \<or> \<not> IsTrue (GetCondition CA old ConditionTypeImagesReady)
       \<or> KubernetesVersion old = None \<or> Images old = [] then new
      else if firstVersion (Images new) \<noteq> firstVersion (Images old) \<or> FromPtr (KubernetesVersion new) \<noteq> FromPtr (KubernetesVersion old) then
        new\<lparr>ObservedVersions := Some ((case ObservedVersions new of None \<Rightarrow> noObservedVersions | Some ov \<Rightarrow> ov)
          \<lparr>RecentlyUsedVersions := [\<lparr>TimeUsed = Some now, UsedImageVersion = Some (firstVersion (Images old)),
             UsedKubernetesVersion = KubernetesVersion old\<rparr>]\<rparr>)\<rparr>
      else new)"

subsection \<open>Facts\<close>

text \<open>An identifier that ends in \<open>/versions/<version>\<close>.\<close>

definition versioned :: "string \<Rightarrow> bool" where
  "versioned imageID \<longleftrightarrow>
     (let parts = Split CHR ''/'' imageID in length parts \<ge> 3 \<and> parts ! (length parts - 2) = ''versions'' \<and> last parts \<noteq> [])"

lemma Split_replaced:
  assumes "CHR ''/'' \<notin> set v"
  shows "Split CHR ''/'' (Join ''/'' (butlast (Split CHR ''/'' d) @ [v])) = butlast (Split CHR ''/'' d) @ [v]"
  using assms Split_free by (intro Split_Join) (auto dest: in_set_butlastD)

lemma replaceSuffix_cases:
  "replaceSuffix v d = (if versioned d then Inr (Join ''/'' (butlast (Split CHR ''/'' d) @ [v]))
     else Inl (''image ID does not have expected versions suffix: '' @ d))"
  by (auto simp: replaceSuffix_def versioned_def Let_def)

lemma replaced:
  assumes "CHR ''/'' \<notin> set v" and "replaceSuffix v d = Inr d'"
  shows "parseVersion d' = v" "trimVersionSuffix d' = trimVersionSuffix d" "v \<noteq> [] \<Longrightarrow> versioned d'"
proof -
  from assms(2) have d: "versioned d" "d' = Join ''/'' (butlast (Split CHR ''/'' d) @ [v])"
    by (auto simp: replaceSuffix_cases split: if_splits)
  then have l: "length (Split CHR ''/'' d) \<ge> 3" and s: "Split CHR ''/'' d' = butlast (Split CHR ''/'' d) @ [v]"
    using Split_replaced [OF assms(1)] by (auto simp: versioned_def Let_def)
  show "parseVersion d' = v" using l by (simp add: parseVersion_def s)
  show "trimVersionSuffix d' = trimVersionSuffix d"
    using l by (auto simp: trimVersionSuffix_def s butlast_conv_take take_take Let_def)
  show "v \<noteq> [] \<Longrightarrow> versioned d'" using d(1) l by (auto simp: versioned_def s nth_append nth_butlast Let_def)
qed

lemma trim_versioned: "versioned d \<Longrightarrow> \<exists>b. trimVersionSuffix d = Inr b"
  by (auto simp: versioned_def trimVersionSuffix_def Let_def)

lemma replaceSuffixes_Inr:
  assumes "replaceSuffixes images v = Inr out"
  shows "list_all2 (\<lambda>i j. trimVersionSuffix (ImageIDOf j) = trimVersionSuffix (ImageIDOf i) \<and> parseVersion (ImageIDOf j) = v \<and>
    ImageRequirements j = ImageRequirements i \<and> versioned (ImageIDOf j)) images out"
proof -
  from assms have v: "v \<noteq> []" "CHR ''/'' \<notin> set v" by (auto simp: replaceSuffixes_def split: if_splits)
  with assms have "foldM (\<lambda>acc i. case replaceSuffix v (ImageIDOf i) of Inl e \<Rightarrow> Inl e | Inr d \<Rightarrow> Inr (acc @ [i\<lparr>ImageIDOf := d\<rparr>])) [] images = Inr out"
    by (simp add: replaceSuffixes_def)
  from foldM_collect [OF this] have "list_all2 (\<lambda>i j. \<exists>d. replaceSuffix v (ImageIDOf i) = Inr d \<and> j = i\<lparr>ImageIDOf := d\<rparr>) images out" by simp
  then show ?thesis by (rule list_all2_mono) (use replaced [OF v(2)] v(1) in auto)
qed

lemma replaceSuffixes_total:
  assumes "v \<noteq> []" and "CHR ''/'' \<notin> set v" and "\<And>i. i \<in> set images \<Longrightarrow> versioned (ImageIDOf i)"
  shows "\<exists>out. replaceSuffixes images v = Inr out"
  unfolding replaceSuffixes_def using assms
  by (simp add: foldM_collect_total replaceSuffix_cases)

lemma mapImageBases_fold:
  assumes "foldM (\<lambda>m i. case trimVersionSuffix (ImageIDOf i) of Inl p \<Rightarrow> Inl p | Inr b \<Rightarrow> Inr (AList.update b i m)) acc images = Inr m"
  shows "case map_of m b of
      Some i \<Rightarrow> (i \<in> set images \<and> trimVersionSuffix (ImageIDOf i) = Inr b) \<or> map_of acc b = Some i
    | None \<Rightarrow> map_of acc b = None \<and> (\<forall>i \<in> set images. trimVersionSuffix (ImageIDOf i) \<noteq> Inr b)"
  using assms
proof (induction images arbitrary: acc)
  case (Cons i images)
  then obtain c where c: "trimVersionSuffix (ImageIDOf i) = Inr c" by (auto split: sum.splits)
  with Cons.prems Cons.IH [of "AList.update c i acc"] show ?case
    by (cases "b = c") (auto simp: update_conv split: option.splits)
qed (simp split: option.split)

lemma mapImageBases_map_of:
  assumes "mapImageBasesToImages images = Inr m"
  shows "case map_of m b of
      Some i \<Rightarrow> i \<in> set images \<and> trimVersionSuffix (ImageIDOf i) = Inr b
    | None \<Rightarrow> \<forall>i \<in> set images. trimVersionSuffix (ImageIDOf i) \<noteq> Inr b"
  using mapImageBases_fold [of "[]" images m b] assms by (auto simp: mapImageBasesToImages_def split: option.splits)

lemma mapImageBases_total:
  assumes "\<And>i. i \<in> set images \<Longrightarrow> versioned (ImageIDOf i)"
  shows "\<exists>m. mapImageBasesToImages images = Inr m"
proof -
  have "\<exists>m. mapImageBasesToImages images = Inr m \<and> True"
    unfolding mapImageBasesToImages_def
  proof (rule foldM_total)
    fix m i
    assume "i \<in> set images"
    then obtain b where "trimVersionSuffix (ImageIDOf i) = Inr b" using assms trim_versioned by blast
    then show "\<exists>m'. (case trimVersionSuffix (ImageIDOf i) of Inl p \<Rightarrow> Inl p | Inr b \<Rightarrow> Inr (AList.update b i m)) = Inr m' \<and> True" by simp
  qed simp
  then show ?thesis by simp
qed

text \<open>What stands in the new list for a wanted image: the image of the same base that the class has, or the wanted image.\<close>

definition keeps_existing :: "nodeImage list \<Rightarrow> nodeImage \<Rightarrow> nodeImage \<Rightarrow> bool" where
  "keeps_existing existing wanted got \<longleftrightarrow>
     (\<exists>b. trimVersionSuffix (ImageIDOf wanted) = Inr b \<and> trimVersionSuffix (ImageIDOf got) = Inr b \<and>
        (got \<in> set existing \<or> got = wanted \<and> (\<forall>i \<in> set existing. trimVersionSuffix (ImageIDOf i) \<noteq> Inr b)))"

lemma override_Inr:
  assumes "overrideAnyGoalStateVersionsWithExisting existing wanted = Inr out"
  shows "list_all2 (keeps_existing existing) wanted out"
proof -
  from assms obtain m where m: "mapImageBasesToImages existing = Inr m"
    by (auto simp: overrideAnyGoalStateVersionsWithExisting_def split: sum.splits)
  with assms have "foldM (\<lambda>acc i. case trimVersionSuffix (ImageIDOf i) of Inl p \<Rightarrow> Inl p
      | Inr b \<Rightarrow> Inr (acc @ [(\<lambda>i b. case map_of m b of Some e \<Rightarrow> e | None \<Rightarrow> i) i b])) [] wanted = Inr out"
    by (simp add: overrideAnyGoalStateVersionsWithExisting_def)
  from foldM_collect [OF this] have "list_all2 (\<lambda>i j. \<exists>b. trimVersionSuffix (ImageIDOf i) = Inr b \<and>
      j = (case map_of m b of Some e \<Rightarrow> e | None \<Rightarrow> i)) wanted out" by simp
  then show ?thesis
    by (rule list_all2_mono) (use mapImageBases_map_of [OF m] in \<open>fastforce simp: keeps_existing_def split: option.splits\<close>)
qed

lemma override_total:
  assumes "\<And>i. i \<in> set existing \<Longrightarrow> versioned (ImageIDOf i)" and "\<And>i. i \<in> set wanted \<Longrightarrow> versioned (ImageIDOf i)"
  shows "\<exists>out. overrideAnyGoalStateVersionsWithExisting existing wanted = Inr out"
proof -
  obtain m where "mapImageBasesToImages existing = Inr m" using mapImageBases_total [OF assms(1)] by blast
  then show ?thesis unfolding overrideAnyGoalStateVersionsWithExisting_def
    using foldM_collect_total [of wanted "\<lambda>i. trimVersionSuffix (ImageIDOf i)"] trim_versioned assms(2) by fastforce
qed

text \<open>An accepted pin leaves the class as it is.\<close>

lemma validatePinning_accepts: "fst (validatePinning CA v k nc) \<Longrightarrow> validatePinning CA v k nc = (True, nc)"
  by (auto simp: validatePinning_def validateRollback_def Let_def split: if_splits prod.splits)

lemma updateImages_keeping:
  assumes "updateImages CA window v must latest goal nc = Inr (Inr d, nc')"
  shows "Images nc' = goal \<and> (must \<or> window = Inr True) \<or>
    \<not> must \<and> window = Inr False \<and> list_all2 (keeps_existing (Images nc)) goal (Images nc')"
proof -
  from assms obtain u where u: "(if must then Inr True else window) = Inr u" by (auto simp: updateImages_def split: sum.splits)
  show ?thesis
  proof (cases u)
    case True
    with assms u show ?thesis by (auto simp: updateImages_def storeImages_def Let_def split: if_splits)
  next
    case False
    with assms u obtain g where g: "overrideAnyGoalStateVersionsWithExisting (Images nc) goal = Inr g" "nc' = storeImages CA v latest g nc"
      by (auto simp: updateImages_def split: sum.splits)
    then have "Images nc' = g" by (simp add: storeImages_def Let_def)
    with override_Inr [OF g(1)] u False show ?thesis by (auto split: if_splits)
  qed
qed

lemma updateImages_total:
  assumes "window = Inr w" and "\<And>i. i \<in> set (Images nc) \<Longrightarrow> versioned (ImageIDOf i)" and "\<And>i. i \<in> set goal \<Longrightarrow> versioned (ImageIDOf i)"
    and "goal \<noteq> []"
  shows "\<exists>g. g \<noteq> [] \<and> updateImages CA window v must latest goal nc = Inr (Inr requeueTime, storeImages CA v latest g nc)"
proof -
  obtain g where g: "overrideAnyGoalStateVersionsWithExisting (Images nc) goal = Inr g" using override_total assms(2,3) by blast
  from override_Inr [OF g] assms(4) have "g \<noteq> []" by auto
  with g assms(1,4) show ?thesis by (cases "must \<or> w") (auto simp: updateImages_def)
qed

lemma nodeImageStatus_ids [simp]: "map ImageIDOf (nodeImageStatus srt imgs) = map PImageID imgs"
  by (simp add: nodeImageStatus_def)

lemma list_all2_nodeImageStatus:
  "list_all2 P (nodeImageStatus srt imgs) out \<longleftrightarrow>
    list_all2 (\<lambda>p. P \<lparr>ImageIDOf = PImageID p, ImageRequirements = srt requirementLess (PRequirements p)\<rparr>) imgs out"
  by (simp add: nodeImageStatus_def list_all2_map1)

text \<open>Without a pin, now or before, a ready class is updated as the window says.\<close>

lemma ImagesReconcile_unpinned:
  assumes "SpecImageID nc = None" and "IsFIPSEnabled nc \<longrightarrow> useSIG" and "fst (requestedVersions nc) = []"
    and "IsTrue (GetCondition CA nc ConditionTypeImagesReady)" and "Reason (GetCondition CA nc ConditionTypeImagesReady) \<noteq> nodeImageVersionPinnedReason"
    and "listImages nc = Inr listed"
  shows "ImagesReconcile CA srt useSIG listImages window nc =
    updateImages CA window [] False (firstVersion (nodeImageStatus srt listed)) (nodeImageStatus srt listed) nc"
proof -
  obtain k where k: "requestedVersions nc = ([], k)" using assms(3) by (cases "requestedVersions nc") simp
  show ?thesis using assms(1,2,4-6) unfolding ImagesReconcile_def k Let_def by (auto simp: applyImagePinning_def imageVersionsUnready_def)
qed

lemma storeImages_Generation [simp]: "Generation (storeImages CA v latest g nc) = Generation nc"
  by (simp add: storeImages_def Let_def)

context status_conditions
begin

lemma get_storeImages_unpinned:
  "g \<noteq> [] \<Longrightarrow> GetImages CA (Some (storeImages CA [] latest g nc)) = Inr g"
  by (simp add: GetImages_def validateImagesReadiness_def storeImages_def Let_def SetTrue_def get_SetTrueWithReason)

lemma get_storeImages:
  "g \<noteq> [] \<Longrightarrow> v \<noteq> [] \<Longrightarrow> GetCondition CA (storeImages CA v latest g nc) ConditionTypeImagesReady =
    \<lparr>Status = CondTrue, Reason = nodeImageVersionPinnedReason, Message = ''Node image version is pinned'', ObservedGeneration = Generation nc\<rparr>"
  by (simp add: storeImages_def Let_def get_SetTrueWithReason)

end

subsection \<open>A concrete class\<close>

definition ex_images :: "string option \<Rightarrow> string list \<Rightarrow> (string \<Rightarrow> condition) nodeClass" where
  "ex_images pin ids = (ex_class None (Some ''1.31.2''))
     \<lparr>SpecVersions := map_option (\<lambda>v. \<lparr>SpecKubernetesVersion = Some ''1.31.2'', SpecNodeImageVersion = Some v\<rparr>) pin,
      Images := map (\<lambda>d. \<lparr>ImageIDOf = d, ImageRequirements = []\<rparr>) ids\<rparr>"

definition ex_listed :: "string list \<Rightarrow> providerImage list" where
  "ex_listed ids = map (\<lambda>d. \<lparr>PImageID = d, PRequirements = []\<rparr>) ids"

definition reconcileOnce :: "bool \<Rightarrow> string list \<Rightarrow> (string \<Rightarrow> condition) nodeClass \<Rightarrow> (string \<Rightarrow> condition) nodeClass option" where
  "reconcileOnce window ids nc =
     (case ImagesReconcile fun_conditions (\<lambda>_ rs. rs) True (\<lambda>_. Inr (ex_listed ids)) (Inr window) nc of
        Inr (Inr _, nc') \<Rightarrow> Some nc'
      | _ \<Rightarrow> None)"

lemmas images_eval = ImagesReconcile_def ex_images_def ex_class_def ex_listed_def nodeImageStatus_def requestedVersions_def FromPtr_def
  validatePinning_def applyImagePinning_def replaceSuffixes_def replaceSuffix_def firstVersion_def parseVersion_def updateImages_def
  overrideAnyGoalStateVersionsWithExisting_def mapImageBasesToImages_def trimVersionSuffix_def storeImages_def set_condition_defs
  fun_conditions_def GetCondition_def IsTrue_def imageVersionsUnready_def IsFIPSEnabled_def Windows2025ImageFamily_def FIPSModeFIPS_def
  ConditionTypeImagesReady_def ConditionTypeKubernetesVersionReady_def nodeImageVersionPinnedReason_def noObservedVersions_def

subsection \<open>Properties\<close>

text \<open>
  C11: A valid pin of the image version always succeeds when the listed identifiers are well formed: one image per
  listed image, in the same order and with the same base, is stored, and the class is marked as
  pinned at its generation. When the class was not ready, had no images or a first image of another version, or
  the window is open, every image has the pinned version; otherwise an image may also be one that the class
  already had.
\<close>

theorem pinned_images_follow_the_pin:
  assumes "status_conditions CA" and "SpecImageID nc = None" and "IsFIPSEnabled nc \<longrightarrow> useSIG"
    and "requestedVersions nc = (v, k)" and "v \<noteq> []" and "CHR ''/'' \<notin> set v" and "fst (validatePinning CA v k nc)"
    and "listImages nc = Inr listed" and "listed \<noteq> []"
    and "\<forall>p \<in> set listed. versioned (PImageID p)" and "\<forall>i \<in> set (Images nc). versioned (ImageIDOf i)"
  shows "\<exists>nc'. ImagesReconcile CA srt useSIG listImages (Inr w) nc = Inr (Inr requeueTime, nc') \<and>
    IsTrue (GetCondition CA nc' ConditionTypeImagesReady) \<and>
    Reason (GetCondition CA nc' ConditionTypeImagesReady) = nodeImageVersionPinnedReason \<and>
    ObservedGeneration (GetCondition CA nc' ConditionTypeImagesReady) = Generation nc \<and>
    list_all2 (\<lambda>p i. trimVersionSuffix (ImageIDOf i) = trimVersionSuffix (PImageID p) \<and>
      (parseVersion (ImageIDOf i) = v \<or>
       \<not> (imageVersionsUnready CA nc \<or> Images nc = [] \<or> firstVersion (Images nc) \<noteq> v \<or> w) \<and> i \<in> set (Images nc)))
      listed (Images nc')"
proof -
  define goal0 where "goal0 = nodeImageStatus srt listed"
  define must where "must = (imageVersionsUnready CA nc \<or> (Images nc = [] \<or> firstVersion (Images nc) \<noteq> v))"
  have "\<exists>out. replaceSuffixes goal0 v = Inr out"
    by (rule replaceSuffixes_total) (use assms(5,6,10) in \<open>auto simp: goal0_def nodeImageStatus_def\<close>)
  then obtain goal where goal: "replaceSuffixes goal0 v = Inr goal" ..
  let ?u = "updateImages CA (Inr w) v must (firstVersion goal0) goal nc"
  have e: "ImagesReconcile CA srt useSIG listImages (Inr w) nc = ?u"
    unfolding ImagesReconcile_def Let_def
    using assms(2-5,8) validatePinning_accepts [OF assms(7)] goal
    by (auto simp: applyImagePinning_def goal0_def must_def)
  note r = replaceSuffixes_Inr [OF goal]
  have g: "goal \<noteq> []" "\<And>i. i \<in> set goal \<Longrightarrow> versioned (ImageIDOf i)"
    using r assms(9) list_all2_in_right [OF r] by (auto simp: goal0_def nodeImageStatus_def)
  obtain g' where g': "g' \<noteq> []" "?u = Inr (Inr requeueTime, storeImages CA v (firstVersion goal0) g' nc)"
    using updateImages_total [of "Inr w" w nc goal CA v must "firstVersion goal0"] assms(11) g by auto
  let ?nc' = "storeImages CA v (firstVersion goal0) g' nc"
  have "list_all2 (\<lambda>p i. trimVersionSuffix (ImageIDOf i) = trimVersionSuffix (ImageIDOf p) \<and>
      (parseVersion (ImageIDOf i) = v \<or> \<not> (must \<or> w) \<and> i \<in> set (Images nc))) goal0 (Images ?nc')"
    using updateImages_keeping [OF g'(2)]
  proof
    assume "Images ?nc' = goal \<and> (must \<or> Inr w = Inr True)"
    with r show ?thesis by (auto elim!: list_all2_mono)
  next
    assume k: "\<not> must \<and> Inr w = Inr False \<and> list_all2 (keeps_existing (Images nc)) goal (Images ?nc')"
    then have "list_all2 (keeps_existing (Images nc)) goal (Images ?nc')" by simp
    from r this show ?thesis by (rule list_all2_trans [rotated]) (use k in \<open>auto simp: keeps_existing_def\<close>)
  qed
  then have "list_all2 (\<lambda>p i. trimVersionSuffix (ImageIDOf i) = trimVersionSuffix (PImageID p) \<and>
      (parseVersion (ImageIDOf i) = v \<or> \<not> (must \<or> w) \<and> i \<in> set (Images nc))) listed (Images ?nc')"
    unfolding goal0_def list_all2_nodeImageStatus by simp
  then show ?thesis
    using e g' assms(5) status_conditions.get_storeImages [OF assms(1) g'(1) assms(5)]
    by (auto simp: must_def IsTrue_def elim!: list_all2_mono)
qed

theorem pinned_images_follow_the_pin_witness:
  "\<exists>nc'. ImagesReconcile fun_conditions (\<lambda>_ rs. rs) True (\<lambda>_. Inr (ex_listed [''/g/images/a/versions/2''])) (Inr False)
      ((ex_images (Some ''1'') [''/g/images/a/versions/2''])\<lparr>ObservedVersions := Some (noObservedVersions\<lparr>LatestImageVersion := Some ''1''\<rparr>)\<rparr>)
      = Inr (Inr requeueTime, nc') \<and> map (parseVersion \<circ> ImageIDOf) (Images nc') = [''1'']"
proof -
  let ?nc = "(ex_images (Some ''1'') [''/g/images/a/versions/2''])\<lparr>ObservedVersions := Some (noObservedVersions\<lparr>LatestImageVersion := Some ''1''\<rparr>)\<rparr>"
  have "\<forall>p \<in> set (ex_listed [''/g/images/a/versions/2'']). versioned (PImageID p)" "\<forall>i \<in> set (Images ?nc). versioned (ImageIDOf i)"
    "fst (validatePinning fun_conditions ''1'' ''1.31.2'' ?nc)" "requestedVersions ?nc = (''1'', ''1.31.2'')" "firstVersion (Images ?nc) \<noteq> ''1''"
    "SpecImageID ?nc = None" "IsFIPSEnabled ?nc \<longrightarrow> True" "Images ?nc \<noteq> []"
    by (simp_all add: images_eval versioned_def)
  with pinned_images_follow_the_pin [OF fun_conditions.status_conditions_axioms, of ?nc True "''1''" "''1.31.2''"
      "\<lambda>_. Inr (ex_listed [''/g/images/a/versions/2''])" "ex_listed [''/g/images/a/versions/2'']" "\<lambda>_ rs. rs" False]
  obtain nc' where "ImagesReconcile fun_conditions (\<lambda>_ rs. rs) True (\<lambda>_. Inr (ex_listed [''/g/images/a/versions/2''])) (Inr False) ?nc
      = Inr (Inr requeueTime, nc')"
    "list_all2 (\<lambda>p i. parseVersion (ImageIDOf i) = ''1'') (ex_listed [''/g/images/a/versions/2'']) (Images nc')"
    by (auto simp: ex_listed_def list_all2_Cons1)
  then show ?thesis by (auto simp: ex_listed_def list_all2_Cons1)
qed

text \<open>
  Outside the maintenance window a ready class that was not and is not pinned gets exactly one image per listed image,
  in the same order: the image of the same base that it already had, whatever version is the latest, and the listed
  image only if it had none of that base.
\<close>

theorem closed_window_keeps_versions:
  assumes "SpecImageID nc = None" and "IsFIPSEnabled nc \<longrightarrow> useSIG" and "fst (requestedVersions nc) = []"
    and "IsTrue (GetCondition CA nc ConditionTypeImagesReady)" and "Reason (GetCondition CA nc ConditionTypeImagesReady) \<noteq> nodeImageVersionPinnedReason"
    and "listImages nc = Inr listed"
    and "ImagesReconcile CA srt useSIG listImages (Inr False) nc = Inr (Inr d, nc')"
  shows "list_all2 (\<lambda>p i. \<exists>b. trimVersionSuffix (PImageID p) = Inr b \<and> trimVersionSuffix (ImageIDOf i) = Inr b \<and>
    (i \<in> set (Images nc) \<or> ImageIDOf i = PImageID p \<and> (\<forall>e \<in> set (Images nc). trimVersionSuffix (ImageIDOf e) \<noteq> Inr b)))
    listed (Images nc')"
proof -
  from updateImages_keeping [OF assms(7) [unfolded ImagesReconcile_unpinned [where listImages = listImages, OF assms(1-6)]]] have "list_all2 (keeps_existing (Images nc)) (nodeImageStatus srt listed) (Images nc')" by simp
  then show ?thesis unfolding list_all2_nodeImageStatus by (rule list_all2_mono) (auto simp: keeps_existing_def)
qed

theorem closed_window_keeps_versions_witness:
  "\<exists>nc'. ImagesReconcile fun_conditions (\<lambda>_ rs. rs) True (\<lambda>_. Inr (ex_listed [''/g/images/a/versions/2''])) (Inr False)
      (ex_images None [''/g/images/a/versions/1'']) = Inr (Inr requeueTime, nc') \<and>
    list_all2 (\<lambda>p i. i \<in> set (Images (ex_images None [''/g/images/a/versions/1'']))) (ex_listed [''/g/images/a/versions/2'']) (Images nc')"
proof -
  let ?nc = "ex_images None [''/g/images/a/versions/1'']" and ?l = "ex_listed [''/g/images/a/versions/2'']"
  obtain nc' where r: "ImagesReconcile fun_conditions (\<lambda>_ rs. rs) True (\<lambda>_. Inr ?l) (Inr False) ?nc = Inr (Inr requeueTime, nc')"
    by (simp add: images_eval)
  have "SpecImageID ?nc = None" "IsFIPSEnabled ?nc \<longrightarrow> True" "fst (requestedVersions ?nc) = []"
    "IsTrue (GetCondition fun_conditions ?nc ConditionTypeImagesReady)"
    "Reason (GetCondition fun_conditions ?nc ConditionTypeImagesReady) \<noteq> nodeImageVersionPinnedReason"
    by (simp_all add: images_eval)
  from closed_window_keeps_versions [OF this _ r] show ?thesis
    using r by (auto simp: images_eval list_all2_Cons1)
qed

text \<open>
  A pin can be reported although it is not followed. A closed window adds a newly supported image at the latest version
  beside an image that stays at version 1; a later pin to version 1 looks only at the first image, so the class is marked as pinned
  while the second image keeps version 2.
\<close>

theorem pin_reported_but_not_followed:
  "(let nc1 = reconcileOnce False [''/g/images/a/versions/2'', ''/g/images/b/versions/2''] (ex_images None [''/g/images/a/versions/1'']);
        nc2 = Option.bind nc1 (\<lambda>nc. reconcileOnce False [''/g/images/a/versions/2'', ''/g/images/b/versions/2'']
          (nc\<lparr>SpecVersions := SpecVersions (ex_images (Some ''1'') [])\<rparr>))
    in map_option (\<lambda>nc. (map ImageIDOf (Images nc), Reason (GetCondition fun_conditions nc ConditionTypeImagesReady))) nc2)
   = Some ([''/g/images/a/versions/1'', ''/g/images/b/versions/2''], nodeImageVersionPinnedReason)"
  by (simp add: reconcileOnce_def images_eval)

text \<open>
  After a change of version, exactly the pair of Kubernetes and image version that the class used before is
  accepted as a rollback target, and accepting it changes nothing.
\<close>

theorem rollback_target_is_the_previous_pair:
  assumes "IsTrue (GetCondition CA old ConditionTypeKubernetesVersionReady)" and "IsTrue (GetCondition CA old ConditionTypeImagesReady)"
    and "KubernetesVersion old = Some k" and "Images old \<noteq> []"
    and "firstVersion (Images new) \<noteq> firstVersion (Images old) \<or> FromPtr (KubernetesVersion new) \<noteq> k"
  shows "fst (validateRollback CA k' v (snapshotRecentlyUsed CA now old new)) \<longleftrightarrow> k' = k \<and> v = firstVersion (Images old)"
    and "validateRollback CA k (firstVersion (Images old)) (snapshotRecentlyUsed CA now old new) = (True, snapshotRecentlyUsed CA now old new)"
  using assms
  by (auto simp: validateRollback_def snapshotRecentlyUsed_def findRecentlyUsedPair_def FromPtr_def)

theorem rollback_target_is_the_previous_pair_witness:
  "fst (validateRollback fun_conditions ''1.31.2'' ''1''
     (snapshotRecentlyUsed fun_conditions 7 (ex_images None [''/g/images/a/versions/1'']) (ex_images None [''/g/images/a/versions/2''])))"
proof -
  let ?old = "ex_images None [''/g/images/a/versions/1'']" and ?new = "ex_images None [''/g/images/a/versions/2'']"
  have "IsTrue (GetCondition fun_conditions ?old ConditionTypeKubernetesVersionReady)" "IsTrue (GetCondition fun_conditions ?old ConditionTypeImagesReady)"
    "KubernetesVersion ?old = Some ''1.31.2''" "Images ?old \<noteq> []"
    "firstVersion (Images ?new) \<noteq> firstVersion (Images ?old) \<or> FromPtr (KubernetesVersion ?new) \<noteq> ''1.31.2''"
    "firstVersion (Images ?old) = ''1''"
    by (simp_all add: images_eval)
  with rollback_target_is_the_previous_pair(1) [OF this(1-5)] show ?thesis by simp
qed

text \<open>
  Replacing the version of an image identifier gives an identifier with that version and with the same base, so
  replacing it again by the old version gives the identifier back.
\<close>

theorem replaceSuffix_roundtrip:
  assumes "replaceSuffix v imageID = Inr d" and "v \<noteq> []" and "CHR ''/'' \<notin> set v"
  shows "parseVersion d = v \<and> trimVersionSuffix d = trimVersionSuffix imageID \<and> replaceSuffix (parseVersion imageID) d = Inr imageID"
proof -
  from assms(1) have w: "versioned imageID" "d = Join ''/'' (butlast (Split CHR ''/'' imageID) @ [v])"
    by (auto simp: replaceSuffix_cases split: if_splits)
  have "parseVersion imageID = last (Split CHR ''/'' imageID)" using w(1) by (auto simp: parseVersion_def versioned_def Let_def)
  then have "replaceSuffix (parseVersion imageID) d = Inr (Join ''/'' (Split CHR ''/'' imageID))"
    using replaced(3) [OF assms(3,1,2)] Split_replaced [OF assms(3)] w(2) by (simp add: replaceSuffix_cases)
  then show ?thesis using replaced [OF assms(3,1)] by (simp add: Join_Split)
qed

theorem replaceSuffix_roundtrip_witness:
  "\<exists>d. replaceSuffix ''2'' ''/g/images/a/versions/1'' = Inr d \<and> replaceSuffix ''1'' d = Inr ''/g/images/a/versions/1''"
proof -
  obtain d where d: "replaceSuffix ''2'' ''/g/images/a/versions/1'' = Inr d" and p: "parseVersion ''/g/images/a/versions/1'' = ''1''"
    by (simp add: replaceSuffix_def parseVersion_def)
  from replaceSuffix_roundtrip [OF d] d p show ?thesis by simp
qed

end
