(* ===== verification/Machine_Cache.thy ===== *)
theory Machine_Cache
  imports AKS_Machine
begin

text \<open>
  The cache of AKS machines (src/pkg/providers/instance/machinecache/machinecache.go): reads that fall back to
  the API, invalidation, polling through the cache, and the background worker that refreshes it. The
  worker is split where it releases the lock: it lists the machines, then stores them, then stamps the time;
  \<open>mc_step\<close> interleaves these with the other operations. Machines are pointers that reads rehydrate in
  place, so a read also updates the stored entry. Go's iteration order is the parameter \<open>rng\<close>; the
  API answers, the pages of a list and the time are arguments.

  Shown here: what a read returns and when it asks the API; that every machine that is handed out has a
  priority; that a poll reports success only for a machine that succeeded; that an invalidated machine is
  read from the API again as long as no refresh is under way, and that a refresh under way brings it back.
\<close>

subsection \<open>State\<close>

record opts =
  ttl :: duration
  pollInterval :: duration
  pollTimeout :: duration

definition defaultOpts :: opts where
  "defaultOpts = \<lparr>ttl = 30 * Second, pollInterval = 5 * Second, pollTimeout = 15 * Minute\<rparr>"

definition WithTTL :: "duration \<Rightarrow> opts \<Rightarrow> opts" where
  "WithTTL d o' = o'\<lparr>ttl := d\<rparr>"

definition WithPollInterval :: "duration \<Rightarrow> opts \<Rightarrow> opts" where
  "WithPollInterval d o' = o'\<lparr>pollInterval := d\<rparr>"

definition WithPollTimeout :: "duration \<Rightarrow> opts \<Rightarrow> opts" where
  "WithPollTimeout d o' = o'\<lparr>pollTimeout := d\<rparr>"

type_synonym machine_map = "(string, aksMachine) gomap"

record machineCache =
  machines :: machine_map
  lastUpdatedUnixNanos :: time
  updateRequests :: bool
  options :: opts

definition New :: "(opts \<Rightarrow> opts) list \<Rightarrow> machineCache" where
  "New os = \<lparr>machines = [], lastUpdatedUnixNanos = 0, updateRequests = False, options = foldl (\<lambda>o' f. f o') defaultOpts os\<rparr>"

type_synonym getAPI = "string \<Rightarrow> sdkError + aksMachine"

text \<open>The pages of a list: each is an error or its machines, where a nil pointer is \<open>None\<close>.\<close>

type_synonym page = "sdkError + aksMachine option list"

definition NodePoolLabelKey :: string where
  "NodePoolLabelKey = ''karpenter.sh/nodepool''"

definition NodePoolTagKey :: string where
  "NodePoolTagKey = map (\<lambda>c. if c = CHR ''/'' then CHR ''_'' else c) NodePoolLabelKey"

definition nilMachine :: failure where
  "nilMachine = Panic ''runtime error: invalid memory address or nil pointer dereference''"

subsection \<open>Helpers\<close>

definition isValid :: "aksMachineProperties option \<Rightarrow> bool" where
  "isValid properties =
     (case properties of None \<Rightarrow> False | Some p \<Rightarrow>
      case AMTags p of None \<Rightarrow> False | Some tags \<Rightarrow> map_of tags NodePoolTagKey \<noteq> None)"

definition rehydrateMachine :: "aksMachine \<Rightarrow> aksMachine" where
  "rehydrateMachine m = m\<lparr>AMProperties :=
     map_option (\<lambda>p. if AMPriority p = None then p\<lparr>AMPriority := Some PriorityRegular\<rparr> else p) (AMProperties m)\<rparr>"

definition isFresh :: "time \<Rightarrow> machineCache \<Rightarrow> bool" where
  "isFresh now c \<longleftrightarrow> lastUpdatedUnixNanos c \<noteq> 0 \<and> now - lastUpdatedUnixNanos c < ttl (options c)"

definition requestUpdate :: "machineCache \<Rightarrow> machineCache" where
  "requestUpdate c = c\<lparr>updateRequests := True\<rparr>"

fun eachMachine :: "('s \<Rightarrow> aksMachine \<Rightarrow> 's) \<Rightarrow> 's \<Rightarrow> page list \<Rightarrow> failure + 's" where
  "eachMachine f s [] = Inr s"
| "eachMachine f s (Inl err # pages) =
     (if IsAKSMachineOrMachinesPoolNotFound err then Inr s else Inl (Failed (''failed to list AKS machines: '' @ ErrText err)))"
| "eachMachine f s (Inr ms # pages) =
     (case foldM (\<lambda>s m. case m of None \<Rightarrow> Inl nilMachine | Some m \<Rightarrow> Inr (f s m)) s ms of
        Inl e \<Rightarrow> Inl e
      | Inr s' \<Rightarrow> eachMachine f s' pages)"

definition listAll :: "('s \<Rightarrow> aksMachine \<Rightarrow> 's) \<Rightarrow> 's \<Rightarrow> page list option \<Rightarrow> failure + 's" where
  "listAll f s pager =
     (case pager of
        None \<Rightarrow> Inl (Failed ''failed to list AKS machines: created pager is nil'')
      | Some pages \<Rightarrow> eachMachine f s pages)"

subsection \<open>Reads\<close>

text \<open>The machine if it is found, whether the cache is fresh, and the new state.\<close>

definition getFromCache :: "time \<Rightarrow> string \<Rightarrow> machineCache \<Rightarrow> (aksMachine option \<times> bool) \<times> machineCache" where
  "getFromCache now name c =
     (if \<not> isFresh now c then ((None, False), requestUpdate c)
      else ((map_of (machines c) name, True), c))"

definition GetWithFallback :: "getAPI \<Rightarrow> time \<Rightarrow> string \<Rightarrow> bool \<Rightarrow> machineCache \<Rightarrow> (sdkError + aksMachine) \<times> machineCache" where
  "GetWithFallback api now name useCache c =
     (let ((found, fresh), c') = (if useCache then getFromCache now name c else ((None, False), c)) in
      case found of
        Some m \<Rightarrow> (Inr (rehydrateMachine m), c'\<lparr>machines := AList.update name (rehydrateMachine m) (machines c')\<rparr>)
      | None \<Rightarrow>
          (case api name of
             Inl e \<Rightarrow> (Inl (e\<lparr>ErrText := ''failed to get AKS machine '' @ quoted name @ '': '' @ ErrText e\<rparr>), c')
           | Inr m \<Rightarrow> (Inr (rehydrateMachine m), c'\<lparr>machines := AList.update name (rehydrateMachine m) (machines c')\<rparr>)))"

definition listFromCache :: "(string list \<Rightarrow> string list) \<Rightarrow> time \<Rightarrow> machineCache \<Rightarrow> (aksMachine list \<times> bool) \<times> machineCache" where
  "listFromCache rng now c =
     (if \<not> isFresh now c then (([], False), requestUpdate c)
      else ((map rehydrateMachine (filter (\<lambda>m. isValid (AMProperties m))
               (List.map_filter (map_of (machines c)) (rng (map fst (machines c))))), True),
            c\<lparr>machines := map (\<lambda>(n, m). (n, if isValid (AMProperties m) then rehydrateMachine m else m)) (machines c)\<rparr>))"

definition ListWithFallback :: "(string list \<Rightarrow> string list) \<Rightarrow> page list option \<Rightarrow> time \<Rightarrow> bool \<Rightarrow> machineCache
    \<Rightarrow> (failure + aksMachine list) \<times> machineCache" where
  "ListWithFallback rng pager now useCache c =
     (let ((ms, fresh), c') = (if useCache then listFromCache rng now c else (([], False), c)) in
      if fresh then (Inr ms, c')
      else (listAll (\<lambda>ms m. if isValid (AMProperties m) then ms @ [rehydrateMachine m] else ms) [] pager, c'))"

definition Invalidate :: "string \<Rightarrow> machineCache \<Rightarrow> machineCache" where
  "Invalidate name c = c\<lparr>machines := AList.delete name (machines c)\<rparr>"

definition InvalidateAll :: "machineCache \<Rightarrow> machineCache" where
  "InvalidateAll c = c\<lparr>machines := [], lastUpdatedUnixNanos := 0\<rparr>"

subsection \<open>Polling\<close>

definition checkMachineExists :: "getAPI \<Rightarrow> time \<Rightarrow> string \<Rightarrow> machineCache \<Rightarrow> bool \<times> machineCache" where
  "checkMachineExists api now name c =
     (let (r, c') = GetWithFallback api now name True c in (case r of Inr _ \<Rightarrow> True | Inl _ \<Rightarrow> False, c'))"

definition pollOnce :: "getAPI \<Rightarrow> time \<Rightarrow> string \<Rightarrow> machineCache \<Rightarrow> poll_result \<times> machineCache" where
  "pollOnce api now name c =
     (let ((found, fresh), c') = getFromCache now name c in
      if \<not> fresh then ((None, None, False), c')
      else case found of
        None \<Rightarrow>
          (let (r, c'') = GetWithFallback api now name True c' in
           case r of
             Inr _ \<Rightarrow> ((None, None, False), c'')
           | Inl _ \<Rightarrow> ((None, Some (''AKS machine '' @ quoted name @ '' not found in cache''), True), c''))
      | Some m \<Rightarrow>
          (case AMProperties m of
             None \<Rightarrow> ((None, None, False), c')
           | Some props \<Rightarrow>
               if AMProvisioningState props = None then ((None, None, False), c')
               else (HandleProvisioningState m props, c')))"

text \<open>
  What the loop meets: the end of its context, its timeout, or a tick, with the API, the time and the
  state of the cache at that moment, which other operations may have changed since the last one.
\<close>

datatype poll_event = CtxDone string | Timeout | Tick getAPI time machineCache

fun pollLoop :: "opts \<Rightarrow> (duration \<Rightarrow> string) \<Rightarrow> string \<Rightarrow> poll_event list \<Rightarrow> (errorDetail option \<times> error option) option" where
  "pollLoop os fmt name [] = None"
| "pollLoop os fmt name (CtxDone e # evs) = Some (None, Some (''context canceled while polling for AKS machine '' @ quoted name @ '': '' @ e))"
| "pollLoop os fmt name (Timeout # evs) =
     Some (None, Some (''timed out while polling for AKS machine '' @ quoted name @ '' after '' @ fmt (pollTimeout os)))"
| "pollLoop os fmt name (Tick api now c # evs) =
     (case fst (pollOnce api now name c) of
        (provisioningErr, pollerErr, True) \<Rightarrow> Some (provisioningErr, pollerErr)
      | (_, _, False) \<Rightarrow> pollLoop os fmt name evs)"

definition PollUntilDone :: "(duration \<Rightarrow> string) \<Rightarrow> getAPI \<Rightarrow> time \<Rightarrow> machineCache \<Rightarrow> string \<Rightarrow> poll_event list
    \<Rightarrow> (errorDetail option \<times> error option) option" where
  "PollUntilDone fmt api now c name evs =
     (if \<not> fst (checkMachineExists api now name c) then Some (None, Some (''AKS machine '' @ quoted name @ '' does not exist''))
      else pollLoop (options c) fmt name evs)"

subsection \<open>The background worker\<close>

text \<open>The first part of \<open>update\<close>, without a lock: \<open>Inr None\<close> when the cache is already fresh.\<close>

definition updateList :: "page list option \<Rightarrow> time \<Rightarrow> machineCache \<Rightarrow> failure + machine_map option" where
  "updateList pager now c =
     (if isFresh now c then Inr None
      else map_sum (\<lambda>f. f) Some (listAll (\<lambda>ms m. AList.update (FromPtr (AMName m)) m ms) [] pager))"

definition updateStore :: "machine_map \<Rightarrow> machineCache \<Rightarrow> machineCache" where
  "updateStore fetched c = c\<lparr>machines := fetched\<rparr>"

definition updateStamp :: "time \<Rightarrow> machineCache \<Rightarrow> machineCache" where
  "updateStamp now c = c\<lparr>lastUpdatedUnixNanos := now\<rparr>"

text \<open>The three parts in a row.\<close>

definition update :: "page list option \<Rightarrow> time \<Rightarrow> time \<Rightarrow> machineCache \<Rightarrow> failure + machineCache" where
  "update pager now now' c =
     (case updateList pager now c of
        Inl f \<Rightarrow> Inl f
      | Inr None \<Rightarrow> Inr c
      | Inr (Some fetched) \<Rightarrow> Inr (updateStamp now' (updateStore fetched c)))"

datatype worker = Idle | Listed machine_map | Stored

text \<open>A failed update is only logged; a panic ends the process and is not a step.\<close>

inductive mc_step :: "machineCache \<times> worker \<Rightarrow> machineCache \<times> worker \<Rightarrow> bool" where
  get: "mc_step (c, w) (snd (GetWithFallback api now name useCache c), w)"
| list: "mc_step (c, w) (snd (ListWithFallback rng pager now useCache c), w)"
| poll: "mc_step (c, w) (snd (pollOnce api now name c), w)"
| invalidate: "mc_step (c, w) (Invalidate name c, w)"
| invalidateAll: "mc_step (c, w) (InvalidateAll c, w)"
| update_skipped: "updateRequests c \<Longrightarrow> updateList pager now c = Inr None \<Longrightarrow> mc_step (c, Idle) (c\<lparr>updateRequests := False\<rparr>, Idle)"
| update_failed: "updateRequests c \<Longrightarrow> updateList pager now c = Inl (Failed e) \<Longrightarrow> mc_step (c, Idle) (c\<lparr>updateRequests := False\<rparr>, Idle)"
| update_listed: "updateRequests c \<Longrightarrow> updateList pager now c = Inr (Some fetched) \<Longrightarrow>
    mc_step (c, Idle) (c\<lparr>updateRequests := False\<rparr>, Listed fetched)"
| update_stored: "mc_step (c, Listed fetched) (updateStore fetched c, Stored)"
| update_stamped: "now > 0 \<Longrightarrow> mc_step (c, Stored) (updateStamp now c, Idle)"

subsection \<open>Facts\<close>

lemma rehydrate_priority: "AMProperties (rehydrateMachine m) = Some p \<Longrightarrow> AMPriority p \<noteq> None"
  by (auto simp: rehydrateMachine_def)

lemma rehydrate_idem [simp]: "rehydrateMachine (rehydrateMachine m) = rehydrateMachine m"
  by (cases "AMProperties m") (simp_all add: rehydrateMachine_def)

lemma isFresh_machines [simp]: "isFresh now (c\<lparr>machines := ms\<rparr>) = isFresh now c"
  by (simp add: isFresh_def)

lemma isFresh_requestUpdate [simp]: "isFresh now (requestUpdate c) = isFresh now c"
  by (simp add: isFresh_def requestUpdate_def)

lemma machines_requestUpdate [simp]: "machines (requestUpdate c) = machines c"
  by (simp add: requestUpdate_def)

lemma requestUpdate_lastUpdated [simp]: "lastUpdatedUnixNanos (requestUpdate c) = lastUpdatedUnixNanos c"
  by (simp add: requestUpdate_def)

text \<open>Which machine a read finds in the cache.\<close>

definition cached :: "time \<Rightarrow> string \<Rightarrow> bool \<Rightarrow> machineCache \<Rightarrow> aksMachine option" where
  "cached now name useCache c = (if useCache \<and> isFresh now c then map_of (machines c) name else None)"

lemma GetWithFallback_hit:
  "cached now name useCache c = Some m \<Longrightarrow>
    GetWithFallback api now name useCache c = (Inr (rehydrateMachine m), c\<lparr>machines := AList.update name (rehydrateMachine m) (machines c)\<rparr>)"
  by (auto simp: GetWithFallback_def getFromCache_def cached_def split: if_splits)

lemma GetWithFallback_miss:
  assumes "cached now name useCache c = None"
  shows "\<exists>c'. machines c' = machines c \<and> isFresh t c' = isFresh t c \<and> lastUpdatedUnixNanos c' = lastUpdatedUnixNanos c \<and>
    GetWithFallback api now name useCache c =
     (case api name of
        Inl e \<Rightarrow> (Inl (e\<lparr>ErrText := ''failed to get AKS machine '' @ quoted name @ '': '' @ ErrText e\<rparr>), c')
      | Inr m \<Rightarrow> (Inr (rehydrateMachine m), c'\<lparr>machines := AList.update name (rehydrateMachine m) (machines c')\<rparr>))"
proof (cases "useCache \<and> \<not> isFresh now c")
  case True
  then show ?thesis
    by (intro exI [of _ "requestUpdate c"]) (simp add: GetWithFallback_def getFromCache_def requestUpdate_lastUpdated split: sum.splits)
next
  case False
  with assms show ?thesis
    by (intro exI [of _ c]) (auto simp: GetWithFallback_def getFromCache_def cached_def split: if_splits)
qed

lemma pollOnce_done:
  assumes "fst (pollOnce api now name c) = (d, e, True)" and "e = None"
  shows "\<exists>m props. isFresh now c \<and> map_of (machines c) name = Some m \<and> AMProperties m = Some props \<and>
    HandleProvisioningState m props = (d, None, True) \<and> AMProvisioningState props \<noteq> None"
  using assms
  by (auto simp: pollOnce_def getFromCache_def split: if_splits option.splits prod.splits sum.splits)

lemma pollLoop_done:
  assumes "pollLoop os fmt name evs = Some (d, None)"
  shows "\<exists>api now c m props. Tick api now c \<in> set evs \<and> isFresh now c \<and> map_of (machines c) name = Some m \<and>
    AMProperties m = Some props \<and> HandleProvisioningState m props = (d, None, True) \<and> AMProvisioningState props \<noteq> None"
  using assms
proof (induction evs)
  case (Cons ev evs)
  show ?case
  proof (cases ev)
    case (Tick api now c)
    obtain d' e' f where r: "fst (pollOnce api now name c) = (d', e', f)" by (metis prod_cases3)
    show ?thesis
    proof (cases f)
      case True
      with r Cons.prems Tick pollOnce_done [of api now name c d' e'] show ?thesis by fastforce
    next
      case False
      with r Cons Tick show ?thesis by fastforce
    qed
  qed (use Cons.prems in auto)
qed simp

subsection \<open>A concrete cache\<close>

definition ex_machine :: "string \<Rightarrow> aksMachine" where
  "ex_machine st = \<lparr>AMID = None, AMName = Some ''m1'', AMProperties = Some (noProperties\<lparr>AMProvisioningState := Some st,
     AMTags := Some [(''karpenter.sh_nodepool'', Some ''default'')]\<rparr>), AMZones = []\<rparr>"

definition ex_cache :: machineCache where
  "ex_cache = \<lparr>machines = [(''m1'', ex_machine ProvisioningStateSucceeded)], lastUpdatedUnixNanos = 5, updateRequests = False, options = defaultOpts\<rparr>"

lemma ex_fresh: "isFresh 6 ex_cache"
  by (simp add: isFresh_def ex_cache_def defaultOpts_def Second_def)

subsection \<open>Properties\<close>

text \<open>
  A read returns the cached machine if the cache may be used, is fresh and has it, without
  asking the API, and otherwise what the API answers now, also when a fresh cache does not have the machine.
  A machine that is returned has its priority filled in, is in the cache afterwards, and is what later reads
  return as long as the cache is fresh, whatever the API says then; other machines and the age of the cache
  do not change.
\<close>

theorem get_returns_the_fresh_entry_or_asks_the_API:
  assumes "GetWithFallback api now name useCache c = (r, c')"
  shows "r = (case cached now name useCache c of
      Some m \<Rightarrow> Inr (rehydrateMachine m)
    | None \<Rightarrow> (case api name of
        Inl e \<Rightarrow> Inl (e\<lparr>ErrText := ''failed to get AKS machine '' @ quoted name @ '': '' @ ErrText e\<rparr>)
      | Inr m \<Rightarrow> Inr (rehydrateMachine m))) \<and>
    (\<forall>m. r = Inr m \<longrightarrow> map_of (machines c') name = Some m \<and>
       (\<forall>p. AMProperties m = Some p \<longrightarrow> AMPriority p \<noteq> None) \<and>
       (\<forall>api' now'. isFresh now' c' \<longrightarrow> fst (GetWithFallback api' now' name True c') = Inr m)) \<and>
    (\<forall>other. other \<noteq> name \<longrightarrow> map_of (machines c') other = map_of (machines c) other) \<and>
    lastUpdatedUnixNanos c' = lastUpdatedUnixNanos c"
proof -
  have again: "fst (GetWithFallback api' now' name True c') = Inr (rehydrateMachine m)"
    if "map_of (machines c') name = Some (rehydrateMachine m)" "isFresh now' c'" for api' now' m
    using GetWithFallback_hit [of now' name True c' "rehydrateMachine m" api'] that by (simp add: cached_def)
  show ?thesis
  proof (cases "cached now name useCache c")
    case (Some m)
    from assms GetWithFallback_hit [OF Some, of api] have r: "r = Inr (rehydrateMachine m)"
      and c': "c' = c\<lparr>machines := AList.update name (rehydrateMachine m) (machines c)\<rparr>" by auto
    then have "map_of (machines c') name = Some (rehydrateMachine m)" by (simp add: update_conv')
    with r c' Some again rehydrate_priority show ?thesis by (auto simp: update_conv')
  next
    case None
    obtain c1 where c1: "machines c1 = machines c" "lastUpdatedUnixNanos c1 = lastUpdatedUnixNanos c"
      and g: "(r, c') = (case api name of
        Inl e \<Rightarrow> (Inl (e\<lparr>ErrText := ''failed to get AKS machine '' @ quoted name @ '': '' @ ErrText e\<rparr>), c1)
      | Inr m \<Rightarrow> (Inr (rehydrateMachine m), c1\<lparr>machines := AList.update name (rehydrateMachine m) (machines c1)\<rparr>))"
      using GetWithFallback_miss [OF None, of now api] unfolding assms by blast
    show ?thesis
    proof (cases "api name")
      case (Inl e)
      with g c1 None show ?thesis by simp
    next
      case (Inr m)
      with g have r: "r = Inr (rehydrateMachine m)"
        and c': "c' = c1\<lparr>machines := AList.update name (rehydrateMachine m) (machines c1)\<rparr>" by auto
      then have "map_of (machines c') name = Some (rehydrateMachine m)" by (simp add: update_conv')
      with r c' c1 None Inr again rehydrate_priority show ?thesis by (auto simp: update_conv')
    qed
  qed
qed

theorem get_returns_the_fresh_entry_or_asks_the_API_witness:
  "fst (GetWithFallback (\<lambda>_. Inl \<lparr>ErrText = ''gone'', ResponseText = ''gone'', StatusCode = Some 404, SDKErrorCode = [], IsContextError = False\<rparr>) 6 ''m1'' True ex_cache)
    = Inr (rehydrateMachine (ex_machine ProvisioningStateSucceeded))"
proof -
  have "cached 6 ''m1'' True ex_cache = Some (ex_machine ProvisioningStateSucceeded)"
    using ex_fresh by (simp add: cached_def ex_cache_def)
  then show ?thesis using get_returns_the_fresh_entry_or_asks_the_API [OF prod.collapse [symmetric]] by simp
qed

text \<open>
  A list that is served by the fresh cache consists of exactly the machines of the cache that carry the
  node pool tag, with their priority filled in, in whatever order the map is walked, and needs no API call.
\<close>

theorem list_serves_exactly_the_tagged_machines:
  assumes "map_range rng" and "distinct (map fst (machines c))" and "isFresh now c"
  shows "\<exists>ms. fst (ListWithFallback rng pager now True c) = Inr ms \<and>
    set ms = rehydrateMachine ` {m. m \<in> snd ` set (machines c) \<and> isValid (AMProperties m)} \<and>
    (\<forall>m \<in> set ms. \<forall>p. AMProperties m = Some p \<longrightarrow> AMPriority p \<noteq> None)"
proof -
  let ?ms = "map rehydrateMachine (filter (\<lambda>m. isValid (AMProperties m))
      (List.map_filter (map_of (machines c)) (rng (map fst (machines c)))))"
  have "fst (ListWithFallback rng pager now True c) = Inr ?ms"
    using assms(3) by (simp add: ListWithFallback_def listFromCache_def)
  moreover have "set (rng (map fst (machines c))) = fst ` set (machines c)" using assms(1) by (simp add: map_range_def)
  then have "set (List.map_filter (map_of (machines c)) (rng (map fst (machines c)))) = snd ` set (machines c)"
    using assms(2) by (force simp: map_filter_def image_iff)
  then have "set ?ms = rehydrateMachine ` {m. m \<in> snd ` set (machines c) \<and> isValid (AMProperties m)}" by auto
  moreover have "\<forall>m \<in> set ?ms. \<forall>p. AMProperties m = Some p \<longrightarrow> AMPriority p \<noteq> None" using rehydrate_priority by auto
  ultimately show ?thesis by blast
qed

theorem list_serves_exactly_the_tagged_machines_witness:
  "\<exists>ms. fst (ListWithFallback remdups None 6 True ex_cache) = Inr ms \<and> set ms = {rehydrateMachine (ex_machine ProvisioningStateSucceeded)}"
proof -
  have "{m. m \<in> snd ` set (machines ex_cache) \<and> isValid (AMProperties m)} = {ex_machine ProvisioningStateSucceeded}"
    by (auto simp: ex_cache_def ex_machine_def isValid_def NodePoolTagKey_def NodePoolLabelKey_def)
  then show ?thesis
    using list_serves_exactly_the_tagged_machines [OF first_added.map_range_axioms _ ex_fresh, of None]
    by (simp add: ex_cache_def) blast
qed

text \<open>
  A poll through the cache reports success only if, at one of its ticks, the cache was fresh and held the
  machine in the state Succeeded, and reports a provisioning error only if it held the machine in the
  state Failed with that error: a stale cache, a machine that cannot be found or an unknown state is never
  taken for the end of the provisioning.
\<close>

theorem cache_poll_verdicts_are_real:
  assumes "PollUntilDone fmt api now c name evs = Some (verdict, None)"
  shows "\<exists>api' now' c' m props. Tick api' now' c' \<in> set evs \<and> isFresh now' c' \<and> map_of (machines c') name = Some m \<and>
    AMProperties m = Some props \<and>
    (case verdict of
       None \<Rightarrow> AMProvisioningState props = Some ProvisioningStateSucceeded
     | Some d \<Rightarrow> AMProvisioningState props = Some ProvisioningStateFailed \<and> AMProvisioningError props = Some d)"
proof -
  from assms have "pollLoop (options c) fmt name evs = Some (verdict, None)"
    by (simp add: PollUntilDone_def split: if_splits)
  from pollLoop_done [OF this] obtain api' now' c' m props where
    t: "Tick api' now' c' \<in> set evs" "isFresh now' c'" "map_of (machines c') name = Some m" "AMProperties m = Some props"
    and h: "HandleProvisioningState m props = (verdict, None, True)" "AMProvisioningState props \<noteq> None" by blast
  from h have "case verdict of
       None \<Rightarrow> AMProvisioningState props = Some ProvisioningStateSucceeded
     | Some d \<Rightarrow> AMProvisioningState props = Some ProvisioningStateFailed \<and> AMProvisioningError props = Some d"
    by (cases "AMProvisioningError props"; cases verdict)
      (auto simp: HandleProvisioningState_def FromPtr_def Let_def split: if_splits)
  with t show ?thesis by blast
qed

theorem cache_poll_verdicts_are_real_witness:
  "PollUntilDone (\<lambda>_. ''15m0s'') (\<lambda>_. Inr (ex_machine [])) 6 ex_cache ''m1'' [Tick (\<lambda>_. Inr (ex_machine [])) 6 ex_cache] = Some (None, None) \<and>
   isFresh 6 ex_cache"
proof -
  have "PollUntilDone (\<lambda>_. ''15m0s'') (\<lambda>_. Inr (ex_machine [])) 6 ex_cache ''m1'' [Tick (\<lambda>_. Inr (ex_machine [])) 6 ex_cache] = Some (None, None)"
    using ex_fresh
    by (simp add: PollUntilDone_def checkMachineExists_def GetWithFallback_def getFromCache_def pollOnce_def ex_cache_def ex_machine_def
        HandleProvisioningState_def FromPtr_def provisioning_defs)
  with cache_poll_verdicts_are_real [OF this] show ?thesis by auto
qed

text \<open>
  After \<open>Invalidate\<close> the next read of the machine is answered by the API, whether or not
  the cache may be used, and the other machines stay.
\<close>

theorem invalidated_machines_are_read_from_the_API:
  "fst (GetWithFallback api now name useCache (Invalidate name c)) =
    (case api name of
       Inl e \<Rightarrow> Inl (e\<lparr>ErrText := ''failed to get AKS machine '' @ quoted name @ '': '' @ ErrText e\<rparr>)
     | Inr m \<Rightarrow> Inr (rehydrateMachine m)) \<and>
   (other = name \<or> map_of (machines (Invalidate name c)) other = map_of (machines c) other)"
proof -
  have "cached now name useCache (Invalidate name c) = None"
    by (simp add: cached_def Invalidate_def delete_conv)
  from GetWithFallback_miss [OF this, of now api]
  have "fst (GetWithFallback api now name useCache (Invalidate name c)) =
    (case api name of
       Inl e \<Rightarrow> Inl (e\<lparr>ErrText := ''failed to get AKS machine '' @ quoted name @ '': '' @ ErrText e\<rparr>)
     | Inr m \<Rightarrow> Inr (rehydrateMachine m))" by (auto split: sum.splits)
  then show ?thesis by (auto simp: Invalidate_def delete_conv)
qed

text \<open>
  This does not hold while a refresh is under way: if the worker has listed the machines
  before \<open>Invalidate\<close> runs, it then stores the old machine again and marks the cache fresh, so a later read is
  answered with what the API said before the invalidation, without asking the API.
\<close>

theorem refresh_under_way_undoes_Invalidate:
  assumes "updateRequests c" and "updateList pager now c = Inr (Some fetched)" and "map_of fetched name = Some m"
    and "0 < now'" and "now'' - now' < ttl (options c)"
  shows "\<exists>c1 c2. mc_step (c, Idle) (c1, Listed fetched) \<and>
    mc_step\<^sup>*\<^sup>* (Invalidate name c1, Listed fetched) (c2, Idle) \<and>
    fst (GetWithFallback api now'' name True c2) = Inr (rehydrateMachine m)"
proof -
  let ?c1 = "c\<lparr>updateRequests := False\<rparr>"
  let ?c2 = "updateStamp now' (updateStore fetched (Invalidate name ?c1))"
  have "mc_step (c, Idle) (?c1, Listed fetched)" using assms(1,2) by (rule mc_step.update_listed)
  moreover have "mc_step\<^sup>*\<^sup>* (Invalidate name ?c1, Listed fetched) (?c2, Idle)"
    using mc_step.update_stored mc_step.update_stamped [OF assms(4)]
    by (meson converse_rtranclp_into_rtranclp r_into_rtranclp)
  moreover have "cached now'' name True ?c2 = Some m"
    using assms(3-5) by (simp add: cached_def isFresh_def updateStamp_def updateStore_def Invalidate_def)
  then have "fst (GetWithFallback api now'' name True ?c2) = Inr (rehydrateMachine m)" by (simp add: GetWithFallback_hit)
  ultimately show ?thesis by blast
qed

theorem refresh_under_way_undoes_Invalidate_witness:
  "\<exists>c1 c2. mc_step ((New [])\<lparr>updateRequests := True\<rparr>, Idle) (c1, Listed [(''m1'', ex_machine ProvisioningStateSucceeded)]) \<and>
    mc_step\<^sup>*\<^sup>* (Invalidate ''m1'' c1, Listed [(''m1'', ex_machine ProvisioningStateSucceeded)]) (c2, Idle) \<and>
    fst (GetWithFallback (\<lambda>_. Inl \<lparr>ErrText = ''gone'', ResponseText = ''gone'', StatusCode = Some 404, SDKErrorCode = [], IsContextError = False\<rparr>) 2 ''m1'' True c2)
      = Inr (rehydrateMachine (ex_machine ProvisioningStateSucceeded))"
  by (rule refresh_under_way_undoes_Invalidate [where now' = 1 and now = 1
        and pager = "Some [Inr [Some (ex_machine ProvisioningStateSucceeded)]]"])
    (simp_all add: New_def updateList_def isFresh_def listAll_def ex_machine_def FromPtr_def defaultOpts_def Second_def)

end
