(* ===== verification/Go_Regexp.thy ===== *)
theory Go_Regexp
  imports Prelude
begin

text \<open>
  The part of Go's \<open>regexp\<close> that the provider uses: patterns that are sequences of characters, of greedy
  repetitions of a character class and of an end-of-text anchor. \<open>FindStringSubmatch\<close> returns the leftmost match and prefers, as Go
  does, the longest text for a repetition that lets the rest of the pattern match.

  \<open>rxMatch\<close> says which captures are possible at all; the search returns one of them whenever there is one. A
  pattern of segments between slashes is read as a statement about the segments of the text.
\<close>

datatype rx = Ch "char \<Rightarrow> bool" | Many "char \<Rightarrow> bool" nat bool | TextEnd

definition anyChar :: "char \<Rightarrow> bool" where
  "anyChar c \<longleftrightarrow> c \<noteq> CHR 0x0A"

definition nonSpace :: "char \<Rightarrow> bool" where
  "nonSpace c \<longleftrightarrow> c \<notin> {CHR 0x09, CHR 0x0A, CHR 0x0C, CHR 0x0D, CHR '' ''}"

definition lit :: "string \<Rightarrow> rx list" where
  "lit s = map (\<lambda>c. Ch (\<lambda>d. d = c)) s"

definition litFold :: "string \<Rightarrow> rx list" where
  "litFold s = map (\<lambda>c. Ch (\<lambda>d. lower_char d = lower_char c)) s"

fun firstSome :: "('a \<Rightarrow> 'b option) \<Rightarrow> 'a list \<Rightarrow> 'b option" where
  "firstSome f [] = None"
| "firstSome f (x # xs) = (case f x of None \<Rightarrow> firstSome f xs | Some y \<Rightarrow> Some y)"

primrec matchHere :: "rx list \<Rightarrow> string \<Rightarrow> string list option" where
  "matchHere [] = (\<lambda>s. Some [])"
| "matchHere (i # r) = (\<lambda>s.
     case i of
       Ch p \<Rightarrow> (case s of [] \<Rightarrow> None | c # cs \<Rightarrow> if p c then matchHere r cs else None)
     | Many p m capture \<Rightarrow>
         firstSome (\<lambda>n. map_option (\<lambda>cs. if capture then take n s # cs else cs) (matchHere r (drop n s)))
           (rev [m ..< Suc (length (takeWhile p s))])
     | TextEnd \<Rightarrow> if s = [] then matchHere r s else None)"

text \<open>The captured groups, without the match as a whole that Go puts in front.\<close>

fun FindStringSubmatch :: "rx list \<Rightarrow> string \<Rightarrow> string list option" where
  "FindStringSubmatch pat [] = matchHere pat []"
| "FindStringSubmatch pat (c # cs) =
     (case matchHere pat (c # cs) of None \<Rightarrow> FindStringSubmatch pat cs | Some m \<Rightarrow> Some m)"

subsection \<open>Possible matches\<close>

primrec rxMatch :: "rx list \<Rightarrow> string \<Rightarrow> string list \<Rightarrow> bool" where
  "rxMatch [] = (\<lambda>s cs. cs = [])"
| "rxMatch (i # r) = (\<lambda>s cs.
     case i of
       Ch p \<Rightarrow> \<exists>c t. s = c # t \<and> p c \<and> rxMatch r t cs
     | Many p m capture \<Rightarrow>
         \<exists>a t cs'. s = a @ t \<and> m \<le> length a \<and> list_all p a \<and> (r = [] \<longrightarrow> t = [] \<or> \<not> p (hd t)) \<and>
           rxMatch r t cs' \<and> cs = (if capture then a # cs' else cs')
     | TextEnd \<Rightarrow> s = [] \<and> rxMatch r s cs)"

lemma firstSome_Some: "firstSome f xs = Some y \<Longrightarrow> \<exists>x \<in> set xs. f x = Some y"
  by (induction xs) (auto split: option.splits)

lemma firstSome_None: "firstSome f xs = None \<longleftrightarrow> (\<forall>x \<in> set xs. f x = None)"
  by (induction xs) (auto split: option.splits)

lemma take_takeWhile: "n \<le> length (takeWhile p s) \<Longrightarrow> list_all p (take n s)"
proof (induction s arbitrary: n)
  case (Cons c s)
  then show ?case by (cases n) (auto split: if_splits)
qed simp

lemma take_length_takeWhile: "take (length (takeWhile p s)) s = takeWhile p s"
  by (metis append_eq_conv_conj takeWhile_dropWhile_id)

lemma prefix_takeWhile: "list_all p a \<Longrightarrow> length a \<le> length (takeWhile p (a @ t))"
  by (induction a) auto

lemma matchHere_sound: "matchHere pat s = Some cs \<Longrightarrow> rxMatch pat s cs"
proof (induction pat arbitrary: s cs)
  case (Cons i r)
  show ?case
  proof (cases i)
    case (Many p m capture)
    with Cons.prems obtain n cs' where n: "m \<le> n" "n \<le> length (takeWhile p s)" and r: "matchHere r (drop n s) = Some cs'"
      and cs: "cs = (if capture then take n s # cs' else cs')"
      by (auto dest!: firstSome_Some)
    show ?thesis
    proof (cases "r = []")
      case True
      with Many Cons.prems n have "cs = (if capture then [takeWhile p s] else [])" by (auto simp: take_length_takeWhile split: if_splits)
      then have "\<exists>a t. s = a @ t \<and> m \<le> length a \<and> list_all p a \<and> (t = [] \<or> \<not> p (hd t)) \<and> cs = (if capture then [a] else [])"
        using n hd_dropWhile [of p s] set_takeWhileD [of _ p s]
        by (intro exI [of _ "takeWhile p s"] exI [of _ "dropWhile p s"]) (auto simp: list_all_iff)
      with Many True show ?thesis by auto
    next
      case False
      have "length (take n s) = n" using n(2) length_takeWhile_le [of p s] by (simp add: min_absorb2)
      with n cs Cons.IH [OF r] take_takeWhile [OF n(2)]
      have "\<exists>a t cs'. s = a @ t \<and> m \<le> length a \<and> list_all p a \<and> rxMatch r t cs' \<and> cs = (if capture then a # cs' else cs')"
        by (metis append_take_drop_id)
      with Many False show ?thesis by simp
    qed
  qed (use Cons in \<open>auto split: list.splits if_splits\<close>)
qed simp

lemma matchHere_complete: "rxMatch pat s cs \<Longrightarrow> \<exists>cs'. matchHere pat s = Some cs'"
proof (induction pat arbitrary: s cs)
  case (Cons i r)
  show ?case
  proof (cases i)
    case (Many p m capture)
    with Cons.prems obtain a t cs1 where a: "s = a @ t" "m \<le> length a" "list_all p a" "rxMatch r t cs1" by auto
    with Cons.IH obtain cs2 where "matchHere r t = Some cs2" by blast
    moreover have "length a \<in> set (rev [m ..< Suc (length (takeWhile p s))])" using a prefix_takeWhile [of p a t] by (simp del: upt_Suc)
    ultimately have "firstSome (\<lambda>n. map_option (\<lambda>cs. if capture then take n s # cs else cs) (matchHere r (drop n s)))
        (rev [m ..< Suc (length (takeWhile p s))]) \<noteq> None"
      unfolding firstSome_None using a(1) by (auto intro!: bexI [of _ "length a"] simp del: upt_Suc)
    with Many show ?thesis by auto
  qed (use Cons in \<open>auto split: list.splits if_splits\<close>)
qed simp

lemma FindStringSubmatch_sound: "FindStringSubmatch pat s = Some cs \<Longrightarrow> \<exists>x t. s = x @ t \<and> matchHere pat t = Some cs"
proof (induction s)
  case (Cons c s)
  show ?case
  proof (cases "matchHere pat (c # s)")
    case None
    with Cons obtain x t where "s = x @ t" "matchHere pat t = Some cs" by auto
    then show ?thesis by (intro exI [of _ "c # x"] exI [of _ t]) simp
  next
    case (Some m)
    with Cons.prems show ?thesis by (intro exI [of _ "[]"] exI [of _ "c # s"]) simp
  qed
qed auto

lemma FindStringSubmatch_complete: "rxMatch pat t cs \<Longrightarrow> \<exists>cs'. FindStringSubmatch pat (x @ t) = Some cs'"
proof (induction x)
  case Nil
  then obtain cs' where "matchHere pat t = Some cs'" using matchHere_complete by blast
  then show ?case by (cases t) auto
next
  case (Cons c x)
  then show ?case by (auto split: option.splits)
qed

lemma rxMatch_lit: "rxMatch (lit l @ r) s cs \<longleftrightarrow> (\<exists>t. s = l @ t \<and> rxMatch r t cs)"
  by (induction l arbitrary: s) (auto simp: lit_def)

lemma rxMatch_litFold: "rxMatch (litFold l @ r) s cs \<longleftrightarrow> (\<exists>l' t. s = l' @ t \<and> ToLower l' = ToLower l \<and> rxMatch r t cs)"
proof (induction l arbitrary: s)
  case (Cons c l)
  have "rxMatch (litFold (c # l) @ r) s cs \<longleftrightarrow> (\<exists>d t. s = d # t \<and> lower_char d = lower_char c \<and> rxMatch (litFold l @ r) t cs)"
    by (simp add: litFold_def)
  also have "\<dots> \<longleftrightarrow> (\<exists>l' t. s = l' @ t \<and> ToLower l' = ToLower (c # l) \<and> rxMatch r t cs)"
    unfolding Cons.IH by (auto simp: ToLower_def Cons_eq_append_conv append_eq_Cons_conv map_eq_Cons_conv) (metis append_Cons)+
  finally show ?case .
qed (simp add: litFold_def ToLower_def)

text \<open>At the end of a pattern a repetition takes all it can.\<close>

lemma matchHere_rest: "matchHere [Many p 0 True] s = Some [takeWhile p s]"
  by (simp add: take_length_takeWhile)

subsection \<open>Segments\<close>

lemma Split_append_slash: "Split c (a @ c # b) = Split c a @ Split c b"
proof (induction a)
  case (Cons x a)
  obtain q qs where "Split c a = q # qs" by (cases "Split c a") simp_all
  with Cons show ?case by auto
qed simp

lemma length_Split: "length (Split c s) = Suc (count_list s c)"
proof (induction s)
  case (Cons x s)
  obtain q qs where "Split c s = q # qs" by (cases "Split c s") simp_all
  with Cons show ?case by auto
qed simp

lemma Split_eq_single: "Split c s = [p] \<Longrightarrow> s = p"
  using Join_Split [of c s] by simp

text \<open>A keyword between slashes is a segment of the text.\<close>

lemma Split_keyword: "c \<notin> set k \<Longrightarrow> Split c (a @ c # k @ c # b) = Split c a @ k # Split c b"
  by (simp add: Split_append_slash Split_single)

text \<open>A captured text that is not looked at further.\<close>

lemma rxMatch_Many:
  "rxMatch (Many p m capture # i # r) s cs \<longleftrightarrow>
    (\<exists>a t cs'. s = a @ t \<and> m \<le> length a \<and> list_all p a \<and> rxMatch (i # r) t cs' \<and> cs = (if capture then a # cs' else cs'))"
  by simp

lemma rxMatch_last:
  "rxMatch [Many p m capture] s cs \<longleftrightarrow>
    (\<exists>a t. s = a @ t \<and> m \<le> length a \<and> list_all p a \<and> (t = [] \<or> \<not> p (hd t)) \<and> cs = (if capture then [a] else []))"
  by auto

lemma FindStringSubmatch_unique:
  assumes "rxMatch pat s cs" and "\<And>x t cs'. s = x @ t \<Longrightarrow> rxMatch pat t cs' \<Longrightarrow> cs' = cs"
  shows "FindStringSubmatch pat s = Some cs"
proof -
  from FindStringSubmatch_complete [OF assms(1), of "[]"] obtain cs' where cs': "FindStringSubmatch pat s = Some cs'" by auto
  then obtain x t where "s = x @ t" "matchHere pat t = Some cs'" using FindStringSubmatch_sound by blast
  with assms(2) matchHere_sound have "cs' = cs" by blast
  with cs' show ?thesis by simp
qed

lemma rxMatch_Many_lit:
  "l \<noteq> [] \<Longrightarrow> rxMatch (Many p m capture # lit l @ r) s cs \<longleftrightarrow>
    (\<exists>a t cs'. s = a @ l @ t \<and> m \<le> length a \<and> list_all p a \<and> rxMatch r t cs' \<and> cs = (if capture then a # cs' else cs'))"
proof -
  assume "l \<noteq> []"
  then have "lit l @ r \<noteq> []" by (simp add: lit_def)
  then have "rxMatch (Many p m capture # lit l @ r) s cs \<longleftrightarrow>
    (\<exists>a t cs'. s = a @ t \<and> m \<le> length a \<and> list_all p a \<and> rxMatch (lit l @ r) t cs' \<and> cs = (if capture then a # cs' else cs'))"
    by (cases "lit l @ r") (simp_all only: rxMatch_Many, simp)
  then show ?thesis unfolding rxMatch_lit by blast
qed

lemma rxMatch_Ch: "rxMatch (Ch p # r) s cs \<longleftrightarrow> (\<exists>c t. s = c # t \<and> p c \<and> rxMatch r t cs)"
  by simp

end
