(* ===== verification/Resource_Names.thy ===== *)
theory Resource_Names
  imports Go_Regexp
begin

text \<open>
  How the provider names Azure resources and reads names back (src/pkg/utils/utils.go, image.go, labels.go, subnet_parser.go,
  src/pkg/utils/nodeclaim/nodeclaim.go, src/pkg/providers/instance/aksmachineinstanceutils.go): AKS machine names from
  claim names and from virtual machine names, provider identifiers, image references, subnet identifiers and
  label values. The structural hash of a string (hashstructure) is an argument.

  Shown here: machine names stay within the limit of the API; names and identifiers read back as they were
  built; a resource group name that occurs earlier in the identifier is not lowered, and the virtual machine's name
  is then lost.
\<close>

definition EqualFold :: "string \<Rightarrow> string \<Rightarrow> bool" where
  "EqualFold a b \<longleftrightarrow> ToLower a = ToLower b"

subsection \<open>Names of AKS machines\<close>

definition base36Chars :: string where
  "base36Chars = ''0123456789abcdefghijklmnopqrstuvwxyz''"

fun base36 :: "nat \<Rightarrow> nat \<Rightarrow> string \<Rightarrow> string" where
  "base36 0 hash result = result"
| "base36 (Suc n) hash result = base36 n (hash div 36) (base36Chars ! (hash mod 36) # result)"

type_synonym string_hash = "string \<Rightarrow> uint64 result"

definition GetAlphanumericHash :: "string_hash \<Rightarrow> string \<Rightarrow> int \<Rightarrow> string result" where
  "GetAlphanumericHash H input len =
     (if len \<le> 0 then Inl (''length must be positive, got '' @ Itoa len)
      else case H input of
        Inl e \<Rightarrow> Inl (''failed to hash input: '' @ e)
      | Inr hash \<Rightarrow> Inr (base36 (nat len) (unat hash) []))"

definition maxAKSMachineNameLength :: int where
  "maxAKSMachineNameLength = 34"

definition reservedNAPMachinesPoolName :: string where
  "reservedNAPMachinesPoolName = ''aksmanagedap''"

definition linuxPrefixHashLength :: int where
  "linuxPrefixHashLength = 6"

definition windowsNodePoolHashLength :: int where
  "windowsNodePoolHashLength = 6"

definition windowsNodeClaimSuffixLength :: int where
  "windowsNodeClaimSuffixLength = 5"

definition GetWindowsAKSMachineName :: "string_hash \<Rightarrow> string \<Rightarrow> string \<Rightarrow> string result" where
  "GetWindowsAKSMachineName H nodeClaimName machinesPoolName =
     (let lastDash = LastIndex CHR ''-'' nodeClaimName in
      if lastDash \<le> 0 then Inl (''invalid NodeClaim name format: no NodePool prefix found in '' @ quoted nodeClaimName)
      else
        let nodePoolPrefix = take (nat lastDash) nodeClaimName;
            nodeClaimSuffix = drop (nat lastDash + 1) nodeClaimName
        in if int (length nodeClaimSuffix) \<noteq> windowsNodeClaimSuffixLength then
             Inl (''invalid NodeClaim name suffix '' @ quoted nodeClaimSuffix @ '', expected '' @ Itoa windowsNodeClaimSuffixLength @ '' characters'')
           else if machinesPoolName \<noteq> reservedNAPMachinesPoolName then Inr nodeClaimSuffix
           else case GetAlphanumericHash H nodePoolPrefix windowsNodePoolHashLength of
             Inl e \<Rightarrow> Inl (''failed to hash NodePool prefix '' @ quoted nodePoolPrefix @ '' for Windows AKS machine name: '' @ e)
           | Inr nodePoolHash \<Rightarrow> Inr (nodePoolHash @ ''-'' @ nodeClaimSuffix))"

text \<open>A prefix that is shorter than what is to be kept, or a negative amount, is a slice out of bounds.\<close>

definition GetLinuxAKSMachineName :: "string_hash \<Rightarrow> string \<Rightarrow> panic + string result" where
  "GetLinuxAKSMachineName H nodeClaimName =
     (if int (length nodeClaimName) \<le> maxAKSMachineNameLength then Inr (Inr nodeClaimName)
      else
        let lastDash = LastIndex CHR ''-'' nodeClaimName in
        if lastDash = - 1 then Inr (Inl (''invalid NodeClaim name format: no dash found in '' @ quoted nodeClaimName))
        else
          let prefix = take (nat lastDash) nodeClaimName;
              suffix = drop (nat lastDash) nodeClaimName;
              keepPrefixLength = maxAKSMachineNameLength - int (length suffix) - linuxPrefixHashLength
          in if keepPrefixLength < 0 \<or> int (length prefix) < keepPrefixLength then Inl SliceBounds
             else
               let prefixToKeep = take (nat keepPrefixLength) prefix;
                   prefixToHash = drop (nat keepPrefixLength) prefix
               in case GetAlphanumericHash H prefixToHash linuxPrefixHashLength of
                    Inl e \<Rightarrow> Inr (Inl (''failed to hash exceeded AKS machine name prefix '' @ quoted prefixToHash @ '': '' @ e))
                  | Inr hashed \<Rightarrow> Inr (Inr ((prefixToKeep @ hashed) @ suffix)))"

definition GetAKSMachineNameFromVMName :: "string \<Rightarrow> string \<Rightarrow> string result" where
  "GetAKSMachineNameFromVMName aksMachinesPoolName vmName =
     (if \<not> HasPrefix vmName (''aks-'' @ aksMachinesPoolName @ ''-'') then
        Inl (''vm name '' @ vmName @ '' does not start with expected prefix aks-'' @ aksMachinesPoolName @ ''-'')
      else
        let prefixTrimmed = TrimPrefix vmName (''aks-'' @ aksMachinesPoolName @ ''-'') in
        if \<not> HasSuffix prefixTrimmed ''-vm'' then Inl (''vm name '' @ vmName @ '' does not end with expected suffix -vm'')
        else
          let withoutVM = TrimSuffix prefixTrimmed ''-vm'';
              lastDash = LastIndex CHR ''-'' withoutVM
          in if lastDash = - 1 then Inl (''vm name '' @ vmName @ '' does not have enough parts after prefix aks-'' @ aksMachinesPoolName @ ''-'')
             else Inr (take (nat lastDash) withoutVM))"

definition GenerateResourceName :: "string \<Rightarrow> string" where
  "GenerateResourceName nodeClaimName = ''aks-'' @ nodeClaimName"

definition GetNodeClaimNameFromVMName :: "string \<Rightarrow> string" where
  "GetNodeClaimNameFromVMName vmName = TrimPrefix vmName ''aks-''"

subsection \<open>Provider identifiers\<close>

definition vmNamePattern :: "rx list" where
  "vmNamePattern = lit ''azure:///subscriptions/'' @ Many anyChar 0 False # lit ''/resourceGroups/'' @ Many anyChar 0 False #
     lit ''/providers/Microsoft'' @ Ch anyChar # lit ''Compute/virtualMachines/'' @ [Many anyChar 0 True]"

definition GetVMName :: "string \<Rightarrow> string result" where
  "GetVMName providerID =
     (case FindStringSubmatch vmNamePattern providerID of
        None \<Rightarrow> Inl (''parsing vm name '' @ providerID)
      | Some ms \<Rightarrow> Inr (hd ms))"

definition azureResourceGroupNameRE :: "rx list" where
  "azureResourceGroupNameRE = Many anyChar 0 False # lit ''/subscriptions/'' @ Many anyChar 0 False # lit ''/resourceGroups/'' @
     Many anyChar 1 True # lit ''/providers/'' @ [Many anyChar 0 False]"

definition convertResourceGroupNameToLower :: "string \<Rightarrow> string result" where
  "convertResourceGroupNameToLower resourceID =
     (case FindStringSubmatch azureResourceGroupNameRE resourceID of
        None \<Rightarrow> Inl (quoted resourceID @ '' isn'' @ [CHR 0x27] @ ''t in Azure resource ID format '' @
          quoted ''.*/subscriptions/(?:.*)/resourceGroups/(.+)/providers/(?:.*)'')
      | Some ms \<Rightarrow> let resourceGroup = hd ms in Inr (Replace1 resourceID resourceGroup (ToLower resourceGroup)))"

definition VMResourceIDToProviderID :: "string \<Rightarrow> string" where
  "VMResourceIDToProviderID d =
     (let providerID = ''azure://'' @ d in
      case convertResourceGroupNameToLower providerID of
        Inl e \<Rightarrow> providerID
      | Inr providerIDLowerRG \<Rightarrow> providerIDLowerRG)"

subsection \<open>Images\<close>

record imageReference =
  RefID :: "string option"
  CommunityGalleryImageID :: "string option"
  SharedGalleryImageID :: "string option"
  RefPublisher :: "string option"
  RefOffer :: "string option"
  RefSKU :: "string option"
  RefVersion :: "string option"

definition ImageReferenceToString :: "imageReference \<Rightarrow> string" where
  "ImageReferenceToString r =
     (if FromPtr (RefID r) \<noteq> [] then FromPtr (RefID r)
      else if FromPtr (CommunityGalleryImageID r) \<noteq> [] then FromPtr (CommunityGalleryImageID r)
      else if FromPtr (SharedGalleryImageID r) \<noteq> [] then FromPtr (SharedGalleryImageID r)
      else case (RefPublisher r, RefOffer r, RefSKU r, RefVersion r) of
        (Some p, Some f, Some k, Some v) \<Rightarrow> p @ '':'' @ f @ '':'' @ k @ '':'' @ v
      | _ \<Rightarrow> [])"

definition sigImageIDRegex :: "rx list" where
  "sigImageIDRegex = litFold ''/subscriptions/'' @ Many nonSpace 1 True # litFold ''/resourceGroups/'' @ Many nonSpace 1 True #
     litFold ''/providers/Microsoft'' @ Ch anyChar # litFold ''Compute/galleries/'' @ Many nonSpace 1 True #
     litFold ''/images/'' @ Many nonSpace 1 True # litFold ''/versions/'' @ [Many nonSpace 1 True]"

definition windowsImageDefinitionPrefix :: string where
  "windowsImageDefinitionPrefix = ''windows-''"

definition extractOSVersionForWindows :: "string \<Rightarrow> string" where
  "extractOSVersionForWindows d = TrimPrefix d windowsImageDefinitionPrefix"

definition GetAKSMachineNodeImageVersionFromSIGImageID :: "string \<Rightarrow> string result" where
  "GetAKSMachineNodeImageVersionFromSIGImageID imageID =
     (case FindStringSubmatch sigImageIDRegex imageID of
        Some [_, _, gallery, d, version] \<Rightarrow>
          Inr (Join ''-'' [gallery, if HasPrefix d windowsImageDefinitionPrefix then extractOSVersionForWindows d else d, version])
      | _ \<Rightarrow> Inl (''incorrect SIG image ID id='' @ imageID))"

definition GetAKSMachineNodeImageVersionFromImageID :: "string \<Rightarrow> string result" where
  "GetAKSMachineNodeImageVersionFromImageID imageID =
     (if HasPrefix imageID ''/CommunityGalleries'' then
        Inl (''CIG images are not supported yet for AKS machines, consider not using an AKS Machine API provision mode: '' @ imageID)
      else GetAKSMachineNodeImageVersionFromSIGImageID imageID)"

subsection \<open>Subnets\<close>

record vnetSubnetResource =
  SubscriptionID :: string
  ResourceGroupName :: string
  VNetName :: string
  SubnetName :: string

definition IsSameVNET :: "vnetSubnetResource \<Rightarrow> vnetSubnetResource \<Rightarrow> bool" where
  "IsSameVNET v cmp \<longleftrightarrow>
     SubscriptionID v = SubscriptionID cmp \<and> ResourceGroupName v = ResourceGroupName cmp \<and> VNetName v = VNetName cmp"

definition GetSubnetResourceID :: "string \<Rightarrow> string \<Rightarrow> string \<Rightarrow> string \<Rightarrow> string" where
  "GetSubnetResourceID subscriptionID resourceGroupName virtualNetworkName subnetName =
     ''/subscriptions/'' @ subscriptionID @ ''/resourceGroups/'' @ resourceGroupName @ ''/providers/Microsoft.Network/virtualNetworks/'' @
     virtualNetworkName @ ''/subnets/'' @ subnetName"

definition GetVnetSubnetIDComponents :: "string \<Rightarrow> vnetSubnetResource result" where
  "GetVnetSubnetIDComponents vnetSubnetID =
     (let parts = Split CHR ''/'' vnetSubnetID in
      if length parts \<noteq> 11 then Inl (''invalid vnet subnet id: '' @ vnetSubnetID)
      else
        let vs = \<lparr>SubscriptionID = parts ! 2, ResourceGroupName = parts ! 4, VNetName = parts ! 8, SubnetName = parts ! 10\<rparr>;
            mirror = GetSubnetResourceID (SubscriptionID vs) (ResourceGroupName vs) (VNetName vs) (SubnetName vs)
        in if \<not> EqualFold mirror vnetSubnetID then Inl (''invalid vnet subnet id: '' @ vnetSubnetID) else Inr vs)"

definition digit :: "char \<Rightarrow> bool" where
  "digit c \<longleftrightarrow> CHR ''0'' \<le> c \<and> c \<le> CHR ''9''"

text \<open>Both ends are anchored, so the pattern is matched at the start of the text.\<close>

definition managedVNETPattern :: "rx list" where
  "managedVNETPattern = litFold ''aks-vnet-'' @ replicate 8 (Ch digit) @ [TextEnd]"

definition managedSubnetName :: string where
  "managedSubnetName = ''aks-subnet''"

definition IsAKSManagedVNET :: "string \<Rightarrow> string \<Rightarrow> bool result" where
  "IsAKSManagedVNET nodeResourceGroup subnetID =
     (case GetVnetSubnetIDComponents subnetID of
        Inl e \<Rightarrow> Inl e
      | Inr d \<Rightarrow> Inr (matchHere managedVNETPattern (VNetName d) \<noteq> None \<and>
          EqualFold nodeResourceGroup (ResourceGroupName d) \<and> EqualFold (SubnetName d) managedSubnetName))"

subsection \<open>Labels\<close>

definition NormalizeClusterResourceGroupNameForLabel :: "string \<Rightarrow> string" where
  "NormalizeClusterResourceGroupNameForLabel resourceGroupName =
     (let replaced = map (\<lambda>c. if c = CHR '')'' then CHR ''-'' else c) (map (\<lambda>c. if c = CHR ''('' then CHR ''-'' else c) resourceGroupName);
          truncated = (if length replaced > 63 then take 63 replaced else replaced)
      in if HasSuffix truncated ''-'' \<or> HasSuffix truncated ''_'' \<or> HasSuffix truncated ''.'' then
           (if length truncated > 62 then take (length truncated - 1) truncated @ ''z'' else truncated @ ''z'')
         else truncated)"

subsection \<open>Facts\<close>

lemma LastIndex_append:
  assumes "c \<notin> set x"
  shows "LastIndex c (p @ c # x) = int (length p)"
proof -
  have "takeWhile (\<lambda>d. d \<noteq> c) (rev (p @ c # x)) = rev x"
    using assms takeWhile_append2 [of "rev x" "\<lambda>d. d \<noteq> c" "c # rev p"] by fastforce
  then show ?thesis by (simp add: LastIndex_def)
qed

lemma length_base36: "length (base36 n h acc) = n + length acc"
  by (induction n arbitrary: h acc) simp_all

lemma Replace1_first:
  assumes "old \<noteq> []" and "\<not> Contains (p @ butlast old) old"
  shows "Replace1 (p @ old @ q) old new = p @ new @ q"
  using assms(2)
proof (induction p)
  case Nil
  have "HasPrefix (old @ q) old" by simp
  with assms(1) show ?case by (cases old) auto
next
  case (Cons c p)
  have "\<not> HasPrefix ((c # p) @ old @ q) old"
  proof
    assume pre: "HasPrefix ((c # p) @ old @ q) old"
    have "(c # p) @ old @ q = ((c # p) @ butlast old) @ last old # q"
      by (metis append.assoc append_Cons append_Nil append_butlast_last_id assms(1))
    moreover have "length old \<le> length ((c # p) @ butlast old)" using assms(1) by simp
    ultimately have "take (length old) ((c # p) @ butlast old) = old" using pre by (simp only: HasPrefix_def take_append) simp
    then have "HasPrefix ((c # p) @ butlast old) old" by (simp only: HasPrefix_def)
    with Cons.prems show False by simp
  qed
  with Cons show ?case by simp
qed

text \<open>A segment of an identifier: no slash, no line break, none of the words of the pattern.\<close>

definition segment :: "string \<Rightarrow> bool" where
  "segment s \<longleftrightarrow> CHR ''/'' \<notin> set s \<and> CHR 0x0A \<notin> set s \<and> s \<notin> {''subscriptions'', ''resourceGroups'', ''providers'', ''virtualMachines''}"

definition vmResourceID :: "string \<Rightarrow> string \<Rightarrow> string \<Rightarrow> string" where
  "vmResourceID sub rg vm = ''/subscriptions/'' @ sub @ ''/resourceGroups/'' @ rg @ ''/providers/Microsoft.Compute/virtualMachines/'' @ vm"

lemma Split_vmResourceID:
  assumes "CHR ''/'' \<notin> set sub" "CHR ''/'' \<notin> set rg" "CHR ''/'' \<notin> set vm"
  shows "Split CHR ''/'' (''azure://'' @ vmResourceID sub rg vm) =
    [''azure:'', [], [], ''subscriptions'', sub, ''resourceGroups'', rg, ''providers'', ''Microsoft.Compute'', ''virtualMachines'', vm]"
  using Split_append [OF assms(1)] Split_append [OF assms(2)] Split_single [OF assms(3)] by (simp add: vmResourceID_def)

lemma list_all_anyChar: "list_all anyChar s \<longleftrightarrow> CHR 0x0A \<notin> set s"
  by (auto simp: list_all_iff anyChar_def)

lemma segment_facts:
  assumes "segment s"
  shows "CHR ''/'' \<notin> set s" "list_all anyChar s" "s \<noteq> ''subscriptions''" "s \<noteq> ''resourceGroups''" "s \<noteq> ''providers''" "s \<noteq> ''virtualMachines''"
  using assms by (auto simp: segment_def list_all_anyChar)

lemma rxMatch_three:
  assumes "k1 \<noteq> []" and "k2 \<noteq> []" and "k3 \<noteq> []"
  shows "rxMatch (Many p 0 False # lit k1 @ Many p 0 False # lit k2 @ Many p 1 True # lit k3 @ [Many p 0 False]) s cs \<longleftrightarrow>
    (\<exists>a b g d r. s = a @ k1 @ b @ k2 @ g @ k3 @ d @ r \<and>
      list_all p a \<and> list_all p b \<and> list_all p g \<and> g \<noteq> [] \<and> list_all p d \<and> (r = [] \<or> \<not> p (hd r)) \<and> cs = [g])"
  unfolding rxMatch_Many_lit [OF assms(1)] rxMatch_Many_lit [OF assms(2)] rxMatch_Many_lit [OF assms(3)] rxMatch_last
  by (simp add: Suc_le_eq) blast

lemma rxMatch_tail:
  assumes "k2 \<noteq> []" and "k3 \<noteq> []"
  shows "rxMatch (lit k1 @ Many p 0 False # lit k2 @ Many p 0 False # lit k3 @ Ch p # lit k4 @ [Many p 0 True]) s cs \<longleftrightarrow>
    (\<exists>a b d c r. s = k1 @ a @ k2 @ b @ k3 @ d # k4 @ c @ r \<and>
      list_all p a \<and> list_all p b \<and> p d \<and> list_all p c \<and> (r = [] \<or> \<not> p (hd r)) \<and> cs = [c])"
  unfolding rxMatch_lit rxMatch_Many_lit [OF assms(1)] rxMatch_Many_lit [OF assms(2)] rxMatch_Ch rxMatch_last if_False if_True
  by (rule iffI; elim exE conjE, hypsubst, intro exI conjI, (rule refl le0 | assumption)+)

lemma rxMatch_resourceGroup:
  "rxMatch azureResourceGroupNameRE s cs \<longleftrightarrow>
    (\<exists>a b g d r. s = a @ ''/subscriptions/'' @ b @ ''/resourceGroups/'' @ g @ ''/providers/'' @ d @ r \<and>
      list_all anyChar a \<and> list_all anyChar b \<and> list_all anyChar g \<and> g \<noteq> [] \<and> list_all anyChar d \<and>
      (r = [] \<or> \<not> anyChar (hd r)) \<and> cs = [g])"
  unfolding azureResourceGroupNameRE_def by (rule rxMatch_three) simp_all

lemma rxMatch_vmName:
  "rxMatch vmNamePattern s cs \<longleftrightarrow>
    (\<exists>a b d c r. s = ''azure:///subscriptions/'' @ a @ ''/resourceGroups/'' @ b @ ''/providers/Microsoft'' @ d # ''Compute/virtualMachines/'' @ c @ r \<and>
      list_all anyChar a \<and> list_all anyChar b \<and> anyChar d \<and> list_all anyChar c \<and> (r = [] \<or> \<not> anyChar (hd r)) \<and> cs = [c])"
  unfolding vmNamePattern_def by (rule rxMatch_tail) simp_all

lemma FindStringSubmatch_resourceGroup:
  assumes "segment sub" and "segment rg" and "segment vm" and "rg \<noteq> []"
  shows "FindStringSubmatch azureResourceGroupNameRE (''azure://'' @ vmResourceID sub rg vm) = Some [rg]"
proof (rule FindStringSubmatch_unique)
  note seg = assms(1-3) [THEN segment_facts(1)] assms(1-3) [THEN segment_facts(2)]
  show "rxMatch azureResourceGroupNameRE (''azure://'' @ vmResourceID sub rg vm) [rg]"
    unfolding rxMatch_resourceGroup
    by (intro exI [of _ "''azure://''"] exI [of _ sub] exI [of _ rg] exI [of _ "''Microsoft.Compute/virtualMachines/'' @ vm"] exI [of _ "[]"])
      (use seg assms(4) in \<open>simp add: vmResourceID_def anyChar_def\<close>)
  fix x t cs
  assume s: "''azure://'' @ vmResourceID sub rg vm = x @ t" and m: "rxMatch azureResourceGroupNameRE t cs"
  from m obtain a b g d r where t: "t = a @ ''/subscriptions/'' @ b @ ''/resourceGroups/'' @ g @ ''/providers/'' @ d @ r" and cs: "cs = [g]"
    unfolding rxMatch_resourceGroup by blast
  have "Split CHR ''/'' (x @ t) = Split CHR ''/'' (x @ a @ ''/subscriptions/'' @ b) @ ''resourceGroups'' # Split CHR ''/'' g @ ''providers'' # Split CHR ''/'' (d @ r)"
    using Split_keyword [of "CHR ''/''" "''resourceGroups''" "x @ a @ ''/subscriptions/'' @ b" "g @ ''/providers/'' @ d @ r"]
      Split_keyword [of "CHR ''/''" "''providers''" g "d @ r"] unfolding t by simp
  then have e: "[''azure:'', [], [], ''subscriptions'', sub] @ ''resourceGroups'' # [rg, ''providers'', ''Microsoft.Compute'', ''virtualMachines'', vm]
      = Split CHR ''/'' (x @ a @ ''/subscriptions/'' @ b) @ ''resourceGroups'' # Split CHR ''/'' g @ ''providers'' # Split CHR ''/'' (d @ r)"
    using Split_vmResourceID [OF seg(1-3)] unfolding s by simp
  have "[rg, ''providers'', ''Microsoft.Compute'', ''virtualMachines'', vm] = Split CHR ''/'' g @ ''providers'' # Split CHR ''/'' (d @ r)"
    using e segment_facts(4) assms(1-3) by (subst (asm) append_Cons_eq_iff) auto
  then have "[rg] @ ''providers'' # [''Microsoft.Compute'', ''virtualMachines'', vm] = Split CHR ''/'' g @ ''providers'' # Split CHR ''/'' (d @ r)" by simp
  then have "[rg] = Split CHR ''/'' g" using segment_facts(5) assms(1-3) by (subst (asm) append_Cons_eq_iff) auto
  then show "cs = [rg]" using Split_eq_single [of "CHR ''/''" g rg] cs by simp
qed

lemma GetVMName_vmResourceID:
  assumes "segment sub" and "CHR ''/'' \<notin> set rg" and "CHR 0x0A \<notin> set rg" and "rg \<noteq> ''virtualMachines''" and "segment vm"
  shows "GetVMName (''azure://'' @ vmResourceID sub rg vm) = Inr vm"
proof -
  note seg = segment_facts [OF assms(1)] segment_facts [OF assms(5)]
  let ?s = "''azure://'' @ vmResourceID sub rg vm"
  have "CHR 0x0A \<notin> set ?s" using assms by (auto simp: vmResourceID_def segment_def)
  have "FindStringSubmatch vmNamePattern ?s = Some [vm]"
  proof (rule FindStringSubmatch_unique)
    show "rxMatch vmNamePattern ?s [vm]" unfolding rxMatch_vmName
    proof (intro exI conjI)
      show "?s = ''azure:///subscriptions/'' @ sub @ ''/resourceGroups/'' @ rg @ ''/providers/Microsoft'' @ CHR ''.'' # ''Compute/virtualMachines/'' @ vm @ []"
        by (simp add: vmResourceID_def)
    qed (use seg assms(3) in \<open>simp_all add: list_all_anyChar anyChar_def\<close>)
    fix x t cs
    assume s: "?s = x @ t" and m: "rxMatch vmNamePattern t cs"
    from m obtain a b d c r where t: "t = ''azure:///subscriptions/'' @ a @ ''/resourceGroups/'' @ b @ ''/providers/Microsoft'' @ d # ''Compute/virtualMachines/'' @ c @ r"
      and r: "r = [] \<or> \<not> anyChar (hd r)" and cs: "cs = [c]" unfolding rxMatch_vmName by blast
    have "r = []" using r \<open>CHR 0x0A \<notin> set ?s\<close> unfolding s t by (cases r) (auto simp: anyChar_def)
    let ?p = "x @ ''azure:///subscriptions/'' @ a @ ''/resourceGroups/'' @ b @ ''/providers/Microsoft'' @ d # ''Compute''"
    have "Split CHR ''/'' (x @ t) = Split CHR ''/'' ?p @ ''virtualMachines'' # Split CHR ''/'' c"
      using Split_keyword [of "CHR ''/''" "''virtualMachines''" ?p c] \<open>r = []\<close> unfolding t by simp
    then have "[''azure:'', [], [], ''subscriptions'', sub, ''resourceGroups'', rg, ''providers'', ''Microsoft.Compute''] @ ''virtualMachines'' # [vm]
        = Split CHR ''/'' ?p @ ''virtualMachines'' # Split CHR ''/'' c"
      using Split_vmResourceID [OF seg(1) assms(2) seg(7)] unfolding s by simp
    then have "[vm] = Split CHR ''/'' c" using seg(6,12) assms(4) by (subst (asm) append_Cons_eq_iff) auto
    then show "cs = [vm]" using Split_eq_single [of "CHR ''/''" c vm] cs by simp
  qed
  then show ?thesis by (simp add: GetVMName_def)
qed

text \<open>Splitting a concatenation, and splitting in lower case.\<close>

lemma Split_concat: "Split c (a @ b) = butlast (Split c a) @ (last (Split c a) @ hd (Split c b)) # tl (Split c b)"
proof (induction a)
  case (Cons x a)
  obtain q qs where "Split c a = q # qs" by (cases "Split c a") simp_all
  with Cons show ?case by (cases "qs = []") auto
qed (cases "Split c b"; simp)

lemma Split_ToLower: "map ToLower (Split CHR ''/'' s) = Split CHR ''/'' (ToLower s)"
proof (induction s)
  case (Cons x s)
  obtain q qs where "Split CHR ''/'' s = q # qs" by (cases "Split CHR ''/'' s") simp_all
  with Cons show ?case by (auto simp: ToLower_def split: list.splits)
qed (simp add: ToLower_def)

lemma Split_fold: "ToLower l' = ToLower l \<Longrightarrow> map ToLower (Split CHR ''/'' l') = map ToLower (Split CHR ''/'' l)"
  by (simp only: Split_ToLower)

lemma ToLower_Nil [simp]: "ToLower s = [] \<longleftrightarrow> s = []"
  by (simp add: ToLower_def)

lemma count_slash_fold: "ToLower l' = ToLower l \<Longrightarrow> count_list l' CHR ''/'' = count_list l CHR ''/''"
  using Split_fold [of l' l] length_Split [of "CHR ''/''" l'] length_Split [of "CHR ''/''" l] by (metis length_map nat.inject)

lemma fold_three:
  assumes "ToLower l' = ToLower l" and "Split CHR ''/'' l = [a, k, b]"
  obtains a' k' b' where "Split CHR ''/'' l' = [a', k', b']" "a = [] \<longrightarrow> a' = []" "b = [] \<longrightarrow> b' = []"
proof -
  have "map ToLower (Split CHR ''/'' l') = [ToLower a, ToLower k, ToLower b]" using Split_fold [OF assms(1)] assms(2) by simp
  then obtain a' k' b' where "Split CHR ''/'' l' = [a', k', b']" "ToLower a' = ToLower a" "ToLower b' = ToLower b" by auto
  moreover from this have "a = [] \<longrightarrow> a' = []" "b = [] \<longrightarrow> b' = []" by (metis ToLower_Nil)+
  ultimately show ?thesis using that by blast
qed

definition sigImageID :: "string \<Rightarrow> string \<Rightarrow> string \<Rightarrow> string \<Rightarrow> string \<Rightarrow> string" where
  "sigImageID sub rg gallery img version = ''/subscriptions/'' @ sub @ ''/resourceGroups/'' @ rg @ ''/providers/Microsoft.Compute/galleries/'' @
     gallery @ ''/images/'' @ img @ ''/versions/'' @ version"

definition part :: "string \<Rightarrow> bool" where
  "part s \<longleftrightarrow> s \<noteq> [] \<and> CHR ''/'' \<notin> set s \<and> list_all nonSpace s"

lemma Split_sigImageID:
  assumes "part sub" "part rg" "part gallery" "part img" "part version"
  shows "Split CHR ''/'' (sigImageID sub rg gallery img version) =
    [[], ''subscriptions'', sub, ''resourceGroups'', rg, ''providers'', ''Microsoft.Compute'', ''galleries'', gallery, ''images'', img, ''versions'', version]"
  using assms by (simp add: part_def sigImageID_def Split_append Split_single)

lemma rxMatch_Many_litFold:
  assumes "l \<noteq> []"
  shows "rxMatch (Many p m capture # litFold l @ r) s cs \<longleftrightarrow>
    (\<exists>a l' t cs'. s = a @ l' @ t \<and> m \<le> length a \<and> list_all p a \<and> ToLower l' = ToLower l \<and> rxMatch r t cs' \<and> cs = (if capture then a # cs' else cs'))"
proof -
  have "litFold l @ r \<noteq> []" using assms by (simp add: litFold_def)
  then have "rxMatch (Many p m capture # litFold l @ r) s cs \<longleftrightarrow>
    (\<exists>a t cs'. s = a @ t \<and> m \<le> length a \<and> list_all p a \<and> rxMatch (litFold l @ r) t cs' \<and> cs = (if capture then a # cs' else cs'))"
    by (cases "litFold l @ r") (simp_all only: rxMatch_Many, simp)
  then show ?thesis unfolding rxMatch_litFold by blast
qed

lemma rxMatch_five:
  assumes "k2 \<noteq> []" "k3 \<noteq> []" "k5 \<noteq> []" "k6 \<noteq> []"
  shows "rxMatch (litFold k1 @ Many p 1 True # litFold k2 @ Many p 1 True # litFold k3 @ Ch q # litFold k4 @ Many p 1 True #
      litFold k5 @ Many p 1 True # litFold k6 @ [Many p 1 True]) s cs \<longleftrightarrow>
    (\<exists>l1 a l2 b l3 d l4 g l5 i l6 v r. s = l1 @ a @ l2 @ b @ l3 @ d # l4 @ g @ l5 @ i @ l6 @ v @ r \<and>
      ToLower l1 = ToLower k1 \<and> ToLower l2 = ToLower k2 \<and> ToLower l3 = ToLower k3 \<and> ToLower l4 = ToLower k4 \<and> ToLower l5 = ToLower k5 \<and>
      ToLower l6 = ToLower k6 \<and> (1 \<le> length a \<and> list_all p a) \<and> (1 \<le> length b \<and> list_all p b) \<and> q d \<and> (1 \<le> length g \<and> list_all p g) \<and>
      (1 \<le> length i \<and> list_all p i) \<and> (1 \<le> length v \<and> list_all p v) \<and> (r = [] \<or> \<not> p (hd r)) \<and> cs = [a, b, g, i, v])"
  unfolding rxMatch_litFold rxMatch_Many_litFold [OF assms(1)] rxMatch_Many_litFold [OF assms(2)] rxMatch_Many_litFold [OF assms(3)]
    rxMatch_Many_litFold [OF assms(4)] rxMatch_Ch rxMatch_last if_True
  by (rule iffI; elim exE conjE, hypsubst, intro exI conjI, (rule refl | assumption)+)

lemma FindStringSubmatch_sig:
  assumes "part sub" "part rg" "part gallery" "part img" "part version"
  shows "FindStringSubmatch sigImageIDRegex (sigImageID sub rg gallery img version) = Some [sub, rg, gallery, img, version]"
proof (rule FindStringSubmatch_unique)
  let ?s = "sigImageID sub rg gallery img version"
  have *: "rxMatch sigImageIDRegex s cs \<longleftrightarrow>
    (\<exists>l1 a l2 b l3 d l4 g l5 i l6 v r. s = l1 @ a @ l2 @ b @ l3 @ d # l4 @ g @ l5 @ i @ l6 @ v @ r \<and>
      ToLower l1 = ToLower ''/subscriptions/'' \<and> ToLower l2 = ToLower ''/resourceGroups/'' \<and> ToLower l3 = ToLower ''/providers/Microsoft'' \<and>
      ToLower l4 = ToLower ''Compute/galleries/'' \<and> ToLower l5 = ToLower ''/images/'' \<and> ToLower l6 = ToLower ''/versions/'' \<and>
      (1 \<le> length a \<and> list_all nonSpace a) \<and> (1 \<le> length b \<and> list_all nonSpace b) \<and> anyChar d \<and> (1 \<le> length g \<and> list_all nonSpace g) \<and>
      (1 \<le> length i \<and> list_all nonSpace i) \<and> (1 \<le> length v \<and> list_all nonSpace v) \<and> (r = [] \<or> \<not> nonSpace (hd r)) \<and> cs = [a, b, g, i, v])" for s cs
    unfolding sigImageIDRegex_def by (rule rxMatch_five) simp_all
  have parts: "1 \<le> length p \<and> list_all nonSpace p" if "part p" for p using that by (cases p) (auto simp: part_def)
  have eq: "?s = ''/subscriptions/'' @ sub @ ''/resourceGroups/'' @ rg @ ''/providers/Microsoft'' @ CHR ''.'' # ''Compute/galleries/'' @ gallery @
      ''/images/'' @ img @ ''/versions/'' @ version @ []" by (simp add: sigImageID_def)
  have "anyChar CHR ''.''" by (simp add: anyChar_def)
  then show "rxMatch sigImageIDRegex ?s [sub, rg, gallery, img, version]"
    unfolding * using eq refl assms [THEN parts] by blast
  fix x t cs
  assume s: "?s = x @ t" and "rxMatch sigImageIDRegex t cs"
  then obtain l1 a l2 b l3 d l4 g l5 i l6 v r where t: "t = l1 @ a @ l2 @ b @ l3 @ d # l4 @ g @ l5 @ i @ l6 @ v @ r"
    and l: "ToLower l1 = ToLower ''/subscriptions/''" "ToLower l2 = ToLower ''/resourceGroups/''" "ToLower l3 = ToLower ''/providers/Microsoft''"
      "ToLower l4 = ToLower ''Compute/galleries/''" "ToLower l5 = ToLower ''/images/''" "ToLower l6 = ToLower ''/versions/''"
    and r: "r = [] \<or> \<not> nonSpace (hd r)" and cs: "cs = [a, b, g, i, v]" unfolding * by blast
  have "count_list (x @ t) CHR ''/'' = 12" using length_Split [of "CHR ''/''" ?s] Split_sigImageID [OF assms] unfolding s [symmetric] by simp
  moreover have "count_list (x @ t) CHR ''/'' = 12 + count_list (x @ a @ b @ d # g @ i @ v @ r) CHR ''/''"
    using l [THEN count_slash_fold] unfolding t by simp
  ultimately have "count_list (x @ a @ b @ d # g @ i @ v @ r) CHR ''/'' = 0" by simp
  then have "CHR ''/'' \<notin> set (x @ a @ b @ d # g @ i @ v @ r)" unfolding count_list_0_iff .
  then have sp: "Split CHR ''/'' x = [x]" "Split CHR ''/'' a = [a]" "Split CHR ''/'' b = [b]" "Split CHR ''/'' g = [g]" "Split CHR ''/'' i = [i]"
    "Split CHR ''/'' v = [v]" "Split CHR ''/'' r = [r]" "d \<noteq> CHR ''/''" by (auto intro!: Split_single)
  obtain k1 where k1: "Split CHR ''/'' l1 = [[], k1, []]" by (rule fold_three [OF l(1), of "[]" "''subscriptions''" "[]"]) auto
  obtain k2 where k2: "Split CHR ''/'' l2 = [[], k2, []]" by (rule fold_three [OF l(2), of "[]" "''resourceGroups''" "[]"]) auto
  obtain k3 m where k3: "Split CHR ''/'' l3 = [[], k3, m]" by (rule fold_three [OF l(3), of "[]" "''providers''" "''Microsoft''"]) auto
  obtain m' k4 where k4: "Split CHR ''/'' l4 = [m', k4, []]" by (rule fold_three [OF l(4), of "''Compute''" "''galleries''" "[]"]) auto
  obtain k5 where k5: "Split CHR ''/'' l5 = [[], k5, []]" by (rule fold_three [OF l(5), of "[]" "''images''" "[]"]) auto
  obtain k6 where k6: "Split CHR ''/'' l6 = [[], k6, []]" by (rule fold_three [OF l(6), of "[]" "''versions''" "[]"]) auto
  have "Split CHR ''/'' (x @ t) = [x, k1, a, k2, b, k3, m @ d # m', k4, g, k5, i, k6, v @ r]"
    unfolding t using Split_concat [of "CHR ''/''" "[d]"] by (simp add: Split_concat sp k1 k2 k3 k4 k5 k6)
  then have e: "a = sub" "b = rg" "g = gallery" "i = img" "v @ r = version" using Split_sigImageID [OF assms] unfolding s by simp_all
  moreover have "r = []" using e(5) r assms(5) by (cases r) (auto simp: part_def)
  ultimately show "cs = [sub, rg, gallery, img, version]" using cs by simp
qed

lemma provider_ID_of_VM:
  assumes "segment sub" and "segment rg" and "segment vm" and "rg \<noteq> []"
    and "\<not> Contains (''azure:///subscriptions/'' @ sub @ ''/resourceGroups/'' @ butlast rg) rg"
  shows "VMResourceIDToProviderID (vmResourceID sub rg vm) = ''azure://'' @ vmResourceID sub (ToLower rg) vm \<and>
    GetVMName (VMResourceIDToProviderID (vmResourceID sub rg vm)) = Inr vm"
proof -
  have e: "''azure://'' @ vmResourceID sub g vm = (''azure:///subscriptions/'' @ sub @ ''/resourceGroups/'') @ g @
      ''/providers/Microsoft.Compute/virtualMachines/'' @ vm" for g by (simp add: vmResourceID_def)
  have "Replace1 (''azure://'' @ vmResourceID sub rg vm) rg (ToLower rg) = ''azure://'' @ vmResourceID sub (ToLower rg) vm"
    unfolding e by (rule Replace1_first) (use assms(4,5) in simp_all)
  then have p: "VMResourceIDToProviderID (vmResourceID sub rg vm) = ''azure://'' @ vmResourceID sub (ToLower rg) vm"
    unfolding VMResourceIDToProviderID_def convertResourceGroupNameToLower_def
    using FindStringSubmatch_resourceGroup [OF assms(1-4)] by simp
  have "ToLower ''virtualMachines'' \<noteq> ''virtualMachines''" by code_simp
  then have "ToLower rg \<noteq> ''virtualMachines''" using ToLower_idem by metis
  moreover have "CHR ''/'' \<notin> set (ToLower rg)" "CHR 0x0A \<notin> set (ToLower rg)"
    using assms(2) by (simp_all add: segment_def ToLower_member_iff)
  ultimately show ?thesis unfolding p using GetVMName_vmResourceID assms(1,3) by simp
qed

subsection \<open>Properties\<close>

text \<open>
  Every virtual machine identifier becomes a provider identifier with the resource group in lower case, from which the name of
  the virtual machine is read back, as long as the resource group's name does not already occur earlier
  in the identifier.
\<close>

theorem provider_ID_roundtrip:
  assumes "segment sub" and "segment rg" and "segment vm" and "rg \<noteq> []"
    and "\<not> Contains (''azure:///subscriptions/'' @ sub @ ''/resourceGroups/'' @ butlast rg) rg"
  shows "VMResourceIDToProviderID (vmResourceID sub rg vm) = ''azure://'' @ vmResourceID sub (ToLower rg) vm \<and>
    GetVMName (VMResourceIDToProviderID (vmResourceID sub rg vm)) = Inr vm"
  using provider_ID_of_VM [OF assms] .

theorem provider_ID_roundtrip_witness:
  "VMResourceIDToProviderID ''/subscriptions/0-1/resourceGroups/MC_rg/providers/Microsoft.Compute/virtualMachines/aks-default-2jf98''
     = ''azure:///subscriptions/0-1/resourceGroups/mc_rg/providers/Microsoft.Compute/virtualMachines/aks-default-2jf98''"
proof -
  have "segment ''0-1''" "segment ''MC_rg''" "segment ''aks-default-2jf98''"
    "\<not> Contains (''azure:///subscriptions/'' @ ''0-1'' @ ''/resourceGroups/'' @ butlast ''MC_rg'') ''MC_rg''"
    by (simp_all add: segment_def HasPrefix_def)
  moreover have "ToLower ''MC_rg'' = ''mc_rg''" by code_simp
  ultimately show ?thesis using provider_ID_roundtrip [of "''0-1''" "''MC_rg''" "''aks-default-2jf98''"] by (simp add: vmResourceID_def)
qed

text \<open>
  When the resource group's name already occurs in the identifier, as \<open>Groups\<close> does, the wrong occurrence is
  replaced: the resource group keeps its capital letters, and the name of the virtual machine cannot be read from the
  provider identifier any more.
\<close>

theorem provider_ID_replaces_the_first_occurrence:
  "VMResourceIDToProviderID ''/subscriptions/0-1/resourceGroups/Groups/providers/Microsoft.Compute/virtualMachines/aks-a''
     = ''azure:///subscriptions/0-1/resourcegroups/Groups/providers/Microsoft.Compute/virtualMachines/aks-a'' \<and>
   (\<exists>e. GetVMName (VMResourceIDToProviderID ''/subscriptions/0-1/resourceGroups/Groups/providers/Microsoft.Compute/virtualMachines/aks-a'') = Inl e)"
proof -
  let ?d = "''azure:///subscriptions/0-1/resourcegroups/Groups/providers/Microsoft.Compute/virtualMachines/aks-a''"
  have "ToLower ''Groups'' = ''groups''" by code_simp
  have "segment ''0-1''" "segment ''Groups''" "segment ''aks-a''" by (simp_all add: segment_def)
  from FindStringSubmatch_resourceGroup [OF this]
  have p: "VMResourceIDToProviderID ''/subscriptions/0-1/resourceGroups/Groups/providers/Microsoft.Compute/virtualMachines/aks-a'' = ?d"
    by (simp add: VMResourceIDToProviderID_def convertResourceGroupNameToLower_def vmResourceID_def HasPrefix_def \<open>ToLower ''Groups'' = ''groups''\<close>)
  have "FindStringSubmatch vmNamePattern ?d = None"
  proof (cases "FindStringSubmatch vmNamePattern ?d")
    case (Some cs)
    then obtain x t where x: "?d = x @ t" and "rxMatch vmNamePattern t cs" using FindStringSubmatch_sound matchHere_sound by blast
    then obtain a b d c r where t: "t = ''azure:///subscriptions/'' @ a @ ''/resourceGroups/'' @ b @ ''/providers/Microsoft'' @ d # ''Compute/virtualMachines/'' @ c @ r"
      unfolding rxMatch_vmName by blast
    have "''resourceGroups'' \<in> set (Split CHR ''/'' (x @ t))"
      using Split_keyword [of "CHR ''/''" "''resourceGroups''" "x @ ''azure:///subscriptions/'' @ a"
          "b @ ''/providers/Microsoft'' @ d # ''Compute/virtualMachines/'' @ c @ r"]
      unfolding t by simp
    then show ?thesis unfolding x [symmetric] by simp
  qed
  then show ?thesis unfolding p by (simp add: GetVMName_def)
qed

text \<open>
  The name of an AKS machine is read back from the name of its virtual machine; a claim's own virtual machine reads back as the
  claim's name and, unless that name ends in -vm, is never taken for an AKS machine.
\<close>

theorem machine_and_vm_names_roundtrip:
  assumes "CHR ''-'' \<notin> set hash" and "\<not> HasSuffix claim ''-vm''"
  shows "GetAKSMachineNameFromVMName pool (''aks-'' @ pool @ ''-'' @ machine @ ''-'' @ hash @ ''-vm'') = Inr machine \<and>
    GetNodeClaimNameFromVMName (GenerateResourceName claim) = claim \<and>
    (\<exists>e. GetAKSMachineNameFromVMName pool (GenerateResourceName claim) = Inl e)"
proof (intro conjI)
  let ?p = "''aks-'' @ pool @ ''-''"
  have "HasSuffix ((machine @ ''-'' @ hash) @ ''-vm'') ''-vm''" by (auto simp: HasSuffix_iff)
  then have "TrimSuffix ((machine @ ''-'' @ hash) @ ''-vm'') ''-vm'' = machine @ CHR ''-'' # hash" by (simp add: TrimSuffix_def)
  then show "GetAKSMachineNameFromVMName pool (''aks-'' @ pool @ ''-'' @ machine @ ''-'' @ hash @ ''-vm'') = Inr machine"
    using LastIndex_append [OF assms(1), of machine] HasPrefix_append [of ?p "(machine @ ''-'' @ hash) @ ''-vm''"]
      \<open>HasSuffix ((machine @ ''-'' @ hash) @ ''-vm'') ''-vm''\<close>
    by (simp add: GetAKSMachineNameFromVMName_def TrimPrefix_def)
  show "GetNodeClaimNameFromVMName (GenerateResourceName claim) = claim"
    by (simp add: GetNodeClaimNameFromVMName_def GenerateResourceName_def TrimPrefix_def HasPrefix_def)
  have "\<not> HasSuffix rest ''-vm''" if "''aks-'' @ claim = ?p @ rest" for rest
    using that assms(2) by (auto simp: HasSuffix_iff)
  then show "\<exists>e. GetAKSMachineNameFromVMName pool (GenerateResourceName claim) = Inl e"
    by (cases "HasPrefix (''aks-'' @ claim) ?p")
      (auto simp: GetAKSMachineNameFromVMName_def GenerateResourceName_def TrimPrefix_def HasPrefix_iff)
qed

theorem machine_and_vm_names_roundtrip_witness:
  "GetAKSMachineNameFromVMName ''aksmanagedap'' ''aks-aksmanagedap-default-a1b2c-12345678-vm'' = Inr ''default-a1b2c''"
  using machine_and_vm_names_roundtrip [of "''12345678''" "''default-a1b2c''" "''aksmanagedap''" "''default-a1b2c''"]
  by (simp add: HasSuffix_def HasPrefix_def)

text \<open>
  A claim name of at most 34 characters is used as the Linux machine name; a longer one whose last part
  has fewer than 28 characters gives a name of exactly 34 characters that ends in that part; with a longer last part the
  code slices out of bounds.
\<close>

theorem linux_machine_names_fit:
  assumes "CHR ''-'' \<notin> set x" and "\<And>s. \<exists>h. H s = Inr h"
  shows "if length (p @ CHR ''-'' # x) \<le> 34 then GetLinuxAKSMachineName H (p @ CHR ''-'' # x) = Inr (Inr (p @ CHR ''-'' # x))
    else if length x \<ge> 28 then GetLinuxAKSMachineName H (p @ CHR ''-'' # x) = Inl SliceBounds
    else \<exists>q. GetLinuxAKSMachineName H (p @ CHR ''-'' # x) = Inr (Inr (q @ CHR ''-'' # x)) \<and> length (q @ CHR ''-'' # x) = 34 \<and>
      take (27 - length x) q = take (27 - length x) p"
proof -
  note ix = LastIndex_append [OF assms(1), of p]
  show ?thesis
  proof (cases "length (p @ CHR ''-'' # x) \<le> 34 \<or> length x \<ge> 28")
    case True
    then show ?thesis
      by (auto simp: GetLinuxAKSMachineName_def maxAKSMachineNameLength_def linuxPrefixHashLength_def ix Let_def)
  next
    case False
    define k where "k = 27 - length x"
    have k: "k < length p" "nat (34 - int (Suc (length x)) - 6) = k" using False by (auto simp: k_def)
    obtain h where h: "H (drop k p) = Inr h" using assms(2) by blast
    define q where "q = take k p @ base36 6 (unat h) []"
    have "GetLinuxAKSMachineName H (p @ CHR ''-'' # x) = Inr (Inr (q @ CHR ''-'' # x))"
      using False k h by (auto simp: GetLinuxAKSMachineName_def maxAKSMachineNameLength_def linuxPrefixHashLength_def ix Let_def
          GetAlphanumericHash_def q_def)
    moreover have "length q = k + 6" using k by (simp add: q_def length_base36)
    then have "length (q @ CHR ''-'' # x) = 34" using False by (simp add: k_def)
    moreover have "take k q = take k p" using k by (simp add: q_def)
    ultimately show ?thesis using False by (auto simp: k_def)
  qed
qed

theorem linux_machine_names_fit_witness:
  "\<exists>q. GetLinuxAKSMachineName (\<lambda>_. Inr 0) ''a-node-pool-with-a-rather-long-name-a1b2c'' = Inr (Inr (q @ ''-a1b2c'')) \<and> length (q @ ''-a1b2c'') = 34"
  using linux_machine_names_fit [of "''a1b2c''" "\<lambda>_. Inr 0" "''a-node-pool-with-a-rather-long-name''"] by auto

text \<open>
  A subnet identifier reads back as the four names it was built from, and whatever is read from an identifier
  builds that identifier up to the case of its letters.
\<close>

theorem subnet_ID_roundtrip:
  assumes "CHR ''/'' \<notin> set sub" "CHR ''/'' \<notin> set rg" "CHR ''/'' \<notin> set vnet" "CHR ''/'' \<notin> set subnet"
  shows "GetVnetSubnetIDComponents (GetSubnetResourceID sub rg vnet subnet) =
      Inr \<lparr>SubscriptionID = sub, ResourceGroupName = rg, VNetName = vnet, SubnetName = subnet\<rparr>"
    and "GetVnetSubnetIDComponents d = Inr v \<Longrightarrow>
      EqualFold (GetSubnetResourceID (SubscriptionID v) (ResourceGroupName v) (VNetName v) (SubnetName v)) d"
proof -
  have "Split CHR ''/'' (GetSubnetResourceID sub rg vnet subnet) =
      [[], ''subscriptions'', sub, ''resourceGroups'', rg, ''providers'', ''Microsoft.Network'', ''virtualNetworks'', vnet, ''subnets'', subnet]"
    using Split_append [OF assms(1)] Split_append [OF assms(2)] Split_append [OF assms(3)] Split_single [OF assms(4)]
    by (simp add: GetSubnetResourceID_def)
  then show "GetVnetSubnetIDComponents (GetSubnetResourceID sub rg vnet subnet) =
      Inr \<lparr>SubscriptionID = sub, ResourceGroupName = rg, VNetName = vnet, SubnetName = subnet\<rparr>"
    by (simp add: GetVnetSubnetIDComponents_def EqualFold_def)
  show "EqualFold (GetSubnetResourceID (SubscriptionID v) (ResourceGroupName v) (VNetName v) (SubnetName v)) d"
    if "GetVnetSubnetIDComponents d = Inr v" using that by (auto simp: GetVnetSubnetIDComponents_def Let_def split: if_splits)
qed

theorem subnet_ID_roundtrip_witness:
  "GetVnetSubnetIDComponents (GetSubnetResourceID ''s'' ''rg'' ''vnet'' ''default'') =
    Inr \<lparr>SubscriptionID = ''s'', ResourceGroupName = ''rg'', VNetName = ''vnet'', SubnetName = ''default''\<rparr>"
  using subnet_ID_roundtrip(1) [of "''s''" "''rg''" "''vnet''" "''default''"] by simp

text \<open>
  The node image version of a shared gallery image is its gallery, its image definition without a leading \<open>windows-\<close>
  and its version, joined by dashes.
\<close>

theorem node_image_version_of_gallery_image:
  assumes "part sub" "part rg" "part gallery" "part img" "part version"
  shows "GetAKSMachineNodeImageVersionFromImageID (sigImageID sub rg gallery img version) =
    Inr (gallery @ ''-'' @ TrimPrefix img ''windows-'' @ ''-'' @ version)"
proof -
  have "\<not> HasPrefix (sigImageID sub rg gallery img version) ''/CommunityGalleries''" by (simp add: sigImageID_def HasPrefix_def)
  then show ?thesis
    by (simp add: GetAKSMachineNodeImageVersionFromImageID_def GetAKSMachineNodeImageVersionFromSIGImageID_def FindStringSubmatch_sig [OF assms]
        extractOSVersionForWindows_def windowsImageDefinitionPrefix_def TrimPrefix_def)
qed

theorem node_image_version_of_gallery_image_witness:
  "GetAKSMachineNodeImageVersionFromImageID (sigImageID ''0-1'' ''AKS-Windows'' ''AKSWindows'' ''windows-2022-containerd-gen2'' ''20348.4529'')
     = Inr ''AKSWindows-2022-containerd-gen2-20348.4529''"
  using node_image_version_of_gallery_image [of "''0-1''" "''AKS-Windows''" "''AKSWindows''" "''windows-2022-containerd-gen2''" "''20348.4529''"]
  by (simp add: part_def nonSpace_def TrimPrefix_def HasPrefix_def)

text \<open>
  The label value of a resource group has at most 63 characters, contains no parenthesis and does not end in a dash, an
  underscore or a dot, as Kubernetes demands.
\<close>

theorem resource_group_label_is_valid:
  "length (NormalizeClusterResourceGroupNameForLabel rg) \<le> 63 \<and>
   set (NormalizeClusterResourceGroupNameForLabel rg) \<inter> {CHR ''('', CHR '')''} = {} \<and>
   (NormalizeClusterResourceGroupNameForLabel rg \<noteq> [] \<longrightarrow>
     last (NormalizeClusterResourceGroupNameForLabel rg) \<notin> {CHR ''-'', CHR ''_'', CHR ''.''})"
proof -
  define rep where "rep = map (\<lambda>c. if c = CHR '')'' then CHR ''-'' else c) (map (\<lambda>c. if c = CHR ''('' then CHR ''-'' else c) rg)"
  define tr where "tr = (if length rep > 63 then take 63 rep else rep)"
  have tr: "length tr \<le> 63" "set tr \<inter> {CHR ''('', CHR '')''} = {}"
    by (auto simp: tr_def rep_def dest: in_set_takeD)
  have suf: "HasSuffix tr [c] \<longleftrightarrow> tr \<noteq> [] \<and> last tr = c" for c
    by (cases tr rule: rev_cases) (auto simp: HasSuffix_iff)
  have n: "NormalizeClusterResourceGroupNameForLabel rg = (if HasSuffix tr ''-'' \<or> HasSuffix tr ''_'' \<or> HasSuffix tr ''.'' then
      (if length tr > 62 then take (length tr - 1) tr @ ''z'' else tr @ ''z'') else tr)"
    unfolding NormalizeClusterResourceGroupNameForLabel_def Let_def rep_def [symmetric] tr_def [symmetric] ..
  show ?thesis using tr unfolding n suf by (auto dest: in_set_takeD)
qed

theorem resource_group_label_is_valid_witness:
  "last (NormalizeClusterResourceGroupNameForLabel ''rg(test)'') \<notin> {CHR ''-'', CHR ''_'', CHR ''.''}"
proof -
  have "NormalizeClusterResourceGroupNameForLabel ''rg(test)'' \<noteq> []"
    by (simp add: NormalizeClusterResourceGroupNameForLabel_def HasSuffix_def HasPrefix_def)
  with resource_group_label_is_valid [of "''rg(test)''"] show ?thesis by blast
qed

end
