(* ===== verification/Quota.thy ===== *)
theory Quota
  imports Karpenter_Core
begin

text \<open>
  The quota provider (src/pkg/providers/quota/quota.go). A snapshot of Azure's usage data is
  published by periodic refreshes; between two refreshes one signed adjustment per NodeClaim
  accounts for accepted creates and observed deletes, and tombstones suppress repeated
  observations of the same delete. The state is one record. \<open>Update\<close> releases the state lock while it calls
  Azure, so creates, deletes and resets interleave with it: \<open>quota_step\<close> has the two ends of a
  refresh as separate steps, and the watermark of the refresh in flight is part of the system state.

  Maps that are ranged over are association lists. A map entry of \<open>usages\<close> is never a nil pointer,
  because \<open>listUsages\<close> inserts non-nil entries only. The pages a pager yields are an argument: a
  list of the results of \<open>NextPage\<close>.
\<close>

text \<open>The fields of the SDK types that the provider reads.\<close>

record usage =
  UsageName :: "string option option"
  Limit :: "int64 option"
  CurrentValue :: "int32 option"

datatype resourceProvisioningState =
    ResourceProvisioningStateSucceeded
  | OtherProvisioningState string

record vmFamilyProperties =
  Category :: "string option"
  ProvisioningState :: "resourceProvisioningState option"

record vmFamily =
  VMFamilyName :: "string option"
  Properties :: "vmFamilyProperties option"

definition GeneralPurposeCategory :: string where
  "GeneralPurposeCategory = ''generalPurposeCategory''"

definition DeleteTombstoneTTL :: duration where
  "DeleteTombstoneTTL = 25 * Minute"

definition DeleteTombstoneCleanupInterval :: duration where
  "DeleteTombstoneCleanupInterval = 10 * Minute"

definition MaxDeleteTombstones :: nat where
  "MaxDeleteTombstones = 50000"

record adjustment =
  quotaName :: string
  vCPUs :: int64
  adjSeqNum :: uint64

record snapshot =
  usages :: "(string, usage) gomap"
  familyToQuotaName :: "(string, string) gomap"

record quotaProvider =
  snap :: snapshot
  initialized :: bool
  snapshotGeneration :: uint64
  quotaSeqNum :: uint64
  refreshInProgress :: bool
  adjustments :: "(string, adjustment) gomap"
  adjustmentsByQuotaName :: "string \<Rightarrow> int64"
  deleteTombstones :: "(string, time) gomap"
  lastDeleteTombstoneCleanup :: time

definition NewProvider :: quotaProvider where
  "NewProvider =
     \<lparr>snap = \<lparr>usages = [], familyToQuotaName = []\<rparr>, initialized = False, snapshotGeneration = 0,
      quotaSeqNum = 0, refreshInProgress = False, adjustments = [],
      adjustmentsByQuotaName = (\<lambda>_. 0), deleteTombstones = [], lastDeleteTombstoneCleanup = 0\<rparr>"

subsection \<open>Names, tombstones\<close>

definition instanceKey :: "nodeClaim \<Rightarrow> string" where
  "instanceKey nc = NCName nc @ ''/'' @ UID nc"

definition quotaNameLocked :: "quotaProvider \<Rightarrow> string \<Rightarrow> string" where
  "quotaNameLocked p familyName =
     (case map_of (familyToQuotaName (snap p)) familyName of
        Some categoryName \<Rightarrow> categoryName
      | None \<Rightarrow> familyName)"

definition hasQuotaUsageLocked :: "quotaProvider \<Rightarrow> string \<Rightarrow> bool" where
  "hasQuotaUsageLocked p name =
     (case map_of (usages (snap p)) name of
        None \<Rightarrow> False
      | Some u \<Rightarrow> Limit u \<noteq> None \<and> CurrentValue u \<noteq> None)"

definition pruneDeleteTombstonesLocked :: "quotaProvider \<Rightarrow> time \<Rightarrow> quotaProvider" where
  "pruneDeleteTombstonesLocked p now =
     (if lastDeleteTombstoneCleanup p \<noteq> 0 \<and>
         now - lastDeleteTombstoneCleanup p < DeleteTombstoneCleanupInterval
      then p
      else p\<lparr>deleteTombstones :=
               filter (\<lambda>(key, lastSeen). \<not> (now - lastSeen > DeleteTombstoneTTL)) (deleteTombstones p),
             lastDeleteTombstoneCleanup := now\<rparr>)"

fun oldestTombstone :: "string \<Rightarrow> time \<Rightarrow> (string, time) gomap \<Rightarrow> string" where
  "oldestTombstone oldestKey oldest [] = oldestKey"
| "oldestTombstone oldestKey oldest ((key, lastSeen) # ts) =
     (if oldestKey = [] \<or> lastSeen < oldest then oldestTombstone key lastSeen ts
      else oldestTombstone oldestKey oldest ts)"

definition insertDeleteTombstoneLocked :: "quotaProvider \<Rightarrow> string \<Rightarrow> time \<Rightarrow> quotaProvider" where
  "insertDeleteTombstoneLocked p key now =
     (let ts = deleteTombstones p;
          ts' = (if length ts \<ge> MaxDeleteTombstones
                 then AList.delete (oldestTombstone [] 0 ts) ts else ts)
      in p\<lparr>deleteTombstones := AList.update key now ts'\<rparr>)"

subsection \<open>Queries\<close>

definition GetUsage :: "quotaProvider \<Rightarrow> string \<Rightarrow> usage option" where
  "GetUsage p familyName = map_of (usages (snap p)) (quotaNameLocked p familyName)"

definition GetTotalRegionalUsage :: "quotaProvider \<Rightarrow> usage option" where
  "GetTotalRegionalUsage p = GetUsage p ''cores''"

definition hasQuotaForLocked :: "quotaProvider \<Rightarrow> SKU \<Rightarrow> bool" where
  "hasQuotaForLocked p sku =
     (let familyName = GetFamilyName sku in
      if familyName = [] then True
      else case VCPU sku of
        None \<Rightarrow> True
      | Some vcpus \<Rightarrow>
          let name = quotaNameLocked p familyName in
          (case map_of (usages (snap p)) name of
             None \<Rightarrow> True
           | Some u \<Rightarrow>
               (case (Limit u, CurrentValue u) of
                  (Some limit, Some current) \<Rightarrow>
                    let used = scast current + adjustmentsByQuotaName p name;
                        effectiveCurrentValue = (if 0 < sint used then used else 0);
                        remaining = limit - effectiveCurrentValue
                    in sint vcpus \<le> sint remaining
                | _ \<Rightarrow> True)))"

definition HasQuotaFor :: "quotaProvider \<Rightarrow> SKU \<Rightarrow> bool" where
  "HasQuotaFor p sku = hasQuotaForLocked p sku"

definition HasQuotaForSKUs :: "quotaProvider \<Rightarrow> SKU list \<Rightarrow> (string \<rightharpoonup> bool) \<times> uint64" where
  "HasQuotaForSKUs p skus =
     (foldl (\<lambda>m sku. m(GetName sku \<mapsto> hasQuotaForLocked p sku)) Map.empty skus, quotaSeqNum p)"

subsection \<open>Creates and deletes\<close>

definition addByName :: "quotaProvider \<Rightarrow> string \<Rightarrow> int64 \<Rightarrow> (string \<Rightarrow> int64)" where
  "addByName p name v = (adjustmentsByQuotaName p)(name := adjustmentsByQuotaName p name + v)"

definition RecordCreate :: "quotaProvider \<Rightarrow> uint64 \<Rightarrow> nodeClaim \<Rightarrow> string \<Rightarrow> int64
    \<Rightarrow> quotaProvider \<times> bool" where
  "RecordCreate p expectedGeneration nc familyName v =
     (if \<not> initialized p \<or> refreshInProgress p \<or> expectedGeneration \<noteq> snapshotGeneration p \<or>
         sint v \<le> 0
      then (p, False)
      else let name = quotaNameLocked p familyName in
        if \<not> hasQuotaUsageLocked p name then (p, False)
        else let key = instanceKey nc in
          if map_of (adjustments p) key \<noteq> None then (p, False)
          else let seq = quotaSeqNum p + 1 in
            (p\<lparr>deleteTombstones := AList.delete key (deleteTombstones p),
               quotaSeqNum := seq,
               adjustments := AList.update key \<lparr>quotaName = name, vCPUs = v, adjSeqNum = seq\<rparr> (adjustments p),
               adjustmentsByQuotaName := addByName p name v\<rparr>, True))"

definition RecordDelete :: "quotaProvider \<Rightarrow> time \<Rightarrow> nodeClaim \<Rightarrow> string \<Rightarrow> int64
    \<Rightarrow> quotaProvider \<times> bool" where
  "RecordDelete p0 now nc familyName v =
     (let key = instanceKey nc; p = pruneDeleteTombstonesLocked p0 now in
      if \<not> initialized p \<or> sint v \<le> 0 then (p, False)
      else let name = quotaNameLocked p familyName in
        if \<not> hasQuotaUsageLocked p name then (p, False)
        else case (case map_of (deleteTombstones p) key of
                     None \<Rightarrow> Inr p
                   | Some lastSeen \<Rightarrow>
                       if now - lastSeen > DeleteTombstoneTTL
                       then Inr (p\<lparr>deleteTombstones := AList.delete key (deleteTombstones p)\<rparr>)
                       else Inl (p\<lparr>deleteTombstones := AList.update key now (deleteTombstones p)\<rparr>)) of
          Inl p1 \<Rightarrow> (p1, False)
        | Inr p1 \<Rightarrow>
            (case map_of (adjustments p1) key of
               Some existing \<Rightarrow>
                 let p2 = insertDeleteTombstoneLocked p1 key now in
                 if sint (vCPUs existing) < 0 then (p2, False)
                 else
                   let p3 = p2\<lparr>adjustmentsByQuotaName := addByName p2 (quotaName existing) (- vCPUs existing),
                                adjustments := AList.delete key (adjustments p2),
                                quotaSeqNum := quotaSeqNum p2 + 1\<rparr>
                   in (if refreshInProgress p3
                       then p3\<lparr>adjustments := AList.update key
                                  \<lparr>quotaName = name, vCPUs = - v, adjSeqNum = quotaSeqNum p3\<rparr> (adjustments p3),
                                adjustmentsByQuotaName := addByName p3 name (- v)\<rparr>
                       else p3, True)
             | None \<Rightarrow>
                 let p2 = insertDeleteTombstoneLocked p1 key now;
                     seq = quotaSeqNum p2 + 1
                 in (p2\<lparr>quotaSeqNum := seq,
                        adjustments := AList.update key
                          \<lparr>quotaName = name, vCPUs = - v, adjSeqNum = seq\<rparr> (adjustments p2),
                        adjustmentsByQuotaName := addByName p2 name (- v)\<rparr>, True)))"

subsection \<open>Refreshes\<close>

definition beginRefresh :: "quotaProvider \<Rightarrow> time \<Rightarrow> quotaProvider \<times> uint64" where
  "beginRefresh p now =
     (let p' = (pruneDeleteTombstonesLocked p now)\<lparr>refreshInProgress := True\<rparr> in (p', quotaSeqNum p'))"

definition finishFailedRefresh :: "quotaProvider \<Rightarrow> quotaProvider" where
  "finishFailedRefresh p = p\<lparr>refreshInProgress := False\<rparr>"

definition publishSnapshot :: "quotaProvider \<Rightarrow> (string, usage) gomap \<Rightarrow> (string, string) gomap
    \<Rightarrow> uint64 \<Rightarrow> quotaProvider" where
  "publishSnapshot p freshUsages freshFamilyToQuotaName adjustmentWatermark =
     (let surviving = filter (\<lambda>(key, pending). \<not> adjSeqNum pending \<le> adjustmentWatermark) (adjustments p);
          byName = foldl (\<lambda>m (key, pending). m(quotaName pending := m (quotaName pending) + vCPUs pending))
                     (\<lambda>_. 0) surviving
      in p\<lparr>snap := \<lparr>usages = freshUsages, familyToQuotaName = freshFamilyToQuotaName\<rparr>,
           initialized := True,
           snapshotGeneration := snapshotGeneration p + 1,
           quotaSeqNum := quotaSeqNum p + 1,
           adjustments := surviving,
           adjustmentsByQuotaName := byName,
           refreshInProgress := False\<rparr>)"

fun listUsages :: "(string, usage) gomap \<Rightarrow> usage option list result list
    \<Rightarrow> (string, usage) gomap result" where
  "listUsages acc [] = Inr acc"
| "listUsages acc (Inl e # pages) = Inl e"
| "listUsages acc (Inr page # pages) =
     listUsages
       (foldl (\<lambda>m u. case u of
                 Some us \<Rightarrow> (case UsageName us of
                               Some (Some name) \<Rightarrow> AList.update name us m
                             | _ \<Rightarrow> m)
               | None \<Rightarrow> m) acc page) pages"

definition resolveFamilyQuotaName :: "vmFamily option \<Rightarrow> string \<times> string" where
  "resolveFamilyQuotaName family =
     (case family of
        None \<Rightarrow> ([], [])
      | Some f \<Rightarrow>
          (case Properties f of
             None \<Rightarrow> ([], [])
           | Some props \<Rightarrow>
               let familyName = FromPtr (VMFamilyName f); categoryName = FromPtr (Category props) in
               if familyName = [] \<or> categoryName = [] \<or>
                  ProvisioningState props \<noteq> Some ResourceProvisioningStateSucceeded
               then ([], []) else (familyName, categoryName)))"

fun listQuotaCategoryToFamilyMappings :: "(string, string) gomap \<Rightarrow> vmFamily option list result list
    \<Rightarrow> (string, string) gomap result" where
  "listQuotaCategoryToFamilyMappings acc [] = Inr acc"
| "listQuotaCategoryToFamilyMappings acc (Inl e # pages) =
     Inl (''listing Compute Limit VM families: '' @ e)"
| "listQuotaCategoryToFamilyMappings acc (Inr page # pages) =
     listQuotaCategoryToFamilyMappings
       (foldl (\<lambda>m family. let (familyName, categoryName) = resolveFamilyQuotaName family in
                 if familyName = [] \<or> categoryName = [] then m
                 else AList.update familyName categoryName m) acc page) pages"

definition buildFamilyToQuotaName :: "(string, usage) gomap \<Rightarrow> vmFamily option list result list
    \<Rightarrow> (string, string) gomap result" where
  "buildFamilyToQuotaName us familyPages =
     (if map_of us GeneralPurposeCategory = None then Inr []
      else case listQuotaCategoryToFamilyMappings [] familyPages of
        Inl e \<Rightarrow> Inl e
      | Inr familyToCategory \<Rightarrow>
          Inr (filter (\<lambda>(familyName, categoryName). map_of us categoryName \<noteq> None) familyToCategory))"

text \<open>\<open>Update\<close> when nothing interleaves with it; \<open>quota_step\<close> below takes its parts apart.\<close>

definition Update :: "quotaProvider \<Rightarrow> time \<Rightarrow> usage option list result list
    \<Rightarrow> vmFamily option list result list \<Rightarrow> quotaProvider \<times> unit result" where
  "Update p now usagePages familyPages =
     (let (p1, adjustmentWatermark) = beginRefresh p now in
      case listUsages [] usagePages of
        Inl e \<Rightarrow> (finishFailedRefresh p1, Inl e)
      | Inr freshUsages \<Rightarrow>
          (case buildFamilyToQuotaName freshUsages familyPages of
             Inl e \<Rightarrow> (finishFailedRefresh p1, Inl e)
           | Inr freshFamilyToQuotaName \<Rightarrow>
               (publishSnapshot p1 freshUsages freshFamilyToQuotaName adjustmentWatermark, Inr ())))"

definition resetLocked :: "quotaProvider \<Rightarrow> quotaProvider" where
  "resetLocked p =
     (if \<not> initialized p \<and> length (usages (snap p)) = 0 \<and> length (familyToQuotaName (snap p)) = 0 \<and>
         length (adjustments p) = 0 \<and> length (deleteTombstones p) = 0
      then p
      else p\<lparr>snap := \<lparr>usages = [], familyToQuotaName = []\<rparr>,
             initialized := False,
             snapshotGeneration := snapshotGeneration p + 1,
             quotaSeqNum := quotaSeqNum p + 1,
             refreshInProgress := False,
             adjustments := [],
             adjustmentsByQuotaName := (\<lambda>_. 0),
             deleteTombstones := [],
             lastDeleteTombstoneCleanup := 0\<rparr>)"

definition Reset :: "quotaProvider \<Rightarrow> quotaProvider" where
  "Reset p = resetLocked p"

subsection \<open>The provider and the refresh in flight\<close>

record quota_sys =
  prov :: quotaProvider
  inflight :: "uint64 option"

inductive quota_step :: "quota_sys \<Rightarrow> quota_sys \<Rightarrow> bool" where
  create: "quota_step s (s\<lparr>prov := fst (RecordCreate (prov s) g nc fam v)\<rparr>)"
| delete: "quota_step s (s\<lparr>prov := fst (RecordDelete (prov s) now nc fam v)\<rparr>)"
| begin_refresh: "inflight s = None \<Longrightarrow> beginRefresh (prov s) now = (p, w) \<Longrightarrow>
    quota_step s (s\<lparr>prov := p, inflight := Some w\<rparr>)"
| fail_refresh: "inflight s = Some w \<Longrightarrow>
    quota_step s (s\<lparr>prov := finishFailedRefresh (prov s), inflight := None\<rparr>)"
| publish_refresh: "inflight s = Some w \<Longrightarrow>
    quota_step s (s\<lparr>prov := publishSnapshot (prov s) us f2q w, inflight := None\<rparr>)"
| reset: "quota_step s (s\<lparr>prov := Reset (prov s)\<rparr>)"

text \<open>\<open>quota_reach n s\<close>: the system can reach \<open>s\<close> in \<open>n\<close> steps from a new provider.\<close>

inductive quota_reach :: "nat \<Rightarrow> quota_sys \<Rightarrow> bool" where
  new: "quota_reach 0 \<lparr>prov = NewProvider, inflight = None\<rparr>"
| step: "quota_reach n s \<Longrightarrow> quota_step s s' \<Longrightarrow> quota_reach (Suc n) s'"

subsection \<open>Net adjustments\<close>

text \<open>What the pending adjustments of one quota add up to.\<close>

definition adj_sum :: "(string, adjustment) gomap \<Rightarrow> string \<Rightarrow> int64" where
  "adj_sum as name = sum_list (map (\<lambda>(k, a). if quotaName a = name then vCPUs a else 0) as)"

lemma delete_update_fresh: "map_of as k = None \<Longrightarrow> AList.delete k (AList.update k a as) = as"
  by (induction as) (auto split: if_splits)

lemma map_of_filter_Some: "map_of xs k = Some v \<Longrightarrow> P (k, v) \<Longrightarrow> map_of (filter P xs) k = Some v"
  by (induction xs) (auto split: if_splits)

lemma adj_sum_Nil [simp]: "adj_sum [] = (\<lambda>_. 0)"
  by (simp add: adj_sum_def fun_eq_iff)

lemma adj_sum_update:
  assumes "map_of as k = None"
  shows "adj_sum (AList.update k a as) = (adj_sum as)(quotaName a := adj_sum as (quotaName a) + vCPUs a)"
proof -
  from assms have "k \<notin> fst ` set as" by (simp add: map_of_eq_None_iff)
  then show ?thesis by (auto simp: adj_sum_def fun_eq_iff sum_list_filter_update)
qed

lemma adj_sum_delete:
  assumes "distinct (map fst as)" and "map_of as k = Some a"
  shows "adj_sum (AList.delete k as) = (adj_sum as)(quotaName a := adj_sum as (quotaName a) - vCPUs a)"
  by (auto simp: adj_sum_def fun_eq_iff sum_list_delete [OF assms])

lemma foldl_adj_sum:
  "foldl (\<lambda>m (k, a). m(quotaName a := m (quotaName a) + vCPUs a)) m as = (\<lambda>name. m name + adj_sum as name)"
  by (induction as arbitrary: m) (auto simp: adj_sum_def fun_eq_iff)

subsection \<open>Tombstones\<close>

definition tombs_ok :: "(string, time) gomap \<Rightarrow> bool" where
  "tombs_ok ts \<longleftrightarrow> distinct (map fst ts) \<and> length ts \<le> MaxDeleteTombstones"

lemma length_update_le: "length (AList.update k v ts) \<le> Suc (length ts)"
  by (induction ts) auto

lemma length_update_present: "k \<in> fst ` set ts \<Longrightarrow> length (AList.update k v ts) = length ts"
  by (induction ts) auto

lemma length_delete_present: "k \<in> fst ` set ts \<Longrightarrow> length (AList.delete k ts) < length ts"
proof (induction ts)
  case (Cons p ts)
  then show ?case using length_delete_le [of k ts] by (cases "fst p = k") auto
qed simp

lemma oldestTombstone_in: "oldestTombstone k t ts \<in> insert k (fst ` set ts)"
  by (induction k t ts rule: oldestTombstone.induct) auto

lemma oldestTombstone_present: "ts \<noteq> [] \<Longrightarrow> oldestTombstone [] t ts \<in> fst ` set ts"
  using oldestTombstone_in by (cases ts) fastforce+

lemma tombs_ok_insert:
  assumes "tombs_ok (deleteTombstones p)"
  shows "tombs_ok (deleteTombstones (insertDeleteTombstoneLocked p k now))"
proof (cases "length (deleteTombstones p) \<ge> MaxDeleteTombstones")
  case True
  then have "deleteTombstones p \<noteq> []" by (auto simp: MaxDeleteTombstones_def)
  then have "length (AList.delete (oldestTombstone [] 0 (deleteTombstones p)) (deleteTombstones p))
      < length (deleteTombstones p)"
    by (intro length_delete_present oldestTombstone_present)
  with assms True show ?thesis
    using length_update_le [of k now "AList.delete (oldestTombstone [] 0 (deleteTombstones p)) (deleteTombstones p)"]
    by (simp add: tombs_ok_def insertDeleteTombstoneLocked_def Let_def distinct_delete distinct_keys_update)
next
  case False
  with assms show ?thesis
    using length_update_le [of k now "deleteTombstones p"]
    by (simp add: tombs_ok_def insertDeleteTombstoneLocked_def Let_def)
qed

lemma tombs_ok_prune:
  "tombs_ok (deleteTombstones p) \<Longrightarrow> tombs_ok (deleteTombstones (pruneDeleteTombstonesLocked p now))"
  by (auto simp: tombs_ok_def pruneDeleteTombstonesLocked_def distinct_map_filter
    intro: order_trans [OF length_filter_le])

lemma tombs_ok_delete: "tombs_ok ts \<Longrightarrow> tombs_ok (AList.delete k ts)"
  using length_delete_le [of k ts] by (simp add: tombs_ok_def distinct_delete)

lemma tombs_ok_refresh:
  assumes "tombs_ok ts" and "map_of ts k = Some t"
  shows "tombs_ok (AList.update k now ts)"
proof -
  from assms(2) have "k \<in> fst ` set ts" by (metis map_of_eq_None_iff option.distinct(1))
  with assms(1) show ?thesis by (simp add: tombs_ok_def length_update_present)
qed

text \<open>Pruning and inserting tombstones touch the tombstone fields only.\<close>

lemma prune_form:
  obtains lc where "pruneDeleteTombstonesLocked p now =
    p\<lparr>deleteTombstones := deleteTombstones (pruneDeleteTombstonesLocked p now), lastDeleteTombstoneCleanup := lc\<rparr>"
  by (rule that [of "lastDeleteTombstoneCleanup (pruneDeleteTombstonesLocked p now)"])
     (simp add: pruneDeleteTombstonesLocked_def)

lemma prune_simps [simp]:
  "snap (pruneDeleteTombstonesLocked p now) = snap p"
  "initialized (pruneDeleteTombstonesLocked p now) = initialized p"
  "snapshotGeneration (pruneDeleteTombstonesLocked p now) = snapshotGeneration p"
  "quotaSeqNum (pruneDeleteTombstonesLocked p now) = quotaSeqNum p"
  "refreshInProgress (pruneDeleteTombstonesLocked p now) = refreshInProgress p"
  "adjustments (pruneDeleteTombstonesLocked p now) = adjustments p"
  "adjustmentsByQuotaName (pruneDeleteTombstonesLocked p now) = adjustmentsByQuotaName p"
  by (simp_all add: pruneDeleteTombstonesLocked_def)

lemma prune_map_of_None:
  "map_of (deleteTombstones p) k = None \<Longrightarrow>
   map_of (deleteTombstones (pruneDeleteTombstonesLocked p now)) k = None"
  by (auto simp: pruneDeleteTombstonesLocked_def map_of_eq_None_iff)

lemma insert_form: "insertDeleteTombstoneLocked p k now =
    p\<lparr>deleteTombstones := deleteTombstones (insertDeleteTombstoneLocked p k now)\<rparr>"
  by (simp add: insertDeleteTombstoneLocked_def Let_def)

lemma frame_simps [simp]:
  "quotaNameLocked (p\<lparr>deleteTombstones := x\<rparr>) = quotaNameLocked p"
  "quotaNameLocked (p\<lparr>lastDeleteTombstoneCleanup := y\<rparr>) = quotaNameLocked p"
  "hasQuotaUsageLocked (p\<lparr>deleteTombstones := x\<rparr>) = hasQuotaUsageLocked p"
  "hasQuotaUsageLocked (p\<lparr>lastDeleteTombstoneCleanup := y\<rparr>) = hasQuotaUsageLocked p"
  "addByName (p\<lparr>deleteTombstones := x\<rparr>) = addByName p"
  "addByName (p\<lparr>lastDeleteTombstoneCleanup := y\<rparr>) = addByName p"
  "addByName (p\<lparr>adjustments := z\<rparr>) = addByName p"
  "addByName (p\<lparr>quotaSeqNum := n\<rparr>) = addByName p"
  by (simp_all add: quotaNameLocked_def hasQuotaUsageLocked_def addByName_def fun_eq_iff)

text \<open>
  The four outcomes of \<open>RecordDelete\<close>: nothing but tombstones changes; a pending create is
  cancelled; during a refresh it is replaced by a delete adjustment; or a delete adjustment is
  recorded for a NodeClaim that had none.
\<close>

definition withTombstones :: "quotaProvider \<Rightarrow> (string, time) gomap \<Rightarrow> time \<Rightarrow> quotaProvider" where
  "withTombstones p ts lc = p\<lparr>deleteTombstones := ts, lastDeleteTombstoneCleanup := lc\<rparr>"

lemma withTombstones_simps [simp]:
  "snap (withTombstones p ts lc) = snap p"
  "initialized (withTombstones p ts lc) = initialized p"
  "snapshotGeneration (withTombstones p ts lc) = snapshotGeneration p"
  "quotaSeqNum (withTombstones p ts lc) = quotaSeqNum p"
  "refreshInProgress (withTombstones p ts lc) = refreshInProgress p"
  "adjustments (withTombstones p ts lc) = adjustments p"
  "adjustmentsByQuotaName (withTombstones p ts lc) = adjustmentsByQuotaName p"
  "deleteTombstones (withTombstones p ts lc) = ts"
  "quotaNameLocked (withTombstones p ts lc) = quotaNameLocked p"
  "hasQuotaUsageLocked (withTombstones p ts lc) = hasQuotaUsageLocked p"
  "addByName (withTombstones p ts lc) = addByName p"
  "(withTombstones p ts lc)\<lparr>deleteTombstones := ts'\<rparr> = withTombstones p ts' lc"
  "(withTombstones p ts lc)\<lparr>adjustments := as\<rparr> = withTombstones (p\<lparr>adjustments := as\<rparr>) ts lc"
  "(withTombstones p ts lc)\<lparr>adjustmentsByQuotaName := m\<rparr> = withTombstones (p\<lparr>adjustmentsByQuotaName := m\<rparr>) ts lc"
  "(withTombstones p ts lc)\<lparr>quotaSeqNum := n\<rparr> = withTombstones (p\<lparr>quotaSeqNum := n\<rparr>) ts lc"
  by (simp_all add: withTombstones_def)

definition cancelled :: "quotaProvider \<Rightarrow> string \<Rightarrow> adjustment \<Rightarrow> quotaProvider" where
  "cancelled p key a =
     p\<lparr>adjustmentsByQuotaName := addByName p (quotaName a) (- vCPUs a),
       adjustments := AList.delete key (adjustments p),
       quotaSeqNum := quotaSeqNum p + 1\<rparr>"

definition recorded :: "quotaProvider \<Rightarrow> string \<Rightarrow> string \<Rightarrow> int64 \<Rightarrow> uint64 \<Rightarrow> quotaProvider" where
  "recorded p key name v seq =
     p\<lparr>adjustments := AList.update key \<lparr>quotaName = name, vCPUs = v, adjSeqNum = seq\<rparr> (adjustments p),
       adjustmentsByQuotaName := addByName p name v,
       quotaSeqNum := seq\<rparr>"

lemma update_order:
  fixes p :: quotaProvider
  shows "p\<lparr>quotaSeqNum := n, adjustments := as\<rparr> = p\<lparr>adjustments := as, quotaSeqNum := n\<rparr>"
    and "p\<lparr>quotaSeqNum := n, adjustmentsByQuotaName := m\<rparr> = p\<lparr>adjustmentsByQuotaName := m, quotaSeqNum := n\<rparr>"
    and "p\<lparr>adjustmentsByQuotaName := m, adjustments := as\<rparr> = p\<lparr>adjustments := as, adjustmentsByQuotaName := m\<rparr>"
  by simp_all

lemma RecordDelete_cases:
  assumes ok: "tombs_ok (deleteTombstones p)"
  obtains
    (quiet) ts lc where "RecordDelete p now nc fam v = (withTombstones p ts lc, False)" "tombs_ok ts"
      "\<not> initialized p \<or> sint v \<le> 0 \<or> \<not> hasQuotaUsageLocked p (quotaNameLocked p fam) \<or>
       map_of (deleteTombstones p) (instanceKey nc) \<noteq> None \<or>
       (\<exists>a. map_of (adjustments p) (instanceKey nc) = Some a \<and> sint (vCPUs a) < 0)"
  | (cancel) a ts lc where "map_of (adjustments p) (instanceKey nc) = Some a" "0 \<le> sint (vCPUs a)"
      "\<not> refreshInProgress p" "tombs_ok ts"
      "RecordDelete p now nc fam v = (withTombstones (cancelled p (instanceKey nc) a) ts lc, True)"
  | (replace) a ts lc where "map_of (adjustments p) (instanceKey nc) = Some a" "0 \<le> sint (vCPUs a)"
      "refreshInProgress p" "0 < sint v" "tombs_ok ts"
      "RecordDelete p now nc fam v =
         (withTombstones (recorded (cancelled p (instanceKey nc) a) (instanceKey nc)
            (quotaNameLocked p fam) (- v) (quotaSeqNum p + 1)) ts lc, True)"
  | (fresh_delete) ts lc where "map_of (adjustments p) (instanceKey nc) = None" "0 < sint v" "tombs_ok ts"
      "RecordDelete p now nc fam v =
         (withTombstones (recorded p (instanceKey nc) (quotaNameLocked p fam) (- v) (quotaSeqNum p + 1)) ts lc, True)"
proof -
  let ?k = "instanceKey nc"
  obtain lc where q: "pruneDeleteTombstonesLocked p now =
      withTombstones p (deleteTombstones (pruneDeleteTombstonesLocked p now)) lc"
    using prune_form [of p now] unfolding withTombstones_def by metis
  define ts0 where "ts0 = deleteTombstones (pruneDeleteTombstonesLocked p now)"
  have ok0: "tombs_ok ts0" unfolding ts0_def using ok by (rule tombs_ok_prune)
  note q = q [folded ts0_def]
  define fresh where "fresh = (\<exists>t. map_of ts0 ?k = Some t \<and> \<not> now - t > DeleteTombstoneTTL)"
  define ts1 where "ts1 = (if map_of ts0 ?k = None then ts0 else AList.delete ?k ts0)"
  have ok1: "tombs_ok ts1" unfolding ts1_def using ok0 by (simp add: tombs_ok_delete)
  define ts2 where "ts2 = deleteTombstones (insertDeleteTombstoneLocked (withTombstones p ts1 lc) ?k now)"
  have ok2: "tombs_ok ts2" unfolding ts2_def by (rule tombs_ok_insert) (simp add: withTombstones_def ok1)
  have ins: "insertDeleteTombstoneLocked (withTombstones p ts1 lc) ?k now = withTombstones p ts2 lc"
    by (subst insert_form) (simp add: ts2_def withTombstones_def)
  consider (none) "\<not> initialized p \<or> sint v \<le> 0 \<or> \<not> hasQuotaUsageLocked p (quotaNameLocked p fam)"
    | (dup) "initialized p" "0 < sint v" "hasQuotaUsageLocked p (quotaNameLocked p fam)" fresh
    | (go) "initialized p" "0 < sint v" "hasQuotaUsageLocked p (quotaNameLocked p fam)" "\<not> fresh"
    by linarith
  then show thesis
  proof cases
    case none
    then have "RecordDelete p now nc fam v = (withTombstones p ts0 lc, False)"
      by (auto simp: RecordDelete_def q Let_def withTombstones_def)
    from this ok0 show thesis by (rule quiet) (use none in blast)
  next
    case dup
    then obtain t where t: "map_of ts0 ?k = Some t" "\<not> now - t > DeleteTombstoneTTL"
      by (auto simp: fresh_def)
    with dup have "RecordDelete p now nc fam v = (withTombstones p (AList.update ?k now ts0) lc, False)"
      by (simp add: RecordDelete_def q Let_def withTombstones_def)
    from this tombs_ok_refresh [OF ok0 t(1)] show thesis
      by (rule quiet) (use prune_map_of_None [of p ?k now] t(1) in \<open>auto simp: ts0_def\<close>)
  next
    case go
    have none: "map_of ts0 ?k = None \<Longrightarrow> insertDeleteTombstoneLocked (withTombstones p ts0 lc) ?k now = withTombstones p ts2 lc"
      using ins by (simp add: ts1_def)
    have some: "insertDeleteTombstoneLocked (withTombstones p (AList.delete ?k ts0) lc) ?k now = withTombstones p ts2 lc"
        "DeleteTombstoneTTL < now - t" if "map_of ts0 ?k = Some t" for t
      using ins go(4) that by (auto simp: ts1_def fresh_def)
    have pos: "(sint v \<le> 0) = False" using go(2) by simp
    note step = update_order RecordDelete_def q Let_def none some go(1,3) pos
    show thesis
    proof (cases "map_of (adjustments p) ?k")
      case None
      have "RecordDelete p now nc fam v =
          (withTombstones (recorded p ?k (quotaNameLocked p fam) (- v) (quotaSeqNum p + 1)) ts2 lc, True)"
        using None by (cases "map_of ts0 ?k") (simp_all add: step recorded_def)
      with None go(2) ok2 show thesis by (rule fresh_delete)
    next
      case (Some a)
      consider (seen) "sint (vCPUs a) < 0" | (idle) "0 \<le> sint (vCPUs a)" "\<not> refreshInProgress p"
        | (busy) "0 \<le> sint (vCPUs a)" "refreshInProgress p" by linarith
      then show thesis
      proof cases
        case seen
        then have "RecordDelete p now nc fam v = (withTombstones p ts2 lc, False)"
          using Some by (cases "map_of ts0 ?k") (simp_all add: step)
        from this ok2 show thesis by (rule quiet) (use seen Some in blast)
      next
        case idle
        then have "RecordDelete p now nc fam v = (withTombstones (cancelled p ?k a) ts2 lc, True)"
          using Some by (cases "map_of ts0 ?k") (simp_all add: step cancelled_def)
        with Some idle ok2 show thesis by (rule cancel)
      next
        case busy
        then have "RecordDelete p now nc fam v =
            (withTombstones (recorded (cancelled p ?k a) ?k (quotaNameLocked p fam) (- v)
               (quotaSeqNum p + 1)) ts2 lc, True)"
          using Some by (cases "map_of ts0 ?k") (simp_all add: step cancelled_def recorded_def)
        with Some busy go(2) ok2 show thesis by (rule replace)
      qed
    qed
  qed
qed

subsection \<open>The invariant\<close>

text \<open>
  The adjustments are consistent: one per NodeClaim, never zero, numbered no later than the
  provider, and summed up per quota in \<open>adjustmentsByQuotaName\<close>.
\<close>

definition adjs_ok :: "quotaProvider \<Rightarrow> bool" where
  "adjs_ok p \<longleftrightarrow>
     distinct (map fst (adjustments p)) \<and>
     adjustmentsByQuotaName p = adj_sum (adjustments p) \<and>
     (\<forall>(k, a) \<in> set (adjustments p). vCPUs a \<noteq> 0 \<and> adjSeqNum a \<le> quotaSeqNum p)"

text \<open>
  A create recorded before the refresh in flight began carries a number the watermark covers, and
  none can be recorded while it is in flight.
\<close>

definition refresh_ok :: "uint64 option \<Rightarrow> quotaProvider \<Rightarrow> bool" where
  "refresh_ok fl p \<longleftrightarrow>
     (case fl of
        None \<Rightarrow> \<not> refreshInProgress p
      | Some w \<Rightarrow> w \<le> quotaSeqNum p \<and> (refreshInProgress p \<or> \<not> initialized p) \<and>
          (\<forall>(k, a) \<in> set (adjustments p). 0 < sint (vCPUs a) \<longrightarrow> adjSeqNum a \<le> w))"

definition quota_inv :: "nat \<Rightarrow> quota_sys \<Rightarrow> bool" where
  "quota_inv n s \<longleftrightarrow>
     adjs_ok (prov s) \<and> refresh_ok (inflight s) (prov s) \<and> tombs_ok (deleteTombstones (prov s)) \<and>
     unat (quotaSeqNum (prov s)) \<le> n"

lemmas inv_defs = quota_inv_def adjs_ok_def refresh_ok_def

lemma set_update_subset: "set (AList.update k v xs) \<subseteq> insert (k, v) (set xs)"
  by (induction xs) auto

lemma set_delete_subset: "set (AList.delete k xs) \<subseteq> set xs"
  by (simp add: AList.delete_eq)

lemma seq_less_Suc:
  assumes "unat (x :: uint64) \<le> n" and "n < 2 ^ 64 - 1"
  shows "x < x + 1" and "unat (x + 1) = Suc (unat x)"
proof -
  have "unat x + 1 < 2 ^ 64" using assms by simp
  then show s: "unat (x + 1) = Suc (unat x)" by (simp add: unat_word_ariths)
  then show "x < x + 1" by (simp add: word_less_nat_alt)
qed

lemma adjs_ok_withTombstones [simp]: "adjs_ok (withTombstones p ts lc) = adjs_ok p"
  and refresh_ok_withTombstones [simp]: "refresh_ok fl (withTombstones p ts lc) = refresh_ok fl p"
  by (simp_all add: adjs_ok_def refresh_ok_def split: option.split)

lemma adjs_ok_recorded:
  assumes "adjs_ok p" and "map_of (adjustments p) k = None" and "v \<noteq> 0" and "quotaSeqNum p \<le> seq"
  shows "adjs_ok (recorded p k name v seq)"
  using assms set_update_subset [of k "\<lparr>quotaName = name, vCPUs = v, adjSeqNum = seq\<rparr>" "adjustments p"]
  by (fastforce simp: adjs_ok_def recorded_def addByName_def adj_sum_update)

lemma adjs_ok_cancelled:
  assumes "adjs_ok p" and "map_of (adjustments p) k = Some a" and "quotaSeqNum p \<le> quotaSeqNum p + 1"
  shows "adjs_ok (cancelled p k a)"
  using assms set_delete_subset [of k "adjustments p"]
  by (fastforce simp: adjs_ok_def cancelled_def addByName_def adj_sum_delete distinct_delete)

lemma refresh_ok_recorded:
  assumes "refresh_ok fl p" and "fl \<noteq> None \<longrightarrow> sint v \<le> 0" and "quotaSeqNum p \<le> seq"
  shows "refresh_ok fl (recorded p k name v seq)"
  using assms set_update_subset [of k "\<lparr>quotaName = name, vCPUs = v, adjSeqNum = seq\<rparr>" "adjustments p"]
  by (fastforce simp: refresh_ok_def recorded_def split: option.splits)

lemma refresh_ok_cancelled:
  assumes "refresh_ok fl p" and "quotaSeqNum p \<le> quotaSeqNum p + 1"
  shows "refresh_ok fl (cancelled p k a)"
  using assms set_delete_subset [of k "adjustments p"]
  by (fastforce simp: refresh_ok_def cancelled_def split: option.splits)

lemma sint_uminus:
  assumes "0 < sint (v :: int64)"
  shows "sint (- v) = - sint v"
proof -
  have "sint v < 2 ^ 63" using sint_lt [of v] by simp
  with assms show ?thesis by (simp add: sint_word_ariths signed_take_bit_int_eq_self)
qed

lemma positive_nonzero [simp]: "0 < sint (v :: int64) \<Longrightarrow> v \<noteq> 0"
  by auto

lemma quota_inv_delete:
  assumes inv: "quota_inv n s" and n: "n < 2 ^ 64 - 1"
  shows "quota_inv (Suc n) (s\<lparr>prov := fst (RecordDelete (prov s) now nc fam v)\<rparr>)"
proof -
  let ?p = "prov s" and ?k = "instanceKey nc"
  have ok: "adjs_ok ?p" "refresh_ok (inflight s) ?p" "tombs_ok (deleteTombstones ?p)" "unat (quotaSeqNum ?p) \<le> n"
    using inv by (simp_all add: quota_inv_def)
  note seq = seq_less_Suc [OF ok(4) n]
  have le: "quotaSeqNum ?p \<le> quotaSeqNum ?p + 1" using seq(1) by simp
  have gone: "map_of (adjustments (cancelled ?p ?k a)) ?k = None" for a
    by (simp add: cancelled_def delete_conv)
  from ok(3) show ?thesis
  proof (cases rule: RecordDelete_cases [of ?p now nc fam v])
    case quiet
    then show ?thesis using ok by (simp add: quota_inv_def)
  next
    case (cancel a)
    then show ?thesis using ok seq
      by (simp add: quota_inv_def adjs_ok_cancelled [OF ok(1) cancel(1) le] refresh_ok_cancelled [OF ok(2) le])
         (simp add: cancelled_def)
  next
    case (replace a)
    have c: "quotaSeqNum (cancelled ?p ?k a) \<le> quotaSeqNum ?p + 1" by (simp add: cancelled_def)
    have "adjs_ok (recorded (cancelled ?p ?k a) ?k (quotaNameLocked ?p fam) (- v) (quotaSeqNum ?p + 1))"
      using replace(4) by (intro adjs_ok_recorded adjs_ok_cancelled ok(1) replace(1) le gone c) auto
    moreover have "refresh_ok (inflight s)
        (recorded (cancelled ?p ?k a) ?k (quotaNameLocked ?p fam) (- v) (quotaSeqNum ?p + 1))"
      using replace(4) by (intro refresh_ok_recorded refresh_ok_cancelled ok(2) le c) (simp add: sint_uminus)
    ultimately show ?thesis using replace seq ok by (simp add: quota_inv_def) (simp add: recorded_def)
  next
    case fresh_delete
    have "adjs_ok (recorded ?p ?k (quotaNameLocked ?p fam) (- v) (quotaSeqNum ?p + 1))"
      using fresh_delete(1,2) by (intro adjs_ok_recorded ok(1) le) auto
    moreover have "refresh_ok (inflight s) (recorded ?p ?k (quotaNameLocked ?p fam) (- v) (quotaSeqNum ?p + 1))"
      using fresh_delete(2) by (intro refresh_ok_recorded ok(2) le) (simp add: sint_uminus)
    ultimately show ?thesis using fresh_delete seq ok by (simp add: quota_inv_def) (simp add: recorded_def)
  qed
qed

lemma quota_inv_create:
  assumes inv: "quota_inv n s" and n: "n < 2 ^ 64 - 1"
  shows "quota_inv (Suc n) (s\<lparr>prov := fst (RecordCreate (prov s) g nc fam v)\<rparr>)"
proof -
  let ?p = "prov s" and ?k = "instanceKey nc"
  let ?q = "recorded ?p ?k (quotaNameLocked ?p fam) v (quotaSeqNum ?p + 1)"
  have ok: "adjs_ok ?p" "refresh_ok (inflight s) ?p" "tombs_ok (deleteTombstones ?p)" "unat (quotaSeqNum ?p) \<le> n"
    using inv by (simp_all add: quota_inv_def)
  note seq = seq_less_Suc [OF ok(4) n]
  have le: "quotaSeqNum ?p \<le> quotaSeqNum ?p + 1" using seq(1) by simp
  show ?thesis
  proof (cases "snd (RecordCreate ?p g nc fam v)")
    case False
    then have "fst (RecordCreate ?p g nc fam v) = ?p" by (auto simp: RecordCreate_def Let_def split: if_splits)
    with inv show ?thesis by (simp add: quota_inv_def)
  next
    case True
    then have on: "initialized ?p" "\<not> refreshInProgress ?p" "0 < sint v" "map_of (adjustments ?p) ?k = None"
      and eq: "fst (RecordCreate ?p g nc fam v) =
        withTombstones ?q (AList.delete ?k (deleteTombstones ?p)) (lastDeleteTombstoneCleanup ?p)"
      by (auto simp: RecordCreate_def Let_def withTombstones_def recorded_def update_order split: if_splits)
    have "inflight s = None" using ok(2) on(1,2) by (auto simp: refresh_ok_def split: option.splits)
    moreover have "adjs_ok ?q" by (intro adjs_ok_recorded ok(1) le on(4)) (use on(3) in auto)
    moreover have "refresh_ok (inflight s) ?q" using calculation by (intro refresh_ok_recorded ok(2) le) simp
    ultimately show ?thesis using ok seq eq
      by (simp add: quota_inv_def tombs_ok_delete) (simp add: recorded_def)
  qed
qed

lemma quota_inv_publish:
  assumes inv: "quota_inv n s" and n: "n < 2 ^ 64 - 1"
  shows "quota_inv (Suc n) (s\<lparr>prov := publishSnapshot (prov s) us f2q w, inflight := None\<rparr>)"
proof -
  have "unat (quotaSeqNum (prov s)) \<le> n" using inv by (simp add: quota_inv_def)
  note seq = seq_less_Suc [OF this n]
  have "a \<le> quotaSeqNum (prov s) + 1" if "a \<le> quotaSeqNum (prov s)" for a
    using that seq(1) by (meson order.strict_implies_order order_trans)
  with inv seq(2) show ?thesis
    by (auto simp: inv_defs publishSnapshot_def foldl_adj_sum distinct_map_filter Let_def)
qed

lemma quota_inv_step:
  assumes "quota_step s s'" and "quota_inv n s" and "n < 2 ^ 64 - 1"
  shows "quota_inv (Suc n) s'"
  using assms
proof (cases rule: quota_step.cases)
  case (begin_refresh now p w)
  have "tombs_ok (deleteTombstones (pruneDeleteTombstonesLocked (prov s) now))"
    using assms(2) by (simp add: quota_inv_def tombs_ok_prune)
  then show ?thesis using begin_refresh assms(2)
    by (auto simp: inv_defs beginRefresh_def Let_def)
next
  case (reset)
  have "unat (quotaSeqNum (prov s)) \<le> n" using assms(2) by (simp add: quota_inv_def)
  note seq = seq_less_Suc [OF this assms(3)]
  have "w \<le> quotaSeqNum (prov s) + 1" if "w \<le> quotaSeqNum (prov s)" for w
    using that seq(1) by (meson order.strict_implies_order order_trans)
  then show ?thesis using reset assms(2) seq(2)
    by (auto simp: inv_defs Reset_def resetLocked_def tombs_ok_def split: option.splits)
qed (auto intro: quota_inv_create quota_inv_delete quota_inv_publish,
     auto simp: inv_defs finishFailedRefresh_def)

lemma quota_reach_inv: "quota_reach n s \<Longrightarrow> n < 2 ^ 64 \<Longrightarrow> quota_inv n s"
proof (induction rule: quota_reach.induct)
  case new
  then show ?case by (simp add: inv_defs NewProvider_def tombs_ok_def)
next
  case (step n s s')
  then show ?case by (auto intro: quota_inv_step)
qed

subsection \<open>Answers\<close>

text \<open>The answer for a SKU depends on the snapshot and on the net adjustments only.\<close>

lemma hasQuotaForLocked_cong:
  "snap p = snap q \<Longrightarrow> adjustmentsByQuotaName p = adjustmentsByQuotaName q \<Longrightarrow>
   hasQuotaForLocked p = hasQuotaForLocked q"
  by (intro ext) (simp only: hasQuotaForLocked_def quotaNameLocked_def)

text \<open>What the answer is meant to be, over the integers.\<close>

definition has_quota_spec :: "quotaProvider \<Rightarrow> SKU \<Rightarrow> bool" where
  "has_quota_spec p sku \<longleftrightarrow>
     (case (map_of (usages (snap p)) (quotaNameLocked p (GetFamilyName sku)), VCPU sku) of
        (Some u, Some vcpus) \<Rightarrow>
          (case (Limit u, CurrentValue u) of
             (Some limit, Some current) \<Rightarrow>
               GetFamilyName sku = [] \<or>
               sint vcpus + max 0 (sint current + sint (adj_sum (adjustments p)
                 (quotaNameLocked p (GetFamilyName sku)))) \<le> sint limit
           | _ \<Rightarrow> True)
      | _ \<Rightarrow> True)"

lemma sint_scast_int32 [simp]: "sint (scast (c :: int32) :: int64) = sint c"
  by (simp add: sint_up_scast is_up)

lemma sint_int64_add:
  assumes "- (2 ^ 63) \<le> sint (a :: int64) + sint b" and "sint a + sint b < 2 ^ 63"
  shows "sint (a + b) = sint a + sint b"
  using assms by (simp add: sint_word_ariths signed_take_bit_int_eq_self)

lemma sint_int64_sub:
  assumes "- (2 ^ 63) \<le> sint (a :: int64) - sint b" and "sint a - sint b < 2 ^ 63"
  shows "sint (a - b) = sint a - sint b"
  using assms by (simp add: sint_word_ariths signed_take_bit_int_eq_self)

lemma remaining_sint:
  fixes limit net :: int64 and c :: int32
  assumes "0 \<le> sint limit" and "\<bar>sint net\<bar> < 2 ^ 62"
  shows "sint (limit - (if 0 < sint (scast c + net) then scast c + net else 0)) =
    sint limit - max 0 (sint c + sint net)"
proof -
  have c: "- (2 ^ 31) \<le> sint c" "sint c < 2 ^ 31" using sint_ge [of c] sint_lt [of c] by simp_all
  have u: "sint (scast c + net) = sint c + sint net"
    using assms(2) c by (subst sint_int64_add) (auto simp: abs_if split: if_splits)
  have l: "sint limit < 2 ^ 63" using sint_lt [of limit] by simp
  show ?thesis
  proof (cases "0 < sint c + sint net")
    case True
    then have "sint (limit - (scast c + net)) = sint limit - sint (scast c + net)"
      using assms c l u by (intro sint_int64_sub) (auto simp: abs_if split: if_splits)
    with True u show ?thesis by simp
  next
    case False
    with u show ?thesis by simp
  qed
qed

lemma hasQuotaForLocked_spec:
  assumes "adjs_ok p"
    and "\<And>name u limit. map_of (usages (snap p)) name = Some u \<Longrightarrow> Limit u = Some limit \<Longrightarrow> 0 \<le> sint limit"
    and "\<And>name. \<bar>sint (adj_sum (adjustments p) name)\<bar> < 2 ^ 62"
  shows "hasQuotaForLocked p sku = has_quota_spec p sku"
proof -
  have net: "adjustmentsByQuotaName p = adj_sum (adjustments p)" using assms(1) by (simp add: adjs_ok_def)
  let ?name = "quotaNameLocked p (GetFamilyName sku)"
  show ?thesis
  proof (cases "GetFamilyName sku \<noteq> [] \<and> (\<exists>v u limit c. VCPU sku = Some v \<and>
      map_of (usages (snap p)) ?name = Some u \<and> Limit u = Some limit \<and> CurrentValue u = Some c)")
    case True
    then obtain v u limit c where x: "GetFamilyName sku \<noteq> []" "VCPU sku = Some v"
      "map_of (usages (snap p)) ?name = Some u" "Limit u = Some limit" "CurrentValue u = Some c" by blast
    with remaining_sint [OF assms(2) [OF x(3,4)] assms(3), of c ?name] show ?thesis
      by (auto simp: hasQuotaForLocked_def has_quota_spec_def net Let_def split: if_splits)
  next
    case False
    then show ?thesis
      by (auto simp: hasQuotaForLocked_def has_quota_spec_def Let_def split: option.splits)
  qed
qed

subsection \<open>A short run\<close>

text \<open>
  One refresh publishes a family with ten vCPUs of which six are used; during the next refresh a
  NodeClaim of four vCPUs is observed as deleted.
\<close>

definition demo_usages :: "(string, usage) gomap" where
  "demo_usages = [(''standardDSv5Family'',
     \<lparr>UsageName = Some (Some ''standardDSv5Family''), Limit = Some 10, CurrentValue = Some 6\<rparr>)]"

definition demo_claim :: nodeClaim where
  "demo_claim = \<lparr>NCName = ''nc'', UID = ''1'', Labels = Map.empty, Annotations = Map.empty\<rparr>"

definition demo_ready :: quota_sys where
  "demo_ready = \<lparr>prov = publishSnapshot (fst (beginRefresh NewProvider Hour)) demo_usages [] 0, inflight = None\<rparr>"

definition demo_busy :: quota_sys where
  "demo_busy = \<lparr>prov = fst (RecordDelete (fst (beginRefresh (prov demo_ready) (2 * Hour))) (2 * Hour)
     demo_claim ''standardDSv5Family'' 4), inflight = Some 1\<rparr>"

lemmas demo_simps = demo_usages_def demo_claim_def demo_ready_def demo_busy_def NewProvider_def
  beginRefresh_def publishSnapshot_def pruneDeleteTombstonesLocked_def RecordDelete_def RecordCreate_def
  insertDeleteTombstoneLocked_def quotaNameLocked_def hasQuotaUsageLocked_def instanceKey_def addByName_def
  MaxDeleteTombstones_def DeleteTombstoneTTL_def DeleteTombstoneCleanupInterval_def duration_defs Let_def

lemma demo_ready_reach: "quota_reach 2 demo_ready"
proof -
  have "quota_reach 1 \<lparr>prov = fst (beginRefresh NewProvider Hour), inflight = Some 0\<rparr>"
    using quota_reach.step [OF quota_reach.new quota_step.begin_refresh [where now = Hour]]
    by (simp add: beginRefresh_def NewProvider_def)
  from quota_reach.step [OF this quota_step.publish_refresh [where w = 0 and us = demo_usages and ?f2q.0 = "[]"]]
  show ?thesis by (simp add: demo_ready_def numeral_2_eq_2)
qed

lemma demo_busy_reach: "quota_reach 4 demo_busy"
proof -
  have "quota_reach 3 \<lparr>prov = fst (beginRefresh (prov demo_ready) (2 * Hour)), inflight = Some 1\<rparr>"
    using quota_reach.step [OF demo_ready_reach quota_step.begin_refresh [where now = "2 * Hour"]]
    by (simp add: demo_simps)
  from quota_reach.step [OF this quota_step.delete [where now = "2 * Hour" and nc = demo_claim
      and fam = "''standardDSv5Family''" and v = 4]]
  show ?thesis by (simp add: demo_busy_def)
qed

subsection \<open>Properties\<close>

text \<open>
  C8: In every state the provider can reach in fewer than 2^64 steps, with creates, deletes and
  resets interleaved with refreshes in any order, the NodeClaims with a pending adjustment are
  distinct, the net adjustment kept per quota is the sum of the pending adjustments of that quota,
  no pending adjustment is zero, and there are at most MaxDeleteTombstones tombstones.\<close>

theorem adjustments_stay_consistent:
  assumes "quota_reach n s" and "n < 2 ^ 64"
  shows "distinct (map fst (adjustments (prov s))) \<and>
    adjustmentsByQuotaName (prov s) = adj_sum (adjustments (prov s)) \<and>
    (\<forall>(k, a) \<in> set (adjustments (prov s)). vCPUs a \<noteq> 0) \<and>
    length (deleteTombstones (prov s)) \<le> MaxDeleteTombstones"
  using quota_reach_inv [OF assms] by (auto simp: inv_defs tombs_ok_def)



theorem adjustments_stay_consistent_witness:
  "distinct (map fst (adjustments (prov demo_busy))) \<and>
   adjustmentsByQuotaName (prov demo_busy) = adj_sum (adjustments (prov demo_busy)) \<and>
   length (deleteTombstones (prov demo_busy)) \<le> MaxDeleteTombstones"
  using adjustments_stay_consistent [OF demo_busy_reach] by simp


text \<open>
  Whatever step the provider takes, if its sequence number is the same afterwards then
  HasQuotaFor gives every SKU the same answer as before, so a consumer may cache by SeqNum.\<close>

theorem unchanged_quota_seqNum_means_unchanged_answers:
  assumes "quota_reach n s" and "n < 2 ^ 64" and "quota_step s s'"
    and "quotaSeqNum (prov s') = quotaSeqNum (prov s)"
  shows "HasQuotaFor (prov s') sku = HasQuotaFor (prov s) sku"
proof -
  have "tombs_ok (deleteTombstones (prov s))"
    using quota_reach_inv [OF assms(1,2)] by (simp add: quota_inv_def)
  from assms(3) have "snap (prov s') = snap (prov s) \<and>
      adjustmentsByQuotaName (prov s') = adjustmentsByQuotaName (prov s)"
  proof (cases rule: quota_step.cases)
    case (create g nc fam v)
    then show ?thesis using assms(4) by (auto simp: RecordCreate_def Let_def split: if_splits)
  next
    case (delete now nc fam v)
    from \<open>tombs_ok _\<close> show ?thesis
      by (cases rule: RecordDelete_cases [of "prov s" now nc fam v])
         (use assms(4) delete in \<open>auto simp: cancelled_def recorded_def\<close>)
  next
    case reset
    then show ?thesis using assms(4) by (auto simp: Reset_def resetLocked_def split: if_splits)
  qed (use assms(4) in \<open>auto simp: beginRefresh_def finishFailedRefresh_def publishSnapshot_def Let_def\<close>)
  then show ?thesis unfolding HasQuotaFor_def using hasQuotaForLocked_cong by metis
qed

theorem unchanged_quota_seqNum_means_unchanged_answers_witness:
  "HasQuotaFor (finishFailedRefresh (prov demo_busy)) \<lparr>GetName = ''Standard_D4s_v5'',
     GetFamilyName = ''standardDSv5Family'', VCPU = Some 4\<rparr> =
   HasQuotaFor (prov demo_busy) \<lparr>GetName = ''Standard_D4s_v5'',
     GetFamilyName = ''standardDSv5Family'', VCPU = Some 4\<rparr>"
proof -
  have "quota_step demo_busy (demo_busy\<lparr>prov := finishFailedRefresh (prov demo_busy), inflight := None\<rparr>)"
    by (rule quota_step.fail_refresh [where w = 1]) (simp add: demo_busy_def)
  from unchanged_quota_seqNum_means_unchanged_answers [OF demo_busy_reach _ this] show ?thesis
    by (simp add: finishFailedRefresh_def)
qed

lemma RecordCreate_RecordDelete:
  assumes "quota_reach n s" and "n < 2 ^ 64 - 1"
    and "RecordCreate (prov s) g nc fam v = (p1, True)"
  shows "snd (RecordDelete p1 now nc fam v) \<and>
    adjustments (fst (RecordDelete p1 now nc fam v)) = adjustments (prov s) \<and>
    adjustmentsByQuotaName (fst (RecordDelete p1 now nc fam v)) = adjustmentsByQuotaName (prov s)"
proof -
  let ?k = "instanceKey nc" and ?p = "prov s"
  have "quota_step s (s\<lparr>prov := p1\<rparr>)" using quota_step.create [of s g nc fam v] assms(3) by simp
  then have "quota_inv (Suc n) (s\<lparr>prov := p1\<rparr>)"
    using quota_reach_inv [OF assms(1)] assms(2) by (intro quota_inv_step [where n = n]) auto
  then have ok: "tombs_ok (deleteTombstones p1)" by (simp add: quota_inv_def)
  have c: "initialized ?p" "\<not> refreshInProgress ?p" "0 < sint v"
      "hasQuotaUsageLocked ?p (quotaNameLocked ?p fam)" "map_of (adjustments ?p) ?k = None"
    and p1: "p1 = withTombstones (recorded ?p ?k (quotaNameLocked ?p fam) v (quotaSeqNum ?p + 1))
        (AList.delete ?k (deleteTombstones ?p)) (lastDeleteTombstoneCleanup ?p)"
    using assms(3)
    by (auto simp: RecordCreate_def Let_def withTombstones_def recorded_def update_order split: if_splits)
  have fr: "snap p1 = snap ?p" "initialized p1" "\<not> refreshInProgress p1"
      "map_of (deleteTombstones p1) ?k = None"
      "map_of (adjustments p1) ?k = Some \<lparr>quotaName = quotaNameLocked ?p fam, vCPUs = v, adjSeqNum = quotaSeqNum ?p + 1\<rparr>"
    using c by (simp_all add: p1 recorded_def delete_conv update_conv)
  have same: "quotaNameLocked p1 = quotaNameLocked ?p" "hasQuotaUsageLocked p1 = hasQuotaUsageLocked ?p"
    using fr(1) by (simp_all add: quotaNameLocked_def hasQuotaUsageLocked_def fun_eq_iff)
  from ok show ?thesis
  proof (cases rule: RecordDelete_cases [of p1 now nc fam v])
    case quiet
    then show ?thesis using c fr same by auto
  next
    case (cancel a)
    then have "a = \<lparr>quotaName = quotaNameLocked ?p fam, vCPUs = v, adjSeqNum = quotaSeqNum ?p + 1\<rparr>"
      using fr(5) by simp
    with cancel c(5) show ?thesis
      by (simp add: p1 cancelled_def recorded_def addByName_def delete_update_fresh)
  qed (use fr in auto)
qed

text \<open>
  A create that was recorded and a delete of the same NodeClaim cancel out: the delete is
  recorded too, and afterwards the pending adjustments and the net adjustment of every quota are
  what they were before the create.\<close>

theorem create_then_delete_cancels:
  assumes "quota_reach n s" and "n < 2 ^ 64 - 1"
    and "RecordCreate (prov s) g nc fam v = (p1, True)"
  shows "snd (RecordDelete p1 now nc fam v) \<and>
    adjustments (fst (RecordDelete p1 now nc fam v)) = adjustments (prov s) \<and>
    adjustmentsByQuotaName (fst (RecordDelete p1 now nc fam v)) = adjustmentsByQuotaName (prov s)"
  using assms by (rule RecordCreate_RecordDelete)

theorem create_then_delete_cancels_witness:
  "adjustments (fst (RecordDelete (fst (RecordCreate (prov demo_ready) 1 demo_claim ''standardDSv5Family'' 4))
     Hour demo_claim ''standardDSv5Family'' 4)) = []"
proof -
  have "RecordCreate (prov demo_ready) 1 demo_claim ''standardDSv5Family'' 4 =
      (fst (RecordCreate (prov demo_ready) 1 demo_claim ''standardDSv5Family'' 4), True)"
    by (simp add: demo_simps)
  from create_then_delete_cancels [OF demo_ready_reach _ this, of Hour] show ?thesis
    by (simp add: demo_ready_def publishSnapshot_def beginRefresh_def NewProvider_def Let_def)
qed

text \<open>
  Once a delete has been recorded for a NodeClaim, observing it again within the tombstone TTL
  records nothing: snapshot, sequence number, pending and net adjustments all stay as they are.\<close>

theorem repeated_delete_counts_once:
  assumes "RecordDelete p now nc fam v = (p1, True)"
    and "now' - now \<le> DeleteTombstoneTTL"
  shows "\<not> snd (RecordDelete p1 now' nc fam' v') \<and>
    snap (fst (RecordDelete p1 now' nc fam' v')) = snap p1 \<and>
    quotaSeqNum (fst (RecordDelete p1 now' nc fam' v')) = quotaSeqNum p1 \<and>
    adjustments (fst (RecordDelete p1 now' nc fam' v')) = adjustments p1 \<and>
    adjustmentsByQuotaName (fst (RecordDelete p1 now' nc fam' v')) = adjustmentsByQuotaName p1"
proof -
  have "map_of (deleteTombstones p1) (instanceKey nc) = Some now"
    using assms(1) by (auto simp: RecordDelete_def Let_def insertDeleteTombstoneLocked_def update_conv
      split: if_splits option.splits sum.splits)
  then have "map_of (deleteTombstones (pruneDeleteTombstonesLocked p1 now')) (instanceKey nc) = Some now"
    using assms(2) by (auto simp: pruneDeleteTombstonesLocked_def intro!: map_of_filter_Some)
  then show ?thesis using assms(2) by (auto simp: RecordDelete_def Let_def)
qed

theorem repeated_delete_counts_once_witness:
  "adjustments (fst (RecordDelete (fst (RecordDelete (prov demo_ready) Hour demo_claim ''standardDSv5Family'' 4))
     (Hour + 20 * Minute) demo_claim ''standardDSv5Family'' 4)) =
   [(''nc/1'', \<lparr>quotaName = ''standardDSv5Family'', vCPUs = - 4, adjSeqNum = 2\<rparr>)]"
proof -
  have "RecordDelete (prov demo_ready) Hour demo_claim ''standardDSv5Family'' 4 =
      (fst (RecordDelete (prov demo_ready) Hour demo_claim ''standardDSv5Family'' 4), True)"
    by (simp add: demo_simps)
  from repeated_delete_counts_once [OF this, of "Hour + 20 * Minute" "''standardDSv5Family''" 4] show ?thesis
    by (simp add: DeleteTombstoneTTL_def duration_defs) (simp add: demo_simps)
qed

text \<open>
  In a reachable state with non-negative limits and net adjustments below 2^62, the 64-bit
  arithmetic of HasQuotaFor decides the intended comparison over the integers: the SKU fits when
  its vCPUs plus the larger of zero and (snapshot usage plus the sum of the pending adjustments of
  its quota) do not exceed the limit, and it is let through when any of these data is missing.\<close>

theorem HasQuotaFor_is_exact:
  assumes "quota_reach n s" and "n < 2 ^ 64"
    and "\<And>name u limit. map_of (usages (snap (prov s))) name = Some u \<Longrightarrow> Limit u = Some limit \<Longrightarrow> 0 \<le> sint limit"
    and "\<And>name. \<bar>sint (adj_sum (adjustments (prov s)) name)\<bar> < 2 ^ 62"
  shows "HasQuotaFor (prov s) sku = has_quota_spec (prov s) sku"
  unfolding HasQuotaFor_def
  using quota_reach_inv [OF assms(1,2)] by (intro hasQuotaForLocked_spec assms(3,4)) (simp add: quota_inv_def)

theorem HasQuotaFor_is_exact_witness:
  "HasQuotaFor (prov demo_busy) \<lparr>GetName = ''Standard_D8s_v5'', GetFamilyName = ''standardDSv5Family'', VCPU = Some 8\<rparr>"
proof -
  have "adjustments (prov demo_busy) =
      [(''nc/1'', \<lparr>quotaName = ''standardDSv5Family'', vCPUs = - 4, adjSeqNum = 2\<rparr>)]"
    and us: "usages (snap (prov demo_busy)) = demo_usages" "familyToQuotaName (snap (prov demo_busy)) = []"
    by (simp_all add: demo_simps)
  then have net: "adj_sum (adjustments (prov demo_busy)) name = (if name = ''standardDSv5Family'' then - 4 else 0)" for name
    by (simp add: adj_sum_def)
  have "HasQuotaFor (prov demo_busy) \<lparr>GetName = ''Standard_D8s_v5'', GetFamilyName = ''standardDSv5Family'', VCPU = Some 8\<rparr> =
      has_quota_spec (prov demo_busy) \<lparr>GetName = ''Standard_D8s_v5'', GetFamilyName = ''standardDSv5Family'', VCPU = Some 8\<rparr>"
    by (rule HasQuotaFor_is_exact [OF demo_busy_reach])
       (auto simp: us net demo_usages_def split: if_splits)
  moreover have "quotaNameLocked (prov demo_busy) ''standardDSv5Family'' = ''standardDSv5Family''"
    by (simp add: quotaNameLocked_def us)
  ultimately show ?thesis by (simp add: has_quota_spec_def us demo_usages_def net)
qed

text \<open>
  A refresh whose usage or family-mapping call fails reports that error and changes nothing
  that a quota answer, a create or a delete depends on: snapshot, generation, sequence number and
  adjustments stay, and the provider is not left in refresh. One whose calls succeed publishes the
  fetched data under a new generation and drops every adjustment recorded before it.\<close>

theorem Update_publishes_or_keeps:
  fixes p :: quotaProvider
  shows "case Update p now usagePages familyPages of
     (q, Inl e) \<Rightarrow> snap q = snap p \<and> snapshotGeneration q = snapshotGeneration p \<and>
       quotaSeqNum q = quotaSeqNum p \<and> adjustments q = adjustments p \<and>
       adjustmentsByQuotaName q = adjustmentsByQuotaName p \<and> \<not> refreshInProgress q
   | (q, Inr _) \<Rightarrow> listUsages [] usagePages = Inr (usages (snap q)) \<and>
       buildFamilyToQuotaName (usages (snap q)) familyPages = Inr (familyToQuotaName (snap q)) \<and>
       snapshotGeneration q = snapshotGeneration p + 1 \<and> quotaSeqNum q = quotaSeqNum p + 1 \<and>
       adjustments q = filter (\<lambda>(k, a). quotaSeqNum p < adjSeqNum a) (adjustments p) \<and>
       initialized q \<and> \<not> refreshInProgress q"
  by (auto simp: Update_def beginRefresh_def finishFailedRefresh_def publishSnapshot_def Let_def not_le
    split: sum.split)

lemma listUsages_error: "listUsages acc pages = Inl e \<Longrightarrow> Inl e \<in> set pages"
  by (induction acc pages rule: listUsages.induct) auto

text \<open>
  The family-to-quota mapping maps to published quota names only: whatever family the API
  lists, the quota name it is resolved to either has a usage entry or is the family name itself.\<close>

theorem family_mapping_targets_exist:
  assumes "buildFamilyToQuotaName us familyPages = Inr m" and "map_of m familyName = Some categoryName"
  shows "map_of us categoryName \<noteq> None \<and> map_of us GeneralPurposeCategory \<noteq> None"
  using assms map_of_SomeD [OF assms(2)]
  by (auto simp: buildFamilyToQuotaName_def split: if_splits sum.splits)

theorem family_mapping_targets_exist_witness:
  "map_of [(GeneralPurposeCategory, \<lparr>UsageName = None, Limit = None, CurrentValue = None\<rparr>)] GeneralPurposeCategory \<noteq> None"
proof -
  let ?u = "\<lparr>UsageName = None, Limit = None, CurrentValue = None\<rparr> :: usage"
  let ?fam = "\<lparr>VMFamilyName = Some ''standardDSv5Family'', Properties = Some \<lparr>Category = Some GeneralPurposeCategory,
    ProvisioningState = Some ResourceProvisioningStateSucceeded\<rparr>\<rparr>"
  have "buildFamilyToQuotaName [(GeneralPurposeCategory, ?u)] [Inr [Some ?fam, None]] =
      Inr [(''standardDSv5Family'', GeneralPurposeCategory)]"
    by (simp add: buildFamilyToQuotaName_def resolveFamilyQuotaName_def FromPtr_def GeneralPurposeCategory_def)
  from family_mapping_targets_exist [OF this, of "''standardDSv5Family''" GeneralPurposeCategory]
  show ?thesis by simp
qed

end
