(* ===== verification/Quota_Lifecycle.thy ===== *)
theory Quota_Lifecycle
  imports Quota Zones
begin

text \<open>
  The quota bookkeeping shared by the VM and the AKS machine instance providers
  (src/pkg/providers/instance/quota.go): which creates and deletes reach the quota provider. The
  instance type provider's \<open>Get\<close> is the argument \<open>getSKU\<close>; \<open>None\<close> stands for its error.
\<close>

definition AnnotationCapacityReservationGroupID :: string where
  "AnnotationCapacityReservationGroupID = Group @ ''/capacity-reservation-group-id''"

record quotaMetadata =
  mdFamilyName :: string
  mdVCPUs :: int64
  eligible :: bool

definition noMetadata :: quotaMetadata where
  "noMetadata = \<lparr>mdFamilyName = [], mdVCPUs = 0, eligible = False\<rparr>"

definition lc_snapshotGeneration :: "quotaProvider \<Rightarrow> uint64" where
  "lc_snapshotGeneration p = snapshotGeneration p"

definition recordCreate :: "quotaProvider \<Rightarrow> uint64 \<Rightarrow> nodeClaim \<Rightarrow> quotaMetadata \<Rightarrow> quotaProvider" where
  "recordCreate p generation nc metadata =
     (if eligible metadata then fst (RecordCreate p generation nc (mdFamilyName metadata) (mdVCPUs metadata))
      else p)"

definition recordDelete :: "quotaProvider \<Rightarrow> time \<Rightarrow> nodeClaim \<Rightarrow> quotaMetadata \<Rightarrow> quotaProvider" where
  "recordDelete p now nc metadata =
     (if eligible metadata then fst (RecordDelete p now nc (mdFamilyName metadata) (mdVCPUs metadata))
      else p)"

definition metadata :: "(string \<Rightarrow> SKU option) \<Rightarrow> string \<Rightarrow> string \<Rightarrow> bool \<Rightarrow> quotaMetadata" where
  "metadata getSKU it capacityType reserved =
     (if it = [] \<or> capacityType \<noteq> CapacityTypeOnDemand \<or> reserved then noMetadata
      else case getSKU it of
        None \<Rightarrow> noMetadata
      | Some sku \<Rightarrow>
          (case VCPU sku of
             None \<Rightarrow> noMetadata
           | Some v \<Rightarrow>
               if GetFamilyName sku = [] then noMetadata
               else \<lparr>mdFamilyName = GetFamilyName sku, mdVCPUs = v, eligible = True\<rparr>))"

definition recordDeleteFromNodeClaim :: "(string \<Rightarrow> SKU option) \<Rightarrow> quotaProvider \<Rightarrow> time \<Rightarrow> nodeClaim
    \<Rightarrow> quotaProvider" where
  "recordDeleteFromNodeClaim getSKU p now nc =
     (if FromPtr (Labels nc CapacityTypeLabelKey) \<noteq> CapacityTypeOnDemand then p
      else case Annotations nc AnnotationCapacityReservationGroupID of
        None \<Rightarrow> p
      | Some capacityReservationGroupID \<Rightarrow>
          recordDelete p now nc
            (metadata getSKU (FromPtr (Labels nc LabelInstanceTypeStable)) CapacityTypeOnDemand
               (capacityReservationGroupID \<noteq> [])))"

lemma metadata_eligible:
  "eligible (metadata getSKU it capacityType reserved) \<longleftrightarrow>
     it \<noteq> [] \<and> capacityType = CapacityTypeOnDemand \<and> \<not> reserved \<and>
     (\<exists>sku v. getSKU it = Some sku \<and> VCPU sku = Some v \<and> GetFamilyName sku \<noteq> [])"
  by (auto simp: metadata_def noMetadata_def split: option.splits)

lemma metadata_fields:
  "eligible (metadata getSKU it capacityType reserved) \<Longrightarrow> getSKU it = Some sku \<Longrightarrow>
   mdFamilyName (metadata getSKU it capacityType reserved) = GetFamilyName sku \<and>
   VCPU sku = Some (mdVCPUs (metadata getSKU it capacityType reserved))"
  by (auto simp: metadata_def noMetadata_def split: option.splits if_splits)

text \<open>
  A launch that is spot or backed by a capacity reservation never touches the quota
  accounting, neither when it is created, nor when its promise is cleaned up, nor when its NodeClaim
  is deleted after the promise is gone.\<close>

theorem spot_and_reserved_bypass_quota:
  assumes "capacityType \<noteq> CapacityTypeOnDemand \<or> reserved"
    and "Labels nc CapacityTypeLabelKey = Some capacityType"
    and "Annotations nc AnnotationCapacityReservationGroupID = Some groupID" and "reserved = (groupID \<noteq> [])"
  shows "recordCreate p g nc (metadata getSKU it capacityType reserved) = p \<and>
    recordDelete p now nc (metadata getSKU it capacityType reserved) = p \<and>
    recordDeleteFromNodeClaim getSKU p now nc = p"
  using assms
  by (auto simp: recordCreate_def recordDelete_def recordDeleteFromNodeClaim_def metadata_eligible FromPtr_def)

theorem spot_and_reserved_bypass_quota_witness:
  "recordDeleteFromNodeClaim (\<lambda>_. None) NewProvider 0
     \<lparr>NCName = ''nc'', UID = ''1'', Labels = [CapacityTypeLabelKey \<mapsto> CapacityTypeSpot],
      Annotations = [AnnotationCapacityReservationGroupID \<mapsto> []]\<rparr> = NewProvider"
  using spot_and_reserved_bypass_quota [where capacityType = CapacityTypeSpot and groupID = "[]" and
    reserved = False and p = NewProvider and now = 0 and getSKU = "\<lambda>_. None" and
    nc = "\<lparr>NCName = ''nc'', UID = ''1'', Labels = [CapacityTypeLabelKey \<mapsto> CapacityTypeSpot],
      Annotations = [AnnotationCapacityReservationGroupID \<mapsto> []]\<rparr>"]
  by simp

definition launch_claim :: nodeClaim where
  "launch_claim = \<lparr>NCName = ''nc'', UID = ''1'',
     Labels = [CapacityTypeLabelKey \<mapsto> CapacityTypeOnDemand, LabelInstanceTypeStable \<mapsto> ''Standard_D4s_v5''],
     Annotations = [AnnotationCapacityReservationGroupID \<mapsto> []]\<rparr>"

text \<open>
  An on-demand launch outside a reservation is undone by the deletion of its NodeClaim even
  when the launch's promise is gone: the metadata rebuilt from the NodeClaim's labels is the
  metadata of the launch, so when the create was recorded the adjustments return to what they were.\<close>

theorem nodeClaim_delete_undoes_create:
  assumes "quota_reach n s" and "n < 2 ^ 64 - 1"
    and "RecordCreate (prov s) g nc (mdFamilyName md) (mdVCPUs md) = (p1, True)"
    and "md = metadata getSKU it CapacityTypeOnDemand False" and "eligible md"
    and "Labels nc CapacityTypeLabelKey = Some CapacityTypeOnDemand"
    and "Labels nc LabelInstanceTypeStable = Some it"
    and "Annotations nc AnnotationCapacityReservationGroupID = Some []"
  shows "adjustments (recordDeleteFromNodeClaim getSKU (recordCreate (prov s) g nc md) now nc) = adjustments (prov s)"
proof -
  have "recordCreate (prov s) g nc md = p1" using assms(3,5) by (simp add: recordCreate_def)
  moreover have "recordDeleteFromNodeClaim getSKU p1 now nc =
      fst (RecordDelete p1 now nc (mdFamilyName md) (mdVCPUs md))"
    using assms(4-8) by (simp add: recordDeleteFromNodeClaim_def recordDelete_def FromPtr_def)
  ultimately show ?thesis using RecordCreate_RecordDelete [OF assms(1-3)] by simp
qed

theorem nodeClaim_delete_undoes_create_witness:
  "adjustments (recordDeleteFromNodeClaim
     (\<lambda>_. Some \<lparr>GetName = ''Standard_D4s_v5'', GetFamilyName = ''standardDSv5Family'', VCPU = Some 4\<rparr>)
     (recordCreate (prov demo_ready) 1 launch_claim
        \<lparr>mdFamilyName = ''standardDSv5Family'', mdVCPUs = 4, eligible = True\<rparr>) Hour launch_claim) = []"
proof -
  let ?sku = "\<lparr>GetName = ''Standard_D4s_v5'', GetFamilyName = ''standardDSv5Family'', VCPU = Some 4\<rparr>"
  let ?md = "\<lparr>mdFamilyName = ''standardDSv5Family'', mdVCPUs = 4, eligible = True\<rparr>"
  have create: "RecordCreate (prov demo_ready) 1 launch_claim (mdFamilyName ?md) (mdVCPUs ?md) =
      (fst (RecordCreate (prov demo_ready) 1 launch_claim (mdFamilyName ?md) (mdVCPUs ?md)), True)"
    by (simp add: demo_simps launch_claim_def)
  have "?md = metadata (\<lambda>_. Some ?sku) ''Standard_D4s_v5'' CapacityTypeOnDemand False" by (simp add: metadata_def)
  from nodeClaim_delete_undoes_create [OF demo_ready_reach _ create this, of Hour] show ?thesis
    by (simp add: launch_claim_def label_defs AnnotationCapacityReservationGroupID_def)
       (simp add: demo_ready_def publishSnapshot_def beginRefresh_def NewProvider_def Let_def)
qed

end
