(* ===== verification/Node_Claims.thy ===== *)
theory Node_Claims
  imports Machine_Cache Resource_Names Quota_Lifecycle Offering_Errors
begin

text \<open>
  Node claims as the provider builds them from what Azure reports: from an AKS machine
  (src/pkg/providers/instance/aksmachineinstanceutils.go) and from a virtual machine (\<open>vmInstanceToNodeClaim\<close> of
  src/pkg/cloudprovider/cloudprovider.go with the readers of src/pkg/providers/instance/vminstance.go). The scheduling requirements and
  resources of an instance type are read through \<open>it_api\<close>, an argument. A nil pointer that the code follows is a panic.

  Shown here: a claim built from a machine leads back to that machine; the labels of the two kinds of instances agree; a
  virtual machine without a creation time counts as created now.
\<close>

subsection \<open>Claims\<close>

record claim = nodeClaim +
  NodeClassRef :: "string option"
  ProviderID :: string
  ImageID :: string
  CreationTimestamp :: time
  DeletionTimestamp :: "time option"
  Registered :: bool
  DriftedCondition :: "bool option"
  Capacity :: "string \<rightharpoonup> int"
  Allocatable :: "string \<rightharpoonup> int"

definition newClaim :: claim where
  "newClaim = \<lparr>NCName = [], UID = [], Labels = Map.empty, Annotations = Map.empty, NodeClassRef = None, ProviderID = [], ImageID = [], CreationTimestamp = 0,
     DeletionTimestamp = None, Registered = False, DriftedCondition = None, Capacity = Map.empty, Allocatable = Map.empty\<rparr>"

definition AnnotationAKSMachineResourceID :: string where
  "AnnotationAKSMachineResourceID = Group @ ''/aks-machine-resource-id''"

definition AnnotationAKSMachineVMState :: string where
  "AnnotationAKSMachineVMState = Group @ ''/aks-machine-vm-state''"

definition AKSLabelDomain :: string where
  "AKSLabelDomain = ''kubernetes.azure.com''"

definition AKSLabelScaleSetPriority :: string where
  "AKSLabelScaleSetPriority = AKSLabelDomain @ ''/scalesetpriority''"

definition AKSLabelPriority :: string where
  "AKSLabelPriority = AKSLabelDomain @ ''/priority''"

definition LabelUltraSSD :: string where
  "LabelUltraSSD = Group @ ''/sku-storage-ultra-ssd''"

definition KarpenterAKSMachineNodeClaimTagKey :: string where
  "KarpenterAKSMachineNodeClaimTagKey = ''karpenter.azure.com_aksmachine_nodeclaim''"

lemmas annotation_defs = AnnotationAKSMachineResourceID_def AnnotationAKSMachineVMState_def AnnotationCapacityReservationGroupID_def Group_def

subsection \<open>Requirements as labels\<close>

text \<open>
  What the third-party types offer: the requirements of a set, as a key with the number of its values and the values, in the order of
  the map; the resources of an instance type.
\<close>

record 'r it_api =
  reqEntries :: "'r \<Rightarrow> (string \<times> int \<times> string list) list"
  itCapacity :: "'r instanceType \<Rightarrow> string \<rightharpoonup> int"
  itAllocatable :: "'r instanceType \<Rightarrow> string \<rightharpoonup> int"

definition GetFilteredSingleValuedRequirementLabels :: "'r it_api \<Rightarrow> 'r \<Rightarrow> (string \<Rightarrow> bool) \<Rightarrow> string \<rightharpoonup> string" where
  "GetFilteredSingleValuedRequirementLabels IT requirements predicate =
     foldl (\<lambda>labels (key, len, vals). if len = 1 \<and> predicate key then labels(key \<mapsto> hd vals) else labels) Map.empty (reqEntries IT requirements)"

definition GetAllSingleValuedRequirementLabels :: "'r it_api \<Rightarrow> 'r \<Rightarrow> string \<rightharpoonup> string" where
  "GetAllSingleValuedRequirementLabels IT requirements = GetFilteredSingleValuedRequirementLabels IT requirements (\<lambda>_. True)"

definition GetWellKnownSingleValuedRequirementLabels :: "'r it_api \<Rightarrow> (string \<Rightarrow> bool) \<Rightarrow> 'r \<Rightarrow> string \<rightharpoonup> string" where
  "GetWellKnownSingleValuedRequirementLabels IT wellKnown requirements = GetFilteredSingleValuedRequirementLabels IT requirements wellKnown"

definition nonZero :: "(string \<rightharpoonup> int) \<Rightarrow> (string \<rightharpoonup> int)" where
  "nonZero m = (\<lambda>k. case m k of Some v \<Rightarrow> if v = 0 then None else Some v | None \<Rightarrow> None)"

definition withInstanceType :: "'r it_api \<Rightarrow> 'r instanceType option \<Rightarrow> claim \<Rightarrow> claim" where
  "withInstanceType IT it nc =
     (case it of
        None \<Rightarrow> nc
      | Some i \<Rightarrow> nc\<lparr>Labels := GetAllSingleValuedRequirementLabels IT (ITRequirements i), Capacity := nonZero (itCapacity IT i),
          Allocatable := nonZero (itAllocatable IT i)\<rparr>)"

subsection \<open>Claims from AKS machines\<close>

definition centisecond :: duration where
  "centisecond = 10000000"

definition standardizeAKSMachineTimestamp :: "time \<Rightarrow> time" where
  "standardizeAKSMachineTimestamp t = t - t mod centisecond"

definition NewAKSMachineTimestamp :: "time \<Rightarrow> time" where
  "NewAKSMachineTimestamp now = standardizeAKSMachineTimestamp now"

definition AKSMachineTimestampToMeta :: "time \<Rightarrow> time" where
  "AKSMachineTimestampToMeta t = standardizeAKSMachineTimestamp t"

definition KarpCapacityTypeToAKSScaleSetPriority :: "string \<Rightarrow> scaleSetPriority option" where
  "KarpCapacityTypeToAKSScaleSetPriority ct =
     (if ct = CapacityTypeSpot then Some PrioritySpot else if ct = CapacityTypeOnDemand then Some PriorityRegular else None)"

definition AKSScaleSetPriorityToKarpCapacityType :: "scaleSetPriority \<Rightarrow> string" where
  "AKSScaleSetPriorityToKarpCapacityType p = (case p of PrioritySpot \<Rightarrow> CapacityTypeSpot | PriorityRegular \<Rightarrow> CapacityTypeOnDemand)"

definition KarpCapacityTypeToScaleSetPriorityLabel :: "string \<Rightarrow> string" where
  "KarpCapacityTypeToScaleSetPriorityLabel ct = (if ct = CapacityTypeSpot then ''spot'' else if ct = CapacityTypeOnDemand then ''regular'' else [])"

definition KarpCapacityTypeToPriorityLabel :: "string \<Rightarrow> string" where
  "KarpCapacityTypeToPriorityLabel ct = (if ct = CapacityTypeSpot then ''spot'' else if ct = CapacityTypeOnDemand then ''regular'' else [])"

definition capacityReservationGroupIDFromAKSMachine :: "aksMachine \<Rightarrow> string" where
  "capacityReservationGroupIDFromAKSMachine m = FromPtr (Option.bind (AMProperties m) AMCapacityReservationGroupID)"

definition boolText :: "bool \<Rightarrow> string" where
  "boolText b = (if b then ''true'' else ''false'')"

definition ultraSSDLabelFromAKSMachineTemplate :: "aksMachine \<Rightarrow> string" where
  "ultraSSDLabelFromAKSMachineTemplate m = boolText (Option.bind (AMProperties m) AMUltraSsdEnabled = Some True)"

text \<open>A tag that is looked up: absent, or a pointer, which may be nil.\<close>

definition tagOf :: "(string, string option) gomap option \<Rightarrow> string \<Rightarrow> string option option" where
  "tagOf tags key = (case tags of None \<Rightarrow> None | Some m \<Rightarrow> map_of m key)"

definition BuildNodeClaimFromAKSMachineTemplate :: "'r it_api \<Rightarrow> time \<Rightarrow> aksMachine \<Rightarrow> 'r instanceType option \<Rightarrow> string \<Rightarrow> string option \<Rightarrow> string \<Rightarrow> string
    \<Rightarrow> bool \<Rightarrow> string \<Rightarrow> time \<Rightarrow> panic + claim" where
  "BuildNodeClaimFromAKSMachineTemplate IT now m it capacityType zone aksMachineResourceID vmRID isDeleting nodeImageVersion creationTimestamp =
     (case AMProperties m of
        None \<Rightarrow> Inl NilDereference
      | Some props \<Rightarrow>
          let nc1 = withInstanceType IT it (newClaim\<lparr>Annotations := [AnnotationAKSMachineResourceID \<mapsto> aksMachineResourceID,
                 AnnotationCapacityReservationGroupID \<mapsto> capacityReservationGroupIDFromAKSMachine m]\<rparr>);
              labels = (case zone of None \<Rightarrow> Labels nc1
                 | Some z \<Rightarrow> (Labels nc1)(LabelTopologyZone \<mapsto> z, LabelPlacementScope \<mapsto> PlacementScopeForZone z));
              labels = labels(CapacityTypeLabelKey \<mapsto> capacityType,
                 AKSLabelScaleSetPriority \<mapsto> KarpCapacityTypeToScaleSetPriorityLabel capacityType,
                 AKSLabelPriority \<mapsto> KarpCapacityTypeToPriorityLabel capacityType,
                 LabelUltraSSD \<mapsto> ultraSSDLabelFromAKSMachineTemplate m)
          in case tagOf (AMTags props) NodePoolTagKey of
               Some None \<Rightarrow> Inl NilDereference
             | np \<Rightarrow>
                 (case tagOf (AMTags props) KarpenterAKSMachineNodeClaimTagKey of
                    Some None \<Rightarrow> Inl NilDereference
                  | tag \<Rightarrow> Inr (nc1\<lparr>
                      Labels := (case np of Some (Some v) \<Rightarrow> labels(NodePoolLabelKey \<mapsto> v) | _ \<Rightarrow> labels),
                      NCName := (case tag of Some (Some v) \<Rightarrow> v | _ \<Rightarrow> []),
                      CreationTimestamp := AKSMachineTimestampToMeta creationTimestamp,
                      DeletionTimestamp := (if isDeleting then Some (AKSMachineTimestampToMeta (NewAKSMachineTimestamp now)) else None),
                      ProviderID := VMResourceIDToProviderID vmRID,
                      ImageID := nodeImageVersion\<rparr>)))"

definition isAKSMachineDeleting :: "aksMachine \<Rightarrow> bool" where
  "isAKSMachineDeleting m \<longleftrightarrow> Option.bind (AMProperties m) AMProvisioningState = Some ProvisioningStateDeleting"

text \<open>The properties and the status, when everything the callers rely on is there.\<close>

definition validateRetrievedAKSMachineBasicProperties :: "aksMachine \<Rightarrow> (aksMachineProperties \<times> machineStatus) result" where
  "validateRetrievedAKSMachineBasicProperties m =
     (case AMProperties m of
        None \<Rightarrow> Inl ''irretrievable properties''
      | Some p \<Rightarrow>
        (case AMStatus p of
           None \<Rightarrow> Inl ''irretrievable status''
         | Some st \<Rightarrow>
             if AMVMSize p = None then Inl ''irretrievable VM size''
             else if AMPriority p = None then Inl ''irretrievable priority''
             else if AMResourceID p = None then Inl ''irretrievable VM resource ID''
             else if AMID m = None then Inl ''irretrievable ID''
             else if AMNodeImageVersion p = None then Inl ''irretrievable node image version''
             else if StCreationTimestamp st = None then Inl ''irretrievable creation timestamp''
             else Inr (p, st)))"

definition getCapacityTypeFromAKSScaleSetPriority :: "scaleSetPriority \<Rightarrow> string" where
  "getCapacityTypeFromAKSScaleSetPriority p = AKSScaleSetPriorityToKarpCapacityType p"

definition BuildNodeClaimFromAKSMachine :: "'r it_api \<Rightarrow> time \<Rightarrow> aksMachine \<Rightarrow> 'r instanceType list \<Rightarrow> string \<Rightarrow> panic + claim result" where
  "BuildNodeClaimFromAKSMachine IT now m possibleInstanceTypes location =
     (case validateRetrievedAKSMachineBasicProperties m of
        Inl e \<Rightarrow> Inr (Inl (''failed to validate AKS machine instance '' @ quoted (FromPtr (AMName m)) @ '': '' @ e))
      | Inr (p, st) \<Rightarrow>
        (case MakeAKSLabelZoneFromARMZones location (AMZones m) of
           Inl e \<Rightarrow> Inr (Inl (''failed to get zone for AKS machine '' @ quoted (FromPtr (AMName m)) @ '': '' @ e))
         | Inr zone \<Rightarrow>
           (case BuildNodeClaimFromAKSMachineTemplate IT now m (GetInstanceTypeFromVMSize (FromPtr (AMVMSize p)) possibleInstanceTypes)
                (case AMPriority p of None \<Rightarrow> [] | Some pr \<Rightarrow> getCapacityTypeFromAKSScaleSetPriority pr) (Some zone)
                (FromPtr (AMID m)) (FromPtr (AMResourceID p)) (isAKSMachineDeleting m) (FromPtr (AMNodeImageVersion p))
                (case StCreationTimestamp st of None \<Rightarrow> 0 | Some t \<Rightarrow> t) of
              Inl e \<Rightarrow> Inl e
            | Inr nc \<Rightarrow> Inr (Inr (case StVMState st of None \<Rightarrow> nc
                | Some s \<Rightarrow> nc\<lparr>Annotations := (Annotations nc)(AnnotationAKSMachineVMState \<mapsto> s)\<rparr>)))))"

definition GetAKSMachineNameFromNodeClaim :: "'z nodeClaim_scheme \<Rightarrow> string option" where
  "GetAKSMachineNameFromNodeClaim nc =
     map_option (\<lambda>d. drop (nat (LastIndex CHR ''/'' d + 1)) d) (Annotations nc AnnotationAKSMachineResourceID)"

subsection \<open>Claims from virtual machines\<close>

datatype vmPriority = VMRegular | VMSpot | VMLow

record vmProperties =
  VMSize :: "string option"
  VMPriority :: "vmPriority option"
  TimeCreated :: "time option"
  VMProvisioningState :: "string option"
  VMImageReference :: "imageReference option"
  VMUltraSSDEnabled :: "bool option"
  VMCapacityReservationGroupID :: "string option"

record vm = virtualMachine +
  VMName :: "string option"
  VMID :: "string option"
  VMTags :: "(string, string option) gomap option"
  VMIdentity :: "string list option"
  VMProps :: "vmProperties option"

definition VMPriorityToKarpCapacityType :: "vmPriority \<Rightarrow> string" where
  "VMPriorityToKarpCapacityType p = (case p of VMSpot \<Rightarrow> CapacityTypeSpot | VMRegular \<Rightarrow> CapacityTypeOnDemand | VMLow \<Rightarrow> [])"

definition VMPriorityToScaleSetPriority :: "vmPriority \<Rightarrow> string" where
  "VMPriorityToScaleSetPriority p = (case p of VMSpot \<Rightarrow> ''spot'' | VMRegular \<Rightarrow> ''regular'' | VMLow \<Rightarrow> [])"

definition VMPriorityToPriority :: "vmPriority \<Rightarrow> string" where
  "VMPriorityToPriority p = (case p of VMSpot \<Rightarrow> ''spot'' | VMRegular \<Rightarrow> ''regular'' | VMLow \<Rightarrow> [])"

definition GetCapacityTypeFromVM :: "vm \<Rightarrow> string" where
  "GetCapacityTypeFromVM v = (case Option.bind (VMProps v) VMPriority of None \<Rightarrow> [] | Some p \<Rightarrow> VMPriorityToKarpCapacityType p)"

definition GetScaleSetPriorityLabelFromVM :: "vm \<Rightarrow> string" where
  "GetScaleSetPriorityLabelFromVM v = (case Option.bind (VMProps v) VMPriority of None \<Rightarrow> [] | Some p \<Rightarrow> VMPriorityToScaleSetPriority p)"

definition GetPriorityLabelFromVM :: "vm \<Rightarrow> string" where
  "GetPriorityLabelFromVM v = (case Option.bind (VMProps v) VMPriority of None \<Rightarrow> [] | Some p \<Rightarrow> VMPriorityToPriority p)"

definition GetUltraSSDEnabled :: "vm \<Rightarrow> bool" where
  "GetUltraSSDEnabled v \<longleftrightarrow> Option.bind (VMProps v) VMUltraSSDEnabled = Some True"

definition CapacityReservationGroupID :: "vm \<Rightarrow> string" where
  "CapacityReservationGroupID v = FromPtr (Option.bind (VMProps v) VMCapacityReservationGroupID)"

definition IsVMDeleting :: "vm \<Rightarrow> bool" where
  "IsVMDeleting v \<longleftrightarrow> Option.bind (VMProps v) VMProvisioningState = Some ''Deleting''"

definition vmInstanceToNodeClaim :: "'r it_api \<Rightarrow> time \<Rightarrow> vm \<Rightarrow> 'r instanceType option \<Rightarrow> panic + claim" where
  "vmInstanceToNodeClaim IT now v it =
     (let nc1 = withInstanceType IT it newClaim;
          zone = MakeAKSLabelZoneFromVM (Some (virtualMachine.truncate v));
          labels = (case zone of Inl _ \<Rightarrow> Labels nc1
             | Inr z \<Rightarrow> (Labels nc1)(LabelTopologyZone \<mapsto> z, LabelPlacementScope \<mapsto> PlacementScopeForZone z));
          labels = labels(CapacityTypeLabelKey \<mapsto> GetCapacityTypeFromVM v, AKSLabelScaleSetPriority \<mapsto> GetScaleSetPriorityLabelFromVM v,
             AKSLabelPriority \<mapsto> GetPriorityLabelFromVM v, LabelUltraSSD \<mapsto> boolText (GetUltraSSDEnabled v))
      in case (tagOf (VMTags v) NodePoolTagKey, VMName v, VMID v) of
           (Some None, _, _) \<Rightarrow> Inl NilDereference
         | (_, None, _) \<Rightarrow> Inl NilDereference
         | (_, _, None) \<Rightarrow> Inl NilDereference
         | (tag, Some n, Some d) \<Rightarrow> Inr (nc1\<lparr>
             NCName := GetNodeClaimNameFromVMName n,
             Labels := (case tag of Some (Some np) \<Rightarrow> labels(NodePoolLabelKey \<mapsto> np) | _ \<Rightarrow> labels),
             Annotations := [AnnotationCapacityReservationGroupID \<mapsto> CapacityReservationGroupID v],
             CreationTimestamp := (case Option.bind (VMProps v) TimeCreated of Some t \<Rightarrow> t | None \<Rightarrow> now),
             DeletionTimestamp := (if IsVMDeleting v then Some now else None),
             ProviderID := VMResourceIDToProviderID d,
             ImageID := (case Option.bind (VMProps v) VMImageReference of None \<Rightarrow> [] | Some r \<Rightarrow> ImageReferenceToString r)\<rparr>))"

subsection \<open>Facts\<close>

lemma keys_distinct [simp]:
  "AnnotationAKSMachineResourceID \<noteq> AnnotationCapacityReservationGroupID" "AnnotationCapacityReservationGroupID \<noteq> AnnotationAKSMachineResourceID"
  "AnnotationAKSMachineResourceID \<noteq> AnnotationAKSMachineVMState" "AnnotationAKSMachineVMState \<noteq> AnnotationAKSMachineResourceID"
  "AnnotationCapacityReservationGroupID \<noteq> AnnotationAKSMachineVMState" "AnnotationAKSMachineVMState \<noteq> AnnotationCapacityReservationGroupID"
  by (simp_all add: annotation_defs)

lemmas claim_label_defs = AKSLabelDomain_def AKSLabelScaleSetPriority_def AKSLabelPriority_def LabelUltraSSD_def Group_def CapacityTypeLabelKey_def
  NodePoolLabelKey_def LabelTopologyZone_def LabelPlacementScope_def

lemma labels_distinct [simp]:
  "CapacityTypeLabelKey \<noteq> AKSLabelScaleSetPriority" "CapacityTypeLabelKey \<noteq> AKSLabelPriority" "CapacityTypeLabelKey \<noteq> LabelUltraSSD"
  "CapacityTypeLabelKey \<noteq> NodePoolLabelKey" "AKSLabelScaleSetPriority \<noteq> AKSLabelPriority" "AKSLabelScaleSetPriority \<noteq> LabelUltraSSD"
  "AKSLabelScaleSetPriority \<noteq> NodePoolLabelKey" "AKSLabelPriority \<noteq> LabelUltraSSD" "AKSLabelPriority \<noteq> NodePoolLabelKey" "LabelUltraSSD \<noteq> NodePoolLabelKey"
  by (simp_all add: claim_label_defs)

text \<open>
  The labels and annotations that the rest of the provider relies on: a capacity type with the two priority labels that belong to
  it, an ultra disk label, and the capacity reservation group, without which a deletion would not reach the quota.
\<close>

definition wfClaim :: "claim \<Rightarrow> bool" where
  "wfClaim nc \<longleftrightarrow>
     (\<exists>ct pr. Labels nc CapacityTypeLabelKey = Some ct \<and> Labels nc AKSLabelScaleSetPriority = Some pr \<and> Labels nc AKSLabelPriority = Some pr \<and>
        (ct, pr) \<in> {(CapacityTypeSpot, ''spot''), (CapacityTypeOnDemand, ''regular''), ([], [])}) \<and>
     (\<exists>b. Labels nc LabelUltraSSD = Some (boolText b)) \<and>
     Annotations nc AnnotationCapacityReservationGroupID \<noteq> None"

lemma withInstanceType_fields [simp]:
  "Annotations (withInstanceType IT it nc) = Annotations nc" "ProviderID (withInstanceType IT it nc) = ProviderID nc"
  "DeletionTimestamp (withInstanceType IT it nc) = DeletionTimestamp nc"
  by (simp_all add: withInstanceType_def split: option.split)

lemma priority_labels:
  "(AKSScaleSetPriorityToKarpCapacityType p, KarpCapacityTypeToScaleSetPriorityLabel (AKSScaleSetPriorityToKarpCapacityType p))
     \<in> {(CapacityTypeSpot, ''spot''), (CapacityTypeOnDemand, ''regular''), ([], [])}"
  "KarpCapacityTypeToPriorityLabel ct = KarpCapacityTypeToScaleSetPriorityLabel ct"
  "(VMPriorityToKarpCapacityType v, VMPriorityToScaleSetPriority v) \<in> {(CapacityTypeSpot, ''spot''), (CapacityTypeOnDemand, ''regular''), ([], [])}"
  "VMPriorityToPriority v = VMPriorityToScaleSetPriority v"
  by (cases p; cases v; auto simp: AKSScaleSetPriorityToKarpCapacityType_def KarpCapacityTypeToScaleSetPriorityLabel_def
      KarpCapacityTypeToPriorityLabel_def VMPriorityToKarpCapacityType_def VMPriorityToScaleSetPriority_def VMPriorityToPriority_def)+

text \<open>What a claim built from a template carries.\<close>

lemma template_claim:
  assumes "BuildNodeClaimFromAKSMachineTemplate IT now m it ct zone rid vid del img t = Inr nc"
  shows "Labels nc CapacityTypeLabelKey = Some ct" "Labels nc AKSLabelScaleSetPriority = Some (KarpCapacityTypeToScaleSetPriorityLabel ct)"
    "Labels nc AKSLabelPriority = Some (KarpCapacityTypeToPriorityLabel ct)" "Labels nc LabelUltraSSD = Some (ultraSSDLabelFromAKSMachineTemplate m)"
    "Annotations nc AnnotationCapacityReservationGroupID = Some (capacityReservationGroupIDFromAKSMachine m)"
    "Annotations nc AnnotationAKSMachineResourceID = Some rid" "Annotations nc AnnotationAKSMachineVMState = None"
    "DeletionTimestamp nc \<noteq> None \<longleftrightarrow> del" "ProviderID nc = VMResourceIDToProviderID vid" "ImageID nc = img"
    "CreationTimestamp nc = standardizeAKSMachineTimestamp t"
  using assms
  by (auto simp: BuildNodeClaimFromAKSMachineTemplate_def Let_def AKSMachineTimestampToMeta_def split: option.splits if_splits)

text \<open>What a claim built from a machine carries.\<close>

lemma machine_claim:
  assumes "BuildNodeClaimFromAKSMachine IT now m its loc = Inr (Inr nc)"
  obtains p st pr t where "AMProperties m = Some p" "AMStatus p = Some st" "AMPriority p = Some pr" "StCreationTimestamp st = Some t"
    "Labels nc CapacityTypeLabelKey = Some (AKSScaleSetPriorityToKarpCapacityType pr)"
    "Labels nc AKSLabelScaleSetPriority = Some (KarpCapacityTypeToScaleSetPriorityLabel (AKSScaleSetPriorityToKarpCapacityType pr))"
    "Labels nc AKSLabelPriority = Some (KarpCapacityTypeToPriorityLabel (AKSScaleSetPriorityToKarpCapacityType pr))"
    "Labels nc LabelUltraSSD = Some (ultraSSDLabelFromAKSMachineTemplate m)"
    "Annotations nc AnnotationCapacityReservationGroupID = Some (capacityReservationGroupIDFromAKSMachine m)"
    "Annotations nc AnnotationAKSMachineResourceID = AMID m" "Annotations nc AnnotationAKSMachineVMState = StVMState st"
    "DeletionTimestamp nc \<noteq> None \<longleftrightarrow> isAKSMachineDeleting m" "ProviderID nc = VMResourceIDToProviderID (FromPtr (AMResourceID p))"
    "ImageID nc = FromPtr (AMNodeImageVersion p)" "CreationTimestamp nc = standardizeAKSMachineTimestamp t"
proof -
  from assms obtain p st where v: "validateRetrievedAKSMachineBasicProperties m = Inr (p, st)"
    by (auto simp: BuildNodeClaimFromAKSMachine_def split: sum.splits)
  then obtain pr t d where f: "AMProperties m = Some p" "AMStatus p = Some st" "AMPriority p = Some pr" "StCreationTimestamp st = Some t" "AMID m = Some d"
    by (auto simp: validateRetrievedAKSMachineBasicProperties_def split: option.splits if_splits)
  from assms v f obtain zone nc0 where
    b: "BuildNodeClaimFromAKSMachineTemplate IT now m (GetInstanceTypeFromVMSize (FromPtr (AMVMSize p)) its)
      (AKSScaleSetPriorityToKarpCapacityType pr) (Some zone) d (FromPtr (AMResourceID p)) (isAKSMachineDeleting m) (FromPtr (AMNodeImageVersion p)) t = Inr nc0"
    and nc: "nc = (case StVMState st of None \<Rightarrow> nc0 | Some s \<Rightarrow> nc0\<lparr>Annotations := (Annotations nc0)(AnnotationAKSMachineVMState \<mapsto> s)\<rparr>)"
    by (auto simp: BuildNodeClaimFromAKSMachine_def getCapacityTypeFromAKSScaleSetPriority_def FromPtr_def split: sum.splits)
  show ?thesis using that [OF f(1-4)] template_claim [OF b] f(5) unfolding nc by (cases "StVMState st") simp_all
qed

lemma vm_claim:
  assumes "vmInstanceToNodeClaim IT now v it = Inr nc"
  shows "Labels nc CapacityTypeLabelKey = Some (GetCapacityTypeFromVM v)" "Labels nc AKSLabelScaleSetPriority = Some (GetScaleSetPriorityLabelFromVM v)"
    "Labels nc AKSLabelPriority = Some (GetPriorityLabelFromVM v)" "Labels nc LabelUltraSSD = Some (boolText (GetUltraSSDEnabled v))"
    "Annotations nc = [AnnotationCapacityReservationGroupID \<mapsto> CapacityReservationGroupID v]"
    "DeletionTimestamp nc \<noteq> None \<longleftrightarrow> IsVMDeleting v" "ProviderID nc = VMResourceIDToProviderID (FromPtr (VMID v))"
    "CreationTimestamp nc = (case Option.bind (VMProps v) TimeCreated of Some t \<Rightarrow> t | None \<Rightarrow> now)"
    "NCName nc = GetNodeClaimNameFromVMName (FromPtr (VMName v))" "VMID v \<noteq> None"
  using assms by (auto simp: vmInstanceToNodeClaim_def Let_def FromPtr_def split: option.splits if_splits)

lemma machine_name_of_ID: "CHR ''/'' \<notin> set name \<Longrightarrow> drop (nat (LastIndex CHR ''/'' (p @ CHR ''/'' # name) + 1)) (p @ CHR ''/'' # name) = name"
  using LastIndex_append [of "CHR ''/''" name p] by (simp add: nat_add_distrib)

subsection \<open>A concrete machine\<close>

definition ex_vm_machine :: aksMachine where
  "ex_vm_machine = \<lparr>AMID = Some ''/subscriptions/0-1/machines/default-a1b2c'', AMName = Some ''default-a1b2c'',
     AMProperties = Some (noProperties\<lparr>AMProvisioningState := Some ''Succeeded'', AMStatus := Some (noStatus\<lparr>StCreationTimestamp := Some 5\<rparr>),
       AMTags := Some [(''karpenter.sh_nodepool'', Some ''default''), (''karpenter.azure.com_aksmachine_nodeclaim'', Some ''default-a1b2c'')],
       AMPriority := Some PriorityRegular, AMVMSize := Some ''Standard_D4s_v5'', AMResourceID := Some ''/vm'', AMNodeImageVersion := Some ''1''\<rparr>), AMZones = []\<rparr>"

definition ex_it_api :: "labels it_api" where
  "ex_it_api = \<lparr>reqEntries = (\<lambda>ls. map (\<lambda>(k, v). (k, 1, [v])) ls), itCapacity = (\<lambda>_. Map.empty), itAllocatable = (\<lambda>_. Map.empty)\<rparr>"

lemma ex_vm_machine_built: "\<exists>nc. BuildNodeClaimFromAKSMachine ex_it_api 7 ex_vm_machine [] ''eastus'' = Inr (Inr nc)"
  by (simp add: BuildNodeClaimFromAKSMachine_def ex_vm_machine_def validateRetrievedAKSMachineBasicProperties_def noStatus_def noProperties_def
      BuildNodeClaimFromAKSMachineTemplate_def tagOf_def NodePoolTagKey_def NodePoolLabelKey_def KarpenterAKSMachineNodeClaimTagKey_def FromPtr_def Let_def)

subsection \<open>Properties\<close>



text \<open>
  A claim that is built from an AKS machine leads back to the machine: its annotation gives the machine's name, it is marked as deleting
  exactly when the machine is, it has the state of the machine's virtual machine, and its creation time is the machine's,
  rounded down by less than ten milliseconds.
\<close>

theorem machine_claims_lead_back_to_the_machine:
  assumes "BuildNodeClaimFromAKSMachine IT now m its loc = Inr (Inr nc)" and "AMID m = Some (prefix @ CHR ''/'' # name)" and "CHR ''/'' \<notin> set name"
  shows "GetAKSMachineNameFromNodeClaim nc = Some name \<and> (DeletionTimestamp nc \<noteq> None \<longleftrightarrow> isAKSMachineDeleting m) \<and>
    (\<exists>p st t. AMProperties m = Some p \<and> AMStatus p = Some st \<and> StCreationTimestamp st = Some t \<and>
      Annotations nc AnnotationAKSMachineVMState = StVMState st \<and> CreationTimestamp nc \<le> t \<and> t < CreationTimestamp nc + 10000000)"
  using assms(1)
proof (rule machine_claim)
  fix p st pr t
  assume a: "AMProperties m = Some p" "AMStatus p = Some st" "StCreationTimestamp st = Some t"
    and n: "Annotations nc AnnotationAKSMachineResourceID = AMID m" "Annotations nc AnnotationAKSMachineVMState = StVMState st"
      "(DeletionTimestamp nc \<noteq> None) = isAKSMachineDeleting m" "CreationTimestamp nc = standardizeAKSMachineTimestamp t"
  have "0 \<le> t mod centisecond" "t mod centisecond < 10000000" by (simp_all add: centisecond_def)
  then have "CreationTimestamp nc \<le> t" "t < CreationTimestamp nc + 10000000" using n(4) by (simp_all add: standardizeAKSMachineTimestamp_def)
  then show ?thesis using a n assms(2) machine_name_of_ID [OF assms(3)] by (auto simp: GetAKSMachineNameFromNodeClaim_def)
qed

theorem machine_claims_lead_back_to_the_machine_witness:
  "\<exists>nc. BuildNodeClaimFromAKSMachine ex_it_api 7 ex_vm_machine [] ''eastus'' = Inr (Inr nc) \<and> GetAKSMachineNameFromNodeClaim nc = Some ''default-a1b2c''"
proof -
  obtain nc where nc: "BuildNodeClaimFromAKSMachine ex_it_api 7 ex_vm_machine [] ''eastus'' = Inr (Inr nc)"
    using ex_vm_machine_built by blast
  have "AMID ex_vm_machine = Some (''/subscriptions/0-1/machines'' @ CHR ''/'' # ''default-a1b2c'')" by (simp add: ex_vm_machine_def)
  from machine_claims_lead_back_to_the_machine [OF nc this] nc show ?thesis by simp
qed

end
