(* ===== verification/Drift.thy ===== *)
theory Drift
  imports Node_Images Node_Claims
begin

text \<open>
  When a node has drifted from its class (src/pkg/cloudprovider/drift.go). The node of a claim, the AKS machine of a claim and
  the kubelet identity of the options are arguments. A drift reason is a string, empty for no drift.

  Shown here: which fact stands behind every reason; a node of an unready class is never replaced for its version or
  image; while the maintenance window is closed, updating the images of a class causes no image drift.
\<close>

definition NodeClassDrift :: string where
  "NodeClassDrift = ''NodeClassDrift''"

definition K8sVersionDrift :: string where
  "K8sVersionDrift = ''K8sVersionDrift''"

definition ImageDrift :: string where
  "ImageDrift = ''ImageDrift''"

definition KubeletIdentityDrift :: string where
  "KubeletIdentityDrift = ''KubeletIdentityDrift''"

definition ClusterConfigDrift :: string where
  "ClusterConfigDrift = ''ClusterConfigDrift''"

lemmas reason_defs = NodeClassDrift_def K8sVersionDrift_def ImageDrift_def KubeletIdentityDrift_def ClusterConfigDrift_def

definition AnnotationAKSNodeClassHash :: string where
  "AnnotationAKSNodeClassHash = Group @ ''/aksnodeclass-hash''"

definition AnnotationAKSNodeClassHashVersion :: string where
  "AnnotationAKSNodeClassHashVersion = Group @ ''/aksnodeclass-hash-version''"

definition AKSLabelKubeletIdentityClientID :: string where
  "AKSLabelKubeletIdentityClientID = AKSLabelDomain @ ''/kubelet-identity-client-id''"

record node =
  NodeLabels :: "string \<rightharpoonup> string"
  KubeletVersion :: string
  NodeDeletionTimestamp :: "time option"

text \<open>What \<open>NodeForNodeClaim\<close> of Karpenter answers.\<close>

datatype node_lookup = FoundNode node | NodeNotFound error | DuplicateNode error | LookupFailed error

definition getNodeForDrift :: "node_lookup \<Rightarrow> node option result" where
  "getNodeForDrift lookup =
     (case lookup of
        NodeNotFound _ \<Rightarrow> Inr None
      | DuplicateNode e \<Rightarrow> Inl e
      | LookupFailed e \<Rightarrow> Inl e
      | FoundNode n \<Rightarrow> if NodeDeletionTimestamp n \<noteq> None then Inr None else Inr (Some n))"

subsection \<open>The checks\<close>

definition areStaticFieldsDrifted :: "claim \<Rightarrow> 'c nodeClass \<Rightarrow> string result" where
  "areStaticFieldsDrifted nodeClaim nc =
     (case (ClassAnnotations nc AnnotationAKSNodeClassHash, Annotations nodeClaim AnnotationAKSNodeClassHash,
            ClassAnnotations nc AnnotationAKSNodeClassHashVersion, Annotations nodeClaim AnnotationAKSNodeClassHashVersion) of
        (Some nodeClassHash, Some nodeClaimHash, Some nodeClassHashVersion, Some nodeClaimHashVersion) \<Rightarrow>
          if nodeClassHashVersion \<noteq> nodeClaimHashVersion then Inr []
          else if nodeClassHash \<noteq> nodeClaimHash then Inr NodeClassDrift
          else Inr []
      | _ \<Rightarrow> Inr [])"

definition isK8sVersionDrifted :: "'c condition_api \<Rightarrow> node_lookup \<Rightarrow> 'c nodeClass \<Rightarrow> string result" where
  "isK8sVersionDrifted CA lookup nc =
     (case GetKubernetesVersion CA (Some nc) of
        Inl _ \<Rightarrow> Inr []
      | Inr k8sVersion \<Rightarrow>
          (case getNodeForDrift lookup of
             Inl e \<Rightarrow> Inl e
           | Inr None \<Rightarrow> Inr []
           | Inr (Some n) \<Rightarrow> if TrimPrefix (KubeletVersion n) ''v'' \<noteq> k8sVersion then Inr K8sVersionDrift else Inr []))"

text \<open>An image of a gallery that is not supported is skipped.\<close>

fun machineImageAvailable :: "string \<Rightarrow> nodeImage list \<Rightarrow> bool" where
  "machineImageAvailable imageID [] = False"
| "machineImageAvailable imageID (availableImage # images) =
     (case GetAKSMachineNodeImageVersionFromImageID (ImageIDOf availableImage) of
        Inl _ \<Rightarrow> machineImageAvailable imageID images
      | Inr v \<Rightarrow> if v = imageID then True else machineImageAvailable imageID images)"

definition isImageVersionDrifted :: "'c condition_api \<Rightarrow> claim \<Rightarrow> 'c nodeClass \<Rightarrow> string result" where
  "isImageVersionDrifted CA nodeClaim nc =
     (case GetImages CA (Some nc) of
        Inl _ \<Rightarrow> Inr []
      | Inr nodeImages \<Rightarrow>
          if nodeImages = [] then Inl ''no images exist for the given constraints''
          else if ImageID nodeClaim = [] then Inl ''no image ID found in nodeClaim status''
          else if (if GetAKSMachineNameFromNodeClaim nodeClaim \<noteq> None then machineImageAvailable (ImageID nodeClaim) nodeImages
                   else list_ex (\<lambda>i. ImageIDOf i = ImageID nodeClaim) nodeImages)
          then Inr [] else Inr ImageDrift)"

definition isKubeletIdentityDrifted :: "string \<Rightarrow> node_lookup \<Rightarrow> string result" where
  "isKubeletIdentityDrifted expected lookup =
     (case getNodeForDrift lookup of
        Inl e \<Rightarrow> Inl e
      | Inr None \<Rightarrow> Inr []
      | Inr (Some n) \<Rightarrow>
          let kubeletIdentityClientID = FromPtr (NodeLabels n AKSLabelKubeletIdentityClientID) in
          if kubeletIdentityClientID = [] then Inr []
          else if kubeletIdentityClientID \<noteq> expected then Inr KubeletIdentityDrift
          else Inr [])"

definition isMachineDrifted :: "(string \<Rightarrow> aksMachine option result) \<Rightarrow> claim \<Rightarrow> string result" where
  "isMachineDrifted getMachine nodeClaim =
     (case GetAKSMachineNameFromNodeClaim nodeClaim of
        None \<Rightarrow> Inr []
      | Some name \<Rightarrow>
          (case getMachine name of
             Inl e \<Rightarrow> Inl e
           | Inr None \<Rightarrow> Inl (''AKS machine with name '' @ name @ '' not found'')
           | Inr (Some m) \<Rightarrow>
               (case Option.bind (Option.bind (AMProperties m) AMStatus) StDriftAction of
                  None \<Rightarrow> Inr []
                | Some action \<Rightarrow> if action = [] \<or> action = ''Synced'' then Inr [] else Inr ClusterConfigDrift)))"

subsection \<open>All checks\<close>

fun firstDrift :: "string result list \<Rightarrow> string result" where
  "firstDrift [] = Inr []"
| "firstDrift (Inl e # rs) = Inl e"
| "firstDrift (Inr reason # rs) = (if reason \<noteq> [] then Inr reason else firstDrift rs)"

definition isNodeClassDrifted :: "'c condition_api \<Rightarrow> string \<Rightarrow> node_lookup \<Rightarrow> (string \<Rightarrow> aksMachine option result) \<Rightarrow> claim option \<Rightarrow> 'c nodeClass
    \<Rightarrow> panic + string result" where
  "isNodeClassDrifted CA kubeletIdentity lookup getMachine nodeClaim nc =
     (case nodeClaim of
        None \<Rightarrow> Inl NilDereference
      | Some nodeClaim \<Rightarrow>
          if ProviderID nodeClaim = [] then Inr (Inl (''nodeclaim '' @ NCName nodeClaim @ '' is missing provider ID''))
          else if GetAKSMachineNameFromNodeClaim nodeClaim \<noteq> None then
            Inr (firstDrift [areStaticFieldsDrifted nodeClaim nc, isK8sVersionDrifted CA lookup nc, isImageVersionDrifted CA nodeClaim nc,
              isMachineDrifted getMachine nodeClaim])
          else
            Inr (firstDrift [areStaticFieldsDrifted nodeClaim nc, isK8sVersionDrifted CA lookup nc, isKubeletIdentityDrifted kubeletIdentity lookup,
              isImageVersionDrifted CA nodeClaim nc]))"

subsection \<open>Facts\<close>

lemma firstDrift_Inr: "firstDrift rs = Inr r \<Longrightarrow> r \<noteq> [] \<Longrightarrow> Inr r \<in> set rs"
  by (induction rs rule: firstDrift.induct) (auto split: if_splits)

lemma machineImageAvailable_iff:
  "machineImageAvailable d images \<longleftrightarrow> (\<exists>i \<in> set images. GetAKSMachineNodeImageVersionFromImageID (ImageIDOf i) = Inr d)"
  by (induction images) (auto split: sum.splits)

lemma static_drift: "areStaticFieldsDrifted nodeClaim nc = Inr r \<Longrightarrow> r \<noteq> [] \<Longrightarrow>
    r = NodeClassDrift \<and> (\<exists>h h' v. ClassAnnotations nc AnnotationAKSNodeClassHash = Some h \<and> Annotations nodeClaim AnnotationAKSNodeClassHash = Some h' \<and>
      h \<noteq> h' \<and> ClassAnnotations nc AnnotationAKSNodeClassHashVersion = Some v \<and> Annotations nodeClaim AnnotationAKSNodeClassHashVersion = Some v)"
  by (auto simp: areStaticFieldsDrifted_def split: option.splits if_splits)

lemma k8s_drift: "isK8sVersionDrifted CA lookup nc = Inr r \<Longrightarrow> r \<noteq> [] \<Longrightarrow>
    r = K8sVersionDrift \<and> (\<exists>v n. GetKubernetesVersion CA (Some nc) = Inr v \<and> lookup = FoundNode n \<and> NodeDeletionTimestamp n = None \<and>
      TrimPrefix (KubeletVersion n) ''v'' \<noteq> v)"
  by (auto simp: isK8sVersionDrifted_def getNodeForDrift_def split: sum.splits option.splits if_splits node_lookup.splits)

lemma image_drift: "isImageVersionDrifted CA nodeClaim nc = Inr r \<Longrightarrow> r \<noteq> [] \<Longrightarrow>
    r = ImageDrift \<and> (\<exists>images. GetImages CA (Some nc) = Inr images \<and> images \<noteq> [] \<and>
      (\<forall>i \<in> set images. if GetAKSMachineNameFromNodeClaim nodeClaim = None then ImageIDOf i \<noteq> ImageID nodeClaim
         else GetAKSMachineNodeImageVersionFromImageID (ImageIDOf i) \<noteq> Inr (ImageID nodeClaim)))"
  by (auto simp: isImageVersionDrifted_def machineImageAvailable_iff list_ex_iff split: sum.splits if_splits)

lemma identity_drift: "isKubeletIdentityDrifted expected lookup = Inr r \<Longrightarrow> r \<noteq> [] \<Longrightarrow>
    r = KubeletIdentityDrift \<and> (\<exists>n d. lookup = FoundNode n \<and> NodeDeletionTimestamp n = None \<and> NodeLabels n AKSLabelKubeletIdentityClientID = Some d \<and>
      d \<noteq> [] \<and> d \<noteq> expected)"
  by (auto simp: isKubeletIdentityDrifted_def getNodeForDrift_def FromPtr_def Let_def split: sum.splits option.splits if_splits node_lookup.splits)

lemma machine_drift: "isMachineDrifted getMachine nodeClaim = Inr r \<Longrightarrow> r \<noteq> [] \<Longrightarrow>
    r = ClusterConfigDrift \<and> (\<exists>name m action. GetAKSMachineNameFromNodeClaim nodeClaim = Some name \<and> getMachine name = Inr (Some m) \<and>
      Option.bind (Option.bind (AMProperties m) AMStatus) StDriftAction = Some action \<and> action \<notin> {[], ''Synced''})"
  by (auto simp: isMachineDrifted_def split: sum.splits option.splits if_splits)

lemma reasons_distinct [simp]: "distinct [NodeClassDrift, K8sVersionDrift, ImageDrift, KubeletIdentityDrift, ClusterConfigDrift]"
  by (simp add: reason_defs)

subsection \<open>Properties\<close>

text \<open>
  C15: Every reported drift has its cause. NodeClassDrift: the hashes of class and claim differ and were made by the same version of
  the hash. K8sVersionDrift: the class is ready with a version, and the node, which is not being deleted, runs another one.
  ImageDrift: the images of the class are ready and none of them is the claim's. KubeletIdentityDrift: the claim is not an AKS
  machine and its node carries another identity than the options. ClusterConfigDrift: the claim is an AKS machine whose
  drift action is neither empty nor Synced. There is no other reason.
\<close>

theorem drift_reasons_are_real:
  assumes "isNodeClassDrifted CA kubeletIdentity lookup getMachine (Some nodeClaim) nc = Inr (Inr r)" and "r \<noteq> []"
  shows "r = NodeClassDrift \<and> (\<exists>h h' v. ClassAnnotations nc AnnotationAKSNodeClassHash = Some h \<and>
        Annotations nodeClaim AnnotationAKSNodeClassHash = Some h' \<and> h \<noteq> h' \<and>
        ClassAnnotations nc AnnotationAKSNodeClassHashVersion = Some v \<and> Annotations nodeClaim AnnotationAKSNodeClassHashVersion = Some v) \<or>
    r = K8sVersionDrift \<and> (\<exists>v n. GetKubernetesVersion CA (Some nc) = Inr v \<and> lookup = FoundNode n \<and> NodeDeletionTimestamp n = None \<and>
        TrimPrefix (KubeletVersion n) ''v'' \<noteq> v) \<or>
    r = ImageDrift \<and> (\<exists>images. GetImages CA (Some nc) = Inr images \<and> images \<noteq> [] \<and>
        (\<forall>i \<in> set images. if GetAKSMachineNameFromNodeClaim nodeClaim = None then ImageIDOf i \<noteq> ImageID nodeClaim
           else GetAKSMachineNodeImageVersionFromImageID (ImageIDOf i) \<noteq> Inr (ImageID nodeClaim))) \<or>
    r = KubeletIdentityDrift \<and> GetAKSMachineNameFromNodeClaim nodeClaim = None \<and>
        (\<exists>n d. lookup = FoundNode n \<and> NodeDeletionTimestamp n = None \<and> NodeLabels n AKSLabelKubeletIdentityClientID = Some d \<and>
          d \<noteq> [] \<and> d \<noteq> kubeletIdentity) \<or>
    r = ClusterConfigDrift \<and> (\<exists>name m action. GetAKSMachineNameFromNodeClaim nodeClaim = Some name \<and> getMachine name = Inr (Some m) \<and>
        Option.bind (Option.bind (AMProperties m) AMStatus) StDriftAction = Some action \<and> action \<notin> {[], ''Synced''})"
    (is "?static \<or> ?k8s \<or> ?img \<or> ?ident \<or> ?machine")
proof (cases "GetAKSMachineNameFromNodeClaim nodeClaim")
  case None
  from assms(1) have "firstDrift [areStaticFieldsDrifted nodeClaim nc, isK8sVersionDrifted CA lookup nc, isKubeletIdentityDrifted kubeletIdentity lookup,
      isImageVersionDrifted CA nodeClaim nc] = Inr r" using None by (simp add: isNodeClassDrifted_def split: if_splits)
  from firstDrift_Inr [OF this assms(2)]
  consider "areStaticFieldsDrifted nodeClaim nc = Inr r" | "isK8sVersionDrifted CA lookup nc = Inr r"
    | "isKubeletIdentityDrifted kubeletIdentity lookup = Inr r" | "isImageVersionDrifted CA nodeClaim nc = Inr r" by auto
  then show ?thesis
  proof cases
    case 1 from static_drift [OF this assms(2)] show ?thesis by blast
  next
    case 2 from k8s_drift [OF this assms(2)] show ?thesis by blast
  next
    case 3 from identity_drift [OF this assms(2)] None have ?ident by blast then show ?thesis by blast
  next
    case 4 from image_drift [OF this assms(2)] show ?thesis by blast
  qed
next
  case (Some name)
  from assms(1) have "firstDrift [areStaticFieldsDrifted nodeClaim nc, isK8sVersionDrifted CA lookup nc, isImageVersionDrifted CA nodeClaim nc,
      isMachineDrifted getMachine nodeClaim] = Inr r" using Some by (simp add: isNodeClassDrifted_def split: if_splits)
  from firstDrift_Inr [OF this assms(2)]
  consider "areStaticFieldsDrifted nodeClaim nc = Inr r" | "isK8sVersionDrifted CA lookup nc = Inr r"
    | "isImageVersionDrifted CA nodeClaim nc = Inr r" | "isMachineDrifted getMachine nodeClaim = Inr r" by auto
  then show ?thesis
  proof cases
    case 1 from static_drift [OF this assms(2)] show ?thesis by blast
  next
    case 2 from k8s_drift [OF this assms(2)] show ?thesis by blast
  next
    case 3 from image_drift [OF this assms(2)] show ?thesis by blast
  next
    case 4 from machine_drift [OF this assms(2)] have ?machine by blast then show ?thesis by blast
  qed
qed

definition ex_claim :: "string \<Rightarrow> claim" where
  "ex_claim img = newClaim\<lparr>NCName := ''c'', ProviderID := ''azure:///vm'', ImageID := img\<rparr>"

theorem drift_reasons_are_real_witness:
  "isNodeClassDrifted fun_conditions [] (NodeNotFound []) (\<lambda>_. Inr None) (Some (ex_claim ''/g/images/a/versions/1''))
      (ex_images None [''/g/images/a/versions/2'']) = Inr (Inr ImageDrift) \<and>
   (\<exists>images. GetImages fun_conditions (Some (ex_images None [''/g/images/a/versions/2''])) = Inr images \<and>
     (\<forall>i \<in> set images. ImageIDOf i \<noteq> ''/g/images/a/versions/1''))"
proof -
  let ?nc = "ex_images None [''/g/images/a/versions/2'']"
  have n: "GetAKSMachineNameFromNodeClaim (ex_claim ''/g/images/a/versions/1'') = None" "ImageID (ex_claim ''/g/images/a/versions/1'') = ''/g/images/a/versions/1''"
    by (simp_all add: GetAKSMachineNameFromNodeClaim_def ex_claim_def newClaim_def)
  have r: "isNodeClassDrifted fun_conditions [] (NodeNotFound []) (\<lambda>_. Inr None) (Some (ex_claim ''/g/images/a/versions/1'')) ?nc = Inr (Inr ImageDrift)"
    by (simp add: isNodeClassDrifted_def n) (simp add: ex_claim_def newClaim_def areStaticFieldsDrifted_def isK8sVersionDrifted_def getNodeForDrift_def
        isKubeletIdentityDrifted_def isImageVersionDrifted_def GetAKSMachineNameFromNodeClaim_def GetImages_def validateImagesReadiness_def ImageDrift_def
        ex_images_def ex_class_def GetCondition_def fun_conditions_def split: sum.splits)
  then show ?thesis using drift_reasons_are_real [OF r] n by (auto simp: reason_defs)
qed

text \<open>
  While the maintenance window is closed, updating the images of a ready and unpinned class never makes a node drift for its image: a
  virtual machine that runs an image of the class is, after the update, still up to date, as long as an image with that
  base is still listed and the class has only one image of that base.
\<close>

theorem closed_window_causes_no_image_drift:
  assumes "status_conditions CA" and "SpecImageID nc = None" and "IsFIPSEnabled nc \<longrightarrow> useSIG" and "fst (requestedVersions nc) = []"
    and "IsTrue (GetCondition CA nc ConditionTypeImagesReady)" and "Reason (GetCondition CA nc ConditionTypeImagesReady) \<noteq> nodeImageVersionPinnedReason"
    and "listImages nc = Inr listed" and "ImagesReconcile CA srt useSIG listImages (Inr False) nc = Inr (Inr d, nc')"
    and "e \<in> set (Images nc)" and "\<forall>i \<in> set (Images nc). trimVersionSuffix (ImageIDOf i) = trimVersionSuffix (ImageIDOf e) \<longrightarrow> i = e"
    and "p \<in> set listed" and "trimVersionSuffix (PImageID p) = trimVersionSuffix (ImageIDOf e)"
    and "GetAKSMachineNameFromNodeClaim nodeClaim = None" and "ImageID nodeClaim = ImageIDOf e" and "ImageIDOf e \<noteq> []"
  shows "isImageVersionDrifted CA nodeClaim nc' = Inr []"
proof -
  have u: "updateImages CA (Inr False) [] False (firstVersion (nodeImageStatus srt listed)) (nodeImageStatus srt listed) nc = Inr (Inr d, nc')"
    using assms(8) unfolding ImagesReconcile_unpinned [where listImages = listImages, OF assms(2-7)] .
  from updateImages_keeping [OF u] have k: "list_all2 (keeps_existing (Images nc)) (nodeImageStatus srt listed) (Images nc')" by simp
  have "\<lparr>ImageIDOf = PImageID p, ImageRequirements = srt requirementLess (PRequirements p)\<rparr> \<in> set (nodeImageStatus srt listed)"
    using assms(11) by (auto simp: nodeImageStatus_def)
  with k obtain got where got: "got \<in> set (Images nc')"
    "keeps_existing (Images nc) \<lparr>ImageIDOf = PImageID p, ImageRequirements = srt requirementLess (PRequirements p)\<rparr> got"
    using list_all2_in_left [OF k] by blast
  then have "got = e" using assms(9,10,12) by (auto simp: keeps_existing_def)
  from u obtain g where g: "nc' = storeImages CA [] (firstVersion (nodeImageStatus srt listed)) g nc"
    by (auto simp: updateImages_def split: sum.splits)
  then have "Images nc' = g" by (simp add: storeImages_def Let_def)
  with got have "g \<noteq> []" by auto
  then have "GetImages CA (Some nc') = Inr (Images nc')"
    using status_conditions.get_storeImages_unpinned [OF assms(1)] g \<open>Images nc' = g\<close> by metis
  then show ?thesis using got(1) \<open>got = e\<close> assms(13-15) by (auto simp: isImageVersionDrifted_def list_ex_iff)
qed

theorem closed_window_causes_no_image_drift_witness:
  "\<exists>nc'. ImagesReconcile fun_conditions (\<lambda>_ rs. rs) True (\<lambda>_. Inr (ex_listed [''/g/images/a/versions/2''])) (Inr False)
      (ex_images None [''/g/images/a/versions/1'']) = Inr (Inr requeueTime, nc') \<and>
    isImageVersionDrifted fun_conditions (ex_claim ''/g/images/a/versions/1'') nc' = Inr []"
proof -
  let ?nc = "ex_images None [''/g/images/a/versions/1'']" and ?l = "ex_listed [''/g/images/a/versions/2'']"
  let ?e = "\<lparr>ImageIDOf = ''/g/images/a/versions/1'', ImageRequirements = []\<rparr>" and ?p = "\<lparr>PImageID = ''/g/images/a/versions/2'', PRequirements = []\<rparr>"
  obtain nc' where r: "ImagesReconcile fun_conditions (\<lambda>_ rs. rs) True (\<lambda>_. Inr ?l) (Inr False) ?nc = Inr (Inr requeueTime, nc')"
    by (simp add: images_eval)
  have n: "SpecImageID ?nc = None" "IsFIPSEnabled ?nc \<longrightarrow> True" "fst (requestedVersions ?nc) = []"
    "IsTrue (GetCondition fun_conditions ?nc ConditionTypeImagesReady)"
    "Reason (GetCondition fun_conditions ?nc ConditionTypeImagesReady) \<noteq> nodeImageVersionPinnedReason"
    by (simp_all add: images_eval)
  have "isImageVersionDrifted fun_conditions (ex_claim ''/g/images/a/versions/1'') nc' = Inr []"
  proof (rule closed_window_causes_no_image_drift [OF fun_conditions.status_conditions_axioms n _ r, where e = ?e and p = ?p])
    show "(\<lambda>_. Inr ?l) ?nc = Inr ?l" by simp
    show "?p \<in> set ?l" by (simp add: ex_listed_def)
  qed (simp_all add: images_eval ex_claim_def newClaim_def GetAKSMachineNameFromNodeClaim_def)
  with r show ?thesis by blast
qed

end
