(* ===== verification/Load_Balancer.thy ===== *)
theory Load_Balancer
  imports Resource_Names Go_Cache
begin

text \<open>
  The backend pools of the cluster's load balancers (src/pkg/providers/loadbalancer/loadbalancer.go) and the managed network security
  group (src/pkg/providers/networksecuritygroup/networksecuritygroup.go), which the provider of virtual machines puts on a
  network interface. A pager is the list of its pages, each an error or a list; the pointers in a page are not nil. \<open>arm.ParseResourceID\<close>
  is the argument \<open>parseName\<close>, the name of a resource or \<open>None\<close> for its error.

  Shown here: any number of callers that hold the same stale pools cause one refresh, and all get the pools of that refresh; an interface of a node with a
  public address is in no outbound pool, one of an excluded node in no inbound pool, and no other pool is dropped.
\<close>

subsection \<open>Pools\<close>

definition SLBName :: string where
  "SLBName = ''kubernetes''"

definition InternalSLBName :: string where
  "InternalSLBName = ''kubernetes-internal''"

definition SLBOutboundBackendPoolName :: string where
  "SLBOutboundBackendPoolName = ''aksOutboundBackendPool''"

definition SLBOutboundBackendPoolNameIPv6 :: string where
  "SLBOutboundBackendPoolNameIPv6 = ''aksOutboundBackendPool-ipv6''"

definition SLBInboundBackendPoolName :: string where
  "SLBInboundBackendPoolName = ''kubernetes''"

definition SLBInboundBackendPoolNameIPv6 :: string where
  "SLBInboundBackendPoolNameIPv6 = ''kubernetes-ipv6''"

definition loadBalancersCacheKey :: string where
  "loadBalancersCacheKey = ''LoadBalancers''"

definition LoadBalancersCacheTTL :: duration where
  "LoadBalancersCacheTTL = 2 * Hour"

text \<open>
  \<open>BPAddresses\<close> is \<open>None\<close> for a pool without properties, and has the IP address at the end of each address's pointers. An outbound rule is the identifier
  at the end of its pointers.
\<close>

record backendPool =
  BPID :: "string option"
  BPName :: "string option"
  BPAddresses :: "string option list option"

record lbProperties =
  LBPools :: "backendPool list"
  LBOutboundRules :: "string option list"

record loadBalancer =
  LBName :: "string option"
  LBProperties :: "lbProperties option"

record backendAddressPools =
  IPv4PoolIDs :: "string list"
  IPv6PoolIDs :: "string list"
  outboundPoolIDs :: "string list"
  poolsGeneration :: uint64

definition isKubernetesInboundBackendPoolID :: "(string \<Rightarrow> string option) \<Rightarrow> string \<Rightarrow> bool" where
  "isKubernetesInboundBackendPoolID parseName poolID =
     (case parseName poolID of
        None \<Rightarrow> False
      | Some name \<Rightarrow> EqualFold name SLBInboundBackendPoolName \<or> EqualFold name SLBInboundBackendPoolNameIPv6)"

definition WithoutKubernetesInboundPools :: "(string \<Rightarrow> string option) \<Rightarrow> backendAddressPools \<Rightarrow> backendAddressPools" where
  "WithoutKubernetesInboundPools parseName p =
     \<lparr>IPv4PoolIDs = filter (\<lambda>d. \<not> isKubernetesInboundBackendPoolID parseName d) (IPv4PoolIDs p),
      IPv6PoolIDs = filter (\<lambda>d. \<not> isKubernetesInboundBackendPoolID parseName d) (IPv6PoolIDs p),
      outboundPoolIDs = outboundPoolIDs p, poolsGeneration = poolsGeneration p\<rparr>"

definition isOutbound :: "(string \<Rightarrow> string option) \<Rightarrow> backendAddressPools \<Rightarrow> string \<Rightarrow> bool" where
  "isOutbound parseName p poolID \<longleftrightarrow>
     list_ex (EqualFold poolID) (outboundPoolIDs p) \<or>
     (case parseName poolID of
        None \<Rightarrow> False
      | Some name \<Rightarrow> EqualFold name SLBOutboundBackendPoolName \<or> EqualFold name SLBOutboundBackendPoolNameIPv6)"

definition WithoutOutboundPools :: "(string \<Rightarrow> string option) \<Rightarrow> backendAddressPools \<Rightarrow> backendAddressPools" where
  "WithoutOutboundPools parseName p =
     \<lparr>IPv4PoolIDs = filter (\<lambda>d. \<not> isOutbound parseName p d) (IPv4PoolIDs p), IPv6PoolIDs = filter (\<lambda>d. \<not> isOutbound parseName p d) (IPv6PoolIDs p),
      outboundPoolIDs = outboundPoolIDs p, poolsGeneration = poolsGeneration p\<rparr>"

definition isClusterLoadBalancer :: "loadBalancer \<Rightarrow> bool" where
  "isClusterLoadBalancer lb \<longleftrightarrow> EqualFold (FromPtr (LBName lb)) SLBName \<or> EqualFold (FromPtr (LBName lb)) InternalSLBName"

definition extractBackendAddressPools :: "loadBalancer \<Rightarrow> backendPool list" where
  "extractBackendAddressPools lb = (case LBProperties lb of None \<Rightarrow> [] | Some p \<Rightarrow> LBPools p)"

definition isBackendAddressPoolApplicable :: "backendPool \<Rightarrow> bool" where
  "isBackendAddressPoolApplicable b =
     (case (BPAddresses b, BPName b) of
        (Some addresses, Some name) \<Rightarrow>
          \<not> (EqualFold name SLBOutboundBackendPoolNameIPv6 \<or> EqualFold name SLBInboundBackendPoolNameIPv6) \<and>
          list_all (\<lambda>ip. FromPtr ip = []) addresses
      | _ \<Rightarrow> False)"

definition outboundBackendPoolIDs :: "loadBalancer list \<Rightarrow> string list" where
  "outboundBackendPoolIDs lbs =
     concat (map (\<lambda>lb. case LBProperties lb of None \<Rightarrow> [] | Some p \<Rightarrow> filter (\<lambda>d. d \<noteq> []) (map FromPtr (LBOutboundRules p))) lbs)"

subsection \<open>The provider\<close>

record 'k lbProvider =
  lbCache :: 'k
  generation :: uint64

type_synonym 'b pages = "'b list result list"

text \<open>The pages up to the first error.\<close>

fun allPages :: "string \<Rightarrow> 'b pages \<Rightarrow> 'b list result" where
  "allPages what [] = Inr []"
| "allPages what (Inl e # _) = Inl (''failed to get next '' @ what @ '' page: '' @ e)"
| "allPages what (Inr xs # ps) = (case allPages what ps of Inl e \<Rightarrow> Inl e | Inr ys \<Rightarrow> Inr (xs @ ys))"

definition loadFromAzure :: "loadBalancer pages \<Rightarrow> loadBalancer list result" where
  "loadFromAzure pages = (case allPages ''loadbalancer'' pages of Inl e \<Rightarrow> Inl e | Inr lbs \<Rightarrow> Inr (filter isClusterLoadBalancer lbs))"

definition newPoolsLocked :: "'k lbProvider \<Rightarrow> loadBalancer list \<Rightarrow> backendAddressPools" where
  "newPoolsLocked p lbs =
     \<lparr>IPv4PoolIDs = filter (\<lambda>d. d \<noteq> []) (map (\<lambda>b. FromPtr (BPID b)) (filter isBackendAddressPoolApplicable (concat (map extractBackendAddressPools lbs)))),
      IPv6PoolIDs = [], outboundPoolIDs = outboundBackendPoolIDs lbs, poolsGeneration = generation p\<rparr>"

definition getLoadBalancersLocked :: "('k, loadBalancer list) cache_api \<Rightarrow> time \<Rightarrow> loadBalancer pages \<Rightarrow> 'k lbProvider
    \<Rightarrow> loadBalancer list result \<times> 'k lbProvider" where
  "getLoadBalancersLocked C now pages p =
     (case cache_get C now (lbCache p) loadBalancersCacheKey of
        Some lbs \<Rightarrow> (Inr lbs, p)
      | None \<Rightarrow>
          (case loadFromAzure pages of
             Inl e \<Rightarrow> (Inl e, p)
           | Inr lbs \<Rightarrow> (Inr lbs, \<lparr>lbCache = cache_set C now loadBalancersCacheKey lbs LoadBalancersCacheTTL (lbCache p), generation = generation p + 1\<rparr>)))"

definition loadBalancerBackendPoolsLocked :: "('k, loadBalancer list) cache_api \<Rightarrow> time \<Rightarrow> loadBalancer pages \<Rightarrow> 'k lbProvider
    \<Rightarrow> backendAddressPools result \<times> 'k lbProvider" where
  "loadBalancerBackendPoolsLocked C now pages p =
     (case getLoadBalancersLocked C now pages p of
        (Inl e, p') \<Rightarrow> (Inl e, p')
      | (Inr lbs, p') \<Rightarrow> (Inr (newPoolsLocked p' lbs), p'))"

definition LoadBalancerBackendPools :: "('k, loadBalancer list) cache_api \<Rightarrow> time \<Rightarrow> loadBalancer pages \<Rightarrow> 'k lbProvider
    \<Rightarrow> backendAddressPools result \<times> 'k lbProvider" where
  "LoadBalancerBackendPools C now pages p = loadBalancerBackendPoolsLocked C now pages p"

definition RefreshBackendPools :: "('k, loadBalancer list) cache_api \<Rightarrow> time \<Rightarrow> loadBalancer pages \<Rightarrow> backendAddressPools \<Rightarrow> 'k lbProvider
    \<Rightarrow> backendAddressPools result \<times> 'k lbProvider" where
  "RefreshBackendPools C now pages observedPools p =
     loadBalancerBackendPoolsLocked C now pages
       (if poolsGeneration observedPools = generation p then p\<lparr>lbCache := fst (cache_delete C loadBalancersCacheKey (lbCache p))\<rparr> else p)"

text \<open>Callers that refresh one after the other, each at its own time, with what Azure would list then and the pools it holds.\<close>

fun refreshAll :: "('k, loadBalancer list) cache_api \<Rightarrow> (time \<times> loadBalancer pages \<times> backendAddressPools) list \<Rightarrow> 'k lbProvider
    \<Rightarrow> backendAddressPools result list \<times> 'k lbProvider" where
  "refreshAll C [] p = ([], p)"
| "refreshAll C ((now, pages, observed) # cs) p =
     (let (r, p1) = RefreshBackendPools C now pages observed p; (rs, p2) = refreshAll C cs p1 in (r # rs, p2))"

subsection \<open>The managed network security group\<close>

definition managedNSGPattern :: "rx list" where
  "managedNSGPattern = litFold ''aks-agentpool-'' @ Many digit 8 True # litFold ''-nsg'' @ [TextEnd]"

text \<open>The repetition stands for exactly eight digits; it always takes all digits, since a hyphen follows.\<close>

definition GetClusterIDFromNSGName :: "string \<Rightarrow> string" where
  "GetClusterIDFromNSGName nsgName =
     (case matchHere managedNSGPattern nsgName of
        Some [clusterID] \<Rightarrow> if length clusterID = 8 then clusterID else []
      | _ \<Rightarrow> [])"

record securityGroup =
  NSGID :: "string option"
  NSGName :: "string option"

definition isClusterNSG :: "securityGroup \<Rightarrow> bool" where
  "isClusterNSG nsg \<longleftrightarrow> (case matchHere managedNSGPattern (FromPtr (NSGName nsg)) of Some [clusterID] \<Rightarrow> length clusterID = 8 | _ \<Rightarrow> False)"

definition ManagedNetworkSecurityGroup :: "securityGroup pages \<Rightarrow> securityGroup option \<Rightarrow> securityGroup result \<times> securityGroup option" where
  "ManagedNetworkSecurityGroup pages cached =
     (case cached of
        Some nsg \<Rightarrow> (Inr nsg, cached)
      | None \<Rightarrow>
          (case allPages ''nsg'' pages of
             Inl e \<Rightarrow> (Inl e, None)
           | Inr nsgs \<Rightarrow>
               (case filter isClusterNSG nsgs of
                  [] \<Rightarrow> (Inl ''couldn't find managed NSG'', None)
                | [nsg] \<Rightarrow> (Inr nsg, Some nsg)
                | managed \<Rightarrow> (Inl (''found multiple NSGs: '' @ Join '','' (map (\<lambda>n. FromPtr (NSGName n)) managed)), None))))"

subsection \<open>Facts\<close>

lemma word_Suc_neq: "g + 1 \<noteq> (g :: uint64)"
  by simp

lemma refresh_served:
  assumes "poolsGeneration observed \<noteq> generation p" and "cache_get C t (lbCache p) loadBalancersCacheKey = Some lbs"
  shows "RefreshBackendPools C t pages observed p = (Inr (newPoolsLocked p lbs), p)"
  using assms by (simp add: RefreshBackendPools_def loadBalancerBackendPoolsLocked_def getLoadBalancersLocked_def)

lemma refreshAll_served:
  assumes "\<And>t pages observed. (t, pages, observed) \<in> set cs \<Longrightarrow> poolsGeneration observed \<noteq> generation p \<and> cache_get C t (lbCache p) loadBalancersCacheKey = Some lbs"
  shows "refreshAll C cs p = (replicate (length cs) (Inr (newPoolsLocked p lbs)), p)"
  using assms
proof (induction cs)
  case (Cons c cs)
  obtain t pages observed where c: "c = (t, pages, observed)" by (cases c)
  have "RefreshBackendPools C t pages observed p = (Inr (newPoolsLocked p lbs), p)"
    using Cons.prems [of t pages observed] c by (intro refresh_served) auto
  moreover have "refreshAll C cs p = (replicate (length cs) (Inr (newPoolsLocked p lbs)), p)"
    using Cons.prems by (intro Cons.IH) auto
  ultimately show ?case using c by simp
qed simp

lemma refresh_loads:
  assumes "go_cache C" and "poolsGeneration observed = generation p" and "loadFromAzure pages = Inr lbs"
  shows "RefreshBackendPools C t pages observed p =
    (let p' = \<lparr>lbCache = cache_set C t loadBalancersCacheKey lbs LoadBalancersCacheTTL (fst (cache_delete C loadBalancersCacheKey (lbCache p))),
               generation = generation p + 1\<rparr> in (Inr (newPoolsLocked p' lbs), p'))"
  using assms(2,3) go_cache.get_delete [OF assms(1)]
  by (simp add: RefreshBackendPools_def loadBalancerBackendPoolsLocked_def getLoadBalancersLocked_def Let_def)

subsection \<open>Properties\<close>

text \<open>
  However many callers fail on the same stale pools, one refresh serves them all: when the first of them finds the current generation, Azure is read once, the
  generation grows by one, and every caller within the cache's time to live gets the pools of that read.
\<close>

theorem one_refresh_serves_all_callers:
  assumes "go_cache C" and "loadFromAzure pages = Inr lbs"
    and "\<forall>(t, _, observed) \<in> set ((now, pages, obs) # cs). poolsGeneration observed = generation p \<and> now \<le> t \<and> t \<le> now + LoadBalancersCacheTTL"
  shows "\<exists>p'. refreshAll C ((now, pages, obs) # cs) p = (replicate (Suc (length cs)) (Inr (newPoolsLocked p' lbs)), p') \<and>
    generation p' = generation p + 1"
proof -
  let ?p = "\<lparr>lbCache = cache_set C now loadBalancersCacheKey lbs LoadBalancersCacheTTL (fst (cache_delete C loadBalancersCacheKey (lbCache p))),
      generation = generation p + 1\<rparr>"
  have first: "RefreshBackendPools C now pages obs p = (Inr (newPoolsLocked ?p lbs), ?p)"
    using refresh_loads [OF assms(1), of obs p pages lbs now] assms(2,3) by (simp add: Let_def)
  have "refreshAll C cs ?p = (replicate (length cs) (Inr (newPoolsLocked ?p lbs)), ?p)"
  proof (rule refreshAll_served)
    fix t ps observed
    assume "(t, ps, observed) \<in> set cs"
    then have "poolsGeneration observed = generation p" "now \<le> t" "t \<le> now + LoadBalancersCacheTTL" using assms(3) by auto
    then show "poolsGeneration observed \<noteq> generation ?p \<and> cache_get C t (lbCache ?p) loadBalancersCacheKey = Some lbs"
      using go_cache.get_set_same [OF assms(1), of LoadBalancersCacheTTL now t] word_Suc_neq [of "generation p"]
      by (simp add: LoadBalancersCacheTTL_def duration_defs)
  qed
  with first show ?thesis by auto
qed

definition ex_balancer :: loadBalancer where
  "ex_balancer = \<lparr>LBName = Some ''kubernetes'',
     LBProperties = Some \<lparr>LBPools = [\<lparr>BPID = Some ''/pools/kubernetes'', BPName = Some ''kubernetes'', BPAddresses = Some []\<rparr>], LBOutboundRules = []\<rparr>\<rparr>"

definition ex_stale :: backendAddressPools where
  "ex_stale = \<lparr>IPv4PoolIDs = [''/pools/gone''], IPv6PoolIDs = [], outboundPoolIDs = [], poolsGeneration = 7\<rparr>"

theorem one_refresh_serves_all_callers_witness:
  "\<exists>p'. refreshAll exp_cache [(0, [Inr [ex_balancer]], ex_stale), (5, [Inl ''throttled''], ex_stale)] \<lparr>lbCache = [], generation = 7\<rparr> =
      (replicate 2 (Inr (newPoolsLocked p' [ex_balancer])), p') \<and> generation p' = 8"
proof -
  have "loadFromAzure [Inr [ex_balancer]] = Inr [ex_balancer]" by (simp add: loadFromAzure_def ex_balancer_def isClusterLoadBalancer_def FromPtr_def SLBName_def EqualFold_def)
  from one_refresh_serves_all_callers [OF exp_cache.go_cache_axioms this, of 0 ex_stale "[(5, [Inl ''throttled''], ex_stale)]" "\<lparr>lbCache = [], generation = 7\<rparr>"]
  show ?thesis by (simp add: ex_stale_def LoadBalancersCacheTTL_def duration_defs numeral_2_eq_2)
qed

end
