(* ===== verification/Cloud_Resources.thy ===== *)
theory Cloud_Resources
  imports Node_Claims Load_Balancer
begin

text \<open>
  Network interfaces and public addresses of virtual machines (src/pkg/providers/instance/publicip.go, the interface part of vminstance.go and
  azureresourcemanagerutils.go) and the collector of orphaned ones (src/pkg/controllers/nodeclaim/garbagecollection/nic_garbagecollection.go).
  Azure is the state \<open>'a\<close> with the operations of the record \<open>cloud\<close>; \<open>cNotFound\<close> is \<open>sdkerrors.IsNotFoundErr\<close>. A call that begins an operation and the wait
  for its end are two operations wherever the code treats their errors differently. An interface, a machine and an address are named alike, so that each
  resource is found by the node's resource name.

  Shown here: what is deleted is gone, and nothing else is touched; a public address is deleted only when its tags say that it belongs to this node of this
  cluster; the collectors spare everything that belongs to a machine or to a claim.
\<close>

subsection \<open>Resources\<close>

record ('a, 'x) resource_api =
  res_get :: "'a \<Rightarrow> string \<Rightarrow> sdkError + 'x"
  res_beginDelete :: "string \<Rightarrow> 'a \<Rightarrow> sdkError option \<times> 'a"
  res_pollDelete :: "string \<Rightarrow> 'a \<Rightarrow> sdkError option \<times> 'a"

text \<open>A reference to a backend pool: its identifier, and whatever else the service reports about it, empty when nothing. A nil slice is \<open>None\<close>.\<close>

record poolRef =
  poolRefID :: "string option"
  poolRefRest :: string

record ipConfigProperties =
  cfgPrimary :: "bool option"
  cfgPools :: "poolRef list option"
  cfgPublicIP :: "string option option"
  cfgSubnet :: "string option"

record ipConfig =
  cfgName :: "string option"
  cfgProps :: "ipConfigProperties option"

record nicProperties =
  nicConfigs :: "ipConfig option list"
  nicNSG :: "string option option"
  nicAccelerated :: "bool option"
  nicForwarding :: "bool option"

record nic =
  NICName :: "string option"
  NICID :: "string option"
  NICLocation :: "string option"
  NICTags :: "(string, string option) gomap option"
  NICProps :: "nicProperties option"

text \<open>\<open>IPAttached\<close>: the address has an IP configuration.\<close>

record publicIP =
  IPName :: "string option"
  IPID :: "string option"
  IPLocation :: "string option"
  IPZones :: "string option list"
  IPTags :: "(string, string option) gomap option"
  IPAttached :: bool

record 'a cloud =
  cVM :: "('a, vm) resource_api"
  cNIC :: "('a, nic) resource_api"
  cIP :: "('a, publicIP) resource_api"
  cIPClient :: bool
  cNotFound :: "sdkError \<Rightarrow> bool"
  cCreateNic :: "string \<Rightarrow> nic \<Rightarrow> 'a \<Rightarrow> (sdkError + nic) \<times> 'a"
  cBeginCreateIP :: "string \<Rightarrow> publicIP \<Rightarrow> 'a \<Rightarrow> sdkError option \<times> 'a"
  cPollCreateIP :: "string \<Rightarrow> 'a \<Rightarrow> (sdkError + publicIP) \<times> 'a"

definition wrapErr :: "string \<Rightarrow> sdkError \<Rightarrow> sdkError" where
  "wrapErr msg e = e\<lparr>ErrText := msg @ ErrText e\<rparr>"

text \<open>An error that wraps no response.\<close>

definition localErr :: "string \<Rightarrow> sdkError" where
  "localErr msg = \<lparr>ErrText = msg, ResponseText = [], StatusCode = None, SDKErrorCode = [], IsContextError = False\<rparr>"

definition deleteNic :: "'a cloud \<Rightarrow> string \<Rightarrow> 'a \<Rightarrow> sdkError option \<times> 'a" where
  "deleteNic C nicName a =
     (case res_beginDelete (cNIC C) nicName a of
        (Some e, a1) \<Rightarrow> (Some e, a1)
      | (None, a1) \<Rightarrow>
          (case res_pollDelete (cNIC C) nicName a1 of
             (Some e, a2) \<Rightarrow> (if cNotFound C e then None else Some e, a2)
           | (None, a2) \<Rightarrow> (None, a2)))"

definition deleteNicIfExists :: "'a cloud \<Rightarrow> string \<Rightarrow> 'a \<Rightarrow> sdkError option \<times> 'a" where
  "deleteNicIfExists C nicName a =
     (case res_get (cNIC C) a nicName of
        Inl e \<Rightarrow> (if cNotFound C e then None else Some e, a)
      | Inr _ \<Rightarrow> deleteNic C nicName a)"

subsection \<open>Public addresses\<close>

definition publicIPOwnerTag :: string where
  "publicIPOwnerTag = ''karpenter.azure.com_public-ip-owner''"

definition KarpenterManagedTagKey :: string where
  "KarpenterManagedTagKey = ''karpenter.azure.com_cluster''"

definition tagText :: "(string, string option) gomap option \<Rightarrow> string \<Rightarrow> string" where
  "tagText tags k = FromPtr (Option.bind (tagOf tags k) id)"

definition ownedPublicIP :: "publicIP \<Rightarrow> string \<Rightarrow> string \<Rightarrow> bool" where
  "ownedPublicIP address name cluster \<longleftrightarrow> tagText (IPTags address) publicIPOwnerTag = name \<and> tagText (IPTags address) KarpenterManagedTagKey = cluster"

definition newPublicIP :: "string \<Rightarrow> string \<Rightarrow> string option list \<Rightarrow> string \<Rightarrow> (string, string option) gomap option \<Rightarrow> publicIP" where
  "newPublicIP location cluster azones name tags =
     \<lparr>IPName = None, IPID = None, IPLocation = Some location, IPZones = azones,
      IPTags = Some (AList.update KarpenterManagedTagKey (Some cluster)
        (AList.update publicIPOwnerTag (Some name) (case tags of None \<Rightarrow> [] | Some ts \<Rightarrow> ts))),
      IPAttached = False\<rparr>"

definition ensurePublicIP :: "'a cloud \<Rightarrow> string \<Rightarrow> string \<Rightarrow> string \<Rightarrow> string \<Rightarrow> (string, string option) gomap option \<Rightarrow> 'a
    \<Rightarrow> (panic + (sdkError + publicIP)) \<times> 'a" where
  "ensurePublicIP C location cluster name zone tags a =
     (if \<not> cIPClient C then (Inr (Inl (localErr ''public IP client is not configured'')), a)
      else case res_get (cIP C) a name of
        Inr existing \<Rightarrow>
          (if \<not> ownedPublicIP existing name cluster then
             (Inr (Inl (localErr (''refusing to reuse public IP '' @ quoted name @ '' not owned by this node''))), a)
           else (Inr (Inr existing), a))
      | Inl e \<Rightarrow>
          if \<not> cNotFound C e then (Inr (Inl (wrapErr (''getting public IP '' @ quoted name @ '': '') e)), a)
          else case MakeARMZonesFromAKSLabelZone zone of
            Inl pn \<Rightarrow> (Inl pn, a)
          | Inr azones \<Rightarrow>
            (case cBeginCreateIP C name (newPublicIP location cluster azones name tags) a of
               (Some e, a1) \<Rightarrow> (Inr (Inl (wrapErr (''creating public IP '' @ quoted name @ '': '') e)), a1)
             | (None, a1) \<Rightarrow>
                 (case cPollCreateIP C name a1 of
                    (Inl e, a2) \<Rightarrow> (Inr (Inl (wrapErr (''waiting for public IP '' @ quoted name @ '': '') e)), a2)
                  | (Inr address, a2) \<Rightarrow> (Inr (Inr address), a2))))"

definition publicIPBindingMatches :: "ipConfigProperties \<Rightarrow> publicIP \<Rightarrow> poolRef list \<Rightarrow> bool" where
  "publicIPBindingMatches props address pools =
     (case cfgPublicIP props of
        None \<Rightarrow> False
      | Some current \<Rightarrow> EqualFold (FromPtr current) (FromPtr (IPID address)) \<and> cfgPools props = Some pools)"

definition isPrimary :: "ipConfig option \<Rightarrow> bool" where
  "isPrimary c \<longleftrightarrow> Option.bind (Option.bind c cfgProps) cfgPrimary = Some True"

text \<open>The update of the first configuration with a property: the code changes it through the pointer it found.\<close>

fun updateFirst :: "('x \<Rightarrow> bool) \<Rightarrow> ('x \<Rightarrow> 'x) \<Rightarrow> 'x list \<Rightarrow> 'x list" where
  "updateFirst P f [] = []"
| "updateFirst P f (x # xs) = (if P x then f x # xs else x # updateFirst P f xs)"

definition noNSG :: sdkError where
  "noNSG = localErr ''a network security group is required before attaching a node public IP''"

definition attachPublicIP :: "'a cloud \<Rightarrow> string \<Rightarrow> string \<Rightarrow> nic \<Rightarrow> string \<Rightarrow> string \<Rightarrow> (string, string option) gomap option \<Rightarrow> string list \<Rightarrow> 'a
    \<Rightarrow> (panic + sdkError option) \<times> 'a" where
  "attachPublicIP C location cluster n nicName zone tags poolIDs a =
     (case NICProps n of
        None \<Rightarrow> (Inr (Some noNSG), a)
      | Some props \<Rightarrow>
        if nicNSG props = None then (Inr (Some noNSG), a)
        else case Option.bind (Option.bind (List.find isPrimary (nicConfigs props)) id) cfgProps of
          None \<Rightarrow> (Inr (Some (localErr ''primary NIC IP configuration is missing'')), a)
        | Some config \<Rightarrow>
            (case ensurePublicIP C location cluster nicName zone tags a of
               (Inl pn, a1) \<Rightarrow> (Inl pn, a1)
             | (Inr (Inl e), a1) \<Rightarrow> (Inr (Some e), a1)
             | (Inr (Inr address), a1) \<Rightarrow>
                 if FromPtr (IPID address) = [] then (Inr (Some (localErr ''created node public IP has no resource ID'')), a1)
                 else let pools = map (\<lambda>d. \<lparr>poolRefID = Some d, poolRefRest = []\<rparr>) poolIDs in
                   if publicIPBindingMatches config address pools then (Inr None, a1)
                   else
                     let configs = updateFirst isPrimary
                           (map_option (\<lambda>c. c\<lparr>cfgProps := map_option (\<lambda>p. p\<lparr>cfgPools := Some pools, cfgPublicIP := Some (IPID address)\<rparr>) (cfgProps c)\<rparr>)) (nicConfigs props)
                     in case cCreateNic C nicName (n\<lparr>NICProps := Some (props\<lparr>nicConfigs := configs\<rparr>)\<rparr>) a1 of
                          (Inl e, a2) \<Rightarrow> (Inr (Some (wrapErr (''attaching public IP to NIC '' @ quoted nicName @ '': '') e)), a2)
                        | (Inr _, a2) \<Rightarrow> (Inr None, a2)))"

definition deletePublicIP :: "'a cloud \<Rightarrow> string \<Rightarrow> string \<Rightarrow> 'a \<Rightarrow> sdkError option \<times> 'a" where
  "deletePublicIP C cluster name a =
     (if \<not> cIPClient C then (None, a)
      else case res_get (cIP C) a name of
        Inl e \<Rightarrow> (if cNotFound C e then None else Some (wrapErr ''getting public IP for deletion: '' e), a)
      | Inr address \<Rightarrow>
          if \<not> ownedPublicIP address name cluster then (None, a)
          else case res_beginDelete (cIP C) name a of
            (Some e, a1) \<Rightarrow> (if cNotFound C e then None else Some (wrapErr (''deleting public IP '' @ quoted name @ '': '') e), a1)
          | (None, a1) \<Rightarrow>
              (case res_pollDelete (cIP C) name a1 of
                 (Some e, a2) \<Rightarrow> (if cNotFound C e then None else Some e, a2)
               | (None, a2) \<Rightarrow> (None, a2)))"

definition DeleteNic :: "'a cloud \<Rightarrow> string \<Rightarrow> string \<Rightarrow> 'a \<Rightarrow> sdkError option \<times> 'a" where
  "DeleteNic C cluster nicName a =
     (case deleteNicIfExists C nicName a of
        (Some e, a1) \<Rightarrow> (Some e, a1)
      | (None, a1) \<Rightarrow> deletePublicIP C cluster nicName a1)"

definition publicIPIsOrphan :: "'a cloud \<Rightarrow> string \<Rightarrow> publicIP option \<Rightarrow> string set \<Rightarrow> 'a \<Rightarrow> sdkError + bool" where
  "publicIPIsOrphan C cluster address protected a =
     (case address of
        None \<Rightarrow> Inr False
      | Some address \<Rightarrow>
          let name = FromPtr (IPName address) in
          if name = [] then Inr False
          else if name \<in> protected \<or> \<not> ownedPublicIP address name cluster then Inr False
          else if IPAttached address then Inr False
          else case res_get (cNIC C) a name of
            Inr _ \<Rightarrow> Inr False
          | Inl e \<Rightarrow> if cNotFound C e then Inr True else Inl e)"

text \<open>The failures collected so far, and the state; a page that cannot be read ends the loop.\<close>

fun cleanupPage :: "'a cloud \<Rightarrow> string \<Rightarrow> string set \<Rightarrow> publicIP option list \<Rightarrow> sdkError list \<times> 'a \<Rightarrow> sdkError list \<times> 'a" where
  "cleanupPage C cluster protected [] (fs, a) = (fs, a)"
| "cleanupPage C cluster protected (x # xs) (fs, a) =
     cleanupPage C cluster protected xs
       (case publicIPIsOrphan C cluster x protected a of
          Inl e \<Rightarrow> (fs @ [e], a)
        | Inr False \<Rightarrow> (fs, a)
        | Inr True \<Rightarrow>
            (case deletePublicIP C cluster (FromPtr (Option.bind x IPName)) a of
               (Some e, a') \<Rightarrow> (fs @ [e], a')
             | (None, a') \<Rightarrow> (fs, a')))"

fun cleanupPages :: "'a cloud \<Rightarrow> string \<Rightarrow> string set \<Rightarrow> (sdkError + publicIP option list) list \<Rightarrow> sdkError list \<times> 'a \<Rightarrow> sdkError list \<times> 'a" where
  "cleanupPages C cluster protected [] (fs, a) = (fs, a)"
| "cleanupPages C cluster protected (Inl e # _) (fs, a) = (fs @ [wrapErr ''listing node public IPs: '' e], a)"
| "cleanupPages C cluster protected (Inr xs # pages) (fs, a) = cleanupPages C cluster protected pages (cleanupPage C cluster protected xs (fs, a))"

definition CleanupPublicIPs :: "'a cloud \<Rightarrow> string \<Rightarrow> string set \<Rightarrow> (sdkError + publicIP option list) list \<Rightarrow> 'a \<Rightarrow> sdkError list \<times> 'a" where
  "CleanupPublicIPs C cluster protected pages a = (if \<not> cIPClient C then ([], a) else cleanupPages C cluster protected pages ([], a))"

subsection \<open>Collecting orphaned interfaces\<close>

definition populateUnremovableInterfaces :: "vm list \<Rightarrow> claim list \<Rightarrow> string set" where
  "populateUnremovableInterfaces vms claims = set (map (\<lambda>v. FromPtr (VMName v)) vms) \<union> set (map (\<lambda>c. GenerateResourceName (NCName c)) claims)"

text \<open>The deletions, one after the other in any order; their errors are only logged.\<close>

fun collectNics :: "'a cloud \<Rightarrow> string \<Rightarrow> string set \<Rightarrow> nic list \<Rightarrow> 'a \<Rightarrow> 'a" where
  "collectNics C cluster unremovable [] a = a"
| "collectNics C cluster unremovable (n # ns) a =
     collectNics C cluster unremovable ns
       (if FromPtr (NICName n) \<notin> unremovable then snd (DeleteNic C cluster (FromPtr (NICName n)) a) else a)"

definition NicGarbageCollectionInterval :: duration where
  "NicGarbageCollectionInterval = 5 * Minute"

definition ReconcileNetworkInterfaces :: "'a cloud \<Rightarrow> string \<Rightarrow> nic list result \<Rightarrow> vm list result \<Rightarrow> claim list result
    \<Rightarrow> (sdkError + publicIP option list) list \<Rightarrow> 'a \<Rightarrow> duration result \<times> 'a" where
  "ReconcileNetworkInterfaces C cluster nics vms claims pages a =
     (case nics of
        Inl e \<Rightarrow> (Inl (''listing NICs: '' @ e), a)
      | Inr nics \<Rightarrow>
        (case vms of
           Inl e \<Rightarrow> (Inl (''error listing resources needed to populate unremovable nics listing VMs: '' @ e), a)
         | Inr vms \<Rightarrow>
           (case claims of
              Inl e \<Rightarrow> (Inl (''error listing resources needed to populate unremovable nics listing NodeClaims for NIC GC: '' @ e), a)
            | Inr claims \<Rightarrow>
                let unremovable = populateUnremovableInterfaces vms claims;
                    a1 = collectNics C cluster unremovable nics a
                in case CleanupPublicIPs C cluster unremovable pages a1 of
                     ([], a2) \<Rightarrow> (Inr NicGarbageCollectionInterval, a2)
                   | (f # fs, a2) \<Rightarrow> (Inl (''garbage collecting node public IPs: '' @ Join ''\<newline>'' (map ErrText (f # fs))), a2))))"

subsection \<open>Facts\<close>

text \<open>
  What the code relies on of Azure: deleting one resource leaves the others of its kind alone, a deletion that has ended
  leaves the resource not found, and so does one that is answered with not found. Deleting an interface or an address touches no other kind; deleting a machine
  may take its interface along.
\<close>

locale resource =
  fixes R :: "('a, 'x) resource_api" and nf :: "sdkError \<Rightarrow> bool"
  assumes begin_other: "m \<noteq> n \<Longrightarrow> res_get R (snd (res_beginDelete R n a)) m = res_get R a m"
    and poll_other: "m \<noteq> n \<Longrightarrow> res_get R (snd (res_pollDelete R n a)) m = res_get R a m"
    and begin_absent: "res_beginDelete R n a = (Some e, a1) \<Longrightarrow> nf e \<Longrightarrow> \<exists>e'. res_get R a1 n = Inl e' \<and> nf e'"
    and removed: "res_beginDelete R n a = (None, a1) \<Longrightarrow> res_pollDelete R n a1 = (r, a2) \<Longrightarrow> (\<forall>e. r = Some e \<longrightarrow> nf e) \<Longrightarrow>
      \<exists>e'. res_get R a2 n = Inl e' \<and> nf e'"

locale cloud_service =
  VM: resource "cVM C" "cNotFound C" + NIC: resource "cNIC C" "cNotFound C" + IP: resource "cIP C" "cNotFound C" for C :: "'a cloud" +
  assumes nic_keeps_ip: "res_get (cIP C) (snd (res_beginDelete (cNIC C) n a)) = res_get (cIP C) a"
      "res_get (cIP C) (snd (res_pollDelete (cNIC C) n a)) = res_get (cIP C) a"
    and nic_keeps_vm: "res_get (cVM C) (snd (res_beginDelete (cNIC C) n a)) = res_get (cVM C) a"
      "res_get (cVM C) (snd (res_pollDelete (cNIC C) n a)) = res_get (cVM C) a"
    and ip_keeps_nic: "res_get (cNIC C) (snd (res_beginDelete (cIP C) n a)) = res_get (cNIC C) a"
      "res_get (cNIC C) (snd (res_pollDelete (cIP C) n a)) = res_get (cNIC C) a"
    and ip_keeps_vm: "res_get (cVM C) (snd (res_beginDelete (cIP C) n a)) = res_get (cVM C) a"
      "res_get (cVM C) (snd (res_pollDelete (cIP C) n a)) = res_get (cVM C) a"
begin

lemma deleteNic_frame:
  "m \<noteq> n \<Longrightarrow> res_get (cNIC C) (snd (deleteNic C n a)) m = res_get (cNIC C) a m"
  "res_get (cIP C) (snd (deleteNic C n a)) = res_get (cIP C) a" "res_get (cVM C) (snd (deleteNic C n a)) = res_get (cVM C) a"
  using NIC.begin_other [of m n a] NIC.poll_other [of m n "snd (res_beginDelete (cNIC C) n a)"]
    nic_keeps_ip [of n a] nic_keeps_ip [of n "snd (res_beginDelete (cNIC C) n a)"] nic_keeps_vm [of n a] nic_keeps_vm [of n "snd (res_beginDelete (cNIC C) n a)"]
  by (auto simp: deleteNic_def split: prod.split option.split)

lemma deleteNicIfExists_frame:
  "m \<noteq> n \<Longrightarrow> res_get (cNIC C) (snd (deleteNicIfExists C n a)) m = res_get (cNIC C) a m"
  "res_get (cIP C) (snd (deleteNicIfExists C n a)) = res_get (cIP C) a" "res_get (cVM C) (snd (deleteNicIfExists C n a)) = res_get (cVM C) a"
  by (simp_all add: deleteNicIfExists_def deleteNic_frame split: sum.split)

lemma deleteNicIfExists_gone:
  assumes "deleteNicIfExists C n a = (None, a')"
  shows "\<exists>e. res_get (cNIC C) a' n = Inl e \<and> cNotFound C e"
proof (cases "res_get (cNIC C) a n")
  case (Inl e)
  with assms show ?thesis by (auto simp: deleteNicIfExists_def split: if_splits)
next
  case (Inr x)
  with assms have d: "deleteNic C n a = (None, a')" by (simp add: deleteNicIfExists_def)
  then obtain a1 where b: "res_beginDelete (cNIC C) n a = (None, a1)" by (auto simp: deleteNic_def split: prod.splits option.splits)
  obtain r a2 where p: "res_pollDelete (cNIC C) n a1 = (r, a2)" by (rule prod.exhaust)
  have "a2 = a'" "\<forall>e. r = Some e \<longrightarrow> cNotFound C e" using d b p by (auto simp: deleteNic_def split: option.splits if_splits)
  with NIC.removed [OF b p] show ?thesis by simp
qed

lemma deletePublicIP_frame:
  "m \<noteq> n \<Longrightarrow> res_get (cIP C) (snd (deletePublicIP C cl n a)) m = res_get (cIP C) a m"
  "res_get (cNIC C) (snd (deletePublicIP C cl n a)) = res_get (cNIC C) a" "res_get (cVM C) (snd (deletePublicIP C cl n a)) = res_get (cVM C) a"
  using IP.begin_other [of m n a] IP.poll_other [of m n "snd (res_beginDelete (cIP C) n a)"]
    ip_keeps_nic [of n a] ip_keeps_nic [of n "snd (res_beginDelete (cIP C) n a)"] ip_keeps_vm [of n a] ip_keeps_vm [of n "snd (res_beginDelete (cIP C) n a)"]
  by (auto simp: deletePublicIP_def split: prod.split option.split sum.split)

lemma deletePublicIP_keeps: "res_get (cIP C) a n = Inr x \<Longrightarrow> \<not> ownedPublicIP x n cl \<Longrightarrow> deletePublicIP C cl n a = (None, a)"
  by (simp add: deletePublicIP_def)

lemma deletePublicIP_gone:
  assumes "deletePublicIP C cl n a = (None, a')" and "cIPClient C"
  shows "res_get (cIP C) a' n = Inr x \<Longrightarrow> \<not> ownedPublicIP x n cl"
proof (cases "\<exists>y. res_get (cIP C) a n = Inr y \<and> ownedPublicIP y n cl")
  case False
  assume "res_get (cIP C) a' n = Inr x"
  moreover have "a' = a" using assms False by (auto simp: deletePublicIP_def split: sum.splits if_splits)
  ultimately show ?thesis using False by auto
next
  case True
  then obtain y where y: "res_get (cIP C) a n = Inr y" "ownedPublicIP y n cl" by blast
  assume x: "res_get (cIP C) a' n = Inr x"
  obtain r1 a1 where b: "res_beginDelete (cIP C) n a = (r1, a1)" by (rule prod.exhaust)
  show ?thesis
  proof (cases r1)
    case (Some e)
    with assms y b have "a' = a1" "cNotFound C e" by (auto simp: deletePublicIP_def split: if_splits)
    with IP.begin_absent [of n a e a1] b Some x show ?thesis by auto
  next
    case None
    obtain r a2 where p: "res_pollDelete (cIP C) n a1 = (r, a2)" by (rule prod.exhaust)
    have "a2 = a'" "\<forall>e. r = Some e \<longrightarrow> cNotFound C e" using assms y b p None by (auto simp: deletePublicIP_def split: option.splits if_splits)
    with IP.removed [of n a a1 r a2] b None p x show ?thesis by auto
  qed
qed

text \<open>Deleting an interface with its address.\<close>

lemma DeleteNic_frame:
  "m \<noteq> n \<Longrightarrow> res_get (cNIC C) (snd (DeleteNic C cl n a)) m = res_get (cNIC C) a m"
  "m \<noteq> n \<Longrightarrow> res_get (cIP C) (snd (DeleteNic C cl n a)) m = res_get (cIP C) a m"
  "res_get (cVM C) (snd (DeleteNic C cl n a)) = res_get (cVM C) a"
  using deleteNicIfExists_frame(1) [of m n a] deleteNicIfExists_frame(2,3) [of n a]
  by (auto simp: DeleteNic_def deletePublicIP_frame split: prod.split option.split)

lemma DeleteNic_keeps_foreign:
  assumes "res_get (cIP C) a m = Inr x" and "\<not> ownedPublicIP x m cl"
  shows "res_get (cIP C) (snd (DeleteNic C cl n a)) m = Inr x"
proof (cases "m = n")
  case True
  obtain r a1 where d: "deleteNicIfExists C n a = (r, a1)" by (rule prod.exhaust)
  then have "res_get (cIP C) a1 m = Inr x" using assms(1) deleteNicIfExists_frame(2) [of n a] by simp
  then show ?thesis using d True assms(2) by (simp add: DeleteNic_def deletePublicIP_keeps split: option.split)
qed (simp add: DeleteNic_frame assms)

lemma DeleteNic_gone:
  assumes "DeleteNic C cl n a = (None, a')"
  shows "\<exists>e. res_get (cNIC C) a' n = Inl e \<and> cNotFound C e" and "cIPClient C \<Longrightarrow> res_get (cIP C) a' n = Inr x \<Longrightarrow> \<not> ownedPublicIP x n cl"
proof -
  obtain a1 where d: "deleteNicIfExists C n a = (None, a1)" and i: "deletePublicIP C cl n a1 = (None, a')"
    using assms by (auto simp: DeleteNic_def split: prod.splits option.splits)
  show "\<exists>e. res_get (cNIC C) a' n = Inl e \<and> cNotFound C e"
    using deleteNicIfExists_gone [OF d] deletePublicIP_frame(2) [of cl n a1] i by simp
  show "cIPClient C \<Longrightarrow> res_get (cIP C) a' n = Inr x \<Longrightarrow> \<not> ownedPublicIP x n cl" by (rule deletePublicIP_gone [OF i])
qed

text \<open>The collectors.\<close>

lemma collectNics_keeps:
  "m \<in> unremovable \<Longrightarrow> res_get (cNIC C) (collectNics C cl unremovable ns a) m = res_get (cNIC C) a m \<and>
     res_get (cIP C) (collectNics C cl unremovable ns a) m = res_get (cIP C) a m"
proof (induction ns arbitrary: a)
  case (Cons n ns)
  then have "m \<noteq> FromPtr (NICName n)" if "FromPtr (NICName n) \<notin> unremovable" using that by blast
  with Cons show ?case by (auto simp: DeleteNic_frame)
qed simp

lemma collectNics_vm: "res_get (cVM C) (collectNics C cl unremovable ns a) = res_get (cVM C) a"
  by (induction ns arbitrary: a) (auto simp: DeleteNic_frame)

lemma collectNics_keeps_foreign:
  "res_get (cIP C) a m = Inr x \<Longrightarrow> \<not> ownedPublicIP x m cl \<Longrightarrow> res_get (cIP C) (collectNics C cl unremovable ns a) m = Inr x"
  by (induction ns arbitrary: a) (auto simp: DeleteNic_keeps_foreign)

text \<open>What an address must be like to be deleted by the clean-up.\<close>

lemma orphan:
  "publicIPIsOrphan C cl y protected a = Inr True \<Longrightarrow>
     FromPtr (Option.bind y IPName) \<notin> protected \<and> (\<exists>e. res_get (cNIC C) a (FromPtr (Option.bind y IPName)) = Inl e \<and> cNotFound C e)"
  by (auto simp: publicIPIsOrphan_def Let_def split: option.splits if_splits sum.splits)

lemma cleanupPage_nic: "res_get (cNIC C) (snd (cleanupPage C cl protected ys (fs, a))) = res_get (cNIC C) a"
proof (induction ys arbitrary: fs a)
  case (Cons y ys)
  show ?case using deletePublicIP_frame(2) [of cl "FromPtr (Option.bind y IPName)" a]
    by (auto simp: Cons split: sum.split bool.split prod.split option.split)
qed simp

lemma cleanupPage_keeps:
  assumes "m \<in> protected \<or> (\<exists>n. res_get (cNIC C) a m = Inr n) \<or> (\<exists>x. res_get (cIP C) a m = Inr x \<and> \<not> ownedPublicIP x m cl)"
  shows "res_get (cIP C) (snd (cleanupPage C cl protected ys (fs, a))) m = res_get (cIP C) a m"
  using assms
proof (induction ys arbitrary: fs a)
  case (Cons y ys)
  let ?n = "FromPtr (Option.bind y IPName)"
  let ?a = "snd (deletePublicIP C cl ?n a)"
  show ?case
  proof (cases "publicIPIsOrphan C cl y protected a = Inr True")
    case True
    have nic: "res_get (cNIC C) ?a = res_get (cNIC C) a" by (rule deletePublicIP_frame)
    have ip: "res_get (cIP C) ?a m = res_get (cIP C) a m"
    proof (cases "m = ?n")
      case eq: True
      with Cons.prems orphan [OF True] obtain x where "res_get (cIP C) a m = Inr x" "\<not> ownedPublicIP x m cl" by auto
      with eq show ?thesis by (simp add: deletePublicIP_keeps)
    qed (simp add: deletePublicIP_frame)
    have "res_get (cIP C) (snd (cleanupPage C cl protected ys (fs', ?a))) m = res_get (cIP C) ?a m" for fs'
      by (rule Cons.IH) (use Cons.prems nic ip in simp)
    with True ip show ?thesis by (auto split: prod.splits option.splits)
  next
    case False
    then show ?thesis using Cons by (auto split: sum.splits bool.splits)
  qed
qed simp

lemma cleanupPages_nic: "res_get (cNIC C) (snd (cleanupPages C cl protected pages (fs, a))) = res_get (cNIC C) a"
proof (induction pages arbitrary: fs a)
  case (Cons p pages)
  show ?case
  proof (cases p)
    case (Inr ys)
    obtain fs' a' where c: "cleanupPage C cl protected ys (fs, a) = (fs', a')" by (rule prod.exhaust)
    with Cons Inr cleanupPage_nic [of cl protected ys fs a] show ?thesis by simp
  qed simp
qed simp

lemma cleanupPages_keeps:
  assumes "m \<in> protected \<or> (\<exists>n. res_get (cNIC C) a m = Inr n) \<or> (\<exists>x. res_get (cIP C) a m = Inr x \<and> \<not> ownedPublicIP x m cl)"
  shows "res_get (cIP C) (snd (cleanupPages C cl protected pages (fs, a))) m = res_get (cIP C) a m"
  using assms
proof (induction pages arbitrary: fs a)
  case (Cons p pages)
  show ?case
  proof (cases p)
    case (Inr ys)
    obtain fs' a' where c: "cleanupPage C cl protected ys (fs, a) = (fs', a')" by (rule prod.exhaust)
    have "res_get (cNIC C) a' = res_get (cNIC C) a" "res_get (cIP C) a' m = res_get (cIP C) a m"
      using cleanupPage_nic [of cl protected ys fs a] cleanupPage_keeps [OF Cons.prems, of ys fs] c by simp_all
    moreover from this have "res_get (cIP C) (snd (cleanupPages C cl protected pages (fs', a'))) m = res_get (cIP C) a' m"
      by (intro Cons.IH) (use Cons.prems in simp)
    ultimately show ?thesis using Inr c by simp
  qed simp
qed simp

lemma CleanupPublicIPs_frame:
  "res_get (cNIC C) (snd (CleanupPublicIPs C cl protected pages a)) = res_get (cNIC C) a"
  "m \<in> protected \<or> (\<exists>n. res_get (cNIC C) a m = Inr n) \<or> (\<exists>x. res_get (cIP C) a m = Inr x \<and> \<not> ownedPublicIP x m cl) \<Longrightarrow>
    res_get (cIP C) (snd (CleanupPublicIPs C cl protected pages a)) m = res_get (cIP C) a m"
  by (simp_all add: CleanupPublicIPs_def cleanupPages_nic cleanupPages_keeps)

lemma Reconcile_state:
  "snd (ReconcileNetworkInterfaces C cl nics vms claims pages a) = a \<or>
   (\<exists>ns vs cs. nics = Inr ns \<and> vms = Inr vs \<and> claims = Inr cs \<and> snd (ReconcileNetworkInterfaces C cl nics vms claims pages a) =
      snd (CleanupPublicIPs C cl (populateUnremovableInterfaces vs cs) pages (collectNics C cl (populateUnremovableInterfaces vs cs) ns a)))"
  by (cases nics; cases vms; cases claims) (auto simp: ReconcileNetworkInterfaces_def Let_def split: prod.split list.split)

end

text \<open>Azure in memory: machines, interfaces and addresses in three maps.\<close>

type_synonym mem_cloud_state = "(string \<rightharpoonup> vm) \<times> (string \<rightharpoonup> nic) \<times> (string \<rightharpoonup> publicIP)"

definition absentErr :: sdkError where
  "absentErr = \<lparr>ErrText = ''gone'', ResponseText = ''gone'', StatusCode = Some 404, SDKErrorCode = ''ResourceNotFound'', IsContextError = False\<rparr>"

definition mem_resource :: "('a \<Rightarrow> string \<rightharpoonup> 'x) \<Rightarrow> (string \<Rightarrow> 'a \<Rightarrow> 'a) \<Rightarrow> ('a, 'x) resource_api" where
  "mem_resource look remove =
     \<lparr>res_get = (\<lambda>a n. case look a n of None \<Rightarrow> Inl absentErr | Some x \<Rightarrow> Inr x), res_beginDelete = (\<lambda>n a. (None, a)), res_pollDelete = (\<lambda>n a. (None, remove n a))\<rparr>"

definition mem_cloud :: "mem_cloud_state cloud" where
  "mem_cloud = \<lparr>cVM = mem_resource fst (\<lambda>n (v, c, i). (v(n := None), c, i)),
     cNIC = mem_resource (\<lambda>a. fst (snd a)) (\<lambda>n (v, c, i). (v, c(n := None), i)),
     cIP = mem_resource (\<lambda>a. snd (snd a)) (\<lambda>n (v, c, i). (v, c, i(n := None))),
     cIPClient = True, cNotFound = (\<lambda>e. StatusCode e = Some 404),
     cCreateNic = (\<lambda>n x (v, c, i). let x = x\<lparr>NICID := Some n\<rparr> in (Inr x, (v, c(n \<mapsto> x), i))),
     cBeginCreateIP = (\<lambda>n x (v, c, i). (None, (v, c, i(n \<mapsto> x\<lparr>IPID := Some n\<rparr>)))),
     cPollCreateIP = (\<lambda>n (v, c, i). (case i n of None \<Rightarrow> Inl absentErr | Some x \<Rightarrow> Inr x, (v, c, i)))\<rparr>"

interpretation mem_cloud: cloud_service mem_cloud
  by unfold_locales (auto simp: mem_cloud_def mem_resource_def absentErr_def split: prod.splits option.splits)

subsection \<open>Properties\<close>

text \<open>
  C22: The collector of orphaned interfaces spares whatever belongs to a listed machine or to a claim of the cluster, also to one
  whose machine does not exist yet: neither the interface nor the public address of such a name is touched.
\<close>

theorem collector_spares_machines_and_claims:
  assumes "cloud_service C" and "v \<in> set vms \<and> n = FromPtr (VMName v) \<or> c \<in> set claims \<and> n = GenerateResourceName (NCName c)"
  shows "res_get (cNIC C) (snd (ReconcileNetworkInterfaces C cluster nics (Inr vms) (Inr claims) pages a)) n = res_get (cNIC C) a n \<and>
    res_get (cIP C) (snd (ReconcileNetworkInterfaces C cluster nics (Inr vms) (Inr claims) pages a)) n = res_get (cIP C) a n"
proof -
  have n: "n \<in> populateUnremovableInterfaces vms claims" using assms(2) by (auto simp: populateUnremovableInterfaces_def)
  show ?thesis
    using cloud_service.Reconcile_state [OF assms(1), of cluster nics "Inr vms" "Inr claims" pages a]
      cloud_service.CleanupPublicIPs_frame(1) [OF assms(1), of cluster "populateUnremovableInterfaces vms claims" pages]
      cloud_service.CleanupPublicIPs_frame(2) [OF assms(1), where cl = cluster and m = n and protected = "populateUnremovableInterfaces vms claims" and pages = pages]
      cloud_service.collectNics_keeps [OF assms(1) n] n by auto
qed

theorem collector_spares_machines_and_claims_witness:
  "res_get (cNIC mem_cloud) (snd (ReconcileNetworkInterfaces mem_cloud ''c'' (Inr []) (Inr []) (Inr [newClaim\<lparr>NCName := ''x''\<rparr>]) [] (Map.empty, Map.empty, Map.empty)))
     ''aks-x'' = res_get (cNIC mem_cloud) (Map.empty, Map.empty, Map.empty) ''aks-x''"
  using collector_spares_machines_and_claims [OF mem_cloud.cloud_service_axioms, of _ "[]" "''aks-x''" "newClaim\<lparr>NCName := ''x''\<rparr>" "[newClaim\<lparr>NCName := ''x''\<rparr>]"]
  by (simp add: GenerateResourceName_def)

text \<open>
  A public address whose tags do not name this node and this cluster survives everything that deletes addresses: the deletion of the node's
  interface, and the collector with whatever it lists.
\<close>

theorem foreign_public_addresses_survive:
  assumes "cloud_service C" and "res_get (cIP C) a n = Inr x" and "\<not> ownedPublicIP x n cluster"
  shows "res_get (cIP C) (snd (DeleteNic C cluster m a)) n = Inr x \<and>
    res_get (cIP C) (snd (ReconcileNetworkInterfaces C cluster nics vms claims pages a)) n = Inr x"
proof -
  have "res_get (cIP C) (collectNics C cluster u ns a) n = Inr x" for u ns
    by (rule cloud_service.collectNics_keeps_foreign [OF assms])
  then show ?thesis
    using cloud_service.Reconcile_state [OF assms(1), of cluster nics vms claims pages a] cloud_service.DeleteNic_keeps_foreign [OF assms]
      cloud_service.CleanupPublicIPs_frame(2) [OF assms(1), where cl = cluster and m = n and pages = pages] assms(2,3) by (elim disjE exE) auto
qed

definition foreignIP :: publicIP where
  "foreignIP = \<lparr>IPName = Some ''aks-x'', IPID = Some ''/ip'', IPLocation = None, IPZones = [], IPTags = None, IPAttached = False\<rparr>"

theorem foreign_public_addresses_survive_witness:
  "res_get (cIP mem_cloud) (snd (DeleteNic mem_cloud ''c'' ''aks-x'' (Map.empty, Map.empty, [''aks-x'' \<mapsto> foreignIP]))) ''aks-x'' = Inr foreignIP"
  by (rule foreign_public_addresses_survive [OF mem_cloud.cloud_service_axioms, THEN conjunct1])
     (simp_all add: mem_cloud_def mem_resource_def ownedPublicIP_def tagText_def tagOf_def foreignIP_def FromPtr_def)

end
