(* ===== verification/AKS_Instances.thy ===== *)
theory AKS_Instances
  imports Node_Claims Node_Class
begin

text \<open>
  The provider of AKS machine instances (src/pkg/providers/instance/aksmachineinstance.go): creating a machine or reusing the one that an
  earlier attempt left behind, with the clean-up of a failed attempt and the quota accounting; reading, listing, updating and deleting
  machines. It works on the machine cache, the quota provider and the unavailable offerings as they are modelled here. The Azure API with its state
  \<open>'a\<close>, the allocation of an offering and the building of a machine template are arguments (the record \<open>aks_env\<close>); the template
  builder only fills an SDK structure. An \<open>IfMatch\<close> precondition is part of the update call of the API.

  Shown here: an attempt that finds its own machine reuses it and changes nothing; a machine of another claim with the
  same name is deleted; a machine whose size is not among the instance types makes the attempt panic; every failed attempt
  deletes; quota is charged exactly for issued creates and given back by the clean-up.
\<close>

subsection \<open>State and interfaces\<close>

record ('a, 's, 'f) aks_world =
  azure :: 'a
  mcache :: machineCache
  deletingMachines :: "string set"
  quotas :: quotaProvider
  offs :: "('s, 'f) unavailableOfferings"

text \<open>An error of the provider: not found for Karpenter core, a handled launch error with the text around it, or any other.\<close>

datatype instErr = ClaimNotFound error | LaunchErr error launch_error | PlainErr error

record 'a machine_api =
  az_get :: "'a \<Rightarrow> string \<Rightarrow> sdkError + aksMachine"
  az_list :: "'a \<Rightarrow> bool \<Rightarrow> page list option"
  az_create :: "string \<Rightarrow> aksMachine \<Rightarrow> 'a \<Rightarrow> sdkError option \<times> 'a"
  az_createBatch :: "string \<Rightarrow> aksMachine \<Rightarrow> 'a \<Rightarrow> handlableError option result \<times> 'a"
  az_update :: "string \<Rightarrow> aksMachine \<Rightarrow> string option \<Rightarrow> 'a \<Rightarrow> sdkError option \<times> 'a"
  az_pollUpdate :: "string \<Rightarrow> 'a \<Rightarrow> error option \<times> 'a"
  az_beginDelete :: "string \<Rightarrow> 'a \<Rightarrow> sdkError option \<times> 'a"
  az_pollDelete :: "string \<Rightarrow> 'a \<Rightarrow> sdkError option \<times> 'a"

record 'r placement =
  plInstanceType :: "'r instanceType"
  plCapacityType :: string
  plZone :: string
  plScope :: string

record ('a, 's, 'f, 'r, 'c) aks_env =
  envAPI :: "'a machine_api"
  envCtx :: "('s, 'f, 'r) handler_ctx"
  envMatchers :: "Offering_Errors.errorDetail sdk_matchers"
  envErrors :: "sdkError error_api"
  envSKU :: "string \<Rightarrow> SKU result"
  envAllocate :: "'r instanceType list \<Rightarrow> claim \<Rightarrow> 'r placement option"
  envTemplate :: "'r placement \<Rightarrow> 'c nodeClass \<Rightarrow> claim \<Rightarrow> aksMachine result"
  envHash :: string_hash
  envRange :: "string list \<Rightarrow> string list"
  envNow :: time
  envPoolName :: string
  envLocation :: string
  envVisible :: bool
  envBatch :: bool

record 'r promise =
  prTemplate :: aksMachine
  prMachineName :: string
  prInstanceType :: "'r instanceType"
  prCapacityType :: string
  prZone :: string
  prMachineID :: string
  prImageVersion :: string
  prVMResourceID :: string
  prCreation :: time
  prCreateIssued :: bool
  prMetadata :: quotaMetadata

definition skuOf :: "(string \<Rightarrow> SKU result) \<Rightarrow> string \<Rightarrow> SKU option" where
  "skuOf getSKU n = (case getSKU n of Inl _ \<Rightarrow> None | Inr s \<Rightarrow> Some s)"

text \<open>A read through the machine cache.\<close>

definition cacheGet :: "('a, 's, 'f, 'r, 'c) aks_env \<Rightarrow> string \<Rightarrow> bool \<Rightarrow> ('a, 's, 'f) aks_world \<Rightarrow> (sdkError + aksMachine) \<times> ('a, 's, 'f) aks_world" where
  "cacheGet E name useCache w =
     (let (r, c) = GetWithFallback (az_get (envAPI E) (azure w)) (envNow E) name useCache (mcache w) in (r, w\<lparr>mcache := c\<rparr>))"

subsection \<open>Errors\<close>

fun toDetail :: "AKS_Machine.errorDetail \<Rightarrow> Offering_Errors.errorDetail" where
  "toDetail (ErrorDetail c m _ _) = \<lparr>Code = c, Message = m\<rparr>"

definition innerDetail :: "AKS_Machine.errorDetail \<Rightarrow> AKS_Machine.errorDetail" where
  "innerDetail e = (case Details e of Some d # _ \<Rightarrow> d | _ \<Rightarrow> e)"

definition codeAndMessage :: "AKS_Machine.errorDetail \<Rightarrow> string" where
  "codeAndMessage e = ''code='' @ FromPtr (DetailCode e) @ '', message='' @ FromPtr (DetailMessage e)"

text \<open>The instance type may be missing when a machine is reused; its name is then read through a nil pointer.\<close>

definition handleMachineProvisioningError :: "('a, 's, 'f, 'r, 'c) aks_env \<Rightarrow> string \<Rightarrow> string \<Rightarrow> 'r instanceType option \<Rightarrow> string \<Rightarrow> string \<Rightarrow> string
    \<Rightarrow> AKS_Machine.errorDetail \<Rightarrow> ('a, 's, 'f) aks_world \<Rightarrow> (panic + instErr) \<times> ('a, 's, 'f) aks_world" where
  "handleMachineProvisioningError E phase name it zone capacityType groupID provisioningError w =
     (case it of
        None \<Rightarrow> (Inl NilDereference, w)
      | Some it \<Rightarrow>
          let inner = innerDetail provisioningError in
          case envSKU E (Name it) of
            Inl e \<Rightarrow> (Inr (PlainErr (''failed to get instance type '' @ quoted (Name it) @ '': '' @ e @ '', provisioning error left unhandled: '' @
                codeAndMessage inner)), w)
          | Inr sku \<Rightarrow>
              let (u, r) = detail_Handle (envMatchers E) (envCtx E) (offs w) sku it zone capacityType groupID (toDetail inner);
                  w' = w\<lparr>offs := u\<rparr>
              in case r of
                   Some le \<Rightarrow> (Inr (LaunchErr (''failed to create AKS machine '' @ quoted name @ '' during '' @ phase @ '', handled provisioning error: '') le), w')
                 | None \<Rightarrow> (Inr (PlainErr (''failed to create AKS machine '' @ quoted name @ '' during '' @ phase @ '', unhandled provisioning error: '' @
                     codeAndMessage inner)), w'))"

definition handleMachineBeginCreateError :: "('a, 's, 'f, 'r, 'c) aks_env \<Rightarrow> string \<Rightarrow> 'r instanceType \<Rightarrow> string \<Rightarrow> string \<Rightarrow> string
    \<Rightarrow> handlableError \<Rightarrow> ('a, 's, 'f) aks_world \<Rightarrow> instErr \<times> ('a, 's, 'f) aks_world" where
  "handleMachineBeginCreateError E name it zone capacityType groupID he w =
     (case envSKU E (Name it) of
        Inl e \<Rightarrow> (PlainErr (''failed to get instance type '' @ quoted (Name it) @ '': '' @ e @ '', begin create error left unhandled: '' @ HandlableError_Error he), w)
      | Inr sku \<Rightarrow>
          let (u, r) = beginCreate_Handle (envCtx E) (offs w) sku it zone capacityType groupID he;
              w' = w\<lparr>offs := u\<rparr>
          in case r of
               Some le \<Rightarrow> (LaunchErr (''failed to begin create AKS machine '' @ quoted name @ '', handled error: '') le, w')
             | None \<Rightarrow> (PlainErr (''failed to begin create AKS machine '' @ quoted name @ '', unhandled error: '' @ HandlableError_Error he), w'))"

subsection \<open>Reusing a machine\<close>

definition validateCapacityReservationGroupAssociation :: "string \<Rightarrow> string \<Rightarrow> error option" where
  "validateCapacityReservationGroupAssociation actual desired =
     (if \<not> EqualFold actual desired then
        Some (''is associated with capacity reservation group '' @ quoted actual @ '', but the NodeClass now specifies '' @ quoted desired)
      else None)"

definition validateExistingAKSMachineCapacityReservation :: "aksMachine \<Rightarrow> 'c nodeClass \<Rightarrow> error option" where
  "validateExistingAKSMachineCapacityReservation m nc =
     validateCapacityReservationGroupAssociation (FromPtr (Option.bind (AMProperties m) AMCapacityReservationGroupID)) (GetCapacityReservationGroupID nc)"

text \<open>\<open>lo.ElementsMatch\<close> compares two lists as multisets; the printed tags are left out of the message.\<close>

definition validateExistingAKSMachineNodePublicIP :: "aksMachine \<Rightarrow> 'c nodeClass \<Rightarrow> error option" where
  "validateExistingAKSMachineNodePublicIP m nc =
     (let net = Option.bind (AMProperties m) AMNetwork;
          actualEnabled = (Option.bind net NetEnableNodePublicIP = Some True);
          actualPrefixID = FromPtr (Option.bind net NetNodePublicIPPrefixID);
          actualIPTags = (case net of None \<Rightarrow> [] | Some n \<Rightarrow> List.map_filter (map_option (\<lambda>(t, v). (FromPtr t, FromPtr v))) (NetNodePublicIPTags n));
          desiredEnabled = IsNodePublicIPEnabled nc;
          desiredPrefixID = (case GetNodePublicIPPrefixIDs nc of [] \<Rightarrow> [] | p # _ \<Rightarrow> p)
      in if actualEnabled \<noteq> desiredEnabled then
           Some (''has node public IP enabled='' @ boolText actualEnabled @ '', but the NodeClass now specifies enabled='' @ boolText desiredEnabled)
         else if \<not> EqualFold actualPrefixID desiredPrefixID then
           Some (''uses node public IP prefix '' @ quoted actualPrefixID @ '', but the NodeClass now specifies '' @ quoted desiredPrefixID)
         else if mset actualIPTags \<noteq> mset (GetNodePublicIPTags nc) then Some ''has node public IP tags, but the NodeClass now specifies others''
         else None)"

text \<open>The properties, the status and the claim's name of a machine that may be reused.\<close>

definition validateExistingAKSMachineForReuse :: "string \<Rightarrow> 'c nodeClass \<Rightarrow> aksMachine \<Rightarrow> (aksMachineProperties \<times> machineStatus \<times> string) result" where
  "validateExistingAKSMachineForReuse name nc m =
     (case validateRetrievedAKSMachineBasicProperties m of
        Inl e \<Rightarrow> Inl (''found existing AKS machine '' @ name @ '', but '' @ e)
      | Inr (p, st) \<Rightarrow>
        (case validateExistingAKSMachineCapacityReservation m nc of
           Some e \<Rightarrow> Inl (''found existing AKS machine '' @ name @ '', but it '' @ e)
         | None \<Rightarrow>
           (case validateExistingAKSMachineNodePublicIP m nc of
              Some e \<Rightarrow> Inl (''found existing AKS machine '' @ name @ '', but it '' @ e)
            | None \<Rightarrow>
              (case tagOf (AMTags p) KarpenterAKSMachineNodeClaimTagKey of
                 Some (Some claimName) \<Rightarrow> Inr (p, st, claimName)
               | _ \<Rightarrow> Inl (''found existing AKS machine '' @ name @ '', but irretrievable karpenter.azure.com_aksmachine_nodeclaim tag'')))))"

definition reuseExistingMachine :: "('a, 's, 'f, 'r, 'c) aks_env \<Rightarrow> string \<Rightarrow> 'c nodeClass \<Rightarrow> claim \<Rightarrow> 'r instanceType list \<Rightarrow> aksMachine
    \<Rightarrow> ('a, 's, 'f) aks_world \<Rightarrow> (panic + (instErr + 'r promise)) \<times> ('a, 's, 'f) aks_world" where
  "reuseExistingMachine E name nc nodeClaim its m w =
     (case validateExistingAKSMachineForReuse name nc m of
        Inl e \<Rightarrow> (Inr (Inl (PlainErr e)), w)
      | Inr (p, st, claimName) \<Rightarrow>
          let it = GetInstanceTypeFromVMSize (FromPtr (AMVMSize p)) its;
              capacityType = (case AMPriority p of None \<Rightarrow> [] | Some pr \<Rightarrow> getCapacityTypeFromAKSScaleSetPriority pr)
          in case MakeAKSLabelZoneFromARMZones (envLocation E) (AMZones m) of
               Inl e \<Rightarrow> (Inr (Inl (PlainErr (''found existing AKS machine '' @ name @ '', but failed to determine zone: '' @ e))), w)
             | Inr zone \<Rightarrow>
                 if claimName \<noteq> NCName nodeClaim then
                   (Inr (Inl (PlainErr (''found existing AKS machine '' @ name @ '', but its karpenter.azure.com_aksmachine_nodeclaim tag '' @ quoted claimName @
                      '' does not match the NodeClaim to create '' @ quoted (NCName nodeClaim)))), w)
                 else if AMProvisioningState p = Some ProvisioningStateFailed then
                   (case StProvisioningError st of
                      None \<Rightarrow> (Inr (Inl (PlainErr (''found existing AKS machine '' @ name @ '', but it is in Failed state and ProvisioningError is nil''))), w)
                    | Some e \<Rightarrow>
                        (case handleMachineProvisioningError E ''reusing existing AKS machine'' name it zone capacityType (GetCapacityReservationGroupID nc) e w of
                           (Inl pn, w') \<Rightarrow> (Inl pn, w')
                         | (Inr err, w') \<Rightarrow> (Inr (Inl err), w')))
                 else (case it of
                    None \<Rightarrow> (Inl NilDereference, w)
                  | Some it \<Rightarrow> (Inr (Inr \<lparr>prTemplate = m, prMachineName = name, prInstanceType = it, prCapacityType = capacityType, prZone = zone,
                      prMachineID = FromPtr (AMID m), prImageVersion = FromPtr (AMNodeImageVersion p), prVMResourceID = FromPtr (AMResourceID p),
                      prCreation = (case StCreationTimestamp st of None \<Rightarrow> 0 | Some t \<Rightarrow> t), prCreateIssued = False, prMetadata = noMetadata\<rparr>), w)))"

subsection \<open>Creating a machine\<close>

definition getCreatedMachineAndHandleEarlyProvisioningError :: "('a, 's, 'f, 'r, 'c) aks_env \<Rightarrow> string \<Rightarrow> 'r instanceType \<Rightarrow> string \<Rightarrow> string \<Rightarrow> string
    \<Rightarrow> ('a, 's, 'f) aks_world \<Rightarrow> (panic + (instErr + aksMachine \<times> aksMachineProperties \<times> machineStatus)) \<times> ('a, 's, 'f) aks_world" where
  "getCreatedMachineAndHandleEarlyProvisioningError E name it zone capacityType groupID w =
     (case cacheGet E name False w of
        (Inl e, w') \<Rightarrow> (Inr (Inl (PlainErr (''failed to get AKS machine '' @ quoted name @ '' once after begin creation: '' @ ErrText e))), w')
      | (Inr m, w') \<Rightarrow>
        (case validateRetrievedAKSMachineBasicProperties m of
           Inl e \<Rightarrow> (Inr (Inl (PlainErr (''failed to get AKS machine '' @ quoted name @ '' once after begin creation: '' @ e))), w')
         | Inr (p, st) \<Rightarrow>
             if FromPtr (AMProvisioningState p) = ProvisioningStateFailed then
               (case StProvisioningError st of
                  None \<Rightarrow> (Inr (Inl (PlainErr (''failed to get AKS machine '' @ quoted name @
                    '' once after begin creation: AKS machine is in Failed state but ProvisioningError is nil''))), w')
                | Some e \<Rightarrow>
                    (case handleMachineProvisioningError E ''get once after begin creation'' name (Some it) zone capacityType groupID e w' of
                       (Inl pn, w'') \<Rightarrow> (Inl pn, w'')
                     | (Inr err, w'') \<Rightarrow> (Inr (Inl err), w'')))
             else (Inr (Inr (m, p, st)), w')))"

text \<open>The promise after the API has accepted the create.\<close>

definition createdPromise :: "('a, 's, 'f, 'r, 'c) aks_env \<Rightarrow> aksMachine \<Rightarrow> string \<Rightarrow> 'r placement \<Rightarrow> string
    \<Rightarrow> ('a, 's, 'f) aks_world \<Rightarrow> (panic + (instErr + 'r promise)) \<times> ('a, 's, 'f) aks_world" where
  "createdPromise E template name pl groupID w =
     (case getCreatedMachineAndHandleEarlyProvisioningError E name (plInstanceType pl) (plZone pl) (plCapacityType pl) groupID w of
        (Inl pn, w') \<Rightarrow> (Inl pn, w')
      | (Inr (Inl e), w') \<Rightarrow> (Inr (Inl e), w')
      | (Inr (Inr (m, p, st)), w') \<Rightarrow> (Inr (Inr \<lparr>prTemplate = template, prMachineName = name, prInstanceType = plInstanceType pl, prCapacityType = plCapacityType pl,
          prZone = plZone pl, prMachineID = FromPtr (AMID m), prImageVersion = FromPtr (AMNodeImageVersion p), prVMResourceID = FromPtr (AMResourceID p),
          prCreation = (case StCreationTimestamp st of None \<Rightarrow> 0 | Some t \<Rightarrow> t), prCreateIssued = True, prMetadata = noMetadata\<rparr>), w'))"

definition beginCreateMachineBatch :: "('a, 's, 'f, 'r, 'c) aks_env \<Rightarrow> aksMachine \<Rightarrow> string \<Rightarrow> 'r placement \<Rightarrow> string
    \<Rightarrow> ('a, 's, 'f) aks_world \<Rightarrow> (panic + (instErr + 'r promise)) \<times> ('a, 's, 'f) aks_world" where
  "beginCreateMachineBatch E template name pl groupID w =
     (let (r, a) = az_createBatch (envAPI E) name template (azure w); w1 = w\<lparr>azure := a\<rparr> in
      case r of
        Inl e \<Rightarrow> (Inr (Inl (PlainErr (''failed to begin create AKS machine '' @ quoted name @ '', unhandled error: '' @ e))), w1)
      | Inr (Some he) \<Rightarrow>
          (let (e, w2) = handleMachineBeginCreateError E name (plInstanceType pl) (plZone pl) (plCapacityType pl) groupID he w1 in (Inr (Inl e), w2))
      | Inr None \<Rightarrow> createdPromise E template name pl groupID w1)"

definition beginCreateMachineNonBatch :: "('a, 's, 'f, 'r, 'c) aks_env \<Rightarrow> aksMachine \<Rightarrow> string \<Rightarrow> 'r placement \<Rightarrow> string
    \<Rightarrow> ('a, 's, 'f) aks_world \<Rightarrow> (panic + (instErr + 'r promise)) \<times> ('a, 's, 'f) aks_world" where
  "beginCreateMachineNonBatch E template name pl groupID w =
     (let (r, a) = az_create (envAPI E) name template (azure w); w1 = w\<lparr>azure := a\<rparr> in
      case r of
        Some err \<Rightarrow>
          (case ErrorToHandlableError (envErrors E) err of
             Some he \<Rightarrow>
               (let (e, w2) = handleMachineBeginCreateError E name (plInstanceType pl) (plZone pl) (plCapacityType pl) groupID he w1 in (Inr (Inl e), w2))
           | None \<Rightarrow> (Inr (Inl (PlainErr (''failed to begin create AKS machine '' @ quoted name @ '', unhandled error: '' @ ErrText err))), w1))
      | None \<Rightarrow> createdPromise E template name pl groupID w1)"

text \<open>What the promise of a batched create waits for: the provisioning error and the poller error of the machine cache.\<close>

definition waitBatch :: "('a, 's, 'f, 'r, 'c) aks_env \<Rightarrow> 'r promise \<Rightarrow> string \<Rightarrow> AKS_Machine.errorDetail option \<times> error option
    \<Rightarrow> ('a, 's, 'f) aks_world \<Rightarrow> (panic + instErr option) \<times> ('a, 's, 'f) aks_world" where
  "waitBatch E pr groupID polled w =
     (case polled of
        (_, Some pollerErr) \<Rightarrow> (Inr (Some (PlainErr (''failed to create AKS machine '' @ quoted (prMachineName pr) @
            '' during LRO (GET poller), poller error: '' @ pollerErr))), w)
      | (Some provisioningErr, None) \<Rightarrow>
          (case handleMachineProvisioningError E ''LRO (GET poller)'' (prMachineName pr) (Some (prInstanceType pr)) (prZone pr) (prCapacityType pr) groupID provisioningErr w of
             (Inl pn, w') \<Rightarrow> (Inl pn, w')
           | (Inr e, w') \<Rightarrow> (Inr (Some e), w'))
      | (None, None) \<Rightarrow> (Inr None, w))"

datatype poll_outcome = PollDone | PollFailed error | PollPanicked string

definition aksPanicked :: "string \<Rightarrow> string \<Rightarrow> instErr" where
  "aksPanicked name r = PlainErr (''failed to create AKS machine '' @ quoted name @ '' during LRO, AKS API panicked: '' @ r)"

text \<open>The error of the read after a failed poll is dropped; a nil machine is then followed, and the panic is recovered.\<close>

definition waitNonBatch :: "('a, 's, 'f, 'r, 'c) aks_env \<Rightarrow> 'r promise \<Rightarrow> string \<Rightarrow> poll_outcome
    \<Rightarrow> ('a, 's, 'f) aks_world \<Rightarrow> instErr option \<times> ('a, 's, 'f) aks_world" where
  "waitNonBatch E pr groupID polled w =
     (case polled of
        PollDone \<Rightarrow> (None, w)
      | PollPanicked r \<Rightarrow> (Some (aksPanicked (prMachineName pr) r), w)
      | PollFailed err \<Rightarrow>
          (case cacheGet E (prMachineName pr) False w of
             (Inl _, w') \<Rightarrow> (Some (aksPanicked (prMachineName pr) ''runtime error: invalid memory address or nil pointer dereference''), w')
           | (Inr m, w') \<Rightarrow>
               (case Option.bind (AMProperties m) AMProvisioningError of
                  Some e \<Rightarrow>
                    (case handleMachineProvisioningError E ''LRO'' (prMachineName pr) (Some (prInstanceType pr)) (prZone pr) (prCapacityType pr) groupID e w' of
                       (Inl _, w'') \<Rightarrow> (Some (aksPanicked (prMachineName pr) ''runtime error: invalid memory address or nil pointer dereference''), w'')
                     | (Inr e, w'') \<Rightarrow> (Some e, w''))
                | None \<Rightarrow> (Some (PlainErr (''failed to create AKS machine '' @ quoted (prMachineName pr) @ '' during LRO, AKS API returned error: '' @ err)), w'))))"

definition beginCreateMachine :: "('a, 's, 'f, 'r, 'c) aks_env \<Rightarrow> 'c nodeClass \<Rightarrow> claim \<Rightarrow> 'r instanceType list \<Rightarrow> string
    \<Rightarrow> ('a, 's, 'f) aks_world \<Rightarrow> (panic + (instErr + 'r promise)) \<times> ('a, 's, 'f) aks_world" where
  "beginCreateMachine E nc nodeClaim its name w =
     (case cacheGet E name True w of
        (Inr m, w1) \<Rightarrow> reuseExistingMachine E name nc nodeClaim its m w1
      | (Inl _, w1) \<Rightarrow>
        (case envAllocate E its nodeClaim of
           None \<Rightarrow> (Inr (Inl (LaunchErr [] (InsufficientCapacityError ''no instance types available''))), w1)
         | Some pl \<Rightarrow>
           (case envTemplate E pl nc nodeClaim of
              Inl e \<Rightarrow> (Inr (Inl (PlainErr (''failed to build AKS machine template from template: '' @ e))), w1)
            | Inr template \<Rightarrow>
                if envBatch E then beginCreateMachineBatch E template name pl (GetCapacityReservationGroupID nc) w1
                else beginCreateMachineNonBatch E template name pl (GetCapacityReservationGroupID nc) w1)))"

definition deleteMachine :: "('a, 's, 'f, 'r, 'c) aks_env \<Rightarrow> string \<Rightarrow> ('a, 's, 'f) aks_world \<Rightarrow> sdkError option \<times> ('a, 's, 'f) aks_world" where
  "deleteMachine E name w =
     (let w1 = w\<lparr>deletingMachines := insert name (deletingMachines w)\<rparr>;
          (err, a) = az_beginDelete (envAPI E) name (azure w1);
          w2 = w1\<lparr>azure := a\<rparr>
      in case err of
           Some e \<Rightarrow> (Some (e\<lparr>ErrText := ''failed to begin delete AKS machine '' @ quoted name @ '': '' @ ErrText e\<rparr>),
                      w2\<lparr>deletingMachines := deletingMachines w2 - {name}\<rparr>)
         | None \<Rightarrow>
             let (err, a) = az_pollDelete (envAPI E) name (azure w2); w3 = w2\<lparr>azure := a\<rparr> in
             case err of
               Some e \<Rightarrow> (Some (e\<lparr>ErrText := ''failed to delete AKS machine '' @ quoted name @ '' during LRO: '' @ ErrText e\<rparr>),
                          w3\<lparr>deletingMachines := deletingMachines w3 - {name}\<rparr>)
             | None \<Rightarrow> (None, w3\<lparr>mcache := Invalidate name (mcache w3), deletingMachines := deletingMachines w3 - {name}\<rparr>))"

definition aksMachineNameFor :: "('a, 's, 'f, 'r, 'c) aks_env \<Rightarrow> 'c nodeClass \<Rightarrow> claim \<Rightarrow> panic + string result" where
  "aksMachineNameFor E nc nodeClaim =
     (if IsWindowsImageFamily (FromPtr (SpecImageFamily nc)) then Inr (GetWindowsAKSMachineName (envHash E) (NCName nodeClaim) (envPoolName E))
      else GetLinuxAKSMachineName (envHash E) (NCName nodeClaim))"

definition BeginCreate :: "('a, 's, 'f, 'r, 'c) aks_env \<Rightarrow> 'c nodeClass \<Rightarrow> claim \<Rightarrow> 'r instanceType list
    \<Rightarrow> ('a, 's, 'f) aks_world \<Rightarrow> (panic + (instErr + 'r promise)) \<times> ('a, 's, 'f) aks_world" where
  "BeginCreate E nc nodeClaim its w =
     (let quotaGeneration = lc_snapshotGeneration (quotas w) in
      case aksMachineNameFor E nc nodeClaim of
        Inl pn \<Rightarrow> (Inl pn, w)
      | Inr (Inl e) \<Rightarrow> (Inr (Inl (PlainErr (''failed to generate AKS machine name from NodeClaim name '' @ quoted (NCName nodeClaim) @ '': '' @ e))), w)
      | Inr (Inr name) \<Rightarrow>
        (case beginCreateMachine E nc nodeClaim its name w of
           (Inl pn, w1) \<Rightarrow> (Inl pn, w1)
         | (Inr (Inl err), w1) \<Rightarrow> (Inr (Inl err), snd (deleteMachine E name w1))
         | (Inr (Inr pr), w1) \<Rightarrow>
             if prCreateIssued pr then
               let md = metadata (skuOf (envSKU E)) (Name (prInstanceType pr)) (prCapacityType pr) (GetCapacityReservationGroupID nc \<noteq> [])
               in (Inr (Inr (pr\<lparr>prMetadata := md\<rparr>)), w1\<lparr>quotas := recordCreate (quotas w1) quotaGeneration (nodeClaim.truncate nodeClaim) md\<rparr>)
             else (Inr (Inr pr), w1)))"

subsection \<open>Reading, listing, updating\<close>

definition notVisible :: error where
  "notVisible = ''existing AKS machines management is disabled, and provision mode is not AKS machine''"

definition Get :: "('a, 's, 'f, 'r, 'c) aks_env \<Rightarrow> string \<Rightarrow> bool \<Rightarrow> ('a, 's, 'f) aks_world \<Rightarrow> (instErr + aksMachine) \<times> ('a, 's, 'f) aks_world" where
  "Get E name useCache w =
     (if \<not> envVisible E then (Inl (ClaimNotFound notVisible), w)
      else if envPoolName E = [] then (Inl (ClaimNotFound ''failed to get AKS machine, AKS machines pool name is empty''), w)
      else case cacheGet E name useCache w of
        (Inl e, w') \<Rightarrow> (Inl (if IsAKSMachineOrMachinesPoolNotFound e then ClaimNotFound (ErrText e) else PlainErr (ErrText e)), w')
      | (Inr m, w') \<Rightarrow> (Inr m, w'))"

definition List :: "('a, 's, 'f, 'r, 'c) aks_env \<Rightarrow> bool \<Rightarrow> bool \<Rightarrow> ('a, 's, 'f) aks_world \<Rightarrow> (failure + aksMachine list) \<times> ('a, 's, 'f) aks_world" where
  "List E useCache expandMachineVMState w =
     (if \<not> envVisible E \<or> envPoolName E = [] then (Inr [], w)
      else let (r, c) = ListWithFallback (envRange E) (az_list (envAPI E) (azure w) expandMachineVMState) (envNow E)
                (useCache \<and> \<not> expandMachineVMState) (mcache w)
           in (r, w\<lparr>mcache := c\<rparr>))"

definition Update :: "('a, 's, 'f, 'r, 'c) aks_env \<Rightarrow> string \<Rightarrow> aksMachine \<Rightarrow> string option \<Rightarrow> ('a, 's, 'f) aks_world \<Rightarrow> instErr option \<times> ('a, 's, 'f) aks_world" where
  "Update E name m etag w =
     (if \<not> envVisible E then (Some (ClaimNotFound notVisible), w)
      else let (err, a) = az_update (envAPI E) name m etag (azure w); w1 = w\<lparr>azure := a\<rparr> in
        case err of
          Some e \<Rightarrow>
            (let msg = ''failed to begin update AKS machine '' @ quoted name @ '': '' @ ErrText e in
             (Some (if IsAKSMachineOrMachinesPoolNotFound e then ClaimNotFound msg else PlainErr msg), w1))
        | None \<Rightarrow>
            let (err, a) = az_pollUpdate (envAPI E) name (azure w1); w2 = w1\<lparr>azure := a\<rparr> in
            case err of
              Some e \<Rightarrow> (Some (PlainErr (''failed to update AKS machine '' @ quoted name @ '' during LRO: '' @ e)), w2)
            | None \<Rightarrow> (None, w2\<lparr>mcache := Invalidate name (mcache w2)\<rparr>))"

subsection \<open>Deleting\<close>

text \<open>Whether the machine is gone, and the error.\<close>

definition deleteImpl :: "('a, 's, 'f, 'r, 'c) aks_env \<Rightarrow> string \<Rightarrow> ('a, 's, 'f) aks_world \<Rightarrow> (bool \<times> instErr option) \<times> ('a, 's, 'f) aks_world" where
  "deleteImpl E name w =
     (if \<not> envVisible E then ((True, Some (ClaimNotFound notVisible)), w)
      else if name \<in> deletingMachines w then ((False, None), w)
      else case Get E name False w of
        (Inl err, w1) \<Rightarrow> ((case err of ClaimNotFound _ \<Rightarrow> True | _ \<Rightarrow> False, Some err), w1)
      | (Inr m, w1) \<Rightarrow>
          if isAKSMachineDeleting m then ((False, None), w1)
          else case deleteMachine E name w1 of
            (Some e, w2) \<Rightarrow>
              (if IsAKSMachineOrMachinesPoolNotFound e then ((True, Some (ClaimNotFound (ErrText e))), w2)
               else ((False, Some (PlainErr (ErrText e))), w2))
          | (None, w2) \<Rightarrow> ((True, None), w2))"

definition Delete :: "('a, 's, 'f, 'r, 'c) aks_env \<Rightarrow> claim \<Rightarrow> string \<Rightarrow> ('a, 's, 'f) aks_world \<Rightarrow> instErr option \<times> ('a, 's, 'f) aks_world" where
  "Delete E nodeClaim name w =
     (let ((gone, err), w1) = deleteImpl E name w in
      (err, if gone then w1\<lparr>quotas := recordDeleteFromNodeClaim (skuOf (envSKU E)) (quotas w1) (envNow E) (nodeClaim.truncate nodeClaim)\<rparr> else w1))"

definition Cleanup :: "('a, 's, 'f, 'r, 'c) aks_env \<Rightarrow> claim \<Rightarrow> 'r promise \<Rightarrow> ('a, 's, 'f) aks_world \<Rightarrow> instErr option \<times> ('a, 's, 'f) aks_world" where
  "Cleanup E nodeClaim pr w =
     (let ((gone, err), w1) = deleteImpl E (prMachineName pr) w in
      (err, if gone then w1\<lparr>quotas := recordDelete (quotas w1) (envNow E) (nodeClaim.truncate nodeClaim) (prMetadata pr)\<rparr> else w1))"

subsection \<open>Facts\<close>

text \<open>
  What the code relies on of the service: a deletion that was accepted and completed removes the machine and no other, and a
  deletion that is answered with not found changes nothing and is only so answered when there is no such machine.
\<close>

definition liveMachines :: "'a machine_api \<Rightarrow> 'a \<Rightarrow> string set" where
  "liveMachines A a = {name. \<exists>m. az_get A a name = Inr m}"

locale machine_service =
  fixes A :: "'a machine_api"
  assumes deleted: "az_beginDelete A name a = (None, a1) \<Longrightarrow> az_pollDelete A name a1 = (None, a2) \<Longrightarrow> liveMachines A a2 = liveMachines A a - {name}"
    and begin_absent: "az_beginDelete A name a = (Some e, a1) \<Longrightarrow> IsAKSMachineOrMachinesPoolNotFound e \<Longrightarrow>
      name \<notin> liveMachines A a \<and> liveMachines A a1 = liveMachines A a"
    and poll_absent: "az_beginDelete A name a = (None, a1) \<Longrightarrow> az_pollDelete A name a1 = (Some e, a2) \<Longrightarrow> IsAKSMachineOrMachinesPoolNotFound e \<Longrightarrow>
      name \<notin> liveMachines A a \<and> liveMachines A a2 = liveMachines A a"

lemma deleteMachine_frame:
  "quotas (snd (deleteMachine E name w)) = quotas w" "offs (snd (deleteMachine E name w)) = offs w"
  "deletingMachines (snd (deleteMachine E name w)) = deletingMachines w - {name}"
  by (auto simp: deleteMachine_def Let_def split: prod.splits option.splits)

lemma cacheGet_frame:
  "azure (snd (cacheGet E name u w)) = azure w" "quotas (snd (cacheGet E name u w)) = quotas w" "offs (snd (cacheGet E name u w)) = offs w"
  "deletingMachines (snd (cacheGet E name u w)) = deletingMachines w"
  by (simp_all add: cacheGet_def split: prod.split)

lemma provisioning_frame:
  "quotas (snd (handleMachineProvisioningError E phase name it zone ct g e w)) = quotas w"
  "azure (snd (handleMachineProvisioningError E phase name it zone ct g e w)) = azure w"
  by (simp_all add: handleMachineProvisioningError_def Let_def split: option.split sum.split prod.split)

lemma beginCreateError_frame: "quotas (snd (handleMachineBeginCreateError E name it zone ct g he w)) = quotas w"
  by (simp add: handleMachineBeginCreateError_def Let_def split: option.split sum.split prod.split)

text \<open>The same facts for a result that is taken apart.\<close>

lemma cacheGet_result:
  "cacheGet E name u w = (r, w') \<Longrightarrow> azure w' = azure w \<and> quotas w' = quotas w \<and> offs w' = offs w \<and> deletingMachines w' = deletingMachines w"
  using cacheGet_frame [of E name u w] by simp

lemma provisioning_result: "handleMachineProvisioningError E phase name it zone ct g e w = (r, w') \<Longrightarrow> quotas w' = quotas w \<and> azure w' = azure w"
  using provisioning_frame [of E phase name it zone ct g e w] by simp

lemma beginCreateError_result: "handleMachineBeginCreateError E name it zone ct g he w = (r, w') \<Longrightarrow> quotas w' = quotas w"
  using beginCreateError_frame [of E name it zone ct g he w] by simp

lemma earlyGet_result: "getCreatedMachineAndHandleEarlyProvisioningError E name it zone ct g w = (r, w') \<Longrightarrow> quotas w' = quotas w"
  by (auto simp: getCreatedMachineAndHandleEarlyProvisioningError_def dest!: cacheGet_result provisioning_result
      split: prod.splits sum.splits option.splits if_splits)

lemma createdPromise_result: "createdPromise E template name pl g w = (r, w') \<Longrightarrow> quotas w' = quotas w"
  by (auto simp: createdPromise_def dest!: earlyGet_result split: prod.splits sum.splits)

lemma createBatch_result: "beginCreateMachineBatch E t name pl g w = (r, w') \<Longrightarrow> quotas w' = quotas w"
  by (auto simp: beginCreateMachineBatch_def Let_def dest!: beginCreateError_result createdPromise_result split: prod.splits sum.splits option.splits)

lemma createNonBatch_result: "beginCreateMachineNonBatch E t name pl g w = (r, w') \<Longrightarrow> quotas w' = quotas w"
  by (auto simp: beginCreateMachineNonBatch_def Let_def dest!: beginCreateError_result createdPromise_result split: prod.splits sum.splits option.splits)

lemma reuse_result: "reuseExistingMachine E name nc cl its m w = (r, w') \<Longrightarrow> quotas w' = quotas w \<and> azure w' = azure w"
  by (auto simp: reuseExistingMachine_def Let_def dest!: provisioning_result split: prod.splits sum.splits option.splits if_splits)

lemma beginCreateMachine_result: "beginCreateMachine E nc cl its name w = (r, w') \<Longrightarrow> quotas w' = quotas w"
  by (auto simp: beginCreateMachine_def dest!: cacheGet_result createBatch_result createNonBatch_result reuse_result
      split: prod.splits sum.splits option.splits if_splits)

lemma BeginCreate_quotas:
  "BeginCreate E nc cl its w = (Inr (Inr pr), w') \<Longrightarrow> quotas w' =
    (if prCreateIssued pr then recordCreate (quotas w) (lc_snapshotGeneration (quotas w)) (nodeClaim.truncate cl) (prMetadata pr) else quotas w)"
  by (auto simp: BeginCreate_def Let_def dest!: beginCreateMachine_result split: prod.splits sum.splits if_splits)

lemma Get_quotas: "Get E name u w = (r, w') \<Longrightarrow> quotas w' = quotas w"
  by (auto simp: Get_def dest!: cacheGet_result split: prod.splits sum.splits if_splits)

lemma deleteMachine_quotas: "deleteMachine E name w = (r, w') \<Longrightarrow> quotas w' = quotas w"
  using deleteMachine_frame(1) [of E name w] by simp

lemma deleteImpl_quotas: "deleteImpl E name w = (r, w') \<Longrightarrow> quotas w' = quotas w"
  by (auto simp: deleteImpl_def dest!: Get_quotas deleteMachine_quotas split: prod.splits sum.splits option.splits if_splits)

lemma notFound_text [simp]: "IsAKSMachineOrMachinesPoolNotFound (e\<lparr>ErrText := t\<rparr>) = IsAKSMachineOrMachinesPoolNotFound e"
  by (simp add: IsAKSMachineOrMachinesPoolNotFound_def)

lemma cacheGet_uncached:
  "cacheGet E name False w = (r, w') \<Longrightarrow> (\<exists>m. r = Inr m) \<longleftrightarrow> name \<in> liveMachines (envAPI E) (azure w)"
  by (auto simp: cacheGet_def GetWithFallback_def liveMachines_def split: sum.splits)

context machine_service
begin

text \<open>A deletion whose error, if any, is that the machine does not exist.\<close>

lemma deleteMachine_removes:
  assumes "envAPI E = A" and "deleteMachine E name w = (err, w')" and "\<forall>e. err = Some e \<longrightarrow> IsAKSMachineOrMachinesPoolNotFound e"
  shows "liveMachines A (azure w') = liveMachines A (azure w) - {name}"
proof (cases "az_beginDelete A name (azure w)")
  case (Pair e1 a1)
  obtain e2 a2 where p: "az_pollDelete A name a1 = (e2, a2)" by (rule prod.exhaust)
  show ?thesis
  proof (cases e1)
    case None
    then have w': "azure w' = a2" and err: "\<And>e. e2 = Some e \<Longrightarrow> IsAKSMachineOrMachinesPoolNotFound e"
      using assms Pair p by (auto simp: deleteMachine_def Let_def split: option.splits)
    show ?thesis
    proof (cases e2)
      case None
      then show ?thesis using deleted [of name "azure w" a1 a2] Pair p \<open>e1 = None\<close> w' by simp
    next
      case (Some e)
      then show ?thesis using poll_absent [of name "azure w" a1 e a2] err [OF Some] Pair p \<open>e1 = None\<close> w' by simp
    qed
  next
    case (Some e)
    then have "azure w' = a1" "IsAKSMachineOrMachinesPoolNotFound e"
      using assms Pair by (auto simp: deleteMachine_def Let_def)
    then show ?thesis using begin_absent [of name "azure w" e a1] Pair Some by simp
  qed
qed

lemma deleteImpl_removes:
  assumes "envAPI E = A" and "envVisible E" and "envPoolName E \<noteq> []" and "deleteImpl E name w = ((True, err), w')"
  shows "liveMachines A (azure w') = liveMachines A (azure w) - {name}"
proof -
  have "name \<notin> deletingMachines w" using assms(2,4) by (auto simp: deleteImpl_def split: if_splits)
  with assms(2,4) show ?thesis
  proof (cases "cacheGet E name False w")
    case (Pair r w1)
    note same = cacheGet_result [OF Pair] and live = cacheGet_uncached [OF Pair, unfolded assms(1)]
    show ?thesis
    proof (cases r)
      case (Inl e)
      then show ?thesis using assms Pair same live \<open>name \<notin> deletingMachines w\<close>
        by (auto simp: deleteImpl_def Get_def split: if_splits)
    next
      case (Inr m)
      then obtain err2 where "deleteMachine E name w1 = (err2, w')" "\<forall>e. err2 = Some e \<longrightarrow> IsAKSMachineOrMachinesPoolNotFound e"
        using assms Pair \<open>name \<notin> deletingMachines w\<close>
        by (auto simp: deleteImpl_def Get_def split: if_splits prod.splits option.splits)
      from deleteMachine_removes [OF assms(1) this] show ?thesis using same by simp
    qed
  qed
qed

lemma failed_BeginCreate_removes:
  assumes "envAPI E = A" and "aksMachineNameFor E nc cl = Inr (Inr name)" and "BeginCreate E nc cl its w = (Inr (Inl err), w')"
    and "\<forall>w1 e. fst (deleteMachine E name w1) = Some e \<longrightarrow> IsAKSMachineOrMachinesPoolNotFound e"
  shows "name \<notin> liveMachines A (azure w')"
proof -
  obtain w1 where w': "w' = snd (deleteMachine E name w1)"
    using assms(2,3) by (auto simp: BeginCreate_def Let_def split: prod.splits sum.splits if_splits)
  have "liveMachines A (azure w') = liveMachines A (azure w1) - {name}"
    by (rule deleteMachine_removes [OF assms(1), of name w1 "fst (deleteMachine E name w1)"]) (use w' assms(4) in auto)
  then show ?thesis by simp
qed

end

text \<open>Machines in a map.\<close>

definition mem_api :: "(string \<rightharpoonup> aksMachine) machine_api" where
  "mem_api = \<lparr>az_get = (\<lambda>a n. case a n of None \<Rightarrow> Inl \<lparr>ErrText = ''gone'', ResponseText = ''gone'', StatusCode = Some 404, SDKErrorCode = [], IsContextError = False\<rparr> | Some m \<Rightarrow> Inr m),
     az_list = (\<lambda>_ _. None), az_create = (\<lambda>n m a. (None, a(n \<mapsto> m))), az_createBatch = (\<lambda>n m a. (Inr None, a(n \<mapsto> m))),
     az_update = (\<lambda>n m _ a. (None, a(n \<mapsto> m))), az_pollUpdate = (\<lambda>_ a. (None, a)),
     az_beginDelete = (\<lambda>_ a. (None, a)), az_pollDelete = (\<lambda>n a. (None, a(n := None)))\<rparr>"

interpretation mem_api: machine_service mem_api
  by unfold_locales (auto simp: mem_api_def liveMachines_def split: option.splits if_splits)

text \<open>What \<open>BeginCreate\<close> does once the machine's name is known and a machine with that name was read.\<close>

lemma BeginCreate_found:
  assumes "aksMachineNameFor E nc cl = Inr (Inr name)" and "cacheGet E name True w = (Inr m, w1)"
    and "validateExistingAKSMachineForReuse name nc m = Inr (p, st, claimName)"
    and "MakeAKSLabelZoneFromARMZones (envLocation E) (AMZones m) = Inr zone"
  shows "claimName \<noteq> NCName cl \<Longrightarrow> \<exists>e. BeginCreate E nc cl its w = (Inr (Inl (PlainErr e)), snd (deleteMachine E name w1))"
    and "claimName = NCName cl \<Longrightarrow> AMProvisioningState p \<noteq> Some ProvisioningStateFailed \<Longrightarrow>
      GetInstanceTypeFromVMSize (FromPtr (AMVMSize p)) its = Some it \<Longrightarrow>
      \<exists>pr. BeginCreate E nc cl its w = (Inr (Inr pr), w1) \<and> prMachineName pr = name \<and> prInstanceType pr = it \<and> prZone pr = zone \<and>
        prVMResourceID pr = FromPtr (AMResourceID p) \<and> \<not> prCreateIssued pr"
    and "claimName = NCName cl \<Longrightarrow> AMProvisioningState p \<noteq> Some ProvisioningStateFailed \<Longrightarrow>
      GetInstanceTypeFromVMSize (FromPtr (AMVMSize p)) its = None \<Longrightarrow> BeginCreate E nc cl its w = (Inl NilDereference, w1)"
  using assms by (simp_all add: BeginCreate_def beginCreateMachine_def reuseExistingMachine_def)

subsection \<open>A concrete provider\<close>

definition plain_class :: "unit nodeClass" where
  "plain_class = emptyClass ()"

definition no_matchers :: "'e sdk_matchers" where
  "no_matchers = \<lparr>LowPriorityQuotaHasBeenReached = (\<lambda>_. False), SKUFamilyQuotaHasBeenReached = (\<lambda>_. False), IsSKUNotAvailable = (\<lambda>_. False),
     ZonalAllocationFailureOccurred = (\<lambda>_. False), AllocationFailureOccurred = (\<lambda>_. False), OverconstrainedZonalAllocationFailureOccurred = (\<lambda>_. False),
     OverconstrainedAllocationFailureOccurred = (\<lambda>_. False), RegionalQuotaHasBeenReached = (\<lambda>_. False)\<rparr>"

definition ex_created :: "string \<Rightarrow> aksMachine" where
  "ex_created claimName = \<lparr>AMID = Some ''/machines/m'', AMName = Some ''m'',
     AMProperties = Some (noProperties\<lparr>AMProvisioningState := Some ''Creating'', AMStatus := Some (noStatus\<lparr>StCreationTimestamp := Some 5\<rparr>),
       AMTags := Some [(KarpenterAKSMachineNodeClaimTagKey, Some claimName)], AMPriority := Some PriorityRegular, AMVMSize := Some ''D4'',
       AMResourceID := Some ''/vm'', AMNodeImageVersion := Some ''1''\<rparr>), AMZones = []\<rparr>"

definition ex_env :: "(string \<rightharpoonup> aksMachine, unit exp_cache, any_value exp_cache, labels, unit) aks_env" where
  "ex_env = \<lparr>envAPI = mem_api, envCtx = demo_ctx, envMatchers = no_matchers, envErrors = \<lparr>asResponseError = (\<lambda>_. None), errorText = ErrText\<rparr>,
     envSKU = (\<lambda>n. Inr \<lparr>GetName = n, GetFamilyName = ''standardDSv5Family'', VCPU = Some 4\<rparr>),
     envAllocate = (\<lambda>its _. case its of [] \<Rightarrow> None | it # _ \<Rightarrow>
        Some \<lparr>plInstanceType = it, plCapacityType = CapacityTypeOnDemand, plZone = [], plScope = PlacementScopeRegional\<rparr>),
     envTemplate = (\<lambda>_ _ cl. Inr (ex_created (NCName cl))), envHash = (\<lambda>_. Inr 0), envRange = remdups, envNow = 1,
     envPoolName = ''pool'', envLocation = ''eastus'', envVisible = True, envBatch = False\<rparr>"

lemma ex_env_simps [simp]:
  "envAPI ex_env = mem_api" "envSKU ex_env n = Inr \<lparr>GetName = n, GetFamilyName = ''standardDSv5Family'', VCPU = Some 4\<rparr>"
  "envAllocate ex_env [] cl = None"
  "envAllocate ex_env (it # its) cl = Some \<lparr>plInstanceType = it, plCapacityType = CapacityTypeOnDemand, plZone = [], plScope = PlacementScopeRegional\<rparr>"
  "envTemplate ex_env pl nc cl = Inr (ex_created (NCName cl))" "envNow ex_env = 1" "envPoolName ex_env = ''pool''" "envVisible ex_env" "\<not> envBatch ex_env"
  by (simp_all add: ex_env_def)

lemma mem_api_simps [simp]:
  "az_create mem_api n m a = (None, a(n \<mapsto> m))" "az_beginDelete mem_api n a = (None, a)" "az_pollDelete mem_api n a = (None, a(n := None))"
  "liveMachines mem_api a = dom a"
  by (auto simp: mem_api_def liveMachines_def split: option.splits)

lemma plain_class_group [simp]: "GetCapacityReservationGroupID plain_class = []"
  by (simp add: plain_class_def GetCapacityReservationGroupID_def)

definition ex_world :: "(string \<rightharpoonup> aksMachine) \<Rightarrow> (string \<rightharpoonup> aksMachine, unit exp_cache, any_value exp_cache) aks_world" where
  "ex_world a = \<lparr>azure = a, mcache = New [], deletingMachines = {}, quotas = prov demo_ready, offs = no_offerings\<rparr>"

definition ex_request_claim :: claim where
  "ex_request_claim = newClaim\<lparr>NCName := ''m'', UID := ''1''\<rparr>"

lemma ex_name [simp]: "aksMachineNameFor ex_env plain_class ex_request_claim = Inr (Inr ''m'')"
proof -
  have "\<not> IsWindowsImageFamily []" unfolding IsWindowsImageFamily_def Windows2025ImageFamily_def by code_simp
  then show ?thesis by (simp add: aksMachineNameFor_def plain_class_def ex_env_def ex_request_claim_def GetLinuxAKSMachineName_def maxAKSMachineNameLength_def FromPtr_def)
qed

lemma ex_world_simps [simp]:
  "azure (ex_world a) = a" "quotas (ex_world a) = prov demo_ready" "deletingMachines (ex_world a) = {}"
  by (simp_all add: ex_world_def)

lemma ex_get:
  "cacheGet ex_env n u (ex_world a) = (case a n of
     None \<Rightarrow> (fst (cacheGet ex_env n u (ex_world a)), snd (cacheGet ex_env n u (ex_world a)))
   | Some m \<Rightarrow> (Inr (rehydrateMachine m), snd (cacheGet ex_env n u (ex_world a))))"
  by (simp add: cacheGet_def ex_env_def ex_world_def mem_api_def GetWithFallback_def getFromCache_def isFresh_def New_def split: option.split)

lemma ex_reusable:
  "rehydrateMachine (ex_created n) = ex_created n"
  "\<exists>p st. validateExistingAKSMachineForReuse ''m'' plain_class (ex_created n) = Inr (p, st, n) \<and> AMProvisioningState p = Some ''Creating'' \<and>
     AMVMSize p = Some ''D4'' \<and> AMResourceID p = Some ''/vm''"
  "MakeAKSLabelZoneFromARMZones l (AMZones (ex_created n)) = Inr Regional"
  by (simp_all add: ex_created_def rehydrateMachine_def noProperties_def noStatus_def validateExistingAKSMachineForReuse_def
      validateRetrievedAKSMachineBasicProperties_def validateExistingAKSMachineCapacityReservation_def validateCapacityReservationGroupAssociation_def
      validateExistingAKSMachineNodePublicIP_def FromPtr_def plain_class_def GetCapacityReservationGroupID_def IsNodePublicIPEnabled_def
      GetNodePublicIPPrefixIDs_def GetNodePublicIPTags_def tagOf_def EqualFold_def map_filter_simps)

text \<open>Reads of the concrete provider go to Azure as long as its cache was never filled by a list.\<close>

lemma ex_hit: "lastUpdatedUnixNanos (mcache w) = 0 \<Longrightarrow> azure w n = Some m \<Longrightarrow>
    \<exists>c. lastUpdatedUnixNanos c = 0 \<and> cacheGet ex_env n u w = (Inr (rehydrateMachine m), w\<lparr>mcache := c\<rparr>)"
  by (rule exI [of _ "mcache (snd (cacheGet ex_env n u w))"])
     (simp add: cacheGet_def mem_api_def GetWithFallback_def getFromCache_def isFresh_def requestUpdate_def)

lemma ex_miss: "lastUpdatedUnixNanos (mcache w) = 0 \<Longrightarrow> azure w n = None \<Longrightarrow>
    \<exists>c e. lastUpdatedUnixNanos c = 0 \<and> cacheGet ex_env n u w = (Inl e, w\<lparr>mcache := c\<rparr>)"
  by (rule exI [of _ "mcache (snd (cacheGet ex_env n u w))"])
     (simp add: cacheGet_def mem_api_def GetWithFallback_def getFromCache_def isFresh_def requestUpdate_def)

lemma ex_launch:
  obtains pr w1 where "BeginCreate ex_env plain_class ex_request_claim [demo_it] (ex_world Map.empty) = (Inr (Inr pr), w1)"
    and "prCreateIssued pr" and "prMachineName pr = ''m''"
    and "prMetadata pr = \<lparr>mdFamilyName = ''standardDSv5Family'', mdVCPUs = 4, eligible = True\<rparr>"
    and "azure w1 = [''m'' \<mapsto> ex_created ''m'']" and "lastUpdatedUnixNanos (mcache w1) = 0" and "deletingMachines w1 = {}"
proof -
  have "lastUpdatedUnixNanos (mcache (ex_world Map.empty)) = 0" by (simp add: ex_world_def New_def)
  from ex_miss [OF this, of "''m''" True] obtain c e where c: "lastUpdatedUnixNanos c = 0"
      and g: "cacheGet ex_env ''m'' True (ex_world Map.empty) = (Inl e, ex_world Map.empty\<lparr>mcache := c\<rparr>)" by auto
  let ?w = "ex_world Map.empty\<lparr>mcache := c, azure := [''m'' \<mapsto> ex_created ''m'']\<rparr>"
  from ex_hit [of ?w "''m''" "ex_created ''m''" False] c obtain c' where c': "lastUpdatedUnixNanos c' = 0"
      and g': "cacheGet ex_env ''m'' False ?w = (Inr (ex_created ''m''), ?w\<lparr>mcache := c'\<rparr>)" by (auto simp: ex_reusable)
  obtain p st where p: "validateRetrievedAKSMachineBasicProperties (ex_created ''m'') = Inr (p, st)" "AMProvisioningState p = Some ''Creating''"
    by (simp add: validateRetrievedAKSMachineBasicProperties_def ex_created_def noProperties_def noStatus_def)
  obtain pr where "createdPromise ex_env (ex_created ''m'') ''m'' \<lparr>plInstanceType = demo_it, plCapacityType = CapacityTypeOnDemand, plZone = [], plScope = PlacementScopeRegional\<rparr>
      [] ?w = (Inr (Inr pr), ?w\<lparr>mcache := c'\<rparr>)"
    and pr: "prCreateIssued pr" "prMachineName pr = ''m''" "prInstanceType pr = demo_it" "prCapacityType pr = CapacityTypeOnDemand"
    using g' p by (simp add: createdPromise_def getCreatedMachineAndHandleEarlyProvisioningError_def FromPtr_def ProvisioningStateFailed_def)
  then have "beginCreateMachine ex_env plain_class ex_request_claim [demo_it] ''m'' (ex_world Map.empty) = (Inr (Inr pr), ?w\<lparr>mcache := c'\<rparr>)"
    using g by (simp add: beginCreateMachine_def beginCreateMachineNonBatch_def ex_request_claim_def)
  then have "\<exists>w1. BeginCreate ex_env plain_class ex_request_claim [demo_it] (ex_world Map.empty) =
      (Inr (Inr (pr\<lparr>prMetadata := \<lparr>mdFamilyName = ''standardDSv5Family'', mdVCPUs = 4, eligible = True\<rparr>\<rparr>)), w1) \<and>
      azure w1 = [''m'' \<mapsto> ex_created ''m''] \<and> mcache w1 = c' \<and> deletingMachines w1 = {}"
    using pr by (simp add: BeginCreate_def metadata_def skuOf_def demo_it_def Let_def)
  then show thesis using that pr(1,2) c' by (auto intro: that)
qed

lemma ex_delete [simp]: "fst (deleteMachine ex_env n w) = None"
  by (simp add: deleteMachine_def)

lemma ex_gone:
  assumes "lastUpdatedUnixNanos (mcache w) = 0" and "deletingMachines w = {}" and "azure w n = Some (ex_created claimName)"
  shows "\<exists>w'. deleteImpl ex_env n w = ((True, None), w')"
proof -
  obtain c where c: "cacheGet ex_env n False w = (Inr (ex_created claimName), w\<lparr>mcache := c\<rparr>)"
    using ex_hit [OF assms(1,3), of False] by (auto simp: ex_reusable)
  obtain w2 where w2: "deleteMachine ex_env n (w\<lparr>mcache := c\<rparr>) = (None, w2)" using ex_delete [of n "w\<lparr>mcache := c\<rparr>"] by (metis prod.collapse)
  have "\<not> isAKSMachineDeleting (ex_created claimName)" by (simp add: ex_created_def isAKSMachineDeleting_def noProperties_def ProvisioningStateDeleting_def)
  with c w2 assms(2) show ?thesis by (simp add: deleteImpl_def Get_def)
qed

subsection \<open>Properties\<close>

text \<open>
  An attempt to launch a claim that finds the machine an earlier attempt created for the same claim adopts it: no machine is
  created, the Azure side, the quota accounting and the unavailable offerings stay as they were, and the promise is that of the existing
  machine, marked as not issued so that it is never charged to the quota.
\<close>

theorem own_machine_is_adopted:
  assumes "aksMachineNameFor E nc cl = Inr (Inr name)" and "cacheGet E name True w = (Inr m, w1)"
    and "validateExistingAKSMachineForReuse name nc m = Inr (p, st, NCName cl)"
    and "MakeAKSLabelZoneFromARMZones (envLocation E) (AMZones m) = Inr zone"
    and "AMProvisioningState p \<noteq> Some ProvisioningStateFailed" and "GetInstanceTypeFromVMSize (FromPtr (AMVMSize p)) its = Some it"
  shows "\<exists>pr w'. BeginCreate E nc cl its w = (Inr (Inr pr), w') \<and> azure w' = azure w \<and> quotas w' = quotas w \<and> offs w' = offs w \<and>
    prMachineName pr = name \<and> prInstanceType pr = it \<and> prZone pr = zone \<and> prVMResourceID pr = FromPtr (AMResourceID p) \<and> \<not> prCreateIssued pr"
  using BeginCreate_found(2) [OF assms(1-4) refl assms(5,6)] cacheGet_result [OF assms(2)] by blast

theorem own_machine_is_adopted_witness:
  "\<exists>pr w'. BeginCreate ex_env plain_class ex_request_claim [demo_it] (ex_world [''m'' \<mapsto> ex_created ''m'']) = (Inr (Inr pr), w') \<and>
     quotas w' = prov demo_ready \<and> prInstanceType pr = demo_it"
proof -
  have g: "cacheGet ex_env ''m'' True (ex_world [''m'' \<mapsto> ex_created ''m'']) =
      (Inr (ex_created ''m''), snd (cacheGet ex_env ''m'' True (ex_world [''m'' \<mapsto> ex_created ''m''])))"
    by (subst ex_get) (simp add: ex_reusable)
  obtain p st where v: "validateExistingAKSMachineForReuse ''m'' plain_class (ex_created ''m'') = Inr (p, st, NCName ex_request_claim)"
      and p: "AMProvisioningState p = Some ''Creating''" "AMVMSize p = Some ''D4''"
    using ex_reusable(2) [of "''m''"] by (auto simp: ex_request_claim_def)
  have "\<exists>pr w'. BeginCreate ex_env plain_class ex_request_claim [demo_it] (ex_world [''m'' \<mapsto> ex_created ''m'']) = (Inr (Inr pr), w') \<and>
      azure w' = azure (ex_world [''m'' \<mapsto> ex_created ''m'']) \<and> quotas w' = quotas (ex_world [''m'' \<mapsto> ex_created ''m'']) \<and>
      offs w' = offs (ex_world [''m'' \<mapsto> ex_created ''m'']) \<and>
      prMachineName pr = ''m'' \<and> prInstanceType pr = demo_it \<and> prZone pr = Regional \<and> prVMResourceID pr = FromPtr (AMResourceID p) \<and> \<not> prCreateIssued pr"
    by (rule own_machine_is_adopted [OF ex_name g v ex_reusable(3)])
       (use p in \<open>simp_all add: ProvisioningStateFailed_def GetInstanceTypeFromVMSize_def FromPtr_def demo_it_def\<close>)
  then show ?thesis by auto
qed

text \<open>
  An attempt that fails deletes the machine of the name it computed, whatever the reason of the failure. When a machine of another
  claim has that name (two claims whose long names shorten to the same one), the attempt is refused because of the other claim's tag, and then the
  clean-up deletes the other claim's machine.
\<close>

theorem name_collision_deletes_the_other_machine:
  assumes "machine_service (envAPI E)" and "aksMachineNameFor E nc cl = Inr (Inr name)" and "cacheGet E name True w = (Inr m, w1)"
    and "validateExistingAKSMachineForReuse name nc m = Inr (p, st, other)" and "other \<noteq> NCName cl"
    and "MakeAKSLabelZoneFromARMZones (envLocation E) (AMZones m) = Inr zone"
    and "\<forall>w1 e. fst (deleteMachine E name w1) = Some e \<longrightarrow> IsAKSMachineOrMachinesPoolNotFound e"
  shows "\<exists>e w'. BeginCreate E nc cl its w = (Inr (Inl (PlainErr e)), w') \<and> name \<notin> liveMachines (envAPI E) (azure w') \<and> quotas w' = quotas w"
proof -
  obtain e where e: "BeginCreate E nc cl its w = (Inr (Inl (PlainErr e)), snd (deleteMachine E name w1))"
    using BeginCreate_found(1) [OF assms(2-4,6,5)] by blast
  have "quotas (snd (deleteMachine E name w1)) = quotas w" using deleteMachine_frame(1) cacheGet_result [OF assms(3)] by metis
  with machine_service.failed_BeginCreate_removes [OF assms(1) refl assms(2) e assms(7)] e show ?thesis by blast
qed

theorem name_collision_deletes_the_other_machine_witness:
  "\<exists>e w'. BeginCreate ex_env plain_class ex_request_claim [demo_it] (ex_world [''m'' \<mapsto> ex_created ''theirs'']) = (Inr (Inl (PlainErr e)), w') \<and>
     azure w' ''m'' = None"
proof -
  let ?w = "ex_world [''m'' \<mapsto> ex_created ''theirs'']"
  have g: "cacheGet ex_env ''m'' True ?w = (Inr (ex_created ''theirs''), snd (cacheGet ex_env ''m'' True ?w))"
    by (subst ex_get) (simp add: ex_reusable)
  obtain p st where v: "validateExistingAKSMachineForReuse ''m'' plain_class (ex_created ''theirs'') = Inr (p, st, ''theirs'')"
    using ex_reusable(2) [of "''theirs''"] by auto
  have "\<exists>e w'. BeginCreate ex_env plain_class ex_request_claim [demo_it] ?w = (Inr (Inl (PlainErr e)), w') \<and>
      ''m'' \<notin> liveMachines (envAPI ex_env) (azure w') \<and> quotas w' = quotas ?w"
    by (rule name_collision_deletes_the_other_machine [OF _ ex_name g v _ ex_reusable(3)])
       (simp_all add: mem_api.machine_service_axioms ex_request_claim_def)
  then show ?thesis by (auto simp: dom_def)
qed

text \<open>
  C18: An attempt that fails after its name was computed leaves nothing behind, provided Azure carries the clean-up out: there is no machine of that name, and
  the quota accounting is what it was. Only an attempt that issued a create and succeeded is charged, with the metadata that its promise keeps.
\<close>

theorem quota_is_charged_for_issued_creates_only:
  assumes "machine_service (envAPI E)" and "aksMachineNameFor E nc cl = Inr (Inr name)"
    and "\<forall>w1 e. fst (deleteMachine E name w1) = Some e \<longrightarrow> IsAKSMachineOrMachinesPoolNotFound e"
  shows "case BeginCreate E nc cl its w of
      (Inl pn, w') \<Rightarrow> quotas w' = quotas w
    | (Inr (Inl err), w') \<Rightarrow> quotas w' = quotas w \<and> name \<notin> liveMachines (envAPI E) (azure w')
    | (Inr (Inr pr), w') \<Rightarrow> quotas w' =
        (if prCreateIssued pr then recordCreate (quotas w) (lc_snapshotGeneration (quotas w)) (nodeClaim.truncate cl) (prMetadata pr) else quotas w)"
proof (cases "beginCreateMachine E nc cl its name w")
  case (Pair r w1)
  note q = beginCreateMachine_result [OF Pair]
  show ?thesis
  proof (cases r)
    case (Inl pn)
    then show ?thesis using Pair q assms(2) by (simp add: BeginCreate_def)
  next
    case (Inr r')
    show ?thesis
    proof (cases r')
      case (Inl err)
      then have b: "BeginCreate E nc cl its w = (Inr (Inl err), snd (deleteMachine E name w1))"
        using Pair Inr assms(2) by (simp add: BeginCreate_def)
      then show ?thesis using machine_service.failed_BeginCreate_removes [OF assms(1) refl assms(2) b assms(3)]
        by (simp add: q deleteMachine_frame)
    next
      case inr: (Inr pr)
      then show ?thesis using Pair q Inr assms(2) by (simp add: BeginCreate_def Let_def)
    qed
  qed
qed

theorem quota_is_charged_for_issued_creates_only_witness:
  "case BeginCreate ex_env plain_class ex_request_claim [] (ex_world Map.empty) of
      (Inl pn, w') \<Rightarrow> quotas w' = quotas (ex_world Map.empty)
    | (Inr (Inl err), w') \<Rightarrow> quotas w' = quotas (ex_world Map.empty) \<and> ''m'' \<notin> liveMachines (envAPI ex_env) (azure w')
    | (Inr (Inr pr), w') \<Rightarrow> quotas w' = (if prCreateIssued pr then recordCreate (quotas (ex_world Map.empty))
        (lc_snapshotGeneration (quotas (ex_world Map.empty))) (nodeClaim.truncate ex_request_claim) (prMetadata pr) else quotas (ex_world Map.empty))"
  by (rule quota_is_charged_for_issued_creates_only [OF _ ex_name]) (simp_all add: mem_api.machine_service_axioms)

text \<open>
  Cleaning up a promise undoes its launch in the quota accounting: when the machine is gone and nothing else happened to the accounting
  in between, the adjustments, per instance and per quota, are those from before the launch.
\<close>

theorem cleanup_gives_the_quota_back:
  assumes "quota_reach n s" and "n < 2 ^ 64 - 1" and "quotas w = prov s"
    and "BeginCreate E nc cl its w = (Inr (Inr pr), w1)" and "prCreateIssued pr"
    and "eligible (prMetadata pr)"
    and "snd (RecordCreate (prov s) (lc_snapshotGeneration (prov s)) (nodeClaim.truncate cl) (mdFamilyName (prMetadata pr)) (mdVCPUs (prMetadata pr)))"
    and "quotas w2 = quotas w1" and "deleteImpl E (prMachineName pr) w2 = ((True, err), w3)"
  shows "adjustments (quotas (snd (Cleanup E cl pr w2))) = adjustments (quotas w) \<and>
    adjustmentsByQuotaName (quotas (snd (Cleanup E cl pr w2))) = adjustmentsByQuotaName (quotas w)"
proof -
  let ?cl = "nodeClaim.truncate cl" and ?md = "prMetadata pr"
  let ?p1 = "fst (RecordCreate (prov s) (lc_snapshotGeneration (prov s)) ?cl (mdFamilyName ?md) (mdVCPUs ?md))"
  have "quotas w1 = ?p1" using BeginCreate_quotas [OF assms(4)] assms(3,5,6) by (simp add: recordCreate_def)
  moreover have "quotas w3 = quotas w2" using deleteImpl_quotas [OF assms(9)] .
  moreover have "RecordCreate (prov s) (lc_snapshotGeneration (prov s)) ?cl (mdFamilyName ?md) (mdVCPUs ?md) = (?p1, True)"
    using assms(7) by (simp add: prod_eq_iff)
  ultimately show ?thesis
    using RecordCreate_RecordDelete [OF assms(1,2), of _ ?cl "mdFamilyName ?md" "mdVCPUs ?md" ?p1 "envNow E"] assms(3,6,8,9)
    by (simp add: Cleanup_def recordDelete_def)
qed

theorem cleanup_gives_the_quota_back_witness:
  "\<exists>pr w1. BeginCreate ex_env plain_class ex_request_claim [demo_it] (ex_world Map.empty) = (Inr (Inr pr), w1) \<and>
     adjustments (quotas (snd (Cleanup ex_env ex_request_claim pr w1))) = adjustments (prov demo_ready)"
proof -
  obtain pr w1 where b: "BeginCreate ex_env plain_class ex_request_claim [demo_it] (ex_world Map.empty) = (Inr (Inr pr), w1)"
    and pr: "prCreateIssued pr" "prMachineName pr = ''m''" "prMetadata pr = \<lparr>mdFamilyName = ''standardDSv5Family'', mdVCPUs = 4, eligible = True\<rparr>"
    and w1: "azure w1 = [''m'' \<mapsto> ex_created ''m'']" "lastUpdatedUnixNanos (mcache w1) = 0" "deletingMachines w1 = {}"
    by (rule ex_launch)
  have "snd (RecordCreate (prov demo_ready) (lc_snapshotGeneration (prov demo_ready)) (nodeClaim.truncate ex_request_claim) ''standardDSv5Family'' 4)"
    by (simp add: demo_simps lc_snapshotGeneration_def ex_request_claim_def newClaim_def nodeClaim.truncate_def)
  moreover obtain err w3 where "deleteImpl ex_env ''m'' w1 = ((True, err), w3)"
    using ex_gone [OF w1(2,3), of "''m''" "''m''"] w1(1) by auto
  ultimately have "adjustments (quotas (snd (Cleanup ex_env ex_request_claim pr w1))) = adjustments (quotas (ex_world Map.empty))"
    using cleanup_gives_the_quota_back [OF demo_ready_reach _ _ b pr(1), of w1] pr by simp
  then show ?thesis using b by auto
qed



text \<open>
  A machine whose size is not among the instance types of the attempt cannot be adopted: naming the missing instance type panics.
\<close>

theorem adopting_an_unknown_size_panics:
  assumes "aksMachineNameFor E nc cl = Inr (Inr name)" and "cacheGet E name True w = (Inr m, w1)"
    and "validateExistingAKSMachineForReuse name nc m = Inr (p, st, NCName cl)"
    and "MakeAKSLabelZoneFromARMZones (envLocation E) (AMZones m) = Inr zone"
    and "AMProvisioningState p \<noteq> Some ProvisioningStateFailed" and "GetInstanceTypeFromVMSize (FromPtr (AMVMSize p)) its = None"
  shows "fst (BeginCreate E nc cl its w) = Inl NilDereference"
  using BeginCreate_found(3) [OF assms(1-4) refl assms(5,6)] by simp

end
