(* ===== verification/VM_Instances.thy ===== *)
theory VM_Instances
  imports Cloud_Resources AKS_Instances
begin

text \<open>
  The provider of virtual machine instances (src/pkg/providers/instance/vminstance.go): building the machine and its interface, launching with the retry on
  stale load balancer pools, waiting, the clean-up of failed launches, updating and deleting. Azure is the state \<open>'a\<close> with the operations of
  \<open>vm_cloud\<close>; the allocation of an offering, the launch template, the requirements of a claim and \<open>strconv.ParseFloat\<close> are arguments
  (the record \<open>vm_env\<close>). Metrics and logs are left out.

  Shown here: a failed launch leaves neither machine nor interface nor address behind and does not change the quota accounting, an existing machine is adopted, the
  clean-up of a promise gives the quota back, a spot price is accepted exactly when it is -1 or a finite amount, and the built machine carries what the class and the offering ask for.
\<close>

subsection \<open>Interfaces\<close>

record launchTemplate =
  ltImageID :: string
  ltTags :: "(string, string option) gomap option"
  ltSubnetID :: string
  ltIsWindows :: bool
  ltDiskControllerType :: "string option"
  ltSizeGB :: int
  ltIsEphemeral :: bool
  ltPlacement :: string
  ltFIPS1403 :: bool
  ltCSE :: string
  ltCustomScriptsCustomData :: string
  ltScriptlessCustomData :: string

record createNICOptions =
  noNICName :: string
  noZone :: string
  noEnableNodePublicIP :: bool
  noBackendPools :: backendAddressPools
  noAccelerated :: bool
  noTemplate :: launchTemplate
  noNetworkPlugin :: string
  noNetworkPluginMode :: string
  noMaxPods :: int
  noNSGID :: string

text \<open>The subnet is filled in for every configuration by \<open>applyTemplateToNic\<close>. \<open>noAccelerated\<close> is the compatibility of the instance type with accelerated networking.\<close>

definition newConfig :: "string \<Rightarrow> bool \<Rightarrow> poolRef list option \<Rightarrow> ipConfig option" where
  "newConfig name primary pools =
     Some \<lparr>cfgName = Some name, cfgProps = Some \<lparr>cfgPrimary = Some primary, cfgPools = pools, cfgPublicIP = None, cfgSubnet = None\<rparr>\<rparr>"

definition newNetworkInterfaceForVM :: "string \<Rightarrow> createNICOptions \<Rightarrow> nic" where
  "newNetworkInterfaceForVM location opts =
     \<lparr>NICName = None, NICID = None, NICLocation = Some location, NICTags = None,
      NICProps = Some \<lparr>nicConfigs =
          newConfig (noNICName opts) True (Some (map (\<lambda>d. \<lparr>poolRefID = Some d, poolRefRest = []\<rparr>) (IPv4PoolIDs (noBackendPools opts)))) #
          (if noNetworkPlugin opts = NetworkPluginAzure \<and> noNetworkPluginMode opts \<noteq> NetworkPluginModeOverlay
           then map (\<lambda>i. newConfig (''ipconfig'' @ Itoa i) False None) [1 .. noMaxPods opts - 1] else []),
        nicNSG = (if noNSGID opts \<noteq> [] then Some (Some (noNSGID opts)) else None),
        nicAccelerated = Some (noAccelerated opts), nicForwarding = Some False\<rparr>\<rparr>"

definition applyTemplateToNic :: "nic \<Rightarrow> launchTemplate \<Rightarrow> nic" where
  "applyTemplateToNic n t =
     n\<lparr>NICTags := ltTags t,
       NICProps := map_option (\<lambda>p. p\<lparr>nicConfigs := map (map_option (\<lambda>c. c\<lparr>cfgProps := map_option (\<lambda>q. q\<lparr>cfgSubnet := Some (ltSubnetID t)\<rparr>) (cfgProps c)\<rparr>)) (nicConfigs p)\<rparr>)
         (NICProps n)\<rparr>"

text \<open>The identifier of the created interface; following a nil one panics.\<close>

definition createNetworkInterface :: "'a cloud \<Rightarrow> string \<Rightarrow> string \<Rightarrow> createNICOptions \<Rightarrow> 'a \<Rightarrow> (panic + (sdkError + string)) \<times> 'a" where
  "createNetworkInterface C location cluster opts a =
     (let n = applyTemplateToNic (newNetworkInterfaceForVM location opts) (noTemplate opts);
          existing = (if noEnableNodePublicIP opts then res_get (cNIC C) a (noNICName opts) else Inl (localErr []));
          finish = (\<lambda>(res :: nic) a1.
            let (r, a2) = (if noEnableNodePublicIP opts
                  then attachPublicIP C location cluster res (noNICName opts) (noZone opts) (ltTags (noTemplate opts)) (IPv4PoolIDs (noBackendPools opts)) a1
                  else (Inr None, a1))
            in case r of
                 Inl pn \<Rightarrow> (Inl pn, a2)
               | Inr (Some e) \<Rightarrow> (Inr (Inl e), a2)
               | Inr None \<Rightarrow> (case NICID res of None \<Rightarrow> (Inl NilDereference, a2) | Some d \<Rightarrow> (Inr (Inr d), a2)))
      in case existing of
           Inr res \<Rightarrow> finish res a
         | Inl e \<Rightarrow>
             if noEnableNodePublicIP opts \<and> \<not> cNotFound C e then (Inr (Inl e), a)
             else case cCreateNic C (noNICName opts) n a of
               (Inl e, a1) \<Rightarrow> (Inr (Inl e), a1)
             | (Inr res, a1) \<Rightarrow> finish res a1)"

subsection \<open>The machine\<close>

datatype float64 = Finite rat | NaN | Inf

record securityProfile =
  spEncryptionAtHost :: "bool option"
  spSecurityType :: "string option"
  spUefi :: "(bool \<times> bool) option"

record osDisk =
  diskName :: string
  diskSizeGB :: int
  diskEphemeralPlacement :: "string option"
  diskCaching :: "string option"
  diskEncryptionSet :: "string option"

record osProfile =
  osAdminUsername :: string
  osComputerName :: string
  osSSHKey :: string
  osSSHPath :: string
  osCustomData :: string

text \<open>The properties of a machine that is being created, next to those that are read back; they are only there when the machine has properties.\<close>

record vmObject = vm +
  objNIC :: string
  objDisk :: osDisk
  objDiskController :: "string option"
  objOS :: osProfile
  objEvictionPolicy :: "string option"
  objMaxPrice :: "float64 option"
  objSecurity :: "securityProfile option"
  objFIPS1403 :: "bool option"

record 'c createVMOptions =
  voVMName :: string
  voNicReference :: string
  voZone :: string
  voCapacityType :: string
  voSpotMaxPrice :: "float64 option"
  voLocation :: string
  voSSHPublicKey :: string
  voLinuxAdminUsername :: string
  voNodeIdentities :: "string list"
  voNodeClass :: "'c nodeClass"
  voTemplate :: launchTemplate
  voInstanceType :: string
  voProvisionMode :: string
  voUseSIG :: bool
  voDiskEncryptionSetID :: string
  voUltraSSDEnabled :: bool

text \<open>The identities of a machine are a map, so a repeated one counts once.\<close>

definition ConvertToVirtualMachineIdentity :: "string list \<Rightarrow> string list option" where
  "ConvertToVirtualMachineIdentity ids = (if ids = [] then None else Some (remdups ids))"

text \<open>A priority that is not in the map is the empty one, which is none of the two.\<close>

definition KarpCapacityTypeToVMPriority :: "string \<Rightarrow> vmPriority" where
  "KarpCapacityTypeToVMPriority ct = (if ct = CapacityTypeSpot then VMSpot else if ct = CapacityTypeOnDemand then VMRegular else VMLow)"

definition setVMPropertiesOSDiskType :: "launchTemplate \<Rightarrow> osDisk \<Rightarrow> osDisk" where
  "setVMPropertiesOSDiskType t d =
     (if ltIsEphemeral t then d\<lparr>diskEphemeralPlacement := Some (ltPlacement t), diskCaching := Some ''ReadOnly''\<rparr> else d)"

definition setVMPropertiesOSDiskEncryption :: "string \<Rightarrow> osDisk \<Rightarrow> osDisk" where
  "setVMPropertiesOSDiskEncryption diskEncryptionSetID d =
     (if diskEncryptionSetID \<noteq> [] then d\<lparr>diskEncryptionSet := Some diskEncryptionSetID\<rparr> else d)"

definition noReference :: imageReference where
  "noReference = \<lparr>RefID = None, CommunityGalleryImageID = None, SharedGalleryImageID = None, RefPublisher = None, RefOffer = None, RefSKU = None, RefVersion = None\<rparr>"

definition setImageReference :: "string \<Rightarrow> bool \<Rightarrow> imageReference" where
  "setImageReference imageID useSIG =
     (if useSIG \<or> HasPrefix (ToLower imageID) ''/subscriptions/'' then noReference\<lparr>RefID := Some imageID\<rparr>
      else noReference\<lparr>CommunityGalleryImageID := Some imageID\<rparr>)"

text \<open>The eviction policy and the maximal price.\<close>

definition setVMPropertiesBillingProfile :: "string \<Rightarrow> float64 option \<Rightarrow> string option \<times> float64 option" where
  "setVMPropertiesBillingProfile capacityType spotMaxPrice =
     (if capacityType = CapacityTypeSpot then (Some ''Delete'', Some (case spotMaxPrice of None \<Rightarrow> Finite (- 1) | Some p \<Rightarrow> p)) else (None, None))"

definition setVMPropertiesSecurityProfile :: "'c nodeClass \<Rightarrow> securityProfile option" where
  "setVMPropertiesSecurityProfile nc =
     (case SpecSecurity nc of
        None \<Rightarrow> None
      | Some sec \<Rightarrow>
          let profile = (case SecEncryptionAtHost sec of None \<Rightarrow> None
                | Some b \<Rightarrow> Some \<lparr>spEncryptionAtHost = Some b, spSecurityType = None, spUefi = None\<rparr>)
          in if IsTrustedLaunchEnabled nc then
               let p = (case profile of None \<Rightarrow> \<lparr>spEncryptionAtHost = None, spSecurityType = None, spUefi = None\<rparr> | Some p \<Rightarrow> p)
               in Some (p\<lparr>spSecurityType := Some ''TrustedLaunch'', spUefi := Some (IsSecureBootEnabled nc, IsVTPMEnabled nc)\<rparr>)
             else profile)"

text \<open>The ultra disk and the FIPS setting; they stay unset unless they are asked for.\<close>

definition setVMPropertiesAdditionalCapabilities :: "bool \<Rightarrow> bool \<Rightarrow> bool option \<times> bool option" where
  "setVMPropertiesAdditionalCapabilities ultraSSDEnabled fips = (if ultraSSDEnabled then Some True else None, if fips then Some True else None)"

definition setVMPropertiesCapacityReservation :: "'c nodeClass \<Rightarrow> string option" where
  "setVMPropertiesCapacityReservation nc = (let groupID = GetCapacityReservationGroupID nc in if groupID = [] then None else Some groupID)"

definition ProvisionModeBootstrappingClient :: string where
  "ProvisionModeBootstrappingClient = ''bootstrappingclient''"

text \<open>The machine without anything in it, which a Windows template gets.\<close>

definition emptyVM :: vmObject where
  "emptyVM = \<lparr>Location = None, VMZones = [], VMName = None, VMID = None, VMTags = None, VMIdentity = None, VMProps = None, objNIC = [],
     objDisk = \<lparr>diskName = [], diskSizeGB = 0, diskEphemeralPlacement = None, diskCaching = None, diskEncryptionSet = None\<rparr>, objDiskController = None,
     objOS = \<lparr>osAdminUsername = [], osComputerName = [], osSSHKey = [], osSSHPath = [], osCustomData = []\<rparr>,
     objEvictionPolicy = None, objMaxPrice = None, objSecurity = None, objFIPS1403 = None\<rparr>"

definition newVMObject :: "'c createVMOptions \<Rightarrow> panic + vmObject" where
  "newVMObject opts =
     (let t = voTemplate opts; nc = voNodeClass opts in
      if ltIsWindows t then Inr emptyVM
      else case MakeARMZonesFromAKSLabelZone (voZone opts) of
        Inl pn \<Rightarrow> Inl pn
      | Inr azones \<Rightarrow>
          let (eviction, maxPrice) = setVMPropertiesBillingProfile (voCapacityType opts) (voSpotMaxPrice opts);
              (ultra, fips) = setVMPropertiesAdditionalCapabilities (voUltraSSDEnabled opts) (ltFIPS1403 t);
              disk = \<lparr>diskName = voVMName opts, diskSizeGB = ltSizeGB t, diskEphemeralPlacement = None, diskCaching = None, diskEncryptionSet = None\<rparr>
          in Inr \<lparr>Location = Some (voLocation opts), VMZones = azones, VMName = Some (voVMName opts), VMID = None, VMTags = ltTags t, VMIdentity = ConvertToVirtualMachineIdentity (voNodeIdentities opts),
               VMProps = Some \<lparr>VMSize = Some (voInstanceType opts), VMPriority = Some (KarpCapacityTypeToVMPriority (voCapacityType opts)),
                 TimeCreated = None, VMProvisioningState = None, VMImageReference = Some (setImageReference (ltImageID t) (voUseSIG opts)),
                 VMUltraSSDEnabled = ultra, VMCapacityReservationGroupID = setVMPropertiesCapacityReservation nc\<rparr>,
               objNIC = voNicReference opts,
               objDisk = setVMPropertiesOSDiskEncryption (voDiskEncryptionSetID opts) (setVMPropertiesOSDiskType t disk),
               objDiskController = ltDiskControllerType t,
               objOS = \<lparr>osAdminUsername = voLinuxAdminUsername opts, osComputerName = voVMName opts, osSSHKey = voSSHPublicKey opts,
                 osSSHPath = ''/home/'' @ voLinuxAdminUsername opts @ ''/.ssh/authorized_keys'',
                 osCustomData = (if voProvisionMode opts = ProvisionModeBootstrappingClient then ltCustomScriptsCustomData t else ltScriptlessCustomData t)\<rparr>,
               objEvictionPolicy = eviction, objMaxPrice = maxPrice, objSecurity = setVMPropertiesSecurityProfile nc, objFIPS1403 = fips\<rparr>)"

text \<open>\<open>strings.TrimSpace\<close> on ASCII. The offending amount is left out of the last message.\<close>

definition spaceChar :: "char \<Rightarrow> bool" where
  "spaceChar c \<longleftrightarrow> c \<in> {CHR 0x09, CHR 0x0A, CHR 0x0B, CHR 0x0C, CHR 0x0D, CHR '' ''}"

definition TrimSpace :: "string \<Rightarrow> string" where
  "TrimSpace s = rev (dropWhile spaceChar (rev (dropWhile spaceChar s)))"

definition AnnotationSpotMaxPrice :: string where
  "AnnotationSpotMaxPrice = Group @ ''/spot-max-price''"

definition parseSpotMaxPriceAnnotation :: "(string \<Rightarrow> float64 option) \<Rightarrow> (string \<rightharpoonup> string) \<Rightarrow> float64 option result" where
  "parseSpotMaxPriceAnnotation parseFloat annotations =
     (case annotations AnnotationSpotMaxPrice of
        None \<Rightarrow> Inr None
      | Some raw \<Rightarrow>
          let raw = TrimSpace raw in
          if raw = [] then Inl ''annotation value must not be empty''
          else case parseFloat raw of
            None \<Rightarrow> Inl (''annotation value '' @ quoted raw @ '' must be a valid float'')
          | Some (Finite v) \<Rightarrow>
              if v < 0 \<and> v \<noteq> - 1 then Inl ''annotation value must be -1 or >= 0'' else Inr (Some (Finite v))
          | Some _ \<Rightarrow> Inl (''annotation value '' @ quoted raw @ '' must be a finite number''))"

subsection \<open>Extensions\<close>

record vmExtension =
  extName :: string
  extLocation :: string
  extPublisher :: string
  extType :: string
  extVersion :: string
  extCommand :: "string option"
  extTags :: "(string, string option) gomap option"

definition aksIdentifyingExtensionName :: string where
  "aksIdentifyingExtensionName = ''computeAksLinuxBilling''"

definition isAKSIdentifyingExtensionEnabled :: "string \<Rightarrow> bool" where
  "isAKSIdentifyingExtensionEnabled cloudName \<longleftrightarrow> cloudName \<in> {''AzurePublicCloud'', ''AzureChinaCloud'', ''AzureUSGovernmentCloud''}"

definition GetManagedExtensionNames :: "string \<Rightarrow> string \<Rightarrow> string list" where
  "GetManagedExtensionNames provisionMode cloudName =
     (if isAKSIdentifyingExtensionEnabled cloudName then [aksIdentifyingExtensionName] else []) @
     (if provisionMode = ProvisionModeBootstrappingClient then [''cse-agent-karpenter''] else [])"

definition getAKSIdentifyingExtension :: "string \<Rightarrow> (string, string option) gomap option \<Rightarrow> vmExtension" where
  "getAKSIdentifyingExtension location tags =
     \<lparr>extName = aksIdentifyingExtensionName, extLocation = location, extPublisher = ''Microsoft.AKS'', extType = ''Compute.AKS.Linux.Billing'',
      extVersion = ''1.0'', extCommand = None, extTags = tags\<rparr>"

definition getCSExtension :: "string \<Rightarrow> string \<Rightarrow> bool \<Rightarrow> (string, string option) gomap option \<Rightarrow> vmExtension" where
  "getCSExtension location cse isWindows tags =
     \<lparr>extName = (if isWindows then ''windows-cse-agent-karpenter'' else ''cse-agent-karpenter''), extLocation = location,
      extPublisher = (if isWindows then ''Microsoft.Compute'' else ''Microsoft.Azure.Extensions''),
      extType = (if isWindows then ''CustomScriptExtension'' else ''CustomScript''), extVersion = (if isWindows then ''1.10'' else ''2.0''),
      extCommand = Some cse, extTags = tags\<rparr>"

subsection \<open>The provider\<close>

text \<open>An update of a machine: its tags and its identities, if they change.\<close>

record vmUpdate =
  upTags :: "(string, string option) gomap option"
  upIdentity :: "string list option"

record 'a vm_cloud =
  vcBase :: "'a cloud"
  vcBeginCreate :: "string \<Rightarrow> vmObject \<Rightarrow> 'a \<Rightarrow> sdkError option \<times> 'a"
  vcPollCreate :: "string \<Rightarrow> 'a \<Rightarrow> sdkError option \<times> 'a"
  vcCreateExtension :: "string \<Rightarrow> vmExtension \<Rightarrow> 'a \<Rightarrow> sdkError option \<times> 'a"
  vcUpdateNicTags :: "string \<Rightarrow> (string, string option) gomap \<Rightarrow> 'a \<Rightarrow> sdkError option \<times> 'a"
  vcBeginUpdateExtension :: "string \<Rightarrow> string \<Rightarrow> (string, string option) gomap \<Rightarrow> 'a \<Rightarrow> sdkError option \<times> 'a"
  vcPollUpdateExtension :: "string \<Rightarrow> string \<Rightarrow> 'a \<Rightarrow> sdkError option \<times> 'a"
  vcUpdate :: "string \<Rightarrow> vmUpdate \<Rightarrow> 'a \<Rightarrow> sdkError option \<times> 'a"

record vm_options =
  optNetworkPlugin :: string
  optNetworkPluginMode :: string
  optNodeResourceGroup :: string
  optClusterName :: string
  optSSHPublicKey :: string
  optLinuxAdminUsername :: string
  optNodeIdentities :: "string list"
  optAdditionalTags :: "(string, string) gomap"
  optUseSIG :: bool

record ('a, 'k, 's, 'f, 'r, 'c) vm_env =
  veCloud :: "'a vm_cloud"
  veLBCache :: "('k, loadBalancer list) cache_api"
  veLBPages :: "loadBalancer pages"
  veNSGPages :: "securityGroup pages"
  veParseName :: "string \<Rightarrow> string option"
  veParseFloat :: "string \<Rightarrow> float64 option"
  veCtx :: "('s, 'f, 'r) handler_ctx"
  veErrors :: "sdkError error_api"
  veMatchers :: "sdkError sdk_matchers"
  veSKU :: "string \<Rightarrow> SKU result"
  veAllocate :: "'r instanceType list \<Rightarrow> claim \<Rightarrow> 'r placement option"
  veTemplate :: "'c nodeClass \<Rightarrow> claim \<Rightarrow> 'r instanceType \<Rightarrow> (string \<rightharpoonup> string) \<Rightarrow> launchTemplate result"
  veIT :: "'r it_api"
  veReqs :: "claim \<Rightarrow> 'r"
  veCompatibleIn :: "'r \<Rightarrow> string \<Rightarrow> string \<Rightarrow> bool"
  veNow :: time
  veLocation :: string
  veResourceGroup :: string
  veSubscriptionID :: string
  veProvisionMode :: string
  veDiskEncryptionSetID :: string
  veCloudName :: string
  veOptions :: vm_options

record ('a, 'k, 's, 'f) vm_world =
  vwAzure :: 'a
  vwDeleting :: "string set"
  vwQuotas :: quotaProvider
  vwOffs :: "('s, 'f) unavailableOfferings"
  vwLB :: "'k lbProvider"
  vwNSG :: "securityGroup option"

text \<open>The launch that a promise waits for; there is none when an existing machine was adopted.\<close>

record 'r vmPromise =
  vpVM :: vm
  vpLaunch :: "('r placement \<times> launchTemplate) option"
  vpCreateIssued :: bool
  vpMetadata :: quotaMetadata

definition baseOf :: "('a, 'k, 's, 'f, 'r, 'c) vm_env \<Rightarrow> 'a cloud" where
  "baseOf E = vcBase (veCloud E)"

definition validateExistingCapacityReservation :: "vm \<Rightarrow> 'c nodeClass \<Rightarrow> error option" where
  "validateExistingCapacityReservation v nc =
     map_option (\<lambda>e. ''existing VM '' @ quoted (FromPtr (VMName v)) @ '' '' @ e)
       (validateCapacityReservationGroupAssociation (CapacityReservationGroupID v) (GetCapacityReservationGroupID nc))"

definition resolveUltraSSDRequested :: "('a, 'k, 's, 'f, 'r, 'c) vm_env \<Rightarrow> claim \<Rightarrow> bool" where
  "resolveUltraSSDRequested E cl \<longleftrightarrow>
     veCompatibleIn E (veReqs E cl) LabelUltraSSD ''true'' \<and> \<not> veCompatibleIn E (veReqs E cl) LabelUltraSSD ''false''"

definition LabelNodeExcludeBalancers :: string where
  "LabelNodeExcludeBalancers = ''node.kubernetes.io/exclude-from-external-load-balancers''"

definition filterBackendPools :: "(string \<Rightarrow> string option) \<Rightarrow> backendAddressPools \<Rightarrow> claim \<Rightarrow> 'c nodeClass \<Rightarrow> backendAddressPools" where
  "filterBackendPools parseName pools cl nc =
     (let pools = (if IsNodePublicIPEnabled nc then WithoutOutboundPools parseName pools else pools)
      in if Labels cl LabelNodeExcludeBalancers \<noteq> None then WithoutKubernetesInboundPools parseName pools else pools)"

definition isMissingSubmittedBackendPool :: "sdkError \<Rightarrow> backendAddressPools \<Rightarrow> bool" where
  "isMissingSubmittedBackendPool e pools \<longleftrightarrow>
     StatusCode e \<noteq> None \<and> EqualFold (SDKErrorCode e) ''InvalidResourceReference'' \<and>
     (\<exists>d \<in> set (IPv4PoolIDs pools @ IPv6PoolIDs pools). Contains (ToLower (ErrText e)) (ToLower d))"

definition getLaunchTemplate :: "('a, 'k, 's, 'f, 'r, 'c) vm_env \<Rightarrow> 'c nodeClass \<Rightarrow> claim \<Rightarrow> 'r placement \<Rightarrow> bool \<Rightarrow> launchTemplate result" where
  "getLaunchTemplate E nc cl pl ultraSSD =
     (let additionalLabels = GetAllSingleValuedRequirementLabels (veIT E) (veReqs E cl) ++
            GetAllSingleValuedRequirementLabels (veIT E) (ITRequirements (plInstanceType pl)) ++
            [CapacityTypeLabelKey \<mapsto> plCapacityType pl, LabelPlacementScope \<mapsto> plScope pl, LabelUltraSSD \<mapsto> boolText ultraSSD]
      in case veTemplate E nc cl (plInstanceType pl) additionalLabels of
           Inl e \<Rightarrow> Inl (''getting launch templates, '' @ e)
         | Inr t \<Rightarrow> Inr t)"

subsection \<open>Deleting\<close>

definition deleteVirtualMachine :: "('a, 'k, 's, 'f, 'r, 'c) vm_env \<Rightarrow> string \<Rightarrow> ('a, 'k, 's, 'f) vm_world \<Rightarrow> sdkError option \<times> ('a, 'k, 's, 'f) vm_world" where
  "deleteVirtualMachine E vmName w =
     (let C = baseOf E;
          w1 = w\<lparr>vwDeleting := insert vmName (vwDeleting w)\<rparr>;
          (r, a) = (case res_beginDelete (cVM C) vmName (vwAzure w1) of
             (Some e, a1) \<Rightarrow> (Some e, a1)
           | (None, a1) \<Rightarrow>
               (case res_pollDelete (cVM C) vmName a1 of
                  (Some e, a2) \<Rightarrow> (if cNotFound C e then None else Some e, a2)
                | (None, a2) \<Rightarrow> (None, a2)))
      in (r, w1\<lparr>vwAzure := a, vwDeleting := vwDeleting w1 - {vmName}\<rparr>))"

definition deleteVirtualMachineIfExists :: "('a, 'k, 's, 'f, 'r, 'c) vm_env \<Rightarrow> string \<Rightarrow> ('a, 'k, 's, 'f) vm_world
    \<Rightarrow> sdkError option \<times> ('a, 'k, 's, 'f) vm_world" where
  "deleteVirtualMachineIfExists E vmName w =
     (case res_get (cVM (baseOf E)) (vwAzure w) vmName of
        Inl e \<Rightarrow> (if cNotFound (baseOf E) e then None else Some e, w)
      | Inr _ \<Rightarrow> deleteVirtualMachine E vmName w)"

definition DeleteNicOf :: "('a, 'k, 's, 'f, 'r, 'c) vm_env \<Rightarrow> string \<Rightarrow> ('a, 'k, 's, 'f) vm_world \<Rightarrow> sdkError option \<times> ('a, 'k, 's, 'f) vm_world" where
  "DeleteNicOf E name w = (let (r, a) = DeleteNic (baseOf E) (optClusterName (veOptions E)) name (vwAzure w) in (r, w\<lparr>vwAzure := a\<rparr>))"

text \<open>The errors that are joined; none is a nil error.\<close>

fun errList :: "'e option \<Rightarrow> 'e list" where
  "errList None = []"
| "errList (Some e) = [e]"

definition cleanupAzureResources :: "('a, 'k, 's, 'f, 'r, 'c) vm_env \<Rightarrow> string \<Rightarrow> bool \<Rightarrow> ('a, 'k, 's, 'f) vm_world
    \<Rightarrow> sdkError list \<times> ('a, 'k, 's, 'f) vm_world" where
  "cleanupAzureResources E resourceName mustDeleteNic w =
     (let (vmErr, w1) = deleteVirtualMachineIfExists E resourceName w;
          (nicErr, w2) = DeleteNicOf E resourceName w1
      in (if mustDeleteNic then errList vmErr @ errList nicErr else errList vmErr, w2))"

definition Get :: "('a, 'k, 's, 'f, 'r, 'c) vm_env \<Rightarrow> string \<Rightarrow> ('a, 'k, 's, 'f) vm_world \<Rightarrow> instErr + vm" where
  "Get E vmName w =
     (case res_get (cVM (baseOf E)) (vwAzure w) vmName of
        Inl e \<Rightarrow> Inl (if cNotFound (baseOf E) e then ClaimNotFound (ErrText e) else PlainErr (''failed to get VM instance, '' @ ErrText e))
      | Inr v \<Rightarrow> Inr v)"

definition deleteImpl :: "('a, 'k, 's, 'f, 'r, 'c) vm_env \<Rightarrow> string \<Rightarrow> ('a, 'k, 's, 'f) vm_world
    \<Rightarrow> (bool \<times> instErr option) \<times> ('a, 'k, 's, 'f) vm_world" where
  "deleteImpl E resourceName w =
     (if resourceName \<in> vwDeleting w then ((False, None), w)
      else case Get E resourceName w of
        Inl (ClaimNotFound e) \<Rightarrow>
          (let (r, w1) = DeleteNicOf E resourceName w in
           case r of Some e' \<Rightarrow> ((True, Some (PlainErr (ErrText e'))), w1) | None \<Rightarrow> ((True, Some (ClaimNotFound e)), w1))
      | Inl e \<Rightarrow> ((False, Some e), w)
      | Inr v \<Rightarrow>
          if IsVMDeleting v then ((False, None), w)
          else let (errs, w1) = cleanupAzureResources E resourceName False w in
            case errs of e # _ \<Rightarrow> ((False, Some (PlainErr (ErrText e))), w1) | [] \<Rightarrow> ((True, None), w1))"

definition Delete :: "('a, 'k, 's, 'f, 'r, 'c) vm_env \<Rightarrow> claim \<Rightarrow> string \<Rightarrow> ('a, 'k, 's, 'f) vm_world \<Rightarrow> instErr option \<times> ('a, 'k, 's, 'f) vm_world" where
  "Delete E cl resourceName w =
     (let ((gone, err), w1) = deleteImpl E resourceName w in
      (err, if gone then w1\<lparr>vwQuotas := recordDeleteFromNodeClaim (skuOf (veSKU E)) (vwQuotas w1) (veNow E) (nodeClaim.truncate cl)\<rparr> else w1))"

definition Cleanup :: "('a, 'k, 's, 'f, 'r, 'c) vm_env \<Rightarrow> claim \<Rightarrow> 'r vmPromise \<Rightarrow> ('a, 'k, 's, 'f) vm_world \<Rightarrow> instErr option \<times> ('a, 'k, 's, 'f) vm_world" where
  "Cleanup E cl pr w =
     (let ((gone, err), w1) = deleteImpl E (FromPtr (VMName (vpVM pr))) w in
      (err, if gone then w1\<lparr>vwQuotas := recordDelete (vwQuotas w1) (veNow E) (nodeClaim.truncate cl) (vpMetadata pr)\<rparr> else w1))"

subsection \<open>Launching\<close>

text \<open>What the network of a launch needs: the pools, and the security group of an unmanaged network or of a node with a public address.\<close>

definition backendPoolsFor :: "('a, 'k, 's, 'f, 'r, 'c) vm_env \<Rightarrow> ('a, 'k, 's, 'f) vm_world \<Rightarrow> backendAddressPools result \<times> ('a, 'k, 's, 'f) vm_world" where
  "backendPoolsFor E w = (let (r, lb) = LoadBalancerBackendPools (veLBCache E) (veNow E) (veLBPages E) (vwLB w) in (r, w\<lparr>vwLB := lb\<rparr>))"

definition securityGroupFor :: "('a, 'k, 's, 'f, 'r, 'c) vm_env \<Rightarrow> 'c nodeClass \<Rightarrow> launchTemplate \<Rightarrow> ('a, 'k, 's, 'f) vm_world
    \<Rightarrow> string result \<times> ('a, 'k, 's, 'f) vm_world" where
  "securityGroupFor E nc t w =
     (case IsAKSManagedVNET (optNodeResourceGroup (veOptions E)) (ltSubnetID t) of
        Inl e \<Rightarrow> (Inl (''checking if vnet is managed: '' @ e), w)
      | Inr managed \<Rightarrow>
          if \<not> managed \<or> IsNodePublicIPEnabled nc then
            (case ManagedNetworkSecurityGroup (veNSGPages E) (vwNSG w) of
               (Inl e, nsg) \<Rightarrow> (Inl (''getting managed network security group: '' @ e), w\<lparr>vwNSG := nsg\<rparr>)
             | (Inr g, nsg) \<Rightarrow> (Inr (FromPtr (NSGID g)), w\<lparr>vwNSG := nsg\<rparr>))
          else (Inr [], w))"

definition createNicFor :: "('a, 'k, 's, 'f, 'r, 'c) vm_env \<Rightarrow> createNICOptions \<Rightarrow> ('a, 'k, 's, 'f) vm_world
    \<Rightarrow> (panic + (sdkError + string)) \<times> ('a, 'k, 's, 'f) vm_world" where
  "createNicFor E opts w =
     (let (r, a) = createNetworkInterface (baseOf E) (veLocation E) (optClusterName (veOptions E)) opts (vwAzure w) in (r, w\<lparr>vwAzure := a\<rparr>))"

text \<open>The creation of the interface with its one retry on refreshed pools.\<close>

definition createNicRetrying :: "('a, 'k, 's, 'f, 'r, 'c) vm_env \<Rightarrow> 'c nodeClass \<Rightarrow> claim \<Rightarrow> createNICOptions \<Rightarrow> ('a, 'k, 's, 'f) vm_world
    \<Rightarrow> (panic + (instErr + string)) \<times> ('a, 'k, 's, 'f) vm_world" where
  "createNicRetrying E nc cl opts w =
     (let plain = (\<lambda>(r, w). (case r of Inl pn \<Rightarrow> Inl pn | Inr (Inl e) \<Rightarrow> Inr (Inl (PlainErr (ErrText e))) | Inr (Inr d) \<Rightarrow> Inr (Inr d), w)) in
      case createNicFor E opts w of
        (Inr (Inl e), w1) \<Rightarrow>
          if isMissingSubmittedBackendPool e (noBackendPools opts) then
            (case RefreshBackendPools (veLBCache E) (veNow E) (veLBPages E) (noBackendPools opts) (vwLB w1) of
               (Inl e', lb) \<Rightarrow> (Inr (Inl (PlainErr (''refreshing backend pools after network interface failure: '' @ e'))), w1\<lparr>vwLB := lb\<rparr>)
             | (Inr refreshed, lb) \<Rightarrow>
                 plain (createNicFor E (opts\<lparr>noBackendPools := filterBackendPools (veParseName E) refreshed cl nc\<rparr>) (w1\<lparr>vwLB := lb\<rparr>)))
          else plain (Inr (Inl e), w1)
      | r \<Rightarrow> plain r)"

text \<open>
  The handling of a failed create; also used when the wait fails. When the SKU is missing the error of the create is reported, not that of the lookup.
\<close>

definition handleCreateError :: "('a, 'k, 's, 'f, 'r, 'c) vm_env \<Rightarrow> 'r placement \<Rightarrow> string \<Rightarrow> sdkError \<Rightarrow> ('a, 'k, 's, 'f) vm_world
    \<Rightarrow> instErr \<times> ('a, 'k, 's, 'f) vm_world" where
  "handleCreateError E pl groupID err w =
     (case veSKU E (Name (plInstanceType pl)) of
        Inl _ \<Rightarrow> (PlainErr (''failed to get instance type '' @ quoted (Name (plInstanceType pl)) @ '': '' @ ErrText err), w)
      | Inr sku \<Rightarrow>
          let (u, r) = response_Handle (veErrors E) (veMatchers E) (veCtx E) (vwOffs w) sku (plInstanceType pl) (plZone pl) (plCapacityType pl) groupID err;
              w' = w\<lparr>vwOffs := u\<rparr>
          in case r of Some le \<Rightarrow> (LaunchErr [] le, w') | None \<Rightarrow> (PlainErr (ErrText err), w'))"

definition createVirtualMachine :: "('a, 'k, 's, 'f, 'r, 'c) vm_env \<Rightarrow> 'c createVMOptions \<Rightarrow> ('a, 'k, 's, 'f) vm_world
    \<Rightarrow> (panic + (sdkError + vmObject)) \<times> ('a, 'k, 's, 'f) vm_world" where
  "createVirtualMachine E opts w =
     (case newVMObject opts of
        Inl pn \<Rightarrow> (Inl pn, w)
      | Inr v \<Rightarrow>
          (case vcBeginCreate (veCloud E) (voVMName opts) v (vwAzure w) of
             (Some e, a) \<Rightarrow> (Inr (Inl (wrapErr (''virtualMachine.BeginCreateOrUpdate for VM '' @ quoted (voVMName opts) @ '' failed: '') e)), w\<lparr>vwAzure := a\<rparr>)
           | (None, a) \<Rightarrow> (Inr (Inr v), w\<lparr>vwAzure := a\<rparr>)))"

text \<open>The launch after an offering was selected and the template built.\<close>

definition launchSelected :: "('a, 'k, 's, 'f, 'r, 'c) vm_env \<Rightarrow> 'c nodeClass \<Rightarrow> claim \<Rightarrow> 'r placement \<Rightarrow> launchTemplate \<Rightarrow> ('a, 'k, 's, 'f) vm_world
    \<Rightarrow> (panic + (instErr + 'r vmPromise)) \<times> ('a, 'k, 's, 'f) vm_world" where
  "launchSelected E nc cl pl t w =
     (let resourceName = GenerateResourceName (NCName cl); opt = veOptions E in
      case (if plCapacityType pl = CapacityTypeSpot then parseSpotMaxPriceAnnotation (veParseFloat E) (Annotations cl) else Inr None) of
        Inl e \<Rightarrow> (Inr (Inl (PlainErr (''invalid '' @ quoted AnnotationSpotMaxPrice @ '' annotation on NodeClaim '' @ quoted (NCName cl) @ '': '' @ e))), w)
      | Inr spotMaxPrice \<Rightarrow>
        (case backendPoolsFor E w of
           (Inl e, w1) \<Rightarrow> (Inr (Inl (PlainErr (''getting backend pools: '' @ e))), w1)
         | (Inr pools, w1) \<Rightarrow>
           (case securityGroupFor E nc t w1 of
              (Inl e, w2) \<Rightarrow> (Inr (Inl (PlainErr e)), w2)
            | (Inr nsgID, w2) \<Rightarrow>
              let nicOpts = \<lparr>noNICName = resourceName, noZone = plZone pl, noEnableNodePublicIP = IsNodePublicIPEnabled nc,
                    noBackendPools = filterBackendPools (veParseName E) pools cl nc,
                    noAccelerated = veCompatibleIn E (ITRequirements (plInstanceType pl)) (Group @ ''/sku-networking-accelerated'') ''true'',
                    noTemplate = t, noNetworkPlugin = optNetworkPlugin opt, noNetworkPluginMode = optNetworkPluginMode opt,
                    noMaxPods = GetMaxPods nc (optNetworkPlugin opt) (optNetworkPluginMode opt), noNSGID = nsgID\<rparr> in
              (case createNicRetrying E nc cl nicOpts w2 of
                 (Inl pn, w3) \<Rightarrow> (Inl pn, w3)
               | (Inr (Inl e), w3) \<Rightarrow> (Inr (Inl e), w3)
               | (Inr (Inr nicReference), w3) \<Rightarrow>
                 (case createVirtualMachine E \<lparr>voVMName = resourceName, voNicReference = nicReference, voZone = plZone pl, voCapacityType = plCapacityType pl,
                      voSpotMaxPrice = spotMaxPrice, voLocation = veLocation E, voSSHPublicKey = optSSHPublicKey opt, voLinuxAdminUsername = optLinuxAdminUsername opt,
                      voNodeIdentities = optNodeIdentities opt, voNodeClass = nc, voTemplate = t, voInstanceType = Name (plInstanceType pl),
                      voProvisionMode = veProvisionMode E, voUseSIG = optUseSIG opt, voDiskEncryptionSetID = veDiskEncryptionSetID E,
                      voUltraSSDEnabled = resolveUltraSSDRequested E cl\<rparr> w3 of
                    (Inl pn, w4) \<Rightarrow> (Inl pn, w4)
                  | (Inr (Inl e), w4) \<Rightarrow> (let (err, w5) = handleCreateError E pl (GetCapacityReservationGroupID nc) e w4 in (Inr (Inl err), w5))
                  | (Inr (Inr v), w4) \<Rightarrow>
                      (case VMProps v of
                         None \<Rightarrow> (Inl NilDereference, w4)
                       | Some p \<Rightarrow> (Inr (Inr \<lparr>vpVM = vm.truncate (v\<lparr>VMID := Some (vmResourceID (veSubscriptionID E) (veResourceGroup E) resourceName),
                           VMProps := Some (p\<lparr>TimeCreated := Some (veNow E)\<rparr>)\<rparr>),
                           vpLaunch = Some (pl, t), vpCreateIssued = True, vpMetadata = noMetadata\<rparr>), w4)))))))"

definition beginLaunchInstance :: "('a, 'k, 's, 'f, 'r, 'c) vm_env \<Rightarrow> 'c nodeClass \<Rightarrow> claim \<Rightarrow> 'r instanceType list \<Rightarrow> ('a, 'k, 's, 'f) vm_world
    \<Rightarrow> (panic + (instErr + 'r vmPromise)) \<times> ('a, 'k, 's, 'f) vm_world" where
  "beginLaunchInstance E nc cl its w =
     (let resourceName = GenerateResourceName (NCName cl) in
      case res_get (cVM (baseOf E)) (vwAzure w) resourceName of
        Inr existing \<Rightarrow>
          (case validateExistingCapacityReservation existing nc of
             Some e \<Rightarrow> (Inr (Inl (PlainErr e)), w)
           | None \<Rightarrow> (Inr (Inr \<lparr>vpVM = existing, vpLaunch = None, vpCreateIssued = False, vpMetadata = noMetadata\<rparr>), w))
      | Inl err \<Rightarrow>
          if \<not> cNotFound (baseOf E) err then (Inr (Inl (PlainErr (''getting VM '' @ quoted resourceName @ '': '' @ ErrText err))), w)
          else if GetNodePublicIPPrefixIDs nc \<noteq> [] \<or> GetNodePublicIPTags nc \<noteq> [] then
            (Inr (Inl (PlainErr ''nodePublicIP.prefixIDs and nodePublicIP.ipTags require an AKS Machine API provision mode'')), w)
          else case veAllocate E its cl of
            None \<Rightarrow> (Inr (Inl (LaunchErr [] (InsufficientCapacityError ''no instance types available''))), w)
          | Some pl \<Rightarrow>
              (case getLaunchTemplate E nc cl pl (resolveUltraSSDRequested E cl) of
                 Inl e \<Rightarrow> (Inr (Inl (PlainErr (''getting launch template: '' @ e))), w)
               | Inr t \<Rightarrow> launchSelected E nc cl pl t w))"

text \<open>The log line at the end follows the identifier, the name and the size of the machine.\<close>

definition BeginCreate :: "('a, 'k, 's, 'f, 'r, 'c) vm_env \<Rightarrow> 'c nodeClass \<Rightarrow> claim \<Rightarrow> 'r instanceType list \<Rightarrow> ('a, 'k, 's, 'f) vm_world
    \<Rightarrow> (panic + (instErr + 'r vmPromise)) \<times> ('a, 'k, 's, 'f) vm_world" where
  "BeginCreate E nc cl its w =
     (let quotaGeneration = lc_snapshotGeneration (vwQuotas w) in
      case beginLaunchInstance E nc cl its w of
        (Inl pn, w1) \<Rightarrow> (Inl pn, w1)
      | (Inr (Inl err), w1) \<Rightarrow> (Inr (Inl err), snd (cleanupAzureResources E (GenerateResourceName (NCName cl)) True w1))
      | (Inr (Inr pr), w1) \<Rightarrow>
          let v = vpVM pr;
              md = metadata (skuOf (veSKU E)) (FromPtr (Option.bind (VMProps v) VMSize)) (GetCapacityTypeFromVM v) (CapacityReservationGroupID v \<noteq> []);
              (pr2, w2) = (if vpCreateIssued pr
                then (pr\<lparr>vpMetadata := md\<rparr>, w1\<lparr>vwQuotas := recordCreate (vwQuotas w1) quotaGeneration (nodeClaim.truncate cl) md\<rparr>)
                else (pr, w1))
          in if VMID v = None \<or> VMName v = None \<or> Option.bind (VMProps v) VMSize = None then (Inl NilDereference, w2)
             else (Inr (Inr pr2), w2))"

definition waitVM :: "('a, 'k, 's, 'f, 'r, 'c) vm_env \<Rightarrow> 'c nodeClass \<Rightarrow> 'r vmPromise \<Rightarrow> ('a, 'k, 's, 'f) vm_world \<Rightarrow> instErr option \<times> ('a, 'k, 's, 'f) vm_world" where
  "waitVM E nc pr w =
     (case vpLaunch pr of
        None \<Rightarrow> (None, w)
      | Some (pl, t) \<Rightarrow>
          let name = FromPtr (VMName (vpVM pr));
              extension = (\<lambda>x msg w. case vcCreateExtension (veCloud E) name x (vwAzure w) of
                 (Some e, a) \<Rightarrow> (Some (PlainErr (msg @ ErrText e)), w\<lparr>vwAzure := a\<rparr>)
               | (None, a) \<Rightarrow> (None, w\<lparr>vwAzure := a\<rparr>))
          in case vcPollCreate (veCloud E) name (vwAzure w) of
               (Some e, a) \<Rightarrow> (let (err, w1) = handleCreateError E pl (GetCapacityReservationGroupID nc) e (w\<lparr>vwAzure := a\<rparr>) in (Some err, w1))
             | (None, a) \<Rightarrow>
                 let w1 = w\<lparr>vwAzure := a\<rparr>;
                     (r, w2) = (if veProvisionMode E = ProvisionModeBootstrappingClient
                       then extension (getCSExtension (veLocation E) (ltCSE t) (ltIsWindows t) (ltTags t)) (''creating VM CSE for VM '' @ quoted name @ '': '') w1
                       else (None, w1))
                 in case r of
                      Some e \<Rightarrow> (Some e, w2)
                    | None \<Rightarrow>
                        if isAKSIdentifyingExtensionEnabled (veCloudName E)
                        then extension (getAKSIdentifyingExtension (veLocation E) (ltTags t))
                          (''creating VM AKS identifying extension '' @ quoted aksIdentifyingExtensionName @ '' for VM '' @ quoted name @ '': '') w2
                        else (None, w2))"

subsection \<open>Updating\<close>

text \<open>The extensions whose update was accepted, or the error.\<close>

fun beginExtensionUpdates :: "('a, 'k, 's, 'f, 'r, 'c) vm_env \<Rightarrow> string \<Rightarrow> (string, string option) gomap \<Rightarrow> string list \<Rightarrow> 'a \<Rightarrow> (error + string list) \<times> 'a" where
  "beginExtensionUpdates E vmName tags [] a = (Inr [], a)"
| "beginExtensionUpdates E vmName tags (x # xs) a =
     (case vcBeginUpdateExtension (veCloud E) vmName x tags a of
        (Some e, a1) \<Rightarrow>
          if x = aksIdentifyingExtensionName \<and> StatusCode e = Some 404 then beginExtensionUpdates E vmName tags xs a1
          else (Inl (''updating VM extension '' @ quoted x @ '' for VM '' @ quoted vmName @ '': '' @ ErrText e), a1)
      | (None, a1) \<Rightarrow>
          (case beginExtensionUpdates E vmName tags xs a1 of (Inl e, a2) \<Rightarrow> (Inl e, a2) | (Inr ys, a2) \<Rightarrow> (Inr (x # ys), a2)))"

fun pollExtensionUpdates :: "('a, 'k, 's, 'f, 'r, 'c) vm_env \<Rightarrow> string \<Rightarrow> string list \<Rightarrow> 'a \<Rightarrow> error option \<times> 'a" where
  "pollExtensionUpdates E vmName [] a = (None, a)"
| "pollExtensionUpdates E vmName (x # xs) a =
     (case vcPollUpdateExtension (veCloud E) vmName x a of
        (Some e, a1) \<Rightarrow> (Some (''polling VM extension '' @ quoted x @ '' for VM '' @ quoted vmName @ '': '' @ ErrText e), a1)
      | (None, a1) \<Rightarrow> pollExtensionUpdates E vmName xs a1)"

definition updateTags :: "('a, 'k, 's, 'f, 'r, 'c) vm_env \<Rightarrow> string \<Rightarrow> (string, string option) gomap \<Rightarrow> 'a \<Rightarrow> error option \<times> 'a" where
  "updateTags E vmName tags a =
     (case vcUpdateNicTags (veCloud E) vmName tags a of
        (Some e, a1) \<Rightarrow> (Some (''updating NIC tags for '' @ quoted vmName @ '': '' @ ErrText e), a1)
      | (None, a1) \<Rightarrow>
          (case beginExtensionUpdates E vmName tags (GetManagedExtensionNames (veProvisionMode E) (veCloudName E)) a1 of
             (Inl e, a2) \<Rightarrow> (Some e, a2)
           | (Inr begun, a2) \<Rightarrow> pollExtensionUpdates E vmName begun a2))"

definition Update :: "('a, 'k, 's, 'f, 'r, 'c) vm_env \<Rightarrow> string \<Rightarrow> vmUpdate \<Rightarrow> ('a, 'k, 's, 'f) vm_world \<Rightarrow> error option \<times> ('a, 'k, 's, 'f) vm_world" where
  "Update E vmName upd w =
     (let (r, a1) = (case upTags upd of None \<Rightarrow> (None, vwAzure w) | Some tags \<Rightarrow> updateTags E vmName tags (vwAzure w)) in
      case r of
        Some e \<Rightarrow> (Some e, w\<lparr>vwAzure := a1\<rparr>)
      | None \<Rightarrow> (let (r2, a2) = vcUpdate (veCloud E) vmName upd a1 in (map_option ErrText r2, w\<lparr>vwAzure := a2\<rparr>)))"

subsection \<open>Facts\<close>

text \<open>No part of a launch or of a deletion touches the quota accounting.\<close>

lemma deleteVirtualMachine_quotas: "deleteVirtualMachine E n w = (r, w') \<Longrightarrow> vwQuotas w' = vwQuotas w \<and> vwDeleting w' = vwDeleting w - {n}"
  by (auto simp: deleteVirtualMachine_def Let_def split: prod.splits option.splits)

lemma deleteVirtualMachineIfExists_quotas: "deleteVirtualMachineIfExists E n w = (r, w') \<Longrightarrow> vwQuotas w' = vwQuotas w"
  by (auto simp: deleteVirtualMachineIfExists_def dest!: deleteVirtualMachine_quotas split: sum.splits)

lemma DeleteNicOf_quotas: "DeleteNicOf E n w = (r, w') \<Longrightarrow> vwQuotas w' = vwQuotas w"
  by (auto simp: DeleteNicOf_def split: prod.splits)

lemma cleanup_quotas: "cleanupAzureResources E n must w = (r, w') \<Longrightarrow> vwQuotas w' = vwQuotas w"
  by (auto simp: cleanupAzureResources_def dest!: deleteVirtualMachineIfExists_quotas DeleteNicOf_quotas split: prod.splits)

lemma vmDeleteImpl_quotas: "deleteImpl E n w = (r, w') \<Longrightarrow> vwQuotas w' = vwQuotas w"
  by (auto simp: deleteImpl_def Let_def dest!: cleanup_quotas DeleteNicOf_quotas
      split: prod.splits sum.splits option.splits if_splits instErr.splits list.splits)

lemma createNicFor_quotas: "createNicFor E opts w = (r, w') \<Longrightarrow> vwQuotas w' = vwQuotas w"
  by (auto simp: createNicFor_def split: prod.splits)

lemma createNicRetrying_quotas: "createNicRetrying E nc cl opts w = (r, w') \<Longrightarrow> vwQuotas w' = vwQuotas w"
  by (auto simp: createNicRetrying_def Let_def dest!: createNicFor_quotas split: prod.splits sum.splits if_splits)

lemma network_quotas:
  "backendPoolsFor E w = (r, w') \<Longrightarrow> vwQuotas w' = vwQuotas w"
  "securityGroupFor E nc t w = (r', w') \<Longrightarrow> vwQuotas w' = vwQuotas w"
  by (auto simp: backendPoolsFor_def securityGroupFor_def split: prod.splits sum.splits if_splits)

lemma create_quotas:
  "createVirtualMachine E opts w = (r, w') \<Longrightarrow> vwQuotas w' = vwQuotas w"
  "handleCreateError E pl g err w = (r', w') \<Longrightarrow> vwQuotas w' = vwQuotas w"
  by (auto simp: createVirtualMachine_def handleCreateError_def Let_def split: prod.splits sum.splits option.splits)

lemma launchSelected_result:
  assumes "launchSelected E nc cl pl t w = (r, w')"
  shows "vwQuotas w' = vwQuotas w" and "r = Inr (Inr pr) \<Longrightarrow> vpCreateIssued pr \<and> vpMetadata pr = noMetadata"
  using assms by (auto simp: launchSelected_def Let_def
      dest!: network_quotas createNicRetrying_quotas create_quotas split: prod.splits sum.splits option.splits)

lemma beginLaunchInstance_result:
  assumes "beginLaunchInstance E nc cl its w = (r, w')"
  shows "vwQuotas w' = vwQuotas w"
  using assms by (auto simp: beginLaunchInstance_def Let_def dest!: launchSelected_result(1) split: sum.splits option.splits if_splits)

lemma vmBeginCreate_quotas:
  "BeginCreate E nc cl its w = (Inr (Inr pr), w') \<Longrightarrow> vwQuotas w' =
    (if vpCreateIssued pr then recordCreate (vwQuotas w) (lc_snapshotGeneration (vwQuotas w)) (nodeClaim.truncate cl) (vpMetadata pr) else vwQuotas w)"
  by (auto simp: BeginCreate_def Let_def dest!: beginLaunchInstance_result split: prod.splits sum.splits if_splits)

lemma newVMObject_total:
  "\<not> ltIsWindows (voTemplate opts) \<Longrightarrow> MakeARMZonesFromAKSLabelZone (voZone opts) = Inr azones \<Longrightarrow> \<exists>v. newVMObject opts = Inr v"
  by (simp add: newVMObject_def Let_def case_prod_beta)

lemma newVMObject_windows: "ltIsWindows (voTemplate opts) \<Longrightarrow> newVMObject opts = Inr emptyVM"
  by (simp add: newVMObject_def)

lemma createVirtualMachine_windows:
  "createVirtualMachine E opts w = (Inr (Inr v), w') \<Longrightarrow> ltIsWindows (voTemplate opts) \<Longrightarrow> VMProps v = None"
  by (auto simp: createVirtualMachine_def newVMObject_windows emptyVM_def split: prod.splits option.splits)

lemma handleCreateError_frame: "handleCreateError E pl g err w = (r, w') \<Longrightarrow> vwAzure w' = vwAzure w \<and> vwDeleting w' = vwDeleting w"
  by (auto simp: handleCreateError_def Let_def split: prod.splits sum.splits option.splits)

text \<open>Cleaning up after a launch restores the quota accounting.\<close>

lemma cleanup_restores_quota:
  assumes "quota_reach n s" and "n < 2 ^ 64 - 1" and "vwQuotas w = prov s"
    and "BeginCreate E nc cl its w = (Inr (Inr pr), w1)" and "vpCreateIssued pr" and "eligible (vpMetadata pr)"
    and "snd (RecordCreate (prov s) (lc_snapshotGeneration (prov s)) (nodeClaim.truncate cl) (mdFamilyName (vpMetadata pr)) (mdVCPUs (vpMetadata pr)))"
    and "vwQuotas w2 = vwQuotas w1" and "deleteImpl E (FromPtr (VMName (vpVM pr))) w2 = ((True, err), w3)"
  shows "adjustments (vwQuotas (snd (Cleanup E cl pr w2))) = adjustments (vwQuotas w) \<and>
    adjustmentsByQuotaName (vwQuotas (snd (Cleanup E cl pr w2))) = adjustmentsByQuotaName (vwQuotas w)"
proof -
  let ?cl = "nodeClaim.truncate cl" and ?md = "vpMetadata pr"
  let ?p1 = "fst (RecordCreate (prov s) (lc_snapshotGeneration (prov s)) ?cl (mdFamilyName ?md) (mdVCPUs ?md))"
  have "vwQuotas w1 = ?p1" using vmBeginCreate_quotas [OF assms(4)] assms(3,5,6) by (simp add: recordCreate_def)
  moreover have "vwQuotas w3 = vwQuotas w2" using vmDeleteImpl_quotas [OF assms(9)] .
  moreover have "RecordCreate (prov s) (lc_snapshotGeneration (prov s)) ?cl (mdFamilyName ?md) (mdVCPUs ?md) = (?p1, True)"
    using assms(7) by (simp add: prod_eq_iff)
  ultimately show ?thesis
    using RecordCreate_RecordDelete [OF assms(1,2), of _ ?cl "mdFamilyName ?md" "mdVCPUs ?md" ?p1 "veNow E"] assms(3,6,8,9)
    by (simp add: Cleanup_def recordDelete_def)
qed

text \<open>A provider on top of the service of \<open>Cloud_Resources\<close>.\<close>

locale vm_provider = cloud_service "baseOf E" for E :: "('a, 'k, 's, 'f, 'r, 'c) vm_env"
begin

lemma machine_gone:
  assumes "deleteVirtualMachineIfExists E n w = (None, w')"
  shows "\<exists>e. res_get (cVM (baseOf E)) (vwAzure w') n = Inl e \<and> cNotFound (baseOf E) e"
proof (cases "res_get (cVM (baseOf E)) (vwAzure w) n")
  case (Inl e)
  with assms show ?thesis by (auto simp: deleteVirtualMachineIfExists_def split: if_splits)
next
  case (Inr x)
  then have d: "deleteVirtualMachine E n w = (None, w')" using assms by (simp add: deleteVirtualMachineIfExists_def)
  then obtain a1 where b: "res_beginDelete (cVM (baseOf E)) n (vwAzure w) = (None, a1)"
    by (auto simp: deleteVirtualMachine_def Let_def split: prod.splits option.splits)
  obtain r a2 where p: "res_pollDelete (cVM (baseOf E)) n a1 = (r, a2)" by (rule prod.exhaust)
  have "a2 = vwAzure w'" "\<forall>e. r = Some e \<longrightarrow> cNotFound (baseOf E) e"
    using d b p by (auto simp: deleteVirtualMachine_def Let_def split: option.splits if_splits)
  with VM.removed [OF b p] show ?thesis by simp
qed

lemma other_machines_kept:
  assumes "deleteVirtualMachineIfExists E n w = (r, w')" and "m \<noteq> n"
  shows "res_get (cVM (baseOf E)) (vwAzure w') m = res_get (cVM (baseOf E)) (vwAzure w) m"
proof -
  obtain r1 a1 where b: "res_beginDelete (cVM (baseOf E)) n (vwAzure w) = (r1, a1)" by (rule prod.exhaust)
  obtain r2 a2 where p: "res_pollDelete (cVM (baseOf E)) n a1 = (r2, a2)" by (rule prod.exhaust)
  have "vwAzure w' \<in> {vwAzure w, a1, a2}"
    using assms(1) b p by (auto simp: deleteVirtualMachineIfExists_def deleteVirtualMachine_def Let_def split: sum.splits option.splits)
  with VM.begin_other [OF assms(2), of "vwAzure w"] VM.poll_other [OF assms(2), of a1] b p show ?thesis by auto
qed

lemma cleanup_removes:
  assumes "cleanupAzureResources E n True w = ([], w')"
  shows "\<exists>e. res_get (cVM (baseOf E)) (vwAzure w') n = Inl e \<and> cNotFound (baseOf E) e"
    and "\<exists>e. res_get (cNIC (baseOf E)) (vwAzure w') n = Inl e \<and> cNotFound (baseOf E) e"
    and "cIPClient (baseOf E) \<Longrightarrow> res_get (cIP (baseOf E)) (vwAzure w') n = Inr x \<Longrightarrow> \<not> ownedPublicIP x n (optClusterName (veOptions E))"
proof -
  obtain w1 where d: "deleteVirtualMachineIfExists E n w = (None, w1)" and i: "DeleteNicOf E n w1 = (None, w')"
    using assms by (auto simp: cleanupAzureResources_def split: prod.splits elim!: errList.elims)
  have nic: "DeleteNic (baseOf E) (optClusterName (veOptions E)) n (vwAzure w1) = (None, vwAzure w')"
    using i by (auto simp: DeleteNicOf_def split: prod.splits)
  show "\<exists>e. res_get (cVM (baseOf E)) (vwAzure w') n = Inl e \<and> cNotFound (baseOf E) e"
    using machine_gone [OF d] DeleteNic_frame(3) [of "optClusterName (veOptions E)" n "vwAzure w1"] nic by simp
  show "\<exists>e. res_get (cNIC (baseOf E)) (vwAzure w') n = Inl e \<and> cNotFound (baseOf E) e" by (rule DeleteNic_gone(1) [OF nic])
  show "cIPClient (baseOf E) \<Longrightarrow> res_get (cIP (baseOf E)) (vwAzure w') n = Inr x \<Longrightarrow> \<not> ownedPublicIP x n (optClusterName (veOptions E))"
    by (rule DeleteNic_gone(2) [OF nic])
qed

lemma cleanup_spares:
  assumes "cleanupAzureResources E n must w = (r, w')" and "m \<noteq> n"
  shows "res_get (cVM (baseOf E)) (vwAzure w') m = res_get (cVM (baseOf E)) (vwAzure w) m"
proof -
  obtain r1 w1 where d: "deleteVirtualMachineIfExists E n w = (r1, w1)" by (rule prod.exhaust)
  have "vwAzure w' = snd (DeleteNic (baseOf E) (optClusterName (veOptions E)) n (vwAzure w1))"
    using assms d by (auto simp: cleanupAzureResources_def DeleteNicOf_def split: prod.splits if_splits)
  then show ?thesis using other_machines_kept [OF d assms(2)] by (simp add: DeleteNic_frame)
qed

end

subsection \<open>A concrete provider\<close>

definition ex_template :: launchTemplate where
  "ex_template = \<lparr>ltImageID = ''/subscriptions/s/image'', ltTags = None,
     ltSubnetID = ''/subscriptions/s/resourceGroups/rg/providers/Microsoft.Network/virtualNetworks/v/subnets/n'', ltIsWindows = False, ltDiskControllerType = None,
     ltSizeGB = 128, ltIsEphemeral = False, ltPlacement = [], ltFIPS1403 = False, ltCSE = [], ltCustomScriptsCustomData = [], ltScriptlessCustomData = []\<rparr>"

text \<open>A cloud that accepts machines and then fails to provision them.\<close>

definition mem_vm_cloud :: "mem_cloud_state vm_cloud" where
  "mem_vm_cloud = \<lparr>vcBase = mem_cloud, vcBeginCreate = (\<lambda>n x (v, c, i). (None, (v(n \<mapsto> vm.truncate x), c, i))), vcPollCreate = (\<lambda>_ a. (Some (localErr ''out of capacity''), a)),
     vcCreateExtension = (\<lambda>_ _ a. (None, a)), vcUpdateNicTags = (\<lambda>_ _ a. (None, a)), vcBeginUpdateExtension = (\<lambda>_ _ _ a. (None, a)),
     vcPollUpdateExtension = (\<lambda>_ _ a. (None, a)), vcUpdate = (\<lambda>_ _ a. (None, a))\<rparr>"

definition ex_vm_env :: "(mem_cloud_state, loadBalancer list exp_cache, unit exp_cache, any_value exp_cache, labels, unit) vm_env" where
  "ex_vm_env = \<lparr>veCloud = mem_vm_cloud, veLBCache = exp_cache, veLBPages = [], veNSGPages = [], veParseName = (\<lambda>_. None),
     veParseFloat = (\<lambda>s. if s = ''0.5'' then Some (Finite (1 / 2)) else None), veCtx = demo_ctx, veErrors = \<lparr>asResponseError = (\<lambda>_. None), errorText = ErrText\<rparr>,
     veMatchers = no_matchers, veSKU = (\<lambda>n. Inr \<lparr>GetName = n, GetFamilyName = ''standardDSv5Family'', VCPU = Some 4\<rparr>),
     veAllocate = (\<lambda>its _. case its of [] \<Rightarrow> None | it # _ \<Rightarrow>
        Some \<lparr>plInstanceType = it, plCapacityType = CapacityTypeOnDemand, plZone = ''eastus-1'', plScope = PlacementScopeZonal\<rparr>),
     veTemplate = (\<lambda>_ _ _ _. Inr ex_template), veIT = ex_it_api, veReqs = (\<lambda>_. []), veCompatibleIn = (\<lambda>_ _ _. False), veNow = 1, veLocation = ''eastus'',
     veResourceGroup = ''rg'', veSubscriptionID = ''s'', veProvisionMode = ''aksscriptless'', veDiskEncryptionSetID = [], veCloudName = ''AzurePublicCloud'',
     veOptions = \<lparr>optNetworkPlugin = NetworkPluginAzure, optNetworkPluginMode = NetworkPluginModeOverlay, optNodeResourceGroup = ''rg'', optClusterName = ''c'',
       optSSHPublicKey = ''key'', optLinuxAdminUsername = ''azureuser'', optNodeIdentities = [], optAdditionalTags = [], optUseSIG = False\<rparr>\<rparr>"

definition ex_vm_world :: "mem_cloud_state \<Rightarrow> (mem_cloud_state, loadBalancer list exp_cache, unit exp_cache, any_value exp_cache) vm_world" where
  "ex_vm_world a = \<lparr>vwAzure = a, vwDeleting = {}, vwQuotas = prov demo_ready, vwOffs = no_offerings, vwLB = \<lparr>lbCache = [], generation = 0\<rparr>,
     vwNSG = Some \<lparr>NSGID = Some ''/nsg'', NSGName = Some ''nsg''\<rparr>\<rparr>"

definition ex_nic :: nic where
  "ex_nic = \<lparr>NICName = Some ''aks-m'', NICID = Some ''/nic'', NICLocation = None, NICTags = None, NICProps = None\<rparr>"

definition ex_vm_of :: "string \<Rightarrow> vm" where
  "ex_vm_of g = \<lparr>Location = Some ''eastus'', VMZones = [], VMName = Some ''aks-m'', VMID = Some ''/vm'', VMTags = None, VMIdentity = None,
     VMProps = Some \<lparr>VMSize = Some ''D4'', VMPriority = Some VMRegular, TimeCreated = Some 0, VMProvisioningState = None, VMImageReference = None,
       VMUltraSSDEnabled = None, VMCapacityReservationGroupID = Some g\<rparr>\<rparr>"

lemma base_ex_vm_env [simp]: "baseOf ex_vm_env = mem_cloud"
  by (simp add: baseOf_def ex_vm_env_def mem_vm_cloud_def)

interpretation ex_vm: vm_provider ex_vm_env
  by (simp add: vm_provider_def mem_cloud.cloud_service_axioms)

lemma ex_vm_env_simps [simp]:
  "veOptions ex_vm_env = \<lparr>optNetworkPlugin = NetworkPluginAzure, optNetworkPluginMode = NetworkPluginModeOverlay, optNodeResourceGroup = ''rg'', optClusterName = ''c'',
     optSSHPublicKey = ''key'', optLinuxAdminUsername = ''azureuser'', optNodeIdentities = [], optAdditionalTags = [], optUseSIG = False\<rparr>"
  "veSKU ex_vm_env n = Inr \<lparr>GetName = n, GetFamilyName = ''standardDSv5Family'', VCPU = Some 4\<rparr>" "veAllocate ex_vm_env [] cl = None"
  "veAllocate ex_vm_env (it # its) cl = Some \<lparr>plInstanceType = it, plCapacityType = CapacityTypeOnDemand, plZone = ''eastus-1'', plScope = PlacementScopeZonal\<rparr>"
  "veTemplate ex_vm_env nc cl it l = Inr ex_template" "veCloud ex_vm_env = mem_vm_cloud" "veNow ex_vm_env = 1"
  by (simp_all add: ex_vm_env_def)

lemma ex_vm_world_simps [simp]: "vwAzure (ex_vm_world a) = a" "vwQuotas (ex_vm_world a) = prov demo_ready" "vwDeleting (ex_vm_world a) = {}"
  by (simp_all add: ex_vm_world_def)

lemma plain_class_public [simp]: "\<not> IsNodePublicIPEnabled plain_class" "GetNodePublicIPPrefixIDs plain_class = []" "GetNodePublicIPTags plain_class = []"
  by (simp_all add: plain_class_def IsNodePublicIPEnabled_def GetNodePublicIPPrefixIDs_def GetNodePublicIPTags_def)

lemma ex_vm_network:
  "\<exists>pools lb. backendPoolsFor ex_vm_env (ex_vm_world a) = (Inr pools, ex_vm_world a\<lparr>vwLB := lb\<rparr>)"
  "\<not> IsNodePublicIPEnabled nc \<Longrightarrow> securityGroupFor ex_vm_env nc ex_template (ex_vm_world a\<lparr>vwLB := lb\<rparr>) = (Inr ''/nsg'', ex_vm_world a\<lparr>vwLB := lb\<rparr>)"
proof -
  show "\<exists>pools lb. backendPoolsFor ex_vm_env (ex_vm_world a) = (Inr pools, ex_vm_world a\<lparr>vwLB := lb\<rparr>)"
    by (simp add: backendPoolsFor_def LoadBalancerBackendPools_def loadBalancerBackendPoolsLocked_def getLoadBalancersLocked_def loadFromAzure_def
        ex_vm_env_def ex_vm_world_def split: option.split)
  have "IsAKSManagedVNET ''rg'' (ltSubnetID ex_template) = Inr False" unfolding ex_template_def by code_simp
  then show "\<not> IsNodePublicIPEnabled nc \<Longrightarrow> securityGroupFor ex_vm_env nc ex_template (ex_vm_world a\<lparr>vwLB := lb\<rparr>) = (Inr ''/nsg'', ex_vm_world a\<lparr>vwLB := lb\<rparr>)"
    by (simp add: securityGroupFor_def ManagedNetworkSecurityGroup_def ex_vm_world_def FromPtr_def)
qed

lemma ex_vm_nic:
  "noEnableNodePublicIP opts = False \<Longrightarrow> vwAzure w = (v, c, i) \<Longrightarrow>
    createNicRetrying ex_vm_env nc cl opts w = (Inr (Inr (noNICName opts)), w\<lparr>vwAzure :=
      (v, c(noNICName opts \<mapsto> (applyTemplateToNic (newNetworkInterfaceForVM (veLocation ex_vm_env) opts) (noTemplate opts))\<lparr>NICID := Some (noNICName opts)\<rparr>), i)\<rparr>)"
  by (simp add: createNicRetrying_def createNicFor_def createNetworkInterface_def mem_cloud_def Let_def)

lemma ex_vm_launch:
  assumes "NCName cl = ''m''" and nc: "\<not> IsNodePublicIPEnabled nc" "GetNodePublicIPPrefixIDs nc = []" "GetNodePublicIPTags nc = []" "GetCapacityReservationGroupID nc = []"
  obtains pr w1 v where "BeginCreate ex_vm_env nc cl [demo_it] (ex_vm_world (Map.empty, Map.empty, Map.empty)) = (Inr (Inr pr), w1)"
    and "vpCreateIssued pr" and "FromPtr (VMName (vpVM pr)) = ''aks-m''" and "vpMetadata pr = \<lparr>mdFamilyName = ''standardDSv5Family'', mdVCPUs = 4, eligible = True\<rparr>"
    and "fst (vwAzure w1) ''aks-m'' = Some v" and "\<not> IsVMDeleting v" and "vwDeleting w1 = {}" and "vpLaunch pr \<noteq> None"
proof -
  let ?w = "ex_vm_world (Map.empty, Map.empty, Map.empty)"
  let ?pl = "\<lparr>plInstanceType = demo_it, plCapacityType = CapacityTypeOnDemand, plZone = ''eastus-1'', plScope = PlacementScopeZonal\<rparr>"
  have name: "GenerateResourceName (NCName cl) = ''aks-m''" using assms(1) by (simp add: GenerateResourceName_def)
  have zone: "MakeARMZonesFromAKSLabelZone ''eastus-1'' = Inr [Some ''1'']" by (simp add: MakeARMZonesFromAKSLabelZone_def Regional_def)
  have win: "\<not> ltIsWindows ex_template" by (simp add: ex_template_def)
  obtain pools lb where net: "backendPoolsFor ex_vm_env ?w = (Inr pools, ?w\<lparr>vwLB := lb\<rparr>)" using ex_vm_network(1) by blast
  have "\<exists>pr w1 v. launchSelected ex_vm_env nc cl ?pl ex_template ?w = (Inr (Inr pr), w1) \<and> vpCreateIssued pr \<and> vpLaunch pr \<noteq> None \<and> vwDeleting w1 = {} \<and>
      VMName (vpVM pr) = Some ''aks-m'' \<and> VMID (vpVM pr) \<noteq> None \<and> Option.bind (VMProps (vpVM pr)) VMSize = Some ''D4'' \<and>
      GetCapacityTypeFromVM (vpVM pr) = CapacityTypeOnDemand \<and> CapacityReservationGroupID (vpVM pr) = [] \<and> fst (vwAzure w1) ''aks-m'' = Some v \<and> \<not> IsVMDeleting v"
    using nc by (simp add: launchSelected_def Let_def name net ex_vm_network(2) [OF nc(1)] ex_vm_nic createVirtualMachine_def newVMObject_def win zone
        setVMPropertiesBillingProfile_def setVMPropertiesAdditionalCapabilities_def mem_vm_cloud_def demo_it_def vm.truncate_def
        KarpCapacityTypeToVMPriority_def GetCapacityTypeFromVM_def VMPriorityToKarpCapacityType_def CapacityReservationGroupID_def setVMPropertiesCapacityReservation_def IsVMDeleting_def FromPtr_def)
  then obtain pr w1 v where l: "launchSelected ex_vm_env nc cl ?pl ex_template ?w = (Inr (Inr pr), w1)"
    and pr: "vpCreateIssued pr" "vpLaunch pr \<noteq> None" "vwDeleting w1 = {}" "VMName (vpVM pr) = Some ''aks-m''" "VMID (vpVM pr) \<noteq> None" "Option.bind (VMProps (vpVM pr)) VMSize = Some ''D4''"
      "GetCapacityTypeFromVM (vpVM pr) = CapacityTypeOnDemand" "CapacityReservationGroupID (vpVM pr) = []" "fst (vwAzure w1) ''aks-m'' = Some v" "\<not> IsVMDeleting v" by blast
  have "beginLaunchInstance ex_vm_env nc cl [demo_it] ?w = (Inr (Inr pr), w1)"
    using l nc by (simp add: beginLaunchInstance_def getLaunchTemplate_def name Let_def mem_cloud_def mem_resource_def absentErr_def)
  then have "\<exists>w2. BeginCreate ex_vm_env nc cl [demo_it] ?w =
      (Inr (Inr (pr\<lparr>vpMetadata := \<lparr>mdFamilyName = ''standardDSv5Family'', mdVCPUs = 4, eligible = True\<rparr>\<rparr>)), w2) \<and> vwAzure w2 = vwAzure w1 \<and> vwDeleting w2 = vwDeleting w1"
    using pr by (simp add: BeginCreate_def metadata_def skuOf_def Let_def FromPtr_def)
  then show thesis using that pr by (auto simp: FromPtr_def)
qed

lemma ex_vm_gone:
  "fst (vwAzure w) n = Some v \<Longrightarrow> \<not> IsVMDeleting v \<Longrightarrow> vwDeleting w = {} \<Longrightarrow> \<exists>w'. deleteImpl ex_vm_env n w = ((True, None), w')"
  by (simp add: deleteImpl_def Get_def cleanupAzureResources_def deleteVirtualMachineIfExists_def deleteVirtualMachine_def mem_cloud_def mem_resource_def
      split: prod.split)

lemma ex_vm_wait:
  assumes "vpLaunch pr \<noteq> None"
  obtains err w' where "waitVM ex_vm_env nc pr w = (Some err, w')" and "vwAzure w' = vwAzure w" and "vwDeleting w' = vwDeleting w"
proof -
  obtain pl t where l: "vpLaunch pr = Some (pl, t)" using assms by auto
  obtain err w' where h: "handleCreateError ex_vm_env pl (GetCapacityReservationGroupID nc) (localErr ''out of capacity'') (w\<lparr>vwAzure := vwAzure w\<rparr>) = (err, w')"
    by (rule prod.exhaust)
  then have "waitVM ex_vm_env nc pr w = (Some err, w')" using l by (simp add: waitVM_def mem_vm_cloud_def Let_def)
  then show thesis using that handleCreateError_frame [OF h] by simp
qed

lemma ex_vm_recorded:
  "snd (RecordCreate (prov demo_ready) (lc_snapshotGeneration (prov demo_ready)) (nodeClaim.truncate ex_request_claim) ''standardDSv5Family'' 4)"
  by (simp add: demo_simps lc_snapshotGeneration_def ex_request_claim_def newClaim_def nodeClaim.truncate_def)

subsection \<open>Properties\<close>

text \<open>
  C7: A launch that fails leaves nothing behind when its clean-up met no error: afterwards there is neither a machine nor an interface with the node's
  resource name, nor a public address that belongs to it, no machine with another name was removed by the clean-up, and the quota accounting is as it was.
\<close>

theorem failed_launches_leave_nothing_behind:
  assumes "vm_provider E" and "beginLaunchInstance E nc cl its w = (Inr (Inl err), w1)"
    and "fst (cleanupAzureResources E (GenerateResourceName (NCName cl)) True w1) = []"
  shows "\<exists>w'. BeginCreate E nc cl its w = (Inr (Inl err), w') \<and>
    (\<exists>e. res_get (cVM (baseOf E)) (vwAzure w') (GenerateResourceName (NCName cl)) = Inl e \<and> cNotFound (baseOf E) e) \<and>
    (\<exists>e. res_get (cNIC (baseOf E)) (vwAzure w') (GenerateResourceName (NCName cl)) = Inl e \<and> cNotFound (baseOf E) e) \<and>
    (\<forall>x. cIPClient (baseOf E) \<longrightarrow> res_get (cIP (baseOf E)) (vwAzure w') (GenerateResourceName (NCName cl)) = Inr x \<longrightarrow>
      \<not> ownedPublicIP x (GenerateResourceName (NCName cl)) (optClusterName (veOptions E))) \<and>
    (\<forall>m. m \<noteq> GenerateResourceName (NCName cl) \<longrightarrow> res_get (cVM (baseOf E)) (vwAzure w') m = res_get (cVM (baseOf E)) (vwAzure w1) m) \<and>
    vwQuotas w' = vwQuotas w"
proof -
  let ?n = "GenerateResourceName (NCName cl)"
  obtain w' where c: "cleanupAzureResources E ?n True w1 = ([], w')" using assms(3) by (cases "cleanupAzureResources E ?n True w1") simp
  have "BeginCreate E nc cl its w = (Inr (Inl err), w')" using assms(2) c by (simp add: BeginCreate_def Let_def)
  moreover have "vwQuotas w' = vwQuotas w" using cleanup_quotas [OF c] beginLaunchInstance_result [OF assms(2)] by simp
  ultimately show ?thesis
    using vm_provider.cleanup_removes [OF assms(1) c] vm_provider.cleanup_spares [OF assms(1) c] by blast
qed

theorem failed_launches_leave_nothing_behind_witness:
  "\<exists>w'. BeginCreate ex_vm_env plain_class ex_request_claim [] (ex_vm_world (Map.empty, [''aks-m'' \<mapsto> ex_nic], Map.empty)) =
      (Inr (Inl (LaunchErr [] (InsufficientCapacityError ''no instance types available''))), w') \<and>
    (\<exists>e. res_get (cNIC mem_cloud) (vwAzure w') ''aks-m'' = Inl e) \<and> vwQuotas w' = prov demo_ready"
proof -
  let ?w = "ex_vm_world (Map.empty, [''aks-m'' \<mapsto> ex_nic], Map.empty)" and ?e = "LaunchErr [] (InsufficientCapacityError ''no instance types available'')"
  have name: "GenerateResourceName (NCName ex_request_claim) = ''aks-m''" by (simp add: GenerateResourceName_def ex_request_claim_def)
  have "beginLaunchInstance ex_vm_env plain_class ex_request_claim [] ?w = (Inr (Inl ?e), ?w)"
    by (simp add: beginLaunchInstance_def name Let_def mem_cloud_def mem_resource_def absentErr_def)
  moreover have "fst (cleanupAzureResources ex_vm_env ''aks-m'' True ?w) = []"
    by (simp add: cleanupAzureResources_def deleteVirtualMachineIfExists_def DeleteNicOf_def DeleteNic_def deleteNicIfExists_def deleteNic_def deletePublicIP_def
        mem_cloud_def mem_resource_def absentErr_def)
  ultimately show ?thesis
    using failed_launches_leave_nothing_behind [OF ex_vm.vm_provider_axioms, of plain_class ex_request_claim "[]" ?w ?e ?w] by (auto simp: name)
qed

text \<open>
  A machine that already has the name of the node is adopted: the launch changes nothing at all, charges no quota and returns that machine, provided that it is in the
  capacity reservation group of the class. A machine in another group is an error, and the clean-up of that error removes the machine.
\<close>

theorem existing_vm_is_adopted_or_removed:
  assumes "vm_provider E" and "res_get (cVM (baseOf E)) (vwAzure w) (GenerateResourceName (NCName cl)) = Inr v"
    and "VMID v \<noteq> None" and "VMName v \<noteq> None" and "Option.bind (VMProps v) VMSize \<noteq> None"
  shows "(EqualFold (CapacityReservationGroupID v) (GetCapacityReservationGroupID nc) \<longrightarrow>
      BeginCreate E nc cl its w = (Inr (Inr \<lparr>vpVM = v, vpLaunch = None, vpCreateIssued = False, vpMetadata = noMetadata\<rparr>), w)) \<and>
    (\<not> EqualFold (CapacityReservationGroupID v) (GetCapacityReservationGroupID nc) \<longrightarrow>
      (\<exists>e w'. BeginCreate E nc cl its w = (Inr (Inl (PlainErr e)), w') \<and>
        (fst (cleanupAzureResources E (GenerateResourceName (NCName cl)) True w) = [] \<longrightarrow>
          (\<exists>e'. res_get (cVM (baseOf E)) (vwAzure w') (GenerateResourceName (NCName cl)) = Inl e'))))"
proof (cases "EqualFold (CapacityReservationGroupID v) (GetCapacityReservationGroupID nc)")
  case True
  then show ?thesis using assms
    by (simp add: BeginCreate_def beginLaunchInstance_def validateExistingCapacityReservation_def validateCapacityReservationGroupAssociation_def Let_def)
next
  case False
  let ?n = "GenerateResourceName (NCName cl)"
  obtain errs w' where c: "cleanupAzureResources E ?n True w = (errs, w')" by (rule prod.exhaust)
  have "\<exists>e. BeginCreate E nc cl its w = (Inr (Inl (PlainErr e)), w')" using False assms(2) c
    by (simp add: BeginCreate_def beginLaunchInstance_def validateExistingCapacityReservation_def validateCapacityReservationGroupAssociation_def Let_def)
  moreover have "errs = [] \<longrightarrow> (\<exists>e'. res_get (cVM (baseOf E)) (vwAzure w') ?n = Inl e')"
    using vm_provider.cleanup_removes(1) [OF assms(1), of ?n w w'] c by auto
  ultimately show ?thesis using False c by auto
qed

theorem existing_vm_is_adopted_or_removed_witness:
  "BeginCreate ex_vm_env plain_class ex_request_claim [] (ex_vm_world ([''aks-m'' \<mapsto> ex_vm_of []], Map.empty, Map.empty)) =
     (Inr (Inr \<lparr>vpVM = ex_vm_of [], vpLaunch = None, vpCreateIssued = False, vpMetadata = noMetadata\<rparr>), ex_vm_world ([''aks-m'' \<mapsto> ex_vm_of []], Map.empty, Map.empty)) \<and>
   (\<exists>e w' e'. BeginCreate ex_vm_env plain_class ex_request_claim [] (ex_vm_world ([''aks-m'' \<mapsto> ex_vm_of ''/g''], Map.empty, Map.empty)) = (Inr (Inl (PlainErr e)), w') \<and>
     res_get (cVM mem_cloud) (vwAzure w') ''aks-m'' = Inl e')"
proof -
  have name: "GenerateResourceName (NCName ex_request_claim) = ''aks-m''" by (simp add: GenerateResourceName_def ex_request_claim_def)
  have get: "res_get (cVM mem_cloud) ([''aks-m'' \<mapsto> ex_vm_of g], Map.empty, Map.empty) ''aks-m'' = Inr (ex_vm_of g)" for g
    by (simp add: mem_cloud_def mem_resource_def)
  have clean: "fst (cleanupAzureResources ex_vm_env ''aks-m'' True (ex_vm_world ([''aks-m'' \<mapsto> ex_vm_of ''/g''], Map.empty, Map.empty))) = []"
    by (simp add: cleanupAzureResources_def deleteVirtualMachineIfExists_def deleteVirtualMachine_def DeleteNicOf_def DeleteNic_def deleteNicIfExists_def deleteNic_def
        deletePublicIP_def mem_cloud_def mem_resource_def absentErr_def)
  have fields: "VMID (ex_vm_of g) \<noteq> None" "VMName (ex_vm_of g) \<noteq> None" "Option.bind (VMProps (ex_vm_of g)) VMSize \<noteq> None" "CapacityReservationGroupID (ex_vm_of g) = g" for g
    by (simp_all add: ex_vm_of_def CapacityReservationGroupID_def FromPtr_def)
  have fold: "EqualFold [] []" "\<not> EqualFold ''/g'' []" by code_simp+
  show ?thesis
    using existing_vm_is_adopted_or_removed [OF ex_vm.vm_provider_axioms, of "ex_vm_world ([''aks-m'' \<mapsto> ex_vm_of []], Map.empty, Map.empty)" ex_request_claim "ex_vm_of []" plain_class "[]"]
      existing_vm_is_adopted_or_removed [OF ex_vm.vm_provider_axioms, of "ex_vm_world ([''aks-m'' \<mapsto> ex_vm_of ''/g''], Map.empty, Map.empty)" ex_request_claim "ex_vm_of ''/g''" plain_class "[]"]
      get clean fields fold by (auto simp: name)
qed

text \<open>
  Cleaning up the promise of a launch undoes the launch in the quota accounting: when the machine was found and removed, or found gone, and nothing else happened to the
  accounting in between, the adjustments, per instance and per quota, are those from before the launch.
\<close>

theorem vm_cleanup_gives_the_quota_back:
  assumes "quota_reach n s" and "n < 2 ^ 64 - 1" and "vwQuotas w = prov s"
    and "BeginCreate E nc cl its w = (Inr (Inr pr), w1)" and "vpCreateIssued pr" and "eligible (vpMetadata pr)"
    and "snd (RecordCreate (prov s) (lc_snapshotGeneration (prov s)) (nodeClaim.truncate cl) (mdFamilyName (vpMetadata pr)) (mdVCPUs (vpMetadata pr)))"
    and "vwQuotas w2 = vwQuotas w1" and "deleteImpl E (FromPtr (VMName (vpVM pr))) w2 = ((True, err), w3)"
  shows "adjustments (vwQuotas (snd (Cleanup E cl pr w2))) = adjustments (vwQuotas w) \<and>
    adjustmentsByQuotaName (vwQuotas (snd (Cleanup E cl pr w2))) = adjustmentsByQuotaName (vwQuotas w)"
  by (rule cleanup_restores_quota [OF assms])

theorem vm_cleanup_gives_the_quota_back_witness:
  "\<exists>pr w1. BeginCreate ex_vm_env plain_class ex_request_claim [demo_it] (ex_vm_world (Map.empty, Map.empty, Map.empty)) = (Inr (Inr pr), w1) \<and>
     adjustments (vwQuotas (snd (Cleanup ex_vm_env ex_request_claim pr w1))) = adjustments (prov demo_ready)"
proof -
  obtain pr w1 v where b: "BeginCreate ex_vm_env plain_class ex_request_claim [demo_it] (ex_vm_world (Map.empty, Map.empty, Map.empty)) = (Inr (Inr pr), w1)"
    and pr: "vpCreateIssued pr" "FromPtr (VMName (vpVM pr)) = ''aks-m''" "vpMetadata pr = \<lparr>mdFamilyName = ''standardDSv5Family'', mdVCPUs = 4, eligible = True\<rparr>"
    and v: "fst (vwAzure w1) ''aks-m'' = Some v" "\<not> IsVMDeleting v" "vwDeleting w1 = {}"
    by (rule ex_vm_launch [of ex_request_claim plain_class]) (simp_all add: ex_request_claim_def)
  note ex_vm_recorded
  moreover have "\<exists>w3. deleteImpl ex_vm_env ''aks-m'' w1 = ((True, None), w3)" using ex_vm_gone [OF v(1,2,3)] .
  ultimately have "adjustments (vwQuotas (snd (Cleanup ex_vm_env ex_request_claim pr w1))) = adjustments (vwQuotas (ex_vm_world (Map.empty, Map.empty, Map.empty)))"
    using vm_cleanup_gives_the_quota_back [OF demo_ready_reach _ _ b pr(1), of w1] pr by auto
  then show ?thesis using b by auto
qed

text \<open>
  The price annotation of a spot node is accepted exactly when it is missing, or when it is, without surrounding blanks, a number that is -1 or a
  finite amount that is not negative; the price is then that number.
\<close>

theorem spot_max_price_is_accepted_iff:
  "parseSpotMaxPriceAnnotation parseFloat annotations = Inr r \<longleftrightarrow>
     (case annotations AnnotationSpotMaxPrice of
        None \<Rightarrow> r = None
      | Some raw \<Rightarrow> TrimSpace raw \<noteq> [] \<and> (\<exists>v. parseFloat (TrimSpace raw) = Some (Finite v) \<and> (v = -1 \<or> 0 \<le> v) \<and> r = Some (Finite v)))"
  by (auto simp: parseSpotMaxPriceAnnotation_def Let_def split: option.split float64.split)

text \<open>The pools that a node must stay out of.\<close>

definition unwantedPool :: "(string \<Rightarrow> string option) \<Rightarrow> backendAddressPools \<Rightarrow> claim \<Rightarrow> 'c nodeClass \<Rightarrow> string \<Rightarrow> bool" where
  "unwantedPool parseName pools cl nc d \<longleftrightarrow>
     IsNodePublicIPEnabled nc \<and> isOutbound parseName pools d \<or> Labels cl LabelNodeExcludeBalancers \<noteq> None \<and> isKubernetesInboundBackendPoolID parseName d"

text \<open>
  The backend pools of a node are those of the cluster less exactly the ones the node must stay out of: a node with its own public address is in no outbound pool, a node
  that is excluded from the load balancers is in no inbound pool of Kubernetes, and every other pool is kept, in order.
\<close>

theorem backend_pools_are_filtered_exactly:
  "IPv4PoolIDs (filterBackendPools parseName pools cl nc) = filter (\<lambda>d. \<not> unwantedPool parseName pools cl nc d) (IPv4PoolIDs pools) \<and>
   IPv6PoolIDs (filterBackendPools parseName pools cl nc) = filter (\<lambda>d. \<not> unwantedPool parseName pools cl nc d) (IPv6PoolIDs pools) \<and>
   poolsGeneration (filterBackendPools parseName pools cl nc) = poolsGeneration pools"
  by (auto simp: unwantedPool_def filterBackendPools_def WithoutOutboundPools_def WithoutKubernetesInboundPools_def Let_def conj_commute intro!: filter_cong)


definition ex_vm_options :: "unit createVMOptions" where
  "ex_vm_options = \<lparr>voVMName = ''aks-m'', voNicReference = ''/nic'', voZone = Regional, voCapacityType = CapacityTypeSpot, voSpotMaxPrice = None, voLocation = ''eastus'',
     voSSHPublicKey = ''key'', voLinuxAdminUsername = ''azureuser'', voNodeIdentities = [], voNodeClass = plain_class, voTemplate = ex_template, voInstanceType = ''D4'',
     voProvisionMode = ''aksscriptless'', voUseSIG = False, voDiskEncryptionSetID = [], voUltraSSDEnabled = True\<rparr>"


text \<open>
  A launch on a template for Windows never succeeds: the machine object that is sent to Azure is empty, and when Azure accepts it the launch follows its
  missing properties and panics, so that no clean-up runs.
\<close>

theorem windows_launches_never_succeed:
  assumes "ltIsWindows t"
  shows "fst (launchSelected E nc cl pl t w) \<noteq> Inr (Inr pr)"
proof
  assume "fst (launchSelected E nc cl pl t w) = Inr (Inr pr)"
  with assms show False
    by (auto simp: launchSelected_def Let_def dest!: createVirtualMachine_windows split: prod.splits sum.splits option.splits)
qed

theorem windows_launches_never_succeed_witness:
  "fst (launchSelected ex_vm_env plain_class ex_request_claim
     \<lparr>plInstanceType = demo_it, plCapacityType = CapacityTypeOnDemand, plZone = ''eastus-1'', plScope = PlacementScopeZonal\<rparr> (ex_template\<lparr>ltIsWindows := True\<rparr>)
     (ex_vm_world (Map.empty, Map.empty, Map.empty))) \<noteq> Inr (Inr \<lparr>vpVM = ex_vm_of [], vpLaunch = None, vpCreateIssued = True, vpMetadata = noMetadata\<rparr>)"
  by (rule windows_launches_never_succeed) simp

end
