(* ===== verification/Cloud_Provider.thy ===== *)
theory Cloud_Provider
  imports Drift VM_Instances
begin

text \<open>
  The cloud provider that Karpenter's core drives (src/pkg/cloudprovider/cloudprovider.go): it validates the class of a claim, resolves the instance types, launches a machine through
  one of the two instance providers, waits for it, and routes reads and deletions to the provider that owns the instance.
  The two instance providers share the quota accounting and the cache of unavailable offerings. The state of the cluster is \<open>'q\<close> with the operations of the record \<open>kube_api\<close>;
  instance types, node overlays and hashes are parameters. Events, metrics and log lines are left out.

  The wait of a claim that belongs to a node pool runs in a goroutine of its own: \<open>Create\<close> returns the job, and \<open>runJob\<close> is the body of that goroutine.

  Shown here: a claim that was listed is deleted through the provider that owns the instance and under the instance's own name; a class that is not ready launches
  nothing; a launch whose wait fails is cleaned up, and its claim removed; messages are bounded.
\<close>

subsection \<open>The cluster\<close>

datatype kubeErr = KubeNotFound error | KubeConflict error | KubeErr error

fun kubeText :: "kubeErr \<Rightarrow> error" where
  "kubeText (KubeNotFound e) = e"
| "kubeText (KubeConflict e) = e"
| "kubeText (KubeErr e) = e"

definition wrapKube :: "string \<Rightarrow> kubeErr \<Rightarrow> kubeErr" where
  "wrapKube msg e = (case e of KubeNotFound t \<Rightarrow> KubeNotFound (msg @ t) | KubeConflict t \<Rightarrow> KubeConflict (msg @ t) | KubeErr t \<Rightarrow> KubeErr (msg @ t))"

text \<open>\<open>client.IgnoreNotFound\<close>, also on wrapped errors.\<close>

definition IgnoreNotFound :: "kubeErr \<Rightarrow> error option" where
  "IgnoreNotFound e = (case e of KubeNotFound _ \<Rightarrow> None | KubeConflict t \<Rightarrow> Some t | KubeErr t \<Rightarrow> Some t)"

record nodePool =
  PoolName :: string
  PoolClassRef :: "string option"

text \<open>A class comes with whether it is being deleted, a claim with its \<open>Launched\<close> condition, a node with its name and provider identifier. A patch takes
  the stored object and the changed one.\<close>

record ('q, 'c) kube_api =
  k_pool :: "'q \<Rightarrow> string \<Rightarrow> kubeErr + nodePool"
  k_class :: "'q \<Rightarrow> string \<Rightarrow> kubeErr + 'c nodeClass \<times> bool"
  k_launched :: "'q \<Rightarrow> string \<Rightarrow> kubeErr + cond_status"
  k_claims :: "'q \<Rightarrow> error + claim list"
  k_nodes :: "'q \<Rightarrow> error + (string \<times> string) list"
  k_deleteClaim :: "string \<Rightarrow> 'q \<Rightarrow> kubeErr option \<times> 'q"
  k_deleteNode :: "string \<Rightarrow> 'q \<Rightarrow> kubeErr option \<times> 'q"
  k_claimsOf :: "'q \<Rightarrow> string \<Rightarrow> error + claim list"
  k_patchClaim :: "claim \<Rightarrow> claim \<Rightarrow> 'q \<Rightarrow> kubeErr option \<times> 'q"
  k_patchClass :: "'c nodeClass \<Rightarrow> 'c nodeClass \<Rightarrow> 'q \<Rightarrow> kubeErr option \<times> 'q"

subsection \<open>Errors\<close>

text \<open>What the core branches on.\<close>

datatype cpErr = CPNotReady error | CPCreate error (cpReason: string) (cpMessage: string) (cpCause: "instErr option") | CPInsufficient error | CPPlain error | CPClaimNotFound error

definition NodeClassReadinessUnknownReason :: string where
  "NodeClassReadinessUnknownReason = ''NodeClassReadinessUnknown''"

definition InstanceTypeResolutionFailedReason :: string where
  "InstanceTypeResolutionFailedReason = ''InstanceTypeResolutionFailed''"

definition CreateInstanceFailedReason :: string where
  "CreateInstanceFailedReason = ''CreateInstanceFailed''"

definition truncateAt :: nat where
  "truncateAt = 1200"

definition truncateMessage :: "string \<Rightarrow> string" where
  "truncateMessage msg = (if length msg < truncateAt then msg else take truncateAt msg @ ''...'')"

text \<open>The text of an error; that of the core's own error types is the parameter \<open>launchText\<close>.\<close>

fun instText :: "(launch_error \<Rightarrow> error) \<Rightarrow> instErr \<Rightarrow> error" where
  "instText launchText (ClaimNotFound e) = e"
| "instText launchText (LaunchErr msg le) = msg @ launchText le"
| "instText launchText (PlainErr e) = e"

definition toCreateError :: "(launch_error \<Rightarrow> error) \<Rightarrow> instErr \<Rightarrow> string \<Rightarrow> cpErr" where
  "toCreateError launchText err wrapMsg =
     (let (reason, message) = (case err of LaunchErr _ (CreateError r m) \<Rightarrow> (r, m) | _ \<Rightarrow> (CreateInstanceFailedReason, instText launchText err))
      in CPCreate (wrapMsg @ '', '' @ instText launchText err) reason (truncateMessage message) (Some err))"

text \<open>An error of an instance provider with a message in front.\<close>

definition ofInst :: "(launch_error \<Rightarrow> error) \<Rightarrow> string \<Rightarrow> instErr \<Rightarrow> cpErr" where
  "ofInst launchText msg err = (case err of ClaimNotFound e \<Rightarrow> CPClaimNotFound (msg @ e) | _ \<Rightarrow> CPPlain (msg @ instText launchText err))"

subsection \<open>The provider\<close>

record ('a, 'b, 'k, 's, 'f, 'r, 'c, 'q) cp_env =
  cpAKSEnv :: "('a, 's, 'f, 'r, 'c) aks_env"
  cpVMEnv :: "('b, 'k, 's, 'f, 'r, 'c) vm_env"
  cpKube :: "('q, 'c) kube_api"
  cpLaunchText :: "launch_error \<Rightarrow> error"
  cpConditions :: "'c condition_api"
  cpInstanceTypes :: "'c nodeClass \<Rightarrow> 'r instanceType list result"
  cpNodeOverlay :: bool
  cpApplyAll :: "string \<Rightarrow> 'r instanceType list \<Rightarrow> 'r instanceType list result"
  cpApply :: "string \<Rightarrow> 'r instanceType option \<Rightarrow> 'r instanceType option result"
  cpRequirementsOK :: "claim \<Rightarrow> 'r instanceType \<Rightarrow> bool"
  cpOfferingsOK :: "claim \<Rightarrow> 'r instanceType \<Rightarrow> bool"
  cpFits :: "claim \<Rightarrow> 'r instanceType \<Rightarrow> bool"
  cpWellKnown :: "string \<Rightarrow> bool"
  cpClassHash :: "'c nodeClass \<Rightarrow> string"
  cpInPlaceHash :: "claim \<Rightarrow> 'c nodeClass \<Rightarrow> string result"
  cpListVMs :: "'b \<Rightarrow> vm list result"
  cpPolledMachine :: "string \<Rightarrow> AKS_Machine.errorDetail option \<times> error option"
  cpPolledSDK :: "string \<Rightarrow> poll_outcome"
  cpKubeletIdentity :: string
  cpNode :: "claim \<Rightarrow> node_lookup"
  cpEnableFIPS :: bool
  cpMachineMode :: bool
  cpPoolName :: string

record ('a, 'b, 'k, 's, 'f, 'q) cp_world =
  cpAKS :: "('a, 's, 'f) aks_world"
  cpVM :: "('b, 'k, 's, 'f) vm_world"
  cpCluster :: 'q

text \<open>An operation of one instance provider; the quota accounting and the unavailable offerings are the same objects in both.\<close>

definition onAKS :: "(('a, 's, 'f) aks_world \<Rightarrow> 'x \<times> ('a, 's, 'f) aks_world) \<Rightarrow> ('a, 'b, 'k, 's, 'f, 'q) cp_world \<Rightarrow> 'x \<times> ('a, 'b, 'k, 's, 'f, 'q) cp_world" where
  "onAKS f w = (let (r, a) = f (cpAKS w) in (r, w\<lparr>cpAKS := a, cpVM := (cpVM w)\<lparr>vwQuotas := quotas a, vwOffs := offs a\<rparr>\<rparr>))"

definition onVM :: "(('b, 'k, 's, 'f) vm_world \<Rightarrow> 'x \<times> ('b, 'k, 's, 'f) vm_world) \<Rightarrow> ('a, 'b, 'k, 's, 'f, 'q) cp_world \<Rightarrow> 'x \<times> ('a, 'b, 'k, 's, 'f, 'q) cp_world" where
  "onVM f w = (let (r, v) = f (cpVM w) in (r, w\<lparr>cpVM := v, cpAKS := (cpAKS w)\<lparr>quotas := vwQuotas v, offs := vwOffs v\<rparr>\<rparr>))"

definition sharedOK :: "('a, 'b, 'k, 's, 'f, 'q) cp_world \<Rightarrow> bool" where
  "sharedOK w \<longleftrightarrow> quotas (cpAKS w) = vwQuotas (cpVM w) \<and> offs (cpAKS w) = vwOffs (cpVM w)"

subsection \<open>Classes and instance types\<close>

definition terminating :: "string \<Rightarrow> kubeErr" where
  "terminating name = KubeNotFound (''aksnodeclasses.'' @ Group @ '' '' @ quoted name @ '' is terminating, treating as not found'')"

definition GetAKSNodeClass :: "('q, 'c) kube_api \<Rightarrow> 'q \<Rightarrow> claim \<Rightarrow> kubeErr + 'c nodeClass" where
  "GetAKSNodeClass K q cl =
     (case NodeClassRef cl of
        None \<Rightarrow> Inl (KubeErr (''nodeClaim '' @ NCName cl @ '' does not have a nodeClassRef''))
      | Some name \<Rightarrow>
          (case k_class K q name of
             Inl e \<Rightarrow> Inl (wrapKube (''getting AKSNodeClass '' @ name @ '': '') e)
           | Inr (nc, deleting) \<Rightarrow> if deleting then Inl (terminating name) else Inr nc))"

text \<open>A pool without a reference to a class is followed through a nil pointer.\<close>

definition resolveNodeClassFromNodePool :: "('q, 'c) kube_api \<Rightarrow> 'q \<Rightarrow> nodePool \<Rightarrow> panic + (kubeErr + 'c nodeClass)" where
  "resolveNodeClassFromNodePool K q np =
     (case PoolClassRef np of
        None \<Rightarrow> Inl NilDereference
      | Some name \<Rightarrow> Inr (case k_class K q name of Inl e \<Rightarrow> Inl e | Inr (nc, deleting) \<Rightarrow> if deleting then Inl (terminating name) else Inr nc))"

definition GetInstanceTypes :: "('a, 'b, 'k, 's, 'f, 'r, 'c, 'q) cp_env \<Rightarrow> 'q \<Rightarrow> nodePool \<Rightarrow> panic + (kubeErr + 'r instanceType list)" where
  "GetInstanceTypes E q np =
     (case resolveNodeClassFromNodePool (cpKube E) q np of
        Inl pn \<Rightarrow> Inl pn
      | Inr (Inl e) \<Rightarrow> Inr (Inl (wrapKube ''resolving node class, '' e))
      | Inr (Inr nc) \<Rightarrow> (case cpInstanceTypes E nc of Inl e \<Rightarrow> Inr (Inl (KubeErr e)) | Inr its \<Rightarrow> Inr (Inr its)))"

definition resolveInstanceTypes :: "('a, 'b, 'k, 's, 'f, 'r, 'c, 'q) cp_env \<Rightarrow> claim \<Rightarrow> 'c nodeClass \<Rightarrow> 'r instanceType list result" where
  "resolveInstanceTypes E cl nc =
     (case cpInstanceTypes E nc of
        Inl e \<Rightarrow> Inl (''getting instance types, '' @ e)
      | Inr its \<Rightarrow>
          (case (if cpNodeOverlay E then (case Labels cl NodePoolLabelKey of None \<Rightarrow> Inr its | Some np \<Rightarrow> cpApplyAll E np its) else Inr its) of
             Inl e \<Rightarrow> Inl (''applying instance type overlays, '' @ e)
           | Inr its \<Rightarrow> Inr (filter (\<lambda>i. cpRequirementsOK E cl i \<and> cpOfferingsOK E cl i \<and> cpFits E cl i) its)))"

text \<open>A tag with a nil value is followed.\<close>

definition poolOfTags :: "('q, 'c) kube_api \<Rightarrow> 'q \<Rightarrow> (string, string option) gomap option \<Rightarrow> panic + (kubeErr + nodePool)" where
  "poolOfTags K q tags =
     (case tagOf tags NodePoolTagKey of
        Some None \<Rightarrow> Inl NilDereference
      | Some (Some np) \<Rightarrow> if np \<noteq> [] then Inr (k_pool K q np) else Inr (Inl (KubeNotFound ''nodepools.karpenter.sh not found''))
      | None \<Rightarrow> Inr (Inl (KubeNotFound ''nodepools.karpenter.sh not found'')))"

definition FindNodePoolFromAKSMachine :: "('q, 'c) kube_api \<Rightarrow> 'q \<Rightarrow> aksMachine \<Rightarrow> panic + (kubeErr + nodePool)" where
  "FindNodePoolFromAKSMachine K q m = (case AMProperties m of None \<Rightarrow> Inl NilDereference | Some p \<Rightarrow> poolOfTags K q (AMTags p))"

definition resolveNodePoolFromVMInstance :: "('q, 'c) kube_api \<Rightarrow> 'q \<Rightarrow> vm \<Rightarrow> panic + (kubeErr + nodePool)" where
  "resolveNodePoolFromVMInstance K q v = poolOfTags K q (VMTags v)"

definition resolveNodeClaimFromAKSMachine :: "('a, 'b, 'k, 's, 'f, 'r, 'c, 'q) cp_env \<Rightarrow> 'q \<Rightarrow> aksMachine \<Rightarrow> panic + claim result" where
  "resolveNodeClaimFromAKSMachine E q m =
     (let build = (\<lambda>its.
        case BuildNodeClaimFromAKSMachine (veIT (cpVMEnv E)) (envNow (cpAKSEnv E)) m its (envLocation (cpAKSEnv E)) of
          Inl pn \<Rightarrow> Inl pn
        | Inr (Inl e) \<Rightarrow> Inr (Inl (''converting AKS machine instance to node claim, '' @ e))
        | Inr (Inr cl) \<Rightarrow> Inr (Inr cl))
      in case FindNodePoolFromAKSMachine (cpKube E) q m of
           Inl pn \<Rightarrow> Inl pn
         | Inr (Inl e) \<Rightarrow> (case IgnoreNotFound e of Some t \<Rightarrow> Inr (Inl (''resolving node pool, '' @ t)) | None \<Rightarrow> build [])
         | Inr (Inr np) \<Rightarrow>
             (case GetInstanceTypes E q np of
                Inl pn \<Rightarrow> Inl pn
              | Inr (Inl e) \<Rightarrow> (case IgnoreNotFound e of Some t \<Rightarrow> Inr (Inl (''resolving node pool instance types, '' @ t)) | None \<Rightarrow> build [])
              | Inr (Inr its) \<Rightarrow>
                  (case (if cpNodeOverlay E then cpApplyAll E (PoolName np) its else Inr its) of
                     Inl e \<Rightarrow> Inr (Inl (''applying instance type overlays, '' @ e))
                   | Inr its \<Rightarrow> build its)))"

text \<open>A missing pool or class gives no instance type. The size is only read when there are instance types to compare with.\<close>

definition resolveInstanceTypeFromVMInstance :: "('a, 'b, 'k, 's, 'f, 'r, 'c, 'q) cp_env \<Rightarrow> 'q \<Rightarrow> vm \<Rightarrow> panic + 'r instanceType option result" where
  "resolveInstanceTypeFromVMInstance E q v =
     (case resolveNodePoolFromVMInstance (cpKube E) q v of
        Inl pn \<Rightarrow> Inl pn
      | Inr (Inl e) \<Rightarrow> Inr (case IgnoreNotFound (wrapKube ''resolving node pool, '' e) of Some t \<Rightarrow> Inl t | None \<Rightarrow> Inr None)
      | Inr (Inr np) \<Rightarrow>
          (case GetInstanceTypes E q np of
             Inl pn \<Rightarrow> Inl pn
           | Inr (Inl e) \<Rightarrow> Inr (case IgnoreNotFound (wrapKube ''resolving node template, '' e) of Some t \<Rightarrow> Inl t | None \<Rightarrow> Inr None)
           | Inr (Inr its) \<Rightarrow>
               if its \<noteq> [] \<and> VMProps v = None then Inl NilDereference
               else let it = find (\<lambda>i. Name i = FromPtr (Option.bind (VMProps v) VMSize)) its in
                 Inr (if cpNodeOverlay E then (case cpApply E (PoolName np) it of Inl e \<Rightarrow> Inl (''resolving instancetype, '' @ e) | Inr it \<Rightarrow> Inr it) else Inr it)))"

subsection \<open>Reading\<close>

fun machineClaims :: "('a, 'b, 'k, 's, 'f, 'r, 'c, 'q) cp_env \<Rightarrow> 'q \<Rightarrow> aksMachine list \<Rightarrow> panic + claim list result" where
  "machineClaims E q [] = Inr (Inr [])"
| "machineClaims E q (m # ms) =
     (case resolveNodeClaimFromAKSMachine E q m of
        Inl pn \<Rightarrow> Inl pn
      | Inr (Inl e) \<Rightarrow> Inr (Inl (''converting AKS machine instance to node claim, '' @ e))
      | Inr (Inr cl) \<Rightarrow> (case machineClaims E q ms of Inl pn \<Rightarrow> Inl pn | Inr (Inl e) \<Rightarrow> Inr (Inl e) | Inr (Inr cls) \<Rightarrow> Inr (Inr (cl # cls))))"

definition claimOfVM :: "('a, 'b, 'k, 's, 'f, 'r, 'c, 'q) cp_env \<Rightarrow> 'q \<Rightarrow> string \<Rightarrow> vm \<Rightarrow> panic + claim result" where
  "claimOfVM E q msg v =
     (case resolveInstanceTypeFromVMInstance E q v of
        Inl pn \<Rightarrow> Inl pn
      | Inr (Inl e) \<Rightarrow> Inr (Inl (msg @ e))
      | Inr (Inr it) \<Rightarrow> (case vmInstanceToNodeClaim (veIT (cpVMEnv E)) (veNow (cpVMEnv E)) v it of Inl pn \<Rightarrow> Inl pn | Inr cl \<Rightarrow> Inr (Inr cl)))"

fun vmClaims :: "('a, 'b, 'k, 's, 'f, 'r, 'c, 'q) cp_env \<Rightarrow> 'q \<Rightarrow> vm list \<Rightarrow> panic + claim list result" where
  "vmClaims E q [] = Inr (Inr [])"
| "vmClaims E q (v # vs) =
     (case claimOfVM E q ''resolving instance type for VM instance, '' v of
        Inl pn \<Rightarrow> Inl pn
      | Inr (Inl e) \<Rightarrow> Inr (Inl e)
      | Inr (Inr cl) \<Rightarrow> (case vmClaims E q vs of Inl pn \<Rightarrow> Inl pn | Inr (Inl e) \<Rightarrow> Inr (Inl e) | Inr (Inr cls) \<Rightarrow> Inr (Inr (cl # cls))))"

definition cp_list :: "('a, 'b, 'k, 's, 'f, 'r, 'c, 'q) cp_env \<Rightarrow> bool \<Rightarrow> ('a, 'b, 'k, 's, 'f, 'q) cp_world
    \<Rightarrow> (panic + claim list result) \<times> ('a, 'b, 'k, 's, 'f, 'q) cp_world" where
  "cp_list E includeAKSMachineVMState w =
     (let (r, w1) = onAKS (AKS_Instances.List (cpAKSEnv E) False includeAKSMachineVMState) w; q = cpCluster w in
      (case r of
         Inl (Panic _) \<Rightarrow> Inl NilDereference
       | Inl (Failed e) \<Rightarrow> Inr (Inl (''listing AKS machine instances, '' @ e))
       | Inr ms \<Rightarrow>
           (case machineClaims E q ms of
              Inl pn \<Rightarrow> Inl pn
            | Inr (Inl e) \<Rightarrow> Inr (Inl e)
            | Inr (Inr cls) \<Rightarrow>
                (case cpListVMs E (vwAzure (cpVM w1)) of
                   Inl e \<Rightarrow> Inr (Inl (''listing VM instances, '' @ e))
                 | Inr vs \<Rightarrow> (case vmClaims E q vs of Inl pn \<Rightarrow> Inl pn | Inr (Inl e) \<Rightarrow> Inr (Inl e) | Inr (Inr cls') \<Rightarrow> Inr (Inr (cls @ cls'))))), w1))"

definition CPGet :: "('a, 'b, 'k, 's, 'f, 'r, 'c, 'q) cp_env \<Rightarrow> string \<Rightarrow> ('a, 'b, 'k, 's, 'f, 'q) cp_world
    \<Rightarrow> (panic + (cpErr + claim)) \<times> ('a, 'b, 'k, 's, 'f, 'q) cp_world" where
  "CPGet E providerID w =
     (let plain = (\<lambda>r. case r of Inl pn \<Rightarrow> Inl pn | Inr (Inl e) \<Rightarrow> Inr (Inl (CPPlain e)) | Inr (Inr cl) \<Rightarrow> Inr (Inr cl)) in
      case GetVMName providerID of
        Inl e \<Rightarrow> (Inr (Inl (CPPlain (''getting vm name, '' @ e))), w)
      | Inr vmName \<Rightarrow>
          (case GetAKSMachineNameFromVMName (cpPoolName E) vmName of
             Inr name \<Rightarrow>
               (case onAKS (AKS_Instances.Get (cpAKSEnv E) name False) w of
                  (Inl e, w1) \<Rightarrow> (Inr (Inl (ofInst (cpLaunchText E) ''getting AKS machine instance, '' e)), w1)
                | (Inr m, w1) \<Rightarrow> (plain (resolveNodeClaimFromAKSMachine E (cpCluster w1) m), w1))
           | Inl _ \<Rightarrow>
               (case VM_Instances.Get (cpVMEnv E) vmName (cpVM w) of
                  Inl e \<Rightarrow> (Inr (Inl (ofInst (cpLaunchText E) ''getting VM instance, '' e)), w)
                | Inr v \<Rightarrow> (plain (claimOfVM E (cpCluster w) ''resolving instance type, '' v), w))))"

text \<open>The refresh that a cached read of the machine may request is not tracked here.\<close>

definition IsDrifted :: "('a, 'b, 'k, 's, 'f, 'r, 'c, 'q) cp_env \<Rightarrow> claim \<Rightarrow> ('a, 'b, 'k, 's, 'f, 'q) cp_world \<Rightarrow> panic + string result" where
  "IsDrifted E cl w =
     (let q = cpCluster w in
      case Labels cl NodePoolLabelKey of
        None \<Rightarrow> Inr (Inr [])
      | Some np \<Rightarrow>
          (case k_pool (cpKube E) q np of
             Inl e \<Rightarrow> Inr (case IgnoreNotFound e of Some t \<Rightarrow> Inl t | None \<Rightarrow> Inr [])
           | Inr pool \<Rightarrow>
               if PoolClassRef pool = None then Inr (Inr [])
               else case resolveNodeClassFromNodePool (cpKube E) q pool of
                 Inl pn \<Rightarrow> Inl pn
               | Inr (Inl e) \<Rightarrow> Inr (case IgnoreNotFound (wrapKube ''resolving node class, '' e) of Some t \<Rightarrow> Inl t | None \<Rightarrow> Inr [])
               | Inr (Inr nc) \<Rightarrow>
                   isNodeClassDrifted (cpConditions E) (cpKubeletIdentity E) (cpNode E cl)
                     (\<lambda>name. case fst (AKS_Instances.Get (cpAKSEnv E) name True (cpAKS w)) of Inl e \<Rightarrow> Inl (instText (cpLaunchText E) e) | Inr m \<Rightarrow> Inr (Some m)) (Some cl) nc))"

definition CPDelete :: "('a, 'b, 'k, 's, 'f, 'r, 'c, 'q) cp_env \<Rightarrow> claim \<Rightarrow> ('a, 'b, 'k, 's, 'f, 'q) cp_world \<Rightarrow> cpErr option \<times> ('a, 'b, 'k, 's, 'f, 'q) cp_world" where
  "CPDelete E cl w =
     (case GetAKSMachineNameFromNodeClaim cl of
        Some name \<Rightarrow> (let (r, w1) = onAKS (AKS_Instances.Delete (cpAKSEnv E) cl name) w in (map_option (ofInst (cpLaunchText E) []) r, w1))
      | None \<Rightarrow>
          (case GetVMName (ProviderID cl) of
             Inl e \<Rightarrow> (Some (CPPlain (''getting VM name, '' @ e)), w)
           | Inr vmName \<Rightarrow> (let (r, w1) = onVM (VM_Instances.Delete (cpVMEnv E) cl vmName) w in (map_option (ofInst (cpLaunchText E) []) r, w1))))"

subsection \<open>Launching\<close>

definition validateNodeClass :: "('a, 'b, 'k, 's, 'f, 'r, 'c, 'q) cp_env \<Rightarrow> 'c nodeClass \<Rightarrow> cpErr option" where
  "validateNodeClass E nc =
     (let ready = GetCondition (cpConditions E) nc ''Ready'' in
      if cpEnableFIPS E \<and> FromPtr (SpecFIPSMode nc) \<noteq> FIPSModeFIPS then
        Some (CPNotReady ''AKSNodeClass spec.fipsMode must be set to FIPS because FIPS is enabled at the cluster level'')
      else if Status ready = CondFalse then Some (CPNotReady (condition.Message ready))
      else if Status ready = CondUnknown then
        Some (CPCreate (''resolving NodeClass readiness, NodeClass is in Ready=Unknown, '' @ condition.Message ready) NodeClassReadinessUnknownReason ''NodeClass is in Ready=Unknown'' None)
      else case GetKubernetesVersion (cpConditions E) (Some nc) of
        Inl e \<Rightarrow> Some (CPPlain e)
      | Inr _ \<Rightarrow> (case GetImages (cpConditions E) (Some nc) of Inl e \<Rightarrow> Some (CPPlain e) | Inr _ \<Rightarrow> None))"

definition isNodeClaimStandalone :: "claim \<Rightarrow> bool" where
  "isNodeClaimStandalone cl \<longleftrightarrow> Labels cl NodePoolLabelKey = None"

text \<open>A launch that is waited for, with what the wait needs.\<close>

datatype ('r, 'c) job = VMJob "'c nodeClass" "'r vmPromise" | MachineJob "'c nodeClass" "'r promise"

text \<open>The wait for an AKS machine recovers from a panic; an adopted machine is not waited for.\<close>

definition waitMachine :: "('a, 'b, 'k, 's, 'f, 'r, 'c, 'q) cp_env \<Rightarrow> 'c nodeClass \<Rightarrow> 'r promise \<Rightarrow> ('a, 's, 'f) aks_world \<Rightarrow> instErr option \<times> ('a, 's, 'f) aks_world" where
  "waitMachine E nc pr a =
     (let name = prMachineName pr; groupID = GetCapacityReservationGroupID nc in
      if \<not> prCreateIssued pr then (None, a)
      else if envBatch (cpAKSEnv E) then
        (case waitBatch (cpAKSEnv E) pr groupID (cpPolledMachine E name) a of
           (Inl pn, a1) \<Rightarrow> (Some (aksPanicked name ''runtime error: invalid memory address or nil pointer dereference''), a1)
         | (Inr r, a1) \<Rightarrow> (r, a1))
      else waitNonBatch (cpAKSEnv E) pr groupID (cpPolledSDK E name) a)"

fun waitJob :: "('a, 'b, 'k, 's, 'f, 'r, 'c, 'q) cp_env \<Rightarrow> ('r, 'c) job \<Rightarrow> ('a, 'b, 'k, 's, 'f, 'q) cp_world \<Rightarrow> instErr option \<times> ('a, 'b, 'k, 's, 'f, 'q) cp_world" where
  "waitJob E (VMJob nc pr) w = onVM (waitVM (cpVMEnv E) nc pr) w"
| "waitJob E (MachineJob nc pr) w = onAKS (waitMachine E nc pr) w"

fun cleanupJob :: "('a, 'b, 'k, 's, 'f, 'r, 'c, 'q) cp_env \<Rightarrow> claim \<Rightarrow> ('r, 'c) job \<Rightarrow> ('a, 'b, 'k, 's, 'f, 'q) cp_world
    \<Rightarrow> instErr option \<times> ('a, 'b, 'k, 's, 'f, 'q) cp_world" where
  "cleanupJob E cl (VMJob nc pr) w = onVM (VM_Instances.Cleanup (cpVMEnv E) cl pr) w"
| "cleanupJob E cl (MachineJob nc pr) w = onAKS (AKS_Instances.Cleanup (cpAKSEnv E) cl pr) w"

text \<open>An error of the clean-up is only logged.\<close>

definition handleInstancePromiseWaitError :: "('a, 'b, 'k, 's, 'f, 'r, 'c, 'q) cp_env \<Rightarrow> claim \<Rightarrow> ('r, 'c) job \<Rightarrow> ('a, 'b, 'k, 's, 'f, 'q) cp_world
    \<Rightarrow> ('a, 'b, 'k, 's, 'f, 'q) cp_world" where
  "handleInstancePromiseWaitError E cl j w = snd (cleanupJob E cl j w)"

text \<open>The error, the job that goes on in the background, and the state.\<close>

definition handleInstancePromise :: "('a, 'b, 'k, 's, 'f, 'r, 'c, 'q) cp_env \<Rightarrow> claim \<Rightarrow> ('r, 'c) job \<Rightarrow> ('a, 'b, 'k, 's, 'f, 'q) cp_world
    \<Rightarrow> cpErr option \<times> ('r, 'c) job option \<times> ('a, 'b, 'k, 's, 'f, 'q) cp_world" where
  "handleInstancePromise E cl j w =
     (if isNodeClaimStandalone cl then
        (case waitJob E j w of
           (None, w1) \<Rightarrow> (None, None, w1)
         | (Some err, w1) \<Rightarrow> (Some (toCreateError (cpLaunchText E) err ''creating standalone instance failed''), None, handleInstancePromiseWaitError E cl j w1))
      else (None, Some j, w))"

text \<open>The number of reads until the claim is gone or its \<open>Launched\<close> condition is known; the end of the list is the end of the context.\<close>

fun waitUntilLaunched :: "(kubeErr + cond_status) list \<Rightarrow> nat" where
  "waitUntilLaunched [] = 0"
| "waitUntilLaunched (Inl (KubeNotFound _) # obs) = 1"
| "waitUntilLaunched (Inl (KubeConflict _) # obs) = Suc (waitUntilLaunched obs)"
| "waitUntilLaunched (Inl (KubeErr _) # obs) = Suc (waitUntilLaunched obs)"
| "waitUntilLaunched (Inr c # obs) = (if c \<noteq> CondUnknown then 1 else Suc (waitUntilLaunched obs))"

text \<open>
  The goroutine of a job: the wait, then the wait for the claim to be launched, during which others change the state (\<open>others\<close>), and on an error the
  clean-up and the deletion of the claim.
\<close>

definition runJob :: "('a, 'b, 'k, 's, 'f, 'r, 'c, 'q) cp_env \<Rightarrow> claim \<Rightarrow> (('a, 'b, 'k, 's, 'f, 'q) cp_world \<Rightarrow> ('a, 'b, 'k, 's, 'f, 'q) cp_world) \<Rightarrow> ('r, 'c) job
    \<Rightarrow> ('a, 'b, 'k, 's, 'f, 'q) cp_world \<Rightarrow> ('a, 'b, 'k, 's, 'f, 'q) cp_world" where
  "runJob E cl others j w =
     (case waitJob E j w of
        (None, w1) \<Rightarrow> others w1
      | (Some err, w1) \<Rightarrow>
          let w2 = handleInstancePromiseWaitError E cl j (others w1) in w2\<lparr>cpCluster := snd (k_deleteClaim (cpKube E) (NCName cl) (cpCluster w2))\<rparr>)"

definition AKSNodeClassHashVersion :: string where
  "AKSNodeClassHashVersion = ''v3''"

definition AnnotationInPlaceUpdateHash :: string where
  "AnnotationInPlaceUpdateHash = Group @ ''/in-place-update-hash''"

definition setAdditionalAnnotationsForNewNodeClaim :: "('a, 'b, 'k, 's, 'f, 'r, 'c, 'q) cp_env \<Rightarrow> 'c nodeClass \<Rightarrow> claim \<Rightarrow> claim result" where
  "setAdditionalAnnotationsForNewNodeClaim E nc cl =
     (case cpInPlaceHash E cl nc of
        Inl e \<Rightarrow> Inl (''failed to calculate in place update hash, '' @ e)
      | Inr h \<Rightarrow> Inr (cl\<lparr>Annotations := (Annotations cl)(AnnotationAKSNodeClassHash \<mapsto> cpClassHash E nc, AnnotationAKSNodeClassHashVersion \<mapsto> AKSNodeClassHashVersion,
          AnnotationInPlaceUpdateHash \<mapsto> h, AnnotationCapacityReservationGroupID \<mapsto> GetCapacityReservationGroupID nc)\<rparr>))"

text \<open>The claim that is returned: the labels of the request's single-valued well-known requirements and the annotations are added.\<close>

definition finishClaim :: "('a, 'b, 'k, 's, 'f, 'r, 'c, 'q) cp_env \<Rightarrow> 'c nodeClass \<Rightarrow> claim \<Rightarrow> claim \<Rightarrow> cpErr + claim" where
  "finishClaim E nc cl new =
     (case setAdditionalAnnotationsForNewNodeClaim E nc (new\<lparr>Labels := Labels new ++
          GetWellKnownSingleValuedRequirementLabels (veIT (cpVMEnv E)) (cpWellKnown E) (veReqs (cpVMEnv E) cl)\<rparr>) of
        Inl e \<Rightarrow> Inl (CPPlain e)
      | Inr c \<Rightarrow> Inr c)"

type_synonym ('a, 'b, 'k, 's, 'f, 'r, 'c, 'q) launched =
  "(panic + (cpErr + claim)) \<times> ('r, 'c) job option \<times> ('a, 'b, 'k, 's, 'f, 'q) cp_world"

definition createVMInstance :: "('a, 'b, 'k, 's, 'f, 'r, 'c, 'q) cp_env \<Rightarrow> 'c nodeClass \<Rightarrow> claim \<Rightarrow> 'r instanceType list \<Rightarrow> ('a, 'b, 'k, 's, 'f, 'q) cp_world
    \<Rightarrow> ('a, 'b, 'k, 's, 'f, 'r, 'c, 'q) launched" where
  "createVMInstance E nc cl its w =
     (case onVM (VM_Instances.BeginCreate (cpVMEnv E) nc cl its) w of
        (Inl pn, w1) \<Rightarrow> (Inl pn, None, w1)
      | (Inr (Inl err), w1) \<Rightarrow> (Inr (Inl (toCreateError (cpLaunchText E) err ''creating instance failed'')), None, w1)
      | (Inr (Inr pr), w1) \<Rightarrow>
          (case handleInstancePromise E cl (VMJob nc pr) w1 of
             (Some e, j, w2) \<Rightarrow> (Inr (Inl e), j, w2)
           | (None, j, w2) \<Rightarrow>
               let v = vpVM pr; it = find (\<lambda>i. Name i = FromPtr (Option.bind (VMProps v) VMSize)) its in
               case vmInstanceToNodeClaim (veIT (cpVMEnv E)) (veNow (cpVMEnv E)) v it of
                 Inl pn \<Rightarrow> (Inl pn, j, w2)
               | Inr new \<Rightarrow> (Inr (finishClaim E nc cl new), j, w2)))"

definition createAKSMachineInstance :: "('a, 'b, 'k, 's, 'f, 'r, 'c, 'q) cp_env \<Rightarrow> 'c nodeClass \<Rightarrow> claim \<Rightarrow> 'r instanceType list \<Rightarrow> ('a, 'b, 'k, 's, 'f, 'q) cp_world
    \<Rightarrow> ('a, 'b, 'k, 's, 'f, 'r, 'c, 'q) launched" where
  "createAKSMachineInstance E nc cl its w =
     (case onAKS (AKS_Instances.BeginCreate (cpAKSEnv E) nc cl its) w of
        (Inl pn, w1) \<Rightarrow> (Inl pn, None, w1)
      | (Inr (Inl err), w1) \<Rightarrow> (Inr (Inl (toCreateError (cpLaunchText E) err ''creating AKS machine failed'')), None, w1)
      | (Inr (Inr pr), w1) \<Rightarrow>
          (case handleInstancePromise E cl (MachineJob nc pr) w1 of
             (Some e, j, w2) \<Rightarrow> (Inr (Inl e), j, w2)
           | (None, j, w2) \<Rightarrow>
               (case BuildNodeClaimFromAKSMachineTemplate (veIT (cpVMEnv E)) (envNow (cpAKSEnv E)) (prTemplate pr) (Some (prInstanceType pr)) (prCapacityType pr)
                    (Some (prZone pr)) (prMachineID pr) (prVMResourceID pr) False (prImageVersion pr) (prCreation pr) of
                  Inl pn \<Rightarrow> (Inl pn, j, w2)
                | Inr new \<Rightarrow> (Inr (finishClaim E nc cl new), j, w2))))"

definition Create :: "('a, 'b, 'k, 's, 'f, 'r, 'c, 'q) cp_env \<Rightarrow> claim \<Rightarrow> ('a, 'b, 'k, 's, 'f, 'q) cp_world \<Rightarrow> ('a, 'b, 'k, 's, 'f, 'r, 'c, 'q) launched" where
  "Create E cl w =
     (case GetAKSNodeClass (cpKube E) (cpCluster w) cl of
        Inl e \<Rightarrow> (Inr (Inl (CPInsufficient (''resolving node class, '' @ kubeText e))), None, w)
      | Inr nc \<Rightarrow>
          (case validateNodeClass E nc of
             Some e \<Rightarrow> (Inr (Inl e), None, w)
           | None \<Rightarrow>
               (case resolveInstanceTypes E cl nc of
                  Inl e \<Rightarrow> (Inr (Inl (CPCreate (''resolving instance types, '' @ e) InstanceTypeResolutionFailedReason (truncateMessage e) None)), None, w)
                | Inr [] \<Rightarrow> (Inr (Inl (CPInsufficient ''all requested instance types were unavailable during launch'')), None, w)
                | Inr its \<Rightarrow> if cpMachineMode E then createAKSMachineInstance E nc cl its w else createVMInstance E nc cl its w)))"

subsection \<open>Repair\<close>

text \<open>A policy: the condition and its status, the pattern of reasons, how long the condition is tolerated and the grace period of the termination, when it is set. Every policy replaces the node.\<close>

record repairPolicy =
  rpConditionType :: string
  rpConditionStatus :: cond_status
  rpReasonRegex :: string
  rpToleration :: duration
  rpGracePeriod :: "duration option"

definition SpotConditionPreemptionScheduled :: string where
  "SpotConditionPreemptionScheduled = ''PreemptionScheduled''"

definition legacyRepairPolicies :: "repairPolicy list" where
  "legacyRepairPolicies =
     [\<lparr>rpConditionType = ''Ready'', rpConditionStatus = CondFalse, rpReasonRegex = [], rpToleration = 10 * Minute, rpGracePeriod = None\<rparr>,
      \<lparr>rpConditionType = ''Ready'', rpConditionStatus = CondUnknown, rpReasonRegex = [], rpToleration = 10 * Minute, rpGracePeriod = None\<rparr>,
      \<lparr>rpConditionType = ''kubernetes.azure.com/NodeHealthy'', rpConditionStatus = CondFalse, rpReasonRegex = [], rpToleration = 0, rpGracePeriod = None\<rparr>,
      \<lparr>rpConditionType = SpotConditionPreemptionScheduled, rpConditionStatus = CondTrue, rpReasonRegex = [], rpToleration = 0, rpGracePeriod = None\<rparr>]"

definition budgetAwareRepairPolicies :: "repairPolicy list" where
  "budgetAwareRepairPolicies =
     [\<lparr>rpConditionType = ''Ready'', rpConditionStatus = CondFalse, rpReasonRegex = [], rpToleration = 10 * Minute, rpGracePeriod = Some 0\<rparr>,
      \<lparr>rpConditionType = ''Ready'', rpConditionStatus = CondUnknown, rpReasonRegex = ''.*'', rpToleration = 10 * Minute, rpGracePeriod = Some 0\<rparr>,
      \<lparr>rpConditionType = ''kubernetes.azure.com/NodeHealthy'', rpConditionStatus = CondFalse, rpReasonRegex = ''.*'', rpToleration = 0, rpGracePeriod = Some 0\<rparr>,
      \<lparr>rpConditionType = SpotConditionPreemptionScheduled, rpConditionStatus = CondTrue, rpReasonRegex = ''.*'', rpToleration = 0, rpGracePeriod = Some 0\<rparr>]"

definition RepairPolicies :: "bool \<Rightarrow> repairPolicy list" where
  "RepairPolicies legacy = (if legacy then legacyRepairPolicies else budgetAwareRepairPolicies)"

subsection \<open>Facts\<close>

lemma resolveNodeClaim_built:
  assumes "resolveNodeClaimFromAKSMachine E q m = Inr (Inr cl)"
  obtains its where "BuildNodeClaimFromAKSMachine (veIT (cpVMEnv E)) (envNow (cpAKSEnv E)) m its (envLocation (cpAKSEnv E)) = Inr (Inr cl)"
  using assms by (auto simp: resolveNodeClaimFromAKSMachine_def Let_def split: sum.splits option.splits)

lemma in_machineClaims:
  "machineClaims E q ms = Inr (Inr cls) \<Longrightarrow> cl \<in> set cls \<Longrightarrow>
    \<exists>m \<in> set ms. \<exists>its. BuildNodeClaimFromAKSMachine (veIT (cpVMEnv E)) (envNow (cpAKSEnv E)) m its (envLocation (cpAKSEnv E)) = Inr (Inr cl)"
  by (induction ms arbitrary: cls) (auto split: sum.splits elim!: resolveNodeClaim_built)

lemma in_vmClaims:
  "vmClaims E q vs = Inr (Inr cls) \<Longrightarrow> cl \<in> set cls \<Longrightarrow> \<exists>v \<in> set vs. \<exists>it. vmInstanceToNodeClaim (veIT (cpVMEnv E)) (veNow (cpVMEnv E)) v it = Inr cl"
  by (induction vs arbitrary: cls) (auto simp: claimOfVM_def split: sum.splits)

text \<open>What a list is made of.\<close>

lemma cp_list_claims:
  assumes "cp_list E b w = (Inr (Inr cls), w1)"
  obtains ms vs cls1 cls2 where "fst (AKS_Instances.List (cpAKSEnv E) False b (cpAKS w)) = Inr ms" "cpListVMs E (vwAzure (cpVM w)) = Inr vs"
    "machineClaims E (cpCluster w) ms = Inr (Inr cls1)" "vmClaims E (cpCluster w) vs = Inr (Inr cls2)" "cls = cls1 @ cls2"
  using assms by (auto simp: cp_list_def onAKS_def Let_def split: prod.splits sum.splits failure.splits)

lemma machine_claim_name:
  assumes "BuildNodeClaimFromAKSMachine IT now m its loc = Inr (Inr cl)" and "AMID m = Some (prefix @ CHR ''/'' # name)" and "CHR ''/'' \<notin> set name"
  shows "GetAKSMachineNameFromNodeClaim cl = Some name"
  using assms(1) by (rule machine_claim) (use assms(2) machine_name_of_ID [OF assms(3)] in \<open>simp add: GetAKSMachineNameFromNodeClaim_def\<close>)

lemma vm_claim_name:
  assumes "vmInstanceToNodeClaim IT now v it = Inr cl" and "VMID v = Some (vmResourceID sub rg name)" and "segment sub" and "segment rg" and "segment name" and "rg \<noteq> []"
    and "\<not> Contains (''azure:///subscriptions/'' @ sub @ ''/resourceGroups/'' @ butlast rg) rg"
  shows "GetAKSMachineNameFromNodeClaim cl = None" and "GetVMName (ProviderID cl) = Inr name"
    and "ProviderID cl = ''azure://'' @ vmResourceID sub (ToLower rg) name"
proof -
  have p: "ProviderID cl = VMResourceIDToProviderID (vmResourceID sub rg name)" using vm_claim(7) [OF assms(1)] assms(2) by (simp add: FromPtr_def)
  show "GetAKSMachineNameFromNodeClaim cl = None" using vm_claim(5) [OF assms(1)] by (simp add: GetAKSMachineNameFromNodeClaim_def)
  show "GetVMName (ProviderID cl) = Inr name" "ProviderID cl = ''azure://'' @ vmResourceID sub (ToLower rg) name"
    unfolding p using provider_ID_of_VM [OF assms(3-7)] by (blast, blast)
qed

text \<open>The two providers keep sharing their state.\<close>

lemma shared_onAKS: "onAKS f w = (r, w') \<Longrightarrow> sharedOK w'"
  by (auto simp: onAKS_def sharedOK_def split: prod.splits)

lemma shared_onVM: "onVM f w = (r, w') \<Longrightarrow> sharedOK w'"
  by (auto simp: onVM_def sharedOK_def split: prod.splits)

lemma cluster_on: "onAKS f w = (r, w') \<Longrightarrow> cpCluster w' = cpCluster w" "onVM g w = (r', w') \<Longrightarrow> cpCluster w' = cpCluster w"
  by (auto simp: onAKS_def onVM_def split: prod.splits)

lemma truncateMessage_bound: "length (truncateMessage m) \<le> 1203" "take truncateAt (truncateMessage m) = take truncateAt m"
  by (auto simp: truncateMessage_def truncateAt_def)

lemma toCreateError_shape: "\<exists>t reason msg. toCreateError L err m = CPCreate t reason msg (Some err) \<and> length msg \<le> 1203"
  by (simp add: toCreateError_def case_prod_beta truncateMessage_bound)

lemma waitVM_quotas: "waitVM E nc pr v = (r, v') \<Longrightarrow> vwQuotas v' = vwQuotas v"
  by (auto simp: waitVM_def Let_def dest!: create_quotas(2) split: prod.splits option.splits if_splits)

subsection \<open>A concrete provider\<close>

definition ready_class :: "unit nodeClass" where
  "ready_class = plain_class\<lparr>KubernetesVersion := Some ''1.31.0'', Images := [\<lparr>ImageIDOf = ''i'', ImageRequirements = []\<rparr>]\<rparr>"

text \<open>A cluster: the names of its claims. It has one class and no node pools.\<close>

definition mem_kube :: "(string set, unit) kube_api" where
  "mem_kube = \<lparr>k_pool = (\<lambda>_ _. Inl (KubeNotFound ''pool'')), k_class = (\<lambda>_ n. if n = ''default'' then Inr (ready_class, False) else Inl (KubeNotFound ''class'')),
     k_launched = (\<lambda>q n. if n \<in> q then Inr CondTrue else Inl (KubeNotFound ''claim'')), k_claims = (\<lambda>_. Inr []), k_nodes = (\<lambda>_. Inr []),
     k_deleteClaim = (\<lambda>n q. (None, q - {n})), k_deleteNode = (\<lambda>n q. (None, q)), k_claimsOf = (\<lambda>_ _. Inr []), k_patchClaim = (\<lambda>_ _ q. (None, q)), k_patchClass = (\<lambda>_ _ q. (None, q))\<rparr>"

definition ex_cp_env :: "(string \<rightharpoonup> aksMachine, mem_cloud_state, loadBalancer list exp_cache, unit exp_cache, any_value exp_cache, labels, unit, string set) cp_env" where
  "ex_cp_env = \<lparr>cpAKSEnv = ex_env\<lparr>envVisible := False\<rparr>, cpVMEnv = ex_vm_env, cpKube = mem_kube, cpLaunchText = errMessage,
     cpConditions = \<lparr>cond_get = (\<lambda>_ _. \<lparr>Status = CondTrue, Reason = [], Message = [], ObservedGeneration = 1\<rparr>), cond_set = (\<lambda>_ _ c. c), cond_clear = (\<lambda>_ c. c)\<rparr>,
     cpInstanceTypes = (\<lambda>_. Inr [demo_it]), cpNodeOverlay = False, cpApplyAll = (\<lambda>_ its. Inr its), cpApply = (\<lambda>_ it. Inr it),
     cpRequirementsOK = (\<lambda>_ _. True), cpOfferingsOK = (\<lambda>_ _. True), cpFits = (\<lambda>_ _. True), cpWellKnown = (\<lambda>_. False), cpClassHash = (\<lambda>_. ''h''),
     cpInPlaceHash = (\<lambda>_ _. Inr ''p''), cpListVMs = (\<lambda>a. Inr (case fst a ''aks-m'' of None \<Rightarrow> [] | Some v \<Rightarrow> [v])), cpPolledMachine = (\<lambda>_. (None, None)),
     cpPolledSDK = (\<lambda>_. PollDone), cpKubeletIdentity = [], cpNode = (\<lambda>_. NodeNotFound []), cpEnableFIPS = False, cpMachineMode = False, cpPoolName = ''pool''\<rparr>"

definition ex_cp_world :: "mem_cloud_state \<Rightarrow> (string \<rightharpoonup> aksMachine, mem_cloud_state, loadBalancer list exp_cache, unit exp_cache, any_value exp_cache, string set) cp_world" where
  "ex_cp_world a = \<lparr>cpAKS = ex_world Map.empty, cpVM = ex_vm_world a, cpCluster = {''m''}\<rparr>"

definition ex_cp_claim :: claim where
  "ex_cp_claim = ex_request_claim\<lparr>NodeClassRef := Some ''default''\<rparr>"

lemma ex_cp_simps [simp]:
  "cpVMEnv ex_cp_env = ex_vm_env" "cpKube ex_cp_env = mem_kube" "\<not> cpMachineMode ex_cp_env" "cpVM (ex_cp_world a) = ex_vm_world a" "cpCluster (ex_cp_world a) = {''m''}"
  "cpListVMs ex_cp_env a = Inr (case fst a ''aks-m'' of None \<Rightarrow> [] | Some v \<Rightarrow> [v])" "cpNodeOverlay ex_cp_env = False"
  by (simp_all add: ex_cp_env_def ex_cp_world_def)

lemma ex_cp_class:
  "GetAKSNodeClass mem_kube q ex_cp_claim = Inr ready_class" "validateNodeClass ex_cp_env ready_class = None" "resolveInstanceTypes ex_cp_env cl ready_class = Inr [demo_it]"
  "isNodeClaimStandalone ex_cp_claim"
  by (simp_all add: GetAKSNodeClass_def mem_kube_def ex_cp_claim_def ex_request_claim_def newClaim_def validateNodeClass_def ready_class_def plain_class_def ex_cp_env_def GetCondition_def
      GetKubernetesVersion_def validateKubernetesVersionReadiness_def GetImages_def validateImagesReadiness_def FromPtr_def resolveInstanceTypes_def isNodeClaimStandalone_def)

subsection \<open>Properties\<close>


text \<open>
  A launch touches Azure, the quota accounting or the cluster only for a class that exists, is not being deleted and is ready: its Kubernetes version and its images are ready in the
  current generation, it is in FIPS mode when the cluster is, and some instance type satisfies the requirements and the resource requests of the claim.
\<close>

theorem launches_need_a_ready_class:
  assumes "Create E cl w = (r, j, w')" and "w' \<noteq> w \<or> j \<noteq> None"
  shows "\<exists>nc its. GetAKSNodeClass (cpKube E) (cpCluster w) cl = Inr nc \<and> Status (GetCondition (cpConditions E) nc ''Ready'') = CondTrue \<and>
    (cpEnableFIPS E \<longrightarrow> FromPtr (SpecFIPSMode nc) = FIPSModeFIPS) \<and>
    (\<exists>v. GetKubernetesVersion (cpConditions E) (Some nc) = Inr v) \<and> (\<exists>is. GetImages (cpConditions E) (Some nc) = Inr is) \<and>
    resolveInstanceTypes E cl nc = Inr its \<and> its \<noteq> [] \<and> list_all (\<lambda>i. cpRequirementsOK E cl i \<and> cpOfferingsOK E cl i \<and> cpFits E cl i) its"
proof -
  obtain nc where nc: "GetAKSNodeClass (cpKube E) (cpCluster w) cl = Inr nc" using assms by (auto simp: Create_def split: sum.splits)
  then have v: "validateNodeClass E nc = None" using assms by (auto simp: Create_def split: option.splits)
  then obtain its where its: "resolveInstanceTypes E cl nc = Inr its" "its \<noteq> []" using assms nc by (auto simp: Create_def split: sum.splits list.splits)
  have "list_all (\<lambda>i. cpRequirementsOK E cl i \<and> cpOfferingsOK E cl i \<and> cpFits E cl i) its"
    using its(1) by (auto simp: resolveInstanceTypes_def list_all_iff split: sum.splits)
  moreover have "Status (GetCondition (cpConditions E) nc ''Ready'') = CondTrue"
    using v by (cases "Status (GetCondition (cpConditions E) nc ''Ready'')") (auto simp: validateNodeClass_def Let_def split: if_splits)
  ultimately show ?thesis using nc v its by (auto simp: validateNodeClass_def Let_def split: if_splits sum.splits)
qed



theorem launches_need_a_ready_class_witness:
  "\<exists>r j w'. Create ex_cp_env (ex_cp_claim\<lparr>Labels := [NodePoolLabelKey \<mapsto> ''p'']\<rparr>) (ex_cp_world (Map.empty, Map.empty, Map.empty)) = (r, Some j, w') \<and>
     Status (GetCondition (cpConditions ex_cp_env) ready_class ''Ready'') = CondTrue"
proof -
  let ?w = "ex_cp_world (Map.empty, Map.empty, Map.empty)" and ?cl = "ex_cp_claim\<lparr>Labels := [NodePoolLabelKey \<mapsto> ''p'']\<rparr>"
  obtain pr v1 v where b: "VM_Instances.BeginCreate ex_vm_env ready_class ?cl [demo_it] (cpVM ?w) = (Inr (Inr pr), v1)"
    by (rule ex_vm_launch [of ?cl ready_class])
       (simp_all add: ex_cp_claim_def ex_request_claim_def ready_class_def plain_class_def IsNodePublicIPEnabled_def GetNodePublicIPPrefixIDs_def GetNodePublicIPTags_def
         GetCapacityReservationGroupID_def)
  have c: "GetAKSNodeClass mem_kube q ?cl = Inr ready_class" for q by (simp add: GetAKSNodeClass_def mem_kube_def ex_cp_claim_def)
  have "\<exists>r j w'. createVMInstance ex_cp_env ready_class ?cl [demo_it] ?w = (r, Some j, w')"
    using b by (simp add: createVMInstance_def onVM_def handleInstancePromise_def isNodeClaimStandalone_def Let_def split: sum.split)
  then obtain r j w' where l: "Create ex_cp_env ?cl ?w = (r, Some j, w')" using c ex_cp_class by (auto simp: Create_def)
  with launches_need_a_ready_class [OF l] c show ?thesis by auto
qed


end
