(* ===== verification/Garbage_Collection.thy ===== *)
theory Garbage_Collection
  imports Cloud_Provider
begin

text \<open>
  The collector of orphaned instances (src/pkg/controllers/nodeclaim/garbagecollection/instance_garbagecollection.go). Instances are listed first, then the claims and nodes of the cluster. An instance is
  deleted when its AKS machine reports a deleted virtual machine, or when no claim of the cluster has its provider identifier and it is older than five minutes. The deletions run in parallel; here
  they run one after the other in an arbitrary order. The list that asks for the states of the virtual machines is made at most every five minutes.

  Shown here: a virtual machine that a claim refers to, or a young one, is never deleted; an old one without a claim is gone after a round without errors; and
  the expensive lists keep their distance.
\<close>

subsection \<open>The collector\<close>

definition AKSMachineVMStateListInterval :: duration where
  "AKSMachineVMStateListInterval = 5 * Minute"

text \<open>\<open>0\<close> is the zero time, before the first attempt.\<close>

record instanceCollector =
  lastMachineVMStateListAttempt :: time

definition expandedListDue :: "time \<Rightarrow> instanceCollector \<Rightarrow> bool" where
  "expandedListDue now g \<longleftrightarrow> lastMachineVMStateListAttempt g = 0 \<or> now - lastMachineVMStateListAttempt g \<ge> AKSMachineVMStateListInterval"

text \<open>The attempt is recorded before the list is made, so that a failed one counts too.\<close>

definition listCloudNodeClaims :: "('a, 'b, 'k, 's, 'f, 'r, 'c, 'q) cp_env \<Rightarrow> time \<Rightarrow> instanceCollector \<Rightarrow> ('a, 'b, 'k, 's, 'f, 'q) cp_world
    \<Rightarrow> (panic + claim list result) \<times> instanceCollector \<times> ('a, 'b, 'k, 's, 'f, 'q) cp_world" where
  "listCloudNodeClaims E now g w =
     (if expandedListDue now g then (let (r, w1) = cp_list E True w in (r, g\<lparr>lastMachineVMStateListAttempt := now\<rparr>, w1))
      else (let (r, w1) = cp_list E False w in (r, g, w1)))"

definition isAKSMachineVMDeleted :: "claim \<Rightarrow> bool" where
  "isAKSMachineVMDeleted cl \<longleftrightarrow> Annotations cl AnnotationAKSMachineVMState = Some ''Deleted''"

definition garbageCollect :: "('a, 'b, 'k, 's, 'f, 'r, 'c, 'q) cp_env \<Rightarrow> claim \<Rightarrow> (string \<times> string) list \<Rightarrow> ('a, 'b, 'k, 's, 'f, 'q) cp_world
    \<Rightarrow> error option \<times> ('a, 'b, 'k, 's, 'f, 'q) cp_world" where
  "garbageCollect E cl nodes w =
     (case CPDelete E cl w of
        (Some (CPClaimNotFound _), w1) \<Rightarrow> (None, w1)
      | (Some (CPPlain e), w1) \<Rightarrow> (Some e, w1)
      | (Some (CPNotReady e), w1) \<Rightarrow> (Some e, w1)
      | (Some (CPCreate e _ _ _), w1) \<Rightarrow> (Some e, w1)
      | (Some (CPInsufficient e), w1) \<Rightarrow> (Some e, w1)
      | (None, w1) \<Rightarrow>
          (case find (\<lambda>(name, providerID). providerID = ProviderID cl) nodes of
             None \<Rightarrow> (None, w1)
           | Some (name, _) \<Rightarrow>
               (let (r, q) = k_deleteNode (cpKube E) name (cpCluster w1) in (Option.bind r IgnoreNotFound, w1\<lparr>cpCluster := q\<rparr>))))"

definition collectible :: "time \<Rightarrow> string set \<Rightarrow> claim \<Rightarrow> bool" where
  "collectible now clusterProviderIDs cl \<longleftrightarrow>
     isAKSMachineVMDeleted cl \<or> (ProviderID cl \<notin> clusterProviderIDs \<and> now - CreationTimestamp cl > 5 * Minute)"

text \<open>The work items in the order in which they run, and the errors.\<close>

fun collectAll :: "('a, 'b, 'k, 's, 'f, 'r, 'c, 'q) cp_env \<Rightarrow> time \<Rightarrow> string set \<Rightarrow> (string \<times> string) list \<Rightarrow> claim list \<Rightarrow> ('a, 'b, 'k, 's, 'f, 'q) cp_world
    \<Rightarrow> error list \<times> ('a, 'b, 'k, 's, 'f, 'q) cp_world" where
  "collectAll E now ids nodes [] w = ([], w)"
| "collectAll E now ids nodes (cl # cls) w =
     (let (r, w1) = (if collectible now ids cl then garbageCollect E cl nodes w else (None, w));
          (errs, w2) = collectAll E now ids nodes cls w1
      in (errList r @ errs, w2))"

definition providerIDsOf :: "claim list \<Rightarrow> string set" where
  "providerIDsOf claims = set (filter (\<lambda>d. d \<noteq> []) (map ProviderID claims))"

text \<open>\<open>order\<close> is the order in which the workers take the claims.\<close>

definition ReconcileInstances :: "('a, 'b, 'k, 's, 'f, 'r, 'c, 'q) cp_env \<Rightarrow> time \<Rightarrow> (claim list \<Rightarrow> claim list) \<Rightarrow> instanceCollector \<Rightarrow> ('a, 'b, 'k, 's, 'f, 'q) cp_world
    \<Rightarrow> (panic + duration result) \<times> instanceCollector \<times> ('a, 'b, 'k, 's, 'f, 'q) cp_world" where
  "ReconcileInstances E now order g w =
     (case listCloudNodeClaims E now g w of
        (Inl pn, g1, w1) \<Rightarrow> (Inl pn, g1, w1)
      | (Inr (Inl e), g1, w1) \<Rightarrow> (Inr (Inl (''listing cloudprovider instances, '' @ e)), g1, w1)
      | (Inr (Inr cls), g1, w1) \<Rightarrow>
          let cls = filter (\<lambda>cl. DeletionTimestamp cl = None \<or> isAKSMachineVMDeleted cl) cls in
          (case k_claims (cpKube E) (cpCluster w1) of
             Inl e \<Rightarrow> (Inr (Inl e), g1, w1)
           | Inr claims \<Rightarrow>
               (case k_nodes (cpKube E) (cpCluster w1) of
                  Inl e \<Rightarrow> (Inr (Inl e), g1, w1)
                | Inr nodes \<Rightarrow>
                    (case collectAll E now (providerIDsOf claims) nodes (order cls) w1 of
                       ([], w2) \<Rightarrow> (Inr (Inr (2 * Minute)), g1, w2)
                     | (e # es, w2) \<Rightarrow> (Inr (Inl (Join ''; '' (e # es))), g1, w2)))))"

subsection \<open>Facts\<close>

context vm_provider
begin

lemma Delete_spares:
  assumes "VM_Instances.Delete E cl n w = (r, w')" and "m \<noteq> n"
  shows "res_get (cVM (baseOf E)) (vwAzure w') m = res_get (cVM (baseOf E)) (vwAzure w) m"
proof -
  obtain g err w1 where d: "VM_Instances.deleteImpl E n w = ((g, err), w1)" by (metis prod.collapse)
  have nic: "res_get (cVM (baseOf E)) (vwAzure w2) = res_get (cVM (baseOf E)) (vwAzure w)" if "DeleteNicOf E n w = (x, w2)" for x w2
    using that DeleteNic_frame(3) [of "optClusterName (veOptions E)" n "vwAzure w"] by (auto simp: DeleteNicOf_def split: prod.splits)
  have "res_get (cVM (baseOf E)) (vwAzure w1) m = res_get (cVM (baseOf E)) (vwAzure w) m"
    using d cleanup_spares [OF _ assms(2), of False w] nic
    by (auto simp: VM_Instances.deleteImpl_def Let_def split: prod.splits sum.splits option.splits if_splits instErr.splits list.splits)
  then show ?thesis using assms(1) d by (auto simp: VM_Instances.Delete_def split: if_splits)
qed

text \<open>A machine is gone after its deletion without an error, and stays gone.\<close>

lemma Delete_gone:
  assumes "VM_Instances.Delete E cl n w = (r, w')" and "r = None \<or> (\<exists>e. r = Some (ClaimNotFound e))" and "n \<notin> vwDeleting w"
    and "\<And>v. res_get (cVM (baseOf E)) (vwAzure w) n = Inr v \<Longrightarrow> \<not> IsVMDeleting v"
  shows "\<exists>e. res_get (cVM (baseOf E)) (vwAzure w') n = Inl e \<and> cNotFound (baseOf E) e"
proof -
  obtain g err w1 where d: "VM_Instances.deleteImpl E n w = ((g, err), w1)" by (metis prod.collapse)
  have err: "err = r" and a: "vwAzure w' = vwAzure w1" using assms(1) d by (auto simp: VM_Instances.Delete_def split: if_splits)
  show ?thesis
  proof (cases "res_get (cVM (baseOf E)) (vwAzure w) n")
    case (Inl e)
    then have nf: "cNotFound (baseOf E) e" using d err assms(2,3) by (auto simp: VM_Instances.deleteImpl_def VM_Instances.Get_def split: if_splits)
    obtain x w2 where n: "DeleteNicOf E n w = (x, w2)" by (rule prod.exhaust)
    then have "w1 = w2" using d Inl nf assms(3) by (auto simp: VM_Instances.deleteImpl_def VM_Instances.Get_def split: option.splits)
    moreover have "res_get (cVM (baseOf E)) (vwAzure w2) = res_get (cVM (baseOf E)) (vwAzure w)"
      using n DeleteNic_frame(3) [of "optClusterName (veOptions E)" n "vwAzure w"] by (auto simp: DeleteNicOf_def split: prod.splits)
    ultimately show ?thesis using Inl nf a by simp
  next
    case (Inr v)
    then have live: "\<not> IsVMDeleting v" by (rule assms(4))
    obtain errs w2 where c: "cleanupAzureResources E n False w = (errs, w2)" by (rule prod.exhaust)
    have "errs = []" "w1 = w2" using d c Inr live assms(2,3) err
      by (auto simp: VM_Instances.deleteImpl_def VM_Instances.Get_def split: list.splits)
    then obtain w3 x where "deleteVirtualMachineIfExists E n w = (None, w3)" "DeleteNicOf E n w3 = (x, w1)"
      using c by (auto simp: cleanupAzureResources_def split: prod.splits elim!: errList.elims)
    then show ?thesis using machine_gone [of n w w3] DeleteNic_frame(3) [of "optClusterName (veOptions E)" n "vwAzure w3"] a
      by (auto simp: DeleteNicOf_def split: prod.splits)
  qed
qed

lemma Delete_keeps_gone:
  assumes "VM_Instances.Delete E cl m w = (r, w')" and "res_get (cVM (baseOf E)) (vwAzure w) n = Inl e" and "cNotFound (baseOf E) e"
  shows "res_get (cVM (baseOf E)) (vwAzure w') n = Inl e"
proof (cases "m = n")
  case True
  obtain x w2 where d: "DeleteNicOf E n w = (x, w2)" by (rule prod.exhaust)
  then have "res_get (cVM (baseOf E)) (vwAzure w2) = res_get (cVM (baseOf E)) (vwAzure w)"
    using DeleteNic_frame(3) [of "optClusterName (veOptions E)" n "vwAzure w"] by (auto simp: DeleteNicOf_def split: prod.splits)
  then show ?thesis using assms True d
    by (auto simp: VM_Instances.Delete_def VM_Instances.deleteImpl_def VM_Instances.Get_def split: option.splits if_splits)
next
  case False
  then show ?thesis using Delete_spares [OF assms(1), of n] assms(2) by simp
qed

end

lemma DeleteNicOf_deleting: "DeleteNicOf E n w = (r, w') \<Longrightarrow> vwDeleting w' = vwDeleting w"
  by (auto simp: DeleteNicOf_def split: prod.splits)

lemma cleanup_deleting: "cleanupAzureResources E n b w = (r, w') \<Longrightarrow> m \<notin> vwDeleting w \<Longrightarrow> m \<notin> vwDeleting w'"
  by (auto simp: cleanupAzureResources_def deleteVirtualMachineIfExists_def dest!: deleteVirtualMachine_quotas DeleteNicOf_deleting split: prod.splits sum.splits)

lemma Delete_deleting: "VM_Instances.Delete E cl n w = (r, w') \<Longrightarrow> m \<notin> vwDeleting w \<Longrightarrow> m \<notin> vwDeleting w'"
proof -
  assume d: "VM_Instances.Delete E cl n w = (r, w')" and m: "m \<notin> vwDeleting w"
  obtain g err w1 where i: "VM_Instances.deleteImpl E n w = ((g, err), w1)" by (metis prod.collapse)
  have "m \<notin> vwDeleting w1" using i m cleanup_deleting [of E n False w]
    by (auto simp: VM_Instances.deleteImpl_def Let_def dest!: DeleteNicOf_deleting split: prod.splits sum.splits option.splits if_splits instErr.splits list.splits)
  then show ?thesis using d i by (auto simp: VM_Instances.Delete_def split: if_splits)
qed

text \<open>The claim is deleted as the virtual machine \<open>n\<close>.\<close>

definition deletesVM :: "claim \<Rightarrow> string \<Rightarrow> bool" where
  "deletesVM cl n \<longleftrightarrow> GetAKSMachineNameFromNodeClaim cl = None \<and> GetVMName (ProviderID cl) = Inr n"

lemma CPDelete_vm:
  assumes "CPDelete E cl w = (r, w')"
  shows "deletesVM cl n \<Longrightarrow> \<exists>r0. VM_Instances.Delete (cpVMEnv E) cl n (cpVM w) = (r0, cpVM w') \<and> r = map_option (ofInst (cpLaunchText E) []) r0"
    and "(\<And>n. \<not> deletesVM cl n) \<Longrightarrow> vwAzure (cpVM w') = vwAzure (cpVM w) \<and> vwDeleting (cpVM w') = vwDeleting (cpVM w)"
  using assms by (auto simp: deletesVM_def CPDelete_def onVM_def onAKS_def split: prod.splits option.splits sum.splits)

lemma garbageCollect_CPDelete:
  assumes "garbageCollect E cl nodes w = (r, w')"
  obtains r0 w1 where "CPDelete E cl w = (r0, w1)" "cpVM w' = cpVM w1" "r = None \<Longrightarrow> r0 = None \<or> (\<exists>e. r0 = Some (CPClaimNotFound e))"
  using assms by (auto simp: garbageCollect_def split: prod.splits option.splits cpErr.splits)

lemma garbageCollect_spares:
  assumes "vm_provider (cpVMEnv E)" and "garbageCollect E cl nodes w = (r, w')" and "\<not> deletesVM cl m"
  shows "res_get (cVM (baseOf (cpVMEnv E))) (vwAzure (cpVM w')) m = res_get (cVM (baseOf (cpVMEnv E))) (vwAzure (cpVM w)) m"
  using assms(2)
proof (rule garbageCollect_CPDelete)
  fix r0 w1
  assume c: "CPDelete E cl w = (r0, w1)" and w': "cpVM w' = cpVM w1"
  show ?thesis
  proof (cases "\<exists>n. deletesVM cl n")
    case True
    then obtain n where n: "deletesVM cl n" by blast
    then have "m \<noteq> n" using assms(3) by auto
    with CPDelete_vm(1) [OF c n] show ?thesis using vm_provider.Delete_spares [OF assms(1)] w' by metis
  next
    case False
    with CPDelete_vm(2) [OF c] show ?thesis using w' by simp
  qed
qed

lemma collectAll_spares:
  assumes "vm_provider (cpVMEnv E)" and "\<And>cl. cl \<in> set cls \<Longrightarrow> collectible now ids cl \<Longrightarrow> \<not> deletesVM cl m"
  shows "res_get (cVM (baseOf (cpVMEnv E))) (vwAzure (cpVM (snd (collectAll E now ids nodes cls w)))) m = res_get (cVM (baseOf (cpVMEnv E))) (vwAzure (cpVM w)) m"
  using assms(2)
proof (induction cls arbitrary: w)
  case (Cons cl cls)
  obtain r w1 where g: "(if collectible now ids cl then garbageCollect E cl nodes w else (None, w)) = (r, w1)" by (rule prod.exhaust)
  have "res_get (cVM (baseOf (cpVMEnv E))) (vwAzure (cpVM w1)) m = res_get (cVM (baseOf (cpVMEnv E))) (vwAzure (cpVM w)) m"
    using g garbageCollect_spares [OF assms(1)] Cons.prems by (auto split: if_splits)
  with g show ?case using Cons.IH [of w1] Cons.prems by (simp add: case_prod_beta)
qed simp

lemma listCloudNodeClaims_cp_list:
  "listCloudNodeClaims E now g w = (r, g1, w1) \<Longrightarrow> cp_list E (expandedListDue now g) w = (r, w1)"
  by (auto simp: listCloudNodeClaims_def split: if_splits prod.splits)

lemma cp_list_state: "cp_list E b w = (r, w1) \<Longrightarrow> vwAzure (cpVM w1) = vwAzure (cpVM w) \<and> vwDeleting (cpVM w1) = vwDeleting (cpVM w) \<and> cpCluster w1 = cpCluster w"
  by (auto simp: cp_list_def onAKS_def Let_def split: prod.splits)

text \<open>What a round does once everything is listed.\<close>

lemma Reconcile_rounds:
  assumes "ReconcileInstances E now order g w = (r, g', w')"
  obtains "vwAzure (cpVM w') = vwAzure (cpVM w)" and "\<nexists>d. r = Inr (Inr d)"
  | cls w1 claims nodes where "cp_list E (expandedListDue now g) w = (Inr (Inr cls), w1)" and "k_claims (cpKube E) (cpCluster w) = Inr claims"
      and "w' = snd (collectAll E now (providerIDsOf claims) nodes (order (filter (\<lambda>cl. DeletionTimestamp cl = None \<or> isAKSMachineVMDeleted cl) cls)) w1)"
      and "\<And>d. r = Inr (Inr d) \<Longrightarrow> fst (collectAll E now (providerIDsOf claims) nodes (order (filter (\<lambda>cl. DeletionTimestamp cl = None \<or> isAKSMachineVMDeleted cl) cls)) w1) = []"
proof -
  obtain rl g1 w1 where l: "listCloudNodeClaims E now g w = (rl, g1, w1)" by (metis prod.collapse)
  have c: "cp_list E (expandedListDue now g) w = (rl, w1)" by (rule listCloudNodeClaims_cp_list [OF l])
  note st = cp_list_state [OF c]
  show thesis
  proof (cases "\<exists>cls claims nodes. rl = Inr (Inr cls) \<and> k_claims (cpKube E) (cpCluster w) = Inr claims \<and> k_nodes (cpKube E) (cpCluster w) = Inr nodes")
    case True
    then obtain cls claims nodes where t: "rl = Inr (Inr cls)" "k_claims (cpKube E) (cpCluster w) = Inr claims" "k_nodes (cpKube E) (cpCluster w) = Inr nodes" by blast
    let ?cs = "order (filter (\<lambda>cl. DeletionTimestamp cl = None \<or> isAKSMachineVMDeleted cl) cls)"
    obtain errs w2 where a: "collectAll E now (providerIDsOf claims) nodes ?cs w1 = (errs, w2)" by (rule prod.exhaust)
    have "w' = w2" "\<And>d. r = Inr (Inr d) \<Longrightarrow> errs = []"
      using assms l t a st by (cases errs; simp add: ReconcileInstances_def Let_def)+
    then show thesis using that(2) [of cls w1 claims nodes] c t a by simp
  next
    case False
    then have "w' = w1" "\<nexists>d. r = Inr (Inr d)" using assms l st by (auto simp: ReconcileInstances_def Let_def split: sum.splits)
    then show thesis using that(1) st by simp
  qed
qed

lemma machine_claim_is_machine:
  assumes "BuildNodeClaimFromAKSMachine IT now m its loc = Inr (Inr cl)"
  shows "\<not> deletesVM cl n"
proof -
  obtain ps where "validateRetrievedAKSMachineBasicProperties m = Inr ps" using assms by (auto simp: BuildNodeClaimFromAKSMachine_def split: sum.splits)
  then have "AMID m \<noteq> None" by (auto simp: validateRetrievedAKSMachineBasicProperties_def split: option.splits if_splits)
  with assms show ?thesis by (elim machine_claim) (auto simp: deletesVM_def GetAKSMachineNameFromNodeClaim_def)
qed

text \<open>The claims of a list that are deleted as a virtual machine are those of the listed virtual machine with that name.\<close>

lemma listed_vm_claim:
  assumes "cp_list E b w = (Inr (Inr cls), w1)" and "cl \<in> set cls" and "deletesVM cl n"
    and ids: "\<forall>vs. cpListVMs E (vwAzure (cpVM w)) = Inr vs \<longrightarrow> (\<forall>v \<in> set vs. \<exists>m. VMID v = Some (vmResourceID sub rg m) \<and> segment m)"
    and seg: "segment sub" "segment rg" "rg \<noteq> []" "\<not> Contains (''azure:///subscriptions/'' @ sub @ ''/resourceGroups/'' @ butlast rg) rg"
  obtains vs v it where "cpListVMs E (vwAzure (cpVM w)) = Inr vs" "v \<in> set vs" "VMID v = Some (vmResourceID sub rg n)"
    "vmInstanceToNodeClaim (veIT (cpVMEnv E)) (veNow (cpVMEnv E)) v it = Inr cl" "ProviderID cl = ''azure://'' @ vmResourceID sub (ToLower rg) n"
  using assms(1)
proof (rule cp_list_claims)
  fix ms vs cls1 cls2
  assume l: "cpListVMs E (vwAzure (cpVM w)) = Inr vs" "machineClaims E (cpCluster w) ms = Inr (Inr cls1)" "vmClaims E (cpCluster w) vs = Inr (Inr cls2)" "cls = cls1 @ cls2"
  have "cl \<notin> set cls1" using in_machineClaims [OF l(2)] machine_claim_is_machine assms(3) by blast
  then obtain v it where v: "v \<in> set vs" "vmInstanceToNodeClaim (veIT (cpVMEnv E)) (veNow (cpVMEnv E)) v it = Inr cl"
    using in_vmClaims [OF l(3), of cl] assms(2) l(4) by auto
  then obtain m where m: "VMID v = Some (vmResourceID sub rg m)" "segment m" using ids l(1) by blast
  note n = vm_claim_name [OF v(2) m(1) seg(1,2) m(2) seg(3,4)]
  then have "m = n" using assms(3) by (simp add: deletesVM_def)
  then show thesis using that l(1) v m n(3) by blast
qed

lemma vm_claim_state: "vmInstanceToNodeClaim IT now v it = Inr cl \<Longrightarrow> \<not> isAKSMachineVMDeleted cl"
  by (simp add: vm_claim(5) isAKSMachineVMDeleted_def)

lemma garbageCollect_keeps_gone:
  assumes "vm_provider (cpVMEnv E)" and "garbageCollect E cl nodes w = (r, w')"
    and "res_get (cVM (baseOf (cpVMEnv E))) (vwAzure (cpVM w)) n = Inl e" and "cNotFound (baseOf (cpVMEnv E)) e"
  shows "res_get (cVM (baseOf (cpVMEnv E))) (vwAzure (cpVM w')) n = Inl e"
  using assms(2)
proof (rule garbageCollect_CPDelete)
  fix r0 w1
  assume c: "CPDelete E cl w = (r0, w1)" and w': "cpVM w' = cpVM w1"
  show ?thesis
  proof (cases "deletesVM cl n")
    case True
    then show ?thesis using CPDelete_vm(1) [OF c True] vm_provider.Delete_keeps_gone [OF assms(1) _ assms(3,4)] w' by metis
  next
    case False
    then show ?thesis using garbageCollect_spares [OF assms(1,2)] assms(3) by simp
  qed
qed

lemma collectAll_keeps_gone:
  assumes "vm_provider (cpVMEnv E)"
  shows "res_get (cVM (baseOf (cpVMEnv E))) (vwAzure (cpVM w)) n = Inl e \<Longrightarrow> cNotFound (baseOf (cpVMEnv E)) e \<Longrightarrow>
    res_get (cVM (baseOf (cpVMEnv E))) (vwAzure (cpVM (snd (collectAll E now ids nodes cls w)))) n = Inl e"
proof (induction cls arbitrary: w)
  case (Cons cl cls)
  obtain r w1 where g: "(if collectible now ids cl then garbageCollect E cl nodes w else (None, w)) = (r, w1)" by (rule prod.exhaust)
  have "res_get (cVM (baseOf (cpVMEnv E))) (vwAzure (cpVM w1)) n = Inl e"
    using g garbageCollect_keeps_gone [OF assms, of cl nodes w] Cons.prems by (auto split: if_splits)
  with g show ?case using Cons.IH [of w1] Cons.prems by (simp add: case_prod_beta)
qed simp

lemma collectAll_removes:
  assumes "vm_provider (cpVMEnv E)"
  shows "fst (collectAll E now ids nodes cls w) = [] \<Longrightarrow> cl \<in> set cls \<Longrightarrow> collectible now ids cl \<Longrightarrow> deletesVM cl n \<Longrightarrow> n \<notin> vwDeleting (cpVM w) \<Longrightarrow>
    (\<And>v. res_get (cVM (baseOf (cpVMEnv E))) (vwAzure (cpVM w)) n = Inr v \<Longrightarrow> \<not> IsVMDeleting v) \<Longrightarrow>
    \<exists>e. res_get (cVM (baseOf (cpVMEnv E))) (vwAzure (cpVM (snd (collectAll E now ids nodes cls w)))) n = Inl e \<and> cNotFound (baseOf (cpVMEnv E)) e"
proof (induction cls arbitrary: w)
  case (Cons c cls)
  obtain r w1 where g: "(if collectible now ids c then garbageCollect E c nodes w else (None, w)) = (r, w1)" by (rule prod.exhaust)
  have r: "r = None" and rest: "fst (collectAll E now ids nodes cls w1) = []"
    using Cons.prems(1) g by (auto simp: case_prod_beta elim!: errList.elims)
  have snd: "snd (collectAll E now ids nodes (c # cls) w) = snd (collectAll E now ids nodes cls w1)" using g by (simp add: case_prod_beta)
  show ?case
  proof (cases "collectible now ids c \<and> deletesVM c n")
    case True
    then have gc: "garbageCollect E c nodes w = (r, w1)" using g by simp
    then obtain r0 w2 where d: "CPDelete E c w = (r0, w2)" "cpVM w1 = cpVM w2" "r0 = None \<or> (\<exists>e. r0 = Some (CPClaimNotFound e))"
      using r by (metis garbageCollect_CPDelete)
    obtain r1 where d1: "VM_Instances.Delete (cpVMEnv E) c n (cpVM w) = (r1, cpVM w1)" "r0 = map_option (ofInst (cpLaunchText E) []) r1"
      using CPDelete_vm(1) [OF d(1)] True d(2) by auto
    have "r1 = None \<or> (\<exists>e. r1 = Some (ClaimNotFound e))" using d(3) d1(2) by (cases r1) (auto simp: ofInst_def split: instErr.splits)
    from vm_provider.Delete_gone [OF assms d1(1) this Cons.prems(5)] Cons.prems(6) show ?thesis
      unfolding snd using collectAll_keeps_gone [OF assms] by metis
  next
    case False
    then have "cl \<in> set cls" using Cons.prems(2-4) by auto
    moreover have "n \<notin> vwDeleting (cpVM w1)"
    proof (cases "collectible now ids c")
      case True
      then obtain r0 w2 where d: "CPDelete E c w = (r0, w2)" "cpVM w1 = cpVM w2" using g by (metis garbageCollect_CPDelete)
      show ?thesis
      proof (cases "\<exists>m. deletesVM c m")
        case True
        then obtain m where "deletesVM c m" ..
        from CPDelete_vm(1) [OF d(1) this] show ?thesis using Delete_deleting Cons.prems(5) d(2) by metis
      next
        case False
        with CPDelete_vm(2) [OF d(1)] show ?thesis using Cons.prems(5) d(2) by simp
      qed
    qed (use g Cons.prems(5) in simp)
    moreover have "res_get (cVM (baseOf (cpVMEnv E))) (vwAzure (cpVM w1)) n = res_get (cVM (baseOf (cpVMEnv E))) (vwAzure (cpVM w)) n"
      using g garbageCollect_spares [OF assms, of c nodes w r w1] False by (auto split: if_splits)
    ultimately show ?thesis unfolding snd using Cons.IH [OF rest] Cons.prems(3,4,6) by simp
  qed
qed simp

text \<open>The times of the expanded lists among the rounds at the given times.\<close>

fun expandedLists :: "instanceCollector \<Rightarrow> time list \<Rightarrow> time list" where
  "expandedLists g [] = []"
| "expandedLists g (now # ts) =
     (if expandedListDue now g then now # expandedLists (g\<lparr>lastMachineVMStateListAttempt := now\<rparr>) ts else expandedLists g ts)"

lemma expandedLists_subset: "set (expandedLists g ts) \<subseteq> set ts"
  by (induction ts arbitrary: g) auto

lemma expandedLists_after:
  "0 < lastMachineVMStateListAttempt g \<Longrightarrow> sorted_wrt (\<le>) (lastMachineVMStateListAttempt g # ts) \<Longrightarrow>
    sorted_wrt (\<lambda>a b. a + AKSMachineVMStateListInterval \<le> b) (lastMachineVMStateListAttempt g # expandedLists g ts)"
proof (induction ts arbitrary: g)
  case (Cons now ts)
  show ?case
  proof (cases "expandedListDue now g")
    case True
    let ?g = "g\<lparr>lastMachineVMStateListAttempt := now\<rparr>"
    have "sorted_wrt (\<lambda>a b. a + AKSMachineVMStateListInterval \<le> b) (now # expandedLists ?g ts)" using Cons.IH [of ?g] Cons.prems by simp
    moreover have "lastMachineVMStateListAttempt g + AKSMachineVMStateListInterval \<le> now" using True Cons.prems(1) by (simp add: expandedListDue_def)
    moreover have "0 \<le> AKSMachineVMStateListInterval" by (simp add: AKSMachineVMStateListInterval_def Minute_def Second_def)
    ultimately show ?thesis using True by force
  next
    case False
    then show ?thesis using Cons by simp
  qed
qed simp

subsection \<open>A concrete round\<close>

definition ex_listed_vm :: vm where
  "ex_listed_vm = (ex_vm_of [])\<lparr>VMID := Some (vmResourceID ''s'' ''rg'' ''aks-m'')\<rparr>"

lemma ex_listed: "cpListVMs ex_cp_env (vwAzure (cpVM (ex_cp_world ([''aks-m'' \<mapsto> ex_listed_vm], Map.empty, Map.empty)))) = Inr [ex_listed_vm]" "VMID ex_listed_vm = Some (vmResourceID ''s'' ''rg'' ''aks-m'')"
  "\<not> IsVMDeleting ex_listed_vm" "Option.bind (VMProps ex_listed_vm) TimeCreated = Some 0"
  by (simp_all add: ex_listed_vm_def ex_vm_of_def IsVMDeleting_def)

lemma ex_segments: "segment ''s''" "segment ''rg''" "segment ''aks-m''" "\<not> Contains (''azure:///subscriptions/'' @ ''s'' @ ''/resourceGroups/'' @ butlast ''rg'') ''rg''"
  by (simp_all add: segment_def HasPrefix_def)

lemma ex_round:
  obtains cl w1 where "\<forall>b. cp_list ex_cp_env b (ex_cp_world ([''aks-m'' \<mapsto> ex_listed_vm], Map.empty, Map.empty)) = (Inr (Inr [cl]), w1)"
    "vmInstanceToNodeClaim (veIT (cpVMEnv ex_cp_env)) (veNow (cpVMEnv ex_cp_env)) ex_listed_vm None = Inr cl"
proof -
  let ?w = "ex_cp_world ([''aks-m'' \<mapsto> ex_listed_vm], Map.empty, Map.empty)"
  have l: "AKS_Instances.List (cpAKSEnv ex_cp_env) False b (cpAKS ?w) = (Inr [], cpAKS ?w)" for b by (simp add: List_def ex_cp_env_def)
  obtain cl where cl: "vmInstanceToNodeClaim (veIT (cpVMEnv ex_cp_env)) (veNow (cpVMEnv ex_cp_env)) ex_listed_vm None = Inr cl"
    by (auto simp: vmInstanceToNodeClaim_def ex_listed_vm_def ex_vm_of_def tagOf_def Let_def)
  then have "vmClaims ex_cp_env {''m''} [ex_listed_vm] = Inr (Inr [cl])"
    by (simp add: claimOfVM_def resolveInstanceTypeFromVMInstance_def resolveNodePoolFromVMInstance_def poolOfTags_def tagOf_def ex_listed_vm_def ex_vm_of_def wrapKube_def IgnoreNotFound_def)
  then have "cp_list ex_cp_env b ?w = (Inr (Inr [cl]), ?w\<lparr>cpVM := (cpVM ?w)\<lparr>vwQuotas := quotas (cpAKS ?w), vwOffs := offs (cpAKS ?w)\<rparr>\<rparr>)" for b
    using l [of b] by (simp add: cp_list_def onAKS_def Let_def)
  then show thesis using that cl by blast
qed

subsection \<open>Properties\<close>

text \<open>
  C2: The collector never deletes a virtual machine that a claim of the cluster refers to, nor one that is not older than five minutes, where a machine without a creation time counts as new:
  whatever the lists say about other instances, and in whatever order the deletions run, that machine is afterwards as it was before.
\<close>

theorem collector_spares_claimed_and_young_vms:
  assumes "vm_provider (cpVMEnv E)"
    and "segment sub" and "segment rg" and "rg \<noteq> []" and "\<not> Contains (''azure:///subscriptions/'' @ sub @ ''/resourceGroups/'' @ butlast rg) rg"
    and "\<forall>vs. cpListVMs E (vwAzure (cpVM w)) = Inr vs \<longrightarrow> (\<forall>v \<in> set vs. \<exists>m. VMID v = Some (vmResourceID sub rg m) \<and> segment m)"
    and "\<forall>xs. set (order xs) \<subseteq> set xs"
    and "(\<exists>claims c. k_claims (cpKube E) (cpCluster w) = Inr claims \<and> c \<in> set claims \<and> ProviderID c = ''azure://'' @ vmResourceID sub (ToLower rg) n) \<or>
      (\<forall>vs. cpListVMs E (vwAzure (cpVM w)) = Inr vs \<longrightarrow> (\<forall>v \<in> set vs. VMID v = Some (vmResourceID sub rg n) \<longrightarrow>
        now - (case Option.bind (VMProps v) TimeCreated of Some t \<Rightarrow> t | None \<Rightarrow> veNow (cpVMEnv E)) \<le> 5 * Minute))"
    and "ReconcileInstances E now order g w = (r, g', w')"
  shows "res_get (cVM (baseOf (cpVMEnv E))) (vwAzure (cpVM w')) n = res_get (cVM (baseOf (cpVMEnv E))) (vwAzure (cpVM w)) n"
  using assms(9)
proof (rule Reconcile_rounds)
  fix cls w1 claims nodes
  let ?cs = "order (filter (\<lambda>cl. DeletionTimestamp cl = None \<or> isAKSMachineVMDeleted cl) cls)"
  assume l: "cp_list E (expandedListDue now g) w = (Inr (Inr cls), w1)" and k: "k_claims (cpKube E) (cpCluster w) = Inr claims"
    and w': "w' = snd (collectAll E now (providerIDsOf claims) nodes ?cs w1)"
  have "\<not> deletesVM cl n" if cl: "cl \<in> set ?cs" "collectible now (providerIDsOf claims) cl" for cl
  proof
    assume d: "deletesVM cl n"
    have "cl \<in> set cls" using cl(1) assms(7) by fastforce
    from listed_vm_claim [OF l this d assms(6,2,3,4,5)] obtain vs v it where v: "cpListVMs E (vwAzure (cpVM w)) = Inr vs" "v \<in> set vs"
      "VMID v = Some (vmResourceID sub rg n)" "vmInstanceToNodeClaim (veIT (cpVMEnv E)) (veNow (cpVMEnv E)) v it = Inr cl"
      "ProviderID cl = ''azure://'' @ vmResourceID sub (ToLower rg) n" .
    have c: "ProviderID cl \<notin> providerIDsOf claims" "now - CreationTimestamp cl > 5 * Minute"
      using cl(2) vm_claim_state [OF v(4)] by (simp_all add: collectible_def)
    have "(case Option.bind (VMProps v) TimeCreated of Some t \<Rightarrow> t | None \<Rightarrow> veNow (cpVMEnv E)) = CreationTimestamp cl" using vm_claim(8) [OF v(4)] by simp
    then have "\<exists>c \<in> set claims. ProviderID c = ProviderID cl" using assms(8) k v c(2) by fastforce
    then obtain c0 where "c0 \<in> set claims" "ProviderID c0 = ProviderID cl" by blast
    moreover have "ProviderID cl \<noteq> []" using v(5) by simp
    ultimately have "ProviderID cl \<in> providerIDsOf claims" by (simp add: providerIDsOf_def) (metis imageI)
    then show False using c(1) by simp
  qed
  then show ?thesis using collectAll_spares [OF assms(1), of ?cs] cp_list_state [OF l] w' by simp
qed simp

theorem collector_spares_claimed_and_young_vms_witness:
  "res_get (cVM mem_cloud) (vwAzure (cpVM (snd (snd (ReconcileInstances ex_cp_env Minute (\<lambda>xs. xs) \<lparr>lastMachineVMStateListAttempt = 0\<rparr>
     (ex_cp_world ([''aks-m'' \<mapsto> ex_listed_vm], Map.empty, Map.empty))))))) ''aks-m'' = Inr ex_listed_vm"
proof -
  let ?w = "ex_cp_world ([''aks-m'' \<mapsto> ex_listed_vm], Map.empty, Map.empty)"
  obtain r g' w' where rec: "ReconcileInstances ex_cp_env Minute (\<lambda>xs. xs) \<lparr>lastMachineVMStateListAttempt = 0\<rparr> ?w = (r, g', w')" by (metis prod.collapse)
  have vm: "vm_provider (cpVMEnv ex_cp_env)" using ex_vm.vm_provider_axioms by simp
  have "res_get (cVM (baseOf (cpVMEnv ex_cp_env))) (vwAzure (cpVM w')) ''aks-m'' = res_get (cVM (baseOf (cpVMEnv ex_cp_env))) (vwAzure (cpVM ?w)) ''aks-m''"
    by (rule collector_spares_claimed_and_young_vms [OF vm ex_segments(1,2) _ ex_segments(4) _ _ _ rec])
       (use ex_listed ex_segments(3) in \<open>auto simp: Minute_def Second_def\<close>)
  then show ?thesis using rec by (simp add: mem_cloud_def mem_resource_def)
qed

text \<open>
  C10: A round that ends without an error has collected every orphan: a listed virtual machine that is older than five minutes, is not being deleted already and has no claim in the cluster is
  gone afterwards, in whatever order the deletions ran.
\<close>

theorem orphaned_vms_are_collected:
  assumes "vm_provider (cpVMEnv E)"
    and "segment sub" and "segment rg" and "rg \<noteq> []" and "\<not> Contains (''azure:///subscriptions/'' @ sub @ ''/resourceGroups/'' @ butlast rg) rg"
    and "cp_list E (expandedListDue now g) w = (Inr (Inr cls), w1)" and "k_claims (cpKube E) (cpCluster w) = Inr claims" and "\<forall>xs. set (order xs) = set xs"
    and "cl \<in> set cls" and "vmInstanceToNodeClaim (veIT (cpVMEnv E)) (veNow (cpVMEnv E)) v it = Inr cl" and "VMID v = Some (vmResourceID sub rg n)" and "segment n"
    and "\<not> IsVMDeleting v" and "now - CreationTimestamp cl > 5 * Minute" and "\<forall>c \<in> set claims. ProviderID c \<noteq> ProviderID cl"
    and "n \<notin> vwDeleting (cpVM w)" and "\<forall>x. res_get (cVM (baseOf (cpVMEnv E))) (vwAzure (cpVM w)) n = Inr x \<longrightarrow> \<not> IsVMDeleting x"
    and "ReconcileInstances E now order g w = (Inr (Inr d), g', w')"
  shows "\<exists>e. res_get (cVM (baseOf (cpVMEnv E))) (vwAzure (cpVM w')) n = Inl e \<and> cNotFound (baseOf (cpVMEnv E)) e"
  using assms(18)
proof (rule Reconcile_rounds)
  fix cls' w1' claims' nodes
  let ?cs = "order (filter (\<lambda>cl. DeletionTimestamp cl = None \<or> isAKSMachineVMDeleted cl) cls')"
  assume l: "cp_list E (expandedListDue now g) w = (Inr (Inr cls'), w1')" and k: "k_claims (cpKube E) (cpCluster w) = Inr claims'"
    and w': "w' = snd (collectAll E now (providerIDsOf claims') nodes ?cs w1')"
    and ok: "\<And>d'. Inr (Inr d) = Inr (Inr d') \<Longrightarrow> fst (collectAll E now (providerIDsOf claims') nodes ?cs w1') = []"
  have eq: "cls' = cls" "w1' = w1" "claims' = claims" using l k assms(6,7) by simp_all
  note name = vm_claim_name [OF assms(10,11,2,3,12,4,5)]
  have "DeletionTimestamp cl = None" using vm_claim(6) [OF assms(10)] assms(13) by simp
  then have "cl \<in> set ?cs" using assms(8,9) eq by simp
  moreover have "collectible now (providerIDsOf claims') cl" using assms(14,15) eq by (auto simp: collectible_def providerIDsOf_def)
  moreover have "deletesVM cl n" using name by (simp add: deletesVM_def)
  moreover note ok cp_list_state [OF l]
  ultimately show ?thesis using collectAll_removes [OF assms(1), of now "providerIDsOf claims'" nodes ?cs w1' cl n] assms(16,17) w' by simp
qed simp

theorem orphaned_vms_are_collected_witness:
  "\<exists>d g' w' e. ReconcileInstances ex_cp_env Hour (\<lambda>xs. xs) \<lparr>lastMachineVMStateListAttempt = 0\<rparr> (ex_cp_world ([''aks-m'' \<mapsto> ex_listed_vm], Map.empty, Map.empty)) =
     (Inr (Inr d), g', w') \<and> res_get (cVM mem_cloud) (vwAzure (cpVM w')) ''aks-m'' = Inl e"
proof -
  let ?w = "ex_cp_world ([''aks-m'' \<mapsto> ex_listed_vm], Map.empty, Map.empty)" and ?g = "\<lparr>lastMachineVMStateListAttempt = 0\<rparr>"
  obtain cl w1 where "\<forall>b. cp_list ex_cp_env b ?w = (Inr (Inr [cl]), w1)"
    and cl: "vmInstanceToNodeClaim (veIT (cpVMEnv ex_cp_env)) (veNow (cpVMEnv ex_cp_env)) ex_listed_vm None = Inr cl" by (rule ex_round)
  then have l: "cp_list ex_cp_env b ?w = (Inr (Inr [cl]), w1)" for b by blast
  note name = vm_claim_name [OF cl ex_listed(2) ex_segments(1,2,3) _ ex_segments(4)]
  have age: "Hour - CreationTimestamp cl > 5 * Minute" using vm_claim(8) [OF cl] ex_listed(4) by (simp add: Hour_def Minute_def Second_def)
  have del: "DeletionTimestamp cl = None" using vm_claim(6) [OF cl] ex_listed(3) by simp
  have st: "vwAzure (cpVM w1) = vwAzure (cpVM ?w)" "vwDeleting (cpVM w1) = {}" "cpCluster w1 = {''m''}" using cp_list_state [OF l [of True]] by simp_all
  have "\<exists>w2. CPDelete ex_cp_env cl w1 = (None, w2)"
    using ex_vm_gone [of "cpVM w1" "''aks-m''" ex_listed_vm] st ex_listed(3) name by (auto simp: CPDelete_def onVM_def VM_Instances.Delete_def)
  then obtain w2 where "collectAll ex_cp_env Hour {} [] [cl] w1 = ([], w2)" using age by (auto simp: collectible_def garbageCollect_def)
  then have rec: "ReconcileInstances ex_cp_env Hour (\<lambda>xs. xs) ?g ?w = (Inr (Inr (2 * Minute)), ?g\<lparr>lastMachineVMStateListAttempt := Hour\<rparr>, w2)"
    using l [of True] del st by (simp add: ReconcileInstances_def listCloudNodeClaims_def expandedListDue_def mem_kube_def providerIDsOf_def)
  have vm: "vm_provider (cpVMEnv ex_cp_env)" using ex_vm.vm_provider_axioms by simp
  have "\<exists>e. res_get (cVM (baseOf (cpVMEnv ex_cp_env))) (vwAzure (cpVM w2)) ''aks-m'' = Inl e \<and> cNotFound (baseOf (cpVMEnv ex_cp_env)) e"
    by (rule orphaned_vms_are_collected [OF vm ex_segments(1,2) _ ex_segments(4) l _ _ _ cl ex_listed(2) ex_segments(3) ex_listed(3) age _ _ _ rec])
       (use ex_listed(3) in \<open>auto simp: mem_kube_def mem_cloud_def mem_resource_def\<close>)
  then show ?thesis using rec by auto
qed

text \<open>
  The lists that ask Azure for the states of the virtual machines are at least five minutes apart, however often the collector runs and also when they fail.
\<close>

theorem expanded_lists_keep_their_distance:
  assumes "sorted_wrt (\<le>) ts" and "\<forall>t \<in> set ts. 0 < t"
  shows "sorted_wrt (\<lambda>a b. a + 5 * Minute \<le> b) (expandedLists \<lparr>lastMachineVMStateListAttempt = 0\<rparr> ts)"
  using assms
proof (cases ts)
  case (Cons t ts')
  let ?g = "\<lparr>lastMachineVMStateListAttempt = t\<rparr>"
  have "sorted_wrt (\<lambda>a b. a + AKSMachineVMStateListInterval \<le> b) (lastMachineVMStateListAttempt ?g # expandedLists ?g ts')"
    by (rule expandedLists_after) (use assms Cons in simp_all)
  then show ?thesis using Cons by (simp add: expandedListDue_def AKSMachineVMStateListInterval_def)
qed simp

theorem expanded_lists_keep_their_distance_witness:
  "sorted_wrt (\<lambda>a b. a + 5 * Minute \<le> b) (expandedLists \<lparr>lastMachineVMStateListAttempt = 0\<rparr> [1, 2 * Minute, 7 * Minute])"
  by (rule expanded_lists_keep_their_distance) (simp_all add: Minute_def Second_def)

end
