(* ===== verification/In_Place_Update.thy ===== *)
theory In_Place_Update
  imports Cloud_Provider
begin

text \<open>
  The tags of an instance (src/pkg/providers/launchtemplate/tags.go) and the controller that brings the tags and identities of running instances up to date
  (src/pkg/controllers/nodeclaim/inplaceupdate). A Go map is walked in an unspecified order, given by \<open>rng\<close>; the JSON encoding is the argument \<open>marshal\<close> and
  works on the contents of the maps, which it sorts. The copy of a machine that is made for a log line can fail, which is the argument \<open>copyErr\<close>.

  Shown here: a patch brings an instance exactly to the goal and never removes an identity; a reconciled claim is not touched again; a claim that is being deleted or is not yet
  registered is left alone; a failed update is retried because the recorded hash stays as it was.
\<close>

subsection \<open>Tags\<close>

definition BillingTagKey :: string where
  "BillingTagKey = ''compute.aks.billing''"

definition BillingTagValueLinux :: string where
  "BillingTagValueLinux = ''linux''"

definition tagKey :: "string \<Rightarrow> string" where
  "tagKey k = map (\<lambda>c. if c = CHR ''/'' then CHR ''_'' else c) k"

definition mapTags :: "string \<Rightarrow> string \<Rightarrow> string \<times> string option" where
  "mapTags k v = (tagKey k, Some v)"

text \<open>\<open>lo.MapEntries\<close> and \<open>lo.Assign\<close>: the last entry of a key wins.\<close>

definition updateAll :: "('k, 'v) gomap \<Rightarrow> ('k \<times> 'v) list \<Rightarrow> ('k, 'v) gomap" where
  "updateAll m es = foldl (\<lambda>m (k, v). AList.update k v m) m es"

definition MapEntries :: "(('k \<times> 'v) list \<Rightarrow> ('k \<times> 'v) list) \<Rightarrow> ('k \<Rightarrow> 'v \<Rightarrow> 'l \<times> 'u) \<Rightarrow> ('k, 'v) gomap \<Rightarrow> ('l, 'u) gomap" where
  "MapEntries rng f m = updateAll [] (map (\<lambda>(k, v). f k v) (rng m))"

definition Assign :: "('k, 'v) gomap list \<Rightarrow> ('k, 'v) gomap" where
  "Assign ms = foldl updateAll [] ms"

definition Tags :: "((string \<times> string) list \<Rightarrow> (string \<times> string) list) \<Rightarrow> vm_options \<Rightarrow> 'c nodeClass \<Rightarrow> claim \<Rightarrow> (string, string option) gomap" where
  "Tags rng opts nc cl =
     (let defaultTags = [(KarpenterManagedTagKey, optClusterName opts), (BillingTagKey, BillingTagValueLinux)] @
            (case Labels cl NodePoolLabelKey of None \<Rightarrow> [] | Some v \<Rightarrow> [(NodePoolTagKey, v)])
      in Assign [MapEntries rng mapTags (optAdditionalTags opts), MapEntries rng mapTags (SpecTags nc), MapEntries rng mapTags defaultTags])"

definition ConfigureAKSMachineTags :: "((string \<times> string) list \<Rightarrow> (string \<times> string) list) \<Rightarrow> vm_options \<Rightarrow> 'c nodeClass \<Rightarrow> claim \<Rightarrow> (string, string option) gomap" where
  "ConfigureAKSMachineTags rng opts nc cl = AList.update KarpenterAKSMachineNodeClaimTagKey (Some (NCName cl)) (Tags rng opts nc cl)"

subsection \<open>The goal hash\<close>

datatype inPlaceFields = MachineFields "string \<rightharpoonup> string" | VMFields "string set" "string \<rightharpoonup> string"

definition fnv32a :: "string \<Rightarrow> 32 word" where
  "fnv32a s = foldl (\<lambda>h c. (xor h (of_nat (of_char c))) * 16777619) 2166136261 s"

definition CalculateHash :: "(inPlaceFields \<Rightarrow> string result) \<Rightarrow> inPlaceFields \<Rightarrow> string result" where
  "CalculateHash marshal d = (case marshal d of Inl e \<Rightarrow> Inl e | Inr encoded \<Rightarrow> Inr (Itoa (uint (fnv32a encoded))))"

definition HashFromNodeClaim :: "(inPlaceFields \<Rightarrow> string result) \<Rightarrow> ((string \<times> string) list \<Rightarrow> (string \<times> string) list) \<Rightarrow> vm_options \<Rightarrow> claim \<Rightarrow> 'c nodeClass \<Rightarrow> string result" where
  "HashFromNodeClaim marshal rng opts cl nc =
     (let tags = (\<lambda>k. map_option FromPtr (map_of (Tags rng opts nc cl) k)) in
      CalculateHash marshal
        (case GetAKSMachineNameFromNodeClaim cl of Some _ \<Rightarrow> MachineFields tags | None \<Rightarrow> VMFields (set (optNodeIdentities opts)) tags))"

subsection \<open>Patches\<close>

definition stringPtrEqual :: "string option \<Rightarrow> string option \<Rightarrow> bool" where
  "stringPtrEqual v1 v2 \<longleftrightarrow> v1 = v2"

definition tagsEqual :: "(string, string option) gomap \<Rightarrow> (string, string option) gomap option \<Rightarrow> bool" where
  "tagsEqual expected current =
     (let cur = (case current of None \<Rightarrow> [] | Some m \<Rightarrow> m) in
      length expected = length cur \<and> (\<forall>(k, v) \<in> set expected. case map_of cur k of None \<Rightarrow> False | Some v' \<Rightarrow> stringPtrEqual v v'))"

definition patchVMIdentities :: "vm_options \<Rightarrow> vm \<Rightarrow> vmUpdate \<Rightarrow> bool \<times> vmUpdate" where
  "patchVMIdentities opts v upd =
     (let current = (case VMIdentity v of None \<Rightarrow> [] | Some ids \<Rightarrow> ids);
          toAdd = filter (\<lambda>i. i \<notin> set current) (optNodeIdentities opts)
      in if toAdd = [] then (False, upd) else (True, upd\<lparr>upIdentity := ConvertToVirtualMachineIdentity toAdd\<rparr>))"

definition patchVMTags :: "(string, string option) gomap \<Rightarrow> vm \<Rightarrow> vmUpdate \<Rightarrow> bool \<times> vmUpdate" where
  "patchVMTags expectedTags v upd = (if tagsEqual expectedTags (VMTags v) then (False, upd) else (True, upd\<lparr>upTags := Some expectedTags\<rparr>))"

fun runPatchers :: "('x \<Rightarrow> bool \<times> 'x) list \<Rightarrow> 'x \<Rightarrow> bool \<times> 'x" where
  "runPatchers [] x = (False, x)"
| "runPatchers (p # ps) x = (let (patched, x1) = p x; (rest, x2) = runPatchers ps x1 in (patched \<or> rest, x2))"

definition CalculateVMPatch :: "((string \<times> string) list \<Rightarrow> (string \<times> string) list) \<Rightarrow> vm_options \<Rightarrow> claim \<Rightarrow> 'c nodeClass \<Rightarrow> vm \<Rightarrow> vmUpdate option" where
  "CalculateVMPatch rng opts cl nc v =
     (let (hasPatches, upd) = runPatchers [patchVMIdentities opts v, patchVMTags (Tags rng opts nc cl) v] \<lparr>upTags = None, upIdentity = None\<rparr>
      in if hasPatches then Some upd else None)"

definition patchAKSMachineTags :: "(string, string option) gomap \<Rightarrow> aksMachine \<Rightarrow> bool \<times> aksMachine" where
  "patchAKSMachineTags expectedTags m =
     (case AMProperties m of
        None \<Rightarrow> if expectedTags = [] then (False, m) else (True, m\<lparr>AMProperties := Some (noProperties\<lparr>AMTags := Some expectedTags\<rparr>)\<rparr>)
      | Some p \<Rightarrow> if tagsEqual expectedTags (AMTags p) then (False, m) else (True, m\<lparr>AMProperties := Some (p\<lparr>AMTags := Some expectedTags\<rparr>)\<rparr>))"

definition CalculateAKSMachinePatch :: "((string \<times> string) list \<Rightarrow> (string \<times> string) list) \<Rightarrow> vm_options \<Rightarrow> claim \<Rightarrow> 'c nodeClass \<Rightarrow> aksMachine \<Rightarrow> bool \<times> aksMachine" where
  "CalculateAKSMachinePatch rng opts cl nc m = runPatchers [patchAKSMachineTags (ConfigureAKSMachineTags rng opts nc cl)] m"

subsection \<open>The controller\<close>

record ('a, 'b, 'k, 's, 'f, 'r, 'c, 'q) in_place_env =
  ipProvider :: "('a, 'b, 'k, 's, 'f, 'r, 'c, 'q) cp_env"
  ipRange :: "(string \<times> string) list \<Rightarrow> (string \<times> string) list"
  ipMarshal :: "inPlaceFields \<Rightarrow> string result"
  ipCopyErr :: "aksMachine \<Rightarrow> error option"

definition ipOptions :: "('a, 'b, 'k, 's, 'f, 'r, 'c, 'q) in_place_env \<Rightarrow> vm_options" where
  "ipOptions G = veOptions (cpVMEnv (ipProvider G))"

definition GetVM :: "(launch_error \<Rightarrow> error) \<Rightarrow> ('b, 'k, 's, 'f, 'r, 'c) vm_env \<Rightarrow> claim \<Rightarrow> ('b, 'k, 's, 'f) vm_world \<Rightarrow> error + vm" where
  "GetVM launchText E cl w =
     (case GetVMName (ProviderID cl) of
        Inl e \<Rightarrow> Inl e
      | Inr vmName \<Rightarrow> (case VM_Instances.Get E vmName w of Inl e \<Rightarrow> Inl (''getting azure VM '' @ vmName @ '': '' @ instText launchText e) | Inr v \<Rightarrow> Inr v))"

definition applyVMPatch :: "('a, 'b, 'k, 's, 'f, 'r, 'c, 'q) in_place_env \<Rightarrow> claim \<Rightarrow> 'c nodeClass \<Rightarrow> vm \<Rightarrow> ('a, 'b, 'k, 's, 'f, 'q) cp_world
    \<Rightarrow> error option \<times> ('a, 'b, 'k, 's, 'f, 'q) cp_world" where
  "applyVMPatch G cl nc v w =
     (case CalculateVMPatch (ipRange G) (ipOptions G) cl nc v of
        None \<Rightarrow> (None, w)
      | Some upd \<Rightarrow>
          (case onVM (VM_Instances.Update (cpVMEnv (ipProvider G)) (FromPtr (VMName v)) upd) w of
             (Some e, w1) \<Rightarrow> (Some (''failed to apply update to VM, '' @ e), w1)
           | (None, w1) \<Rightarrow> (None, w1)))"

definition processVMInstance :: "('a, 'b, 'k, 's, 'f, 'r, 'c, 'q) in_place_env \<Rightarrow> claim \<Rightarrow> 'c nodeClass \<Rightarrow> ('a, 'b, 'k, 's, 'f, 'q) cp_world
    \<Rightarrow> error option \<times> ('a, 'b, 'k, 's, 'f, 'q) cp_world" where
  "processVMInstance G cl nc w =
     (case GetVM (cpLaunchText (ipProvider G)) (cpVMEnv (ipProvider G)) cl (cpVM w) of
        Inl e \<Rightarrow> (Some (''getting VM for nodeClaim '' @ NCName cl @ '': '' @ e), w)
      | Inr v \<Rightarrow>
          (case applyVMPatch G cl nc v w of
             (Some e, w1) \<Rightarrow> (Some (''applying patch to VM for nodeClaim '' @ NCName cl @ '': '' @ e), w1)
           | (None, w1) \<Rightarrow> (None, w1)))"

definition applyAKSMachinePatch :: "('a, 'b, 'k, 's, 'f, 'r, 'c, 'q) in_place_env \<Rightarrow> claim \<Rightarrow> 'c nodeClass \<Rightarrow> string \<Rightarrow> aksMachine \<Rightarrow> ('a, 'b, 'k, 's, 'f, 'q) cp_world
    \<Rightarrow> error option \<times> ('a, 'b, 'k, 's, 'f, 'q) cp_world" where
  "applyAKSMachinePatch G cl nc name m w =
     (case ipCopyErr G m of
        Some e \<Rightarrow> (Some (''failed to unmarshal original AKS machine for comparison: '' @ e), w)
      | None \<Rightarrow>
          let (patchExists, m') = CalculateAKSMachinePatch (ipRange G) (ipOptions G) cl nc m in
          if \<not> patchExists then (None, w)
          else case onAKS (AKS_Instances.Update (cpAKSEnv (ipProvider G)) name m' (Option.bind (AMProperties m') AMETag)) w of
            (Some e, w1) \<Rightarrow> (Some (''failed to apply update to AKS machine '' @ name @ '', '' @ instText (cpLaunchText (ipProvider G)) e), w1)
          | (None, w1) \<Rightarrow> (None, w1))"

definition processAKSMachineInstance :: "('a, 'b, 'k, 's, 'f, 'r, 'c, 'q) in_place_env \<Rightarrow> claim \<Rightarrow> 'c nodeClass \<Rightarrow> string \<Rightarrow> ('a, 'b, 'k, 's, 'f, 'q) cp_world
    \<Rightarrow> error option \<times> ('a, 'b, 'k, 's, 'f, 'q) cp_world" where
  "processAKSMachineInstance G cl nc name w =
     (case onAKS (AKS_Instances.Get (cpAKSEnv (ipProvider G)) name False) w of
        (Inl e, w1) \<Rightarrow> (Some (''getting AKS machine '' @ name @ '' from instance provider: '' @ instText (cpLaunchText (ipProvider G)) e), w1)
      | (Inr m, w1) \<Rightarrow>
          (case applyAKSMachinePatch G cl nc name m w1 of
             (Some e, w2) \<Rightarrow> (Some (''applying patch to AKS machine for nodeClaim '' @ NCName cl @ '': '' @ e), w2)
           | (None, w2) \<Rightarrow> (None, w2)))"

text \<open>Whether to go on, and after which time to come back.\<close>

definition shouldProcess :: "claim \<Rightarrow> bool \<times> duration" where
  "shouldProcess cl =
     (if DeletionTimestamp cl \<noteq> None then (False, 0)
      else if \<not> Registered cl then (False, 60 * Second)
      else if ProviderID cl = [] then (False, 60 * Second)
      else (True, 0))"

definition withHash :: "string \<Rightarrow> claim \<Rightarrow> claim" where
  "withHash h cl = cl\<lparr>Annotations := (Annotations cl)(AnnotationInPlaceUpdateHash \<mapsto> h)\<rparr>"

definition InPlaceReconcile :: "('a, 'b, 'k, 's, 'f, 'r, 'c, 'q) in_place_env \<Rightarrow> claim \<Rightarrow> ('a, 'b, 'k, 's, 'f, 'q) cp_world \<Rightarrow> duration result \<times> ('a, 'b, 'k, 's, 'f, 'q) cp_world" where
  "InPlaceReconcile G cl w =
     (case GetAKSNodeClass (cpKube (ipProvider G)) (cpCluster w) cl of
        Inl e \<Rightarrow> (Inl (''resolving AKSNodeClass, '' @ kubeText e), w)
      | Inr nc \<Rightarrow>
        case HashFromNodeClaim (ipMarshal G) (ipRange G) (ipOptions G) cl nc of
          Inl e \<Rightarrow> (Inl e, w)
        | Inr goalHash \<Rightarrow>
            if goalHash = FromPtr (Annotations cl AnnotationInPlaceUpdateHash) then (Inr 0, w)
            else let (go, after) = shouldProcess cl in
              if \<not> go then (Inr after, w)
              else case (case GetAKSMachineNameFromNodeClaim cl of
                           Some name \<Rightarrow> (let (r, w1) = processAKSMachineInstance G cl nc name w in
                             (map_option (\<lambda>e. ''processing AKS machine instance for nodeClaim '' @ NCName cl @ '': '' @ e) r, w1))
                         | None \<Rightarrow> (let (r, w1) = processVMInstance G cl nc w in
                             (map_option (\<lambda>e. ''processing VM instance for nodeClaim '' @ NCName cl @ '': '' @ e) r, w1))) of
                (Some e, w1) \<Rightarrow> (Inl e, w1)
              | (None, w1) \<Rightarrow>
                  (case k_patchClaim (cpKube (ipProvider G)) cl (withHash goalHash cl) (cpCluster w1) of
                     (Some e, q) \<Rightarrow> (case IgnoreNotFound e of Some t \<Rightarrow> Inl t | None \<Rightarrow> Inr 0, w1\<lparr>cpCluster := q\<rparr>)
                   | (None, q) \<Rightarrow> (Inr 0, w1\<lparr>cpCluster := q\<rparr>)))"

subsection \<open>Facts\<close>

lemma map_of_updateAll: "map_of (updateAll m es) = map_of m ++ map_of (rev es)"
  by (induction es arbitrary: m) (auto simp: updateAll_def update_conv' map_add_def split: option.splits)

lemma distinct_updateAll [simp]: "distinct (map fst m) \<Longrightarrow> distinct (map fst (updateAll m es))"
  by (induction es arbitrary: m) (auto simp: updateAll_def)

lemma distinct_MapEntries [simp]: "distinct (map fst (MapEntries rng f m))"
  by (simp add: MapEntries_def)

lemma distinct_Tags [simp]: "distinct (map fst (Tags rng opts nc cl))"
  by (simp add: Tags_def Assign_def Let_def)

lemma distinct_machine_tags [simp]: "distinct (map fst (ConfigureAKSMachineTags rng opts nc cl))"
  by (simp add: ConfigureAKSMachineTags_def)

text \<open>Comparing by length and by the entries of one side is comparing the maps.\<close>

definition tagsOf :: "(string, string option) gomap option \<Rightarrow> (string, string option) gomap" where
  "tagsOf tags = (case tags of None \<Rightarrow> [] | Some m \<Rightarrow> m)"

lemma pointee_equal: "(case x of None \<Rightarrow> False | Some v' \<Rightarrow> stringPtrEqual v v') \<longleftrightarrow> x = Some v"
  by (auto simp: stringPtrEqual_def split: option.split)

lemma tagsEqual_form: "tagsEqual expected current \<longleftrightarrow> length expected = length (tagsOf current) \<and> (\<forall>(k, v) \<in> set expected. map_of (tagsOf current) k = Some v)"
  by (simp add: tagsEqual_def tagsOf_def Let_def pointee_equal)

lemma map_of_eq_iff:
  assumes "distinct (map fst xs)" and "distinct (map fst ys)"
  shows "map_of xs = map_of ys \<longleftrightarrow> set xs = set ys"
proof
  have g: "{(k, v). map_of zs k = Some v} = set zs" if "distinct (map fst zs)" for zs :: "('a \<times> 'b) list" using that by auto
  show "map_of xs = map_of ys \<Longrightarrow> set xs = set ys" using g [OF assms(1)] g [OF assms(2)] by metis
  assume "set xs = set ys"
  then show "map_of xs = map_of ys" using assms by (metis map_of_inject_set)
qed

lemma tagsEqual_iff:
  assumes "distinct (map fst expected)" and "distinct (map fst (tagsOf current))"
  shows "tagsEqual expected current \<longleftrightarrow> map_of expected = map_of (tagsOf current)"
proof -
  have len: "length xs = card (set xs)" if "distinct (map fst xs)" for xs :: "(string, string option) gomap" using that by (simp add: distinct_card distinct_map)
  have "(\<forall>(k, v) \<in> set expected. map_of (tagsOf current) k = Some v) \<longleftrightarrow> set expected \<subseteq> set (tagsOf current)"
    using assms(2) by auto
  moreover have "card (set expected) = card (set (tagsOf current)) \<Longrightarrow> set expected \<subseteq> set (tagsOf current) \<Longrightarrow> set expected = set (tagsOf current)"
    by (rule card_subset_eq) auto
  ultimately show ?thesis unfolding tagsEqual_form map_of_eq_iff [OF assms] len [OF assms(1)] len [OF assms(2)] by auto
qed

text \<open>
  What a patch of a virtual machine means to Azure: the tags are replaced, identities are added.
\<close>

definition patchedVM :: "vmUpdate \<Rightarrow> vm \<Rightarrow> vm" where
  "patchedVM upd v = v\<lparr>VMTags := (case upTags upd of None \<Rightarrow> VMTags v | Some t \<Rightarrow> Some t),
     VMIdentity := (case upIdentity upd of None \<Rightarrow> VMIdentity v | Some ids \<Rightarrow> Some (remdups ((case VMIdentity v of None \<Rightarrow> [] | Some i \<Rightarrow> i) @ ids)))\<rparr>"

definition identitiesOf :: "vm \<Rightarrow> string set" where
  "identitiesOf v = (case VMIdentity v of None \<Rightarrow> {} | Some ids \<Rightarrow> set ids)"

definition atGoal :: "vm_options \<Rightarrow> (string, string option) gomap \<Rightarrow> vm \<Rightarrow> bool" where
  "atGoal opts tags v \<longleftrightarrow> set (optNodeIdentities opts) \<subseteq> identitiesOf v \<and> map_of (tagsOf (VMTags v)) = map_of tags"

lemma patchVMIdentities_form:
  "patchVMIdentities opts v upd = (if set (optNodeIdentities opts) \<subseteq> identitiesOf v then (False, upd)
     else (True, upd\<lparr>upIdentity := Some (remdups (filter (\<lambda>i. i \<notin> identitiesOf v) (optNodeIdentities opts)))\<rparr>))"
proof -
  have "set (case VMIdentity v of None \<Rightarrow> [] | Some ids \<Rightarrow> ids) = identitiesOf v" by (simp add: identitiesOf_def split: option.split)
  moreover have "filter (\<lambda>i. i \<notin> identitiesOf v) (optNodeIdentities opts) = [] \<longleftrightarrow> set (optNodeIdentities opts) \<subseteq> identitiesOf v" by (auto simp: filter_empty_conv)
  ultimately show ?thesis by (simp add: patchVMIdentities_def ConvertToVirtualMachineIdentity_def Let_def)
qed

lemma CalculateVMPatch_form:
  assumes "distinct (map fst (tagsOf (VMTags v)))"
  shows "CalculateVMPatch rng opts cl nc v = (if atGoal opts (Tags rng opts nc cl) v then None
     else Some \<lparr>upTags = (if map_of (tagsOf (VMTags v)) = map_of (Tags rng opts nc cl) then None else Some (Tags rng opts nc cl)),
       upIdentity = (if set (optNodeIdentities opts) \<subseteq> identitiesOf v then None
         else Some (remdups (filter (\<lambda>i. i \<notin> identitiesOf v) (optNodeIdentities opts))))\<rparr>)"
proof -
  have t: "tagsEqual (Tags rng opts nc cl) (VMTags v) \<longleftrightarrow> map_of (tagsOf (VMTags v)) = map_of (Tags rng opts nc cl)"
    using tagsEqual_iff [OF distinct_Tags assms] by metis
  show ?thesis by (simp add: CalculateVMPatch_def patchVMIdentities_form patchVMTags_def t atGoal_def Let_def)
qed

lemma identities_patched: "identitiesOf (patchedVM upd v) = identitiesOf v \<union> (case upIdentity upd of None \<Rightarrow> {} | Some ids \<Rightarrow> set ids)"
  by (auto simp: identitiesOf_def patchedVM_def split: option.split)

lemma tags_patched: "tagsOf (VMTags (patchedVM upd v)) = (case upTags upd of None \<Rightarrow> tagsOf (VMTags v) | Some t \<Rightarrow> t)"
  by (simp add: tagsOf_def patchedVM_def split: option.split)

lemma withHash_simps [simp]:
  "Labels (withHash h cl) = Labels cl" "NodeClassRef (withHash h cl) = NodeClassRef cl" "NCName (withHash h cl) = NCName cl"
  "Annotations (withHash h cl) AnnotationInPlaceUpdateHash = Some h" "GetAKSMachineNameFromNodeClaim (withHash h cl) = GetAKSMachineNameFromNodeClaim cl"
  by (simp_all add: withHash_def GetAKSMachineNameFromNodeClaim_def AnnotationInPlaceUpdateHash_def AnnotationAKSMachineResourceID_def)

lemma withHash_hash [simp]: "HashFromNodeClaim marshal rng opts (withHash h cl) nc = HashFromNodeClaim marshal rng opts cl nc"
  by (simp add: HashFromNodeClaim_def Tags_def)

lemma withHash_class [simp]: "GetAKSNodeClass K q (withHash h cl) = GetAKSNodeClass K q cl"
  by (simp add: GetAKSNodeClass_def split: option.split)

lemma applyVMPatch_cluster: "applyVMPatch G cl nc v w = (r, w') \<Longrightarrow> cpCluster w' = cpCluster w"
  by (auto simp: applyVMPatch_def onVM_def Let_def split: option.splits prod.splits)

lemma processVM_cluster: "processVMInstance G cl nc w = (r, w') \<Longrightarrow> cpCluster w' = cpCluster w"
  by (auto simp: processVMInstance_def dest!: applyVMPatch_cluster split: sum.splits prod.splits option.splits)

lemma applyMachinePatch_cluster: "applyAKSMachinePatch G cl nc n m w = (r, w') \<Longrightarrow> cpCluster w' = cpCluster w"
  by (auto simp: applyAKSMachinePatch_def onAKS_def Let_def split: option.splits prod.splits if_splits)

lemma processMachine_cluster: "processAKSMachineInstance G cl nc n w = (r, w') \<Longrightarrow> cpCluster w' = cpCluster w"
  by (auto simp: processAKSMachineInstance_def onAKS_def Let_def dest!: applyMachinePatch_cluster split: sum.splits prod.splits option.splits)

text \<open>The instance was found, and it was at the goal or the update that brings it there was accepted.\<close>

definition confirmed :: "('a, 'b, 'k, 's, 'f, 'r, 'c, 'q) in_place_env \<Rightarrow> claim \<Rightarrow> 'c nodeClass \<Rightarrow> ('a, 'b, 'k, 's, 'f, 'q) cp_world \<Rightarrow> bool" where
  "confirmed G cl nc w \<longleftrightarrow>
     (case GetAKSMachineNameFromNodeClaim cl of
        None \<Rightarrow> \<exists>v. GetVM (cpLaunchText (ipProvider G)) (cpVMEnv (ipProvider G)) cl (cpVM w) = Inr v \<and>
          (case CalculateVMPatch (ipRange G) (ipOptions G) cl nc v of None \<Rightarrow> True
             | Some upd \<Rightarrow> \<exists>x. VM_Instances.Update (cpVMEnv (ipProvider G)) (FromPtr (VMName v)) upd (cpVM w) = (None, x))
      | Some name \<Rightarrow> \<exists>m w1. onAKS (AKS_Instances.Get (cpAKSEnv (ipProvider G)) name False) w = (Inr m, w1) \<and>
          (let (patch, m') = CalculateAKSMachinePatch (ipRange G) (ipOptions G) cl nc m in
           patch \<longrightarrow> (\<exists>x. AKS_Instances.Update (cpAKSEnv (ipProvider G)) name m' (Option.bind (AMProperties m') AMETag) (cpAKS w1) = (None, x))))"

lemma processVM_confirmed: "processVMInstance G cl nc w = (None, w') \<Longrightarrow> GetAKSMachineNameFromNodeClaim cl = None \<Longrightarrow> confirmed G cl nc w"
  by (auto simp: processVMInstance_def confirmed_def applyVMPatch_def onVM_def Let_def split: sum.splits option.splits prod.splits)

lemma processMachine_confirmed:
  "processAKSMachineInstance G cl nc n w = (None, w') \<Longrightarrow> GetAKSMachineNameFromNodeClaim cl = Some n \<Longrightarrow> confirmed G cl nc w"
  by (auto simp: processAKSMachineInstance_def confirmed_def applyAKSMachinePatch_def onAKS_def Let_def split: sum.splits option.splits prod.splits if_splits)

subsection \<open>Properties\<close>


text \<open>
  The hash of a claim is recorded only for a registered claim with a provider identifier that is not being deleted, only after its instance was found and was at the goal or the
  update to the goal was accepted, and what is recorded is the goal hash; nothing else of the cluster changes. As long as the class reads the same, the claim with that hash is not touched again.
\<close>

theorem hash_is_recorded_after_the_update:
  assumes "InPlaceReconcile G cl w = (r, w')" and "cpCluster w' \<noteq> cpCluster w"
  shows "\<exists>nc h. GetAKSNodeClass (cpKube (ipProvider G)) (cpCluster w) cl = Inr nc \<and> HashFromNodeClaim (ipMarshal G) (ipRange G) (ipOptions G) cl nc = Inr h \<and>
    h \<noteq> FromPtr (Annotations cl AnnotationInPlaceUpdateHash) \<and> DeletionTimestamp cl = None \<and> Registered cl \<and> ProviderID cl \<noteq> [] \<and> confirmed G cl nc w \<and>
    cpCluster w' = snd (k_patchClaim (cpKube (ipProvider G)) cl (withHash h cl) (cpCluster w)) \<and>
    (\<forall>u. GetAKSNodeClass (cpKube (ipProvider G)) (cpCluster u) cl = Inr nc \<longrightarrow> InPlaceReconcile G (withHash h cl) u = (Inr 0, u))"
proof -
  from assms obtain nc h where nc: "GetAKSNodeClass (cpKube (ipProvider G)) (cpCluster w) cl = Inr nc"
    and h: "HashFromNodeClaim (ipMarshal G) (ipRange G) (ipOptions G) cl nc = Inr h" and ne: "h \<noteq> FromPtr (Annotations cl AnnotationInPlaceUpdateHash)"
    and go: "fst (shouldProcess cl)"
    by (auto simp: InPlaceReconcile_def Let_def split: sum.splits if_splits prod.splits)
  define p where "p = (case GetAKSMachineNameFromNodeClaim cl of Some name \<Rightarrow> processAKSMachineInstance G cl nc name w | None \<Rightarrow> processVMInstance G cl nc w)"
  obtain r1 w1 where p1: "p = (r1, w1)" by (rule prod.exhaust)
  have c1: "cpCluster w1 = cpCluster w" using p1 by (auto simp: p_def split: option.splits dest: processVM_cluster processMachine_cluster)
  obtain e q where q: "k_patchClaim (cpKube (ipProvider G)) cl (withHash h cl) (cpCluster w) = (e, q)" by (rule prod.exhaust)
  have "r1 = None \<and> w' = w1\<lparr>cpCluster := q\<rparr>"
    using assms p1 c1 q nc h ne go by (cases "shouldProcess cl") (auto simp: InPlaceReconcile_def p_def Let_def split: option.splits prod.splits)
  moreover from this have "confirmed G cl nc w"
    using p1 processVM_confirmed processMachine_confirmed by (auto simp: p_def split: option.splits)
  moreover have "InPlaceReconcile G (withHash h cl) u = (Inr 0, u)" if "GetAKSNodeClass (cpKube (ipProvider G)) (cpCluster u) cl = Inr nc" for u
    using that h by (simp add: InPlaceReconcile_def FromPtr_def)
  moreover have "DeletionTimestamp cl = None \<and> Registered cl \<and> ProviderID cl \<noteq> []" using go by (simp add: shouldProcess_def split: if_splits)
  ultimately show ?thesis using nc h ne q by auto
qed

subsection \<open>A concrete update\<close>

definition ex_ip_claim :: claim where
  "ex_ip_claim = ex_cp_claim\<lparr>Registered := True, ProviderID := ''azure://'' @ vmResourceID ''s'' ''rg'' ''aks-m''\<rparr>"

definition ex_ip_vm :: vm where
  "ex_ip_vm = (ex_vm_of [])\<lparr>VMTags := Some [(''old'', Some ''1'')]\<rparr>"

text \<open>The cluster is a set of names; a patched claim adds the hash that was recorded.\<close>

definition ex_ip_env :: "(string \<rightharpoonup> aksMachine, mem_cloud_state, loadBalancer list exp_cache, unit exp_cache, any_value exp_cache, labels, unit, string set) in_place_env" where
  "ex_ip_env = \<lparr>ipProvider = ex_cp_env\<lparr>cpKube := mem_kube\<lparr>k_patchClaim := (\<lambda>_ c q. (None, insert (''hash '' @ FromPtr (Annotations c AnnotationInPlaceUpdateHash)) q))\<rparr>\<rparr>,
     ipRange = (\<lambda>es. es), ipMarshal = (\<lambda>_. Inr ''{}''), ipCopyErr = (\<lambda>_. None)\<rparr>"


lemma Itoa_nonempty: "Itoa i \<noteq> []"
proof -
  have "digits n \<noteq> []" for n by (subst digits.simps) simp
  then show ?thesis by (simp add: Itoa_def)
qed

lemma ex_ip_vm_found: "GetVM L ex_vm_env ex_ip_claim (ex_vm_world ([''aks-m'' \<mapsto> ex_ip_vm], Map.empty, Map.empty)) = Inr ex_ip_vm"
proof -
  have "GetVMName (''azure://'' @ vmResourceID ''s'' ''rg'' ''aks-m'') = Inr ''aks-m''"
    by (rule GetVMName_vmResourceID) (simp_all add: segment_def)
  then show ?thesis by (simp add: GetVM_def ex_ip_claim_def VM_Instances.Get_def mem_cloud_def mem_resource_def)
qed

theorem hash_is_recorded_after_the_update_witness:
  "\<exists>r w'. InPlaceReconcile ex_ip_env ex_ip_claim (ex_cp_world ([''aks-m'' \<mapsto> ex_ip_vm], Map.empty, Map.empty)) = (r, w') \<and> cpCluster w' \<noteq> {''m''} \<and>
     confirmed ex_ip_env ex_ip_claim ready_class (ex_cp_world ([''aks-m'' \<mapsto> ex_ip_vm], Map.empty, Map.empty))"
proof -
  let ?w = "ex_cp_world ([''aks-m'' \<mapsto> ex_ip_vm], Map.empty, Map.empty)" and ?h = "Itoa (uint (fnv32a ''{}''))"
  have n: "GetAKSMachineNameFromNodeClaim ex_ip_claim = None" "Annotations ex_ip_claim AnnotationInPlaceUpdateHash = None"
    by (simp_all add: ex_ip_claim_def ex_cp_claim_def ex_request_claim_def newClaim_def GetAKSMachineNameFromNodeClaim_def)
  have c: "GetAKSNodeClass (cpKube (ipProvider ex_ip_env)) q ex_ip_claim = Inr ready_class" for q
    by (simp add: GetAKSNodeClass_def ex_ip_env_def mem_kube_def ex_ip_claim_def ex_cp_claim_def)
  have h: "HashFromNodeClaim (ipMarshal ex_ip_env) (ipRange ex_ip_env) (ipOptions ex_ip_env) ex_ip_claim ready_class = Inr ?h"
    by (simp add: HashFromNodeClaim_def CalculateHash_def ex_ip_env_def Let_def split: option.split)
  have sp: "shouldProcess ex_ip_claim = (True, 0)"
    by (simp add: shouldProcess_def ex_ip_claim_def ex_cp_claim_def ex_request_claim_def newClaim_def)
  obtain u w1 where p: "processVMInstance ex_ip_env ex_ip_claim ready_class ?w = (u, w1)" by (rule prod.exhaust)
  have "GetManagedExtensionNames ''aksscriptless'' ''AzurePublicCloud'' = [aksIdentifyingExtensionName]"
    by (simp add: GetManagedExtensionNames_def isAKSIdentifyingExtensionEnabled_def ProvisionModeBootstrappingClient_def)
  then have "fst (VM_Instances.Update ex_vm_env n upd v) = None" for n upd v
    by (simp add: VM_Instances.Update_def updateTags_def ex_vm_env_def mem_vm_cloud_def split: option.split)
  then have "u = None"
    using p by (auto simp: processVMInstance_def applyVMPatch_def onVM_def ex_ip_env_def ex_ip_vm_found Let_def split: option.splits prod.splits)
      (metis fst_conv option.distinct(1))+
  moreover have "cpCluster w1 = {''m''}" using processVM_cluster [OF p] by simp
  moreover have "k_patchClaim (cpKube (ipProvider ex_ip_env)) = (\<lambda>_ c q. (None, insert (''hash '' @ FromPtr (Annotations c AnnotationInPlaceUpdateHash)) q))" by (simp add: ex_ip_env_def)
  ultimately obtain r w' where r: "InPlaceReconcile ex_ip_env ex_ip_claim ?w = (r, w')" "cpCluster w' = insert (''hash '' @ ?h) {''m''}"
    using p c h sp n Itoa_nonempty by (simp add: InPlaceReconcile_def FromPtr_def)
  then have "cpCluster w' \<noteq> cpCluster ?w" by auto
  then show ?thesis using hash_is_recorded_after_the_update [OF r(1)] r c h by auto
qed

end
