(* ===== verification/Go_Float.thy ===== *)
theory Go_Float
  imports Prelude
begin

text \<open>
  Floating-point arithmetic of Go for the values that the provider computes with: non-negative numbers inside the range of normal numbers. The operations \<open>+\<close>, \<open>-\<close>, \<open>*\<close> of
  \<open>float64\<close> are the exact ones followed by rounding to the nearest number with 53 significant bits, ties to even, and a conversion to \<open>float32\<close> rounds to 24 bits. The
  locale \<open>rounding\<close> holds the two facts that the proofs about resources use; both roundings are interpretations of it.
\<close>

subsection \<open>Rounding\<close>

text \<open>The exponent of a positive number: \<open>2 powi expo x \<le> x < 2 powi (expo x + 1)\<close>.\<close>

function up :: "rat \<Rightarrow> nat" where
  "up x = (if x < 2 then 0 else Suc (up (x / 2)))"
  by auto
termination
proof (relation "measure (\<lambda>x. nat \<lfloor>x\<rfloor>)")
  fix x :: rat
  assume "\<not> x < 2"
  then have "2 \<le> \<lfloor>x\<rfloor>" by (simp add: le_floor_iff)
  moreover have "\<lfloor>x / 2\<rfloor> \<le> \<lfloor>x\<rfloor> - 1" using \<open>\<not> x < 2\<close> by linarith
  ultimately show "(x / 2, x) \<in> measure (\<lambda>x. nat \<lfloor>x\<rfloor>)" by simp
qed simp

function down :: "rat \<Rightarrow> nat" where
  "down x = (if x \<le> 0 \<or> 1 \<le> x then 0 else Suc (down (2 * x)))"
  by auto
termination
proof (relation "measure (\<lambda>x. nat \<lfloor>1 / x\<rfloor>)")
  fix x :: rat
  assume x: "\<not> (x \<le> 0 \<or> 1 \<le> x)"
  define y where "y = 1 / x"
  have "1 < y" using x by (simp add: y_def)
  then have one: "1 \<le> \<lfloor>y\<rfloor>" by linarith
  have "\<lfloor>y / 2\<rfloor> < \<lfloor>y\<rfloor>"
  proof (cases "y < 2")
    case True
    then have "\<lfloor>y / 2\<rfloor> = 0" using \<open>1 < y\<close> by (simp add: floor_eq_iff)
    then show ?thesis using one by simp
  next
    case False
    then show ?thesis by linarith
  qed
  moreover have "1 / (2 * x) = y / 2" by (simp add: y_def)
  ultimately show "(2 * x, x) \<in> measure (\<lambda>x. nat \<lfloor>1 / x\<rfloor>)" using one by (simp add: y_def mult.commute)
qed simp

declare up.simps [simp del] down.simps [simp del]

definition expo :: "rat \<Rightarrow> int" where
  "expo x = int (up x) - int (down x)"

definition nearestEven :: "rat \<Rightarrow> int" where
  "nearestEven x = (let f = \<lfloor>x\<rfloor>; d = x - of_int f in if d < 1 / 2 \<or> d = 1 / 2 \<and> even f then f else f + 1)"

definition ulp :: "nat \<Rightarrow> rat \<Rightarrow> rat" where
  "ulp p x = 2 powi (expo x + 1 - int p)"

definition fround :: "nat \<Rightarrow> rat \<Rightarrow> rat" where
  "fround p x = (if x \<le> 0 then 0 else of_int (nearestEven (x / ulp p x)) * ulp p x)"

definition f64 :: "rat \<Rightarrow> rat" where
  "f64 x = fround 53 x"

definition f32 :: "rat \<Rightarrow> rat" where
  "f32 x = fround 24 x"

definition MaxFloat64 :: rat where
  "MaxFloat64 = (2 ^ 53 - 1) * 2 ^ 971"

text \<open>\<open>int64(x)\<close> for a value inside the range of \<open>int64\<close>, and \<open>math.Ceil\<close>.\<close>

definition truncFloat :: "rat \<Rightarrow> int" where
  "truncFloat x = (if x < 0 then \<lceil>x\<rceil> else \<lfloor>x\<rfloor>)"

subsection \<open>Facts\<close>

lemma up_bounds: "1 \<le> x \<Longrightarrow> 2 ^ up x \<le> x \<and> x < 2 ^ Suc (up x)"
proof (induction x rule: up.induct)
  case (1 x)
  show ?case
  proof (cases "x < 2")
    case True
    then show ?thesis using 1(2) by (subst (1 2) up.simps) simp
  next
    case False
    then have "2 ^ up (x / 2) \<le> x / 2 \<and> x / 2 < 2 ^ Suc (up (x / 2))" using 1(1) by simp
    then show ?thesis using False by (subst (1 2) up.simps) (simp add: field_simps)
  qed
qed

lemma down_bounds: "0 < x \<Longrightarrow> x < 1 \<Longrightarrow> 1 \<le> x * 2 ^ down x \<and> x * 2 ^ down x < 2"
proof (induction x rule: down.induct)
  case (1 x)
  then show ?case
  proof (cases "2 * x < 1")
    case True
    then have "1 \<le> 2 * x * 2 ^ down (2 * x) \<and> 2 * x * 2 ^ down (2 * x) < 2" using 1 by simp
    then show ?thesis using 1(2,3) by (subst (1 2) down.simps) (simp add: field_simps)
  next
    case False
    then have "down (2 * x) = 0" by (subst down.simps) simp
    then show ?thesis using False 1(2,3) by (subst (1 2) down.simps) simp
  qed
qed

lemma expo_bounds:
  assumes "0 < x"
  shows "2 powi expo x \<le> x" "x < 2 powi (expo x + 1)"
proof -
  have "2 powi expo x \<le> x \<and> x < 2 powi (expo x + 1)"
  proof (cases "1 \<le> x")
    case True
    then have "down x = 0" by (subst down.simps) simp
    then have "expo x = int (up x)" "expo x + 1 = int (Suc (up x))" by (simp_all add: expo_def)
    then show ?thesis using up_bounds [OF True] by (simp only: power_int_of_nat)
  next
    case False
    then have "up x = 0" by (subst up.simps) simp
    then have e: "expo x = - int (down x)" by (simp add: expo_def)
    have "(2 :: rat) powi (expo x + 1) = 2 * 2 powi expo x" by (simp add: power_int_add_1)
    moreover have "(2 :: rat) powi expo x = 1 / 2 ^ down x" by (simp add: e power_int_minus divide_inverse)
    ultimately have p: "(2 :: rat) powi expo x = 1 / 2 ^ down x" "(2 :: rat) powi (expo x + 1) = 2 / 2 ^ down x" by simp_all
    show ?thesis unfolding p using down_bounds [OF assms] False by (simp add: field_simps)
  qed
  then show "2 powi expo x \<le> x" "x < 2 powi (expo x + 1)" by simp_all
qed

lemma powi_less_imp: "(2 :: rat) powi m < 2 powi n \<Longrightarrow> m < n"
  by (metis linorder_not_le one_le_numeral power_int_increasing)

lemma expo_mono: "0 < x \<Longrightarrow> x \<le> y \<Longrightarrow> expo x \<le> expo y"
  using expo_bounds(1) [of x] expo_bounds(2) [of y] powi_less_imp [of "expo x" "expo y + 1"] by linarith

lemma nearestEven_of_int [simp]: "nearestEven (of_int n) = n"
  by (simp add: nearestEven_def)

lemma nearestEven_mono: "x \<le> y \<Longrightarrow> nearestEven x \<le> nearestEven y"
proof (cases "\<lfloor>x\<rfloor> = \<lfloor>y\<rfloor>")
  case True
  assume "x \<le> y"
  then have "x - of_int \<lfloor>x\<rfloor> \<le> y - of_int \<lfloor>y\<rfloor>" using True by simp
  then show ?thesis using True by (auto simp: nearestEven_def Let_def)
next
  case False
  assume "x \<le> y"
  then have "\<lfloor>x\<rfloor> + 1 \<le> \<lfloor>y\<rfloor>" using False floor_mono [of x y] by linarith
  then show ?thesis by (auto simp: nearestEven_def Let_def)
qed

lemma ulp_pos [simp]: "0 < ulp p x"
  by (simp add: ulp_def)

lemma ulp_sign [simp]: "\<not> ulp p x < 0" "ulp p x \<noteq> 0" "0 \<le> ulp p x"
  using ulp_pos [of p x] by linarith+

lemma ulp_scale: "2 powi expo x / ulp p x = 2 powi (int p - 1)" "2 powi (expo x + 1) / ulp p x = 2 powi int p"
  by (simp_all add: ulp_def power_int_diff [symmetric])

lemma fround_bounds:
  assumes "0 < x" and "0 < p"
  shows "2 powi expo x \<le> fround p x" "fround p x \<le> 2 powi (expo x + 1)"
proof -
  define q where "q = nearestEven (x / ulp p x)"
  have f: "fround p x = of_int q * ulp p x" using assms by (simp add: fround_def q_def)
  have p: "(2 :: rat) powi (int p - 1) = of_int (2 ^ (p - 1))" "(2 :: rat) powi int p = of_int (2 ^ p)"
    using assms(2) by (cases p) (simp_all add: power_int_of_nat)
  have "of_int (2 ^ (p - 1)) \<le> x / ulp p x" "x / ulp p x \<le> of_int (2 ^ p)"
    unfolding p [symmetric] ulp_scale [of x p, symmetric] using expo_bounds [OF assms(1)] ulp_pos [of p x]
    by (auto simp: divide_le_cancel dest: less_imp_le)
  then have "2 ^ (p - 1) \<le> q" "q \<le> 2 ^ p" unfolding q_def using nearestEven_mono nearestEven_of_int by metis+
  then have "of_int (2 ^ (p - 1)) * ulp p x \<le> fround p x" "fround p x \<le> of_int (2 ^ p) * ulp p x"
    unfolding f by (simp_all add: mult_right_mono del: of_int_power)
  then show "2 powi expo x \<le> fround p x" "fround p x \<le> 2 powi (expo x + 1)"
    unfolding p [symmetric] ulp_scale [of x p, symmetric] by simp_all
qed

lemma fround_mono:
  assumes "x \<le> y" and "0 < p"
  shows "fround p x \<le> fround p y"
proof (cases "0 < x")
  case False
  moreover have "0 \<le> fround p y"
  proof (cases "0 < y")
    case True
    have "0 \<le> (2 :: rat) powi expo y" by simp
    then show ?thesis using fround_bounds(1) [OF True assms(2)] by linarith
  qed (simp add: fround_def)
  ultimately show ?thesis by (simp add: fround_def)
next
  case True
  show ?thesis
  proof (cases "expo x = expo y")
    case same: True
    then have u: "ulp p x = ulp p y" by (simp add: ulp_def)
    have "nearestEven (x / ulp p x) \<le> nearestEven (y / ulp p y)" using assms(1) u using ulp_pos [of p y] by (intro nearestEven_mono) (auto simp: divide_le_cancel)
    then show ?thesis using True assms(1) u by (simp add: fround_def mult_right_mono)
  next
    case False
    then have "expo x + 1 \<le> expo y" using expo_mono [OF True assms(1)] by simp
    then have "(2 :: rat) powi (expo x + 1) \<le> 2 powi expo y" by (intro power_int_increasing) simp_all
    then show ?thesis using fround_bounds(2) [OF True assms(2)] fround_bounds(1) [of y p] True assms by linarith
  qed
qed

lemma fround_exact:
  assumes "0 \<le> n" and "n \<le> 2 ^ p" and "0 < p"
  shows "fround p (of_int n / 2 ^ k) = of_int n / 2 ^ k"
proof (cases "n = 0")
  case False
  define x :: rat where "x = of_int n / 2 ^ k"
  have x: "0 < x" using False assms(1) by (simp add: x_def)
  have k: "(2 :: rat) ^ k = 2 powi int k" by simp
  have "x \<le> 2 ^ p / 2 ^ k" unfolding x_def using assms(2) by (intro divide_right_mono) (simp_all add: of_int_le_numeral_power_cancel_iff)
  also have "\<dots> = 2 powi (int p - int k)" by (simp add: power_int_diff)
  finally have "(2 :: rat) powi expo x < 2 powi (int p - int k + 1)"
    using expo_bounds(1) [OF x] power_int_strict_increasing [of "int p - int k" "int p - int k + 1" "2 :: rat"] by linarith
  then have e: "expo x \<le> int p - int k" using powi_less_imp by fastforce
  obtain j where j: "x / ulp p x = of_int j"
  proof (cases "expo x = int p - int k")
    case True
    have "2 powi (int p - int k) \<le> x" using expo_bounds(1) [OF x] True by simp
    with \<open>x \<le> 2 ^ p / 2 ^ k\<close> \<open>2 ^ p / 2 ^ k = 2 powi (int p - int k)\<close> have "x = 2 powi expo x" using True by simp
    then have "x / ulp p x = 2 powi (int p - 1)" using ulp_scale(1) [of x p] by simp
    also have "\<dots> = of_int (2 ^ (p - 1))" using assms(3) by (cases p) simp_all
    finally show thesis using that by blast
  next
    case False
    define d where "d = nat (int p - int k - expo x - 1)"
    have d: "int p - int k = expo x + 1 + int d" using False e by (simp add: d_def)
    have "x / ulp p x = of_int n / 2 powi int k * 2 powi (int p - expo x - 1)"
      by (simp add: x_def ulp_def power_int_diff power_int_add field_simps)
    also have "\<dots> = of_int n * 2 powi (int p - expo x - 1 - int k)" by (simp add: power_int_diff)
    also have "int p - expo x - 1 - int k = int d" using d by simp
    finally show thesis using that [of "n * 2 ^ d"] by simp
  qed
  then have "fround p x = of_int j * ulp p x" using x by (simp add: fround_def)
  also have "\<dots> = x" unfolding j [symmetric] by simp
  finally show ?thesis by (simp add: x_def)
qed (simp add: fround_def)

subsection \<open>The contract\<close>

locale rounding =
  fixes rd :: "rat \<Rightarrow> rat" and p :: nat
  assumes mono: "x \<le> y \<Longrightarrow> rd x \<le> rd y"
    and exact: "0 \<le> n \<Longrightarrow> n \<le> 2 ^ p \<Longrightarrow> rd (of_int n / 2 ^ k) = of_int n / 2 ^ k"
begin

lemma rd_int: "0 \<le> n \<Longrightarrow> n \<le> 2 ^ p \<Longrightarrow> rd (of_int n) = of_int n"
  using exact [of n 0] by simp

lemma rd_nonneg: "0 \<le> x \<Longrightarrow> 0 \<le> rd x"
  using mono [of 0 x] rd_int [of 0] by simp

lemma rd_le: "x \<le> of_int n / 2 ^ k \<Longrightarrow> 0 \<le> n \<Longrightarrow> n \<le> 2 ^ p \<Longrightarrow> rd x \<le> of_int n / 2 ^ k"
  using mono [of x "of_int n / 2 ^ k"] exact [of n k] by simp

lemma rd_ge: "of_int n / 2 ^ k \<le> x \<Longrightarrow> 0 \<le> n \<Longrightarrow> n \<le> 2 ^ p \<Longrightarrow> of_int n / 2 ^ k \<le> rd x"
  using mono [of "of_int n / 2 ^ k" x] exact [of n k] by simp

end

interpretation f64: rounding f64 53
  by unfold_locales (simp_all add: f64_def fround_mono fround_exact del: power_numeral)

interpretation f32: rounding f32 24
  by unfold_locales (simp_all add: f32_def fround_mono fround_exact del: power_numeral)

end
