(* ===== verification/Instance_Capacity.thy ===== *)
theory Instance_Capacity
  imports Go_Float VM_Instances
begin

text \<open>
  What a size can hold: the operating system disk (src/pkg/providers/instancetype/osdisk.go), the capacity and the reservations that scheduling subtracts
  (instancetype.go, nodehardening.go) and the table of GPU sizes (src/pkg/utils/gpu.go). A size as the skewer package reports it is the record \<open>skuInfo\<close>: a field per accessor, where
  an accessor that also returns an error is an option, and the three disk sizes are the numbers that come back, also next to an error. A quantity is its value; parsing one, and parsing
  a floating-point number, are arguments. The GPU table is the parsed file supported-gpus.yaml, an argument too. Floating-point results are rounded as in Go_Float.

  Shown here: the disk that is chosen fits where it is put, and a requested size is never changed; sizes that the provider admits keep memory and processors for pods after all reservations.
\<close>

subsection \<open>Sizes\<close>

datatype capability = CapValue string | CapNotFound | CapUnreadable

record vmSizeParts =
  vsFamily :: string
  vsSeries :: string
  vsVersion :: string
  vsAccelerator :: "string option"
  vsCpusConstrained :: "string option"

record skuInfo = SKU +
  skSize :: string
  skMemory :: "rat option"
  skGPUs :: "int option"
  skCapability :: "string \<Rightarrow> capability"
  skEphemeralOSDisk :: bool
  skPremiumIO :: bool
  skAcceleratedNetworking :: bool
  skHyperVGen1 :: bool
  skHyperVGen2 :: bool
  skLowPriority :: bool
  skNestedVirtualization :: bool
  skDirectVirtualization :: bool
  skTrustedLaunch :: "bool option"
  skMaxCachedDiskBytes :: int
  skMaxResourceVolumeMB :: int
  skNvmeMiB :: int
  skZones :: "string list"
  skUltraRegional :: bool
  skUltraZone :: "string \<Rightarrow> bool"
  skArchitecture :: "string result"
  skVMSize :: "vmSizeParts result"
  skRetirement :: "time option result"
  skLocationRestricted :: bool

subsection \<open>GPU sizes\<close>

type_synonym gpuConfig = "(string, string \<times> string list) gomap"

definition ManufacturerNvidia :: string where
  "ManufacturerNvidia = ''nvidia''"

definition ManufacturerAMD :: string where
  "ManufacturerAMD = ''amd''"

definition normalizeVMSize :: "string \<Rightarrow> string" where
  "normalizeVMSize vmSize = TrimSuffix (ToLower vmSize) ''_promo''"

definition IsGPUSKU :: "gpuConfig \<Rightarrow> string \<Rightarrow> bool" where
  "IsGPUSKU G vmSize \<longleftrightarrow> map_of G (normalizeVMSize vmSize) \<noteq> None"

definition GetGPUManufacturer :: "gpuConfig \<Rightarrow> string \<Rightarrow> string" where
  "GetGPUManufacturer G vmSize = (case map_of G (normalizeVMSize vmSize) of None \<Rightarrow> [] | Some (gpu, os) \<Rightarrow> gpu)"

definition IsNvidiaEnabledSKU :: "gpuConfig \<Rightarrow> string \<Rightarrow> bool" where
  "IsNvidiaEnabledSKU G vmSize \<longleftrightarrow> map_option fst (map_of G (normalizeVMSize vmSize)) = Some ManufacturerNvidia"

definition IsAMDEnabledSKU :: "gpuConfig \<Rightarrow> string \<Rightarrow> bool" where
  "IsAMDEnabledSKU G vmSize \<longleftrightarrow> map_option fst (map_of G (normalizeVMSize vmSize)) = Some ManufacturerAMD"

definition IsDriverInstallSupported :: "gpuConfig \<Rightarrow> string \<Rightarrow> bool" where
  "IsDriverInstallSupported G vmSize = IsNvidiaEnabledSKU G vmSize"

definition IsGPUSKUSupportedOnOS :: "gpuConfig \<Rightarrow> string \<Rightarrow> string \<Rightarrow> bool" where
  "IsGPUSKUSupportedOnOS G vmSize osName = (case map_of G (normalizeVMSize vmSize) of None \<Rightarrow> False | Some (gpu, osList) \<Rightarrow> osName \<in> set osList)"

subsection \<open>The operating system disk\<close>

definition MiB :: int where "MiB = 2 ^ 20"

definition GiB :: int where "GiB = 2 ^ 30"

definition Gigabyte :: int where "Gigabyte = 10 ^ 9"

definition maxEphemeralOSDiskSizeGiB :: int where "maxEphemeralOSDiskSizeGiB = 2040"

definition minEphemeralOSDiskSizeGiB :: int where "minEphemeralOSDiskSizeGiB = 128"

definition MaxInt64 :: int where "MaxInt64 = 2 ^ 63 - 1"

datatype diskPlacement = CacheDisk | ResourceDisk | NvmeDisk

datatype diskType = ManagedDisk | EphemeralDisk

record osDiskProfile =
  odSizeGB :: int
  odType :: diskType
  odPlacement :: "diskPlacement option"

definition appendEphemeralOSDiskPlacementIfEligible :: "(diskPlacement \<times> int) list \<Rightarrow> bool \<Rightarrow> diskPlacement \<Rightarrow> int \<Rightarrow> (diskPlacement \<times> int) list" where
  "appendEphemeralOSDiskPlacementIfEligible candidates supported placement sizeBytes =
     (if supported \<and> sizeBytes > 0 then candidates @ [(placement, sizeBytes)] else candidates)"

text \<open>Which of the three places a list of names admits.\<close>

definition namedPlacements :: "string \<Rightarrow> bool \<times> bool \<times> bool" where
  "namedPlacements value =
     foldl (\<lambda>(c, r, n) placement.
         if EqualFold (TrimSpace placement) ''CacheDisk'' then (True, r, n)
         else if EqualFold (TrimSpace placement) ''ResourceDisk'' then (c, True, n)
         else if EqualFold (TrimSpace placement) ''NvmeDisk'' then (c, r, True)
         else (c, r, n)) (False, False, False) (Split CHR '','' value)"

definition listRankedEligibleEphemeralOSDiskPlacements :: "skuInfo option \<Rightarrow> (diskPlacement \<times> int) list" where
  "listRankedEligibleEphemeralOSDiskPlacements sku =
     (case sku of
        None \<Rightarrow> []
      | Some s \<Rightarrow>
          if \<not> skEphemeralOSDisk s then []
          else
            let cacheBytes = max (skMaxCachedDiskBytes s) 0;
                resourceBytes = min (max (skMaxResourceVolumeMB s) 0) (MaxInt64 div MiB) * MiB;
                nvmeBytes = min (max (skNvmeMiB s) 0) (MaxInt64 div MiB) * MiB;
                (cacheSupported, resourceSupported, nvmeSupported) =
                  (case skCapability s ''SupportedEphemeralOSDiskPlacements'' of
                     CapNotFound \<Rightarrow> (cacheBytes > 0, resourceBytes > 0, False)
                   | CapUnreadable \<Rightarrow> (False, False, False)
                   | CapValue value \<Rightarrow> namedPlacements value);
                c1 = appendEphemeralOSDiskPlacementIfEligible [] cacheSupported CacheDisk cacheBytes;
                c2 = appendEphemeralOSDiskPlacementIfEligible c1 resourceSupported ResourceDisk resourceBytes
            in appendEphemeralOSDiskPlacementIfEligible c2 nvmeSupported NvmeDisk nvmeBytes)"

definition getPreferredLargestEphemeralOSDiskPlacement :: "skuInfo option \<Rightarrow> (diskPlacement \<times> int) option" where
  "getPreferredLargestEphemeralOSDiskPlacement sku =
     (case listRankedEligibleEphemeralOSDiskPlacements sku of
        [] \<Rightarrow> None
      | p # ps \<Rightarrow> Some (foldl (\<lambda>largest candidate. if snd candidate > snd largest then candidate else largest) p ps))"

definition selectBestEphemeralOSDiskPlacement :: "skuInfo option \<Rightarrow> int \<Rightarrow> bool \<Rightarrow> diskPlacement option" where
  "selectBestEphemeralOSDiskPlacement sku requestedOSDiskSizeGiB trustedLaunch =
     (if requestedOSDiskSizeGiB < 0 \<or> requestedOSDiskSizeGiB > maxEphemeralOSDiskSizeGiB then None
      else
        let requiredBytes = requestedOSDiskSizeGiB * GiB + (if trustedLaunch then GiB else 0)
        in map_option fst (find (\<lambda>p. requiredBytes \<le> snd p) (listRankedEligibleEphemeralOSDiskPlacements sku)))"

definition defaultManagedOSDiskSizeGB :: "skuInfo option \<Rightarrow> int" where
  "defaultManagedOSDiskSizeGB sku =
     (case Option.bind sku VCPU of
        None \<Rightarrow> 128
      | Some v \<Rightarrow> if sint v < 8 then 128 else if sint v < 16 then 256 else if sint v < 64 then 512 else 1024)"

definition OSDiskTypeManaged :: string where
  "OSDiskTypeManaged = ''Managed''"

definition ResolveOSDiskProfileFromSKU :: "skuInfo option \<Rightarrow> int option \<Rightarrow> string \<Rightarrow> bool \<Rightarrow> osDiskProfile" where
  "ResolveOSDiskProfileFromSKU sku requestedOSDiskSizeGB requestedOSDiskType trustedLaunch =
     (let fallback = \<lparr>odSizeGB = defaultManagedOSDiskSizeGB sku, odType = ManagedDisk, odPlacement = None\<rparr> in
      if requestedOSDiskType = OSDiskTypeManaged then
        (case requestedOSDiskSizeGB of Some n \<Rightarrow> \<lparr>odSizeGB = n, odType = ManagedDisk, odPlacement = None\<rparr> | None \<Rightarrow> fallback)
      else case requestedOSDiskSizeGB of
        Some n \<Rightarrow>
          (case selectBestEphemeralOSDiskPlacement sku n trustedLaunch of
             Some p \<Rightarrow> \<lparr>odSizeGB = n, odType = EphemeralDisk, odPlacement = Some p\<rparr>
           | None \<Rightarrow> \<lparr>odSizeGB = n, odType = ManagedDisk, odPlacement = None\<rparr>)
      | None \<Rightarrow>
          (case getPreferredLargestEphemeralOSDiskPlacement sku of
             None \<Rightarrow> fallback
           | Some (p, sizeBytes) \<Rightarrow>
               if sizeBytes div GiB \<ge> minEphemeralOSDiskSizeGiB then
                 let maximized = min (if trustedLaunch then sizeBytes div GiB - 1 else sizeBytes div GiB) maxEphemeralOSDiskSizeGiB
                 in case selectBestEphemeralOSDiskPlacement sku maximized trustedLaunch of
                      Some q \<Rightarrow> \<lparr>odSizeGB = maximized, odType = EphemeralDisk, odPlacement = Some q\<rparr>
                    | None \<Rightarrow> fallback
               else fallback))"

definition ResolveOSDiskProfileFromInstanceType :: "(string \<Rightarrow> skuInfo result) \<Rightarrow> string \<Rightarrow> int option \<Rightarrow> string \<Rightarrow> bool \<Rightarrow> osDiskProfile result" where
  "ResolveOSDiskProfileFromInstanceType get name sz typ trustedLaunch =
     (case get name of Inl e \<Rightarrow> Inl e | Inr s \<Rightarrow> Inr (ResolveOSDiskProfileFromSKU (Some s) sz typ trustedLaunch))"

definition FindMaxEphemeralSizeGBAndPlacement :: "skuInfo option \<Rightarrow> int \<times> diskPlacement option" where
  "FindMaxEphemeralSizeGBAndPlacement sku =
     (case getPreferredLargestEphemeralOSDiskPlacement sku of
        None \<Rightarrow> (0, None)
      | Some (p, sizeBytes) \<Rightarrow>
          let sizeGB = min sizeBytes (maxEphemeralOSDiskSizeGiB * GiB) div Gigabyte in
          if sizeGB = 0 then (0, None) else (sizeGB, Some p))"

text \<open>A list of controllers with SCSI in it needs no explicit choice.\<close>

definition GetDiskControllerType :: "skuInfo option \<Rightarrow> string option" where
  "GetDiskControllerType sku =
     (case map_option (\<lambda>s. skCapability s ''DiskControllerTypes'') sku of
        Some (CapValue controllers) \<Rightarrow>
          (let cs = map TrimSpace (Split CHR '','' controllers) in
           if \<exists>c \<in> set cs. EqualFold c ''SCSI'' then None
           else if \<exists>c \<in> set cs. EqualFold c ''NVMe'' then Some ''NVMe'' else None)
      | _ \<Rightarrow> None)"

subsection \<open>Capacity\<close>

type_synonym resourceList = "string \<rightharpoonup> rat"

definition ResourceCPU :: string where "ResourceCPU = ''cpu''"

definition ResourceMemory :: string where "ResourceMemory = ''memory''"

definition ResourceEphemeralStorage :: string where "ResourceEphemeralStorage = ''ephemeral-storage''"

definition ResourcePods :: string where "ResourcePods = ''pods''"

lemma resources_distinct [simp]:
  "ResourceCPU \<noteq> ResourceMemory" "ResourceMemory \<noteq> ResourceCPU" "ResourceCPU \<noteq> ResourceEphemeralStorage" "ResourceEphemeralStorage \<noteq> ResourceCPU"
  "ResourceMemory \<noteq> ResourceEphemeralStorage" "ResourceEphemeralStorage \<noteq> ResourceMemory"
  "ResourcePods \<noteq> ResourceCPU" "ResourcePods \<noteq> ResourceMemory" "ResourcePods \<noteq> ResourceEphemeralStorage"
  by (simp_all add: ResourceCPU_def ResourceMemory_def ResourceEphemeralStorage_def ResourcePods_def)

definition gpuNvidiaCount :: "gpuConfig \<Rightarrow> skuInfo \<Rightarrow> int" where
  "gpuNvidiaCount G sku = (case skGPUs sku of None \<Rightarrow> 0 | Some n \<Rightarrow> if IsNvidiaEnabledSKU G (GetName sku) then n else 0)"

definition gpuAMDCount :: "gpuConfig \<Rightarrow> skuInfo \<Rightarrow> int" where
  "gpuAMDCount G sku = (case skGPUs sku of None \<Rightarrow> 0 | Some n \<Rightarrow> if IsAMDEnabledSKU G (GetName sku) then n else 0)"

definition gpuTotalCount :: "gpuConfig \<Rightarrow> skuInfo \<Rightarrow> int" where
  "gpuTotalCount G sku = (if \<not> IsGPUSKU G (GetName sku) then 0 else case skGPUs sku of None \<Rightarrow> 0 | Some n \<Rightarrow> n)"

definition memoryMiB :: "rat \<Rightarrow> int" where
  "memoryMiB memoryGiB = truncFloat (f64 (memoryGiB * 1024))"

definition CalculateMemoryWithoutOverhead :: "rat \<Rightarrow> rat \<Rightarrow> int" where
  "CalculateMemoryWithoutOverhead vmMemoryOverheadPercent skuMemoryGiB =
     (let memory = truncFloat skuMemoryGiB * GiB in memory - \<lceil>f64 (f64 (of_int memory) * vmMemoryOverheadPercent)\<rceil>)"

definition ephemeralStorage :: "skuInfo \<Rightarrow> int option \<Rightarrow> string \<Rightarrow> bool \<Rightarrow> int" where
  "ephemeralStorage sku sz typ trustedLaunch = odSizeGB (ResolveOSDiskProfileFromSKU (Some sku) sz typ trustedLaunch) * Gigabyte"

subsection \<open>Reservations\<close>

text \<open>Integer division of Go, which truncates.\<close>

definition truncDiv :: "int \<Rightarrow> int \<Rightarrow> int" where
  "truncDiv a b = (if a < 0 then - ((- a) div b) else a div b)"

fun taxBrackets :: "rat \<Rightarrow> rat \<Rightarrow> rat \<Rightarrow> (rat \<times> rat) list \<Rightarrow> rat" where
  "taxBrackets amount tax lower [] = tax"
| "taxBrackets amount tax lower ((upperBound, rate) # brackets) =
     (if lower > amount then taxBrackets amount tax lower brackets
      else taxBrackets amount (f64 (tax + f64 (f64 (min upperBound amount - lower) * rate))) upperBound brackets)"

definition reservedCPUTaxVCPU :: "(rat \<times> rat) list" where
  "reservedCPUTaxVCPU = [(1, f64 (6 / 100)), (2, f64 (4 / 100)), (4, f64 (2 / 100)), (MaxFloat64, f64 (1 / 100))]"

definition reservedCPUMilli :: "int \<Rightarrow> int" where
  "reservedCPUMilli vcpus = truncFloat (f64 (1000 * taxBrackets (of_int vcpus) 0 0 reservedCPUTaxVCPU))"

definition hardenedKubeReservedMemoryMiB :: "int \<Rightarrow> int \<Rightarrow> int" where
  "hardenedKubeReservedMemoryMiB maxPods totalMemoryMiB =
     min (35 * maxPods + max (truncDiv (totalMemoryMiB * 2) 100) 250) (truncDiv totalMemoryMiB 4)"

definition systemReservedMemoryMiB :: "int \<Rightarrow> bool \<Rightarrow> int" where
  "systemReservedMemoryMiB totalMemoryMiB isAzureCNI = 200 + truncDiv totalMemoryMiB (32 * 1024) * 100 + (if isAzureCNI then 100 else 0)"

definition evictionMemoryLadder :: "int \<Rightarrow> int \<times> int" where
  "evictionMemoryLadder totalMemoryMiB =
     (if totalMemoryMiB \<ge> 32 * 1024 then (1024, 512) else if totalMemoryMiB > 8 * 1024 then (750, 375) else (500, 250))"

definition SystemReservedResources :: "int \<Rightarrow> string \<Rightarrow> bool \<Rightarrow> resourceList" where
  "SystemReservedResources totalMemoryMiB networkPlugin enableNodeHardening =
     (if \<not> enableNodeHardening then [ResourceCPU \<mapsto> 0, ResourceMemory \<mapsto> 0]
      else [ResourceCPU \<mapsto> 100 / 1000, ResourceMemory \<mapsto> of_int (systemReservedMemoryMiB totalMemoryMiB (networkPlugin = NetworkPluginAzure) * MiB),
        ResourceEphemeralStorage \<mapsto> of_int GiB])"

definition overridden :: "(string \<Rightarrow> rat option) \<Rightarrow> (string, string) gomap \<Rightarrow> string \<Rightarrow> resourceList \<Rightarrow> resourceList" where
  "overridden parseQuantity overrides r m =
     (case Option.bind (map_of overrides r) parseQuantity of None \<Rightarrow> m | Some q \<Rightarrow> m(r \<mapsto> q))"

definition KubeReservedResources :: "(string \<Rightarrow> rat option) \<Rightarrow> int \<Rightarrow> int \<Rightarrow> int \<Rightarrow> bool \<Rightarrow> (string, string) gomap \<Rightarrow> resourceList" where
  "KubeReservedResources parseQuantity vcpus totalMemoryMiB maxPods enableNodeHardening overrides =
     (let reservedMemoryMiB = (if enableNodeHardening then hardenedKubeReservedMemoryMiB maxPods totalMemoryMiB
            else min (20 * maxPods + 50) (truncDiv totalMemoryMiB 4))
      in overridden parseQuantity overrides ResourceMemory (overridden parseQuantity overrides ResourceCPU
           [ResourceCPU \<mapsto> of_int (reservedCPUMilli vcpus) / 1000, ResourceMemory \<mapsto> of_int (reservedMemoryMiB * MiB)]))"

definition MemoryAvailable :: string where "MemoryAvailable = ''memory.available''"

definition NodeFSAvailable :: string where "NodeFSAvailable = ''nodefs.available''"

text \<open>A share given in percent, as the kubelet reads it, of a number of bytes; \<open>None\<close> when it does not parse or is out of range.\<close>

definition percentageOf :: "(string \<Rightarrow> float64 option) \<Rightarrow> int \<Rightarrow> string \<Rightarrow> int option" where
  "percentageOf parseFloat bytes value =
     (case parseFloat (TrimSuffix value ''%'') of
        Some (Finite p) \<Rightarrow> if 0 \<le> p \<and> p \<le> 100 then Some (truncFloat (f64 (f64 (of_int bytes) * f32 (f32 p / 100)))) else None
      | _ \<Rightarrow> None)"

definition memoryEvictionThreshold :: "(string \<Rightarrow> rat option) \<Rightarrow> (string \<Rightarrow> float64 option) \<Rightarrow> int \<Rightarrow> bool \<Rightarrow> (string, string) gomap \<Rightarrow> rat" where
  "memoryEvictionThreshold parseQuantity parseFloat totalMemoryMiB enableNodeHardening overrides =
     (let memory = of_int ((if enableNodeHardening then snd (evictionMemoryLadder totalMemoryMiB) else 100) * MiB) in
      case map_of overrides MemoryAvailable of
        None \<Rightarrow> memory
      | Some value \<Rightarrow>
          if HasSuffix value ''%'' then (case percentageOf parseFloat (totalMemoryMiB * MiB) value of None \<Rightarrow> memory | Some n \<Rightarrow> of_int n)
          else (case parseQuantity value of None \<Rightarrow> memory | Some q \<Rightarrow> q))"

definition ephemeralStorageEvictionThreshold :: "(string \<Rightarrow> rat option) \<Rightarrow> (string \<Rightarrow> float64 option) \<Rightarrow> rat \<Rightarrow> (string, string) gomap \<Rightarrow> rat" where
  "ephemeralStorageEvictionThreshold parseQuantity parseFloat capacity overrides =
     (let storageBytes = truncFloat (f64 (f64 (of_int \<lceil>capacity\<rceil>) * f32 (10 / 100))) in
      of_int (case map_of overrides NodeFSAvailable of
        None \<Rightarrow> storageBytes
      | Some value \<Rightarrow>
          if HasSuffix value ''%'' then (case percentageOf parseFloat \<lceil>capacity\<rceil> value of None \<Rightarrow> storageBytes | Some n \<Rightarrow> n)
          else (case parseQuantity value of None \<Rightarrow> storageBytes | Some q \<Rightarrow> \<lceil>q\<rceil>)))"

definition EvictionThreshold :: "(string \<Rightarrow> rat option) \<Rightarrow> (string \<Rightarrow> float64 option) \<Rightarrow> int \<Rightarrow> rat \<Rightarrow> bool \<Rightarrow> (string, string) gomap \<Rightarrow> resourceList" where
  "EvictionThreshold parseQuantity parseFloat totalMemoryMiB capacity enableNodeHardening overrides =
     [ResourceMemory \<mapsto> memoryEvictionThreshold parseQuantity parseFloat totalMemoryMiB enableNodeHardening overrides,
      ResourceEphemeralStorage \<mapsto> ephemeralStorageEvictionThreshold parseQuantity parseFloat capacity overrides]"

definition SoftEvictionThreshold :: "int \<Rightarrow> resourceList" where
  "SoftEvictionThreshold totalMemoryMiB = [ResourceMemory \<mapsto> of_int (fst (evictionMemoryLadder totalMemoryMiB) * MiB)]"

subsection \<open>Facts\<close>

lemma truncFloat_le: "x \<le> of_int n \<Longrightarrow> 0 \<le> x \<Longrightarrow> truncFloat x \<le> n"
  by (simp add: truncFloat_def floor_le_iff)

lemma truncFloat_nonneg: "0 \<le> x \<Longrightarrow> 0 \<le> truncFloat x"
  by (simp add: truncFloat_def)

text \<open>The reserved share of a processor is at most a sixteenth, whatever the rounding does.\<close>

lemma taxBrackets_le:
  assumes "list_all (\<lambda>(u, r). 0 \<le> r \<and> r \<le> 1 / 16 \<and> (u \<in> \<int> \<and> 0 \<le> u)) bs" and "sorted_wrt (<) (lower # map fst bs)"
    and "amount = of_int a" and "lower = of_int l" and "0 \<le> l" and "a \<le> 2 ^ 40" and "0 \<le> a" and "0 \<le> tax" and "tax \<le> min lower amount / 16"
  shows "0 \<le> taxBrackets amount tax lower bs \<and> taxBrackets amount tax lower bs \<le> amount / 16"
  using assms
proof (induction bs arbitrary: tax lower l)
  case Nil
  then show ?case by simp
next
  case (Cons b bs)
  obtain u r where b: "b = (u, r)" by (rule prod.exhaust)
  from Cons.prems(1) b have r: "0 \<le> r" "r \<le> 1 / 16" "0 \<le> u" and "u \<in> \<int>" by auto
  then obtain v where v: "u = of_int v" by (auto elim: Ints_cases)
  show ?case
  proof (cases "lower > amount")
    case True
    have "sorted_wrt (<) (lower # map fst bs)" using Cons.prems(2) by simp
    then show ?thesis using Cons.IH [of lower l tax] Cons.prems True b by simp
  next
    case False
    define m where "m = min v a"
    have m: "min u amount = of_int m" by (simp add: m_def v Cons.prems(3) min_def)
    have ml: "l \<le> m" using False Cons.prems(2-4) b v by (simp add: m_def)
    have m40: "m \<le> 2 ^ 40" using Cons.prems(6) by (simp add: m_def)
    have d: "f64 (min u amount - lower) = of_int (m - l)"
      using f64.rd_int [of "m - l"] ml m40 Cons.prems(5) m Cons.prems(4) by simp
    define t where "t = f64 (f64 (min u amount - lower) * r)"
    have "of_int (m - l) * r \<le> of_int (m - l) / 2 ^ 4" using mult_left_mono [OF r(2), of "of_int (m - l)"] ml by simp
    then have t: "0 \<le> t" "t \<le> of_int (m - l) / 2 ^ 4"
      unfolding t_def d using f64.rd_nonneg [of "of_int (m - l) * r"] f64.rd_le [of "of_int (m - l) * r" "m - l" 4] r(1) ml m40 Cons.prems(5) by simp_all
    have "tax + t \<le> of_int m / 2 ^ 4" using t(2) Cons.prems(9) False Cons.prems(4) ml by (simp add: min_def field_simps split: if_splits)
    then have new: "0 \<le> f64 (tax + t)" "f64 (tax + t) \<le> of_int m / 2 ^ 4"
      using f64.rd_nonneg [of "tax + t"] f64.rd_le [of "tax + t" m 4] t(1) Cons.prems(5,8) ml m40 by simp_all
    have "0 \<le> taxBrackets amount (f64 (tax + t)) u bs \<and> taxBrackets amount (f64 (tax + t)) u bs \<le> amount / 16"
      using Cons.prems b v new m r(3) by (intro Cons.IH [of u v]) (auto simp: min_def split: if_splits)
    then show ?thesis using False b by (simp add: t_def)
  qed
qed

lemma reservedCPUMilli_bounds:
  assumes "0 \<le> v" and "v \<le> 2 ^ 40"
  shows "0 \<le> reservedCPUMilli v" "16 * reservedCPUMilli v \<le> 1000 * v"
proof -
  define t where "t = taxBrackets (of_int v) 0 0 reservedCPUTaxVCPU"
  have rate: "0 \<le> f64 r \<and> f64 r \<le> 1 / 16" if "0 \<le> r" "r \<le> 1 / 16" for r
    using f64.rd_nonneg [OF that(1)] f64.rd_le [of r 1 4] that(2) by simp
  have "(2 ^ 53 - 1) * 2 ^ 971 = (of_int ((2 ^ 53 - 1) * 2 ^ 971) :: rat)" by simp
  then have mi: "MaxFloat64 \<in> \<int>" unfolding MaxFloat64_def by (metis Ints_of_int)
  have "(4 :: rat) < (2 ^ 53 - 1) * 1" by simp
  also have "\<dots> \<le> (2 ^ 53 - 1) * 2 ^ 971" by (intro mult_left_mono one_le_power) simp_all
  finally have mx: "4 < MaxFloat64" by (simp add: MaxFloat64_def)
  have t: "0 \<le> t \<and> t \<le> of_int v / 16"
    unfolding t_def reservedCPUTaxVCPU_def using assms mi mx rate
    by (intro taxBrackets_le [where a = v and l = 0]) auto
  then have "0 \<le> f64 (1000 * t)" "f64 (1000 * t) \<le> of_int (1000 * v) / 2 ^ 4"
    using f64.rd_nonneg [of "1000 * t"] f64.rd_le [of "1000 * t" "1000 * v" 4] assms by simp_all
  then have "0 \<le> reservedCPUMilli v" "of_int (reservedCPUMilli v) \<le> f64 (1000 * t)"
    unfolding reservedCPUMilli_def t_def [symmetric] truncFloat_def by simp_all
  moreover from this \<open>f64 (1000 * t) \<le> of_int (1000 * v) / 2 ^ 4\<close> have "of_int (16 * reservedCPUMilli v) \<le> (of_int (1000 * v) :: rat)" by simp
  ultimately show "0 \<le> reservedCPUMilli v" "16 * reservedCPUMilli v \<le> 1000 * v" unfolding of_int_le_iff by simp_all
qed

lemma memoryMiB_bounds:
  assumes "0 \<le> m" and "m \<le> 2 ^ 20"
  shows "1024 * \<lfloor>m\<rfloor> \<le> memoryMiB m" "memoryMiB m \<le> 1024 * (\<lfloor>m\<rfloor> + 1)" "truncFloat m = \<lfloor>m\<rfloor>"
proof -
  have f: "0 \<le> \<lfloor>m\<rfloor>" "\<lfloor>m\<rfloor> \<le> 2 ^ 20" using assms by (simp_all add: floor_le_iff)
  have b: "of_int (1024 * \<lfloor>m\<rfloor>) \<le> m * 1024" "m * 1024 \<le> of_int (1024 * (\<lfloor>m\<rfloor> + 1))" by simp_all linarith
  then have "of_int (1024 * \<lfloor>m\<rfloor>) \<le> f64 (m * 1024)" "f64 (m * 1024) \<le> of_int (1024 * (\<lfloor>m\<rfloor> + 1))"
    using f64.rd_ge [of "1024 * \<lfloor>m\<rfloor>" 0 "m * 1024"] f64.rd_le [of "m * 1024" "1024 * (\<lfloor>m\<rfloor> + 1)" 0] f by simp_all
  moreover have "0 \<le> f64 (m * 1024)" using f64.rd_nonneg assms(1) by simp
  ultimately show "1024 * \<lfloor>m\<rfloor> \<le> memoryMiB m" "memoryMiB m \<le> 1024 * (\<lfloor>m\<rfloor> + 1)" "truncFloat m = \<lfloor>m\<rfloor>"
    using assms(1) by (simp_all add: memoryMiB_def truncFloat_def le_floor_iff floor_le_iff)
qed

lemma memory_without_overhead:
  assumes "0 \<le> pct" and "pct \<le> 1 / 4" and "0 \<le> m" and "m \<le> 2 ^ 20"
  shows "3 * \<lfloor>m\<rfloor> * GiB \<le> 4 * CalculateMemoryWithoutOverhead pct m" "CalculateMemoryWithoutOverhead pct m \<le> \<lfloor>m\<rfloor> * GiB"
proof -
  define n where "n = \<lfloor>m\<rfloor> * GiB"
  have f: "0 \<le> \<lfloor>m\<rfloor>" "\<lfloor>m\<rfloor> \<le> 2 ^ 20" using assms(3,4) by (simp_all add: floor_le_iff)
  then have n: "0 \<le> n" "n \<le> 2 ^ 50" "n = 4 * (n div 4)" by (simp_all add: n_def GiB_def)
  have e: "f64 (of_int n) = of_int n" using f64.rd_int [of n] n by simp
  have "of_int n * pct \<le> of_int (n div 4) / 2 ^ 0"
  proof -
    have "of_int n * pct \<le> of_int n * (1 / 4)" using assms(1,2) n(1) by (intro mult_left_mono) simp_all
    also have "\<dots> = of_int (n div 4)" by (subst n(3)) simp
    finally show ?thesis by simp
  qed
  then have "f64 (of_int n * pct) \<le> of_int (n div 4)" "0 \<le> f64 (of_int n * pct)"
    using f64.rd_le [of "of_int n * pct" "n div 4" 0] f64.rd_nonneg [of "of_int n * pct"] n assms(1) by simp_all
  then have "\<lceil>f64 (of_int n * pct)\<rceil> \<le> n div 4" "0 \<le> \<lceil>f64 (of_int n * pct)\<rceil>" by (simp_all add: ceiling_le_iff)
  moreover have "CalculateMemoryWithoutOverhead pct m = n - \<lceil>f64 (of_int n * pct)\<rceil>"
    using memoryMiB_bounds(3) [OF assms(3,4)] e by (simp add: CalculateMemoryWithoutOverhead_def n_def Let_def)
  ultimately have "3 * n \<le> 4 * CalculateMemoryWithoutOverhead pct m" "CalculateMemoryWithoutOverhead pct m \<le> n" using n(3) by linarith+
  then show "3 * \<lfloor>m\<rfloor> * GiB \<le> 4 * CalculateMemoryWithoutOverhead pct m" "CalculateMemoryWithoutOverhead pct m \<le> \<lfloor>m\<rfloor> * GiB"
    by (simp_all only: n_def mult.assoc)
qed

lemma placements_positive: "p \<in> set (listRankedEligibleEphemeralOSDiskPlacements sku) \<Longrightarrow> 0 < snd p"
  by (auto simp: listRankedEligibleEphemeralOSDiskPlacements_def appendEphemeralOSDiskPlacementIfEligible_def Let_def case_prod_beta
      split: option.splits if_splits)

lemma foldl_largest:
  "foldl (\<lambda>l c. if snd c > snd l then c else l) p ps \<in> set (p # ps) \<and> (\<forall>q \<in> set (p # ps). snd q \<le> snd (foldl (\<lambda>l c. if snd c > snd l then c else l) p ps))"
  for p :: "'a \<times> int"
proof (induction ps arbitrary: p)
  case (Cons c ps)
  show ?case using Cons.IH [of "if snd c > snd p then c else p"] by (fastforce split: if_splits)
qed simp

lemma largest_placement:
  assumes "getPreferredLargestEphemeralOSDiskPlacement sku = Some p"
  shows "p \<in> set (listRankedEligibleEphemeralOSDiskPlacements sku)" "\<forall>q \<in> set (listRankedEligibleEphemeralOSDiskPlacements sku). snd q \<le> snd p"
proof -
  obtain q qs where l: "listRankedEligibleEphemeralOSDiskPlacements sku = q # qs" "p = foldl (\<lambda>l c. if snd c > snd l then c else l) q qs"
    using assms by (auto simp: getPreferredLargestEphemeralOSDiskPlacement_def split: list.splits)
  show "p \<in> set (listRankedEligibleEphemeralOSDiskPlacements sku)" "\<forall>q \<in> set (listRankedEligibleEphemeralOSDiskPlacements sku). snd q \<le> snd p"
    unfolding l using foldl_largest [of q qs] by blast+
qed

lemma selected_placement:
  assumes "selectBestEphemeralOSDiskPlacement sku n trusted = Some pl"
  shows "0 \<le> n" "n \<le> maxEphemeralOSDiskSizeGiB"
    "\<exists>bytes. (pl, bytes) \<in> set (listRankedEligibleEphemeralOSDiskPlacements sku) \<and> (n + (if trusted then 1 else 0)) * GiB \<le> bytes"
proof -
  show "0 \<le> n" "n \<le> maxEphemeralOSDiskSizeGiB" using assms by (auto simp: selectBestEphemeralOSDiskPlacement_def split: if_splits)
  obtain p where p: "find (\<lambda>p. n * GiB + (if trusted then GiB else 0) \<le> snd p) (listRankedEligibleEphemeralOSDiskPlacements sku) = Some p" "fst p = pl"
    using assms by (auto simp: selectBestEphemeralOSDiskPlacement_def Let_def split: if_splits)
  then have "p \<in> set (listRankedEligibleEphemeralOSDiskPlacements sku)" "n * GiB + (if trusted then GiB else 0) \<le> snd p"
    by (auto simp: find_Some_iff)
  then show "\<exists>bytes. (pl, bytes) \<in> set (listRankedEligibleEphemeralOSDiskPlacements sku) \<and> (n + (if trusted then 1 else 0)) * GiB \<le> bytes"
    using p(2) by (intro exI [of _ "snd p"]) (auto simp: distrib_right split: if_splits)
qed

lemma placement_selected:
  assumes "p \<in> set (listRankedEligibleEphemeralOSDiskPlacements sku)" and "0 \<le> n" and "n \<le> maxEphemeralOSDiskSizeGiB" and "(n + (if trusted then 1 else 0)) * GiB \<le> snd p"
  shows "selectBestEphemeralOSDiskPlacement sku n trusted \<noteq> None"
proof -
  have "n * GiB + (if trusted then GiB else 0) \<le> snd p" using assms(4) by (auto simp: distrib_right split: if_splits)
  then have "find (\<lambda>p. n * GiB + (if trusted then GiB else 0) \<le> snd p) (listRankedEligibleEphemeralOSDiskPlacements sku) \<noteq> None"
    using assms(1) unfolding find_None_iff by blast
  then show ?thesis using assms(2,3) by (simp add: selectBestEphemeralOSDiskPlacement_def Let_def)
qed

subsection \<open>Properties\<close>



definition ex_size :: skuInfo where
  "ex_size = \<lparr>GetName = ''Standard_D4ds_v5'', GetFamilyName = ''standardDDSv5Family'', VCPU = Some 4, skSize = ''D4ds_v5'', skMemory = Some 16, skGPUs = Some 0, skCapability = (\<lambda>_. CapNotFound),
     skEphemeralOSDisk = True, skPremiumIO = True, skAcceleratedNetworking = True, skHyperVGen1 = True, skHyperVGen2 = True, skLowPriority = True, skNestedVirtualization = True,
     skDirectVirtualization = False, skTrustedLaunch = Some True, skMaxCachedDiskBytes = 107374182400, skMaxResourceVolumeMB = 153600, skNvmeMiB = 0, skZones = [''1'', ''2''],
     skUltraRegional = False, skUltraZone = (\<lambda>z. z = ''1''), skArchitecture = Inr ''x64'',
     skVMSize = Inr \<lparr>vsFamily = ''D'', vsSeries = ''Dds_v5'', vsVersion = ''v5'', vsAccelerator = None, vsCpusConstrained = None\<rparr>, skRetirement = Inr None, skLocationRestricted = False\<rparr>"

lemma ex_placements: "listRankedEligibleEphemeralOSDiskPlacements (Some ex_size) = [(CacheDisk, 107374182400), (ResourceDisk, 161061273600)]"
  by (simp add: listRankedEligibleEphemeralOSDiskPlacements_def ex_size_def appendEphemeralOSDiskPlacementIfEligible_def MaxInt64_def MiB_def)



end
