(* ===== verification/Instance_Types.thy ===== *)
theory Instance_Types
  imports Instance_Capacity Pricing
begin

text \<open>
  The instance types the provider offers (src/pkg/providers/instancetype/instancetypes.go, instancetype.go, skus.go): the offerings of a size in each zone, the filters of a node class,
  the requirements and capacity of each type, the cache of the lists with its overlay of quota, and the periodic update of the sizes. Requirements are built and read by Karpenter's
  scheduling package: the record \<open>scheduling_api\<close>, an argument; the locale \<open>scheduling\<close> states what the code relies on, and \<open>reqs_api\<close> is an executable instance. A requirement that
  must not exist is one without values. The hash of the parameters, the change monitor's hash, the list of known names and the walk over a Go map are arguments as well. The cache holds
  addresses of entries, which are filled in place, as the pointers of the code are.

  Shown here: the offerings of a size are exactly one per zone and capacity type, and a configured reservation group leaves only reserved on-demand placements; a list that is served
  is the one that the sizes give for sources with the same sequence numbers, and building one never panics; an update that fails keeps the sizes that were known.
\<close>

subsection \<open>The scheduling package\<close>

record 'r scheduling_api =
  schedCore :: "'r karpenter_api"
  newRequirements :: "(string \<times> string list) list \<Rightarrow> 'r"
  insertValue :: "'r \<Rightarrow> string \<Rightarrow> string \<Rightarrow> 'r"
  reqValues :: "'r \<Rightarrow> string \<Rightarrow> string list"

definition valuesIn :: "(string \<times> string list) list \<Rightarrow> string \<Rightarrow> string list" where
  "valuesIn rs k = (case map_of rs k of None \<Rightarrow> [] | Some vs \<Rightarrow> vs)"

locale scheduling = karpenter_core "schedCore S" for S :: "'r scheduling_api" +
  assumes values_new: "distinct (map fst rs) \<Longrightarrow> set (reqValues S (newRequirements S rs) k) = set (valuesIn rs k)"
    and values_insert: "set (reqValues S (insertValue S r k v) k') = (if k' = k then insert v (set (reqValues S r k)) else set (reqValues S r k'))"
    and any_value: "reqValues S r k \<noteq> [] \<Longrightarrow> getAny (schedCore S) r k \<in> set (reqValues S r k)"
begin

lemma any_new: "distinct (map fst rs) \<Longrightarrow> valuesIn rs k = [v] \<Longrightarrow> getAny (schedCore S) (newRequirements S rs) k = v"
  using values_new [of rs k] any_value [of "newRequirements S rs" k] by fastforce

end

type_synonym reqs = "(string \<times> string list) list"

definition reqs_any :: "reqs \<Rightarrow> string \<Rightarrow> string" where
  "reqs_any rs k = (case valuesIn rs k of [] \<Rightarrow> [] | v # vs \<Rightarrow> v)"

definition reqs_compatible :: "reqs \<Rightarrow> reqs \<Rightarrow> bool" where
  "reqs_compatible rs qs = list_all (\<lambda>(k, vs). case map_of qs k of None \<Rightarrow> True | Some ws \<Rightarrow> set vs \<inter> set ws \<noteq> {}) rs"

definition reqs_api :: "reqs scheduling_api" where
  "reqs_api = \<lparr>schedCore = \<lparr>getAny = reqs_any, offsAvailable = filter Available, offsCompatible = (\<lambda>rs. filter (\<lambda>off. reqs_compatible rs (Requirements off))),
      isCompatible = reqs_compatible\<rparr>,
    newRequirements = (\<lambda>rs. rs), insertValue = (\<lambda>rs k v. AList.update k (v # valuesIn rs k) rs), reqValues = valuesIn\<rparr>"

lemma reqs_api_simps [simp]:
  "getAny (schedCore reqs_api) = reqs_any" "offsAvailable (schedCore reqs_api) = filter Available" "newRequirements reqs_api rs = rs"
  "insertValue reqs_api rs k v = AList.update k (v # valuesIn rs k) rs" "reqValues reqs_api = valuesIn"
  "offsCompatible (schedCore reqs_api) = (\<lambda>rs. filter (\<lambda>off. reqs_compatible rs (Requirements off)))" "isCompatible (schedCore reqs_api) = reqs_compatible"
  by (simp_all add: reqs_api_def)

interpretation reqs_api: scheduling reqs_api
  by unfold_locales (auto simp: valuesIn_def reqs_any_def update_conv' split: list.split option.splits)

subsection \<open>Labels\<close>

definition LabelArchStable :: string where "LabelArchStable = ''kubernetes.io/arch''"

definition LabelTopologyRegion :: string where "LabelTopologyRegion = ''topology.kubernetes.io/region''"

definition LabelSKUName :: string where "LabelSKUName = Group @ ''/sku-name''"

definition LabelSKUFamily :: string where "LabelSKUFamily = Group @ ''/sku-family''"

definition LabelSKUSeries :: string where "LabelSKUSeries = Group @ ''/sku-series''"

definition LabelSKUVersion :: string where "LabelSKUVersion = Group @ ''/sku-version''"

definition LabelSKUCPU :: string where "LabelSKUCPU = Group @ ''/sku-cpu''"

definition LabelSKUMemory :: string where "LabelSKUMemory = Group @ ''/sku-memory''"

definition AKSLabelCPU :: string where "AKSLabelCPU = AKSLabelDomain @ ''/sku-cpu''"

definition AKSLabelMemory :: string where "AKSLabelMemory = AKSLabelDomain @ ''/sku-memory''"

definition LabelSKUAcceleratedNetworking :: string where "LabelSKUAcceleratedNetworking = Group @ ''/sku-networking-accelerated''"

definition LabelSKUStoragePremiumCapable :: string where "LabelSKUStoragePremiumCapable = Group @ ''/sku-storage-premium-capable''"

definition LabelSKUStorageEphemeralOSMaxSize :: string where "LabelSKUStorageEphemeralOSMaxSize = Group @ ''/sku-storage-ephemeralos-maxsize''"

definition LabelUltraSSD :: string where "LabelUltraSSD = Group @ ''/sku-storage-ultra-ssd''"

definition LabelSKUGPUName :: string where "LabelSKUGPUName = Group @ ''/sku-gpu-name''"

definition LabelSKUGPUManufacturer :: string where "LabelSKUGPUManufacturer = Group @ ''/sku-gpu-manufacturer''"

definition LabelSKUGPUCount :: string where "LabelSKUGPUCount = Group @ ''/sku-gpu-count''"

definition LabelSKUHyperVGeneration :: string where "LabelSKUHyperVGeneration = Group @ ''/sku-hyperv-generation''"

definition AKSLabelCluster :: string where "AKSLabelCluster = AKSLabelDomain @ ''/cluster''"

definition AKSLabelMode :: string where "AKSLabelMode = AKSLabelDomain @ ''/mode''"

definition AKSLabelOSSKU :: string where "AKSLabelOSSKU = AKSLabelDomain @ ''/os-sku''"

definition AKSLabelFIPSEnabled :: string where "AKSLabelFIPSEnabled = AKSLabelDomain @ ''/fips_enabled''"

definition AKSLabelKataVMIsolation :: string where "AKSLabelKataVMIsolation = AKSLabelDomain @ ''/kata-vm-isolation''"

lemmas sku_label_defs = LabelSKUName_def LabelSKUFamily_def LabelSKUSeries_def LabelSKUVersion_def LabelSKUCPU_def LabelSKUMemory_def AKSLabelCPU_def AKSLabelMemory_def
  LabelSKUAcceleratedNetworking_def LabelSKUStoragePremiumCapable_def LabelSKUStorageEphemeralOSMaxSize_def LabelUltraSSD_def LabelSKUGPUName_def LabelSKUGPUManufacturer_def
  LabelSKUGPUCount_def LabelSKUHyperVGeneration_def AKSLabelCluster_def AKSLabelMode_def AKSLabelOSSKU_def AKSLabelFIPSEnabled_def AKSLabelKataVMIsolation_def
  AKSLabelScaleSetPriority_def AKSLabelPriority_def LabelPlacementScope_def Group_def AKSLabelDomain_def LabelArchStable_def LabelTopologyRegion_def label_defs

definition ArchitectureAmd64 :: string where "ArchitectureAmd64 = ''amd64''"

definition ArchitectureArm64 :: string where "ArchitectureArm64 = ''arm64''"

definition getArchitecture :: "string \<Rightarrow> string" where
  "getArchitecture architecture = (if architecture = ''x64'' then ArchitectureAmd64 else if architecture = ''Arm64'' then ArchitectureArm64 else architecture)"

definition UbuntuFamilies :: "string list" where
  "UbuntuFamilies = [''Ubuntu'', ''Ubuntu2204'', ''Ubuntu2404'']"

definition AzureLinuxImageFamily :: string where "AzureLinuxImageFamily = ''AzureLinux''"

definition AzureContainerLinuxImageFamily :: string where "AzureContainerLinuxImageFamily = ''AzureContainerLinux''"

definition imageFamilyToOSSKU :: "(string, string) gomap" where
  "imageFamilyToOSSKU = [(''Ubuntu'', ''Ubuntu''), (''Ubuntu2204'', ''Ubuntu''), (''Ubuntu2404'', ''Ubuntu''), (AzureLinuxImageFamily, ''AzureLinux''),
     (''Windows2022'', ''Windows2022''), (Windows2025ImageFamily, ''Windows2025''), (AzureContainerLinuxImageFamily, ''AzureContainerLinux'')]"

definition GetOSSKUFromImageFamily :: "string \<Rightarrow> string" where
  "GetOSSKUFromImageFamily imageFamily =
     (let f = (if imageFamily = [] then ''Ubuntu'' else imageFamily) in case map_of imageFamilyToOSSKU f of Some osSKU \<Rightarrow> osSKU | None \<Rightarrow> f)"

definition GetOSForImageFamily :: "string \<Rightarrow> string" where
  "GetOSForImageFamily imageFamily = (if IsWindowsImageFamily imageFamily then Windows else Linux)"

subsection \<open>Parameters\<close>

record instanceTypeParameters =
  ipImageFamily :: string
  ipOSDiskSizeGB :: "int option"
  ipOSDiskType :: string
  ipMaxPods :: int
  ipEncryptionAtHost :: bool
  ipTrustedLaunch :: bool
  ipGPUMode :: string
  ipArtifactStreamingEnabled :: bool
  ipFIPSMode :: string
  ipLocalDNSRequired :: bool
  ipKubeReserved :: "(string, string) gomap"
  ipEvictionHard :: "(string, string) gomap"
  ipCapacityReservationGroupID :: string
  ipCapacityReservations :: "(string \<times> string) list"
  ipKataEnabled :: bool

text \<open>The provider with what it calls: the region, the caches behind the unavailable offerings, its own cache, the tables, the options of the operator and the hashes.\<close>

record ('r, 's, 'f, 'c) it_env =
  itRegion :: string
  itSched :: "'r scheduling_api"
  itSingle :: "('s, unit) cache_api"
  itFamily :: "('f, any_value) cache_api"
  itCacheAPI :: "('c, nat) cache_api"
  itGPU :: gpuConfig
  itKnown :: "string list"
  itParseQuantity :: "string \<Rightarrow> rat option"
  itParseFloat :: "string \<Rightarrow> float64 option"
  itNetworkPlugin :: string
  itNetworkPluginMode :: string
  itEnableNodeHardening :: bool
  itProvisionMode :: string
  itVMMemoryOverheadPercent :: rat
  itNodeResourceGroup :: string
  itHash :: "instanceTypeParameters \<Rightarrow> string"
  itMonitorHash :: "(string, skuInfo) gomap \<Rightarrow> string"
  itRange :: "string list \<Rightarrow> string list"

text \<open>What a list is built from besides the sizes: the time, the unavailable offerings and the prices.\<close>

record ('s, 'f) it_sources =
  srcNow :: time
  srcOfferings :: "('s, 'f) unavailableOfferings"
  srcPricing :: provider

definition IsAKSMachineAPIMode :: "string \<Rightarrow> bool" where
  "IsAKSMachineAPIMode provisionMode \<longleftrightarrow> provisionMode = ''aksmachineapi'' \<or> provisionMode = ''aksmachineapiheaderbatch''"

definition ShouldUseNodeHardening :: "bool \<Rightarrow> string \<Rightarrow> bool" where
  "ShouldUseNodeHardening enableNodeHardening provisionMode \<longleftrightarrow> enableNodeHardening \<and> (provisionMode = ''aksscriptless'' \<or> IsAKSMachineAPIMode provisionMode)"

definition KubeReservedOverrides :: "kubeReserved option \<Rightarrow> (string, string) gomap" where
  "KubeReservedOverrides config =
     (case config of
        None \<Rightarrow> []
      | Some c \<Rightarrow> (case KRCPUMillicores c of None \<Rightarrow> [] | Some n \<Rightarrow> [(ResourceCPU, Itoa n @ ''m'')])
          @ (case KRMemoryMB c of None \<Rightarrow> [] | Some n \<Rightarrow> [(ResourceMemory, Itoa n @ ''Mi'')]))"

definition evictionHardOverrides :: "evictionThreshold option \<Rightarrow> (string, string) gomap" where
  "evictionHardOverrides config =
     (case config of
        None \<Rightarrow> []
      | Some c \<Rightarrow> (case ETMemoryAvailable c of None \<Rightarrow> [] | Some v \<Rightarrow> [(MemoryAvailable, v)])
          @ (case ETNodeFsAvailable c of None \<Rightarrow> [] | Some v \<Rightarrow> [(NodeFSAvailable, v)]))"

definition IsEligible :: "capacityReservation \<Rightarrow> bool" where
  "IsEligible r \<longleftrightarrow> (case CRProvisioningState r of None \<Rightarrow> False | Some s \<Rightarrow> EqualFold s ''Succeeded'')"

text \<open>The places that the members of the configured group back; no group and a group that backs nothing are both empty, and are told apart by the identifier.\<close>

definition capacityReservationPlacements :: "string \<Rightarrow> 'k nodeClass \<Rightarrow> (string \<times> string) list" where
  "capacityReservationPlacements r nc =
     (if SpecCapacityReservation nc = None then []
      else case CapacityReservationGroup nc of
        None \<Rightarrow> []
      | Some g \<Rightarrow>
          if \<not> EqualFold (CRGID g) (GetCapacityReservationGroupID nc) then []
          else remdups (concat (map (\<lambda>m.
            if \<not> IsEligible m then []
            else case MakeAKSLabelZoneFromARMZones r (map Some (CRZones m)) of
              Inl e \<Rightarrow> [] | Inr zone \<Rightarrow> [(ToLower (CRVMSize m), zone)]) (CRGReservations g))))"

definition FIPSModeDisabled :: string where "FIPSModeDisabled = ''Disabled''"

definition paramsOf :: "('r, 's, 'f, 'c) it_env \<Rightarrow> 'k nodeClass \<Rightarrow> instanceTypeParameters" where
  "paramsOf E nc =
     \<lparr>ipImageFamily = FromPtr (SpecImageFamily nc),
      ipOSDiskSizeGB = SpecOSDiskSizeGB nc,
      ipOSDiskType = FromPtr (SpecOSDiskType nc),
      ipMaxPods = GetMaxPods nc (itNetworkPlugin E) (itNetworkPluginMode E),
      ipEncryptionAtHost = GetEncryptionAtHost nc,
      ipTrustedLaunch = IsTrustedLaunchEnabled nc,
      ipGPUMode = GetGPUMode nc,
      ipArtifactStreamingEnabled = IsArtifactStreamingExplicitlyEnabled nc,
      ipFIPSMode = (if IsFIPSEnabled nc then FIPSModeFIPS else FIPSModeDisabled),
      ipLocalDNSRequired = IsLocalDNSRequired nc,
      ipKubeReserved = KubeReservedOverrides (Option.bind (SpecKubelet nc) KubeReservedOf),
      ipEvictionHard = evictionHardOverrides (Option.bind (SpecKubelet nc) EvictionHardOf),
      ipCapacityReservationGroupID = GetCapacityReservationGroupID nc,
      ipCapacityReservations = capacityReservationPlacements (itRegion E) nc,
      ipKataEnabled = IsKataEnabled nc\<rparr>"

subsection \<open>Offerings\<close>

definition instanceTypeZones :: "string \<Rightarrow> skuInfo \<Rightarrow> string list" where
  "instanceTypeZones r sku =
     (if skZones sku = [] then [Regional] else remdups (map (MakeAKSLabelZoneFromARMZone r) (skZones sku) @ [Regional]))"

definition capacityReservationZones :: "instanceTypeParameters \<Rightarrow> (string \<Rightarrow> string list) option" where
  "capacityReservationZones params =
     (if ipCapacityReservationGroupID params = [] then None
      else Some (\<lambda>vmSize. map snd (filter (\<lambda>p. fst p = vmSize) (ipCapacityReservations params))))"

definition SliceBoundsMessage :: string where "SliceBoundsMessage = ''slice bounds out of range''"

definition ultraSSDOptions :: "skuInfo \<Rightarrow> string \<Rightarrow> failure + string list" where
  "ultraSSDOptions sku zone =
     (case MakeARMZonesFromAKSLabelZone zone of
        Inl p \<Rightarrow> Inl (Panic SliceBoundsMessage)
      | Inr [] \<Rightarrow> Inr (if skUltraRegional sku then [''true'', ''false''] else [''false''])
      | Inr [Some z] \<Rightarrow> Inr (if skUltraZone sku z then [''true'', ''false''] else [''false''])
      | Inr _ \<Rightarrow> Inr [''false''])"

definition IsKnownSKU :: "('r, 's, 'f, 'c) it_env \<Rightarrow> string \<Rightarrow> bool" where
  "IsKnownSKU E name \<longleftrightarrow> name \<in> set (itKnown E)"

definition newOffering :: "'r scheduling_api \<Rightarrow> string \<Rightarrow> string \<Rightarrow> string \<Rightarrow> string list \<Rightarrow> rat \<Rightarrow> bool \<Rightarrow> 'r offering" where
  "newOffering S capacityType priority zone ultraSSD price available =
     \<lparr>Requirements = newRequirements S
        [(CapacityTypeLabelKey, [capacityType]), (AKSLabelScaleSetPriority, [priority]), (AKSLabelPriority, [priority]), (LabelTopologyZone, [zone]),
         (LabelPlacementScope, [PlacementScopeForZone zone]), (LabelUltraSSD, ultraSSD)],
      Price = price, Available = available\<rparr>"

definition zoneOfferings :: "('r, 's, 'f, 'c) it_env \<Rightarrow> ('s, 'f) it_sources \<Rightarrow> skuInfo \<Rightarrow> string \<Rightarrow> string \<Rightarrow> failure + 'r offering list" where
  "zoneOfferings E src sku groupID zone =
     (let known = IsKnownSKU E (GetName sku);
          onDemandPrice = (if known then fst (OnDemandPrice (srcPricing src) (GetName sku)) else MissingPrice);
          spotPrice = (if known then fst (SpotPrice (srcPricing src) (GetName sku)) else MissingPrice);
          unavailable = view_IsUnavailable (itSingle E) (itFamily E) (srcNow src) (srcOfferings src) (ForCapacityReservationGroup groupID) (SKU.truncate sku) zone
      in case ultraSSDOptions sku zone of
           Inl e \<Rightarrow> Inl e
         | Inr ultra \<Rightarrow>
             let ultraSSD = (if groupID \<noteq> [] then [''false''] else ultra)
             in Inr (newOffering (itSched E) CapacityTypeOnDemand ''regular'' zone ultraSSD onDemandPrice (\<not> unavailable CapacityTypeOnDemand)
                  # (if groupID \<noteq> [] then []
                     else [newOffering (itSched E) CapacityTypeSpot ''spot'' zone ultraSSD spotPrice (skLowPriority sku \<and> \<not> unavailable CapacityTypeSpot)])))"

definition createOfferings :: "('r, 's, 'f, 'c) it_env \<Rightarrow> ('s, 'f) it_sources \<Rightarrow> skuInfo \<Rightarrow> string list \<Rightarrow> string \<Rightarrow> failure + 'r offering list" where
  "createOfferings E src sku offeringZones groupID =
     foldM (\<lambda>offs zone. case zoneOfferings E src sku groupID zone of Inl e \<Rightarrow> Inl e | Inr added \<Rightarrow> Inr (offs @ added)) [] (itRange E offeringZones)"

subsection \<open>Filters\<close>

definition isArchitectureSupportedByImageFamily :: "string \<Rightarrow> string \<Rightarrow> bool" where
  "isArchitectureSupportedByImageFamily architecture imageFamily \<longleftrightarrow> \<not> IsWindowsImageFamily imageFamily \<or> getArchitecture architecture = ArchitectureAmd64"

definition isInstanceTypeSupportedByImageFamily :: "gpuConfig \<Rightarrow> string \<Rightarrow> string \<Rightarrow> bool" where
  "isInstanceTypeSupportedByImageFamily G skuName imageFamily =
     (if \<not> IsGPUSKU G skuName then True
      else if imageFamily \<in> set UbuntuFamilies then IsGPUSKUSupportedOnOS G skuName ''ubuntu''
      else if imageFamily = AzureLinuxImageFamily then IsGPUSKUSupportedOnOS G skuName ''azurelinux'' \<or> IsGPUSKUSupportedOnOS G skuName ''azurelinux3''
      else if imageFamily = AzureContainerLinuxImageFamily then IsGPUSKUSupportedOnOS G skuName ''azurecontainerlinux''
      else False)"

definition isInstanceTypeSupportedByKata :: "skuInfo \<Rightarrow> string \<Rightarrow> instanceTypeParameters \<Rightarrow> bool" where
  "isInstanceTypeSupportedByKata sku architecture params =
     (if \<not> ipKataEnabled params then True
      else if getArchitecture architecture \<noteq> ArchitectureAmd64 then False
      else skNestedVirtualization sku \<or> skDirectVirtualization sku)"

definition supportsEncryptionAtHost :: "skuInfo \<Rightarrow> bool" where
  "supportsEncryptionAtHost sku = (case skCapability sku ''EncryptionAtHostSupported'' of CapValue v \<Rightarrow> EqualFold v ''True'' | _ \<Rightarrow> False)"

definition isInstanceTypeSupportedByEncryptionAtHost :: "skuInfo \<Rightarrow> instanceTypeParameters \<Rightarrow> bool" where
  "isInstanceTypeSupportedByEncryptionAtHost sku params = (if \<not> ipEncryptionAtHost params then True else supportsEncryptionAtHost sku)"

definition isInstanceTypeSupportedByTrustedLaunch :: "skuInfo \<Rightarrow> instanceTypeParameters \<Rightarrow> bool" where
  "isInstanceTypeSupportedByTrustedLaunch sku params =
     (if \<not> ipTrustedLaunch params then True else case skTrustedLaunch sku of None \<Rightarrow> False | Some supported \<Rightarrow> supported)"

definition MinVCPU :: int where "MinVCPU = 4"

definition MinMemoryMiB :: int where "MinMemoryMiB = 244"

definition SKUMeetsFloor :: "int \<Rightarrow> int \<Rightarrow> bool" where
  "SKUMeetsFloor vcpu mem \<longleftrightarrow> vcpu \<ge> MinVCPU \<and> mem \<ge> MinMemoryMiB"

text \<open>The memory is only read after the processors; reading it may panic.\<close>

definition MustMessage :: string where "MustMessage = ''reading a SKU failed''"

definition isInstanceTypeSupportedByLocalDNS :: "skuInfo \<Rightarrow> instanceTypeParameters \<Rightarrow> failure + bool" where
  "isInstanceTypeSupportedByLocalDNS sku params =
     (if \<not> ipLocalDNSRequired params then Inr True
      else case VCPU sku of
        None \<Rightarrow> Inr False
      | Some cpu \<Rightarrow> (case skMemory sku of None \<Rightarrow> Inl (Panic MustMessage) | Some m \<Rightarrow> Inr (SKUMeetsFloor (sint cpu) (memoryMiB m))))"

definition isInstanceTypeSupportedByGPUDriverMode :: "gpuConfig \<Rightarrow> skuInfo \<Rightarrow> instanceTypeParameters \<Rightarrow> bool" where
  "isInstanceTypeSupportedByGPUDriverMode G sku params =
     (if ipGPUMode params \<noteq> GPUModeDriver then True
      else if \<not> IsGPUSKU G (GetName sku) then True
      else IsDriverInstallSupported G (GetName sku))"

definition isInstanceTypeSupportedByArtifactStreaming :: "string \<Rightarrow> instanceTypeParameters \<Rightarrow> bool" where
  "isInstanceTypeSupportedByArtifactStreaming architecture params =
     (if \<not> ipArtifactStreamingEnabled params then True else getArchitecture architecture \<noteq> ArchitectureArm64)"

definition isInstanceTypeSupportedByFilters :: "gpuConfig \<Rightarrow> skuInfo \<Rightarrow> string \<Rightarrow> instanceTypeParameters \<Rightarrow> failure + bool" where
  "isInstanceTypeSupportedByFilters G sku architecture params =
     (if \<not> (isArchitectureSupportedByImageFamily architecture (ipImageFamily params)
          \<and> isInstanceTypeSupportedByImageFamily G (GetName sku) (ipImageFamily params)
          \<and> isInstanceTypeSupportedByEncryptionAtHost sku params) then Inr False
      else case isInstanceTypeSupportedByLocalDNS sku params of
        Inl e \<Rightarrow> Inl e
      | Inr dns \<Rightarrow> Inr (dns
          \<and> isInstanceTypeSupportedByGPUDriverMode G sku params
          \<and> isInstanceTypeSupportedByArtifactStreaming architecture params
          \<and> isInstanceTypeSupportedByTrustedLaunch sku params
          \<and> isInstanceTypeSupportedByKata sku architecture params))"

subsection \<open>Requirements and capacity\<close>

record 'r builtType = "'r instanceType" +
  ITCapacity :: resourceList
  ITKubeReserved :: resourceList
  ITSystemReserved :: resourceList
  ITEvictionThreshold :: resourceList

definition ExtractVersionFromVMSize :: "vmSizeParts \<Rightarrow> string" where
  "ExtractVersionFromVMSize vmsize =
     (case vsVersion vmsize of [] \<Rightarrow> ''1'' | c # rest \<Rightarrow> if c \<noteq> CHR ''V'' \<and> c \<noteq> CHR ''v'' then [] else rest)"

definition boolText :: "bool \<Rightarrow> string" where "boolText b = (if b then ''true'' else ''false'')"

definition setRequirementsEphemeralOSDiskSupported :: "'r scheduling_api \<Rightarrow> skuInfo \<Rightarrow> 'r \<Rightarrow> 'r" where
  "setRequirementsEphemeralOSDiskSupported S sku r =
     (let sizeGB = fst (FindMaxEphemeralSizeGBAndPlacement (Some sku)) in if sizeGB > 0 then insertValue S r LabelSKUStorageEphemeralOSMaxSize (Itoa sizeGB) else r)"

definition setRequirementsHyperVGeneration :: "'r scheduling_api \<Rightarrow> skuInfo \<Rightarrow> 'r \<Rightarrow> 'r" where
  "setRequirementsHyperVGeneration S sku r =
     (let r1 = (if skHyperVGen1 sku then insertValue S r LabelSKUHyperVGeneration ''1'' else r)
      in if skHyperVGen2 sku then insertValue S r1 LabelSKUHyperVGeneration ''2'' else r1)"

definition setRequirementsGPU :: "'r scheduling_api \<Rightarrow> gpuConfig \<Rightarrow> skuInfo \<Rightarrow> vmSizeParts \<Rightarrow> 'r \<Rightarrow> 'r" where
  "setRequirementsGPU S G sku vmsize r =
     (let manufacturer = GetGPUManufacturer G (GetName sku) in
      if manufacturer \<noteq> ManufacturerNvidia \<and> manufacturer \<noteq> ManufacturerAMD then r
      else let r1 = insertValue S r LabelSKUGPUManufacturer manufacturer
           in case vsAccelerator vmsize of None \<Rightarrow> r1 | Some a \<Rightarrow> insertValue S r1 LabelSKUGPUName a)"

definition setRequirementsVersion :: "'r scheduling_api \<Rightarrow> vmSizeParts \<Rightarrow> 'r \<Rightarrow> 'r" where
  "setRequirementsVersion S vmsize r = (let version = ExtractVersionFromVMSize vmsize in if version = [] then r else insertValue S r LabelSKUVersion version)"

definition baseRequirements :: "('r, 's, 'f, 'c) it_env \<Rightarrow> skuInfo \<Rightarrow> int \<Rightarrow> int \<Rightarrow> string \<Rightarrow> 'r offering list \<Rightarrow> instanceTypeParameters \<Rightarrow> (string \<times> string list) list" where
  "baseRequirements E sku vcpus memMiB architecture offerings params =
     (let S = itSched E; available = offsAvailable (schedCore S) offerings; anyOf = (\<lambda>k off. getAny (schedCore S) (Requirements off) k) in
      [(LabelInstanceTypeStable, [GetName sku]),
       (LabelArchStable, [getArchitecture architecture]),
       (LabelOSStable, [GetOSForImageFamily (ipImageFamily params)]),
       (LabelTopologyZone, map (anyOf LabelTopologyZone) available),
       (LabelTopologyRegion, [itRegion E]),
       (CapacityTypeLabelKey, map (anyOf CapacityTypeLabelKey) available),
       (LabelPlacementScope, map (anyOf LabelPlacementScope) available),
       (LabelUltraSSD, concat (map (\<lambda>off. reqValues S (Requirements off) LabelUltraSSD) available)),
       (LabelSKUCPU, [Itoa vcpus]),
       (LabelSKUMemory, [Itoa memMiB]),
       (AKSLabelCPU, [Itoa vcpus]),
       (AKSLabelMemory, [Itoa memMiB]),
       (LabelSKUGPUCount, [Itoa (gpuTotalCount (itGPU E) sku)]),
       (LabelSKUGPUManufacturer, []),
       (LabelSKUGPUName, []),
       (AKSLabelCluster, [NormalizeClusterResourceGroupNameForLabel (itNodeResourceGroup E)]),
       (AKSLabelMode, [''system'', ''user'']),
       (AKSLabelScaleSetPriority, [''regular'', ''spot'']),
       (AKSLabelPriority, [''regular'', ''spot'']),
       (AKSLabelOSSKU, [GetOSSKUFromImageFamily (ipImageFamily params)]),
       (AKSLabelFIPSEnabled, []),
       (AKSLabelKataVMIsolation, []),
       (LabelSKUName, []),
       (LabelSKUFamily, []),
       (LabelSKUSeries, []),
       (LabelSKUVersion, []),
       (LabelSKUStorageEphemeralOSMaxSize, []),
       (LabelSKUStoragePremiumCapable, [boolText (skPremiumIO sku)]),
       (LabelSKUAcceleratedNetworking, [boolText (skAcceleratedNetworking sku)]),
       (LabelSKUHyperVGeneration, [])])"

definition computeRequirements :: "('r, 's, 'f, 'c) it_env \<Rightarrow> skuInfo \<Rightarrow> vmSizeParts \<Rightarrow> int \<Rightarrow> int \<Rightarrow> string \<Rightarrow> 'r offering list \<Rightarrow> instanceTypeParameters \<Rightarrow> 'r" where
  "computeRequirements E sku vmsize vcpus memMiB architecture offerings params =
     (let S = itSched E;
          r1 = newRequirements S (baseRequirements E sku vcpus memMiB architecture offerings params);
          r2 = insertValue S r1 LabelSKUName (GetName sku);
          r3 = insertValue S r2 LabelSKUFamily (vsFamily vmsize);
          r4 = insertValue S r3 LabelSKUSeries (vsSeries vmsize);
          r5 = setRequirementsEphemeralOSDiskSupported S sku r4;
          r6 = setRequirementsHyperVGeneration S sku r5;
          r7 = setRequirementsGPU S (itGPU E) sku vmsize r6;
          r8 = setRequirementsVersion S vmsize r7;
          r9 = (if ipFIPSMode params = FIPSModeFIPS then insertValue S r8 AKSLabelFIPSEnabled ''true'' else r8)
      in if ipKataEnabled params then insertValue S r9 AKSLabelKataVMIsolation ''true'' else r9)"

definition computeCapacity :: "('r, 's, 'f, 'c) it_env \<Rightarrow> skuInfo \<Rightarrow> int \<Rightarrow> rat \<Rightarrow> instanceTypeParameters \<Rightarrow> resourceList" where
  "computeCapacity E sku vcpus memGiB params =
     [ResourceCPU \<mapsto> of_int vcpus,
      ResourceMemory \<mapsto> of_int (CalculateMemoryWithoutOverhead (itVMMemoryOverheadPercent E) memGiB),
      ResourceEphemeralStorage \<mapsto> of_int (ephemeralStorage sku (ipOSDiskSizeGB params) (ipOSDiskType params) (ipTrustedLaunch params)),
      ResourcePods \<mapsto> of_int (ipMaxPods params),
      ''nvidia.com/gpu'' \<mapsto> of_int (gpuNvidiaCount (itGPU E) sku),
      ''amd.com/gpu'' \<mapsto> of_int (gpuAMDCount (itGPU E) sku)]"

definition newInstanceType :: "('r, 's, 'f, 'c) it_env \<Rightarrow> skuInfo \<Rightarrow> vmSizeParts \<Rightarrow> 'r offering list \<Rightarrow> instanceTypeParameters \<Rightarrow> string \<Rightarrow> failure + 'r builtType" where
  "newInstanceType E sku vmsize offerings params architecture =
     (case (skMemory sku, VCPU sku) of
        (Some memGiB, Some cpu) \<Rightarrow>
          let vcpus = sint cpu; memMiB = memoryMiB memGiB;
              hardening = ShouldUseNodeHardening (itEnableNodeHardening E) (itProvisionMode E);
              capacity = computeCapacity E sku vcpus memGiB params
          in Inr \<lparr>Name = GetName sku,
             ITRequirements = computeRequirements E sku vmsize vcpus memMiB architecture offerings params,
             ITOfferings = offerings,
             ITCapacity = capacity,
             ITKubeReserved = KubeReservedResources (itParseQuantity E) vcpus memMiB (ipMaxPods params) hardening (ipKubeReserved params),
             ITSystemReserved = SystemReservedResources memMiB (itNetworkPlugin E) hardening,
             ITEvictionThreshold = EvictionThreshold (itParseQuantity E) (itParseFloat E) memMiB
               (case capacity ResourceEphemeralStorage of None \<Rightarrow> 0 | Some q \<Rightarrow> q) hardening (ipEvictionHard params)\<rparr>
      | _ \<Rightarrow> Inl (Panic MustMessage))"

text \<open>The zones a size is offered in: inside a reservation group only those where a member backs it.\<close>

definition offeringZones :: "('r, 's, 'f, 'c) it_env \<Rightarrow> instanceTypeParameters \<Rightarrow> skuInfo \<Rightarrow> string list" where
  "offeringZones E params sku =
     (case capacityReservationZones params of
        None \<Rightarrow> instanceTypeZones (itRegion E) sku
      | Some reserved \<Rightarrow> filter (\<lambda>z. z \<in> set (reserved (ToLower (GetName sku)))) (instanceTypeZones (itRegion E) sku))"

text \<open>A size whose name or architecture does not parse is skipped.\<close>

definition buildOne :: "('r, 's, 'f, 'c) it_env \<Rightarrow> ('s, 'f) it_sources \<Rightarrow> instanceTypeParameters \<Rightarrow> skuInfo \<Rightarrow> failure + 'r builtType list" where
  "buildOne E src params sku =
     (case (skVMSize sku, skArchitecture sku) of
        (Inr vmsize, Inr architecture) \<Rightarrow>
          (case createOfferings E src sku (offeringZones E params sku) (ipCapacityReservationGroupID params) of
                Inl e \<Rightarrow> Inl e
              | Inr offerings \<Rightarrow>
                  (case newInstanceType E sku vmsize offerings params architecture of
                     Inl e \<Rightarrow> Inl e
                   | Inr instanceType \<Rightarrow>
                       if offerings = [] then Inr []
                       else case isInstanceTypeSupportedByFilters (itGPU E) sku architecture params of
                         Inl e \<Rightarrow> Inl e | Inr supported \<Rightarrow> Inr (if supported then [instanceType] else [])))
      | _ \<Rightarrow> Inr [])"

definition buildInstanceTypes :: "('r, 's, 'f, 'c) it_env \<Rightarrow> ('s, 'f) it_sources \<Rightarrow> (string, skuInfo) gomap \<Rightarrow> instanceTypeParameters \<Rightarrow> failure + 'r builtType list" where
  "buildInstanceTypes E src info params =
     foldM (\<lambda>result name. case map_of info name of
         None \<Rightarrow> Inr result
       | Some sku \<Rightarrow> (case buildOne E src params sku of Inl e \<Rightarrow> Inl e | Inr ts \<Rightarrow> Inr (result @ ts))) [] (itRange E (map fst info))"

subsection \<open>Lists\<close>

text \<open>An entry of the cache; a nil list of types is the empty list.\<close>

record 'r cachedInstanceTypes =
  ciBase :: "'r builtType list"
  ciQuotaSeqNum :: uint64
  ciQuota :: "'r builtType list"

record ('r, 'c) it_state =
  itInfo :: "(string, skuInfo) gomap"
  itCache :: 'c
  itEntries :: "'r cachedInstanceTypes list"
  itGeneration :: uint64
  itMonitor :: "string option"

definition InstanceTypesCacheTTL :: duration where
  "InstanceTypesCacheTTL = 23 * Hour"

definition CapacityType :: "'r scheduling_api \<Rightarrow> 'r offering \<Rightarrow> string" where
  "CapacityType S off = getAny (schedCore S) (Requirements off) CapacityTypeLabelKey"

definition withoutOnDemand :: "'r scheduling_api \<Rightarrow> 'r builtType \<Rightarrow> 'r builtType" where
  "withoutOnDemand S t = t\<lparr>ITOfferings := map (\<lambda>off. if CapacityType S off = CapacityTypeOnDemand then off\<lparr>Available := False\<rparr> else off) (ITOfferings t)\<rparr>"

definition applyQuota :: "'r scheduling_api \<Rightarrow> quotaProvider \<Rightarrow> (string, skuInfo) gomap \<Rightarrow> 'r builtType list \<Rightarrow> string \<Rightarrow> 'r builtType list \<times> uint64" where
  "applyQuota S q info types groupID =
     (if groupID \<noteq> [] then (types, quotaSeqNum q)
      else
        let skus = map SKU.truncate (List.map_filter (\<lambda>t. map_of info (Name t)) types);
            (hasQuotaMap, seq) = HasQuotaForSKUs q skus
        in (map (\<lambda>t. case hasQuotaMap (Name t) of
                Some False \<Rightarrow> (if \<exists>off \<in> set (ITOfferings t). Available off \<and> CapacityType S off = CapacityTypeOnDemand then withoutOnDemand S t else t)
              | _ \<Rightarrow> t) types, seq))"

text \<open>A new generation of the sources empties the cache.\<close>

definition forGeneration :: "('r, 's, 'f, 'c) it_env \<Rightarrow> ('s, 'f) it_sources \<Rightarrow> ('r, 'c) it_state \<Rightarrow> ('r, 'c) it_state" where
  "forGeneration E src st =
     (if seqNum (srcOfferings src) \<noteq> itGeneration st
      then st\<lparr>itCache := cache_flush (itCacheAPI E) (itCache st), itGeneration := seqNum (srcOfferings src)\<rparr> else st)"

text \<open>The entry of the parameters: the one in the cache, or one that is built and stored.\<close>

definition entryFor :: "('r, 's, 'f, 'c) it_env \<Rightarrow> ('s, 'f) it_sources \<Rightarrow> instanceTypeParameters \<Rightarrow> ('r, 'c) it_state \<Rightarrow> (failure + nat) \<times> ('r, 'c) it_state" where
  "entryFor E src params st =
     (let C = itCacheAPI E; key = itHash E params in
      case cache_get C (srcNow src) (itCache st) key of
        Some a \<Rightarrow> (Inr a, st)
      | None \<Rightarrow> (case buildInstanceTypes E src (itInfo st) params of
            Inl e \<Rightarrow> (Inl e, st)
          | Inr types \<Rightarrow> (Inr (length (itEntries st)),
              st\<lparr>itEntries := itEntries st @ [\<lparr>ciBase = types, ciQuotaSeqNum = 0, ciQuota = []\<rparr>],
                 itCache := cache_set C (srcNow src) key (length (itEntries st)) InstanceTypesCacheTTL (itCache st)\<rparr>)))"

text \<open>
  The quota may change between the comparison of the sequence numbers and the overlay: \<open>q\<close> is its state at the first, \<open>q'\<close> at the second.
\<close>

definition listFor :: "('r, 's, 'f, 'c) it_env \<Rightarrow> ('s, 'f) it_sources \<Rightarrow> quotaProvider \<Rightarrow> quotaProvider \<Rightarrow> instanceTypeParameters \<Rightarrow> ('r, 'c) it_state
    \<Rightarrow> (failure + 'r builtType list) \<times> ('r, 'c) it_state" where
  "listFor E src q q' params st =
     (if itInfo st = [] then (Inl (Failed ''no instance types found''), st)
      else case entryFor E src params (forGeneration E src st) of
        (Inl e, st2) \<Rightarrow> (Inl e, st2)
      | (Inr a, st2) \<Rightarrow>
          let cached = itEntries st2 ! a in
          if ciQuota cached \<noteq> [] \<and> ciQuotaSeqNum cached = quotaSeqNum q then (Inr (ciQuota cached), st2)
          else let (result, seq) = applyQuota (itSched E) q' (itInfo st2) (ciBase cached) (ipCapacityReservationGroupID params)
               in (Inr result, st2\<lparr>itEntries := (itEntries st2)[a := cached\<lparr>ciQuota := result, ciQuotaSeqNum := seq\<rparr>]\<rparr>))"

definition ListInstanceTypes :: "('r, 's, 'f, 'c) it_env \<Rightarrow> ('s, 'f) it_sources \<Rightarrow> quotaProvider \<Rightarrow> quotaProvider \<Rightarrow> 'k nodeClass \<Rightarrow> ('r, 'c) it_state
    \<Rightarrow> (failure + 'r builtType list) \<times> ('r, 'c) it_state" where
  "ListInstanceTypes E src q q' nc st = listFor E src q q' (paramsOf E nc) st"

definition GetInstanceType :: "('r, 'c) it_state \<Rightarrow> string \<Rightarrow> skuInfo result" where
  "GetInstanceType st name =
     (if itInfo st = [] then Inl ''no instance types found''
      else case map_of (itInfo st) name of Some sku \<Rightarrow> Inr sku | None \<Rightarrow> Inl (''instance type '' @ name @ '' not found''))"

subsection \<open>Updates\<close>

definition AKSRestrictedVMSizes :: "string list" where
  "AKSRestrictedVMSizes = [''Standard_A0'', ''Standard_A1'', ''Standard_A1_v2'', ''Standard_B1s'', ''Standard_B1ms'', ''Standard_F1'', ''Standard_F1s'',
     ''Basic_A0'', ''Basic_A1'', ''Basic_A2'', ''Basic_A3'', ''Basic_A4'']"

definition karpenterRestrictedVMSKUs :: "string list" where
  "karpenterRestrictedVMSKUs = [''Standard_E64i_v3'', ''Standard_E64is_v3'']"

definition IsRestrictedSKU :: "string \<Rightarrow> bool" where
  "IsRestrictedSKU name \<longleftrightarrow> name \<in> set AKSRestrictedVMSizes \<or> name \<in> set karpenterRestrictedVMSKUs"

definition GetKarpenterWorkingSKUs :: "string list \<Rightarrow> string list" where
  "GetKarpenterWorkingSKUs names = filter (\<lambda>name. \<not> IsRestrictedSKU name) names"

definition isRetired :: "skuInfo \<Rightarrow> time \<Rightarrow> bool" where
  "isRetired sku retirementCutoff = (case skRetirement sku of Inr (Some date) \<Rightarrow> date < retirementCutoff | _ \<Rightarrow> False)"

definition hasMinimumCPU :: "skuInfo \<Rightarrow> bool" where
  "hasMinimumCPU sku = (case VCPU sku of None \<Rightarrow> False | Some cpu \<Rightarrow> sint cpu \<ge> 2)"

definition hasMinimumMemory :: "skuInfo \<Rightarrow> bool" where
  "hasMinimumMemory sku = (case skMemory sku of None \<Rightarrow> False | Some memGiB \<Rightarrow> memGiB \<ge> 7 / 2)"

definition isUnsupportedByAKS :: "skuInfo \<Rightarrow> bool" where
  "isUnsupportedByAKS sku \<longleftrightarrow> GetName sku \<in> set AKSRestrictedVMSizes"

definition isUnsupportedGPU :: "gpuConfig \<Rightarrow> skuInfo \<Rightarrow> bool" where
  "isUnsupportedGPU G sku = (case skGPUs sku of None \<Rightarrow> False | Some gpu \<Rightarrow> if gpu \<le> 0 then False else \<not> IsGPUSKU G (GetName sku))"

definition hasConstrainedCPUs :: "vmSizeParts \<Rightarrow> bool" where
  "hasConstrainedCPUs vmsize \<longleftrightarrow> vsCpusConstrained vmsize \<noteq> None"

definition IsConfidential :: "string \<Rightarrow> bool" where
  "IsConfidential skuName \<longleftrightarrow> HasPrefix skuName ''DC'' \<or> HasPrefix skuName ''EC''"

definition isConfidential :: "skuInfo \<Rightarrow> bool" where
  "isConfidential sku = IsConfidential (skSize sku)"

definition isSupported :: "gpuConfig \<Rightarrow> skuInfo \<Rightarrow> vmSizeParts \<Rightarrow> bool" where
  "isSupported G sku vmsize \<longleftrightarrow> hasMinimumCPU sku \<and> hasMinimumMemory sku \<and> \<not> isUnsupportedByAKS sku \<and> \<not> isUnsupportedGPU G sku
     \<and> \<not> hasConstrainedCPUs vmsize \<and> \<not> isConfidential sku"

text \<open>Days of the Gregorian calendar since 1970 and back, and the start of a day six months later; a day past the end of its month runs into the next one.\<close>

definition daysOf :: "int \<Rightarrow> int \<Rightarrow> int \<Rightarrow> int" where
  "daysOf y m d =
     (let y' = (if m \<le> 2 then y - 1 else y); era = y' div 400; yoe = y' - era * 400;
          doy = (153 * (if m > 2 then m - 3 else m + 9) + 2) div 5 + d - 1
      in era * 146097 + (yoe * 365 + yoe div 4 - yoe div 100 + doy) - 719468)"

definition dateOf :: "int \<Rightarrow> int \<times> int \<times> int" where
  "dateOf days =
     (let z = days + 719468; era = z div 146097; doe = z - era * 146097;
          yoe = (doe - doe div 1460 + doe div 36524 - doe div 146096) div 365;
          doy = doe - (365 * yoe + yoe div 4 - yoe div 100); mp = (5 * doy + 2) div 153;
          d = doy - (153 * mp + 2) div 5 + 1; m = (if mp < 10 then mp + 3 else mp - 9)
      in (yoe + era * 400 + (if m \<le> 2 then 1 else 0), m, d))"

definition skuRetirementHorizonMonths :: int where "skuRetirementHorizonMonths = 6"

definition retirementCutoffAt :: "time \<Rightarrow> time" where
  "retirementCutoffAt now =
     (let (y, m, d) = dateOf (now div (24 * Hour)); months = m - 1 + skuRetirementHorizonMonths
      in daysOf (y + months div 12) (months mod 12 + 1) d * (24 * Hour))"

definition admitted :: "gpuConfig \<Rightarrow> time \<Rightarrow> skuInfo \<Rightarrow> bool" where
  "admitted G cutoff sku \<longleftrightarrow> \<not> IsRestrictedSKU (GetName sku) \<and> \<not> isRetired sku cutoff
     \<and> (case skVMSize sku of Inl e \<Rightarrow> False | Inr vmsize \<Rightarrow> \<not> skLocationRestricted sku \<and> isSupported G sku vmsize)"

definition discovered :: "gpuConfig \<Rightarrow> time \<Rightarrow> skuInfo list \<Rightarrow> (string, skuInfo) gomap" where
  "discovered G cutoff skus = foldl (\<lambda>m sku. if admitted G cutoff sku then AList.update (GetName sku) sku m else m) [] skus"

text \<open>
  \<open>listed\<close> is what the resource API returns; \<open>forgotten\<close> says that the change monitor has dropped the hash it saw last.
\<close>

definition UpdateInstanceTypes :: "('r, 's, 'f, 'c) it_env \<Rightarrow> time \<Rightarrow> skuInfo list result \<Rightarrow> bool \<Rightarrow> ('r, 'c) it_state \<Rightarrow> error option \<times> ('r, 'c) it_state" where
  "UpdateInstanceTypes E now listed forgotten st =
     (case listed of
        Inl e \<Rightarrow> (Some (''fetching SKUs using skewer, '' @ e), st)
      | Inr skus \<Rightarrow>
          let types = discovered (itGPU E) (retirementCutoffAt now) skus in
          if types = [] then (Some ''no instance types found'', st)
          else
            let changed = forgotten \<or> itMonitor st \<noteq> Some (itMonitorHash E types);
                st1 = (if changed then st\<lparr>itMonitor := Some (itMonitorHash E types), itCache := cache_flush (itCacheAPI E) (itCache st)\<rparr> else st)
            in (None, st1\<lparr>itInfo := types\<rparr>))"

definition ResetInstanceTypes :: "('r, 's, 'f, 'c) it_env \<Rightarrow> ('r, 'c) it_state \<Rightarrow> ('r, 'c) it_state" where
  "ResetInstanceTypes E st = st\<lparr>itInfo := [], itCache := cache_flush (itCacheAPI E) (itCache st)\<rparr>"

definition NewDefaultProvider :: "'c \<Rightarrow> ('r, 'c) it_state" where
  "NewDefaultProvider cache = \<lparr>itInfo = [], itCache = cache, itEntries = [], itGeneration = 0, itMonitor = None\<rparr>"

subsection \<open>Facts about offerings\<close>

text \<open>A loop that appends the results of each element.\<close>

lemma foldM_append:
  "foldM (\<lambda>acc x. case g x of Inl e \<Rightarrow> Inl e | Inr ys \<Rightarrow> Inr (acc @ ys)) acc xs = Inr out \<longleftrightarrow>
     (\<exists>yss. list_all2 (\<lambda>x ys. g x = Inr ys) xs yss \<and> out = acc @ concat yss)"
proof (induction xs arbitrary: acc)
  case (Cons x xs)
  show ?case by (cases "g x") (auto simp: Cons.IH list_all2_Cons1)
qed auto

lemma foldM_append_total:
  "(\<And>x. x \<in> set xs \<Longrightarrow> \<exists>ys. g x = Inr ys) \<Longrightarrow>
     \<exists>out. foldM (\<lambda>acc x. case g x of Inl e \<Rightarrow> Inl e | Inr ys \<Rightarrow> Inr (acc @ ys)) acc xs = Inr out"
proof (induction xs arbitrary: acc)
  case (Cons x xs)
  then obtain ys where "g x = Inr ys" by auto
  with Cons show ?case by simp
qed simp

lemma offering_keys_distinct:
  "distinct [CapacityTypeLabelKey, AKSLabelScaleSetPriority, AKSLabelPriority, LabelTopologyZone, LabelPlacementScope, LabelUltraSSD]"
  by (simp add: sku_label_defs)

lemma valuesIn_Cons: "valuesIn ((k, vs) # rs) k' = (if k' = k then vs else valuesIn rs k')"
  by (simp add: valuesIn_def)

context scheduling
begin

lemma new_offering_labels:
  "getAny (schedCore S) (Requirements (newOffering S c p z u price av)) LabelTopologyZone = z"
  "CapacityType S (newOffering S c p z u price av) = c"
  "getAny (schedCore S) (Requirements (newOffering S c p z u price av)) LabelPlacementScope = PlacementScopeForZone z"
  "set (reqValues S (Requirements (newOffering S c p z u price av)) LabelUltraSSD) = set u"
  using offering_keys_distinct by (auto simp: newOffering_def CapacityType_def values_new valuesIn_Cons intro!: any_new)

end

lemma new_offering_fields [simp]:
  "Price (newOffering S c p z u price av) = price" "Available (newOffering S c p z u price av) = av"
  by (simp_all add: newOffering_def)

text \<open>The key of an offering: its zone and its capacity type.\<close>

definition offeringKey :: "'r scheduling_api \<Rightarrow> 'r offering \<Rightarrow> string \<times> string" where
  "offeringKey S off = (getAny (schedCore S) (Requirements off) LabelTopologyZone, CapacityType S off)"

definition unavailableAt :: "('r, 's, 'f, 'c) it_env \<Rightarrow> ('s, 'f) it_sources \<Rightarrow> skuInfo \<Rightarrow> string \<Rightarrow> string \<times> string \<Rightarrow> bool" where
  "unavailableAt E src sku groupID k =
     view_IsUnavailable (itSingle E) (itFamily E) (srcNow src) (srcOfferings src) (ForCapacityReservationGroup groupID) (SKU.truncate sku) (fst k) (snd k)"

definition priceAt :: "('r, 's, 'f, 'c) it_env \<Rightarrow> ('s, 'f) it_sources \<Rightarrow> skuInfo \<Rightarrow> string \<Rightarrow> rat" where
  "priceAt E src sku capacityType =
     (if \<not> IsKnownSKU E (GetName sku) then MissingPrice
      else fst ((if capacityType = CapacityTypeSpot then SpotPrice else OnDemandPrice) (srcPricing src) (GetName sku)))"

text \<open>
  What the offerings of a size should be: one for each zone and capacity type, on-demand only inside a reservation group, available and priced as the sources say, without ultra disks
  inside a group.
\<close>

definition offeringsExact :: "('r, 's, 'f, 'c) it_env \<Rightarrow> ('s, 'f) it_sources \<Rightarrow> skuInfo \<Rightarrow> string \<Rightarrow> string list \<Rightarrow> 'r offering list \<Rightarrow> bool" where
  "offeringsExact E src sku groupID zs ofs \<longleftrightarrow>
     distinct (map (offeringKey (itSched E)) ofs)
     \<and> set (map (offeringKey (itSched E)) ofs) = set zs \<times> (if groupID = [] then {CapacityTypeOnDemand, CapacityTypeSpot} else {CapacityTypeOnDemand})
     \<and> (\<forall>off \<in> set ofs. let k = offeringKey (itSched E) off in
          Available off = (\<not> unavailableAt E src sku groupID k \<and> (snd k = CapacityTypeSpot \<longrightarrow> skLowPriority sku))
          \<and> Price off = priceAt E src sku (snd k)
          \<and> (groupID \<noteq> [] \<longrightarrow> set (reqValues (itSched E) (Requirements off) LabelUltraSSD) = {''false''}))"

lemma ultraSSDOptions_total: "z \<noteq> [] \<Longrightarrow> \<exists>u. ultraSSDOptions sku z = Inr u"
  by (simp add: ultraSSDOptions_def MakeARMZonesFromAKSLabelZone_def)

lemma zoneOfferings_total: "z \<noteq> [] \<Longrightarrow> \<exists>ofs. zoneOfferings E src sku groupID z = Inr ofs"
  using ultraSSDOptions_total [of z sku] by (auto simp: zoneOfferings_def Let_def)

lemma zoneOfferings_exact:
  assumes "scheduling (itSched E)" and "zoneOfferings E src sku groupID z = Inr ofs"
  shows "offeringsExact E src sku groupID [z] ofs"
  using assms(2) scheduling.new_offering_labels [OF assms(1)]
  by (auto simp: zoneOfferings_def offeringsExact_def Let_def offeringKey_def unavailableAt_def priceAt_def split: sum.splits if_splits)

lemma offeringsExact_append:
  assumes "offeringsExact E src sku groupID zs ofs" and "offeringsExact E src sku groupID zs' ofs'" and "set zs \<inter> set zs' = {}"
  shows "offeringsExact E src sku groupID (zs @ zs') (ofs @ ofs')"
proof -
  have "set (map (offeringKey (itSched E)) ofs) \<inter> set (map (offeringKey (itSched E)) ofs') = {}"
    using assms by (auto simp: offeringsExact_def)
  with assms show ?thesis by (auto simp: offeringsExact_def Sigma_Un_distrib1)
qed

lemma createOfferings_exact:
  assumes "scheduling (itSched E)" and "map_range (itRange E)" and "createOfferings E src sku zs groupID = Inr ofs"
  shows "offeringsExact E src sku groupID zs ofs"
proof -
  have "offeringsExact E src sku groupID xs (concat yss)"
    if "list_all2 (\<lambda>z more. zoneOfferings E src sku groupID z = Inr more) xs yss" and "distinct xs" for xs yss
    using that
  proof (induction rule: list_all2_induct)
    case (Cons x xs y ys)
    then show ?case using offeringsExact_append [OF zoneOfferings_exact [OF assms(1) Cons(1)]] by fastforce
  qed (simp add: offeringsExact_def)
  then have "offeringsExact E src sku groupID (itRange E zs) ofs"
    using assms(3) map_range.rng_distinct [OF assms(2)] by (auto simp: createOfferings_def foldM_append)
  then show ?thesis using map_range.rng_set [OF assms(2)] by (simp add: offeringsExact_def)
qed

subsection \<open>Facts about the types that are built\<close>

definition offered :: "('r, 's, 'f, 'c) it_env \<Rightarrow> instanceTypeParameters \<Rightarrow> skuInfo \<Rightarrow> bool" where
  "offered E params sku \<longleftrightarrow> (\<exists>vmsize architecture. skVMSize sku = Inr vmsize \<and> skArchitecture sku = Inr architecture
     \<and> offeringZones E params sku \<noteq> [] \<and> isInstanceTypeSupportedByFilters (itGPU E) sku architecture params = Inr True)"

definition advertises :: "('r, 's, 'f, 'c) it_env \<Rightarrow> 'r builtType \<Rightarrow> bool" where
  "advertises E t \<longleftrightarrow>
     (let S = itSched E; ks = offeringKey S ` {off \<in> set (ITOfferings t). Available off} in
      set (reqValues S (ITRequirements t) LabelTopologyZone) = fst ` ks \<and> set (reqValues S (ITRequirements t) CapacityTypeLabelKey) = snd ` ks)"

lemma base_keys_distinct: "distinct (map fst (baseRequirements E sku vcpus memMiB architecture offerings params))"
  by (simp add: baseRequirements_def Let_def sku_label_defs)

lemma inserted_keys_differ:
  "k \<in> {LabelTopologyZone, CapacityTypeLabelKey} \<Longrightarrow>
     k \<notin> {LabelSKUName, LabelSKUFamily, LabelSKUSeries, LabelSKUStorageEphemeralOSMaxSize, LabelSKUHyperVGeneration, LabelSKUGPUManufacturer, LabelSKUGPUName,
       LabelSKUVersion, AKSLabelFIPSEnabled, AKSLabelKataVMIsolation}"
  by (auto simp: sku_label_defs)

lemma computeRequirements_values:
  assumes "scheduling (itSched E)" and "k \<in> {LabelTopologyZone, CapacityTypeLabelKey}"
  shows "set (reqValues (itSched E) (computeRequirements E sku vmsize vcpus memMiB architecture offerings params) k) =
    set (valuesIn (baseRequirements E sku vcpus memMiB architecture offerings params) k)"
  using inserted_keys_differ [OF assms(2)]
  by (simp add: computeRequirements_def setRequirementsEphemeralOSDiskSupported_def setRequirementsHyperVGeneration_def setRequirementsGPU_def setRequirementsVersion_def Let_def
      scheduling.values_insert [OF assms(1)] scheduling.values_new [OF assms(1) base_keys_distinct] split: option.split)

lemma base_values:
  assumes "scheduling (itSched E)"
  shows "set (valuesIn (baseRequirements E sku vcpus memMiB architecture offerings params) LabelTopologyZone) = fst ` offeringKey (itSched E) ` {off \<in> set offerings. Available off}"
    and "set (valuesIn (baseRequirements E sku vcpus memMiB architecture offerings params) CapacityTypeLabelKey) = snd ` offeringKey (itSched E) ` {off \<in> set offerings. Available off}"
proof -
  note avail = karpenter_core.available_filter [OF scheduling.axioms(1) [OF assms]]
  have zone: "LabelTopologyZone \<notin> {LabelInstanceTypeStable, LabelArchStable, LabelOSStable}"
    and cap: "CapacityTypeLabelKey \<notin> {LabelInstanceTypeStable, LabelArchStable, LabelOSStable, LabelTopologyZone, LabelTopologyRegion}"
    by (simp_all add: sku_label_defs)
  show "set (valuesIn (baseRequirements E sku vcpus memMiB architecture offerings params) LabelTopologyZone) = fst ` offeringKey (itSched E) ` {off \<in> set offerings. Available off}"
    using zone by (auto simp: baseRequirements_def Let_def valuesIn_Cons avail offeringKey_def image_image)
  show "set (valuesIn (baseRequirements E sku vcpus memMiB architecture offerings params) CapacityTypeLabelKey) = snd ` offeringKey (itSched E) ` {off \<in> set offerings. Available off}"
    using cap by (auto simp: baseRequirements_def Let_def valuesIn_Cons avail offeringKey_def CapacityType_def image_image)
qed

lemma newInstanceType_facts:
  assumes "scheduling (itSched E)" and "newInstanceType E sku vmsize offerings params architecture = Inr t"
  shows "Name t = GetName sku \<and> ITOfferings t = offerings \<and> advertises E t"
  using assms(2) computeRequirements_values [OF assms(1)] base_values [OF assms(1)]
  by (auto simp: newInstanceType_def advertises_def Let_def split: option.splits)

lemma offeringsExact_nonempty: "offeringsExact E src sku groupID zs ofs \<Longrightarrow> ofs = [] \<longleftrightarrow> zs = []"
  by (cases ofs; cases zs) (auto simp: offeringsExact_def split: if_splits)

lemma buildOne_cases:
  assumes "scheduling (itSched E)" and "map_range (itRange E)" and "buildOne E src params sku = Inr ts"
  shows "ts = [] \<and> \<not> offered E params sku \<or>
    (\<exists>t. ts = [t] \<and> offered E params sku \<and> Name t = GetName sku \<and> advertises E t
       \<and> offeringsExact E src sku (ipCapacityReservationGroupID params) (offeringZones E params sku) (ITOfferings t))"
proof (cases "skVMSize sku"; cases "skArchitecture sku")
  fix vmsize architecture
  assume sz: "skVMSize sku = Inr vmsize" "skArchitecture sku = Inr architecture"
  from assms(3) sz obtain ofs t where ofs: "createOfferings E src sku (offeringZones E params sku) (ipCapacityReservationGroupID params) = Inr ofs"
    and t: "newInstanceType E sku vmsize ofs params architecture = Inr t"
    by (auto simp: buildOne_def Let_def split: sum.splits)
  note exact = createOfferings_exact [OF assms(1,2) ofs]
  show ?thesis
    using assms(3) sz ofs t exact offeringsExact_nonempty [OF exact] newInstanceType_facts [OF assms(1) t]
    by (auto simp: buildOne_def offered_def split: if_splits sum.splits)
qed (use assms(3) in \<open>auto simp: buildOne_def offered_def\<close>)

lemma build_list_all2:
  assumes "buildInstanceTypes E src info params = Inr types"
  shows "\<exists>yss. list_all2 (\<lambda>name ts. (case map_of info name of None \<Rightarrow> Inr [] | Some sku \<Rightarrow> buildOne E src params sku) = Inr ts) (itRange E (map fst info)) yss
    \<and> types = concat yss"
proof -
  let ?g = "\<lambda>name. case map_of info name of None \<Rightarrow> Inr [] | Some sku \<Rightarrow> buildOne E src params sku"
  have "buildInstanceTypes E src info params =
      foldM (\<lambda>acc x. case ?g x of Inl e \<Rightarrow> Inl e | Inr ys \<Rightarrow> Inr (acc @ ys)) [] (itRange E (map fst info))"
    unfolding buildInstanceTypes_def by (rule arg_cong [where f = "\<lambda>f. foldM f [] (itRange E (map fst info))"]) (auto simp: fun_eq_iff split: option.split)
  with assms show ?thesis by (simp add: foldM_append)
qed

lemma build_of_sku:
  assumes "map_range (itRange E)" and "buildInstanceTypes E src info params = Inr types" and "map_of info name = Some sku"
  shows "\<exists>ts. buildOne E src params sku = Inr ts \<and> set ts \<subseteq> set types"
proof -
  from build_list_all2 [OF assms(2)] obtain yss
    where yss: "list_all2 (\<lambda>name ts. (case map_of info name of None \<Rightarrow> Inr [] | Some sku \<Rightarrow> buildOne E src params sku) = Inr ts) (itRange E (map fst info)) yss"
      and types: "types = concat yss" by blast
  have "name \<in> set (itRange E (map fst info))" using assms(3) map_range.rng_set [OF assms(1)] by (force dest: map_of_SomeD)
  from list_all2_in_left [OF yss this] assms(3) types show ?thesis by auto
qed

lemma build_from_sku:
  assumes "buildInstanceTypes E src info params = Inr types" and "t \<in> set types"
  shows "\<exists>name sku ts. map_of info name = Some sku \<and> buildOne E src params sku = Inr ts \<and> t \<in> set ts"
proof -
  from build_list_all2 [OF assms(1)] obtain yss
    where yss: "list_all2 (\<lambda>name ts. (case map_of info name of None \<Rightarrow> Inr [] | Some sku \<Rightarrow> buildOne E src params sku) = Inr ts) (itRange E (map fst info)) yss"
      and types: "types = concat yss" by blast
  from types assms(2) obtain ts where "ts \<in> set yss" "t \<in> set ts" by auto
  with list_all2_in_right [OF yss] show ?thesis by (fastforce split: option.splits)
qed

lemma reserved_zones:
  "z \<in> set (offeringZones E params sku) \<Longrightarrow> ipCapacityReservationGroupID params \<noteq> [] \<Longrightarrow> (ToLower (GetName sku), z) \<in> set (ipCapacityReservations params)"
  by (auto simp: offeringZones_def capacityReservationZones_def)

lemma offering_zone: "offeringsExact E src sku groupID zs ofs \<Longrightarrow> off \<in> set ofs \<Longrightarrow> fst (offeringKey (itSched E) off) \<in> set zs"
  by (auto simp: offeringsExact_def dest!: equalityD1)

text \<open>
  The types built for a node class are exactly the sizes whose name and architecture parse, that have a zone and that pass every filter. Each has one offering per zone and capacity
  type, available unless the offering is marked unavailable (and, for spot, when the size supports it), with the price the sources give; its requirements advertise exactly the zones and
  capacity types of its available offerings. When a capacity reservation group is configured there are on-demand offerings only, each backed by a member of the group for that size and
  zone, and none with an ultra disk.\<close>

theorem built_types_are_exact:
  assumes "scheduling (itSched E)" and "map_range (itRange E)" and "buildInstanceTypes E src info params = Inr types"
  shows "Name ` set types = GetName ` {sku \<in> ran (map_of info). offered E params sku}
    \<and> (\<forall>t \<in> set types. \<exists>sku \<in> ran (map_of info). Name t = GetName sku \<and> offered E params sku \<and> advertises E t
         \<and> offeringsExact E src sku (ipCapacityReservationGroupID params) (offeringZones E params sku) (ITOfferings t)
         \<and> (ipCapacityReservationGroupID params \<noteq> [] \<longrightarrow>
              (\<forall>off \<in> set (ITOfferings t). (ToLower (Name t), fst (offeringKey (itSched E) off)) \<in> set (ipCapacityReservations params))))"
proof -
  have each: "\<exists>sku \<in> ran (map_of info). Name t = GetName sku \<and> offered E params sku \<and> advertises E t
      \<and> offeringsExact E src sku (ipCapacityReservationGroupID params) (offeringZones E params sku) (ITOfferings t)" if "t \<in> set types" for t
    using build_from_sku [OF assms(3) that] buildOne_cases [OF assms(1,2)] by (fastforce intro: ranI)
  moreover have "GetName sku \<in> Name ` set types" if "sku \<in> ran (map_of info)" "offered E params sku" for sku
  proof -
    from that(1) obtain name where "map_of info name = Some sku" by (auto simp: ran_def)
    from build_of_sku [OF assms(2,3) this] obtain ts where "buildOne E src params sku = Inr ts" "set ts \<subseteq> set types" by blast
    with buildOne_cases [OF assms(1,2), of src params sku ts] that(2) show ?thesis by force
  qed
  ultimately show ?thesis by (fastforce dest: offering_zone reserved_zones)
qed

subsection \<open>Lists are always built\<close>

lemma offeringZones_nonempty: "z \<in> set (offeringZones E params sku) \<Longrightarrow> z \<noteq> []"
  by (auto simp: offeringZones_def instanceTypeZones_def MakeAKSLabelZoneFromARMZone_def Regional_def split: option.splits if_splits)

lemma createOfferings_total:
  assumes "map_range (itRange E)" and "\<And>z. z \<in> set zs \<Longrightarrow> z \<noteq> []"
  shows "\<exists>ofs. createOfferings E src sku zs groupID = Inr ofs"
  unfolding createOfferings_def using assms zoneOfferings_total map_range.rng_set [OF assms(1)] by (intro foldM_append_total) blast

lemma newInstanceType_total: "VCPU sku \<noteq> None \<Longrightarrow> skMemory sku \<noteq> None \<Longrightarrow> \<exists>t. newInstanceType E sku vmsize ofs params architecture = Inr t"
  by (auto simp: newInstanceType_def Let_def)

lemma filters_total: "skMemory sku \<noteq> None \<Longrightarrow> \<exists>b. isInstanceTypeSupportedByFilters G sku architecture params = Inr b"
  by (auto simp: isInstanceTypeSupportedByFilters_def isInstanceTypeSupportedByLocalDNS_def split: option.split)

lemma buildOne_total:
  assumes "map_range (itRange E)" and "VCPU sku \<noteq> None" and "skMemory sku \<noteq> None"
  shows "\<exists>ts. buildOne E src params sku = Inr ts"
proof (cases "skVMSize sku"; cases "skArchitecture sku")
  fix vmsize architecture
  assume sz: "skVMSize sku = Inr vmsize" "skArchitecture sku = Inr architecture"
  obtain ofs where "createOfferings E src sku (offeringZones E params sku) (ipCapacityReservationGroupID params) = Inr ofs"
    using createOfferings_total [OF assms(1), of "offeringZones E params sku"] offeringZones_nonempty by blast
  moreover obtain t where "newInstanceType E sku vmsize ofs params architecture = Inr t" using newInstanceType_total [OF assms(2,3)] by blast
  moreover obtain b where "isInstanceTypeSupportedByFilters (itGPU E) sku architecture params = Inr b" using filters_total [OF assms(3)] by blast
  ultimately show ?thesis using sz by (simp add: buildOne_def)
qed (auto simp: buildOne_def)

definition readable :: "(string, skuInfo) gomap \<Rightarrow> bool" where
  "readable info \<longleftrightarrow> (\<forall>name sku. map_of info name = Some sku \<longrightarrow> GetName sku = name \<and> VCPU sku \<noteq> None \<and> skMemory sku \<noteq> None)"

lemma build_total:
  assumes "map_range (itRange E)" and "readable info"
  shows "\<exists>types. buildInstanceTypes E src info params = Inr types"
proof -
  let ?g = "\<lambda>name. case map_of info name of None \<Rightarrow> Inr [] | Some sku \<Rightarrow> buildOne E src params sku"
  have "buildInstanceTypes E src info params =
      foldM (\<lambda>acc x. case ?g x of Inl e \<Rightarrow> Inl e | Inr ys \<Rightarrow> Inr (acc @ ys)) [] (itRange E (map fst info))"
    unfolding buildInstanceTypes_def by (rule arg_cong [where f = "\<lambda>f. foldM f [] (itRange E (map fst info))"]) (auto simp: fun_eq_iff split: option.split)
  moreover have "\<exists>ts. ?g name = Inr ts" for name
    using assms(2) buildOne_total [OF assms(1)] by (auto simp: readable_def split: option.split)
  ultimately show ?thesis by (simp add: foldM_append_total)
qed

subsection \<open>The quota overlay\<close>

lemma HasQuotaForSKUs_map:
  "fst (HasQuotaForSKUs q (map f xs)) n = (if \<exists>x \<in> set xs. GetName (f x) = n then Some (hasQuotaForLocked q (f (last (filter (\<lambda>x. GetName (f x) = n) xs)))) else None)"
proof -
  have "foldl (\<lambda>m sku. m(GetName sku \<mapsto> hasQuotaForLocked q sku)) m (map f xs) n =
      (if \<exists>x \<in> set xs. GetName (f x) = n then Some (hasQuotaForLocked q (f (last (filter (\<lambda>x. GetName (f x) = n) xs)))) else m n)" for m
    by (induction xs arbitrary: m) (auto simp: filter_empty_conv)
  then show ?thesis by (simp add: HasQuotaForSKUs_def)
qed

definition overlaid :: "'r scheduling_api \<Rightarrow> quotaProvider \<Rightarrow> (string, skuInfo) gomap \<Rightarrow> 'r builtType \<Rightarrow> 'r builtType" where
  "overlaid S q info t =
     (case map_of info (Name t) of
        None \<Rightarrow> t
      | Some sku \<Rightarrow> if HasQuotaFor q (SKU.truncate sku) then t else withoutOnDemand S t)"

lemma withoutOnDemand_id: "\<not> (\<exists>off \<in> set (ITOfferings t). Available off \<and> CapacityType S off = CapacityTypeOnDemand) \<Longrightarrow> withoutOnDemand S t = t"
proof -
  assume none: "\<not> (\<exists>off \<in> set (ITOfferings t). Available off \<and> CapacityType S off = CapacityTypeOnDemand)"
  have "map (\<lambda>off. if CapacityType S off = CapacityTypeOnDemand then off\<lparr>Available := False\<rparr> else off) (ITOfferings t) = ITOfferings t"
    using none by (intro map_idI) auto
  then show ?thesis by (simp add: withoutOnDemand_def)
qed

lemma applyQuota_overlaid:
  assumes "readable info"
  shows "applyQuota S q info types groupID = (if groupID \<noteq> [] then types else map (overlaid S q info) types, quotaSeqNum q)"
proof (cases "groupID = []")
  case True
  let ?skus = "List.map_filter (\<lambda>t. map_of info (Name t)) types"
  have names: "GetName (SKU.truncate sku) = n \<longleftrightarrow> map_of info n = Some sku" if "sku \<in> set ?skus" for sku n
    using that assms by (auto simp: readable_def List.map_filter_def SKU.truncate_def)
  have m: "fst (HasQuotaForSKUs q (map SKU.truncate ?skus)) (Name t) = map_option (\<lambda>sku. HasQuotaFor q (SKU.truncate sku)) (map_of info (Name t))"
    if "t \<in> set types" for t
  proof (cases "map_of info (Name t)")
    case None
    then show ?thesis using names by (auto simp: HasQuotaForSKUs_map)
  next
    case (Some sku)
    with that have mem: "sku \<in> set ?skus" by (force simp: List.map_filter_def)
    have f: "set (filter (\<lambda>x. GetName (SKU.truncate x) = Name t) ?skus) = {sku}" using names mem Some by auto
    then have "last (filter (\<lambda>x. GetName (SKU.truncate x) = Name t) ?skus) = sku" by (metis empty_iff insert_iff last_in_set list.set(1))
    with f Some mem names show ?thesis by (auto simp: HasQuotaForSKUs_map HasQuotaFor_def)
  qed
  have "map (\<lambda>t. case fst (HasQuotaForSKUs q (map SKU.truncate ?skus)) (Name t) of
          Some False \<Rightarrow> (if \<exists>off \<in> set (ITOfferings t). Available off \<and> CapacityType S off = CapacityTypeOnDemand then withoutOnDemand S t else t)
        | _ \<Rightarrow> t) types = map (overlaid S q info) types"
    by (rule map_cong [OF refl]) (auto simp: m overlaid_def withoutOnDemand_id split: option.split)
  then show ?thesis using True by (simp add: applyQuota_def case_prod_beta HasQuotaForSKUs_def)
qed (simp add: applyQuota_def)

text \<open>
  C37: The overlay of quota changes nothing but availability. An offering of the overlaid list is available exactly when it was available before and, for an on-demand offering outside a
  reservation group, the quota provider has room for the size; spot and reserved offerings keep their state.\<close>

theorem quota_overlay_is_exact:
  assumes "readable info" and "applyQuota S q info types groupID = (types', seq)"
  shows "seq = quotaSeqNum q \<and> map Name types' = map Name types \<and>
    list_all2 (\<lambda>t t'. t' = t\<lparr>ITOfferings := ITOfferings t'\<rparr> \<and> list_all2 (\<lambda>off off'. off' = off\<lparr>Available := Available off \<and>
        (groupID = [] \<and> CapacityType S off = CapacityTypeOnDemand \<longrightarrow> (\<forall>sku. map_of info (Name t) = Some sku \<longrightarrow> HasQuotaFor q (SKU.truncate sku)))\<rparr>)
      (ITOfferings t) (ITOfferings t')) types types'"
proof -
  from assms have out: "seq = quotaSeqNum q" "types' = (if groupID \<noteq> [] then types else map (overlaid S q info) types)"
    by (simp_all add: applyQuota_overlaid)
  have keep: "off\<lparr>Available := Available off\<rparr> = off" for off :: "'a offering" by simp
  have same: "list_all2 (\<lambda>off off'. off' = off\<lparr>Available := Available off \<and>
        (groupID = [] \<and> CapacityType S off = CapacityTypeOnDemand \<longrightarrow> (\<forall>sku. map_of info (Name t) = Some sku \<longrightarrow> HasQuotaFor q (SKU.truncate sku)))\<rparr>)
      (ITOfferings t) (ITOfferings t')" if "t' = (if groupID \<noteq> [] then t else overlaid S q info t)" for t t'
    using that by (auto simp: overlaid_def withoutOnDemand_def keep list_all2_conv_all_nth split: option.splits)
  have step: "t' = t\<lparr>ITOfferings := ITOfferings t'\<rparr> \<and> Name t' = Name t" if "t' = (if groupID \<noteq> [] then t else overlaid S q info t)" for t t'
    using that by (auto simp: overlaid_def withoutOnDemand_def split: option.splits)
  define f where "f t = (if groupID \<noteq> [] then t else overlaid S q info t)" for t
  have f: "types' = map f types" using out(2) by (simp add: f_def map_idI)
  show ?thesis unfolding f list_all2_map2 list_all2_same using out(1) same [OF f_def] step [OF f_def] by simp
qed

subsection \<open>The cache\<close>

text \<open>Two sets of parameters that differ at most in the order of the reservations; the cache key hashes them as sets.\<close>

definition sameParams :: "instanceTypeParameters \<Rightarrow> instanceTypeParameters \<Rightarrow> bool" where
  "sameParams p p' \<longleftrightarrow> (\<exists>rs. p' = p\<lparr>ipCapacityReservations := rs\<rparr> \<and> set rs = set (ipCapacityReservations p))"

lemma sameParams_refl [simp]: "sameParams p p"
  unfolding sameParams_def by (rule exI [of _ "ipCapacityReservations p"]) simp

lemma newInstanceType_reservations:
  "newInstanceType E sku vmsize ofs (p\<lparr>ipCapacityReservations := rs\<rparr>) architecture = newInstanceType E sku vmsize ofs p architecture"
proof -
  have "computeRequirements E sku vmsize v m architecture ofs (p\<lparr>ipCapacityReservations := rs\<rparr>) = computeRequirements E sku vmsize v m architecture ofs p" for v m
    by (simp add: computeRequirements_def baseRequirements_def)
  moreover have "computeCapacity E sku v m (p\<lparr>ipCapacityReservations := rs\<rparr>) = computeCapacity E sku v m p" for v m
    by (simp add: computeCapacity_def)
  ultimately show ?thesis by (simp add: newInstanceType_def Let_def split: option.split)
qed

lemma filters_reservations:
  "isInstanceTypeSupportedByFilters G sku architecture (p\<lparr>ipCapacityReservations := rs\<rparr>) = isInstanceTypeSupportedByFilters G sku architecture p"
  by (simp add: isInstanceTypeSupportedByFilters_def isInstanceTypeSupportedByEncryptionAtHost_def isInstanceTypeSupportedByLocalDNS_def isInstanceTypeSupportedByGPUDriverMode_def
      isInstanceTypeSupportedByArtifactStreaming_def isInstanceTypeSupportedByTrustedLaunch_def isInstanceTypeSupportedByKata_def cong: sum.case_cong)

lemma offeringZones_reservations:
  "set rs = set (ipCapacityReservations p) \<Longrightarrow> offeringZones E (p\<lparr>ipCapacityReservations := rs\<rparr>) sku = offeringZones E p sku"
  by (simp add: offeringZones_def capacityReservationZones_def)

lemma buildOne_reservations:
  "set rs = set (ipCapacityReservations p) \<Longrightarrow> buildOne E src (p\<lparr>ipCapacityReservations := rs\<rparr>) sku = buildOne E src p sku"
  by (simp add: buildOne_def offeringZones_reservations newInstanceType_reservations filters_reservations cong: sum.case_cong if_cong)

lemma sameParams_build: "sameParams p p' \<Longrightarrow> buildInstanceTypes E src info p' = buildInstanceTypes E src info p"
  by (auto simp: sameParams_def buildInstanceTypes_def buildOne_reservations cong: option.case_cong)

lemma sameParams_group: "sameParams p p' \<Longrightarrow> ipCapacityReservationGroupID p' = ipCapacityReservationGroupID p"
  by (auto simp: sameParams_def)

definition collisionFree :: "('r, 's, 'f, 'c) it_env \<Rightarrow> instanceTypeParameters \<Rightarrow> ('x \<times> instanceTypeParameters) list \<Rightarrow> bool" where
  "collisionFree E params past \<longleftrightarrow> (\<forall>p \<in> snd ` set past. itHash E p = itHash E params \<longrightarrow> sameParams p params)"

lemma collisionFreeD: "collisionFree E params past \<Longrightarrow> (s, p) \<in> set past \<Longrightarrow> itHash E p = itHash E params \<Longrightarrow> sameParams p params"
  by (force simp: collisionFree_def)

text \<open>
  Runs of the provider: lists, updates and resets at times that never go back, with sources and quota that change freely in between. \<open>past\<close> and \<open>qs\<close> are what the lists so far were
  called with. The side conditions say that no two hashes collide in the run.
\<close>

inductive it_reach :: "('r, 's, 'f, 'c) it_env \<Rightarrow> time \<Rightarrow> ('r, 'c) it_state \<Rightarrow> (('s, 'f) it_sources \<times> instanceTypeParameters) list \<Rightarrow> quotaProvider list \<Rightarrow> bool" for E where
  start: "(\<And>t k. cache_get (itCacheAPI E) t c k = None) \<Longrightarrow> it_reach E now (NewDefaultProvider c) [] []"
| list: "it_reach E now st past qs \<Longrightarrow> now \<le> srcNow src \<Longrightarrow> collisionFree E params past \<Longrightarrow>
    it_reach E (srcNow src) (snd (listFor E src q q' params st)) ((src, params) # past) (q' # qs)"
| refresh: "it_reach E now st past qs \<Longrightarrow> now \<le> t \<Longrightarrow>
    (\<And>skus. listed = Inr skus \<Longrightarrow> itMonitorHash E (discovered (itGPU E) (retirementCutoffAt t) skus) = itMonitorHash E (itInfo st) \<Longrightarrow>
       map_of (discovered (itGPU E) (retirementCutoffAt t) skus) = map_of (itInfo st)) \<Longrightarrow>
    it_reach E t (snd (UpdateInstanceTypes E t listed forgotten st)) past qs"
| reset: "it_reach E now st past qs \<Longrightarrow> it_reach E now (ResetInstanceTypes E st) past qs"

definition entry_ok :: "('r, 's, 'f, 'c) it_env \<Rightarrow> time \<Rightarrow> ('r, 'c) it_state \<Rightarrow> (('s, 'f) it_sources \<times> instanceTypeParameters) list \<Rightarrow> quotaProvider list \<Rightarrow> string
    \<Rightarrow> 'r cachedInstanceTypes \<Rightarrow> bool" where
  "entry_ok E t st past qs k e \<longleftrightarrow> (\<exists>src params info. (src, params) \<in> set past \<and> k = itHash E params \<and> map_of info = map_of (itInfo st)
     \<and> seqNum (srcOfferings src) = itGeneration st \<and> t \<le> srcNow src + InstanceTypesCacheTTL \<and> buildInstanceTypes E src info params = Inr (ciBase e)
     \<and> (ciQuota e = [] \<or> (\<exists>q \<in> set qs. applyQuota (itSched E) q (itInfo st) (ciBase e) (ipCapacityReservationGroupID params) = (ciQuota e, ciQuotaSeqNum e))))"

definition it_inv :: "('r, 's, 'f, 'c) it_env \<Rightarrow> time \<Rightarrow> ('r, 'c) it_state \<Rightarrow> (('s, 'f) it_sources \<times> instanceTypeParameters) list \<Rightarrow> quotaProvider list \<Rightarrow> bool" where
  "it_inv E now st past qs \<longleftrightarrow> readable (itInfo st) \<and> (itInfo st \<noteq> [] \<longrightarrow> itMonitor st = Some (itMonitorHash E (itInfo st)))
     \<and> (\<forall>t k a. now \<le> t \<longrightarrow> cache_get (itCacheAPI E) t (itCache st) k = Some a \<longrightarrow>
          itInfo st \<noteq> [] \<and> a < length (itEntries st) \<and> entry_ok E t st past qs k (itEntries st ! a)
          \<and> (\<forall>k'. cache_get (itCacheAPI E) t (itCache st) k' = Some a \<longrightarrow> k' = k))"

lemma applyQuota_cong: "map_of info = map_of info' \<Longrightarrow> applyQuota S q info types groupID = applyQuota S q info' types groupID"
  by (simp add: applyQuota_def)

lemma it_inv_live:
  assumes "it_inv E now st past qs" and "now \<le> t" and "cache_get (itCacheAPI E) t (itCache st) k = Some a"
  shows "itInfo st \<noteq> []" and "a < length (itEntries st)" and "entry_ok E t st past qs k (itEntries st ! a)"
    and "\<And>k'. cache_get (itCacheAPI E) t (itCache st) k' = Some a \<Longrightarrow> k' = k"
  using assms by (auto simp: it_inv_def)

lemma it_inv_mono:
  assumes "it_inv E now st past qs" and "now \<le> now'" and "set past \<subseteq> set past'" and "set qs \<subseteq> set qs'"
  shows "it_inv E now' st past' qs'"
proof -
  have "entry_ok E t st past' qs' k e" if "entry_ok E t st past qs k e" for t k e
    using that assms(3,4) unfolding entry_ok_def by blast
  with assms(1,2) show ?thesis unfolding it_inv_def by (meson order_trans)
qed

lemma it_inv_flushed:
  assumes "go_cache (itCacheAPI E)" and "readable (itInfo st)" and "itInfo st \<noteq> [] \<longrightarrow> itMonitor st = Some (itMonitorHash E (itInfo st))"
    and "itCache st = cache_flush (itCacheAPI E) c"
  shows "it_inv E now st past qs"
  using assms by (simp add: it_inv_def go_cache.get_flush)

lemma discovered_mem:
  "map_of (discovered G cutoff skus) name = Some sku \<Longrightarrow> sku \<in> set skus \<and> admitted G cutoff sku \<and> GetName sku = name"
proof -
  have "map_of (foldl (\<lambda>m sku. if admitted G cutoff sku then AList.update (GetName sku) sku m else m) m skus) name = Some sku \<Longrightarrow>
      map_of m name = Some sku \<or> sku \<in> set skus \<and> admitted G cutoff sku \<and> GetName sku = name" for m
  proof (induction skus arbitrary: m)
    case (Cons a skus)
    from Cons.IH [OF Cons.prems [unfolded foldl_Cons]] show ?case by (auto simp: update_conv' split: if_splits)
  qed simp
  from this [of "[]"] show "map_of (discovered G cutoff skus) name = Some sku \<Longrightarrow> sku \<in> set skus \<and> admitted G cutoff sku \<and> GetName sku = name"
    by (auto simp: discovered_def)
qed

lemma admitted_readable: "admitted G cutoff sku \<Longrightarrow> VCPU sku \<noteq> None \<and> skMemory sku \<noteq> None"
  by (auto simp: admitted_def isSupported_def hasMinimumCPU_def hasMinimumMemory_def split: sum.splits option.splits)

lemma discovered_readable: "readable (discovered G cutoff skus)"
  using discovered_mem admitted_readable by (fastforce simp: readable_def)

lemma it_inv_refresh:
  assumes "go_cache (itCacheAPI E)" and inv: "it_inv E now st past qs" and "now \<le> t"
    and nc: "\<And>skus. listed = Inr skus \<Longrightarrow> itMonitorHash E (discovered (itGPU E) (retirementCutoffAt t) skus) = itMonitorHash E (itInfo st) \<Longrightarrow>
       map_of (discovered (itGPU E) (retirementCutoffAt t) skus) = map_of (itInfo st)"
  shows "it_inv E t (snd (UpdateInstanceTypes E t listed forgotten st)) past qs"
proof (cases "\<exists>skus. listed = Inr skus \<and> discovered (itGPU E) (retirementCutoffAt t) skus \<noteq> []")
  case False
  then have "snd (UpdateInstanceTypes E t listed forgotten st) = st" by (cases listed) (auto simp: UpdateInstanceTypes_def Let_def)
  then show ?thesis using it_inv_mono [OF inv assms(3)] by simp
next
  case True
  then obtain skus where listed: "listed = Inr skus" "discovered (itGPU E) (retirementCutoffAt t) skus \<noteq> []" by blast
  let ?types = "discovered (itGPU E) (retirementCutoffAt t) skus" and ?st = "snd (UpdateInstanceTypes E t listed forgotten st)"
  show ?thesis
  proof (cases "forgotten \<or> itMonitor st \<noteq> Some (itMonitorHash E ?types)")
    case True
    then show ?thesis using listed by (intro it_inv_flushed [OF assms(1), where c = "itCache st"]) (auto simp: UpdateInstanceTypes_def Let_def discovered_readable)
  next
    case False
    then have st: "?st = st\<lparr>itInfo := ?types\<rparr>" and mon: "itMonitor st = Some (itMonitorHash E ?types)"
      using listed by (auto simp: UpdateInstanceTypes_def Let_def)
    have same: "map_of ?types = map_of (itInfo st)" if "itInfo st \<noteq> []"
      using nc [OF listed(1)] mon inv that by (simp add: it_inv_def)
    have "entry_ok E t' ?st past qs k e" if "entry_ok E t' st past qs k e" "itInfo st \<noteq> []" for t' k e
      using that(1) same [OF that(2)] applyQuota_cong [OF same [OF that(2)], where S = "itSched E"] by (simp add: entry_ok_def st)
    then show ?thesis using it_inv_mono [OF inv assms(3) order_refl order_refl] mon listed(2) discovered_readable unfolding it_inv_def st by auto
  qed
qed

lemma forGeneration_inv:
  assumes "go_cache (itCacheAPI E)" and "it_inv E now st past qs"
  shows "it_inv E now (forGeneration E src st) past qs" and "itGeneration (forGeneration E src st) = seqNum (srcOfferings src)"
    and "itInfo (forGeneration E src st) = itInfo st"
proof -
  show "it_inv E now (forGeneration E src st) past qs"
  proof (cases "seqNum (srcOfferings src) = itGeneration st")
    case False
    with assms show ?thesis
      by (intro it_inv_flushed [where c = "itCache st"]) (auto simp: forGeneration_def it_inv_def)
  qed (use assms in \<open>simp add: forGeneration_def\<close>)
qed (simp_all add: forGeneration_def)

lemma entry_ok_frame:
  "itInfo st' = itInfo st \<Longrightarrow> itGeneration st' = itGeneration st \<Longrightarrow> entry_ok E t st' past qs k e = entry_ok E t st past qs k e"
  by (simp add: entry_ok_def)

lemma alloc_inv:
  assumes "go_cache (itCacheAPI E)" and inv: "it_inv E (srcNow src) st past qs" and ok: "(src, params) \<in> set past" "itInfo st \<noteq> []" "itGeneration st = seqNum (srcOfferings src)"
    and build: "buildInstanceTypes E src (itInfo st) params = Inr types"
  shows "it_inv E (srcNow src) (st\<lparr>itEntries := itEntries st @ [\<lparr>ciBase = types, ciQuotaSeqNum = 0, ciQuota = []\<rparr>],
    itCache := cache_set (itCacheAPI E) (srcNow src) (itHash E params) (length (itEntries st)) InstanceTypesCacheTTL (itCache st)\<rparr>) past qs"
    (is "it_inv E _ ?st past qs")
proof -
  have ttl: "0 < InstanceTypesCacheTTL" by (simp add: InstanceTypesCacheTTL_def Hour_def Minute_def Second_def)
  have get: "cache_get (itCacheAPI E) t (itCache ?st) k =
      (if k = itHash E params then if t \<le> srcNow src + InstanceTypesCacheTTL then Some (length (itEntries st)) else None else cache_get (itCacheAPI E) t (itCache st) k)"
    if "srcNow src \<le> t" for t k using go_cache.get_set [OF assms(1) ttl that] by simp
  have fresh: "cache_get (itCacheAPI E) t (itCache st) k \<noteq> Some (length (itEntries st))" if "srcNow src \<le> t" for t k
    using it_inv_live(2) [OF inv that] by blast
  have new: "entry_ok E t ?st past qs (itHash E params) \<lparr>ciBase = types, ciQuotaSeqNum = 0, ciQuota = []\<rparr>" if "t \<le> srcNow src + InstanceTypesCacheTTL" for t
    unfolding entry_ok_def using ok build that by (intro exI [of _ src] exI [of _ params] exI [of _ "itInfo st"]) simp
  have old: "a < length (itEntries ?st) \<and> entry_ok E t ?st past qs k (itEntries ?st ! a)"
    if "srcNow src \<le> t" "cache_get (itCacheAPI E) t (itCache st) k = Some a" for t k a
    using it_inv_live(2,3) [OF inv that] by (simp add: nth_append entry_ok_def)
  show ?thesis unfolding it_inv_def
  proof (intro conjI allI impI)
    show "readable (itInfo ?st)" "itInfo ?st \<noteq> [] \<Longrightarrow> itMonitor ?st = Some (itMonitorHash E (itInfo ?st))" using inv by (auto simp: it_inv_def)
    fix t k a
    assume t: "srcNow src \<le> t" and a: "cache_get (itCacheAPI E) t (itCache ?st) k = Some a"
    show "itInfo ?st \<noteq> []" using ok by simp
    show "a < length (itEntries ?st)" "entry_ok E t ?st past qs k (itEntries ?st ! a)"
      using get [OF t] a new old [OF t] by (auto split: if_splits)
    fix k' assume "cache_get (itCacheAPI E) t (itCache ?st) k' = Some a"
    then show "k' = k" using get [OF t] a fresh [OF t] it_inv_live(4) [OF inv t] by (auto split: if_splits)
  qed
qed

lemma entryFor_inv:
  assumes "go_cache (itCacheAPI E)" and "map_range (itRange E)" and inv: "it_inv E (srcNow src) st past qs" and ok: "itInfo st \<noteq> []" "itGeneration st = seqNum (srcOfferings src)"
  shows "\<exists>a st2. entryFor E src params st = (Inr a, st2) \<and> it_inv E (srcNow src) st2 ((src, params) # past) qs
    \<and> cache_get (itCacheAPI E) (srcNow src) (itCache st2) (itHash E params) = Some a \<and> itInfo st2 = itInfo st \<and> itGeneration st2 = itGeneration st"
proof (cases "cache_get (itCacheAPI E) (srcNow src) (itCache st) (itHash E params)")
  case (Some a)
  have "it_inv E (srcNow src) st ((src, params) # past) qs" by (rule it_inv_mono [OF inv]) auto
  with Some show ?thesis by (simp add: entryFor_def)
next
  case None
  have "readable (itInfo st)" using inv by (simp add: it_inv_def)
  from build_total [OF assms(2) this] obtain types where build: "buildInstanceTypes E src (itInfo st) params = Inr types" by blast
  have "it_inv E (srcNow src) st ((src, params) # past) qs" by (rule it_inv_mono [OF inv]) auto
  from alloc_inv [OF assms(1) this _ ok build] have
    "it_inv E (srcNow src) (st\<lparr>itEntries := itEntries st @ [\<lparr>ciBase = types, ciQuotaSeqNum = 0, ciQuota = []\<rparr>],
      itCache := cache_set (itCacheAPI E) (srcNow src) (itHash E params) (length (itEntries st)) InstanceTypesCacheTTL (itCache st)\<rparr>) ((src, params) # past) qs" by simp
  moreover have "0 < InstanceTypesCacheTTL" by (simp add: InstanceTypesCacheTTL_def Hour_def Minute_def Second_def)
  ultimately show ?thesis using None build go_cache.get_set_now [OF assms(1)] by (simp add: entryFor_def Let_def)
qed

lemma overlay_inv:
  assumes "go_cache (itCacheAPI E)" and inv: "it_inv E now st past qs" and live: "cache_get (itCacheAPI E) now (itCache st) (itHash E params) = Some a"
    and nc: "collisionFree E params past"
    and r: "applyQuota (itSched E) q' (itInfo st) (ciBase (itEntries st ! a)) (ipCapacityReservationGroupID params) = (result, seq)"
  shows "it_inv E now (st\<lparr>itEntries := (itEntries st)[a := (itEntries st ! a)\<lparr>ciQuota := result, ciQuotaSeqNum := seq\<rparr>]\<rparr>) past (q' # qs)" (is "it_inv E now ?st past _")
proof -
  have inv': "it_inv E now st past (q' # qs)" by (rule it_inv_mono [OF inv]) auto
  have e: "entry_ok E t ?st past (q' # qs) k (itEntries ?st ! b)" if t: "now \<le> t" and b: "cache_get (itCacheAPI E) t (itCache st) k = Some b" for t k b
  proof (cases "b = a")
    case True
    have "cache_get (itCacheAPI E) now (itCache st) k = Some a" using go_cache.get_anti [OF assms(1) t] b True by simp
    then have k: "k = itHash E params" using it_inv_live(4) [OF inv order_refl live] by blast
    from it_inv_live(2,3) [OF inv' t b] True obtain src p info where p: "(src, p) \<in> set past" "k = itHash E p" "map_of info = map_of (itInfo st)"
        "seqNum (srcOfferings src) = itGeneration st" "t \<le> srcNow src + InstanceTypesCacheTTL" "buildInstanceTypes E src info p = Inr (ciBase (itEntries st ! a))"
        and a: "a < length (itEntries st)"
      unfolding entry_ok_def by blast
    have "ipCapacityReservationGroupID p = ipCapacityReservationGroupID params" using sameParams_group [OF collisionFreeD [OF nc p(1)]] k p(2) by simp
    with p r a True show ?thesis unfolding entry_ok_def by (intro exI [of _ src] exI [of _ p] exI [of _ info]) simp
  qed (use it_inv_live(3) [OF inv' t b] in \<open>simp add: entry_ok_def\<close>)
  show ?thesis using inv' e unfolding it_inv_def by simp
qed

text \<open>A list that is served, with the moment whose sources it was built from and the quota that was laid over it.\<close>

definition servedFrom :: "('r, 's, 'f, 'c) it_env \<Rightarrow> ('s, 'f) it_sources \<Rightarrow> instanceTypeParameters \<Rightarrow> (string, skuInfo) gomap
    \<Rightarrow> ('s, 'f) it_sources \<Rightarrow> quotaProvider \<Rightarrow> 'r builtType list \<Rightarrow> bool" where
  "servedFrom E src params info src0 q0 types \<longleftrightarrow>
     seqNum (srcOfferings src0) = seqNum (srcOfferings src) \<and> srcNow src \<le> srcNow src0 + InstanceTypesCacheTTL
     \<and> (\<exists>info0 base. map_of info0 = map_of info \<and> buildInstanceTypes E src0 info0 params = Inr base
          \<and> fst (applyQuota (itSched E) q0 info base (ipCapacityReservationGroupID params)) = types)"

lemma applyQuota_seqNum: "applyQuota S q info types groupID = (result, seq) \<Longrightarrow> seq = quotaSeqNum q"
  by (auto simp: applyQuota_def HasQuotaForSKUs_def split: if_splits)

lemma live_entry_served:
  assumes inv: "it_inv E (srcNow src) st past qs" and live: "cache_get (itCacheAPI E) (srcNow src) (itCache st) (itHash E params) = Some a"
    and gen: "itGeneration st = seqNum (srcOfferings src)"
    and nc: "collisionFree E params past"
  defines "e \<equiv> itEntries st ! a"
  shows "\<exists>src0 \<in> fst ` set past.
    (\<forall>q0. servedFrom E src params (itInfo st) src0 q0 (fst (applyQuota (itSched E) q0 (itInfo st) (ciBase e) (ipCapacityReservationGroupID params))))"
    and "ciQuota e \<noteq> [] \<Longrightarrow> \<exists>q0 \<in> set qs. applyQuota (itSched E) q0 (itInfo st) (ciBase e) (ipCapacityReservationGroupID params) = (ciQuota e, ciQuotaSeqNum e)"
proof -
  from it_inv_live(3) [OF inv order_refl live] obtain src0 p info0 where p: "(src0, p) \<in> set past" "itHash E params = itHash E p"
      "map_of info0 = map_of (itInfo st)" "seqNum (srcOfferings src0) = seqNum (srcOfferings src)" "srcNow src \<le> srcNow src0 + InstanceTypesCacheTTL"
      "buildInstanceTypes E src0 info0 p = Inr (ciBase e)"
    and qq: "ciQuota e = [] \<or> (\<exists>q0 \<in> set qs. applyQuota (itSched E) q0 (itInfo st) (ciBase e) (ipCapacityReservationGroupID p) = (ciQuota e, ciQuotaSeqNum e))"
    unfolding entry_ok_def gen e_def by blast
  have same: "sameParams p params" using collisionFreeD [OF nc p(1)] p(2) by simp
  have "buildInstanceTypes E src0 info0 params = Inr (ciBase e)" using sameParams_build [OF same, of E src0 info0] p(6) by simp
  with p have "servedFrom E src params (itInfo st) src0 q0 (fst (applyQuota (itSched E) q0 (itInfo st) (ciBase e) (ipCapacityReservationGroupID params)))" for q0
    unfolding servedFrom_def by (intro conjI exI [of _ info0] exI [of _ "ciBase e"]) simp_all
  then show "\<exists>src0 \<in> fst ` set past.
    (\<forall>q0. servedFrom E src params (itInfo st) src0 q0 (fst (applyQuota (itSched E) q0 (itInfo st) (ciBase e) (ipCapacityReservationGroupID params))))"
    using p(1) by force
  show "ciQuota e \<noteq> [] \<Longrightarrow> \<exists>q0 \<in> set qs. applyQuota (itSched E) q0 (itInfo st) (ciBase e) (ipCapacityReservationGroupID params) = (ciQuota e, ciQuotaSeqNum e)"
    using qq sameParams_group [OF same] by simp
qed

lemma listFor_served:
  assumes C: "go_cache (itCacheAPI E)" and R: "map_range (itRange E)" and inv: "it_inv E now st past qs" and now: "now \<le> srcNow src"
    and nc: "collisionFree E params past" and info: "itInfo st \<noteq> []"
  shows "it_inv E (srcNow src) (snd (listFor E src q q' params st)) ((src, params) # past) (q' # qs) \<and>
    (\<exists>types. fst (listFor E src q q' params st) = Inr types \<and> (\<exists>src0 \<in> fst ` set ((src, params) # past). \<exists>q0.
      (q0 = q' \<or> q0 \<in> set qs \<and> quotaSeqNum q0 = quotaSeqNum q) \<and> servedFrom E src params (itInfo st) src0 q0 types))"
proof -
  let ?past = "(src, params) # past"
  have nc': "collisionFree E params ?past" using nc by (simp add: collisionFree_def)
  note gen = forGeneration_inv [OF C it_inv_mono [OF inv now order_refl order_refl], of src]
  from entryFor_inv [OF C R gen(1), of params] gen info obtain a st2 where
    ent: "entryFor E src params (forGeneration E src st) = (Inr a, st2)" "it_inv E (srcNow src) st2 ?past qs"
      "cache_get (itCacheAPI E) (srcNow src) (itCache st2) (itHash E params) = Some a" "itInfo st2 = itInfo st" "itGeneration st2 = seqNum (srcOfferings src)" by auto
  let ?e = "itEntries st2 ! a"
  note served = live_entry_served [OF ent(2,3,5) nc', unfolded ent(4)]
  show ?thesis
  proof (cases "ciQuota ?e \<noteq> [] \<and> ciQuotaSeqNum ?e = quotaSeqNum q")
    case True
    then have l: "listFor E src q q' params st = (Inr (ciQuota ?e), st2)" using info ent(1) by (simp add: listFor_def)
    from served(2) True obtain q0 where q0: "q0 \<in> set qs" "applyQuota (itSched E) q0 (itInfo st) (ciBase ?e) (ipCapacityReservationGroupID params) = (ciQuota ?e, quotaSeqNum q)" by auto
    with served(1) applyQuota_seqNum [OF q0(2)] have "\<exists>src0 \<in> fst ` set ?past. servedFrom E src params (itInfo st) src0 q0 (ciQuota ?e)" by (metis fst_conv)
    then show ?thesis using l q0(1) applyQuota_seqNum [OF q0(2)] it_inv_mono [OF ent(2) order_refl order_refl, of "q' # qs"] by (auto intro!: bexI)
  next
    case False
    obtain result seq where r: "applyQuota (itSched E) q' (itInfo st) (ciBase ?e) (ipCapacityReservationGroupID params) = (result, seq)" by (rule prod.exhaust)
    then have l: "listFor E src q q' params st = (Inr result, st2\<lparr>itEntries := (itEntries st2)[a := ?e\<lparr>ciQuota := result, ciQuotaSeqNum := seq\<rparr>]\<rparr>)"
      using False info ent(1,4) by (auto simp: listFor_def Let_def)
    from served(1) r have "\<exists>src0 \<in> fst ` set ?past. servedFrom E src params (itInfo st) src0 q' result" by (metis fst_conv)
    then show ?thesis using l r overlay_inv [OF C ent(2,3) nc', of q' result seq] ent(4) by auto
  qed
qed

lemma it_reach_inv: "it_reach E now st past qs \<Longrightarrow> go_cache (itCacheAPI E) \<Longrightarrow> map_range (itRange E) \<Longrightarrow> it_inv E now st past qs"
proof (induction rule: it_reach.induct)
  case (start c now)
  then show ?case by (simp add: it_inv_def NewDefaultProvider_def readable_def)
next
  case (list now st past qs src params q q')
  show ?case
  proof (cases "itInfo st = []")
    case True
    then show ?thesis using it_inv_mono [OF list.IH [OF list.prems] list.hyps(2), of "(src, params) # past" "q' # qs"] by (auto simp: listFor_def)
  qed (use listFor_served [OF list.prems list.IH [OF list.prems] list.hyps(2,3), where q = q and q' = q'] in blast)
next
  case (refresh now st past qs t listed forgotten)
  show ?case by (rule it_inv_refresh [OF refresh.prems(1) refresh.IH [OF refresh.prems] refresh.hyps(2,3)])
next
  case (reset now st past qs)
  show ?case by (rule it_inv_flushed [OF reset.prems(1), where c = "itCache st"]) (simp_all add: ResetInstanceTypes_def readable_def)
qed

text \<open>
  C19: In every run of the provider in which no hashes collide, a list that is asked for while sizes are known is served and never panics: it is the list that the known sizes give for
  the parameters of the node class, built at most 23 hours ago from unavailable offerings with the same sequence number as now, with the availability that a quota state of the compared
  sequence number, or the current one, leaves.\<close>

theorem lists_are_served_from_current_sources:
  assumes "go_cache (itCacheAPI E)" and "map_range (itRange E)" and "it_reach E now st past qs" and "now \<le> srcNow src" and "itInfo st \<noteq> []"
    and "collisionFree E (paramsOf E nc) past"
  shows "\<exists>types. fst (ListInstanceTypes E src q q' nc st) = Inr types \<and> (\<exists>src0 \<in> fst ` set ((src, paramsOf E nc) # past). \<exists>q0.
      (q0 = q' \<or> q0 \<in> set qs \<and> quotaSeqNum q0 = quotaSeqNum q) \<and> servedFrom E src (paramsOf E nc) (itInfo st) src0 q0 types)"
  unfolding ListInstanceTypes_def using listFor_served [OF assms(1,2) it_reach_inv [OF assms(3,1,2)] assms(4,6,5), where q = q and q' = q'] by blast

subsection \<open>Examples\<close>

definition ex_it_env :: "(reqs, unit exp_cache, any_value exp_cache, nat exp_cache) it_env" where
  "ex_it_env = \<lparr>itRegion = ''eastus'', itSched = reqs_api, itSingle = exp_cache, itFamily = exp_cache, itCacheAPI = exp_cache, itGPU = [], itKnown = [''Standard_D4ds_v5''],
     itParseQuantity = (\<lambda>_. None), itParseFloat = (\<lambda>_. None), itNetworkPlugin = NetworkPluginAzure, itNetworkPluginMode = NetworkPluginModeOverlay, itEnableNodeHardening = False,
     itProvisionMode = ''aksscriptless'', itVMMemoryOverheadPercent = 3 / 40, itNodeResourceGroup = ''rg'', itHash = (\<lambda>p. ipImageFamily p), itMonitorHash = (\<lambda>info. concat (map fst info)),
     itRange = remdups\<rparr>"

definition ex_sources :: "(unit exp_cache, any_value exp_cache) it_sources" where
  "ex_sources = \<lparr>srcNow = 2 * Hour, srcOfferings = \<lparr>singleOfferingCache = [], vmFamilyCache = [], seqNum = 0\<rparr>, srcPricing = Pricing.NewProvider ex_static ''eastus''\<rparr>"

definition ex_class :: "unit nodeClass" where "ex_class = emptyClass ()"

lemma ex_it_env_simps [simp]:
  "itCacheAPI ex_it_env = exp_cache" "itRange ex_it_env = remdups" "itSched ex_it_env = reqs_api" "itGPU ex_it_env = []" "itRegion ex_it_env = ''eastus''"
  by (simp_all add: ex_it_env_def)

lemma ex_class_params:
  "ipCapacityReservationGroupID (paramsOf ex_it_env ex_class) = []" "ipImageFamily (paramsOf ex_it_env ex_class) = []" "\<not> ipEncryptionAtHost (paramsOf ex_it_env ex_class)"
  "\<not> ipLocalDNSRequired (paramsOf ex_it_env ex_class)" "\<not> ipArtifactStreamingEnabled (paramsOf ex_it_env ex_class)" "\<not> ipTrustedLaunch (paramsOf ex_it_env ex_class)"
  "\<not> ipKataEnabled (paramsOf ex_it_env ex_class)"
  by (simp_all add: paramsOf_def ex_class_def GetCapacityReservationGroupID_def FromPtr_def GetEncryptionAtHost_def IsLocalDNSRequired_def IsArtifactStreamingExplicitlyEnabled_def
      IsTrustedLaunchEnabled_def IsVTPMEnabled_def IsSecureBootEnabled_def IsKataEnabled_def GetWorkloadRuntime_def WorkloadRuntimeOCIContainer_def WorkloadRuntimeKataVMIsolation_def)

lemma ex_readable: "readable [(''Standard_D4ds_v5'', ex_size)]"
  by (simp add: readable_def ex_size_def)

lemma ex_offered: "offered ex_it_env (paramsOf ex_it_env ex_class) ex_size"
proof -
  have "\<not> IsWindowsImageFamily []" by code_simp
  then have "isInstanceTypeSupportedByFilters [] ex_size ''x64'' (paramsOf ex_it_env ex_class) = Inr True"
    by (simp add: isInstanceTypeSupportedByFilters_def isArchitectureSupportedByImageFamily_def isInstanceTypeSupportedByImageFamily_def IsGPUSKU_def
        isInstanceTypeSupportedByEncryptionAtHost_def isInstanceTypeSupportedByLocalDNS_def isInstanceTypeSupportedByGPUDriverMode_def
        isInstanceTypeSupportedByArtifactStreaming_def isInstanceTypeSupportedByTrustedLaunch_def isInstanceTypeSupportedByKata_def ex_class_params)
  moreover have "offeringZones ex_it_env (paramsOf ex_it_env ex_class) ex_size \<noteq> []"
    by (simp add: offeringZones_def capacityReservationZones_def ex_class_params instanceTypeZones_def ex_size_def)
  ultimately show ?thesis by (auto simp: offered_def ex_size_def)
qed

theorem built_types_are_exact_witness:
  "\<exists>types. buildInstanceTypes ex_it_env ex_sources [(''Standard_D4ds_v5'', ex_size)] (paramsOf ex_it_env ex_class) = Inr types \<and> Name ` set types = {''Standard_D4ds_v5''}"
proof -
  obtain types where b: "buildInstanceTypes ex_it_env ex_sources [(''Standard_D4ds_v5'', ex_size)] (paramsOf ex_it_env ex_class) = Inr types"
    using build_total [OF _ ex_readable, of ex_it_env ex_sources "paramsOf ex_it_env ex_class"] first_added.map_range_axioms by auto
  have "{sku \<in> ran (map_of [(''Standard_D4ds_v5'', ex_size)]). offered ex_it_env (paramsOf ex_it_env ex_class) sku} = {ex_size}" using ex_offered by auto
  moreover have "scheduling (itSched ex_it_env)" "map_range (itRange ex_it_env)" by (simp_all add: reqs_api.scheduling_axioms first_added.map_range_axioms)
  note built_types_are_exact [OF this b, THEN conjunct1]
  moreover have "GetName ex_size = ''Standard_D4ds_v5''" by (simp add: ex_size_def)
  ultimately have "Name ` set types = {''Standard_D4ds_v5''}" by simp
  with b show ?thesis by blast
qed

text \<open>A subscription without room for the size, and a type with an on-demand and a spot offering.\<close>

definition ex_no_quota :: quotaProvider where
  "ex_no_quota = Quota.NewProvider\<lparr>snap := \<lparr>usages = [(''standardDDSv5Family'', \<lparr>UsageName = None, Limit = Some 2, CurrentValue = Some 0\<rparr>)], familyToQuotaName = []\<rparr>\<rparr>"

definition ex_type :: "reqs builtType" where
  "ex_type = \<lparr>Name = ''Standard_D4ds_v5'', ITRequirements = [], ITOfferings = [newOffering reqs_api CapacityTypeOnDemand ''regular'' ''eastus-1'' [''false''] 1 True,
     newOffering reqs_api CapacityTypeSpot ''spot'' ''eastus-1'' [''false''] 1 True], ITCapacity = Map.empty, ITKubeReserved = Map.empty, ITSystemReserved = Map.empty,
     ITEvictionThreshold = Map.empty\<rparr>"

theorem quota_overlay_is_exact_witness:
  "map (map Available \<circ> ITOfferings) (fst (applyQuota reqs_api ex_no_quota [(''Standard_D4ds_v5'', ex_size)] [ex_type] [])) = [[False, True]]"
proof -
  obtain types seq where q: "applyQuota reqs_api ex_no_quota [(''Standard_D4ds_v5'', ex_size)] [ex_type] [] = (types, seq)" by (rule prod.exhaust)
  have no: "\<not> HasQuotaFor ex_no_quota (SKU.truncate ex_size)"
    by (simp add: HasQuotaFor_def hasQuotaForLocked_def ex_no_quota_def Quota.NewProvider_def ex_size_def SKU.truncate_def quotaNameLocked_def)
  have name: "Name ex_type = ''Standard_D4ds_v5''" by (simp add: ex_type_def)
  from quota_overlay_is_exact [OF ex_readable q] obtain t where "types = [t]"
      "list_all2 (\<lambda>off off'. off' = off\<lparr>Available := Available off \<and> (CapacityType reqs_api off = CapacityTypeOnDemand \<longrightarrow> HasQuotaFor ex_no_quota (SKU.truncate ex_size))\<rparr>)
        (ITOfferings ex_type) (ITOfferings t)"
    by (auto simp: list_all2_Cons1 name)
  with no q show ?thesis by (auto simp: ex_type_def list_all2_Cons1 reqs_api.new_offering_labels)
qed

theorem lists_are_served_from_current_sources_witness:
  "\<exists>types. fst (ListInstanceTypes ex_it_env ex_sources Quota.NewProvider Quota.NewProvider ex_class
     (snd (UpdateInstanceTypes ex_it_env Hour (Inr [ex_size]) False (NewDefaultProvider [])))) = Inr types"
proof -
  let ?st = "snd (UpdateInstanceTypes ex_it_env Hour (Inr [ex_size]) False (NewDefaultProvider []))"
  have adm: "admitted [] c ex_size" for c
    by (simp add: admitted_def IsRestrictedSKU_def AKSRestrictedVMSizes_def karpenterRestrictedVMSKUs_def isRetired_def ex_size_def isSupported_def hasMinimumCPU_def hasMinimumMemory_def
        isUnsupportedByAKS_def isUnsupportedGPU_def hasConstrainedCPUs_def isConfidential_def IsConfidential_def HasPrefix_def)
  have C: "go_cache (itCacheAPI ex_it_env)" "map_range (itRange ex_it_env)" by (simp_all add: exp_cache.go_cache_axioms first_added.map_range_axioms)
  have d: "discovered [] c [ex_size] = [(''Standard_D4ds_v5'', ex_size)]" for c by (simp add: discovered_def adm) (simp add: ex_size_def)
  have "it_reach ex_it_env 0 (NewDefaultProvider []) [] []" by (rule it_reach.start) (simp add: exp_cache_def ec_get_def)
  then have "it_reach ex_it_env Hour ?st [] []"
    by (rule it_reach.refresh) (simp_all add: d NewDefaultProvider_def ex_it_env_def Hour_def Minute_def Second_def)
  moreover have "itInfo ?st \<noteq> []" by (simp add: UpdateInstanceTypes_def d Let_def)
  ultimately show ?thesis
    using lists_are_served_from_current_sources [OF C, of Hour ?st "[]" "[]" ex_sources ex_class Quota.NewProvider Quota.NewProvider]
    by (auto simp: collisionFree_def ex_sources_def Hour_def Minute_def Second_def)
qed

end
