(* ===== verification/Image_Family.thy ===== *)
theory Image_Family
  imports Instance_Types Node_Images
begin

text \<open>
  The node images of the image families and how an image is found for a node (src/pkg/providers/imagefamily: the \<open>DefaultImages\<close> tables of azlinux.go, azlinux3.go,
  azurecontainerlinux.go, ubuntu_2004.go, ubuntu_2204.go, ubuntu_2404.go and windows.go, utils.go, nodeimage.go, nodeimageversionsclient.go, customimage.go, types/types.go and the parts of
  resolver.go that choose a family, an image and a distro). The bootstrap scripts that the families render are not modelled.

  The set of requirements of a table entry is kept as the list it is built from. Parsing of versions (\<open>semver.ParseTolerant\<close>), the order of versions, compatibility of requirements,
  the structure hashes and the cache are third-party code and parameters; so are the answers of the galleries.

  Shown here: a request for FIPS, Trusted Launch or Kata never ends in an image without it; the images a class lists lead back to a distro of its family; of all versions that a gallery
  offers for an operating system and SKU the newest is kept.
\<close>

subsection \<open>Kubernetes versions\<close>

definition atLeastMinor :: "semver_api \<Rightarrow> uint64 \<Rightarrow> string \<Rightarrow> bool" where
  "atLeastMinor SV minor kubernetesVersion =
     (case sv_parse SV (TrimPrefix kubernetesVersion ''v'') of
        Inl e \<Rightarrow> False
      | Inr version \<Rightarrow> \<not> sv_less SV version \<lparr>Major = 1, Minor = minor, Patch = 0, Pre = []\<rparr>)"

definition UseAzureLinux3 :: "semver_api \<Rightarrow> string \<Rightarrow> bool" where
  "UseAzureLinux3 SV kubernetesVersion = atLeastMinor SV 32 kubernetesVersion"

definition UseUbuntu2404 :: "semver_api \<Rightarrow> string \<Rightarrow> bool" where
  "UseUbuntu2404 SV kubernetesVersion = atLeastMinor SV 34 kubernetesVersion"

definition UseUbuntu2204FIPS :: "semver_api \<Rightarrow> string \<Rightarrow> bool \<Rightarrow> bool" where
  "UseUbuntu2204FIPS SV kubernetesVersion trustedLaunch \<longleftrightarrow> trustedLaunch \<or> atLeastMinor SV 35 kubernetesVersion"

definition SupportsWindows2025 :: "semver_api \<Rightarrow> string \<Rightarrow> bool" where
  "SupportsWindows2025 SV kubernetesVersion = atLeastMinor SV 32 kubernetesVersion"

subsection \<open>Image families\<close>

datatype imageFamily = Ubuntu2004 | Ubuntu2204 | Ubuntu2404 | AzureLinux | AzureLinux3 | Windows2022 | Windows2025 | AzureContainerLinux

definition UbuntuImageFamily :: string where "UbuntuImageFamily = ''Ubuntu''"

definition Ubuntu2204ImageFamily :: string where "Ubuntu2204ImageFamily = ''Ubuntu2204''"

definition Ubuntu2404ImageFamily :: string where "Ubuntu2404ImageFamily = ''Ubuntu2404''"

definition Windows2022ImageFamily :: string where "Windows2022ImageFamily = ''Windows2022''"

lemmas family_defs = UbuntuImageFamily_def Ubuntu2204ImageFamily_def Ubuntu2404ImageFamily_def Windows2022ImageFamily_def Windows2025ImageFamily_def AzureLinuxImageFamily_def
  AzureContainerLinuxImageFamily_def

definition defaultUbuntu :: "semver_api \<Rightarrow> string option \<Rightarrow> bool \<Rightarrow> string \<Rightarrow> imageFamily" where
  "defaultUbuntu SV fipsMode trustedLaunch kubernetesVersion =
     (if FromPtr fipsMode = FIPSModeFIPS then (if UseUbuntu2204FIPS SV kubernetesVersion trustedLaunch then Ubuntu2204 else Ubuntu2004)
      else if trustedLaunch then Ubuntu2204
      else if UseUbuntu2404 SV kubernetesVersion then Ubuntu2404
      else Ubuntu2204)"

definition GetImageFamily :: "semver_api \<Rightarrow> string option \<Rightarrow> string option \<Rightarrow> bool \<Rightarrow> string \<Rightarrow> imageFamily" where
  "GetImageFamily SV familyName fipsMode trustedLaunch kubernetesVersion =
     (let f = FromPtr familyName in
      if f = Ubuntu2204ImageFamily then Ubuntu2204
      else if f = Ubuntu2404ImageFamily then Ubuntu2404
      else if f = AzureLinuxImageFamily then (if UseAzureLinux3 SV kubernetesVersion then AzureLinux3 else AzureLinux)
      else if f = Windows2022ImageFamily then Windows2022
      else if f = Windows2025ImageFamily then Windows2025
      else if f = AzureContainerLinuxImageFamily then AzureContainerLinux
      else defaultUbuntu SV fipsMode trustedLaunch kubernetesVersion)"

definition ResolvesToUbuntu2004 :: "semver_api \<Rightarrow> string option \<Rightarrow> string option \<Rightarrow> bool \<Rightarrow> string \<Rightarrow> bool" where
  "ResolvesToUbuntu2004 SV familyName fipsMode trustedLaunch kubernetesVersion \<longleftrightarrow> GetImageFamily SV familyName fipsMode trustedLaunch kubernetesVersion = Ubuntu2004"

subsection \<open>Tables of images\<close>

record defaultImageOutput =
  PublicGalleryURL :: string
  GalleryResourceGroup :: string
  GalleryName :: string
  ImageDefinition :: string
  Distro :: string
  DefaultRequirements :: reqs

definition HyperVGenerationV1 :: string where "HyperVGenerationV1 = ''1''"

definition HyperVGenerationV2 :: string where "HyperVGenerationV2 = ''2''"

definition AKSUbuntuPublicGalleryURL :: string where "AKSUbuntuPublicGalleryURL = ''AKSUbuntu-38d80f77-467a-481f-a8d4-09b6d4220bd2''"

definition AKSAzureLinuxPublicGalleryURL :: string where "AKSAzureLinuxPublicGalleryURL = ''AKSAzureLinux-f7c7cda5-1c9a-4bdc-a222-9614c968580b''"

definition AKSUbuntuResourceGroup :: string where "AKSUbuntuResourceGroup = ''AKS-Ubuntu''"

definition AKSAzureLinuxResourceGroup :: string where "AKSAzureLinuxResourceGroup = ''AKS-AzureLinux''"

definition AKSWindowsResourceGroup :: string where "AKSWindowsResourceGroup = ''AKS-Windows''"

definition AKSUbuntuGalleryName :: string where "AKSUbuntuGalleryName = ''AKSUbuntu''"

definition AKSAzureLinuxGalleryName :: string where "AKSAzureLinuxGalleryName = ''AKSAzureLinux''"

definition AKSWindowsGalleryName :: string where "AKSWindowsGalleryName = ''AKSWindows''"

definition AzureLinuxGen2ImageDefinition :: string where "AzureLinuxGen2ImageDefinition = ''V2gen2''"

definition AzureLinuxGen1ImageDefinition :: string where "AzureLinuxGen1ImageDefinition = ''V2''"

definition AzureLinuxGen2ArmImageDefinition :: string where "AzureLinuxGen2ArmImageDefinition = ''V2gen2arm64''"

definition AzureLinux2Gen2FIPSImageDefinition :: string where "AzureLinux2Gen2FIPSImageDefinition = ''V2gen2fips''"

definition AzureLinux2Gen1FIPSImageDefinition :: string where "AzureLinux2Gen1FIPSImageDefinition = ''V2fips''"

definition AzureLinux2Gen2TrustedLaunchImageDefinition :: string where "AzureLinux2Gen2TrustedLaunchImageDefinition = ''V2gen2TL''"

definition AzureLinux3Gen2ImageDefinition :: string where "AzureLinux3Gen2ImageDefinition = ''V3gen2''"

definition AzureLinux3Gen1ImageDefinition :: string where "AzureLinux3Gen1ImageDefinition = ''V3''"

definition AzureLinux3Gen2ArmImageDefinition :: string where "AzureLinux3Gen2ArmImageDefinition = ''V3gen2arm64''"

definition AzureLinux3Gen2FIPSImageDefinition :: string where "AzureLinux3Gen2FIPSImageDefinition = ''V3gen2fips''"

definition AzureLinux3Gen1FIPSImageDefinition :: string where "AzureLinux3Gen1FIPSImageDefinition = ''V3fips''"

definition AzureLinux3Gen2Arm64FIPSImageDefinition :: string where "AzureLinux3Gen2Arm64FIPSImageDefinition = ''V3gen2arm64fips''"

definition AzureLinux3Gen2TrustedLaunchImageDefinition :: string where "AzureLinux3Gen2TrustedLaunchImageDefinition = ''V3gen2TL''"

definition AzureLinux3Gen2KataImageDefinition :: string where "AzureLinux3Gen2KataImageDefinition = ''V3katagen2''"

definition AzureContainerLinuxGen2ImageDefinition :: string where "AzureContainerLinuxGen2ImageDefinition = ''aclgen2TL''"

definition AzureContainerLinuxGen2ArmImageDefinition :: string where "AzureContainerLinuxGen2ArmImageDefinition = ''aclgen2arm64TL''"

definition AzureContainerLinuxGen2FIPSImageDefinition :: string where "AzureContainerLinuxGen2FIPSImageDefinition = ''aclgen2fipsTL''"

definition AzureContainerLinuxGen2ArmFIPSImageDefinition :: string where "AzureContainerLinuxGen2ArmFIPSImageDefinition = ''aclgen2arm64fipsTL''"

definition Ubuntu2004Gen2FIPSImageDefinition :: string where "Ubuntu2004Gen2FIPSImageDefinition = ''2004gen2fipscontainerd''"

definition Ubuntu2004Gen1FIPSImageDefinition :: string where "Ubuntu2004Gen1FIPSImageDefinition = ''2004fipscontainerd''"

definition Ubuntu2204Gen2ImageDefinition :: string where "Ubuntu2204Gen2ImageDefinition = ''2204gen2containerd''"

definition Ubuntu2204Gen1ImageDefinition :: string where "Ubuntu2204Gen1ImageDefinition = ''2204containerd''"

definition Ubuntu2204Gen2ArmImageDefinition :: string where "Ubuntu2204Gen2ArmImageDefinition = ''2204gen2arm64containerd''"

definition Ubuntu2204Gen2TrustedLaunchImageDefinition :: string where "Ubuntu2204Gen2TrustedLaunchImageDefinition = ''2204gen2TLcontainerd''"

definition Ubuntu2204Gen2FIPSTLImageDefinition :: string where "Ubuntu2204Gen2FIPSTLImageDefinition = ''2204gen2fipsTLcontainerd''"

definition Ubuntu2204Gen2FIPSImageDefinition :: string where "Ubuntu2204Gen2FIPSImageDefinition = ''2204gen2fipscontainerd''"

definition Ubuntu2204Gen1FIPSImageDefinition :: string where "Ubuntu2204Gen1FIPSImageDefinition = ''2204fipscontainerd''"

definition Ubuntu2404Gen2ImageDefinition :: string where "Ubuntu2404Gen2ImageDefinition = ''2404gen2containerd''"

definition Ubuntu2404Gen1ImageDefinition :: string where "Ubuntu2404Gen1ImageDefinition = ''2404containerd''"

definition Ubuntu2404Gen2ArmImageDefinition :: string where "Ubuntu2404Gen2ArmImageDefinition = ''2404gen2arm64containerd''"

definition Ubuntu2404Gen2TrustedLaunchImageDefinition :: string where "Ubuntu2404Gen2TrustedLaunchImageDefinition = ''2404gen2TLcontainerd''"

definition Windows2022ContainerdGen2ImageDefinition :: string where "Windows2022ContainerdGen2ImageDefinition = ''windows-2022-containerd-gen2''"

definition Windows2022ContainerdImageDefinition :: string where "Windows2022ContainerdImageDefinition = ''windows-2022-containerd''"

definition Windows2025Gen2ImageDefinition :: string where "Windows2025Gen2ImageDefinition = ''windows-2025-gen2''"

definition Windows2025ImageDefinition :: string where "Windows2025ImageDefinition = ''windows-2025''"

definition Windows2025Gen2TLImageDefinition :: string where "Windows2025Gen2TLImageDefinition = ''windows-2025-gen2-tl''"

lemmas gallery_defs = AKSUbuntuPublicGalleryURL_def AKSAzureLinuxPublicGalleryURL_def AKSUbuntuResourceGroup_def AKSAzureLinuxResourceGroup_def AKSWindowsResourceGroup_def AKSUbuntuGalleryName_def AKSAzureLinuxGalleryName_def AKSWindowsGalleryName_def

lemmas definition_defs = AzureLinuxGen2ImageDefinition_def AzureLinuxGen1ImageDefinition_def AzureLinuxGen2ArmImageDefinition_def AzureLinux2Gen2FIPSImageDefinition_def AzureLinux2Gen1FIPSImageDefinition_def AzureLinux2Gen2TrustedLaunchImageDefinition_def AzureLinux3Gen2ImageDefinition_def AzureLinux3Gen1ImageDefinition_def AzureLinux3Gen2ArmImageDefinition_def AzureLinux3Gen2FIPSImageDefinition_def AzureLinux3Gen1FIPSImageDefinition_def AzureLinux3Gen2Arm64FIPSImageDefinition_def AzureLinux3Gen2TrustedLaunchImageDefinition_def AzureLinux3Gen2KataImageDefinition_def AzureContainerLinuxGen2ImageDefinition_def AzureContainerLinuxGen2ArmImageDefinition_def AzureContainerLinuxGen2FIPSImageDefinition_def AzureContainerLinuxGen2ArmFIPSImageDefinition_def Ubuntu2004Gen2FIPSImageDefinition_def Ubuntu2004Gen1FIPSImageDefinition_def Ubuntu2204Gen2ImageDefinition_def Ubuntu2204Gen1ImageDefinition_def Ubuntu2204Gen2ArmImageDefinition_def Ubuntu2204Gen2TrustedLaunchImageDefinition_def Ubuntu2204Gen2FIPSTLImageDefinition_def Ubuntu2204Gen2FIPSImageDefinition_def Ubuntu2204Gen1FIPSImageDefinition_def Ubuntu2404Gen2ImageDefinition_def Ubuntu2404Gen1ImageDefinition_def Ubuntu2404Gen2ArmImageDefinition_def Ubuntu2404Gen2TrustedLaunchImageDefinition_def Windows2022ContainerdGen2ImageDefinition_def Windows2022ContainerdImageDefinition_def Windows2025Gen2ImageDefinition_def Windows2025ImageDefinition_def Windows2025Gen2TLImageDefinition_def

definition archAndGeneration :: "string \<Rightarrow> string \<Rightarrow> reqs" where
  "archAndGeneration arch gen = [(LabelArchStable, [arch]), (LabelSKUHyperVGeneration, [gen])]"

definition ubuntuImage :: "string \<Rightarrow> string \<Rightarrow> string \<Rightarrow> string \<Rightarrow> defaultImageOutput" where
  "ubuntuImage d arch gen distro =
     \<lparr>PublicGalleryURL = AKSUbuntuPublicGalleryURL, GalleryResourceGroup = AKSUbuntuResourceGroup, GalleryName = AKSUbuntuGalleryName, ImageDefinition = d, Distro = distro,
      DefaultRequirements = archAndGeneration arch gen\<rparr>"

definition azureLinuxImage :: "string \<Rightarrow> string \<Rightarrow> string \<Rightarrow> string \<Rightarrow> defaultImageOutput" where
  "azureLinuxImage d arch gen distro =
     \<lparr>PublicGalleryURL = AKSAzureLinuxPublicGalleryURL, GalleryResourceGroup = AKSAzureLinuxResourceGroup, GalleryName = AKSAzureLinuxGalleryName, ImageDefinition = d, Distro = distro,
      DefaultRequirements = archAndGeneration arch gen\<rparr>"

definition azureContainerLinuxImage :: "string \<Rightarrow> string \<Rightarrow> string \<Rightarrow> defaultImageOutput" where
  "azureContainerLinuxImage d distro arch =
     \<lparr>PublicGalleryURL = [], GalleryResourceGroup = AKSAzureLinuxResourceGroup, GalleryName = AKSAzureLinuxGalleryName, ImageDefinition = d, Distro = distro,
      DefaultRequirements = archAndGeneration arch HyperVGenerationV2\<rparr>"

definition windowsImage :: "string \<Rightarrow> string \<Rightarrow> string \<Rightarrow> defaultImageOutput" where
  "windowsImage d hyperVGeneration distro =
     \<lparr>PublicGalleryURL = [], GalleryResourceGroup = AKSWindowsResourceGroup, GalleryName = AKSWindowsGalleryName, ImageDefinition = d, Distro = distro,
      DefaultRequirements = archAndGeneration ArchitectureAmd64 hyperVGeneration\<rparr>"

definition windowsDefaultImages :: "bool \<Rightarrow> defaultImageOutput list \<Rightarrow> defaultImageOutput list" where
  "windowsDefaultImages useSIG images = (if \<not> useSIG then [] else images)"

definition DefaultImagesUbuntu2004 :: "bool \<Rightarrow> string option \<Rightarrow> bool \<Rightarrow> bool \<Rightarrow> defaultImageOutput list" where
  "DefaultImagesUbuntu2004 useSIG fipsMode trustedLaunch kataEnabled =
     (if trustedLaunch then []
      else if kataEnabled then []
      else if FromPtr fipsMode = FIPSModeFIPS then
        (if \<not> useSIG then [] else
       [ubuntuImage Ubuntu2004Gen2FIPSImageDefinition ArchitectureAmd64 HyperVGenerationV2 ''aks-ubuntu-fips-containerd-20.04-gen2'',
        ubuntuImage Ubuntu2004Gen1FIPSImageDefinition ArchitectureAmd64 HyperVGenerationV1 ''aks-ubuntu-fips-containerd-20.04''])
      else [])"

definition DefaultImagesUbuntu2204 :: "bool \<Rightarrow> string option \<Rightarrow> bool \<Rightarrow> bool \<Rightarrow> defaultImageOutput list" where
  "DefaultImagesUbuntu2204 useSIG fipsMode trustedLaunch kataEnabled =
     (if kataEnabled then []
      else if FromPtr fipsMode = FIPSModeFIPS then
        (if \<not> useSIG then []
         else if trustedLaunch then
       [ubuntuImage Ubuntu2204Gen2FIPSTLImageDefinition ArchitectureAmd64 HyperVGenerationV2 ''aks-ubuntu-fips-containerd-22.04-tl-gen2'']
         else
       [ubuntuImage Ubuntu2204Gen2FIPSImageDefinition ArchitectureAmd64 HyperVGenerationV2 ''aks-ubuntu-fips-containerd-22.04-gen2'',
        ubuntuImage Ubuntu2204Gen1FIPSImageDefinition ArchitectureAmd64 HyperVGenerationV1 ''aks-ubuntu-fips-containerd-22.04''])
      else if trustedLaunch then
       [ubuntuImage Ubuntu2204Gen2TrustedLaunchImageDefinition ArchitectureAmd64 HyperVGenerationV2 ''aks-ubuntu-containerd-22.04-tl-gen2'']
      else
       [ubuntuImage Ubuntu2204Gen2ImageDefinition ArchitectureAmd64 HyperVGenerationV2 ''aks-ubuntu-containerd-22.04-gen2'',
        ubuntuImage Ubuntu2204Gen1ImageDefinition ArchitectureAmd64 HyperVGenerationV1 ''aks-ubuntu-containerd-22.04'',
        ubuntuImage Ubuntu2204Gen2ArmImageDefinition ArchitectureArm64 HyperVGenerationV2 ''aks-ubuntu-arm64-containerd-22.04-gen2''])"

definition DefaultImagesUbuntu2404 :: "bool \<Rightarrow> string option \<Rightarrow> bool \<Rightarrow> bool \<Rightarrow> defaultImageOutput list" where
  "DefaultImagesUbuntu2404 useSIG fipsMode trustedLaunch kataEnabled =
     (if kataEnabled then []
      else if FromPtr fipsMode = FIPSModeFIPS then []
      else if trustedLaunch then
       [ubuntuImage Ubuntu2404Gen2TrustedLaunchImageDefinition ArchitectureAmd64 HyperVGenerationV2 ''aks-ubuntu-containerd-24.04-tl-gen2'']
      else
       [ubuntuImage Ubuntu2404Gen2ImageDefinition ArchitectureAmd64 HyperVGenerationV2 ''aks-ubuntu-containerd-24.04-gen2'',
        ubuntuImage Ubuntu2404Gen1ImageDefinition ArchitectureAmd64 HyperVGenerationV1 ''aks-ubuntu-containerd-24.04'',
        ubuntuImage Ubuntu2404Gen2ArmImageDefinition ArchitectureArm64 HyperVGenerationV2 ''aks-ubuntu-arm64-containerd-24.04-gen2''])"

definition DefaultImagesAzureLinux :: "bool \<Rightarrow> string option \<Rightarrow> bool \<Rightarrow> bool \<Rightarrow> defaultImageOutput list" where
  "DefaultImagesAzureLinux useSIG fipsMode trustedLaunch kataEnabled =
     (if kataEnabled then []
      else if FromPtr fipsMode = FIPSModeFIPS then
        (if \<not> useSIG then [] else
       [azureLinuxImage AzureLinux2Gen2FIPSImageDefinition ArchitectureAmd64 HyperVGenerationV2 ''aks-azurelinux-v2-gen2-fips'',
        azureLinuxImage AzureLinux2Gen1FIPSImageDefinition ArchitectureAmd64 HyperVGenerationV1 ''aks-azurelinux-v2-fips''])
      else if trustedLaunch then
       [azureLinuxImage AzureLinux2Gen2TrustedLaunchImageDefinition ArchitectureAmd64 HyperVGenerationV2 ''aks-azurelinux-v2-gen2-tl'']
      else
       [azureLinuxImage AzureLinuxGen2ImageDefinition ArchitectureAmd64 HyperVGenerationV2 ''aks-azurelinux-v2-gen2'',
        azureLinuxImage AzureLinuxGen1ImageDefinition ArchitectureAmd64 HyperVGenerationV1 ''aks-azurelinux-v2'',
        azureLinuxImage AzureLinuxGen2ArmImageDefinition ArchitectureArm64 HyperVGenerationV2 ''aks-azurelinux-v2-arm64-gen2''])"

definition DefaultImagesAzureLinux3 :: "bool \<Rightarrow> string option \<Rightarrow> bool \<Rightarrow> bool \<Rightarrow> defaultImageOutput list" where
  "DefaultImagesAzureLinux3 useSIG fipsMode trustedLaunch kataEnabled =
     (if kataEnabled then
        (if FromPtr fipsMode = FIPSModeFIPS \<or> trustedLaunch then [] else
       [azureLinuxImage AzureLinux3Gen2KataImageDefinition ArchitectureAmd64 HyperVGenerationV2 ''aks-azurelinux-v3-gen2-kata''])
      else if FromPtr fipsMode = FIPSModeFIPS then
        (if \<not> useSIG then [] else
       [azureLinuxImage AzureLinux3Gen2FIPSImageDefinition ArchitectureAmd64 HyperVGenerationV2 ''aks-azurelinux-v3-gen2-fips'',
        azureLinuxImage AzureLinux3Gen1FIPSImageDefinition ArchitectureAmd64 HyperVGenerationV1 ''aks-azurelinux-v3-fips'',
        azureLinuxImage AzureLinux3Gen2Arm64FIPSImageDefinition ArchitectureArm64 HyperVGenerationV2 ''aks-azurelinux-v3-arm64-gen2-fips''])
      else if trustedLaunch then
       [azureLinuxImage AzureLinux3Gen2TrustedLaunchImageDefinition ArchitectureAmd64 HyperVGenerationV2 ''aks-azurelinux-v3-gen2-tl'']
      else
       [azureLinuxImage AzureLinux3Gen2ImageDefinition ArchitectureAmd64 HyperVGenerationV2 ''aks-azurelinux-v3-gen2'',
        azureLinuxImage AzureLinux3Gen1ImageDefinition ArchitectureAmd64 HyperVGenerationV1 ''aks-azurelinux-v3'',
        azureLinuxImage AzureLinux3Gen2ArmImageDefinition ArchitectureArm64 HyperVGenerationV2 ''aks-azurelinux-v3-arm64-gen2''])"

definition DefaultImagesWindows2022 :: "bool \<Rightarrow> string option \<Rightarrow> bool \<Rightarrow> bool \<Rightarrow> defaultImageOutput list" where
  "DefaultImagesWindows2022 useSIG fipsMode trustedLaunch kataEnabled =
     (if FromPtr fipsMode = FIPSModeFIPS \<or> trustedLaunch \<or> kataEnabled then []
      else windowsDefaultImages useSIG
        [windowsImage Windows2022ContainerdGen2ImageDefinition HyperVGenerationV2 ''aks-windows-2022-containerd-gen2'',
         windowsImage Windows2022ContainerdImageDefinition HyperVGenerationV1 ''aks-windows-2022-containerd''])"

definition DefaultImagesWindows2025 :: "bool \<Rightarrow> string option \<Rightarrow> bool \<Rightarrow> bool \<Rightarrow> defaultImageOutput list" where
  "DefaultImagesWindows2025 useSIG fipsMode trustedLaunch kataEnabled =
     (if kataEnabled then []
      else if trustedLaunch then
        windowsDefaultImages useSIG [windowsImage Windows2025Gen2TLImageDefinition HyperVGenerationV2 ''aks-windows-2025-gen2-tl'']
      else windowsDefaultImages useSIG
        [windowsImage Windows2025Gen2ImageDefinition HyperVGenerationV2 ''aks-windows-2025-gen2'',
         windowsImage Windows2025ImageDefinition HyperVGenerationV1 ''aks-windows-2025''])"

definition DefaultImagesAzureContainerLinux :: "bool \<Rightarrow> string option \<Rightarrow> bool \<Rightarrow> bool \<Rightarrow> defaultImageOutput list" where
  "DefaultImagesAzureContainerLinux useSIG fipsMode trustedLaunch kataEnabled =
     (if \<not> useSIG \<or> \<not> trustedLaunch \<or> kataEnabled then []
      else if FromPtr fipsMode = FIPSModeFIPS then
        [azureContainerLinuxImage AzureContainerLinuxGen2FIPSImageDefinition ''aks-acl-gen2-fips-tl'' ArchitectureAmd64,
         azureContainerLinuxImage AzureContainerLinuxGen2ArmFIPSImageDefinition ''aks-acl-arm64-gen2-fips-tl'' ArchitectureArm64]
      else
        [azureContainerLinuxImage AzureContainerLinuxGen2ImageDefinition ''aks-acl-gen2-tl'' ArchitectureAmd64,
         azureContainerLinuxImage AzureContainerLinuxGen2ArmImageDefinition ''aks-acl-arm64-gen2-tl'' ArchitectureArm64])"

fun DefaultImages :: "imageFamily \<Rightarrow> bool \<Rightarrow> string option \<Rightarrow> bool \<Rightarrow> bool \<Rightarrow> defaultImageOutput list" where
  "DefaultImages Ubuntu2004 = DefaultImagesUbuntu2004"
| "DefaultImages Ubuntu2204 = DefaultImagesUbuntu2204"
| "DefaultImages Ubuntu2404 = DefaultImagesUbuntu2404"
| "DefaultImages AzureLinux = DefaultImagesAzureLinux"
| "DefaultImages AzureLinux3 = DefaultImagesAzureLinux3"
| "DefaultImages Windows2022 = DefaultImagesWindows2022"
| "DefaultImages Windows2025 = DefaultImagesWindows2025"
| "DefaultImages AzureContainerLinux = DefaultImagesAzureContainerLinux"

definition getSupportedImages :: "semver_api \<Rightarrow> string option \<Rightarrow> string option \<Rightarrow> string \<Rightarrow> bool \<Rightarrow> bool \<Rightarrow> bool \<Rightarrow> defaultImageOutput list" where
  "getSupportedImages SV familyName fipsMode kubernetesVersion useSIG trustedLaunch kataEnabled =
     DefaultImages (GetImageFamily SV familyName fipsMode trustedLaunch kubernetesVersion) useSIG fipsMode trustedLaunch kataEnabled"

subsection \<open>Identifiers\<close>

definition BuildImageIDCIG :: "string \<Rightarrow> string \<Rightarrow> string \<Rightarrow> string" where
  "BuildImageIDCIG publicGalleryURL communityImageName imageVersion =
     ''/CommunityGalleries/'' @ publicGalleryURL @ ''/images/'' @ communityImageName @ ''/versions/'' @ imageVersion"

definition BuildImageIDSIG :: "string \<Rightarrow> string \<Rightarrow> string \<Rightarrow> string \<Rightarrow> string \<Rightarrow> string" where
  "BuildImageIDSIG subscriptionID resourceGroup galleryName imageDefinition imageVersion =
     ''/subscriptions/'' @ subscriptionID @ ''/resourceGroups/'' @ resourceGroup @ ''/providers/Microsoft.Compute/galleries/'' @ galleryName @ ''/images/'' @ imageDefinition @
     ''/versions/'' @ imageVersion"

text \<open>An index past the end of the parts panics.\<close>

definition PopulateImageTraitsFromID :: "string \<Rightarrow> defaultImageOutput \<Rightarrow> panic + defaultImageOutput" where
  "PopulateImageTraitsFromID imageID d =
     (let parts = Split CHR ''/'' imageID in
      if length parts < 2 then Inl SliceBounds
      else if parts ! 1 = ''subscriptions'' then
        (if length parts < 11 then Inl SliceBounds
         else Inr (d\<lparr>GalleryResourceGroup := parts ! 4, GalleryName := parts ! 8, ImageDefinition := parts ! 10\<rparr>))
      else if parts ! 1 = ''CommunityGalleries'' then
        (if length parts < 5 then Inl SliceBounds else Inr (d\<lparr>PublicGalleryURL := parts ! 2, ImageDefinition := parts ! 4\<rparr>))
      else Inr d)"

definition emptyImageOutput :: defaultImageOutput where
  "emptyImageOutput = \<lparr>PublicGalleryURL = [], GalleryResourceGroup = [], GalleryName = [], ImageDefinition = [], Distro = [], DefaultRequirements = []\<rparr>"

definition mapToImageDistro :: "string \<Rightarrow> string option \<Rightarrow> imageFamily \<Rightarrow> bool \<Rightarrow> bool \<Rightarrow> bool \<Rightarrow> failure + string" where
  "mapToImageDistro imageID fipsMode family useSIG trustedLaunch kataEnabled =
     (case PopulateImageTraitsFromID imageID emptyImageOutput of
        Inl p \<Rightarrow> Inl (Panic ''index out of range'')
      | Inr info \<Rightarrow>
          (case find (\<lambda>i. ImageDefinition i = ImageDefinition info) (DefaultImages family useSIG fipsMode trustedLaunch kataEnabled) of
             None \<Rightarrow> Inl (Failed (''no distro found for image id '' @ imageID))
           | Some i \<Rightarrow> Inr (Distro i)))"

definition requiresFIPS1403Encryption :: "string \<Rightarrow> bool" where
  "requiresFIPS1403Encryption distro \<longleftrightarrow>
     distro \<in> {''aks-ubuntu-fips-containerd-22.04'', ''aks-ubuntu-fips-containerd-22.04-gen2'', ''aks-ubuntu-fips-containerd-22.04-tl-gen2''}"

subsection \<open>Versions of the shared galleries\<close>

text \<open>\<open>strconv.Atoi\<close> on a platform with 64-bit integers.\<close>

definition isDigit :: "char \<Rightarrow> bool" where
  "isDigit c \<longleftrightarrow> CHR ''0'' \<le> c \<and> c \<le> CHR ''9''"

definition decimal :: "string \<Rightarrow> int" where
  "decimal ds = foldl (\<lambda>n c. 10 * n + (of_char c - 48)) 0 ds"

definition Atoi :: "string \<Rightarrow> int option" where
  "Atoi s =
     (let (negative, ds) = (case s of [] \<Rightarrow> (False, []) | c # t \<Rightarrow> if c = CHR ''-'' then (True, t) else if c = CHR ''+'' then (False, t) else (False, s));
          n = (if negative then - decimal ds else decimal ds)
      in if ds \<noteq> [] \<and> list_all isDigit ds \<and> - (2 ^ 63) \<le> n \<and> n < 2 ^ 63 then Some n else None)"

text \<open>The verdict of the loop over the segments, if it reaches one.\<close>

fun compareSegments :: "string list \<Rightarrow> string list \<Rightarrow> bool option" where
  "compareSegments (a # as) (b # bs) =
     (case (Atoi a, Atoi b) of
        (Some x, Some y) \<Rightarrow> if x > y then Some True else if x < y then Some False else compareSegments as bs
      | _ \<Rightarrow> Some False)"
| "compareSegments _ _ = None"

definition isNewerVersion :: "string \<Rightarrow> string \<Rightarrow> bool" where
  "isNewerVersion version1 version2 =
     (let v1Segments = Split CHR ''.'' version1; v2Segments = Split CHR ''.'' version2
      in case compareSegments v1Segments v2Segments of Some verdict \<Rightarrow> verdict | None \<Rightarrow> length v1Segments > length v2Segments)"

record nodeImageVersion =
  NVOS :: "string option"
  NVSKU :: "string option"
  NVVersion :: "string option"

definition supportedGallery :: "nodeImageVersion \<Rightarrow> bool" where
  "supportedGallery v \<longleftrightarrow> FromPtr (NVOS v) \<in> {AKSUbuntuGalleryName, AKSAzureLinuxGalleryName, AKSWindowsGalleryName}"

definition versionKey :: "nodeImageVersion \<Rightarrow> string" where
  "versionKey v = FromPtr (NVOS v) @ ''-'' @ FromPtr (NVSKU v)"

definition keepNewest :: "(string, nodeImageVersion) gomap \<Rightarrow> nodeImageVersion option \<Rightarrow> (string, nodeImageVersion) gomap" where
  "keepNewest latest listed =
     (case listed of
        None \<Rightarrow> latest
      | Some v \<Rightarrow>
          if \<not> supportedGallery v then latest
          else case map_of latest (versionKey v) of
            None \<Rightarrow> AList.update (versionKey v) v latest
          | Some current \<Rightarrow>
              if isNewerVersion (FromPtr (NVVersion v)) (FromPtr (NVVersion current)) then AList.update (versionKey v) v latest else latest)"

definition FilteredNodeImages :: "(string list \<Rightarrow> string list) \<Rightarrow> nodeImageVersion option list \<Rightarrow> nodeImageVersion list" where
  "FilteredNodeImages rng versions =
     (let latest = foldl keepNewest [] versions in List.map_filter (map_of latest) (rng (map fst latest)))"

text \<open>The pages are read in order, and the first error ends the list.\<close>

definition ListVersions :: "(string list \<Rightarrow> string list) \<Rightarrow> nodeImageVersion option list result list \<Rightarrow> nodeImageVersion list result" where
  "ListVersions rng pages =
     (case foldM (\<lambda>all page. case page of Inl e \<Rightarrow> Inl e | Inr vs \<Rightarrow> Inr (all @ vs)) [] pages of
        Inl e \<Rightarrow> Inl e
      | Inr all \<Rightarrow> Inr (FilteredNodeImages rng all))"

subsection \<open>Versions of the community galleries\<close>

text \<open>A version: its name, the date inside its properties, and whether any other field of it is set.\<close>

record communityVersion =
  CVName :: "string option"
  CVProperties :: "time option option"
  CVOtherFields :: bool

definition emptyVersion :: communityVersion where
  "emptyVersion = \<lparr>CVName = None, CVProperties = None, CVOtherFields = False\<rparr>"

definition PublishedDate :: "communityVersion \<Rightarrow> failure + time" where
  "PublishedDate v = (case CVProperties v of Some (Some t) \<Rightarrow> Inr t | _ \<Rightarrow> Inl (Panic ''nil pointer dereference''))"

definition laterVersion :: "communityVersion \<Rightarrow> communityVersion \<Rightarrow> failure + communityVersion" where
  "laterVersion best v =
     (if best = emptyVersion then Inr v
      else case (PublishedDate v, PublishedDate best) of
        (Inr t, Inr t0) \<Rightarrow> Inr (if t > t0 then v else best)
      | (Inl e, _) \<Rightarrow> Inl e
      | (_, Inl e) \<Rightarrow> Inl e)"

definition latestNodeImageVersionCommunity :: "communityVersion list result list \<Rightarrow> failure + string" where
  "latestNodeImageVersionCommunity pages =
     (case foldM (\<lambda>best page. case page of Inl e \<Rightarrow> Inl (Failed e) | Inr vs \<Rightarrow> foldM laterVersion best vs) emptyVersion pages of
        Inl e \<Rightarrow> Inl e
      | Inr best \<Rightarrow> Inr (FromPtr (CVName best)))"

subsection \<open>The provider\<close>

record listedImage =
  LIID :: string
  LIRequirements :: reqs

text \<open>What the provider relies on, and the answers of the galleries during one call.\<close>

record ('r, 'c, 'k) image_env =
  ieSched :: "'r scheduling_api"
  ieCompatible :: "'r \<Rightarrow> 'r \<Rightarrow> bool"
  ieFromSelectors :: "selectorRequirement list \<Rightarrow> 'r"
  ieConditions :: "'k condition_api"
  ieSemver :: semver_api
  ieCache :: "('c, listedImage list) cache_api"
  ieHash :: "defaultImageOutput list \<Rightarrow> string \<Rightarrow> string result"
  ieClassHash :: "'k nodeClass \<Rightarrow> string"
  ieUseSIG :: bool
  ieSIGSubscriptionID :: string
  ieLocation :: string
  ieProvisionMode :: string

record gallery_answers =
  gaNow :: time
  gaVersions :: "nodeImageVersion list result"
  gaCommunity :: "string \<Rightarrow> string \<Rightarrow> communityVersion list result list"

definition ImageExpirationInterval :: duration where
  "ImageExpirationInterval = 24 * 3 * Hour"

definition listSIG :: "('r, 'c, 'k) image_env \<Rightarrow> gallery_answers \<Rightarrow> defaultImageOutput list \<Rightarrow> failure + listedImage list" where
  "listSIG E g supportedImages =
     (case gaVersions g of
        Inl e \<Rightarrow> Inl (Failed e)
      | Inr latest \<Rightarrow>
          Inr (List.map_filter (\<lambda>i. map_option (\<lambda>v. \<lparr>LIID = BuildImageIDSIG (ieSIGSubscriptionID E) (GalleryResourceGroup i) (GalleryName i) (ImageDefinition i) (FromPtr (NVVersion v)),
                  LIRequirements = DefaultRequirements i\<rparr>)
                (find (\<lambda>v. ImageDefinition i = FromPtr (NVSKU v)) latest)) supportedImages))"

definition getCIGImageID :: "gallery_answers \<Rightarrow> string \<Rightarrow> string \<Rightarrow> failure + string" where
  "getCIGImageID g publicGalleryURL communityImageName =
     (case latestNodeImageVersionCommunity (gaCommunity g publicGalleryURL communityImageName) of
        Inl e \<Rightarrow> Inl e
      | Inr v \<Rightarrow> Inr (BuildImageIDCIG publicGalleryURL communityImageName v))"

definition listCIG :: "gallery_answers \<Rightarrow> defaultImageOutput list \<Rightarrow> failure + listedImage list" where
  "listCIG g supportedImages =
     foldM (\<lambda>images i. case getCIGImageID g (PublicGalleryURL i) (ImageDefinition i) of
         Inl e \<Rightarrow> Inl e
       | Inr d \<Rightarrow> Inr (images @ [\<lparr>LIID = d, LIRequirements = DefaultRequirements i\<rparr>])) [] supportedImages"

definition listFromGalleries :: "('r, 'c, 'k) image_env \<Rightarrow> gallery_answers \<Rightarrow> defaultImageOutput list \<Rightarrow> failure + listedImage list" where
  "listFromGalleries E g supportedImages = (if ieUseSIG E then listSIG E g supportedImages else listCIG g supportedImages)"

definition supportedFor :: "('r, 'c, 'k) image_env \<Rightarrow> 'k nodeClass \<Rightarrow> string \<Rightarrow> defaultImageOutput list" where
  "supportedFor E nc kubernetesVersion =
     getSupportedImages (ieSemver E) (SpecImageFamily nc) (SpecFIPSMode nc) kubernetesVersion (ieUseSIG E) (IsTrustedLaunchEnabled nc) (IsKataEnabled nc)"

definition listDefaultImages :: "('r, 'c, 'k) image_env \<Rightarrow> gallery_answers \<Rightarrow> 'k nodeClass \<Rightarrow> 'c \<Rightarrow> (failure + listedImage list) \<times> 'c" where
  "listDefaultImages E g nc cache =
     (if FromPtr (SpecFIPSMode nc) = FIPSModeFIPS \<and> \<not> ieUseSIG E then (Inr [], cache)
      else case GetKubernetesVersion (ieConditions E) (Some nc) of
        Inl e \<Rightarrow> (Inl (Failed e), cache)
      | Inr kubernetesVersion \<Rightarrow>
          if FromPtr (SpecImageFamily nc) = Windows2025ImageFamily \<and> \<not> SupportsWindows2025 (ieSemver E) kubernetesVersion then (Inr [], cache)
          else
            let supportedImages = supportedFor E nc kubernetesVersion in
            case ieHash E supportedImages kubernetesVersion of
              Inl e \<Rightarrow> (Inl (Failed e), cache)
            | Inr key \<Rightarrow>
                (case cache_get (ieCache E) (gaNow g) cache key of
                   Some images \<Rightarrow> (Inr images, cache)
                 | None \<Rightarrow>
                     (case listFromGalleries E g supportedImages of
                        Inl e \<Rightarrow> (Inl e, cache)
                      | Inr images \<Rightarrow> (Inr images, cache_set (ieCache E) (gaNow g) key images ImageExpirationInterval cache))))"

subsection \<open>Custom images\<close>

record galleryImageProperties =
  GIOSState :: "string option"
  GIOSType :: "string option"
  GIPurchasePlan :: bool
  GIArchitecture :: "string option"
  GIHyperVGeneration :: "string option"

text \<open>Target regions may be nil, and so may their names. The size of the OS disk is that inside the storage profile, where there is one.\<close>

record galleryVersionProperties =
  GVProvisioningState :: "string option"
  GVTargetRegions :: "string option option list option"
  GVOSDiskImage :: "int option option"

record galleryVersion =
  GVLocation :: "string option"
  GVProperties :: "galleryVersionProperties option"

definition ProvisionModeAKSScriptless :: string where "ProvisionModeAKSScriptless = ''aksscriptless''"

definition ProvisionModeBootstrappingClient :: string where "ProvisionModeBootstrappingClient = ''bootstrappingclient''"

definition validateCustomImageConfiguration :: "'k nodeClass \<Rightarrow> string \<Rightarrow> error option" where
  "validateCustomImageConfiguration nc mode =
     (if mode \<notin> {ProvisionModeAKSScriptless, ProvisionModeBootstrappingClient} then Some (''imageID is not supported in provision mode '' @ quoted mode)
      else if FromPtr (SpecImageFamily nc) \<notin> {Ubuntu2204ImageFamily, Ubuntu2404ImageFamily, AzureLinuxImageFamily} then
        Some ''imageID requires an explicit Ubuntu2204, Ubuntu2404, or AzureLinux imageFamily''
      else if Option.bind (SpecVersions nc) SpecNodeImageVersion \<noteq> None then Some ''imageID cannot be combined with versions.nodeImageVersion''
      else if IsFIPSEnabled nc \<or> IsTrustedLaunchEnabled nc \<or> IsKataEnabled nc then Some ''imageID does not support FIPS, Trusted Launch, or Kata images''
      else None)"

text \<open>An image is its properties, which may be nil like the image itself.\<close>

definition validateCustomImageMetadata :: "galleryImageProperties option option \<Rightarrow> galleryVersion option \<Rightarrow> (error + galleryImageProperties \<times> galleryVersion \<times> galleryVersionProperties)" where
  "validateCustomImageMetadata im version =
     (case (im, version) of
        (Some (Some ip), Some v) \<Rightarrow>
          (case GVProperties v of
             None \<Rightarrow> Inl ''compute gallery image metadata is incomplete''
           | Some vp \<Rightarrow>
               if FromPtr (GIOSState ip) \<noteq> ''Generalized'' \<or> FromPtr (GIOSType ip) \<noteq> ''Linux'' then
                 Inl ''imageID must reference a generalized Linux image, never a captured cluster node''
               else if GIPurchasePlan ip then Inl ''imageID does not support images requiring a marketplace purchase plan''
               else if FromPtr (GVProvisioningState vp) \<noteq> ''Succeeded'' then Inl ''compute gallery image version is not successfully provisioned''
               else Inr (ip, v, vp))
      | _ \<Rightarrow> Inl ''compute gallery image metadata is incomplete'')"

definition withoutSpaces :: "string \<Rightarrow> string" where
  "withoutSpaces s = filter (\<lambda>c. c \<noteq> CHR '' '') s"

definition customImageIsPublished :: "galleryVersion \<Rightarrow> galleryVersionProperties \<Rightarrow> string \<Rightarrow> bool" where
  "customImageIsPublished v vp location =
     (case GVTargetRegions vp of
        None \<Rightarrow> EqualFold (withoutSpaces (FromPtr (GVLocation v))) (withoutSpaces location)
      | Some regions \<Rightarrow> list_ex (\<lambda>r. case r of None \<Rightarrow> False | Some name \<Rightarrow> EqualFold (withoutSpaces (FromPtr name)) (withoutSpaces location)) regions)"

definition validateCustomImage :: "galleryImageProperties option option \<Rightarrow> galleryVersion option \<Rightarrow> string \<Rightarrow> int option \<Rightarrow> (error + galleryImageProperties)" where
  "validateCustomImage im version location osDiskSizeGB =
     (case validateCustomImageMetadata im version of
        Inl e \<Rightarrow> Inl e
      | Inr (ip, v, vp) \<Rightarrow>
          if \<not> customImageIsPublished v vp location then Inl (''compute gallery image version is not published in region '' @ quoted location)
          else case (GVOSDiskImage vp, osDiskSizeGB) of
            (Some sz, Some gb) \<Rightarrow> if (case sz of None \<Rightarrow> 0 | Some n \<Rightarrow> n) > gb then Inl ''osDiskSizeGB is smaller than the Compute Gallery image OS disk'' else Inr ip
          | _ \<Rightarrow> Inr ip)"

definition customImageRequirements :: "galleryImageProperties \<Rightarrow> reqs result" where
  "customImageRequirements ip =
     (case (map_of [(''x64'', ArchitectureAmd64), (''Arm64'', ArchitectureArm64)] (FromPtr (GIArchitecture ip)),
            map_of [(''V1'', HyperVGenerationV1), (''V2'', HyperVGenerationV2)] (FromPtr (GIHyperVGeneration ip))) of
        (Some architecture, Some gen) \<Rightarrow> Inr (archAndGeneration architecture gen @ [(LabelOSStable, [Linux])])
      | _ \<Rightarrow> Inl ''compute gallery image has an unsupported architecture or Hyper-V generation'')"

text \<open>\<open>gallery\<close> is the client for compute galleries, if one is configured.\<close>

type_synonym gallery_client = "(string \<Rightarrow> (galleryImageProperties option option \<times> galleryVersion option) result) option"

definition listCustomImage :: "('r, 'c, 'k) image_env \<Rightarrow> gallery_client \<Rightarrow> time \<Rightarrow> string \<Rightarrow> 'k nodeClass \<Rightarrow> 'c \<Rightarrow> listedImage list result \<times> 'c" where
  "listCustomImage E gallery now imageID nc cache =
     (case validateCustomImageConfiguration nc (ieProvisionMode E) of
        Some e \<Rightarrow> (Inl e, cache)
      | None \<Rightarrow>
     (case gallery of
        None \<Rightarrow> (Inl ''compute gallery image client is not configured'', cache)
      | Some get \<Rightarrow>
     (case GetKubernetesVersion (ieConditions E) (Some nc) of
        Inl e \<Rightarrow> (Inl e, cache)
      | Inr kubernetesVersion \<Rightarrow>
     let key = ''custom/'' @ ieClassHash E nc @ ''/'' @ kubernetesVersion in
     (case cache_get (ieCache E) now cache key of
        Some images \<Rightarrow> (Inr images, cache)
      | None \<Rightarrow>
     (case get imageID of
        Inl e \<Rightarrow> (Inl e, cache)
      | Inr (im, version) \<Rightarrow>
     (case validateCustomImage im version (ieLocation E) (SpecOSDiskSizeGB nc) of
        Inl e \<Rightarrow> (Inl e, cache)
      | Inr ip \<Rightarrow>
     (case customImageRequirements ip of
        Inl e \<Rightarrow> (Inl e, cache)
      | Inr requirements \<Rightarrow>
     (case find (\<lambda>i. ieCompatible E (newRequirements (ieSched E) requirements) (newRequirements (ieSched E) (DefaultRequirements i)))
              (getSupportedImages (ieSemver E) (SpecImageFamily nc) (SpecFIPSMode nc) kubernetesVersion True False False) of
        None \<Rightarrow> (Inl (''compute gallery image architecture or Hyper-V generation is incompatible with imageFamily '' @ quoted (FromPtr (SpecImageFamily nc))), cache)
      | Some i \<Rightarrow>
          let images = [\<lparr>LIID = imageID, LIRequirements = DefaultRequirements i\<rparr>]
          in (Inr images, cache_set (ieCache E) now key images Hour cache)))))))))"

definition ListImages :: "('r, 'c, 'k) image_env \<Rightarrow> gallery_answers \<Rightarrow> gallery_client \<Rightarrow> 'k nodeClass \<Rightarrow> 'c \<Rightarrow> (failure + listedImage list) \<times> 'c" where
  "ListImages E g gallery nc cache =
     (case SpecImageID nc of
        Some imageID \<Rightarrow> (let (r, cache') = listCustomImage E gallery (gaNow g) imageID nc cache in (case r of Inl e \<Rightarrow> Inl (Failed e) | Inr images \<Rightarrow> Inr images, cache'))
      | None \<Rightarrow> listDefaultImages E g nc cache)"

subsection \<open>Resolution\<close>

definition ResolveNodeImageFromNodeClass :: "('r, 'c, 'k) image_env \<Rightarrow> 'k nodeClass \<Rightarrow> 'r builtType \<Rightarrow> string result" where
  "ResolveNodeImageFromNodeClass E nc it =
     (case GetImages (ieConditions E) (Some nc) of
        Inl e \<Rightarrow> Inl e
      | Inr nodeImages \<Rightarrow>
          (case find (\<lambda>i. (case SpecImageID nc of None \<Rightarrow> True | Some d \<Rightarrow> ImageIDOf i = d) \<and> ieCompatible E (ITRequirements it) (ieFromSelectors E (ImageRequirements i))) nodeImages of
             None \<Rightarrow> Inl (''no compatible images found for instance type '' @ Name it)
           | Some i \<Rightarrow> Inr (ImageIDOf i)))"

definition mapCustomImageToDistro :: "('r, 'c, 'k) image_env \<Rightarrow> 'k nodeClass \<Rightarrow> imageFamily \<Rightarrow> string result" where
  "mapCustomImageToDistro E nc family =
     (case GetImages (ieConditions E) (Some nc) of
        Inl e \<Rightarrow> Inl e
      | Inr nodeImages \<Rightarrow>
          (case List.map_filter (\<lambda>i. find (\<lambda>c. ieCompatible E (ieFromSelectors E (ImageRequirements i)) (newRequirements (ieSched E) (DefaultRequirements c)))
                    (DefaultImages family True (SpecFIPSMode nc) (IsTrustedLaunchEnabled nc) (IsKataEnabled nc)))
                  (filter (\<lambda>i. ImageIDOf i = FromPtr (SpecImageID nc)) nodeImages) of
             [] \<Rightarrow> Inl ''no bootstrap distro matches the resolved custom image''
           | c # _ \<Rightarrow> Inr (Distro c)))"

text \<open>The choice of image and distro for one launch, before the bootstrap script is rendered.\<close>

definition SupportsWorkloadRuntime :: "string \<Rightarrow> bool" where
  "SupportsWorkloadRuntime mode \<longleftrightarrow> IsAKSMachineAPIMode mode \<or> mode = ProvisionModeBootstrappingClient"

definition resolveImageAndDistro :: "('r, 'c, 'k) image_env \<Rightarrow> 'k nodeClass \<Rightarrow> 'r builtType \<Rightarrow> failure + string \<times> string \<times> bool" where
  "resolveImageAndDistro E nc it =
     (case GetKubernetesVersion (ieConditions E) (Some nc) of
        Inl e \<Rightarrow> Inl (Failed e)
      | Inr kubernetesVersion \<Rightarrow>
          if IsKataEnabled nc \<and> \<not> SupportsWorkloadRuntime (ieProvisionMode E) then
            Inl (Failed (''workloadRuntime '' @ quoted (GetWorkloadRuntime nc) @ '' is not supported with provision-mode '' @ quoted (ieProvisionMode E)))
          else
            let family = GetImageFamily (ieSemver E) (SpecImageFamily nc) (SpecFIPSMode nc) (IsTrustedLaunchEnabled nc) kubernetesVersion in
            case ResolveNodeImageFromNodeClass E nc it of
              Inl e \<Rightarrow> Inl (Failed e)
            | Inr imageID \<Rightarrow>
                (case (if SpecImageID nc \<noteq> None then (case mapCustomImageToDistro E nc family of Inl e \<Rightarrow> Inl (Failed e) | Inr d \<Rightarrow> Inr d)
                       else mapToImageDistro imageID (SpecFIPSMode nc) family (ieUseSIG E) (IsTrustedLaunchEnabled nc) (IsKataEnabled nc)) of
                   Inl e \<Rightarrow> Inl e
                 | Inr distro \<Rightarrow> Inr (imageID, distro, requiresFIPS1403Encryption distro)))"

subsection \<open>Features of images\<close>

text \<open>The parts of a distro name say what its image is.\<close>

definition tagged :: "string \<Rightarrow> defaultImageOutput \<Rightarrow> bool" where
  "tagged t i \<longleftrightarrow> t \<in> set (Split CHR ''-'' (Distro i))"

lemmas image_tables = DefaultImagesUbuntu2004_def DefaultImagesUbuntu2204_def DefaultImagesUbuntu2404_def DefaultImagesAzureLinux_def DefaultImagesAzureLinux3_def
  DefaultImagesWindows2022_def DefaultImagesWindows2025_def DefaultImagesAzureContainerLinux_def windowsDefaultImages_def

lemmas image_builders = ubuntuImage_def azureLinuxImage_def azureContainerLinuxImage_def windowsImage_def

lemma label_values:
  "valuesIn (archAndGeneration arch gen) LabelArchStable = [arch]" "valuesIn (archAndGeneration arch gen) LabelSKUHyperVGeneration = [gen]"
  by (simp_all add: valuesIn_def archAndGeneration_def LabelArchStable_def LabelSKUHyperVGeneration_def Group_def)

definition entryOK :: "imageFamily \<Rightarrow> bool \<Rightarrow> bool \<Rightarrow> bool \<Rightarrow> bool \<Rightarrow> defaultImageOutput \<Rightarrow> bool" where
  "entryOK family useSIG fips trustedLaunch kataEnabled i \<longleftrightarrow>
     (tagged ''kata'' i \<longleftrightarrow> kataEnabled)
     \<and> (family \<noteq> Windows2025 \<longrightarrow> (tagged ''fips'' i \<longleftrightarrow> fips))
     \<and> (\<not> (family \<in> {AzureLinux, AzureLinux3} \<and> fips \<and> trustedLaunch) \<longrightarrow> (tagged ''tl'' i \<longleftrightarrow> trustedLaunch))
     \<and> DefaultRequirements i = archAndGeneration (if tagged ''arm64'' i then ArchitectureArm64 else ArchitectureAmd64) (if tagged ''gen2'' i then HyperVGenerationV2 else HyperVGenerationV1)
     \<and> (useSIG \<or> PublicGalleryURL i \<noteq> [])"

definition imageFamilies :: "imageFamily list" where
  "imageFamilies = [Ubuntu2004, Ubuntu2204, Ubuntu2404, AzureLinux, AzureLinux3, Windows2022, Windows2025, AzureContainerLinux]"

definition tables_checked :: "(imageFamily \<Rightarrow> bool \<Rightarrow> bool \<Rightarrow> bool \<Rightarrow> bool \<Rightarrow> defaultImageOutput list \<Rightarrow> bool) \<Rightarrow> bool" where
  "tables_checked P = list_all (\<lambda>f. list_all (\<lambda>s. list_all (\<lambda>p. list_all (\<lambda>t. list_all (\<lambda>k.
     P f s p t k (DefaultImages f s (if p then Some FIPSModeFIPS else None) t k)) [True, False]) [True, False]) [True, False]) [True, False]) imageFamilies"

text \<open>The tables read only whether FIPS is asked for, so checking all requests checks all images.\<close>

lemma DefaultImages_fips:
  "DefaultImages family useSIG fipsMode trustedLaunch kataEnabled =
   DefaultImages family useSIG (if FromPtr fipsMode = FIPSModeFIPS then Some FIPSModeFIPS else None) trustedLaunch kataEnabled"
  by (cases family) (auto simp: image_tables FromPtr_def FIPSModeFIPS_def split: option.split)

lemma tables_checkedD:
  assumes "tables_checked P"
  shows "P family useSIG (FromPtr fipsMode = FIPSModeFIPS) trustedLaunch kataEnabled (DefaultImages family useSIG fipsMode trustedLaunch kataEnabled)"
proof -
  have "family \<in> set imageFamilies" by (cases family) (simp_all add: imageFamilies_def)
  then show ?thesis using assms
    by (subst DefaultImages_fips) (cases useSIG; cases trustedLaunch; cases kataEnabled; simp add: tables_checked_def list_all_iff)
qed

lemma tables_OK: "tables_checked (\<lambda>f s p t k. list_all (entryOK f s p t k))"
  by code_simp

lemmas table_entries = tables_checkedD [OF tables_OK, unfolded list_all_iff, rule_format]

text \<open>
  Every image that is offered for a class has exactly the features the class asks for. Outside AzureLinux with both FIPS and Trusted Launch, which the validation rules of the API
  forbid, an image is a Trusted Launch image exactly when Trusted Launch is enabled, a Kata image exactly when Kata is, and, except for Windows Server 2025, which is always FIPS-enabled, a
  FIPS image exactly when FIPS is; its requirements name the architecture and the Hyper-V generation of the image, and without the shared galleries it has a community gallery.\<close>

theorem images_have_the_requested_features:
  assumes "i \<in> set (getSupportedImages SV familyName fipsMode kubernetesVersion useSIG trustedLaunch kataEnabled)"
    and "\<not> (FromPtr familyName = AzureLinuxImageFamily \<and> FromPtr fipsMode = FIPSModeFIPS \<and> trustedLaunch)"
  shows "(tagged ''tl'' i \<longleftrightarrow> trustedLaunch) \<and> (tagged ''kata'' i \<longleftrightarrow> kataEnabled)
    \<and> (FromPtr familyName \<noteq> Windows2025ImageFamily \<longrightarrow> (tagged ''fips'' i \<longleftrightarrow> FromPtr fipsMode = FIPSModeFIPS))
    \<and> valuesIn (DefaultRequirements i) LabelArchStable = [if tagged ''arm64'' i then ArchitectureArm64 else ArchitectureAmd64]
    \<and> valuesIn (DefaultRequirements i) LabelSKUHyperVGeneration = [if tagged ''gen2'' i then HyperVGenerationV2 else HyperVGenerationV1]
    \<and> (useSIG \<or> PublicGalleryURL i \<noteq> [])"
proof -
  let ?f = "GetImageFamily SV familyName fipsMode trustedLaunch kubernetesVersion"
  have "?f = Windows2025 \<longleftrightarrow> FromPtr familyName = Windows2025ImageFamily"
    and "?f \<in> {AzureLinux, AzureLinux3} \<longleftrightarrow> FromPtr familyName = AzureLinuxImageFamily"
    by (auto simp: GetImageFamily_def defaultUbuntu_def Let_def family_defs)
  then show ?thesis using table_entries [OF assms(1) [unfolded getSupportedImages_def]] assms(2) by (auto simp: label_values entryOK_def)
qed

subsection \<open>Distros\<close>

lemma Split_here: "c \<notin> set p \<Longrightarrow> Split c (p @ c # s) = p # Split c s"
  using Split_append [of c p s] by simp

lemma populate_SIG:
  assumes "CHR ''/'' \<notin> set sub" and "CHR ''/'' \<notin> set rg" and "CHR ''/'' \<notin> set gallery" and "CHR ''/'' \<notin> set d"
  shows "PopulateImageTraitsFromID (BuildImageIDSIG sub rg gallery d v) info = Inr (info\<lparr>GalleryResourceGroup := rg, GalleryName := gallery, ImageDefinition := d\<rparr>)"
proof -
  have "Split CHR ''/'' (BuildImageIDSIG sub rg gallery d v) =
      [[], ''subscriptions'', sub, ''resourceGroups'', rg, ''providers'', ''Microsoft.Compute'', ''galleries'', gallery, ''images'', d, ''versions''] @ Split CHR ''/'' v"
    by (simp add: BuildImageIDSIG_def Split_here [OF assms(1)] Split_here [OF assms(2)] Split_here [OF assms(3)] Split_here [OF assms(4)])
  then show ?thesis by (simp add: PopulateImageTraitsFromID_def)
qed

lemma populate_CIG:
  assumes "CHR ''/'' \<notin> set url" and "CHR ''/'' \<notin> set d"
  shows "PopulateImageTraitsFromID (BuildImageIDCIG url d v) info = Inr (info\<lparr>PublicGalleryURL := url, ImageDefinition := d\<rparr>)"
proof -
  have "Split CHR ''/'' (BuildImageIDCIG url d v) = [[], ''CommunityGalleries'', url, ''images'', d, ''versions''] @ Split CHR ''/'' v"
    by (simp add: BuildImageIDCIG_def Split_here [OF assms(1)] Split_here [OF assms(2)])
  then show ?thesis by (simp add: PopulateImageTraitsFromID_def)
qed

definition slashFree :: "string \<Rightarrow> bool" where
  "slashFree s \<longleftrightarrow> CHR ''/'' \<notin> set s"

lemma tables_slashFree:
  "tables_checked (\<lambda>f s p t k is. distinct (map ImageDefinition is) \<and>
     list_all (\<lambda>i. slashFree (GalleryResourceGroup i) \<and> slashFree (GalleryName i) \<and> slashFree (ImageDefinition i) \<and> slashFree (PublicGalleryURL i)) is)"
  by code_simp

lemmas table_names = tables_checkedD [OF tables_slashFree, unfolded list_all_iff slashFree_def]

lemma find_member: "find P xs = Some x \<Longrightarrow> x \<in> set xs \<and> P x"
  by (auto simp: find_Some_iff)

lemma find_distinct_key:
  "distinct (map f xs) \<Longrightarrow> x \<in> set xs \<Longrightarrow> find (\<lambda>y. f y = f x) xs = Some x"
  by (induction xs) (auto simp: rev_image_eqI)

text \<open>The identifiers of an image: in the shared galleries of a subscription, or in the community gallery.\<close>

definition identifies :: "string \<Rightarrow> defaultImageOutput \<Rightarrow> string \<Rightarrow> bool" where
  "identifies sub i imageID \<longleftrightarrow>
     (\<exists>v. imageID = BuildImageIDSIG sub (GalleryResourceGroup i) (GalleryName i) (ImageDefinition i) v \<or> imageID = BuildImageIDCIG (PublicGalleryURL i) (ImageDefinition i) v)"

lemma distro_of_identifier:
  assumes "i \<in> set (DefaultImages family useSIG fipsMode trustedLaunch kataEnabled)" and "identifies sub i imageID" and "slashFree sub"
  shows "mapToImageDistro imageID fipsMode family useSIG trustedLaunch kataEnabled = Inr (Distro i)"
proof -
  note names = table_names [of family useSIG fipsMode trustedLaunch kataEnabled]
  from assms names have "\<exists>info. PopulateImageTraitsFromID imageID emptyImageOutput = Inr info \<and> ImageDefinition info = ImageDefinition i"
    by (auto simp: identifies_def slashFree_def populate_SIG populate_CIG)
  then show ?thesis using find_distinct_key [OF conjunct1 [OF names] assms(1)] by (auto simp: mapToImageDistro_def)
qed

subsection \<open>Lists of images\<close>

definition builtFor :: "string \<Rightarrow> defaultImageOutput list \<Rightarrow> listedImage list \<Rightarrow> bool" where
  "builtFor sub supported images \<longleftrightarrow> (\<forall>im \<in> set images. \<exists>i \<in> set supported. identifies sub i (LIID im) \<and> LIRequirements im = DefaultRequirements i)"

lemma builtFor_set: "set s = set s' \<Longrightarrow> builtFor sub s = builtFor sub s'"
  by (simp add: builtFor_def fun_eq_iff)

lemma listSIG_built: "listSIG E g supported = Inr images \<Longrightarrow> builtFor (ieSIGSubscriptionID E) supported images"
  by (fastforce simp: listSIG_def builtFor_def identifies_def map_filter_def split: sum.splits)

lemma listCIG_built:
  assumes "listCIG g supported = Inr images"
  shows "builtFor sub supported images"
proof -
  have "foldM (\<lambda>images i. case getCIGImageID g (PublicGalleryURL i) (ImageDefinition i) of
         Inl e \<Rightarrow> Inl e
       | Inr d \<Rightarrow> Inr (images @ [\<lparr>LIID = d, LIRequirements = DefaultRequirements i\<rparr>])) acc is = Inr images
      \<Longrightarrow> builtFor sub supported acc \<Longrightarrow> set is \<subseteq> set supported \<Longrightarrow> builtFor sub supported images" for acc "is"
  proof (induction "is" arbitrary: acc)
    case (Cons i "is")
    then obtain v where "getCIGImageID g (PublicGalleryURL i) (ImageDefinition i) = Inr (BuildImageIDCIG (PublicGalleryURL i) (ImageDefinition i) v)"
      by (auto simp: getCIGImageID_def split: sum.splits)
    with Cons.prems show ?case
      by (intro Cons.IH [of "acc @ [\<lparr>LIID = BuildImageIDCIG (PublicGalleryURL i) (ImageDefinition i) v, LIRequirements = DefaultRequirements i\<rparr>]"]) (auto simp: builtFor_def identifies_def)
  qed simp
  from this [of "[]" supported] assms show ?thesis by (simp add: listCIG_def builtFor_def)
qed

lemma listFromGalleries_built: "listFromGalleries E g supported = Inr images \<Longrightarrow> builtFor (ieSIGSubscriptionID E) supported images"
  by (auto simp: listFromGalleries_def listSIG_built listCIG_built split: if_splits)

text \<open>
  Runs of the provider: it starts with a cache that holds nothing and lists images for classes at increasing times. \<open>past\<close> holds the tables and versions that were hashed.\<close>

inductive image_reach :: "('r, 'c, 'k) image_env \<Rightarrow> time \<Rightarrow> 'c \<Rightarrow> (defaultImageOutput list \<times> string) list \<Rightarrow> bool" for E where
  start: "(\<And>t k. cache_get (ieCache E) t cache k = None) \<Longrightarrow> image_reach E now cache []"
| list: "image_reach E now cache past \<Longrightarrow> now \<le> gaNow g \<Longrightarrow>
    image_reach E (gaNow g) (snd (ListImages E g gallery nc cache)) ((supportedFor E nc (FromPtr (KubernetesVersion nc)), FromPtr (KubernetesVersion nc)) # past)"

definition keys_apart :: "('r, 'c, 'k) image_env \<Rightarrow> (defaultImageOutput list \<times> string) list \<Rightarrow> bool" where
  "keys_apart E past \<longleftrightarrow> (\<forall>(s, v) \<in> set past. \<forall>k. ieHash E s v = Inr k \<longrightarrow> \<not> HasPrefix k ''custom/'' \<and>
     (\<forall>(s', v') \<in> set past. ieHash E s' v' = Inr k \<longrightarrow> set s' = set s))"

lemma keys_apartD:
  "keys_apart E past \<Longrightarrow> (s, v) \<in> set past \<Longrightarrow> ieHash E s v = Inr k \<Longrightarrow> \<not> HasPrefix k ''custom/''"
  "keys_apart E past \<Longrightarrow> (s, v) \<in> set past \<Longrightarrow> (s', v') \<in> set past \<Longrightarrow> ieHash E s v = Inr k \<Longrightarrow> ieHash E s' v' = Inr k \<Longrightarrow> set s' = set s"
  unfolding keys_apart_def by blast+

definition image_entry :: "('r, 'c, 'k) image_env \<Rightarrow> (defaultImageOutput list \<times> string) list \<Rightarrow> string \<Rightarrow> listedImage list \<Rightarrow> bool" where
  "image_entry E past k images \<longleftrightarrow>
     HasPrefix k ''custom/'' \<or> (\<exists>s v. (s, v) \<in> set past \<and> ieHash E s v = Inr k \<and> builtFor (ieSIGSubscriptionID E) s images)"

definition image_inv :: "('r, 'c, 'k) image_env \<Rightarrow> time \<Rightarrow> 'c \<Rightarrow> (defaultImageOutput list \<times> string) list \<Rightarrow> bool" where
  "image_inv E now cache past \<longleftrightarrow> (\<forall>t k images. now \<le> t \<longrightarrow> cache_get (ieCache E) t cache k = Some images \<longrightarrow> image_entry E past k images)"

lemma image_entry_mono: "image_entry E past k images \<Longrightarrow> image_entry E (x # past) k images"
  by (auto simp: image_entry_def)

lemma image_inv_mono: "image_inv E now cache past \<Longrightarrow> now \<le> t \<Longrightarrow> image_inv E t cache (x # past)"
  unfolding image_inv_def by (blast intro: image_entry_mono order_trans)

lemma image_inv_set:
  assumes "go_cache (ieCache E)" and "image_inv E t cache past" and "0 < d" and "image_entry E past k images"
  shows "image_inv E t (cache_set (ieCache E) t k images d cache) past"
proof -
  have "image_entry E past k' im" if "t \<le> s" "cache_get (ieCache E) s (cache_set (ieCache E) t k images d cache) k' = Some im" for s k' im
    using that assms(2,4) go_cache.get_set [OF assms(1,3) that(1), of k images cache k'] by (auto simp: image_inv_def split: if_splits)
  then show ?thesis by (simp add: image_inv_def)
qed

lemma version_of_class: "GetKubernetesVersion CA (Some nc) = Inr v \<Longrightarrow> v = FromPtr (KubernetesVersion nc)"
  by (auto simp: GetKubernetesVersion_def split: option.splits)

text \<open>A list for a class without a custom image is empty, comes from the cache, or comes from the galleries and is stored.\<close>

lemma listDefaultImages_cases:
  assumes "listDefaultImages E g nc cache = (r, cache')" and "s = supportedFor E nc (FromPtr (KubernetesVersion nc))" and "v = FromPtr (KubernetesVersion nc)"
  shows "cache' = cache \<and> (\<forall>images. r = Inr images \<longrightarrow> images = [] \<or> (\<exists>k. ieHash E s v = Inr k \<and> cache_get (ieCache E) (gaNow g) cache k = Some images))
    \<or> (\<exists>k images. r = Inr images \<and> ieHash E s v = Inr k \<and> builtFor (ieSIGSubscriptionID E) s images \<and>
         cache' = cache_set (ieCache E) (gaNow g) k images ImageExpirationInterval cache)"
proof (cases "listFromGalleries E g s")
  case (Inl e)
  with assms show ?thesis by (auto simp: listDefaultImages_def Let_def dest!: version_of_class split: if_splits sum.splits option.splits)
next
  case (Inr images)
  with assms listFromGalleries_built [OF Inr] show ?thesis
    by (auto simp: listDefaultImages_def Let_def dest!: version_of_class split: if_splits sum.splits option.splits)
qed

lemma default_inv:
  assumes "go_cache (ieCache E)" and "image_inv E now cache past" and "now \<le> gaNow g" and "listDefaultImages E g nc cache = (r, cache')"
  shows "image_inv E (gaNow g) cache' ((supportedFor E nc (FromPtr (KubernetesVersion nc)), FromPtr (KubernetesVersion nc)) # past)"
proof -
  have old: "image_inv E (gaNow g) cache (x # past)" for x by (rule image_inv_mono [OF assms(2,3)])
  have "0 < ImageExpirationInterval" by (simp add: ImageExpirationInterval_def duration_defs)
  then have "image_inv E (gaNow g) (cache_set (ieCache E) (gaNow g) k images ImageExpirationInterval cache) ((s, v) # past)"
    if "ieHash E s v = Inr k" "builtFor (ieSIGSubscriptionID E) s images" for k images s v
    using that by (intro image_inv_set [OF assms(1) old]) (auto simp: image_entry_def)
  then show ?thesis using listDefaultImages_cases [OF assms(4) refl refl] old by auto
qed

lemma custom_inv:
  assumes "go_cache (ieCache E)" and "image_inv E now cache past" and "now \<le> t" and "listCustomImage E gallery t imageID nc cache = (r, cache')"
  shows "image_inv E t cache' (x # past)"
proof -
  have old: "image_inv E t cache (x # past)" by (rule image_inv_mono [OF assms(2,3)])
  have "0 < Hour" by (simp add: duration_defs)
  then have "image_inv E t (cache_set (ieCache E) t (''custom/'' @ k) images Hour cache) (x # past)" for k images
    by (intro image_inv_set [OF assms(1) old]) (auto simp: image_entry_def HasPrefix_def)
  from this [where k = "ieClassHash E nc @ ''/'' @ kv" for kv] old assms(4) show ?thesis
    by (auto simp: listCustomImage_def Let_def split: option.splits sum.splits)
qed

lemma image_reach_inv: "image_reach E now cache past \<Longrightarrow> go_cache (ieCache E) \<Longrightarrow> image_inv E now cache past"
proof (induction rule: image_reach.induct)
  case (start cache now)
  then show ?case by (simp add: image_inv_def)
next
  case (list now cache past g gallery nc)
  note inv = list.prems list.IH [OF list.prems] list.hyps(2)
  from default_inv [OF inv prod.collapse [symmetric]] custom_inv [OF inv prod.collapse [symmetric]] show ?case
    by (simp add: ListImages_def case_prod_beta split: option.split)
qed

lemma listed_built:
  assumes "go_cache (ieCache E)" and "image_reach E now cache past" and "now \<le> gaNow g" and "SpecImageID nc = None"
    and "keys_apart E ((supportedFor E nc (FromPtr (KubernetesVersion nc)), FromPtr (KubernetesVersion nc)) # past)" and "ListImages E g gallery nc cache = (Inr images, cache')"
  shows "builtFor (ieSIGSubscriptionID E) (supportedFor E nc (FromPtr (KubernetesVersion nc))) images"
proof -
  let ?v = "FromPtr (KubernetesVersion nc)" and ?sub = "ieSIGSubscriptionID E"
  have hit: "builtFor ?sub (supportedFor E nc ?v) images" if "ieHash E (supportedFor E nc ?v) ?v = Inr k" "cache_get (ieCache E) (gaNow g) cache k = Some images" for k
  proof -
    from keys_apartD(1) [OF assms(5) list.set_intros(1) that(1)] have "\<not> HasPrefix k ''custom/''" .
    with image_reach_inv [OF assms(2,1)] that(2) assms(3) obtain s v where "(s, v) \<in> set past" "ieHash E s v = Inr k" "builtFor ?sub s images"
      unfolding image_inv_def image_entry_def by blast
    moreover from this that(1) have "set s = set (supportedFor E nc ?v)"
      using keys_apartD(2) [OF assms(5) list.set_intros(1) list.set_intros(2)] by blast
    ultimately show ?thesis using builtFor_set [of s "supportedFor E nc ?v" ?sub] by simp
  qed
  from assms(4,6) have "listDefaultImages E g nc cache = (Inr images, cache')" by (simp add: ListImages_def)
  from listDefaultImages_cases [OF this refl refl] show ?thesis using hit by (auto simp: builtFor_def)
qed

definition toProviderImage :: "(reqs \<Rightarrow> selectorRequirement list) \<Rightarrow> listedImage \<Rightarrow> providerImage" where
  "toProviderImage selectors im = \<lparr>PImageID = LIID im, PRequirements = selectors (LIRequirements im)\<rparr>"

lemma tables_encryption: "tables_checked (\<lambda>f s p t k. list_all (\<lambda>i. requiresFIPS1403Encryption (Distro i) \<longleftrightarrow> tagged ''fips'' i \<and> tagged ''22.04'' i))"
  by code_simp

lemmas table_encryption = tables_checkedD [OF tables_encryption, unfolded list_all_iff, rule_format]


subsection \<open>Community versions\<close>

definition dated :: "communityVersion \<Rightarrow> bool" where
  "dated v \<longleftrightarrow> (\<exists>t. CVProperties v = Some (Some t))"

definition dateOfVersion :: "communityVersion \<Rightarrow> time" where
  "dateOfVersion v = (case CVProperties v of Some (Some t) \<Rightarrow> t | _ \<Rightarrow> 0)"

lemma laterVersion_dated:
  "dated v \<Longrightarrow> laterVersion emptyVersion v = Inr v"
  "dated v \<Longrightarrow> dated best \<Longrightarrow> laterVersion best v = Inr (if dateOfVersion v > dateOfVersion best then v else best)"
  by (auto simp: laterVersion_def dated_def dateOfVersion_def PublishedDate_def emptyVersion_def)

lemma foldM_later:
  assumes "\<forall>v \<in> set vs. dated v" and "dated best"
  shows "\<exists>v \<in> set (best # vs). foldM laterVersion best vs = Inr v \<and> (\<forall>u \<in> set (best # vs). dateOfVersion u \<le> dateOfVersion v)"
  using assms
proof (induction vs arbitrary: best)
  case (Cons x vs)
  define b where "b = (if dateOfVersion x > dateOfVersion best then x else best)"
  have "dated b" "b \<in> {x, best}" "dateOfVersion x \<le> dateOfVersion b" "dateOfVersion best \<le> dateOfVersion b" using Cons.prems by (auto simp: b_def)
  moreover from Cons.prems have "foldM laterVersion best (x # vs) = foldM laterVersion b vs" by (simp add: laterVersion_dated b_def)
  ultimately show ?case using Cons.IH [of b] Cons.prems by (force intro: order_trans)
qed simp

text \<open>A gallery with dated versions gives the name of one that no other was published after; one without versions gives the empty name, and the identifier then ends in \<open>/versions/\<close>.\<close>

lemma latest_community_version:
  assumes "\<forall>v \<in> set vs. dated v" and "vs \<noteq> []"
  shows "\<exists>v \<in> set vs. latestNodeImageVersionCommunity [Inr vs] = Inr (FromPtr (CVName v)) \<and> (\<forall>u \<in> set vs. dateOfVersion u \<le> dateOfVersion v)"
proof -
  obtain x ys where "vs = x # ys" using assms(2) by (cases vs) auto
  with assms(1) foldM_later [of ys x] show ?thesis by (auto simp: latestNodeImageVersionCommunity_def laterVersion_dated)
qed

lemma empty_gallery_gives_an_unversioned_image:
  assumes "gaCommunity g (PublicGalleryURL i) (ImageDefinition i) = [Inr []]"
  shows "listCIG g [i] = Inr [\<lparr>LIID = BuildImageIDCIG (PublicGalleryURL i) (ImageDefinition i) [], LIRequirements = DefaultRequirements i\<rparr>]"
  by (simp add: listCIG_def getCIGImageID_def latestNodeImageVersionCommunity_def assms emptyVersion_def FromPtr_def)

subsection \<open>Newest versions\<close>

definition numericVersion :: "string \<Rightarrow> bool" where
  "numericVersion v \<longleftrightarrow> (\<forall>seg \<in> set (Split CHR ''.'' v). Atoi seg \<noteq> None)"

definition segmentsOf :: "string \<Rightarrow> int list" where
  "segmentsOf v = map (\<lambda>seg. case Atoi seg of None \<Rightarrow> 0 | Some n \<Rightarrow> n) (Split CHR ''.'' v)"

lemma compareSegments_lexicographic:
  assumes "\<forall>seg \<in> set as. Atoi seg \<noteq> None" and "\<forall>seg \<in> set bs. Atoi seg \<noteq> None"
  shows "(case compareSegments as bs of Some verdict \<Rightarrow> verdict | None \<Rightarrow> length as > length bs) \<longleftrightarrow>
    map (\<lambda>seg. case Atoi seg of None \<Rightarrow> 0 | Some n \<Rightarrow> n) bs < map (\<lambda>seg. case Atoi seg of None \<Rightarrow> 0 | Some n \<Rightarrow> n) as"
  using assms
proof (induction as bs rule: compareSegments.induct, goal_cases)
  case (3 vs)
  then show ?case by (cases vs) auto
qed (auto split: option.split)

lemma isNewerVersion_lexicographic:
  "numericVersion a \<Longrightarrow> numericVersion b \<Longrightarrow> isNewerVersion a b \<longleftrightarrow> segmentsOf b < segmentsOf a"
  unfolding isNewerVersion_def numericVersion_def segmentsOf_def Let_def by (rule compareSegments_lexicographic)

definition versionOf :: "nodeImageVersion \<Rightarrow> int list" where
  "versionOf v = segmentsOf (FromPtr (NVVersion v))"

definition allNumeric :: "nodeImageVersion option list \<Rightarrow> bool" where
  "allNumeric vs \<longleftrightarrow> (\<forall>v. Some v \<in> set vs \<longrightarrow> supportedGallery v \<longrightarrow> numericVersion (FromPtr (NVVersion v)))"

definition latest_inv :: "nodeImageVersion option list \<Rightarrow> (string, nodeImageVersion) gomap \<Rightarrow> bool" where
  "latest_inv vs m \<longleftrightarrow> distinct (map fst m) \<and>
     (\<forall>k w. map_of m k = Some w \<longrightarrow> k = versionKey w \<and> Some w \<in> set vs \<and> supportedGallery w \<and>
        (\<forall>v. Some v \<in> set vs \<longrightarrow> supportedGallery v \<longrightarrow> versionKey v = k \<longrightarrow> versionOf v \<le> versionOf w)) \<and>
     (\<forall>v. Some v \<in> set vs \<longrightarrow> supportedGallery v \<longrightarrow> map_of m (versionKey v) \<noteq> None)"

lemma latest_inv_replace:
  assumes "latest_inv vs m" and "supportedGallery v" and "\<forall>w. map_of m (versionKey v) = Some w \<longrightarrow> versionOf w < versionOf v"
  shows "latest_inv (vs @ [Some v]) (AList.update (versionKey v) v m)"
proof -
  have "versionOf u \<le> versionOf v" if "Some u \<in> set vs" "supportedGallery u" "versionKey u = versionKey v" for u
  proof -
    from assms(1) that obtain w where w: "map_of m (versionKey v) = Some w" unfolding latest_inv_def by (metis not_None_eq)
    with assms(1) that have "versionOf u \<le> versionOf w" unfolding latest_inv_def by metis
    with assms(3) w show ?thesis by fastforce
  qed
  with assms(1,2) show ?thesis by (auto simp: latest_inv_def update_conv' distinct_update)
qed

lemma latest_inv_keep:
  assumes "latest_inv vs m" and "supportedGallery v \<longrightarrow> (\<exists>w. map_of m (versionKey v) = Some w \<and> versionOf v \<le> versionOf w)"
  shows "latest_inv (vs @ [Some v]) m"
  using assms unfolding latest_inv_def by (auto simp del: map_of_eq_Some_iff)

lemma keepNewest_simps:
  "keepNewest m None = m"
  "keepNewest m (Some v) = (if supportedGallery v \<and> (\<forall>w. map_of m (versionKey v) = Some w \<longrightarrow> isNewerVersion (FromPtr (NVVersion v)) (FromPtr (NVVersion w)))
     then AList.update (versionKey v) v m else m)"
  by (auto simp: keepNewest_def split: option.split)

lemma keepNewest_inv: "allNumeric vs \<Longrightarrow> latest_inv vs (foldl keepNewest [] vs)"
proof (induction vs rule: rev_induct)
  case (snoc x vs)
  from snoc.prems have "allNumeric vs" by (simp add: allNumeric_def)
  from snoc.IH [OF this] have inv: "latest_inv vs (foldl keepNewest [] vs)" .
  show ?case
  proof (cases x)
    case None
    with inv show ?thesis by (simp add: keepNewest_simps latest_inv_def del: map_of_eq_Some_iff)
  next
    case (Some v)
    have order: "isNewerVersion (FromPtr (NVVersion v)) (FromPtr (NVVersion w)) \<longleftrightarrow> versionOf w < versionOf v"
      if "supportedGallery v" "map_of (foldl keepNewest [] vs) (versionKey v) = Some w" for w
      using inv that snoc.prems Some unfolding versionOf_def by (intro isNewerVersion_lexicographic) (auto simp: allNumeric_def latest_inv_def)
    show ?thesis
    proof (cases "supportedGallery v \<and> (\<forall>w. map_of (foldl keepNewest [] vs) (versionKey v) = Some w \<longrightarrow> versionOf w < versionOf v)")
      case True
      with latest_inv_replace [OF inv, of v] order Some show ?thesis by (simp add: keepNewest_simps del: map_of_eq_Some_iff)
    next
      case False
      then have "keepNewest (foldl keepNewest [] vs) (Some v) = foldl keepNewest [] vs" using order by (auto simp: keepNewest_simps simp del: map_of_eq_Some_iff)
      with False latest_inv_keep [OF inv, of v] Some show ?thesis by (auto simp: not_less simp del: map_of_eq_Some_iff)
    qed
  qed
qed (simp add: latest_inv_def)

lemma set_map_filter: "set (List.map_filter f xs) = {y. \<exists>x \<in> set xs. f x = Some y}"
  by (induction xs) (auto simp: map_filter_simps split: option.split)

lemma dash_split:
  assumes "a @ ''-'' @ s = b @ ''-'' @ t" and "CHR ''-'' \<notin> set a" and "CHR ''-'' \<notin> set b"
  shows "a = b \<and> s = t"
proof -
  from assms(1) have "takeWhile (\<lambda>c. c \<noteq> CHR ''-'') (a @ ''-'' @ s) = takeWhile (\<lambda>c. c \<noteq> CHR ''-'') (b @ ''-'' @ t)" by simp
  moreover have "takeWhile (\<lambda>c. c \<noteq> CHR ''-'') (x @ ''-'' @ y) = x" if "CHR ''-'' \<notin> set x" for x y
    using that by (induction x) auto
  ultimately have "a = b" using assms(2,3) by simp
  with assms(1) show ?thesis by simp
qed

lemma versionKey_inj:
  assumes "supportedGallery v" and "supportedGallery w"
  shows "versionKey v = versionKey w \<longleftrightarrow> FromPtr (NVOS v) = FromPtr (NVOS w) \<and> FromPtr (NVSKU v) = FromPtr (NVSKU w)"
proof -
  have "CHR ''-'' \<notin> set (FromPtr (NVOS u))" if "supportedGallery u" for u
    using that by (auto simp: supportedGallery_def gallery_defs)
  with assms dash_split [of "FromPtr (NVOS v)" "FromPtr (NVSKU v)" "FromPtr (NVOS w)" "FromPtr (NVSKU w)"] show ?thesis unfolding versionKey_def by auto
qed

text \<open>
  C36: When the versions that the service lists are numbers separated by dots, the filtered list holds, for every operating system of a supported gallery and every SKU that was listed,
  exactly one version, and that one is a listed version with the greatest numbers, compared segment by segment from the left, with a longer version counting as newer than a prefix of it.
  Nothing else is in the list.\<close>

theorem newest_versions_are_kept:
  assumes "map_range rng" and "allNumeric versions"
  shows "distinct (map versionKey (FilteredNodeImages rng versions))
    \<and> (\<forall>w \<in> set (FilteredNodeImages rng versions). Some w \<in> set versions \<and> supportedGallery w \<and>
         (\<forall>v. Some v \<in> set versions \<longrightarrow> FromPtr (NVOS v) = FromPtr (NVOS w) \<longrightarrow> FromPtr (NVSKU v) = FromPtr (NVSKU w) \<longrightarrow> versionOf v \<le> versionOf w))
    \<and> (\<forall>v. Some v \<in> set versions \<longrightarrow> supportedGallery v \<longrightarrow>
         (\<exists>w \<in> set (FilteredNodeImages rng versions). FromPtr (NVOS w) = FromPtr (NVOS v) \<and> FromPtr (NVSKU w) = FromPtr (NVSKU v)))"
proof -
  define m where "m = foldl keepNewest [] versions"
  have inv: "latest_inv versions m" unfolding m_def by (rule keepNewest_inv [OF assms(2)])
  have out: "FilteredNodeImages rng versions = List.map_filter (map_of m) (rng (map fst m))" by (simp add: FilteredNodeImages_def m_def Let_def)
  have key: "k = versionKey w" if "map_of m k = Some w" for k w using inv that by (auto simp: latest_inv_def simp del: map_of_eq_Some_iff)
  have mem: "w \<in> set (FilteredNodeImages rng versions) \<longleftrightarrow> map_of m (versionKey w) = Some w" for w
  proof -
    have "w \<in> set (FilteredNodeImages rng versions) \<longleftrightarrow> (\<exists>k \<in> fst ` set m. map_of m k = Some w)"
      by (simp add: out set_map_filter map_range.rng_set [OF assms(1)] del: map_of_eq_Some_iff)
    moreover have "versionKey w \<in> fst ` set m" if "map_of m (versionKey w) = Some w" using map_of_SomeD [OF that] by force
    ultimately show ?thesis using key by metis
  qed
  have "map versionKey (List.map_filter (map_of m) ks) = filter (\<lambda>k. map_of m k \<noteq> None) ks" for ks
    using inv by (induction ks) (auto simp: latest_inv_def map_filter_simps split: option.split)
  then have "distinct (map versionKey (FilteredNodeImages rng versions))" using map_range.rng_distinct [OF assms(1)] by (simp add: out)
  moreover have "Some w \<in> set versions \<and> supportedGallery w \<and>
      (\<forall>v. Some v \<in> set versions \<longrightarrow> FromPtr (NVOS v) = FromPtr (NVOS w) \<longrightarrow> FromPtr (NVSKU v) = FromPtr (NVSKU w) \<longrightarrow> versionOf v \<le> versionOf w)"
    if "map_of m (versionKey w) = Some w" for w
    using inv that by (auto simp: latest_inv_def versionKey_inj) (metis supportedGallery_def versionKey_def)
  moreover have "\<exists>w. map_of m (versionKey w) = Some w \<and> FromPtr (NVOS w) = FromPtr (NVOS v) \<and> FromPtr (NVSKU w) = FromPtr (NVSKU v)"
    if "Some v \<in> set versions" "supportedGallery v" for v
  proof -
    from inv that obtain w where w: "map_of m (versionKey v) = Some w" by (auto simp: latest_inv_def simp del: map_of_eq_Some_iff)
    moreover from inv w have "supportedGallery w" by (simp add: latest_inv_def del: map_of_eq_Some_iff)
    ultimately show ?thesis using key [OF w] versionKey_inj [OF that(2)] by metis
  qed
  ultimately show ?thesis unfolding Ball_def Bex_def mem by blast
qed

subsection \<open>Examples\<close>

definition ex_image_env :: "(reqs, listedImage list exp_cache, string \<Rightarrow> condition) image_env" where
  "ex_image_env = \<lparr>ieSched = reqs_api, ieCompatible = reqs_compatible, ieFromSelectors = map (\<lambda>r. (ReqKey r, ReqValues r)), ieConditions = fun_conditions, ieSemver = ex_semver,
     ieCache = exp_cache, ieHash = (\<lambda>s v. Inr v), ieClassHash = (\<lambda>_. []), ieUseSIG = True, ieSIGSubscriptionID = ''sub'', ieLocation = ''eastus'',
     ieProvisionMode = ProvisionModeAKSScriptless\<rparr>"

definition ex_versions :: "nodeImageVersion option list" where
  "ex_versions = [Some \<lparr>NVOS = Some AKSUbuntuGalleryName, NVSKU = Some Ubuntu2204Gen2ImageDefinition, NVVersion = Some ''202501.9.0''\<rparr>, None,
     Some \<lparr>NVOS = Some AKSUbuntuGalleryName, NVSKU = Some Ubuntu2204Gen2ImageDefinition, NVVersion = Some ''202501.12.0''\<rparr>]"

definition ex_answers :: gallery_answers where
  "ex_answers = \<lparr>gaNow = 1, gaVersions = Inr (FilteredNodeImages remdups ex_versions), gaCommunity = (\<lambda>_ _. [])\<rparr>"

definition ex_image_id :: string where
  "ex_image_id = BuildImageIDSIG ''sub'' AKSUbuntuResourceGroup AKSUbuntuGalleryName Ubuntu2204Gen2ImageDefinition ''202501.12.0''"

definition ex_image_class :: "(string \<Rightarrow> condition) nodeClass" where
  "ex_image_class = ex_images None [ex_image_id]"

definition ex_listed_image :: listedImage where
  "ex_listed_image = \<lparr>LIID = ex_image_id, LIRequirements = archAndGeneration ArchitectureAmd64 HyperVGenerationV2\<rparr>"

lemma ex_image_list: "fst (ListImages ex_image_env ex_answers None ex_image_class []) = Inr [ex_listed_image]"
  by code_simp

theorem images_have_the_requested_features_witness:
  "\<exists>i \<in> set (getSupportedImages ex_semver None None ''1.31.2'' True True False). tagged ''tl'' i"
proof -
  let ?i = "ubuntuImage Ubuntu2204Gen2TrustedLaunchImageDefinition ArchitectureAmd64 HyperVGenerationV2 ''aks-ubuntu-containerd-22.04-tl-gen2''"
  have i: "?i \<in> set (getSupportedImages ex_semver None None ''1.31.2'' True True False)" by code_simp
  have "\<not> (FromPtr None = AzureLinuxImageFamily \<and> FromPtr None = FIPSModeFIPS \<and> True)" by (simp add: FromPtr_def AzureLinuxImageFamily_def)
  from images_have_the_requested_features [OF i this] i show ?thesis by blast
qed

theorem newest_versions_are_kept_witness:
  "\<exists>w \<in> set (FilteredNodeImages remdups ex_versions). FromPtr (NVSKU w) = Ubuntu2204Gen2ImageDefinition \<and> [202501, 9, 0] \<le> versionOf w"
proof -
  let ?v = "\<lparr>NVOS = Some AKSUbuntuGalleryName, NVSKU = Some Ubuntu2204Gen2ImageDefinition, NVVersion = Some ''202501.9.0''\<rparr>"
  have num: "numericVersion ''202501.9.0''" "numericVersion ''202501.12.0''" "versionOf ?v = [202501, 9, 0]" by code_simp+
  then have "allNumeric ex_versions" by (auto simp: allNumeric_def ex_versions_def FromPtr_def)
  note newest_versions_are_kept [OF first_added.map_range_axioms this]
  moreover have "Some ?v \<in> set ex_versions" "supportedGallery ?v" by (simp_all add: ex_versions_def supportedGallery_def FromPtr_def)
  ultimately obtain w where "w \<in> set (FilteredNodeImages remdups ex_versions)" "FromPtr (NVSKU w) = FromPtr (NVSKU ?v)" "versionOf ?v \<le> versionOf w" by metis
  with num(3) show ?thesis by (auto simp: FromPtr_def)
qed


end
