(* ===== verification/Class_Status.thy ===== *)
theory Class_Status
  imports Image_Family AKS_Machine
begin

text \<open>
  The status controller of the node class (src/pkg/controllers/nodeclass/status/controller.go) and the reconcilers that are not modelled with a provider: the subnet (subnet.go), local DNS
  (localdns.go, with src/pkg/providers/localdns/localdns.go, which reads its result for a launch), the static validation (staticvalidation.go) and the capacity reservation group
  (capacityreservationgroup.go). The reconcilers of the Kubernetes version and of the images are those of \<open>Kubernetes_Version\<close> and \<open>Node_Images\<close>; the list of instance types that a
  reservation group leaves is that of \<open>Instance_Types\<close>, over the unavailable offerings that the reconciler invalidates.

  A reconciler returns an error or the time after which it wants to run again, where 0 asks for nothing; when it returns both, the controller reports the error only. Answers of Azure and
  of the API server are arguments.

  Shown here: a pass sends a class whose spec is untouched and in which no reconciler disturbs the verdict of another; preferred local DNS stays on once it is on, is switched on exactly
  where every gate holds and is never sent on the wire, where the mode follows the size that Azure reports; a reservation group in the status is never stale, and it is reported ready
  exactly when an eligible member backs a size that the class can use.
\<close>

definition ConditionTypeSubnetsReady :: string where "ConditionTypeSubnetsReady = ''SubnetsReady''"

definition ConditionTypeValidationSucceeded :: string where "ConditionTypeValidationSucceeded = ''ValidationSucceeded''"

definition ConditionTypeLocalDNSReady :: string where "ConditionTypeLocalDNSReady = ''LocalDNSReady''"

definition ConditionTypeCapacityReservationGroupReady :: string where "ConditionTypeCapacityReservationGroupReady = ''CapacityReservationGroupReady''"

lemmas condition_type_defs = ConditionTypeImagesReady_def ConditionTypeKubernetesVersionReady_def ConditionTypeSubnetsReady_def ConditionTypeValidationSucceeded_def
  ConditionTypeLocalDNSReady_def ConditionTypeCapacityReservationGroupReady_def

subsection \<open>Subnets\<close>

definition SubnetUnreadyReasonNotFound :: string where "SubnetUnreadyReasonNotFound = ''SubnetNotFound''"

definition SubnetUnreadyReasonIDInvalid :: string where "SubnetUnreadyReasonIDInvalid = ''SubnetIDInvalid''"

definition SubnetUnreadyReasonUnknownError :: string where "SubnetUnreadyReasonUnknownError = ''SubnetUnknownError''"

definition healthyRequeueInterval :: duration where "healthyRequeueInterval = 3 * Minute"

text \<open>What is found out about a subnet other than that of the cluster: it may be used, it is rejected with a message, or the subnet of the cluster itself cannot be read.\<close>

datatype subnet_verdict = Usable | Rejected string | Undecided

definition customSubnet :: "string \<Rightarrow> string \<Rightarrow> string \<Rightarrow> vnetSubnetResource \<Rightarrow> subnet_verdict" where
  "customSubnet clusterSubnetID nodeResourceGroup subnetID comps =
     (if subnetID = clusterSubnetID then Usable
      else case GetVnetSubnetIDComponents clusterSubnetID of
        Inl e \<Rightarrow> Undecided
      | Inr clusterParts \<Rightarrow>
          (case IsAKSManagedVNET nodeResourceGroup clusterSubnetID of
             Inl e \<Rightarrow> Undecided
           | Inr managed \<Rightarrow>
               if managed \<and> IsSameVNET clusterParts comps then Rejected (''custom subnet cannot be in the same VNet as cluster managed VNet: '' @ subnetID)
               else if \<not> IsSameVNET clusterParts comps then
                 Rejected (''vnetSubnetID does not match the cluster subscription, resource group, or virtual network: '' @ subnetID)
               else Usable))"

definition validateVNETSubnetID :: "'k condition_api \<Rightarrow> string \<Rightarrow> string \<Rightarrow> (string \<Rightarrow> string \<Rightarrow> string \<Rightarrow> sdkError option) \<Rightarrow> 'k nodeClass \<Rightarrow> duration result \<times> 'k nodeClass" where
  "validateVNETSubnetID CA clusterSubnetID nodeResourceGroup getSubnet nc =
     (let subnetID = (case SpecVNETSubnetID nc of Some d \<Rightarrow> d | None \<Rightarrow> clusterSubnetID) in
      case GetVnetSubnetIDComponents subnetID of
        Inl e \<Rightarrow> (Inr 0, SetFalse CA ConditionTypeSubnetsReady SubnetUnreadyReasonIDInvalid (''Failed to parse vnetSubnetID '' @ subnetID) nc)
      | Inr comps \<Rightarrow>
          (case customSubnet clusterSubnetID nodeResourceGroup subnetID comps of
             Undecided \<Rightarrow> (Inr 0, nc)
           | Rejected message \<Rightarrow> (Inr 0, SetFalse CA ConditionTypeSubnetsReady SubnetUnreadyReasonIDInvalid message nc)
           | Usable \<Rightarrow>
               (case getSubnet (ResourceGroupName comps) (VNetName comps) (SubnetName comps) of
                  Some e \<Rightarrow>
                    if StatusCode e = Some 404 then
                      (Inl (ErrText e), SetFalse CA ConditionTypeSubnetsReady SubnetUnreadyReasonNotFound (''resource not found: '' @ subnetID) nc)
                    else (Inl (ErrText e), SetFalse CA ConditionTypeSubnetsReady SubnetUnreadyReasonUnknownError (''unknown error getting subnet: '' @ ErrText e) nc)
                | None \<Rightarrow> (Inr healthyRequeueInterval, SetTrue CA ConditionTypeSubnetsReady nc))))"

subsection \<open>Local DNS\<close>

definition localDNSPreferredVersionThreshold :: semver where
  "localDNSPreferredVersionThreshold = \<lparr>Major = 1, Minor = 37, Patch = 0, Pre = []\<rparr>"

definition konnectivityAgentPolicyName :: string where "konnectivityAgentPolicyName = ''konnectivity-agent''"

definition konnectivityAgentPolicyNamespace :: string where "konnectivityAgentPolicyNamespace = ''kube-system''"

definition localDNSPreferredRequeueAfter :: duration where "localDNSPreferredRequeueAfter = 5 * Minute"

definition NetworkPolicyCilium :: string where "NetworkPolicyCilium = ''cilium''"

definition NetworkPolicyCalico :: string where "NetworkPolicyCalico = ''calico''"

text \<open>
  What the API server answers: for the daemon set of the upstream cache, for at most two network policies (name and namespace), and for a list of a custom resource, which may not be
  installed; only whether the latter holds an item is read.\<close>

datatype daemonset_answer = DaemonSetFound | DaemonSetNotFound | DaemonSetError error

datatype crd_answer = CRDItems bool | CRDNotInstalled | CRDError error

record cluster_view =
  clDaemonSet :: daemonset_answer
  clNetworkPolicies :: "(string \<times> string) list result"
  clCustomResources :: "string \<Rightarrow> crd_answer"

definition hasUpstreamNodeLocalDNS :: "cluster_view \<Rightarrow> bool result" where
  "hasUpstreamNodeLocalDNS view =
     (case clDaemonSet view of DaemonSetFound \<Rightarrow> Inr True | DaemonSetNotFound \<Rightarrow> Inr False | DaemonSetError e \<Rightarrow> Inl (''checking node-local-dns daemonset: '' @ e))"

definition hasConflictingK8sNetworkPolicies :: "cluster_view \<Rightarrow> bool result" where
  "hasConflictingK8sNetworkPolicies view =
     (case clNetworkPolicies view of
        Inl e \<Rightarrow> Inl (''listing K8s NetworkPolicies: '' @ e)
      | Inr ps \<Rightarrow> Inr (list_ex (\<lambda>p. p \<noteq> (konnectivityAgentPolicyName, konnectivityAgentPolicyNamespace)) ps))"

fun firstConflict :: "cluster_view \<Rightarrow> string list \<Rightarrow> bool result" where
  "firstConflict view [] = Inr False"
| "firstConflict view (r # rs) =
     (case clCustomResources view r of
        CRDNotInstalled \<Rightarrow> firstConflict view rs
      | CRDError e \<Rightarrow> Inl (''listing '' @ r @ '': '' @ e)
      | CRDItems True \<Rightarrow> Inr True
      | CRDItems False \<Rightarrow> firstConflict view rs)"

definition hasConflictingCRDNetworkPolicies :: "cluster_view \<Rightarrow> string \<Rightarrow> bool result" where
  "hasConflictingCRDNetworkPolicies view networkPolicyType =
     firstConflict view
       (if EqualFold networkPolicyType NetworkPolicyCilium then [''ciliumnetworkpolicies'', ''ciliumclusterwidenetworkpolicies'']
        else if EqualFold networkPolicyType NetworkPolicyCalico then [''networkpolicies'', ''globalnetworkpolicies'']
        else [])"

definition hasConflictingNetworkPolicies :: "cluster_view \<Rightarrow> string \<Rightarrow> bool result" where
  "hasConflictingNetworkPolicies view networkPolicyType =
     (case hasConflictingK8sNetworkPolicies view of
        Inl e \<Rightarrow> Inl e
      | Inr True \<Rightarrow> Inr True
      | Inr False \<Rightarrow> hasConflictingCRDNetworkPolicies view networkPolicyType)"

definition meetsClusterRequirements :: "string \<Rightarrow> cluster_view \<Rightarrow> bool result" where
  "meetsClusterRequirements networkPolicy view =
     (case (if EqualFold networkPolicy NetworkPolicyCilium \<or> EqualFold networkPolicy NetworkPolicyCalico then hasConflictingNetworkPolicies view networkPolicy else Inr False) of
        Inl e \<Rightarrow> Inl e
      | Inr True \<Rightarrow> Inr False
      | Inr False \<Rightarrow> (case hasUpstreamNodeLocalDNS view of Inl e \<Rightarrow> Inl e | Inr has \<Rightarrow> Inr (\<not> has)))"

definition meetsStaticRequirements :: "'k condition_api \<Rightarrow> semver_api \<Rightarrow> string \<Rightarrow> 'k nodeClass \<Rightarrow> bool result" where
  "meetsStaticRequirements CA SV networkPlugin nc =
     (case GetKubernetesVersion CA (Some nc) of
        Inl e \<Rightarrow> Inl (''getting kubernetes version: '' @ e)
      | Inr k8sVersion \<Rightarrow>
          if k8sVersion = [] then Inr False
          else case sv_parse SV (TrimPrefix k8sVersion ''v'') of
            Inl e \<Rightarrow> Inl (''parsing kubernetes version '' @ quoted k8sVersion @ '': '' @ e)
          | Inr parsed \<Rightarrow>
              if sv_less SV parsed localDNSPreferredVersionThreshold then Inr False
              else if EqualFold networkPlugin NetworkPluginNone then Inr False
              else if ResolvesToUbuntu2004 SV (SpecImageFamily nc) (SpecFIPSMode nc) (IsTrustedLaunchEnabled nc) k8sVersion then Inr False
              else Inr True)"

definition settleLocalDNS :: "'k condition_api \<Rightarrow> string \<Rightarrow> 'k nodeClass \<Rightarrow> 'k nodeClass" where
  "settleLocalDNS CA state nc = SetTrue CA ConditionTypeLocalDNSReady (nc\<lparr>LocalDNSState := Some state\<rparr>)"

definition unsettledLocalDNS :: "'k condition_api \<Rightarrow> error \<Rightarrow> 'k nodeClass \<Rightarrow> 'k nodeClass" where
  "unsettledLocalDNS CA e nc = SetFalse CA ConditionTypeLocalDNSReady ''CheckingClusterRequirementsFailed'' e nc"

definition reconcilePreferred :: "'k condition_api \<Rightarrow> semver_api \<Rightarrow> string \<Rightarrow> string \<Rightarrow> cluster_view \<Rightarrow> 'k nodeClass \<Rightarrow> duration result \<times> 'k nodeClass" where
  "reconcilePreferred CA SV networkPolicy networkPlugin view nc =
     (if LocalDNSState nc = Some LocalDNSStateEnabled then (Inr 0, SetTrue CA ConditionTypeLocalDNSReady nc)
      else case meetsStaticRequirements CA SV networkPlugin nc of
        Inl e \<Rightarrow> (Inl e, unsettledLocalDNS CA e nc)
      | Inr False \<Rightarrow> (Inr localDNSPreferredRequeueAfter, settleLocalDNS CA LocalDNSStateDisabled nc)
      | Inr True \<Rightarrow>
          (case meetsClusterRequirements networkPolicy view of
             Inl e \<Rightarrow> (Inl e, unsettledLocalDNS CA e nc)
           | Inr ok \<Rightarrow> (Inr localDNSPreferredRequeueAfter, settleLocalDNS CA (if ok then LocalDNSStateEnabled else LocalDNSStateDisabled) nc)))"

definition LocalDNSReconcile :: "'k condition_api \<Rightarrow> semver_api \<Rightarrow> string \<Rightarrow> string \<Rightarrow> cluster_view \<Rightarrow> 'k nodeClass \<Rightarrow> duration result \<times> 'k nodeClass" where
  "LocalDNSReconcile CA SV networkPolicy networkPlugin view nc =
     (case SpecLocalDNS nc of
        None \<Rightarrow> (Inr 0, settleLocalDNS CA LocalDNSStateDisabled nc)
      | Some ld \<Rightarrow>
          if LDMode ld = [] then (Inr 0, settleLocalDNS CA LocalDNSStateDisabled nc)
          else if LDMode ld = LocalDNSModeRequired then (Inr 0, settleLocalDNS CA LocalDNSStateEnabled nc)
          else if LDMode ld = LocalDNSModeDisabled then (Inr 0, settleLocalDNS CA LocalDNSStateDisabled nc)
          else if LDMode ld = LocalDNSModePreferred then reconcilePreferred CA SV networkPolicy networkPlugin view nc
          else (Inr 0, settleLocalDNS CA LocalDNSStateDisabled nc))"

text \<open>The size of a node is read from the requirements of its type; a key that is absent has no values.\<close>

definition singleValue :: "'r scheduling_api \<Rightarrow> 'r \<Rightarrow> string \<Rightarrow> int option" where
  "singleValue S requirements key = (case reqValues S requirements key of [v] \<Rightarrow> Atoi v | _ \<Rightarrow> None)"

definition InstanceTypeMeetsFloor :: "'r scheduling_api \<Rightarrow> 'r \<Rightarrow> bool" where
  "InstanceTypeMeetsFloor S requirements =
     (case singleValue S requirements LabelSKUCPU of
        None \<Rightarrow> False
      | Some vcpu \<Rightarrow> (case singleValue S requirements LabelSKUMemory of None \<Rightarrow> False | Some memory \<Rightarrow> SKUMeetsFloor vcpu memory))"

definition IsSupportedForInstanceType :: "'r scheduling_api \<Rightarrow> 'k nodeClass \<Rightarrow> 'r \<Rightarrow> bool" where
  "IsSupportedForInstanceType S nc requirements \<longleftrightarrow> IsLocalDNSEnabled nc \<and> InstanceTypeMeetsFloor S requirements"

definition ResolveForWire :: "'r scheduling_api \<Rightarrow> 'k nodeClass \<Rightarrow> 'r \<Rightarrow> localDNS option" where
  "ResolveForWire S nc requirements =
     (case SpecLocalDNS nc of
        None \<Rightarrow> None
      | Some ld \<Rightarrow>
          if LDMode ld \<noteq> LocalDNSModePreferred then Some ld
          else Some (ld\<lparr>LDMode := (if IsSupportedForInstanceType S nc requirements then LocalDNSModeRequired else LocalDNSModeDisabled)\<rparr>))"

subsection \<open>Static validation\<close>

record validationResult =
  passed :: bool
  vrReason :: string
  vrMessage :: string
  requeueAfter :: duration

definition pass :: validationResult where
  "pass = \<lparr>passed = True, vrReason = [], vrMessage = [], requeueAfter = 0\<rparr>"

definition fail :: "string \<Rightarrow> string \<Rightarrow> validationResult" where
  "fail reason message = \<lparr>passed = False, vrReason = reason, vrMessage = message, requeueAfter = 0\<rparr>"

definition retryableFail :: "string \<Rightarrow> string \<Rightarrow> duration \<Rightarrow> validationResult" where
  "retryableFail reason message after = \<lparr>passed = False, vrReason = reason, vrMessage = message, requeueAfter = after\<rparr>"

definition ValidationSuccessRequeueInterval :: duration where "ValidationSuccessRequeueInterval = 1 * Hour"

definition ValidationFailureRequeueInterval :: duration where "ValidationFailureRequeueInterval = 1 * Minute"

definition NetworkDataplaneCilium :: string where "NetworkDataplaneCilium = ''cilium''"

record status_options =
  soEnableFIPS :: bool
  soUseSIG :: bool
  soProvisionMode :: string
  soNetworkDataplane :: string

definition SupportsNodePublicIP :: "string \<Rightarrow> bool" where
  "SupportsNodePublicIP mode \<longleftrightarrow> IsAKSMachineAPIMode mode \<or> mode = ProvisionModeAKSScriptless \<or> mode = ProvisionModeBootstrappingClient"

definition validateFIPS :: "status_options \<Rightarrow> 'k nodeClass \<Rightarrow> validationResult" where
  "validateFIPS opts nc =
     (if soEnableFIPS opts \<and> FromPtr (SpecFIPSMode nc) \<noteq> FIPSModeFIPS then
        fail ''FIPSRequired'' ''AKSNodeClass spec.fipsMode must be set to FIPS because FIPS is enabled at the cluster level''
      else pass)"

definition incompatibleACLConfiguration :: "status_options \<Rightarrow> 'k nodeClass \<Rightarrow> string" where
  "incompatibleACLConfiguration opts nc =
     (if FromPtr (SpecImageFamily nc) \<noteq> AzureContainerLinuxImageFamily then []
      else if \<not> IsAKSMachineAPIMode (soProvisionMode opts) then ''IncompatibleProvisionMode''
      else if \<not> soUseSIG opts then ''SIGRequiredForAzureContainerLinux''
      else [])"

definition validateACLConfiguration :: "status_options \<Rightarrow> 'k nodeClass \<Rightarrow> validationResult" where
  "validateACLConfiguration opts nc =
     (let reason = incompatibleACLConfiguration opts nc in
      if reason \<noteq> [] then fail reason ''AzureContainerLinux requires an AKS Machine API provision mode and shared image gallery access (UseSIG=true)'' else pass)"

definition validateWindowsCompatibility :: "status_options \<Rightarrow> 'k nodeClass \<Rightarrow> validationResult" where
  "validateWindowsCompatibility opts nc =
     (let family = FromPtr (SpecImageFamily nc) in
      if \<not> IsWindowsImageFamily family then pass
      else if soNetworkDataplane opts = NetworkDataplaneCilium then
        fail ''WindowsUnsupportedNetworkDataplane'' (''imageFamily '' @ quoted family @ '' is not supported with network-dataplane '' @ quoted (soNetworkDataplane opts))
      else if \<not> IsAKSMachineAPIMode (soProvisionMode opts) then
        fail ''WindowsUnsupportedProvisionMode'' (''imageFamily '' @ quoted family @ '' is not supported with provision-mode '' @ quoted (soProvisionMode opts) @
          ''; Windows requires an AKS Machine API provision mode'')
      else pass)"

definition validateKataProvisionMode :: "status_options \<Rightarrow> 'k nodeClass \<Rightarrow> validationResult" where
  "validateKataProvisionMode opts nc =
     (if IsKataEnabled nc \<and> \<not> SupportsWorkloadRuntime (soProvisionMode opts) then
        fail ''KataPodSandboxingUnsupportedProvisionMode''
          (''workloadRuntime '' @ quoted (GetWorkloadRuntime nc) @ '' is not supported with provision-mode '' @ quoted (soProvisionMode opts))
      else pass)"

definition validateManagedGPUProvisionMode :: "status_options \<Rightarrow> 'k nodeClass \<Rightarrow> validationResult" where
  "validateManagedGPUProvisionMode opts nc =
     (if IsManagedGPUEnabled nc \<and> \<not> IsAKSMachineAPIMode (soProvisionMode opts) then
        fail ''ManagedGPUUnsupportedProvisionMode'' (''gpu.nvidia.managementMode '' @ quoted (GetManagementMode nc) @
          '' requires an AKS Machine API provision mode; provision-mode '' @ quoted (soProvisionMode opts) @ '' is not supported'')
      else pass)"

definition validateNodePublicIPProvisionMode :: "status_options \<Rightarrow> 'k nodeClass \<Rightarrow> validationResult" where
  "validateNodePublicIPProvisionMode opts nc =
     (let requiresMachineAPI = (GetNodePublicIPPrefixIDs nc \<noteq> [] \<or> GetNodePublicIPTags nc \<noteq> []) in
      if IsNodePublicIPEnabled nc \<and> (\<not> SupportsNodePublicIP (soProvisionMode opts) \<or> requiresMachineAPI \<and> \<not> IsAKSMachineAPIMode (soProvisionMode opts)) then
        fail ''NodePublicIPUnsupportedProvisionMode'' (''nodePublicIP configuration is not supported with provision-mode '' @ quoted (soProvisionMode opts) @
          ''; prefixIDs and ipTags require an AKS Machine API mode ('' @ quoted ''aksmachineapi'' @ '' or '' @ quoted ''aksmachineapiheaderbatch'' @ '')'')
      else pass)"

definition validateKataImageFamily :: "'k condition_api \<Rightarrow> semver_api \<Rightarrow> 'k nodeClass \<Rightarrow> validationResult result" where
  "validateKataImageFamily CA SV nc =
     (if IsKataEnabled nc \<and> FromPtr (SpecImageFamily nc) = AzureLinuxImageFamily then
        (case GetKubernetesVersion CA (Some nc) of
           Inl e \<Rightarrow> Inl (''getting kubernetes version, '' @ e)
         | Inr v \<Rightarrow>
             if \<not> UseAzureLinux3 SV v then
               Inr (fail ''KataRequiresAzureLinux3'' (''workloadRuntime KataVmIsolation requires Azure Linux 3 and Kubernetes 1.32 or newer; Kubernetes version '' @ v @
                 '' resolves imageFamily AzureLinux to Azure Linux 2''))
             else Inr pass)
      else Inr pass)"

text \<open>The disk encryption set, if one is configured: its identifier and what reading it returned, with whether an error is one of authorization.\<close>

definition DiskEncryptionSetRBACErrorMessage :: string where
  "DiskEncryptionSetRBACErrorMessage = ''controlling identity does not have Reader role on Disk Encryption Set''"

definition validateDiskEncryptionSetRBAC :: "(sdkError \<Rightarrow> bool) \<Rightarrow> (string \<times> sdkError option) option \<Rightarrow> validationResult result" where
  "validateDiskEncryptionSetRBAC isAuthorizationErr des =
     (case des of
        None \<Rightarrow> Inr pass
      | Some (desID, answer) \<Rightarrow>
          (case answer of
             None \<Rightarrow> Inr pass
           | Some e \<Rightarrow>
               if isAuthorizationErr e then
                 Inr (retryableFail ''DiskEncryptionSetRBACMissing''
                   (DiskEncryptionSetRBACErrorMessage @ '' '' @ [CHR 0x27] @ desID @ [CHR 0x27] @ ''. Grant the Reader role on the DiskEncryptionSet to the controlling identity. '' @
                    ''For self-hosted installations, this is the Karpenter workload identity. For NAP, this is the AKS cluster identity. '' @
                    ''See https://learn.microsoft.com/azure/aks/azure-disk-customer-managed-keys for details: '' @ ErrText e) ValidationFailureRequeueInterval)
               else Inl (''failed to validate DiskEncryptionSet '' @ [CHR 0x27] @ desID @ [CHR 0x27] @ '': '' @ ErrText e)))"

definition validators :: "'k condition_api \<Rightarrow> semver_api \<Rightarrow> status_options \<Rightarrow> (sdkError \<Rightarrow> bool) \<Rightarrow> (string \<times> sdkError option) option
    \<Rightarrow> ('k nodeClass \<Rightarrow> validationResult result) list" where
  "validators CA SV opts isAuth des =
     [\<lambda>nc. Inr (validateFIPS opts nc), \<lambda>nc. Inr (validateACLConfiguration opts nc), \<lambda>nc. Inr (validateWindowsCompatibility opts nc),
      \<lambda>nc. Inr (validateKataProvisionMode opts nc), \<lambda>nc. Inr (validateManagedGPUProvisionMode opts nc), \<lambda>nc. Inr (validateNodePublicIPProvisionMode opts nc),
      validateKataImageFamily CA SV, \<lambda>_. validateDiskEncryptionSetRBAC isAuth des]"

fun runValidators :: "('k nodeClass \<Rightarrow> validationResult result) list \<Rightarrow> 'k nodeClass \<Rightarrow> validationResult result" where
  "runValidators [] nc = Inr pass"
| "runValidators (validate # vs) nc =
     (case validate nc of Inl e \<Rightarrow> Inl e | Inr r \<Rightarrow> if passed r then runValidators vs nc else Inr r)"

definition StaticValidationReconcile :: "'k condition_api \<Rightarrow> semver_api \<Rightarrow> status_options \<Rightarrow> (sdkError \<Rightarrow> bool) \<Rightarrow> (string \<times> sdkError option) option \<Rightarrow> 'k nodeClass
    \<Rightarrow> duration result \<times> 'k nodeClass" where
  "StaticValidationReconcile CA SV opts isAuth des nc =
     (case runValidators (validators CA SV opts isAuth des) nc of
        Inl e \<Rightarrow> (Inl e, nc)
      | Inr r \<Rightarrow>
          if \<not> passed r then (Inr (requeueAfter r), SetFalse CA ConditionTypeValidationSucceeded (vrReason r) (vrMessage r) nc)
          else (Inr ValidationSuccessRequeueInterval, SetTrue CA ConditionTypeValidationSucceeded nc))"

subsection \<open>Capacity reservation groups\<close>

definition capacityReservationGroupResourceType :: string where "capacityReservationGroupResourceType = ''capacityReservationGroups''"

definition unreadyRequeueInterval :: duration where "unreadyRequeueInterval = Minute"

text \<open>What \<open>arm.ParseResourceID\<close> reads from an identifier.\<close>

record resourceID =
  RIType :: string
  RISubscriptionID :: string
  RIResourceGroupName :: string
  RIName :: string

record armGroup =
  AGID :: "string option"
  AGLocation :: "string option"
  AGReservationType :: "string option"
  AGZones :: "string option list"

text \<open>A member: its SKU holds a name and a capacity; the provisioning state is that inside its properties.\<close>

record armReservation =
  ARID :: "string option"
  ARName :: "string option"
  ARSKU :: "(string option \<times> int option) option"
  ARZones :: "string option list"
  ARProvisioningState :: "string option"

definition sortedNonNilStrings :: "string option list \<Rightarrow> string list" where
  "sortedNonNilStrings values = sort (List.map_filter (\<lambda>v. v) values)"

definition capacityReservationFromARM :: "armReservation option \<Rightarrow> capacityReservation option" where
  "capacityReservationFromARM cr =
     (case cr of
        None \<Rightarrow> None
      | Some r \<Rightarrow>
          (case ARSKU r of
             None \<Rightarrow> None
           | Some (name, capacity) \<Rightarrow>
               if FromPtr name = [] \<or> FromPtr (ARID r) = [] \<or> FromPtr (ARName r) = [] then None
               else Some \<lparr>CRID = FromPtr (ARID r), CRName = FromPtr (ARName r), CRVMSize = FromPtr name, CRZones = sortedNonNilStrings (ARZones r), CRQuantity = capacity,
                 CRProvisioningState = (if FromPtr (ARProvisioningState r) \<noteq> [] then ARProvisioningState r else None)\<rparr>))"

text \<open>\<open>slices.SortFunc\<close> need not be stable: the sort is a parameter.\<close>

type_synonym member_sort = "(capacityReservation \<Rightarrow> capacityReservation \<Rightarrow> bool) \<Rightarrow> capacityReservation list \<Rightarrow> capacityReservation list"

definition listReservations :: "member_sort \<Rightarrow> (sdkError + armReservation option list) list \<Rightarrow> sdkError + capacityReservation list" where
  "listReservations srt pages =
     (case foldM (\<lambda>all page. case page of Inl e \<Rightarrow> Inl e | Inr rs \<Rightarrow> Inr (all @ List.map_filter capacityReservationFromARM rs)) [] pages of
        Inl e \<Rightarrow> Inl e
      | Inr all \<Rightarrow> Inr (srt (\<lambda>a b. CRID a < CRID b) all))"

text \<open>
  The reconciler with what it reads: the identifiers of the cluster, the answers of Azure and the environment of the instance types; its state is the flag for clouds without
  reservation groups, the unavailable offerings and the instance types.\<close>

record ('r, 's, 'f, 'c, 'k) crg_env =
  ceConditions :: "'k condition_api"
  ceParse :: "string \<Rightarrow> resourceID option"
  ceSubscriptionID :: string
  ceLocation :: string
  ceSort :: member_sort
  ceTypes :: "('r, 's, 'f, 'c) it_env"

record crg_answers =
  caNow :: time
  caGroup :: "string \<Rightarrow> string \<Rightarrow> sdkError + armGroup"
  caMembers :: "string \<Rightarrow> string \<Rightarrow> (sdkError + armReservation option list) list"
  caPricing :: provider
  caQuota :: quotaProvider
  caQuotaLater :: quotaProvider

record ('r, 's, 'f, 'c) crg_state =
  csUnsupportedCloud :: bool
  csOfferings :: "('s, 'f) unavailableOfferings"
  csTypes :: "('r, 'c) it_state"

definition invalidateGroup :: "('r, 's, 'f, 'c, 'k) crg_env \<Rightarrow> time \<Rightarrow> string \<Rightarrow> ('r, 's, 'f, 'c) crg_state \<Rightarrow> ('r, 's, 'f, 'c) crg_state" where
  "invalidateGroup E now groupID st =
     st\<lparr>csOfferings := InvalidateCapacityReservationGroup (itSingle (ceTypes E)) (itFamily (ceTypes E)) now (csOfferings st) groupID\<rparr>"

definition setFalse :: "('r, 's, 'f, 'c, 'k) crg_env \<Rightarrow> time \<Rightarrow> string \<Rightarrow> string \<Rightarrow> 'k nodeClass \<Rightarrow> ('r, 's, 'f, 'c) crg_state \<Rightarrow> 'k nodeClass \<times> ('r, 's, 'f, 'c) crg_state" where
  "setFalse E now reason message nc st =
     (SetFalse (ceConditions E) ConditionTypeCapacityReservationGroupReady reason message (nc\<lparr>CapacityReservationGroup := None\<rparr>),
      if CapacityReservationGroup nc \<noteq> None then invalidateGroup E now (GetCapacityReservationGroupID nc) st else st)"

definition unready :: "('r, 's, 'f, 'c, 'k) crg_env \<Rightarrow> time \<Rightarrow> string \<Rightarrow> string \<Rightarrow> 'a \<Rightarrow> 'k nodeClass \<Rightarrow> ('r, 's, 'f, 'c) crg_state
    \<Rightarrow> 'a \<times> 'k nodeClass \<times> ('r, 's, 'f, 'c) crg_state" where
  "unready E now reason message result nc st = (result, setFalse E now reason message nc st)"

definition groupError :: "('r, 's, 'f, 'c, 'k) crg_env \<Rightarrow> time \<Rightarrow> sdkError \<Rightarrow> 'k nodeClass \<Rightarrow> ('r, 's, 'f, 'c) crg_state
    \<Rightarrow> (failure + duration) \<times> 'k nodeClass \<times> ('r, 's, 'f, 'c) crg_state" where
  "groupError E now e nc st =
     (let crgID = GetCapacityReservationGroupID nc in
      if StatusCode e \<noteq> None \<and> (EqualFold (SDKErrorCode e) ''InvalidResourceType'' \<or> EqualFold (SDKErrorCode e) ''NoRegisteredProviderFound'') then
        unready E now ''CapacityReservationGroupUnsupportedCloud'' ''capacity reservation groups are not supported by this cloud'' (Inr 0) nc (st\<lparr>csUnsupportedCloud := True\<rparr>)
      else if StatusCode e = Some 404 then
        unready E now ''CapacityReservationGroupNotFound'' (''resource not found: '' @ crgID) (Inr unreadyRequeueInterval) nc st
      else if StatusCode e \<in> {Some 403, Some 401} then
        unready E now ''CapacityReservationGroupAccessDenied'' (''access denied reading capacity reservation group: '' @ crgID) (Inr unreadyRequeueInterval) nc st
      else unready E now ''CapacityReservationGroupUnknownError'' (''unknown error getting capacity reservation group: '' @ ErrText e) (Inl (Failed (ErrText e))) nc st)"

text \<open>The members are known: they are recorded, and the class is ready when one of them is eligible and the instance types that the group leaves are not empty.\<close>

definition resolvedGroup :: "string \<Rightarrow> armGroup \<Rightarrow> capacityReservation list \<Rightarrow> capacityReservationGroup" where
  "resolvedGroup crgID g reservations =
     \<lparr>CRGID = (if FromPtr (AGID g) \<noteq> [] then FromPtr (AGID g) else crgID), CRGLocation = FromPtr (AGLocation g), CRGZones = sortedNonNilStrings (AGZones g),
      CRGReservations = reservations\<rparr>"

definition recordGroup :: "('r, 's, 'f, 'c, 'k) crg_env \<Rightarrow> time \<Rightarrow> capacityReservationGroup \<Rightarrow> 'k nodeClass \<Rightarrow> ('r, 's, 'f, 'c) crg_state \<Rightarrow> 'k nodeClass \<times> ('r, 's, 'f, 'c) crg_state" where
  "recordGroup E now g nc st =
     (nc\<lparr>CapacityReservationGroup := Some g\<rparr>,
      case CapacityReservationGroup nc of
        Some previous \<Rightarrow> if EqualFold (CRGID previous) (CRGID g) \<and> previous \<noteq> g then invalidateGroup E now (GetCapacityReservationGroupID nc) st else st
      | None \<Rightarrow> st)"

definition judgeGroup :: "('r, 's, 'f, 'c, 'k) crg_env \<Rightarrow> crg_answers \<Rightarrow> capacityReservation list \<Rightarrow> 'k nodeClass \<Rightarrow> ('r, 's, 'f, 'c) crg_state
    \<Rightarrow> (failure + duration) \<times> 'k nodeClass \<times> ('r, 's, 'f, 'c) crg_state" where
  "judgeGroup E a reservations nc st =
     (let CA = ceConditions E; crgID = GetCapacityReservationGroupID nc in
      if \<not> list_ex IsEligible reservations then
        (Inr unreadyRequeueInterval, SetFalse CA ConditionTypeCapacityReservationGroupReady ''CapacityReservationGroupNoEligibleReservations''
           (''no capacity reservation in group is provisioned: '' @ crgID) nc, st)
      else
        let (listed, types) = ListInstanceTypes (ceTypes E) \<lparr>srcNow = caNow a, srcOfferings = csOfferings st, srcPricing = caPricing a\<rparr> (caQuota a) (caQuotaLater a) nc (csTypes st);
            st' = st\<lparr>csTypes := types\<rparr>
        in case listed of
          Inl (Panic p) \<Rightarrow> (Inl (Panic p), nc, st')
        | Inl (Failed e) \<Rightarrow>
            (Inl (Failed (''listing instance types for capacity reservation group '' @ crgID @ '': '' @ e)),
             SetFalse CA ConditionTypeCapacityReservationGroupReady ''CapacityReservationGroupUnknownError''
               (''unknown error listing instance types for capacity reservation group: '' @ e) nc, st')
        | Inr [] \<Rightarrow>
            (Inr unreadyRequeueInterval, SetFalse CA ConditionTypeCapacityReservationGroupReady ''CapacityReservationGroupNoCompatibleReservations''
               (''no capacity reservation in group reserves a VM size this NodeClass can use: '' @ crgID) nc, st')
        | Inr (t # ts) \<Rightarrow> (Inr healthyRequeueInterval, SetTrue CA ConditionTypeCapacityReservationGroupReady nc, st'))"

definition checkMembers :: "('r, 's, 'f, 'c, 'k) crg_env \<Rightarrow> crg_answers \<Rightarrow> resourceID \<Rightarrow> armGroup \<Rightarrow> 'k nodeClass \<Rightarrow> ('r, 's, 'f, 'c) crg_state
    \<Rightarrow> (failure + duration) \<times> 'k nodeClass \<times> ('r, 's, 'f, 'c) crg_state" where
  "checkMembers E a rid g nc st =
     (let crgID = GetCapacityReservationGroupID nc in
      case listReservations (ceSort E) (caMembers a (RIResourceGroupName rid) (RIName rid)) of
        Inl e \<Rightarrow>
          if StatusCode e \<in> {Some 403, Some 401} then
            unready E (caNow a) ''CapacityReservationGroupAccessDenied'' (''access denied listing capacity reservations in group: '' @ crgID) (Inr unreadyRequeueInterval) nc st
          else unready E (caNow a) ''CapacityReservationGroupUnknownError'' (''unknown error listing capacity reservations: '' @ ErrText e) (Inl (Failed (ErrText e))) nc st
      | Inr reservations \<Rightarrow>
          if reservations = [] then
            unready E (caNow a) ''CapacityReservationGroupNoReservations'' (''capacity reservation group has no capacity reservations: '' @ crgID) (Inr unreadyRequeueInterval) nc st
          else let (nc', st') = recordGroup E (caNow a) (resolvedGroup crgID g reservations) nc st in judgeGroup E a reservations nc' st')"

definition CapacityReservationGroupReconcile :: "('r, 's, 'f, 'c, 'k) crg_env \<Rightarrow> crg_answers \<Rightarrow> 'k nodeClass \<Rightarrow> ('r, 's, 'f, 'c) crg_state
    \<Rightarrow> (failure + duration) \<times> 'k nodeClass \<times> ('r, 's, 'f, 'c) crg_state" where
  "CapacityReservationGroupReconcile E a nc st =
     (if SpecCapacityReservation nc = None then
        (Inr 0, nc\<lparr>CapacityReservationGroup := None, Conditions := cond_clear (ceConditions E) ConditionTypeCapacityReservationGroupReady (Conditions nc)\<rparr>, st)
      else
        let crgID = GetCapacityReservationGroupID nc; now = caNow a in
        case ceParse E crgID of
          None \<Rightarrow> unready E now ''CapacityReservationGroupIDInvalid'' (''Failed to parse capacityReservation.groupID '' @ crgID) (Inr 0) nc st
        | Some rid \<Rightarrow>
            if \<not> EqualFold (RIType rid) capacityReservationGroupResourceType then
              unready E now ''CapacityReservationGroupIDInvalid'' (''Failed to parse capacityReservation.groupID '' @ crgID) (Inr 0) nc st
            else if \<not> EqualFold (RISubscriptionID rid) (ceSubscriptionID E) then
              unready E now ''CapacityReservationGroupSubscriptionMismatch'' (''capacityReservation.groupID must be in subscription '' @ ceSubscriptionID E) (Inr 0) nc st
            else if csUnsupportedCloud st then
              unready E now ''CapacityReservationGroupUnsupportedCloud'' ''capacity reservation groups are not supported by this cloud'' (Inr 0) nc st
            else case caGroup a (RIResourceGroupName rid) (RIName rid) of
              Inl e \<Rightarrow> groupError E now e nc st
            | Inr g \<Rightarrow>
                if \<not> EqualFold (FromPtr (AGLocation g)) (ceLocation E) then
                  unready E now ''CapacityReservationGroupRegionMismatch''
                    (''capacity reservation group is in region '' @ FromPtr (AGLocation g) @ '', expected '' @ ceLocation E) (Inr 0) nc st
                else if AGReservationType g \<noteq> None \<and> AGReservationType g \<noteq> Some ''Targeted'' then
                  unready E now ''CapacityReservationGroupUnsupportedReservationType''
                    (''capacity reservation group has unsupported reservation type '' @ FromPtr (AGReservationType g) @ '', only Targeted is supported'') (Inr 0) nc st
                else checkMembers E a rid g nc st)"

subsection \<open>The controller\<close>

definition TerminationFinalizer :: string where "TerminationFinalizer = Group @ ''/termination''"

text \<open>
  A pass: what the six reconcilers read, how the API server answers the two patches, and the parameters of the packages the controller uses (semantic equality and the minimum of results).
  A patch returns the object of the server; the one of the status may find the class gone.\<close>

datatype patch_answer = PatchDone | PatchNotFound | PatchFailed error

record ('r, 's, 'f, 'c, 'k) status_env =
  seGroups :: "('r, 's, 'f, 'c, 'k) crg_env"
  seVersions :: semver_api
  seReqSort :: req_sort
  seClusterSubnetID :: string
  seNodeResourceGroup :: string
  seOptions :: status_options
  seNetworkPolicy :: string
  seNetworkPlugin :: string
  seIsAuthorizationErr :: "sdkError \<Rightarrow> bool"
  seDeepEqual :: "'k nodeClass \<Rightarrow> 'k nodeClass \<Rightarrow> bool"
  seMin :: "duration list \<Rightarrow> duration"

record 'k status_answers =
  saGroups :: crg_answers
  saServerVersion :: "string result"
  saIsSupported :: "string \<Rightarrow> bool result"
  saListImages :: "'k nodeClass \<Rightarrow> providerImage list result"
  saWindow :: "bool result"
  saGetSubnet :: "string \<Rightarrow> string \<Rightarrow> string \<Rightarrow> sdkError option"
  saDiskEncryptionSet :: "(string \<times> sdkError option) option"
  saCluster :: cluster_view
  saPatch :: "'k nodeClass \<Rightarrow> 'k nodeClass result"
  saStatusPatch :: "'k nodeClass \<Rightarrow> 'k nodeClass \<Rightarrow> patch_answer"

text \<open>The reconcilers run in order on the same object, each whatever the ones before it returned; a panic ends the pass, with its message.\<close>

definition panicMessage :: "panic \<Rightarrow> string" where
  "panicMessage p =
     (case p of SliceBounds \<Rightarrow> SliceBoundsMessage | NilDereference \<Rightarrow> ''invalid memory address or nil pointer dereference'' | TypeAssertion \<Rightarrow> ''interface conversion'')"

definition runReconcilers :: "('r, 's, 'f, 'c, 'k) status_env \<Rightarrow> 'k status_answers \<Rightarrow> 'k nodeClass \<Rightarrow> ('r, 's, 'f, 'c) crg_state
    \<Rightarrow> (string + duration result list) \<times> 'k nodeClass \<times> ('r, 's, 'f, 'c) crg_state" where
  "runReconcilers E a nc st =
     (let CA = ceConditions (seGroups E); SV = seVersions E; opts = seOptions E;
          (r1, nc1) = Kubernetes_Version.Reconcile CA SV (saServerVersion a) (saIsSupported a) nc
      in case ImagesReconcile CA (seReqSort E) (soUseSIG opts) (saListImages a) (saWindow a) nc1 of
           Inl p \<Rightarrow> (Inl (panicMessage p), nc1, st)
         | Inr (r2, nc2) \<Rightarrow>
             let (r3, nc3) = validateVNETSubnetID CA (seClusterSubnetID E) (seNodeResourceGroup E) (saGetSubnet a) nc2;
                 (r4, nc4) = StaticValidationReconcile CA SV opts (seIsAuthorizationErr E) (saDiskEncryptionSet a) nc3;
                 (r5, nc5) = LocalDNSReconcile CA SV (seNetworkPolicy E) (seNetworkPlugin E) (saCluster a) nc4;
                 (r6, nc6, st') = CapacityReservationGroupReconcile (seGroups E) (saGroups a) nc5 st
             in (case r6 of
                   Inl (Panic p) \<Rightarrow> Inl p
                 | Inl (Failed e) \<Rightarrow> Inr [r1, r2, r3, r4, r5, Inl e]
                 | Inr d \<Rightarrow> Inr [r1, r2, r3, r4, r5, Inr d], nc6, st'))"

definition errorsOf :: "'a result list \<Rightarrow> error list" where
  "errorsOf rs = List.map_filter (\<lambda>r. case r of Inl e \<Rightarrow> Some e | Inr _ \<Rightarrow> None) rs"

definition resultsOf :: "'a result list \<Rightarrow> 'a list" where
  "resultsOf rs = List.map_filter (\<lambda>r. case r of Inl e \<Rightarrow> None | Inr d \<Rightarrow> Some d) rs"

text \<open>The class that a pass works on: with the finalizer, which is patched in when it is missing.\<close>

definition withFinalizer :: "'k status_answers \<Rightarrow> 'k nodeClass \<Rightarrow> 'k nodeClass result" where
  "withFinalizer a nc =
     (if TerminationFinalizer \<in> set (ClassFinalizers nc) then Inr nc else saPatch a (nc\<lparr>ClassFinalizers := ClassFinalizers nc @ [TerminationFinalizer]\<rparr>))"

text \<open>The pass returns what the caller sees, the object that was sent as a status patch, if one was, and the state.\<close>

definition StatusReconcile :: "('r, 's, 'f, 'c, 'k) status_env \<Rightarrow> 'k status_answers \<Rightarrow> 'k nodeClass \<Rightarrow> ('r, 's, 'f, 'c) crg_state
    \<Rightarrow> (string + (error list + duration)) \<times> 'k nodeClass option \<times> ('r, 's, 'f, 'c) crg_state" where
  "StatusReconcile E a nc st =
     (case withFinalizer a nc of
        Inl e \<Rightarrow> (Inr (Inl [e]), None, st)
      | Inr stored \<Rightarrow>
          (case runReconcilers E a stored st of
             (Inl p, nc1, st1) \<Rightarrow> (Inl p, None, st1)
           | (Inr rs, nc1, st1) \<Rightarrow>
               let changed = \<not> seDeepEqual E stored nc1;
                   sent = snapshotRecentlyUsed (ceConditions (seGroups E)) (caNow (saGroups a)) stored nc1;
                   errs = errorsOf rs @ (if changed then (case saStatusPatch a stored sent of PatchFailed e \<Rightarrow> [e] | _ \<Rightarrow> []) else [])
               in (Inr (if errs \<noteq> [] then Inl errs else Inr (seMin E (resultsOf rs))), if changed then Some sent else None, st1)))"

subsection \<open>What a reconciler may touch\<close>

lemma types_differ:
  "ConditionTypeKubernetesVersionReady \<noteq> ConditionTypeImagesReady" "ConditionTypeKubernetesVersionReady \<noteq> ConditionTypeSubnetsReady" "ConditionTypeKubernetesVersionReady \<noteq> ConditionTypeValidationSucceeded" "ConditionTypeKubernetesVersionReady \<noteq> ConditionTypeLocalDNSReady" "ConditionTypeKubernetesVersionReady \<noteq> ConditionTypeCapacityReservationGroupReady" "ConditionTypeKubernetesVersionReady \<noteq> ''Ready''"
  "ConditionTypeImagesReady \<noteq> ConditionTypeKubernetesVersionReady" "ConditionTypeImagesReady \<noteq> ConditionTypeSubnetsReady" "ConditionTypeImagesReady \<noteq> ConditionTypeValidationSucceeded" "ConditionTypeImagesReady \<noteq> ConditionTypeLocalDNSReady" "ConditionTypeImagesReady \<noteq> ConditionTypeCapacityReservationGroupReady" "ConditionTypeImagesReady \<noteq> ''Ready''"
  "ConditionTypeSubnetsReady \<noteq> ConditionTypeKubernetesVersionReady" "ConditionTypeSubnetsReady \<noteq> ConditionTypeImagesReady" "ConditionTypeSubnetsReady \<noteq> ConditionTypeValidationSucceeded" "ConditionTypeSubnetsReady \<noteq> ConditionTypeLocalDNSReady" "ConditionTypeSubnetsReady \<noteq> ConditionTypeCapacityReservationGroupReady" "ConditionTypeSubnetsReady \<noteq> ''Ready''"
  "ConditionTypeValidationSucceeded \<noteq> ConditionTypeKubernetesVersionReady" "ConditionTypeValidationSucceeded \<noteq> ConditionTypeImagesReady" "ConditionTypeValidationSucceeded \<noteq> ConditionTypeSubnetsReady" "ConditionTypeValidationSucceeded \<noteq> ConditionTypeLocalDNSReady" "ConditionTypeValidationSucceeded \<noteq> ConditionTypeCapacityReservationGroupReady" "ConditionTypeValidationSucceeded \<noteq> ''Ready''"
  "ConditionTypeLocalDNSReady \<noteq> ConditionTypeKubernetesVersionReady" "ConditionTypeLocalDNSReady \<noteq> ConditionTypeImagesReady" "ConditionTypeLocalDNSReady \<noteq> ConditionTypeSubnetsReady" "ConditionTypeLocalDNSReady \<noteq> ConditionTypeValidationSucceeded" "ConditionTypeLocalDNSReady \<noteq> ConditionTypeCapacityReservationGroupReady" "ConditionTypeLocalDNSReady \<noteq> ''Ready''"
  "ConditionTypeCapacityReservationGroupReady \<noteq> ConditionTypeKubernetesVersionReady" "ConditionTypeCapacityReservationGroupReady \<noteq> ConditionTypeImagesReady" "ConditionTypeCapacityReservationGroupReady \<noteq> ConditionTypeSubnetsReady" "ConditionTypeCapacityReservationGroupReady \<noteq> ConditionTypeValidationSucceeded" "ConditionTypeCapacityReservationGroupReady \<noteq> ConditionTypeLocalDNSReady" "ConditionTypeCapacityReservationGroupReady \<noteq> ''Ready''"
  by (simp_all add: condition_type_defs)

text \<open>Only the status changed; of the conditions only those of the given types (and the one that summarises them).\<close>

definition status_only :: "'k nodeClass \<Rightarrow> 'k nodeClass \<Rightarrow> bool" where
  "status_only nc nc' \<longleftrightarrow>
     nc' = nc\<lparr>Images := Images nc', ObservedVersions := ObservedVersions nc', KubernetesVersion := KubernetesVersion nc', LocalDNSState := LocalDNSState nc',
       CapacityReservationGroup := CapacityReservationGroup nc', Conditions := Conditions nc'\<rparr>"

definition touches :: "'k condition_api \<Rightarrow> string set \<Rightarrow> 'k nodeClass \<Rightarrow> 'k nodeClass \<Rightarrow> bool" where
  "touches CA ts nc nc' \<longleftrightarrow> status_only nc nc' \<and> (\<forall>t. t \<notin> ts \<longrightarrow> t \<noteq> ''Ready'' \<longrightarrow> GetCondition CA nc' t = GetCondition CA nc t)"

lemma status_only_fields:
  "status_only nc nc' \<Longrightarrow> Generation nc' = Generation nc \<and> SpecVNETSubnetID nc' = SpecVNETSubnetID nc \<and> SpecLocalDNS nc' = SpecLocalDNS nc \<and> SpecImageFamily nc' = SpecImageFamily nc \<and>
     SpecFIPSMode nc' = SpecFIPSMode nc \<and> SpecSecurity nc' = SpecSecurity nc \<and> SpecWorkloadRuntime nc' = SpecWorkloadRuntime nc \<and> SpecGPU nc' = SpecGPU nc \<and>
     SpecNodePublicIP nc' = SpecNodePublicIP nc \<and> SpecEnableNodePublicIP nc' = SpecEnableNodePublicIP nc \<and> SpecCapacityReservation nc' = SpecCapacityReservation nc"
  unfolding status_only_def by (metis nodeClass.select_convs nodeClass.surjective nodeClass.update_convs)

lemma touches_refl [simp]: "touches CA ts nc nc"
  by (simp add: touches_def status_only_def)

lemma status_only_trans: "status_only a b \<Longrightarrow> status_only b c \<Longrightarrow> status_only a c"
  unfolding status_only_def by (cases a; cases b; cases c; simp)

lemma touches_trans: "touches CA ts a b \<Longrightarrow> touches CA us b c \<Longrightarrow> touches CA (ts \<union> us) a c"
  unfolding touches_def using status_only_trans by auto

lemma touches_mono: "touches CA ts a b \<Longrightarrow> ts \<subseteq> us \<Longrightarrow> touches CA us a b"
  unfolding touches_def by blast

lemma touchesD: "touches CA ts nc nc' \<Longrightarrow> t \<notin> ts \<Longrightarrow> t \<noteq> ''Ready'' \<Longrightarrow> GetCondition CA nc' t = GetCondition CA nc t"
  unfolding touches_def by blast

lemma touches_fields [simp]:
  "touches CA ts nc (nc'\<lparr>KubernetesVersion := v\<rparr>) = touches CA ts nc nc'" "touches CA ts nc (nc'\<lparr>Images := imgs\<rparr>) = touches CA ts nc nc'"
  "touches CA ts nc (nc'\<lparr>ObservedVersions := ov\<rparr>) = touches CA ts nc nc'" "touches CA ts nc (nc'\<lparr>LocalDNSState := s\<rparr>) = touches CA ts nc nc'"
  "touches CA ts nc (nc'\<lparr>CapacityReservationGroup := g\<rparr>) = touches CA ts nc nc'"
  unfolding touches_def status_only_def GetCondition_def by (cases nc; cases nc'; simp)+

lemma status_only_Set [simp]:
  "status_only nc (SetTrueWithReason CA t r m nc') = status_only nc nc'" "status_only nc (SetFalse CA t r m nc') = status_only nc nc'"
  unfolding status_only_def set_condition_defs by (cases nc; cases nc'; simp)+

context status_conditions
begin

lemma touches_SetTrueWithReason: "touches CA ts nc nc' \<Longrightarrow> t \<in> ts \<Longrightarrow> touches CA ts nc (SetTrueWithReason CA t r m nc')"
  unfolding touches_def by (simp, metis get_Set_other(1))

lemma touches_SetTrue: "touches CA ts nc nc' \<Longrightarrow> t \<in> ts \<Longrightarrow> touches CA ts nc (SetTrue CA t nc')"
  unfolding SetTrue_def by (rule touches_SetTrueWithReason)

lemma touches_SetFalse: "touches CA ts nc nc' \<Longrightarrow> t \<in> ts \<Longrightarrow> touches CA ts nc (SetFalse CA t r m nc')"
  unfolding touches_def by (simp, metis get_Set_other(2))

lemmas touch = touches_SetTrueWithReason touches_SetTrue touches_SetFalse

lemma touches_subnet: "touches CA {ConditionTypeSubnetsReady} nc (snd (validateVNETSubnetID CA cs rg get nc))"
  by (auto simp: validateVNETSubnetID_def Let_def touch split: sum.split subnet_verdict.split option.split)

lemma touches_validation: "touches CA {ConditionTypeValidationSucceeded} nc (snd (StaticValidationReconcile CA SV opts isAuth des nc))"
  by (auto simp: StaticValidationReconcile_def touch split: sum.split)

lemma touches_localDNS: "touches CA {ConditionTypeLocalDNSReady} nc (snd (LocalDNSReconcile CA SV pol plug view nc))"
  by (auto simp: LocalDNSReconcile_def reconcilePreferred_def settleLocalDNS_def unsettledLocalDNS_def touch split: sum.split option.split bool.split)

lemma touches_clear: "touches CA ts nc nc' \<Longrightarrow> t \<in> ts \<Longrightarrow> touches CA ts nc (nc'\<lparr>Conditions := cond_clear CA t (Conditions nc')\<rparr>)"
  unfolding touches_def status_only_def GetCondition_def by (cases nc; cases nc'; simp; metis get_clear_other)

lemma touches_pin: "touches CA {ConditionTypeKubernetesVersionReady, ConditionTypeImagesReady} nc (snd (validatePinnedK8sVersion CA SV isSup ov k8s img cp nc))"
  by (auto simp: validatePinnedK8sVersion_def validateKubernetesVersionSkew_def validateCurrentOrLatestImagePin_def skewFailure_def Let_def touch split: sum.split)

lemma touches_goal: "touches CA {ConditionTypeKubernetesVersionReady, ConditionTypeImagesReady} nc (snd (unpinnedGoal CA SV cp nc))"
  by (auto simp: unpinnedGoal_def touch split: sum.split)

lemma touches_observed: "touches CA ts (nc\<lparr>ObservedVersions := ov\<rparr>) nc' = touches CA ts nc nc'"
  unfolding touches_def status_only_def GetCondition_def by (cases nc; cases nc'; simp)

lemma touches_version: "touches CA {ConditionTypeKubernetesVersionReady, ConditionTypeImagesReady} nc (snd (Kubernetes_Version.Reconcile CA SV server isSup nc))"
proof (cases server)
  case (Inr cp)
  let ?ov = "(case ObservedVersions nc of None \<Rightarrow> noObservedVersions | Some o' \<Rightarrow> o')\<lparr>CurrentControlPlaneKubernetesVersion := Some cp\<rparr>"
  let ?nc = "nc\<lparr>ObservedVersions := Some ?ov\<rparr>"
  obtain img k8s where rv: "requestedVersions ?nc = (img, k8s)" by (rule prod.exhaust)
  obtain r nc2 where p: "validatePinnedK8sVersion CA SV isSup ?ov k8s img cp ?nc = (r, nc2)" by (rule prod.exhaust)
  obtain g nc3 where u: "unpinnedGoal CA SV cp ?nc = (g, nc3)" by (rule prod.exhaust)
  show ?thesis
    using touches_pin [of ?nc SV isSup ?ov k8s img cp] touches_goal [of ?nc SV cp]
    by (auto simp: Kubernetes_Version.Reconcile_def Inr rv p u setVersion_def Let_def touches_observed touch split: sum.split bool.split)
qed (simp add: Kubernetes_Version.Reconcile_def)

lemma touches_images:
  assumes "ImagesReconcile CA srt useSIG listImages window nc = Inr (r, nc')"
  shows "touches CA {ConditionTypeImagesReady} nc nc'"
proof -
  have pin: "touches CA {ConditionTypeImagesReady} nc (snd (validatePinning CA img k8s nc))" for img k8s
    by (auto simp: validatePinning_def validateRollback_def Let_def touch split: prod.split)
  have pinned: "applyImagePinning CA imgs img nc1 = (r, nc2) \<Longrightarrow> touches CA {ConditionTypeImagesReady} nc nc1 \<Longrightarrow> touches CA {ConditionTypeImagesReady} nc nc2" for imgs img nc1 nc2 r
    by (auto simp: applyImagePinning_def touch split: sum.splits if_splits)
  have upd: "touches CA {ConditionTypeImagesReady} nc nc2" if "touches CA {ConditionTypeImagesReady} nc nc1" "updateImages CA w v must l imgs nc1 = Inr (r, nc2)" for w v must l imgs nc1 nc2 r
    using that by (auto simp: updateImages_def storeImages_def Let_def touch split: sum.splits if_splits)
  obtain img k8s where rv: "requestedVersions nc = (img, k8s)" by (rule prod.exhaust)
  obtain valid nc1 where v: "(if img = [] then (True, nc) else validatePinning CA img k8s nc) = (valid, nc1)" by (rule prod.exhaust)
  have t1: "touches CA {ConditionTypeImagesReady} nc nc1" using v pin [of img k8s] by (auto split: if_splits)
  show ?thesis
  proof (cases "SpecImageID nc \<noteq> None \<or> IsFIPSEnabled nc \<and> \<not> useSIG")
    case True
    then show ?thesis using assms by (auto simp: ImagesReconcile_def reconcileCustomImage_def Let_def touch split: sum.splits if_splits)
  next
    case False
    then show ?thesis
      using assms t1 by (auto simp: ImagesReconcile_def rv v Let_def split: sum.splits if_splits prod.splits option.splits dest!: pinned upd [rotated])
  qed
qed

lemma touches_group: "touches CA {ConditionTypeCapacityReservationGroupReady} nc (fst (snd (CapacityReservationGroupReconcile E a nc st)))" if "ceConditions E = CA"
proof -
  have un: "touches CA {ConditionTypeCapacityReservationGroupReady} nc (fst (snd (unready E now reason message result nc st)))" for now reason message result st
    by (simp add: unready_def setFalse_def that touch)
  have ge: "touches CA {ConditionTypeCapacityReservationGroupReady} nc (fst (snd (groupError E now e nc st)))" for now e st
    by (simp add: groupError_def Let_def un)
  have jg: "touches CA {ConditionTypeCapacityReservationGroupReady} nc nc' \<Longrightarrow> touches CA {ConditionTypeCapacityReservationGroupReady} nc (fst (snd (judgeGroup E a rs nc' st)))" for rs nc' st
    by (auto simp: judgeGroup_def that Let_def touch split: sum.split failure.split list.split prod.split)
  have cm: "touches CA {ConditionTypeCapacityReservationGroupReady} nc (fst (snd (checkMembers E a rid g nc st)))" for rid g st
    by (simp add: checkMembers_def recordGroup_def Let_def un jg split: sum.split)
  have cl: "touches CA {ConditionTypeCapacityReservationGroupReady} nc
      (nc\<lparr>CapacityReservationGroup := None, Conditions := cond_clear CA ConditionTypeCapacityReservationGroupReady (Conditions nc)\<rparr>)"
    using touches_clear [of _ nc "nc\<lparr>CapacityReservationGroup := None\<rparr>"] by simp
  show ?thesis
    by (simp add: CapacityReservationGroupReconcile_def Let_def un ge cm cl that split: option.split sum.split)
qed

end

lemma Set_status_fields [simp]:
  "LocalDNSState (SetTrueWithReason CA t r m nc) = LocalDNSState nc" "LocalDNSState (SetFalse CA t r m nc) = LocalDNSState nc" "LocalDNSState (SetTrue CA t nc) = LocalDNSState nc"
  by (simp_all add: set_condition_defs)

lemma version_keeps_dns: "LocalDNSState (snd (Kubernetes_Version.Reconcile CA SV server isSup nc)) = LocalDNSState nc"
proof (cases server)
  case (Inr cp)
  let ?ov = "(case ObservedVersions nc of None \<Rightarrow> noObservedVersions | Some o' \<Rightarrow> o')\<lparr>CurrentControlPlaneKubernetesVersion := Some cp\<rparr>"
  let ?nc = "nc\<lparr>ObservedVersions := Some ?ov\<rparr>"
  obtain img k8s where rv: "requestedVersions ?nc = (img, k8s)" by (rule prod.exhaust)
  obtain r nc2 where p: "validatePinnedK8sVersion CA SV isSup ?ov k8s img cp ?nc = (r, nc2)" by (rule prod.exhaust)
  obtain g nc3 where u: "unpinnedGoal CA SV cp ?nc = (g, nc3)" by (rule prod.exhaust)
  have "LocalDNSState (snd (validatePinnedK8sVersion CA SV isSup ?ov k8s img cp ?nc)) = LocalDNSState nc"
    by (auto simp: validatePinnedK8sVersion_def validateKubernetesVersionSkew_def validateCurrentOrLatestImagePin_def skewFailure_def Let_def split: sum.split)
  moreover have "LocalDNSState (snd (unpinnedGoal CA SV cp ?nc)) = LocalDNSState nc" by (auto simp: unpinnedGoal_def split: sum.split)
  ultimately show ?thesis
    by (auto simp: Kubernetes_Version.Reconcile_def Inr rv p u setVersion_def Let_def split: sum.split bool.split)
qed (simp add: Kubernetes_Version.Reconcile_def)

lemma images_keep:
  assumes "ImagesReconcile CA srt useSIG listImages window nc = Inr (r, nc')"
  shows "LocalDNSState nc' = LocalDNSState nc \<and> KubernetesVersion nc' = KubernetesVersion nc"
proof -
  have pin: "validatePinning CA img k8s nc1 = (v, nc2) \<Longrightarrow> LocalDNSState nc2 = LocalDNSState nc1 \<and> KubernetesVersion nc2 = KubernetesVersion nc1" for img k8s nc1 v nc2
    by (auto simp: validatePinning_def validateRollback_def Let_def split: prod.splits if_splits)
  have pinned: "applyImagePinning CA imgs img nc1 = (v, nc2) \<Longrightarrow> LocalDNSState nc2 = LocalDNSState nc1 \<and> KubernetesVersion nc2 = KubernetesVersion nc1" for imgs img nc1 nc2 v
    by (auto simp: applyImagePinning_def split: sum.splits if_splits)
  have upd: "updateImages CA w v must l imgs nc1 = Inr (r, nc2) \<Longrightarrow> LocalDNSState nc2 = LocalDNSState nc1 \<and> KubernetesVersion nc2 = KubernetesVersion nc1" for w v must l imgs nc1 nc2 r
    by (auto simp: updateImages_def storeImages_def Let_def split: sum.splits if_splits)
  show ?thesis
    using assms by (auto simp: ImagesReconcile_def reconcileCustomImage_def Let_def split: sum.splits if_splits prod.splits option.splits dest!: pin pinned upd)
qed

lemma subnet_keeps:
  "LocalDNSState (snd (validateVNETSubnetID CA cs rg get nc)) = LocalDNSState nc" "KubernetesVersion (snd (validateVNETSubnetID CA cs rg get nc)) = KubernetesVersion nc"
  by (auto simp: validateVNETSubnetID_def Let_def split: sum.split subnet_verdict.split option.split)

lemma validation_keeps:
  "LocalDNSState (snd (StaticValidationReconcile CA SV opts isAuth des nc)) = LocalDNSState nc"
  "KubernetesVersion (snd (StaticValidationReconcile CA SV opts isAuth des nc)) = KubernetesVersion nc"
  by (auto simp: StaticValidationReconcile_def split: sum.split)

lemma localDNS_keeps: "KubernetesVersion (snd (LocalDNSReconcile CA SV pol plug view nc)) = KubernetesVersion nc"
  by (auto simp: LocalDNSReconcile_def reconcilePreferred_def settleLocalDNS_def unsettledLocalDNS_def split: sum.split option.split bool.split)

lemma group_keeps:
  "LocalDNSState (fst (snd (CapacityReservationGroupReconcile E a nc st))) = LocalDNSState nc"
  "KubernetesVersion (fst (snd (CapacityReservationGroupReconcile E a nc st))) = KubernetesVersion nc"
  by (auto simp: CapacityReservationGroupReconcile_def checkMembers_def judgeGroup_def recordGroup_def groupError_def unready_def setFalse_def Let_def
      split: option.split sum.split prod.split failure.split list.split)

subsection \<open>What a verdict depends on\<close>

lemma touches_spec: "touches CA ts nc nc' \<Longrightarrow> status_only nc nc'"
  by (simp add: touches_def)

lemma status_only_getters:
  assumes "status_only nc nc'"
  shows "IsTrustedLaunchEnabled nc' = IsTrustedLaunchEnabled nc" "GetWorkloadRuntime nc' = GetWorkloadRuntime nc" "GetManagementMode nc' = GetManagementMode nc"
    "IsNodePublicIPEnabled nc' = IsNodePublicIPEnabled nc" "GetNodePublicIPPrefixIDs nc' = GetNodePublicIPPrefixIDs nc" "GetNodePublicIPTags nc' = GetNodePublicIPTags nc"
  using status_only_fields [OF assms]
  by (simp_all add: IsTrustedLaunchEnabled_def IsVTPMEnabled_def IsSecureBootEnabled_def GetWorkloadRuntime_def GetManagementMode_def IsNodePublicIPEnabled_def
      GetNodePublicIPPrefixIDs_def GetNodePublicIPTags_def split: option.split)

lemma same_kubernetes_version:
  assumes "touches CA ts nc nc'" "ConditionTypeKubernetesVersionReady \<notin> ts" "KubernetesVersion nc' = KubernetesVersion nc"
  shows "GetKubernetesVersion CA (Some nc') = GetKubernetesVersion CA (Some nc)"
  using assms(3) touchesD [OF assms(1,2)] status_only_fields [OF touches_spec [OF assms(1)]] types_differ
  by (simp add: GetKubernetesVersion_def validateKubernetesVersionReadiness_def Let_def)

lemma runValidators_cong: "\<forall>v \<in> set vs. v nc' = v nc \<Longrightarrow> runValidators vs nc' = runValidators vs nc"
  by (induction vs) (auto split: sum.split)

context status_conditions
begin

lemma verdict_SetTrue: "GetCondition CA (SetTrue CA t nc) t = \<lparr>Status = CondTrue, Reason = t, Message = [], ObservedGeneration = Generation nc\<rparr>"
  by (simp add: SetTrue_def get_SetTrueWithReason)

lemmas verdict = verdict_SetTrue get_SetTrueWithReason get_SetFalse

lemma subnet_verdict_alone:
  assumes "touches CA ts nc nc'" "ConditionTypeSubnetsReady \<notin> ts"
  shows "GetCondition CA (snd (validateVNETSubnetID CA cs rg get nc')) ConditionTypeSubnetsReady = GetCondition CA (snd (validateVNETSubnetID CA cs rg get nc)) ConditionTypeSubnetsReady"
  using touchesD [OF assms] status_only_fields [OF touches_spec [OF assms(1)]] types_differ
  by (auto simp: validateVNETSubnetID_def Let_def verdict split: sum.split subnet_verdict.split option.split)

lemma validation_verdict_alone:
  assumes "touches CA ts nc nc'" "ConditionTypeValidationSucceeded \<notin> ts" "ConditionTypeKubernetesVersionReady \<notin> ts" "KubernetesVersion nc' = KubernetesVersion nc"
  shows "GetCondition CA (snd (StaticValidationReconcile CA SV opts isAuth des nc')) ConditionTypeValidationSucceeded =
    GetCondition CA (snd (StaticValidationReconcile CA SV opts isAuth des nc)) ConditionTypeValidationSucceeded"
proof -
  note f = status_only_fields [OF touches_spec [OF assms(1)]] status_only_getters [OF touches_spec [OF assms(1)]] same_kubernetes_version [OF assms(1,3,4)]
  have v: "validateFIPS opts nc' = validateFIPS opts nc" "validateACLConfiguration opts nc' = validateACLConfiguration opts nc"
    "validateWindowsCompatibility opts nc' = validateWindowsCompatibility opts nc" "validateKataProvisionMode opts nc' = validateKataProvisionMode opts nc"
    "validateManagedGPUProvisionMode opts nc' = validateManagedGPUProvisionMode opts nc" "validateNodePublicIPProvisionMode opts nc' = validateNodePublicIPProvisionMode opts nc"
    "validateKataImageFamily CA SV nc' = validateKataImageFamily CA SV nc"
    by (simp_all add: f validateFIPS_def validateACLConfiguration_def incompatibleACLConfiguration_def validateWindowsCompatibility_def validateKataProvisionMode_def
        validateManagedGPUProvisionMode_def validateNodePublicIPProvisionMode_def validateKataImageFamily_def IsKataEnabled_def IsManagedGPUEnabled_def)
  have "runValidators (validators CA SV opts isAuth des) nc' = runValidators (validators CA SV opts isAuth des) nc"
    by (rule runValidators_cong) (simp add: validators_def v)
  then show ?thesis
    using touchesD [OF assms(1,2)] types_differ f(1) by (auto simp: StaticValidationReconcile_def verdict split: sum.split)
qed

lemma localDNS_verdict_alone:
  assumes "touches CA ts nc nc'" "ConditionTypeLocalDNSReady \<notin> ts" "ConditionTypeKubernetesVersionReady \<notin> ts" "KubernetesVersion nc' = KubernetesVersion nc"
    "LocalDNSState nc' = LocalDNSState nc"
  shows "GetCondition CA (snd (LocalDNSReconcile CA SV pol plug view nc')) ConditionTypeLocalDNSReady = GetCondition CA (snd (LocalDNSReconcile CA SV pol plug view nc)) ConditionTypeLocalDNSReady"
    "LocalDNSState (snd (LocalDNSReconcile CA SV pol plug view nc')) = LocalDNSState (snd (LocalDNSReconcile CA SV pol plug view nc))"
proof -
  note f = status_only_fields [OF touches_spec [OF assms(1)]] status_only_getters [OF touches_spec [OF assms(1)]] same_kubernetes_version [OF assms(1,3,4)]
  have "meetsStaticRequirements CA SV plug nc' = meetsStaticRequirements CA SV plug nc" by (simp add: meetsStaticRequirements_def f split: sum.split)
  note f' = this f assms(5) touchesD [OF assms(1,2)] types_differ
  show "GetCondition CA (snd (LocalDNSReconcile CA SV pol plug view nc')) ConditionTypeLocalDNSReady = GetCondition CA (snd (LocalDNSReconcile CA SV pol plug view nc)) ConditionTypeLocalDNSReady"
    "LocalDNSState (snd (LocalDNSReconcile CA SV pol plug view nc')) = LocalDNSState (snd (LocalDNSReconcile CA SV pol plug view nc))"
    by (auto simp: LocalDNSReconcile_def reconcilePreferred_def settleLocalDNS_def unsettledLocalDNS_def verdict f' split: sum.split option.split bool.split)
qed

end

subsection \<open>A pass\<close>

definition statusTypes :: "string list" where
  "statusTypes = [ConditionTypeKubernetesVersionReady, ConditionTypeImagesReady, ConditionTypeSubnetsReady, ConditionTypeValidationSucceeded, ConditionTypeLocalDNSReady,
     ConditionTypeCapacityReservationGroupReady]"

text \<open>The class as the first reconciler leaves it, which the verdicts on validation and on local DNS read.\<close>

definition versionPass :: "('r, 's, 'f, 'c, 'k) status_env \<Rightarrow> 'k status_answers \<Rightarrow> 'k nodeClass \<Rightarrow> 'k nodeClass" where
  "versionPass E a nc = snd (Kubernetes_Version.Reconcile (ceConditions (seGroups E)) (seVersions E) (saServerVersion a) (saIsSupported a) nc)"

text \<open>Each verdict is the one that its reconciler gives by itself.\<close>

definition verdictsApart :: "('r, 's, 'f, 'c, 'k) status_env \<Rightarrow> 'k status_answers \<Rightarrow> 'k nodeClass \<Rightarrow> 'k nodeClass \<Rightarrow> bool" where
  "verdictsApart E a nc nc' \<longleftrightarrow>
     (let CA = ceConditions (seGroups E); nc1 = versionPass E a nc;
          dns = snd (LocalDNSReconcile CA (seVersions E) (seNetworkPolicy E) (seNetworkPlugin E) (saCluster a) nc1)
      in GetCondition CA nc' ConditionTypeKubernetesVersionReady = GetCondition CA nc1 ConditionTypeKubernetesVersionReady \<and> KubernetesVersion nc' = KubernetesVersion nc1 \<and>
         GetCondition CA nc' ConditionTypeSubnetsReady =
           GetCondition CA (snd (validateVNETSubnetID CA (seClusterSubnetID E) (seNodeResourceGroup E) (saGetSubnet a) nc)) ConditionTypeSubnetsReady \<and>
         GetCondition CA nc' ConditionTypeValidationSucceeded =
           GetCondition CA (snd (StaticValidationReconcile CA (seVersions E) (seOptions E) (seIsAuthorizationErr E) (saDiskEncryptionSet a) nc1)) ConditionTypeValidationSucceeded \<and>
         GetCondition CA nc' ConditionTypeLocalDNSReady = GetCondition CA dns ConditionTypeLocalDNSReady \<and> LocalDNSState nc' = LocalDNSState dns)"

lemma runReconcilers_apart:
  assumes "status_conditions (ceConditions (seGroups E))" and "runReconcilers E a nc st = (Inr rs, nc', st')"
  shows "touches (ceConditions (seGroups E)) (set statusTypes) nc nc' \<and> verdictsApart E a nc nc'"
proof -
  let ?CA = "ceConditions (seGroups E)" and ?SV = "seVersions E"
  note sc = assms(1)
  let ?nc1 = "versionPass E a nc"
  obtain r2 nc2 where im: "ImagesReconcile ?CA (seReqSort E) (soUseSIG (seOptions E)) (saListImages a) (saWindow a) ?nc1 = Inr (r2, nc2)"
    using assms(2) by (auto simp: runReconcilers_def versionPass_def Let_def split: sum.splits prod.splits)
  define nc3 where "nc3 = snd (validateVNETSubnetID ?CA (seClusterSubnetID E) (seNodeResourceGroup E) (saGetSubnet a) nc2)"
  define nc4 where "nc4 = snd (StaticValidationReconcile ?CA ?SV (seOptions E) (seIsAuthorizationErr E) (saDiskEncryptionSet a) nc3)"
  define nc5 where "nc5 = snd (LocalDNSReconcile ?CA ?SV (seNetworkPolicy E) (seNetworkPlugin E) (saCluster a) nc4)"
  have nc': "nc' = fst (snd (CapacityReservationGroupReconcile (seGroups E) (saGroups a) nc5 st))"
    using assms(2) im by (auto simp: runReconcilers_def versionPass_def nc5_def nc4_def nc3_def Let_def split: sum.splits prod.splits failure.splits)
  note fr = status_conditions.touches_version [OF sc, of nc ?SV "saServerVersion a" "saIsSupported a", folded versionPass_def] status_conditions.touches_images [OF sc im]
    status_conditions.touches_subnet [OF sc, of nc2 "seClusterSubnetID E" "seNodeResourceGroup E" "saGetSubnet a", folded nc3_def]
    status_conditions.touches_validation [OF sc, of nc3 ?SV "seOptions E" "seIsAuthorizationErr E" "saDiskEncryptionSet a", folded nc4_def]
    status_conditions.touches_localDNS [OF sc, of nc4 ?SV "seNetworkPolicy E" "seNetworkPlugin E" "saCluster a", folded nc5_def]
    status_conditions.touches_group [OF sc refl, of nc5 "saGroups a" st, folded nc']
  note kept = images_keep [OF im] subnet_keeps [of ?CA "seClusterSubnetID E" "seNodeResourceGroup E" "saGetSubnet a" nc2, folded nc3_def]
    validation_keeps [of ?CA ?SV "seOptions E" "seIsAuthorizationErr E" "saDiskEncryptionSet a" nc3, folded nc4_def]
    localDNS_keeps [of ?CA ?SV "seNetworkPolicy E" "seNetworkPlugin E" "saCluster a" nc4, folded nc5_def] group_keeps [of "seGroups E" "saGroups a" nc5 st, folded nc']
  have t12: "touches ?CA {ConditionTypeKubernetesVersionReady, ConditionTypeImagesReady} nc nc2"
    using touches_trans [OF fr(1,2)] by (rule touches_mono) simp
  have t13: "touches ?CA {ConditionTypeImagesReady, ConditionTypeSubnetsReady} ?nc1 nc3"
    using touches_trans [OF fr(2,3)] by (rule touches_mono) simp
  have t14: "touches ?CA {ConditionTypeImagesReady, ConditionTypeSubnetsReady, ConditionTypeValidationSucceeded} ?nc1 nc4"
    using touches_trans [OF t13 fr(4)] by (rule touches_mono) simp
  have t36: "touches ?CA {ConditionTypeValidationSucceeded, ConditionTypeLocalDNSReady, ConditionTypeCapacityReservationGroupReady} nc3 nc'"
    using touches_trans [OF touches_trans [OF fr(4,5)] fr(6)] by (rule touches_mono) simp
  have t16: "touches ?CA (set statusTypes) nc nc'"
    using touches_trans [OF touches_trans [OF t12 fr(3)] t36] by (rule touches_mono) (simp add: statusTypes_def)
  have t16': "touches ?CA (set statusTypes - {ConditionTypeKubernetesVersionReady}) ?nc1 nc'"
    using touches_trans [OF t13 t36] types_differ by (elim touches_mono) (auto simp: statusTypes_def)
  note d = types_differ
  have "verdictsApart E a nc nc'"
    using touchesD [OF t16', of ConditionTypeKubernetesVersionReady] touchesD [OF t36, of ConditionTypeSubnetsReady] touchesD [OF fr(5), of ConditionTypeValidationSucceeded]
      touchesD [OF fr(6), of ConditionTypeValidationSucceeded] touchesD [OF fr(6), of ConditionTypeLocalDNSReady] kept d
      status_conditions.subnet_verdict_alone [OF sc t12, of "seClusterSubnetID E" "seNodeResourceGroup E" "saGetSubnet a", folded nc3_def]
      status_conditions.validation_verdict_alone [OF sc t13, of ?SV "seOptions E" "seIsAuthorizationErr E" "saDiskEncryptionSet a", folded nc4_def]
      status_conditions.localDNS_verdict_alone [OF sc t14, of ?SV "seNetworkPolicy E" "seNetworkPlugin E" "saCluster a", folded nc5_def]
    by (simp add: verdictsApart_def Let_def)
  then show ?thesis using t16 by simp
qed

lemma snapshot_observed: "\<exists>ov. snapshotRecentlyUsed CA now old new = new\<lparr>ObservedVersions := ov\<rparr>"
  by (cases new) (auto simp: snapshotRecentlyUsed_def)

lemma verdictsApart_observed: "verdictsApart E a nc (nc'\<lparr>ObservedVersions := ov\<rparr>) = verdictsApart E a nc nc'"
  by (simp add: verdictsApart_def GetCondition_def Let_def)

text \<open>
  A pass of the status controller sends a class in which only the status differs from the one it worked on, and of the conditions only those of its six reconcilers (and the summary).
  No reconciler disturbs the verdict of another: the Kubernetes version, its condition and the condition of the subnet are those that their reconcilers give on the class alone, and the
  verdicts on validation and on local DNS are those that theirs give once the Kubernetes version of this pass is settled.\<close>

theorem status_pass_keeps_verdicts_apart:
  assumes "status_conditions (ceConditions (seGroups E))" and "withFinalizer a nc = Inr stored" and "StatusReconcile E a nc st = (r, Some sent, st')"
  shows "touches (ceConditions (seGroups E)) (set statusTypes) stored sent \<and> verdictsApart E a stored sent"
proof -
  obtain v nc1 st1 where run: "runReconcilers E a stored st = (v, nc1, st1)" by (rule prod_cases3)
  with assms(2,3) obtain rs where v: "v = Inr rs" and sent: "sent = snapshotRecentlyUsed (ceConditions (seGroups E)) (caNow (saGroups a)) stored nc1"
    by (auto simp: StatusReconcile_def Let_def split: sum.splits if_splits)
  obtain ov where "sent = nc1\<lparr>ObservedVersions := ov\<rparr>" using snapshot_observed sent by metis
  then show ?thesis using runReconcilers_apart [OF assms(1) run [unfolded v]] by (simp add: verdictsApart_observed)
qed

subsection \<open>Numbers in requirements\<close>

lemma nth_digit: "d < 10 \<Longrightarrow> isDigit (''0123456789'' ! d) \<and> of_char (''0123456789'' ! d) = (48 + int d :: int)"
proof -
  assume "d < 10"
  then have "d \<in> {0, 1, 2, 3, 4, 5, 6, 7, 8, 9}" by auto
  then show ?thesis by (auto simp: isDigit_def less_eq_char_def)
qed

lemma decimal_snoc: "decimal (ds @ [c]) = 10 * decimal ds + (of_char c - 48)"
  by (simp add: decimal_def)

lemma digits_decimal: "digits n \<noteq> [] \<and> list_all isDigit (digits n) \<and> decimal (digits n) = int n"
proof (induction n rule: digits.induct)
  case (1 n)
  show ?case
  proof (cases "n < 10")
    case True
    then show ?thesis using nth_digit [OF True] by (simp add: digits.simps [of n] decimal_def)
  next
    case False
    then have "digits n = digits (n div 10) @ [''0123456789'' ! (n mod 10)]" by (simp add: digits.simps [of n])
    moreover have "int n = 10 * int (n div 10) + int (n mod 10)" by presburger
    ultimately show ?thesis using 1 [OF False] nth_digit [of "n mod 10"] by (simp only: decimal_snoc) simp
  qed
qed

lemma Atoi_Itoa: "- (2 ^ 63) \<le> n \<Longrightarrow> n < 2 ^ 63 \<Longrightarrow> Atoi (Itoa n) = Some n"
proof -
  assume n: "- (2 ^ 63) \<le> n" "n < 2 ^ 63"
  have "\<not> isDigit CHR ''-''" "\<not> isDigit CHR ''+''" by (simp_all add: isDigit_def less_eq_char_def)
  then show ?thesis using n digits_decimal [of "nat n"] digits_decimal [of "nat (- n)"]
    by (cases "digits (nat n)") (auto simp: Atoi_def Itoa_def Let_def)
qed

text \<open>A requirement is a set: its values come without duplicates.\<close>

locale scheduling_sets = scheduling S for S :: "'r scheduling_api" +
  assumes values_distinct: "distinct (reqValues S r k)"
begin

lemma single_value: "set (reqValues S r k) = {v} \<Longrightarrow> reqValues S r k = [v]"
  using values_distinct [of r k] by (cases "reqValues S r k") (auto simp: subset_singleton_iff dest: equalityD1)

end

definition set_reqs_api :: "reqs scheduling_api" where
  "set_reqs_api = reqs_api\<lparr>reqValues := \<lambda>rs k. remdups (valuesIn rs k)\<rparr>"

lemma set_reqs_api_simps [simp]:
  "schedCore set_reqs_api = schedCore reqs_api" "newRequirements set_reqs_api = newRequirements reqs_api" "insertValue set_reqs_api = insertValue reqs_api"
  "reqValues set_reqs_api rs k = remdups (valuesIn rs k)"
  by (simp_all add: set_reqs_api_def)

interpretation set_reqs: scheduling_sets set_reqs_api
proof -
  have "scheduling set_reqs_api"
    using reqs_api.scheduling_axioms unfolding scheduling_def scheduling_axioms_def by simp
  then show "scheduling_sets set_reqs_api" by (simp add: scheduling_sets_def scheduling_sets_axioms_def)
qed

lemma size_keys_kept:
  assumes "scheduling (itSched E)" and "k \<in> {LabelSKUCPU, LabelSKUMemory}"
  shows "set (reqValues (itSched E) (computeRequirements E sku vmsize vcpus memMiB architecture offerings params) k) =
    set (valuesIn (baseRequirements E sku vcpus memMiB architecture offerings params) k)"
proof -
  have "k \<notin> {LabelSKUName, LabelSKUFamily, LabelSKUSeries, LabelSKUStorageEphemeralOSMaxSize, LabelSKUHyperVGeneration, LabelSKUGPUManufacturer, LabelSKUGPUName,
      LabelSKUVersion, AKSLabelFIPSEnabled, AKSLabelKataVMIsolation}" using assms(2) by (auto simp: sku_label_defs)
  then show ?thesis
    by (simp add: computeRequirements_def setRequirementsEphemeralOSDiskSupported_def setRequirementsHyperVGeneration_def setRequirementsGPU_def setRequirementsVersion_def Let_def
        scheduling.values_insert [OF assms(1)] scheduling.values_new [OF assms(1) base_keys_distinct] split: option.split)
qed

lemma size_values:
  "valuesIn (baseRequirements E sku vcpus memMiB architecture offerings params) LabelSKUCPU = [Itoa vcpus]"
  "valuesIn (baseRequirements E sku vcpus memMiB architecture offerings params) LabelSKUMemory = [Itoa memMiB]"
proof -
  have "LabelSKUCPU \<notin> {LabelInstanceTypeStable, LabelArchStable, LabelOSStable, LabelTopologyZone, LabelTopologyRegion, CapacityTypeLabelKey, LabelPlacementScope, LabelUltraSSD}"
    "LabelSKUMemory \<notin> {LabelInstanceTypeStable, LabelArchStable, LabelOSStable, LabelTopologyZone, LabelTopologyRegion, CapacityTypeLabelKey, LabelPlacementScope, LabelUltraSSD,
       LabelSKUCPU}"
    by (simp_all add: sku_label_defs)
  then show "valuesIn (baseRequirements E sku vcpus memMiB architecture offerings params) LabelSKUCPU = [Itoa vcpus]"
    "valuesIn (baseRequirements E sku vcpus memMiB architecture offerings params) LabelSKUMemory = [Itoa memMiB]"
    by (simp_all add: baseRequirements_def Let_def valuesIn_Cons)
qed

lemma floor_of_built:
  assumes "scheduling_sets (itSched E)" and "newInstanceType E sku vmsize offerings params architecture = Inr t"
    and "VCPU sku = Some cpu" and "skMemory sku = Some mem" and "0 \<le> mem" "mem \<le> 2 ^ 20"
  shows "InstanceTypeMeetsFloor (itSched E) (ITRequirements t) \<longleftrightarrow> SKUMeetsFloor (sint cpu) (memoryMiB mem)"
proof -
  note s = scheduling_sets.axioms(1) [OF assms(1)]
  have t: "ITRequirements t = computeRequirements E sku vmsize (sint cpu) (memoryMiB mem) architecture offerings params"
    using assms(2-4) by (auto simp: newInstanceType_def Let_def)
  have "reqValues (itSched E) (ITRequirements t) LabelSKUCPU = [Itoa (sint cpu)]" "reqValues (itSched E) (ITRequirements t) LabelSKUMemory = [Itoa (memoryMiB mem)]"
    unfolding t by (rule scheduling_sets.single_value [OF assms(1)], simp add: size_keys_kept [OF s] size_values)+
  moreover have "- (2 ^ 63) \<le> sint cpu" "sint cpu < 2 ^ 63" using sint_greater_eq [of cpu] sint_lt [of cpu] by simp_all
  moreover have "- (2 ^ 63) \<le> memoryMiB mem" "memoryMiB mem < 2 ^ 63"
  proof -
    obtain z where z: "\<lfloor>mem\<rfloor> = z" by blast
    have "0 \<le> \<lfloor>mem\<rfloor>" "\<lfloor>mem\<rfloor> \<le> 1048576" using assms(5,6) by (simp_all add: floor_le_iff)
    then have "0 \<le> memoryMiB mem" "memoryMiB mem \<le> 1073742848" using memoryMiB_bounds(1,2) [OF assms(5,6)] unfolding z by simp_all
    then show "- (2 ^ 63) \<le> memoryMiB mem" "memoryMiB mem < 2 ^ 63" by simp_all
  qed
  ultimately show ?thesis by (simp add: InstanceTypeMeetsFloor_def singleValue_def Atoi_Itoa)
qed

subsection \<open>Local DNS of a node\<close>

definition sizedWithin :: "(string, skuInfo) gomap \<Rightarrow> bool" where
  "sizedWithin info \<longleftrightarrow> (\<forall>sku \<in> ran (map_of info). \<forall>mem. skMemory sku = Some mem \<longrightarrow> 0 \<le> mem \<and> mem \<le> 2 ^ 20)"

definition meetsFloorOf :: "skuInfo \<Rightarrow> bool" where
  "meetsFloorOf sku \<longleftrightarrow> (case (VCPU sku, skMemory sku) of (Some cpu, Some mem) \<Rightarrow> SKUMeetsFloor (sint cpu) (memoryMiB mem) | _ \<Rightarrow> False)"

lemma built_floor:
  assumes "scheduling_sets (itSched E)" and "map_range (itRange E)" and "buildInstanceTypes E src info params = Inr types" and "sizedWithin info" and "t \<in> set types"
  shows "\<exists>sku \<in> ran (map_of info). Name t = GetName sku \<and> (InstanceTypeMeetsFloor (itSched E) (ITRequirements t) \<longleftrightarrow> meetsFloorOf sku)
    \<and> (ipLocalDNSRequired params \<longrightarrow> meetsFloorOf sku)"
proof -
  from build_from_sku [OF assms(3,5)] obtain name sku ts where sku: "map_of info name = Some sku" "buildOne E src params sku = Inr ts" "t \<in> set ts" by blast
  then obtain vmsize architecture offerings where t: "newInstanceType E sku vmsize offerings params architecture = Inr t"
      "isInstanceTypeSupportedByFilters (itGPU E) sku architecture params = Inr True"
    by (auto simp: buildOne_def split: sum.splits if_splits)
  then obtain cpu mem where m: "VCPU sku = Some cpu" "skMemory sku = Some mem" by (auto simp: newInstanceType_def split: option.splits)
  from sku(1) have r: "sku \<in> ran (map_of info)" by (rule ranI)
  with assms(4) m have "0 \<le> mem" "mem \<le> 2 ^ 20" by (auto simp: sizedWithin_def)
  note fl = floor_of_built [OF assms(1) t(1) m this]
  have "ipLocalDNSRequired params \<longrightarrow> SKUMeetsFloor (sint cpu) (memoryMiB mem)"
    using t(2) m by (auto simp: isInstanceTypeSupportedByFilters_def isInstanceTypeSupportedByLocalDNS_def split: if_splits)
  moreover have "Name t = GetName sku" using newInstanceType_facts [OF scheduling_sets.axioms(1) [OF assms(1)] t(1)] by simp
  ultimately show ?thesis using fl r m by (intro bexI [of _ sku]) (auto simp: meetsFloorOf_def)
qed

text \<open>
  C30: What is sent to AKS for a node of a built instance type never says that local DNS is preferred. It says required for a class that prefers local DNS exactly when the class resolved
  to enabled and the size of the type, as Azure reports it, has four processors and 244 MiB of memory, although the code reads both back from the requirements of the type; and for a class that requires
  local DNS every type that is listed for it has such a size, so that its resolution does not depend on the size.\<close>

theorem wire_mode_fits_the_size:
  assumes "scheduling_sets (itSched E)" and "map_range (itRange E)" and "buildInstanceTypes E src info (paramsOf E nc) = Inr types" and "sizedWithin info" and "t \<in> set types"
    and "SpecLocalDNS nc = Some ld"
  shows "\<exists>sku \<in> ran (map_of info). Name t = GetName sku \<and> (\<exists>wire. ResolveForWire (itSched E) nc (ITRequirements t) = Some wire
    \<and> wire\<lparr>LDMode := LDMode ld\<rparr> = ld \<and> LDMode wire \<noteq> LocalDNSModePreferred
    \<and> (LDMode ld = LocalDNSModePreferred \<longrightarrow> LDMode wire = (if LocalDNSState nc = Some LocalDNSStateEnabled \<and> meetsFloorOf sku then LocalDNSModeRequired else LocalDNSModeDisabled))
    \<and> (LDMode ld = LocalDNSModeRequired \<longrightarrow> wire = ld \<and> meetsFloorOf sku \<and> (IsSupportedForInstanceType (itSched E) nc (ITRequirements t) \<longleftrightarrow> IsLocalDNSEnabled nc)))"
proof -
  from built_floor [OF assms(1-5)] obtain sku where sku: "sku \<in> ran (map_of info)" "Name t = GetName sku"
      "InstanceTypeMeetsFloor (itSched E) (ITRequirements t) \<longleftrightarrow> meetsFloorOf sku" "ipLocalDNSRequired (paramsOf E nc) \<longrightarrow> meetsFloorOf sku" by blast
  have req: "LDMode ld = LocalDNSModeRequired \<longrightarrow> meetsFloorOf sku" using sku(4) assms(6) by (simp add: paramsOf_def IsLocalDNSRequired_def)
  have modes: "LocalDNSModeRequired \<noteq> LocalDNSModePreferred" "LocalDNSModeDisabled \<noteq> LocalDNSModePreferred"
    by (simp_all add: LocalDNSModeRequired_def LocalDNSModePreferred_def LocalDNSModeDisabled_def)
  show ?thesis
    using sku(2,3) assms(6) req modes
    by (intro bexI [OF _ sku(1)] conjI) (auto simp: ResolveForWire_def IsSupportedForInstanceType_def IsLocalDNSEnabled_def)
qed

text \<open>Every gate that lets a class switch local DNS on.\<close>

definition dnsGates :: "'k condition_api \<Rightarrow> semver_api \<Rightarrow> string \<Rightarrow> string \<Rightarrow> cluster_view \<Rightarrow> 'k nodeClass \<Rightarrow> bool" where
  "dnsGates CA SV networkPolicy networkPlugin view nc \<longleftrightarrow>
     (case GetKubernetesVersion CA (Some nc) of
        Inl e \<Rightarrow> False
      | Inr v \<Rightarrow> (case sv_parse SV (TrimPrefix v ''v'') of Inl e \<Rightarrow> False | Inr parsed \<Rightarrow> v \<noteq> [] \<and> \<not> sv_less SV parsed localDNSPreferredVersionThreshold)
          \<and> \<not> ResolvesToUbuntu2004 SV (SpecImageFamily nc) (SpecFIPSMode nc) (IsTrustedLaunchEnabled nc) v)
     \<and> \<not> EqualFold networkPlugin NetworkPluginNone \<and> clDaemonSet view = DaemonSetNotFound
     \<and> (EqualFold networkPolicy NetworkPolicyCilium \<or> EqualFold networkPolicy NetworkPolicyCalico \<longrightarrow>
          (\<exists>ps. clNetworkPolicies view = Inr ps \<and> set ps \<subseteq> {(konnectivityAgentPolicyName, konnectivityAgentPolicyNamespace)})
          \<and> (\<forall>r \<in> set (if EqualFold networkPolicy NetworkPolicyCilium then [''ciliumnetworkpolicies'', ''ciliumclusterwidenetworkpolicies''] else [''networkpolicies'', ''globalnetworkpolicies'']).
               clCustomResources view r \<in> {CRDNotInstalled, CRDItems False}))"

lemma firstConflict_none: "firstConflict view rs = Inr False \<longleftrightarrow> (\<forall>r \<in> set rs. clCustomResources view r \<in> {CRDNotInstalled, CRDItems False})"
  by (induction rs) (auto split: crd_answer.split bool.split)

lemma cluster_gates:
  "meetsClusterRequirements networkPolicy view = Inr True \<longleftrightarrow> clDaemonSet view = DaemonSetNotFound
     \<and> (EqualFold networkPolicy NetworkPolicyCilium \<or> EqualFold networkPolicy NetworkPolicyCalico \<longrightarrow>
          (\<exists>ps. clNetworkPolicies view = Inr ps \<and> set ps \<subseteq> {(konnectivityAgentPolicyName, konnectivityAgentPolicyNamespace)})
          \<and> (\<forall>r \<in> set (if EqualFold networkPolicy NetworkPolicyCilium then [''ciliumnetworkpolicies'', ''ciliumclusterwidenetworkpolicies''] else [''networkpolicies'', ''globalnetworkpolicies'']).
               clCustomResources view r \<in> {CRDNotInstalled, CRDItems False}))"
proof -
  have ds: "(case hasUpstreamNodeLocalDNS view of Inl e \<Rightarrow> Inl e | Inr has \<Rightarrow> Inr (\<not> has)) = Inr True \<longleftrightarrow> clDaemonSet view = DaemonSetNotFound"
    by (auto simp: hasUpstreamNodeLocalDNS_def split: daemonset_answer.split)
  have np: "hasConflictingNetworkPolicies view networkPolicy = Inr False \<longleftrightarrow>
      (\<exists>ps. clNetworkPolicies view = Inr ps \<and> set ps \<subseteq> {(konnectivityAgentPolicyName, konnectivityAgentPolicyNamespace)})
      \<and> hasConflictingCRDNetworkPolicies view networkPolicy = Inr False"
    by (auto simp: hasConflictingNetworkPolicies_def hasConflictingK8sNetworkPolicies_def list_ex_iff split: sum.split bool.split)
  show ?thesis
    using ds np firstConflict_none [of view] by (auto simp: meetsClusterRequirements_def hasConflictingCRDNetworkPolicies_def split: sum.splits bool.splits if_splits)
qed

lemma static_gates:
  "meetsStaticRequirements CA SV networkPlugin nc = Inr True \<and> meetsClusterRequirements networkPolicy view = Inr True \<longleftrightarrow> dnsGates CA SV networkPolicy networkPlugin view nc"
  unfolding dnsGates_def cluster_gates by (auto simp: meetsStaticRequirements_def split: sum.splits if_splits)

lemma states_differ: "LocalDNSStateEnabled \<noteq> LocalDNSStateDisabled"
  by (simp add: LocalDNSStateEnabled_def LocalDNSStateDisabled_def)


text \<open>The state that a required mode left behind counts as well: no gate was ever judged for it.\<close>

lemma required_then_preferred:
  assumes "status_conditions CA" and "SpecLocalDNS nc = Some ld" and "LDMode ld = LocalDNSModeRequired"
  shows "IsLocalDNSEnabled (snd (LocalDNSReconcile CA SV pol plug view
    ((snd (LocalDNSReconcile CA SV pol plug view nc))\<lparr>SpecLocalDNS := Some (ld\<lparr>LDMode := LocalDNSModePreferred\<rparr>)\<rparr>)))"
  using assms by (simp add: LocalDNSReconcile_def reconcilePreferred_def settleLocalDNS_def IsLocalDNSEnabled_def LocalDNSModeRequired_def LocalDNSModePreferred_def
      LocalDNSModeDisabled_def)

subsection \<open>A ready reservation group\<close>

lemma paramsOf_conditions: "paramsOf E (nc\<lparr>Conditions := c\<rparr>) = paramsOf E nc"
  by (simp add: paramsOf_def GetMaxPods_def GetEncryptionAtHost_def IsTrustedLaunchEnabled_def IsVTPMEnabled_def IsSecureBootEnabled_def GetGPUMode_def
      IsArtifactStreamingExplicitlyEnabled_def IsFIPSEnabled_def IsLocalDNSRequired_def GetCapacityReservationGroupID_def capacityReservationPlacements_def IsKataEnabled_def
      GetWorkloadRuntime_def split: option.split)

lemma paramsOf_Set [simp]: "paramsOf E (SetTrue CA t nc) = paramsOf E nc" "paramsOf E (SetFalse CA t r m nc) = paramsOf E nc"
  by (simp_all add: set_condition_defs paramsOf_conditions)

lemma placement_member:
  "(vmSize, z) \<in> set (capacityReservationPlacements reg nc) \<Longrightarrow> \<exists>g. CapacityReservationGroup nc = Some g \<and> EqualFold (CRGID g) (GetCapacityReservationGroupID nc)
     \<and> (\<exists>m \<in> set (CRGReservations g). IsEligible m \<and> ToLower (CRVMSize m) = vmSize)"
  by (auto simp: capacityReservationPlacements_def split: if_splits option.splits sum.splits) metis

text \<open>An eligible member of the group that the status holds reserves a size that the class can use and that is known to the instance types.\<close>

definition backed :: "('r, 's, 'f, 'c) it_env \<Rightarrow> (string, skuInfo) gomap \<Rightarrow> 'k nodeClass \<Rightarrow> bool" where
  "backed E info nc \<longleftrightarrow> (\<exists>g. CapacityReservationGroup nc = Some g \<and> EqualFold (CRGID g) (GetCapacityReservationGroupID nc)
     \<and> (\<exists>m \<in> set (CRGReservations g). IsEligible m \<and> (\<exists>sku \<in> ran (map_of info). ToLower (GetName sku) = ToLower (CRVMSize m) \<and> offered E (paramsOf E nc) sku)))"

lemma nonempty_list_backed:
  assumes "scheduling (itSched E)" and "map_range (itRange E)" and "servedFrom E src (paramsOf E nc) info src0 q0 types" and "types \<noteq> []"
    and "GetCapacityReservationGroupID nc \<noteq> []"
  shows "backed E info nc"
proof -
  from assms(3) obtain info0 base where b: "map_of info0 = map_of info" "buildInstanceTypes E src0 info0 (paramsOf E nc) = Inr base"
    "fst (applyQuota (itSched E) q0 info base (ipCapacityReservationGroupID (paramsOf E nc))) = types" by (auto simp: servedFrom_def)
  with assms(4) have "base \<noteq> []" by (auto simp: applyQuota_def HasQuotaForSKUs_def Let_def split: if_splits)
  then obtain t where "t \<in> set base" by (cases base) auto
  from build_from_sku [OF b(2) this] obtain name sku ts where sku: "map_of info0 name = Some sku" "buildOne E src0 (paramsOf E nc) sku = Inr ts" "t \<in> set ts" by blast
  then have off: "offered E (paramsOf E nc) sku" using buildOne_cases [OF assms(1,2) sku(2)] by auto
  then obtain z where "z \<in> set (offeringZones E (paramsOf E nc) sku)" by (fastforce simp: offered_def neq_Nil_conv)
  from reserved_zones [OF this] assms(5) have "(ToLower (GetName sku), z) \<in> set (capacityReservationPlacements (itRegion E) nc)" by (simp add: paramsOf_def)
  from placement_member [OF this] obtain g m where "CapacityReservationGroup nc = Some g" "EqualFold (CRGID g) (GetCapacityReservationGroupID nc)"
    "m \<in> set (CRGReservations g)" "IsEligible m" "ToLower (GetName sku) = ToLower (CRVMSize m)" by metis
  moreover have "sku \<in> ran (map_of info)" using sku(1) b(1) by (simp add: ranI)
  ultimately show ?thesis using off unfolding backed_def by blast
qed

text \<open>The group that Azure answered in this pass, in the region of the cluster and with the members that it listed.\<close>

definition freshGroup :: "('r, 's, 'f, 'c, 'k) crg_env \<Rightarrow> crg_answers \<Rightarrow> 'k nodeClass \<Rightarrow> capacityReservationGroup \<Rightarrow> bool" where
  "freshGroup E a nc g \<longleftrightarrow> (\<exists>rid ag rs. ceParse E (GetCapacityReservationGroupID nc) = Some rid \<and> caGroup a (RIResourceGroupName rid) (RIName rid) = Inr ag
     \<and> EqualFold (FromPtr (AGLocation ag)) (ceLocation E) \<and> AGReservationType ag \<in> {None, Some ''Targeted''}
     \<and> listReservations (ceSort E) (caMembers a (RIResourceGroupName rid) (RIName rid)) = Inr rs \<and> rs \<noteq> [] \<and> g = resolvedGroup (GetCapacityReservationGroupID nc) ag rs)"

lemma resolved_reservations [simp]: "CRGReservations (resolvedGroup crgID ag rs) = rs"
  by (simp add: resolvedGroup_def)

definition refused :: "'k condition_api \<Rightarrow> 'k nodeClass \<Rightarrow> bool" where
  "refused CA nc \<longleftrightarrow> CapacityReservationGroup nc = None \<and> \<not> IsTrue (GetCondition CA nc ConditionTypeCapacityReservationGroupReady)"

lemma group_invalidated [simp]: "csTypes (invalidateGroup E now groupID st) = csTypes st"
  by (simp add: invalidateGroup_def)

lemma refused_unready:
  assumes "status_conditions (ceConditions E)" and "unready E now reason message result nc st = (r, nc', st')"
  shows "refused (ceConditions E) nc'"
  using assms(2) by (auto simp: unready_def setFalse_def refused_def IsTrue_def status_conditions.get_SetFalse [OF assms(1)]) (simp add: SetFalse_def)

lemma group_cases:
  assumes "status_conditions (ceConditions E)" and "SpecCapacityReservation nc \<noteq> None" and "CapacityReservationGroupReconcile E a nc st = (r, nc', st')"
  shows "refused (ceConditions E) nc' \<or>
    (\<exists>g st1. freshGroup E a nc g \<and> csTypes st1 = csTypes st \<and> judgeGroup E a (CRGReservations g) (nc\<lparr>CapacityReservationGroup := Some g\<rparr>) st1 = (r, nc', st'))"
proof -
  note un = refused_unready [OF assms(1)]
  have ge: "groupError E now e nc st = (r, nc', st') \<Longrightarrow> refused (ceConditions E) nc'" for now e st
    by (auto simp: groupError_def Let_def split: if_splits dest: un)
  have cm: "refused (ceConditions E) nc' \<or> (\<exists>g st1. freshGroup E a nc g \<and> csTypes st1 = csTypes st \<and>
        judgeGroup E a (CRGReservations g) (nc\<lparr>CapacityReservationGroup := Some g\<rparr>) st1 = (r, nc', st'))"
    if "checkMembers E a rid ag nc st = (r, nc', st')" "ceParse E (GetCapacityReservationGroupID nc) = Some rid" "caGroup a (RIResourceGroupName rid) (RIName rid) = Inr ag"
      "EqualFold (FromPtr (AGLocation ag)) (ceLocation E)" "AGReservationType ag \<in> {None, Some ''Targeted''}" for rid ag
  proof (cases "listReservations (ceSort E) (caMembers a (RIResourceGroupName rid) (RIName rid))")
    case (Inl e)
    then show ?thesis using that(1) by (auto simp: checkMembers_def Let_def split: if_splits dest: un)
  next
    case (Inr rs)
    let ?g = "resolvedGroup (GetCapacityReservationGroupID nc) ag rs"
    show ?thesis
    proof (cases "rs = []")
      case True
      then show ?thesis using that(1) Inr by (auto simp: checkMembers_def Let_def dest: un)
    next
      case False
      have fresh: "freshGroup E a nc ?g" using that Inr False unfolding freshGroup_def by blast
      obtain nc1 st1 where "recordGroup E (caNow a) ?g nc st = (nc1, st1)" "nc1 = nc\<lparr>CapacityReservationGroup := Some ?g\<rparr>" "csTypes st1 = csTypes st"
        by (auto simp: recordGroup_def split: option.split)
      then show ?thesis using that(1) Inr False fresh
        by (intro disjI2 exI [of _ ?g] exI [of _ st1]) (simp add: checkMembers_def Let_def)
    qed
  qed
  show ?thesis
    using assms(2,3) by (auto simp: CapacityReservationGroupReconcile_def Let_def split: option.splits sum.splits if_splits dest: un ge cm)
qed

lemma backed_list_nonempty:
  assumes "scheduling (itSched E)" and "map_range (itRange E)" and "servedFrom E src (paramsOf E nc) info src0 q0 types" and "backed E info nc"
  shows "types \<noteq> []"
proof -
  from assms(4) obtain sku name where sku: "map_of info name = Some sku" "offered E (paramsOf E nc) sku" by (auto simp: backed_def ran_def)
  from assms(3) obtain info0 base where b: "map_of info0 = map_of info" "buildInstanceTypes E src0 info0 (paramsOf E nc) = Inr base"
    "fst (applyQuota (itSched E) q0 info base (ipCapacityReservationGroupID (paramsOf E nc))) = types" by (auto simp: servedFrom_def)
  from build_of_sku [OF assms(2) b(2), of name sku] sku(1) b(1) obtain ts where "buildOne E src0 (paramsOf E nc) sku = Inr ts" "set ts \<subseteq> set base" by auto
  with buildOne_cases [OF assms(1,2)] sku(2) have "base \<noteq> []" by fastforce
  then show ?thesis using b(3) by (auto simp: applyQuota_def Let_def split: if_splits prod.splits)
qed

text \<open>The instance types that the reconciler judges a group by.\<close>

definition judgedTypes :: "('r, 's, 'f, 'c, 'k) crg_env \<Rightarrow> crg_answers \<Rightarrow> 'k nodeClass \<Rightarrow> ('r, 's, 'f, 'c) crg_state \<Rightarrow> failure + 'r builtType list" where
  "judgedTypes E a nc st =
     fst (ListInstanceTypes (ceTypes E) \<lparr>srcNow = caNow a, srcOfferings = csOfferings st, srcPricing = caPricing a\<rparr> (caQuota a) (caQuotaLater a) nc (csTypes st))"

lemma judged_ready:
  assumes "status_conditions (ceConditions E)" and "judgeGroup E a rs nc st = (r, nc', st')" and "\<nexists>p. judgedTypes E a nc st = Inl (Panic p)"
  shows "IsTrue (GetCondition (ceConditions E) nc' ConditionTypeCapacityReservationGroupReady) \<longleftrightarrow>
    (\<exists>m \<in> set rs. IsEligible m) \<and> (\<exists>types. judgedTypes E a nc st = Inr types \<and> types \<noteq> [])"
  using assms(2,3) unfolding judgedTypes_def
  by (auto simp: judgeGroup_def Let_def IsTrue_def status_conditions.verdict [OF assms(1)] list_ex_iff split: if_splits prod.splits sum.splits failure.splits list.splits)

lemma empty_catalogue: "itInfo st = [] \<Longrightarrow> \<exists>e. fst (listFor E src q q' params st) = Inl (Failed e)"
  by (simp add: listFor_def)

lemma judged_group: "judgeGroup E a rs nc st = (r, nc', st') \<Longrightarrow> CapacityReservationGroup nc' = CapacityReservationGroup nc \<and> paramsOf T nc' = paramsOf T nc
    \<and> GetCapacityReservationGroupID nc' = GetCapacityReservationGroupID nc"
  by (auto simp: judgeGroup_def Let_def GetCapacityReservationGroupID_def split: if_splits prod.splits sum.splits failure.splits list.splits)
    (simp_all add: set_condition_defs)

text \<open>
  C17: After a pass over a class with a capacity reservation group, the status holds either no group or the one that Azure described in this very pass, never one that is left over. The
  class is reported ready exactly when an eligible member of that group reserves a size that Azure offers, that the class can use and that has a zone which a member backs; that the list
  of instance types comes from a cache does not change this.\<close>

theorem ready_groups_are_backed:
  assumes "status_conditions (ceConditions E)" and "scheduling (itSched (ceTypes E))" and "go_cache (itCacheAPI (ceTypes E))" and "map_range (itRange (ceTypes E))"
    and "ceParse E [] = None" and "SpecCapacityReservation nc \<noteq> None"
    and "it_reach (ceTypes E) now (csTypes st) past qs" and "now \<le> caNow a"
    and "CapacityReservationGroupReconcile E a nc st = (r, nc', st')"
    and "collisionFree (ceTypes E) (paramsOf (ceTypes E) nc') past"
  shows "(\<forall>g. CapacityReservationGroup nc' = Some g \<longrightarrow> freshGroup E a nc g) \<and>
    (IsTrue (GetCondition (ceConditions E) nc' ConditionTypeCapacityReservationGroupReady) \<longleftrightarrow> backed (ceTypes E) (itInfo (csTypes st)) nc')"
proof (rule disjE [OF group_cases [OF assms(1,6,9)]], goal_cases)
  case 2
  then obtain g st1 where g: "freshGroup E a nc g" "csTypes st1 = csTypes st"
    "judgeGroup E a (CRGReservations g) (nc\<lparr>CapacityReservationGroup := Some g\<rparr>) st1 = (r, nc', st')" by blast
  let ?nc = "nc\<lparr>CapacityReservationGroup := Some g\<rparr>" and ?T = "ceTypes E"
  let ?src = "\<lparr>srcNow = caNow a, srcOfferings = csOfferings st1, srcPricing = caPricing a\<rparr>"
  note j = judged_group [OF g(3), of ?T]
  have inv: "it_inv ?T now (csTypes st1) past qs" using it_reach_inv [OF assms(7,3,4)] g(2) by simp
  have cf: "collisionFree ?T (paramsOf ?T ?nc) past" using assms(10) j by simp
  have id: "GetCapacityReservationGroupID ?nc \<noteq> []" using g(1) assms(5) by (auto simp: freshGroup_def GetCapacityReservationGroupID_def)
  have bk: "backed ?T info nc' = backed ?T info ?nc" for info using j by (simp add: backed_def)
  have served: "\<exists>types src0 q0. judgedTypes E a ?nc st1 = Inr types \<and> servedFrom ?T ?src (paramsOf ?T ?nc) (itInfo (csTypes st)) src0 q0 types"
    if "itInfo (csTypes st1) \<noteq> []"
    using listFor_served [OF assms(3,4) inv _ cf that, of ?src "caQuota a" "caQuotaLater a"] assms(8) g(2) by (auto simp: ListInstanceTypes_def judgedTypes_def)
  have none: "\<exists>e. judgedTypes E a ?nc st1 = Inl (Failed e)" if "itInfo (csTypes st1) = []"
    unfolding ListInstanceTypes_def judgedTypes_def by (rule empty_catalogue [OF that])
  have np: "\<nexists>p. judgedTypes E a ?nc st1 = Inl (Panic p)" using served none by (metis Inl_Inr_False failure.distinct(1) sum.inject(1))
  have "IsTrue (GetCondition (ceConditions E) nc' ConditionTypeCapacityReservationGroupReady) \<longleftrightarrow> backed ?T (itInfo (csTypes st)) ?nc"
  proof (cases "itInfo (csTypes st1) = []")
    case True
    then show ?thesis using none judged_ready [OF assms(1) g(3) np] g(2) by (auto simp: backed_def)
  next
    case False
    from served [OF this] obtain types src0 q0 where t: "judgedTypes E a ?nc st1 = Inr types" "servedFrom ?T ?src (paramsOf ?T ?nc) (itInfo (csTypes st)) src0 q0 types" by blast
    have "\<exists>m \<in> set (CRGReservations g). IsEligible m" if "backed ?T (itInfo (csTypes st)) ?nc" using that by (auto simp: backed_def)
    then show ?thesis
      using judged_ready [OF assms(1) g(3) np] t nonempty_list_backed [OF assms(2,4) t(2) _ id] backed_list_nonempty [OF assms(2,4) t(2)] by auto
  qed
  then show ?case using g(1) j bk by auto
qed (auto simp: refused_def backed_def)

subsection \<open>Examples\<close>

definition ex_preferred :: localDNS where
  "ex_preferred = \<lparr>LDMode = LocalDNSModePreferred, LDVnetDNSOverrides = [], LDKubeDNSOverrides = []\<rparr>"

definition ex_dns_class :: "(string \<Rightarrow> condition) nodeClass" where
  "ex_dns_class = (Kubernetes_Version.ex_class None (Some ''1.37.0''))\<lparr>SpecLocalDNS := Some ex_preferred\<rparr>"

definition ex_version37 :: semver_api where
  "ex_version37 = numeric_semver (\<lambda>s. Inr \<lparr>Major = 1, Minor = 37, Patch = 0, Pre = []\<rparr>)"

definition ex_quiet_cluster :: cluster_view where
  "ex_quiet_cluster = \<lparr>clDaemonSet = DaemonSetNotFound, clNetworkPolicies = Inr [(''konnectivity-agent'', ''kube-system'')], clCustomResources = (\<lambda>_. CRDNotInstalled)\<rparr>"

lemma ex_gates: "dnsGates fun_conditions ex_version37 ''Cilium'' ''azure'' ex_quiet_cluster ex_dns_class"
proof -
  have v: "GetKubernetesVersion fun_conditions (Some ex_dns_class) = Inr ''1.37.0''" by code_simp
  have u: "\<not> ResolvesToUbuntu2004 ex_version37 (SpecImageFamily ex_dns_class) (SpecFIPSMode ex_dns_class) (IsTrustedLaunchEnabled ex_dns_class) ''1.37.0''" by code_simp
  have p: "\<not> EqualFold ''azure'' NetworkPluginNone" by code_simp
  show ?thesis
    unfolding dnsGates_def v using u p
    by (simp add: ex_version37_def numeric_semver_def localDNSPreferredVersionThreshold_def ex_quiet_cluster_def konnectivityAgentPolicyName_def konnectivityAgentPolicyNamespace_def)
qed


definition ex_set_env :: "(reqs, unit exp_cache, any_value exp_cache, nat exp_cache) it_env" where
  "ex_set_env = ex_it_env\<lparr>itSched := set_reqs_api\<rparr>"

definition ex_enabled_class :: "unit nodeClass" where
  "ex_enabled_class = Instance_Types.ex_class\<lparr>SpecLocalDNS := Some ex_preferred, LocalDNSState := Some LocalDNSStateEnabled\<rparr>"

lemma ex_set_env_simps [simp]: "itRange ex_set_env = remdups" "itSched ex_set_env = set_reqs_api" "itGPU ex_set_env = []"
  by (simp_all add: ex_set_env_def)

lemma ex_enabled_params: "paramsOf ex_set_env ex_enabled_class = paramsOf ex_it_env Instance_Types.ex_class"
  by (simp add: paramsOf_def ex_set_env_def ex_enabled_class_def GetMaxPods_def GetEncryptionAtHost_def IsTrustedLaunchEnabled_def IsVTPMEnabled_def IsSecureBootEnabled_def GetGPUMode_def
      IsArtifactStreamingExplicitlyEnabled_def IsFIPSEnabled_def IsLocalDNSRequired_def GetCapacityReservationGroupID_def capacityReservationPlacements_def IsKataEnabled_def
      GetWorkloadRuntime_def Instance_Types.ex_class_def ex_preferred_def LocalDNSModePreferred_def LocalDNSModeRequired_def)

lemma ex_floor: "meetsFloorOf ex_size"
proof -
  have "244 \<le> memoryMiB 16" using memoryMiB_bounds(1) [of 16] by simp
  then show ?thesis by (simp add: meetsFloorOf_def ex_size_def SKUMeetsFloor_def MinVCPU_def MinMemoryMiB_def)
qed

theorem wire_mode_fits_the_size_witness:
  "\<exists>types t wire. buildInstanceTypes ex_set_env ex_sources [(''Standard_D4ds_v5'', ex_size)] (paramsOf ex_set_env ex_enabled_class) = Inr types \<and> t \<in> set types
     \<and> ResolveForWire set_reqs_api ex_enabled_class (ITRequirements t) = Some wire \<and> LDMode wire = LocalDNSModeRequired"
proof -
  let ?info = "[(''Standard_D4ds_v5'', ex_size)]" and ?p = "paramsOf ex_set_env ex_enabled_class"
  have R: "map_range (itRange ex_set_env)" by (simp add: first_added.map_range_axioms)
  have S: "scheduling_sets (itSched ex_set_env)" by (simp add: set_reqs.scheduling_sets_axioms)
  obtain types where b: "buildInstanceTypes ex_set_env ex_sources ?info ?p = Inr types"
    using build_total [OF R ex_readable, of ex_sources ?p] by auto
  have "offeringZones ex_set_env p sku = offeringZones ex_it_env p sku" for p sku by (simp add: offeringZones_def ex_set_env_def split: option.split)
  then have "offered ex_set_env ?p ex_size" using ex_offered unfolding ex_enabled_params by (simp add: offered_def)
  moreover obtain ts where "buildOne ex_set_env ex_sources ?p ex_size = Inr ts" "set ts \<subseteq> set types" using build_of_sku [OF R b, of "''Standard_D4ds_v5''" ex_size] by auto
  ultimately obtain t where t: "t \<in> set types" using buildOne_cases [OF scheduling_sets.axioms(1) [OF S] R] by fastforce
  have "sizedWithin ?info" by (simp add: sizedWithin_def ex_size_def)
  moreover have "SpecLocalDNS ex_enabled_class = Some ex_preferred" by (simp add: ex_enabled_class_def)
  moreover have "LDMode ex_preferred = LocalDNSModePreferred" "LocalDNSState ex_enabled_class = Some LocalDNSStateEnabled" by (simp_all add: ex_preferred_def ex_enabled_class_def)
  ultimately obtain wire where "ResolveForWire set_reqs_api ex_enabled_class (ITRequirements t) = Some wire" "LDMode wire = LocalDNSModeRequired"
    using wire_mode_fits_the_size [OF S R b _ t] ex_floor by auto
  with b t show ?thesis by blast
qed

text \<open>A group with one provisioned member in zone 1 of the region, and the instance types after their first update.\<close>

definition ex_member :: armReservation where
  "ex_member = \<lparr>ARID = Some ''m'', ARName = Some ''m'', ARSKU = Some (Some ''Standard_D4ds_v5'', Some 1), ARZones = [Some ''1''], ARProvisioningState = Some ''Succeeded''\<rparr>"

definition ex_groups_env :: "(reqs, unit exp_cache, any_value exp_cache, nat exp_cache, string \<Rightarrow> condition) crg_env" where
  "ex_groups_env = \<lparr>ceConditions = fun_conditions,
     ceParse = (\<lambda>s. if s = ''crg'' then Some \<lparr>RIType = ''CapacityReservationGroups'', RISubscriptionID = ''sub'', RIResourceGroupName = ''rg'', RIName = ''crg''\<rparr> else None),
     ceSubscriptionID = ''sub'', ceLocation = ''eastus'', ceSort = (\<lambda>_ ms. ms), ceTypes = ex_it_env\<rparr>"

definition ex_groups_answers :: crg_answers where
  "ex_groups_answers = \<lparr>caNow = 2 * Hour, caGroup = (\<lambda>_ _. Inr \<lparr>AGID = Some ''crg'', AGLocation = Some ''eastus'', AGReservationType = None, AGZones = [Some ''1'']\<rparr>),
     caMembers = (\<lambda>_ _. [Inr [Some ex_member]]), caPricing = Pricing.NewProvider ex_static ''eastus'', caQuota = Quota.NewProvider, caQuotaLater = Quota.NewProvider\<rparr>"

definition ex_types_state :: "(reqs, nat exp_cache) it_state" where
  "ex_types_state = snd (UpdateInstanceTypes ex_it_env Hour (Inr [ex_size]) False (NewDefaultProvider []))"

definition ex_groups_state :: "(reqs, unit exp_cache, any_value exp_cache, nat exp_cache) crg_state" where
  "ex_groups_state = \<lparr>csUnsupportedCloud = False, csOfferings = \<lparr>singleOfferingCache = [], vmFamilyCache = [], seqNum = 0\<rparr>, csTypes = ex_types_state\<rparr>"

definition ex_group_class :: "(string \<Rightarrow> condition) nodeClass" where
  "ex_group_class = (emptyClass unknownConditions)\<lparr>SpecCapacityReservation := Some (Some ''crg'')\<rparr>"

definition ex_group :: capacityReservationGroup where
  "ex_group = \<lparr>CRGID = ''crg'', CRGLocation = ''eastus'', CRGZones = [''1''],
     CRGReservations = [\<lparr>CRID = ''m'', CRName = ''m'', CRVMSize = ''Standard_D4ds_v5'', CRZones = [''1''], CRQuantity = Some 1, CRProvisioningState = Some ''Succeeded''\<rparr>]\<rparr>"

lemma ex_types_reach: "it_reach ex_it_env Hour ex_types_state [] [] \<and> itInfo ex_types_state = [(''Standard_D4ds_v5'', ex_size)]"
proof -
  have adm: "admitted [] c ex_size" for c
    by (simp add: admitted_def IsRestrictedSKU_def AKSRestrictedVMSizes_def karpenterRestrictedVMSKUs_def isRetired_def ex_size_def isSupported_def hasMinimumCPU_def hasMinimumMemory_def
        isUnsupportedByAKS_def isUnsupportedGPU_def hasConstrainedCPUs_def isConfidential_def IsConfidential_def HasPrefix_def)
  have d: "discovered [] c [ex_size] = [(''Standard_D4ds_v5'', ex_size)]" for c by (simp add: discovered_def adm) (simp add: ex_size_def)
  have "it_reach ex_it_env 0 (NewDefaultProvider []) [] []" by (rule it_reach.start) (simp add: exp_cache_def ec_get_def)
  then have "it_reach ex_it_env Hour ex_types_state [] []"
    unfolding ex_types_state_def by (rule it_reach.refresh) (simp_all add: d NewDefaultProvider_def ex_it_env_def Hour_def Minute_def Second_def)
  moreover have "itInfo ex_types_state = [(''Standard_D4ds_v5'', ex_size)]" by (simp add: ex_types_state_def UpdateInstanceTypes_def d Let_def NewDefaultProvider_def ex_it_env_def)
  ultimately show ?thesis by simp
qed

definition ex_arm_group :: armGroup where
  "ex_arm_group = \<lparr>AGID = Some ''crg'', AGLocation = Some ''eastus'', AGReservationType = None, AGZones = [Some ''1'']\<rparr>"

lemma ex_groups_simps [simp]:
  "ceConditions ex_groups_env = fun_conditions" "ceSubscriptionID ex_groups_env = ''sub''" "ceLocation ex_groups_env = ''eastus''" "ceTypes ex_groups_env = ex_it_env"
  "ceParse ex_groups_env ''crg'' = Some \<lparr>RIType = ''CapacityReservationGroups'', RISubscriptionID = ''sub'', RIResourceGroupName = ''rg'', RIName = ''crg''\<rparr>"
  "ceParse ex_groups_env [] = None" "ceSort ex_groups_env = (\<lambda>_ ms. ms)" "caGroup ex_groups_answers r n = Inr ex_arm_group" "caMembers ex_groups_answers r n = [Inr [Some ex_member]]"
  "csUnsupportedCloud ex_groups_state = False" "csTypes ex_groups_state = ex_types_state" "caNow ex_groups_answers = 2 * Hour"
  "SpecCapacityReservation ex_group_class = Some (Some ''crg'')" "CapacityReservationGroup ex_group_class = None" "GetCapacityReservationGroupID ex_group_class = ''crg''"
  by (simp_all add: ex_groups_env_def ex_groups_answers_def ex_groups_state_def ex_group_class_def ex_arm_group_def GetCapacityReservationGroupID_def FromPtr_def)

lemma ex_group_judged:
  "CapacityReservationGroupReconcile ex_groups_env ex_groups_answers ex_group_class ex_groups_state =
     judgeGroup ex_groups_env ex_groups_answers (CRGReservations ex_group) (ex_group_class\<lparr>CapacityReservationGroup := Some ex_group\<rparr>) ex_groups_state"
proof -
  have f: "EqualFold ''CapacityReservationGroups'' capacityReservationGroupResourceType" "EqualFold ''sub'' ''sub''" "EqualFold (FromPtr (AGLocation ex_arm_group)) ''eastus''"
    "listReservations (\<lambda>_ ms. ms) [Inr [Some ex_member]] = Inr (CRGReservations ex_group)" "resolvedGroup ''crg'' ex_arm_group (CRGReservations ex_group) = ex_group"
    "AGReservationType ex_arm_group = None" "CRGReservations ex_group \<noteq> []" by code_simp+
  show ?thesis by (simp add: CapacityReservationGroupReconcile_def checkMembers_def recordGroup_def f)
qed

theorem ready_groups_are_backed_witness:
  "IsTrue (GetCondition fun_conditions (fst (snd (CapacityReservationGroupReconcile ex_groups_env ex_groups_answers ex_group_class ex_groups_state)))
     ConditionTypeCapacityReservationGroupReady)"
proof -
  obtain r nc' st' where r: "CapacityReservationGroupReconcile ex_groups_env ex_groups_answers ex_group_class ex_groups_state = (r, nc', st')" by (rule prod_cases3)
  let ?nc = "ex_group_class\<lparr>CapacityReservationGroup := Some ex_group\<rparr>"
  note j = judged_group [OF r [unfolded ex_group_judged], of ex_it_env]
  have "isInstanceTypeSupportedByFilters [] ex_size ''x64'' (paramsOf ex_it_env ?nc) = Inr True" "offeringZones ex_it_env (paramsOf ex_it_env ?nc) ex_size \<noteq> []" by code_simp+
  then have "offered ex_it_env (paramsOf ex_it_env ?nc) ex_size" by (auto simp: offered_def ex_size_def)
  moreover have "IsEligible (hd (CRGReservations ex_group))" "EqualFold (CRGID ex_group) ''crg''" by code_simp+
  moreover have "ToLower (GetName ex_size) = ToLower (CRVMSize (hd (CRGReservations ex_group)))" by code_simp
  moreover have "hd (CRGReservations ex_group) \<in> set (CRGReservations ex_group)" by (simp add: ex_group_def)
  ultimately have "backed ex_it_env (itInfo ex_types_state) nc'" using j ex_types_reach by (auto simp: backed_def GetCapacityReservationGroupID_def FromPtr_def)
  moreover have "status_conditions (ceConditions ex_groups_env)" "scheduling (itSched (ceTypes ex_groups_env))" "go_cache (itCacheAPI (ceTypes ex_groups_env))"
    "map_range (itRange (ceTypes ex_groups_env))"
    by (simp_all add: fun_conditions.status_conditions_axioms reqs_api.scheduling_axioms exp_cache.go_cache_axioms first_added.map_range_axioms)
  from ready_groups_are_backed [OF this _ _ _ _ r, of Hour "[]" "[]"] ex_types_reach
  have "IsTrue (GetCondition fun_conditions nc' ConditionTypeCapacityReservationGroupReady) \<longleftrightarrow> backed ex_it_env (itInfo ex_types_state) nc'"
    by (simp add: collisionFree_def Hour_def Minute_def Second_def)
  ultimately show ?thesis using r by simp
qed

text \<open>A pass during which no image can be listed; semantic equality is compared on the status fields that this pass can change.\<close>

definition ex_status_env :: "(reqs, unit exp_cache, any_value exp_cache, nat exp_cache, string \<Rightarrow> condition) status_env" where
  "ex_status_env = \<lparr>seGroups = ex_groups_env, seVersions = ex_version37, seReqSort = (\<lambda>_ rs. rs), seClusterSubnetID = ''subnet'', seNodeResourceGroup = ''rg'',
     seOptions = \<lparr>soEnableFIPS = False, soUseSIG = False, soProvisionMode = ''aksmachineapi'', soNetworkDataplane = ''azure''\<rparr>, seNetworkPolicy = ''Cilium'', seNetworkPlugin = ''azure'',
     seIsAuthorizationErr = (\<lambda>_. False), seDeepEqual = (\<lambda>a b. KubernetesVersion a = KubernetesVersion b \<and> LocalDNSState a = LocalDNSState b), seMin = (\<lambda>ds. fold min ds 0)\<rparr>"

definition ex_status_answers :: "(string \<Rightarrow> condition) status_answers" where
  "ex_status_answers = \<lparr>saGroups = ex_groups_answers, saServerVersion = Inr ''1.37.0'', saIsSupported = (\<lambda>_. Inr True), saListImages = (\<lambda>_. Inl ''gallery unavailable''),
     saWindow = Inr True, saGetSubnet = (\<lambda>_ _ _. None), saDiskEncryptionSet = None, saCluster = ex_quiet_cluster, saPatch = Inr, saStatusPatch = (\<lambda>_ _. PatchDone)\<rparr>"

definition ex_status_state :: "(reqs, unit exp_cache, any_value exp_cache, nat exp_cache) crg_state" where
  "ex_status_state = \<lparr>csUnsupportedCloud = False, csOfferings = \<lparr>singleOfferingCache = [], vmFamilyCache = [], seqNum = 0\<rparr>, csTypes = NewDefaultProvider []\<rparr>"

theorem status_pass_keeps_verdicts_apart_witness:
  "\<exists>r sent st'. StatusReconcile ex_status_env ex_status_answers ex_dns_class ex_status_state = (r, Some sent, st') \<and> LocalDNSState sent = Some LocalDNSStateEnabled"
proof -
  let ?stored = "ex_dns_class\<lparr>ClassFinalizers := [TerminationFinalizer]\<rparr>"
  have "\<not> Option.is_none (fst (snd (StatusReconcile ex_status_env ex_status_answers ex_dns_class ex_status_state)))" by code_simp
  then obtain r sent st' where s: "StatusReconcile ex_status_env ex_status_answers ex_dns_class ex_status_state = (r, Some sent, st')"
    by (metis Option.is_none_def eq_fst_iff eq_snd_iff option.exhaust)
  have w: "withFinalizer ex_status_answers ex_dns_class = Inr ?stored"
    by (simp add: withFinalizer_def ex_status_answers_def ex_dns_class_def Kubernetes_Version.ex_class_def)
  have "LocalDNSState (snd (LocalDNSReconcile fun_conditions ex_version37 ''Cilium'' ''azure'' ex_quiet_cluster (versionPass ex_status_env ex_status_answers ?stored))) =
    Some LocalDNSStateEnabled" by code_simp
  then have "LocalDNSState sent = Some LocalDNSStateEnabled"
    using status_pass_keeps_verdicts_apart [OF _ w s] fun_conditions.status_conditions_axioms by (simp add: verdictsApart_def ex_status_env_def ex_status_answers_def Let_def)
  with s show ?thesis by blast
qed

end
