(* ===== verification/Spec2Isabelle.thy ===== *)
theory Spec2Isabelle
  imports Allocation Header_Batch Pricing Machine_Poller Garbage_Collection In_Place_Update Class_Status
begin

text \<open>
  A verification library for the Azure provider of Karpenter (src/).

  \<^bold>\<open>The program.\<close> Karpenter's core asks this provider to launch, list and delete nodes. For a launch the provider
  ranks the offerings (instance type, zone, capacity type) that fit the claim, drops those that recently
  failed or that the subscription's quota cannot hold, creates an AKS machine or a virtual machine,
  watches its provisioning and, when Azure refuses, records what is unavailable and for how long. The parts
  that take these decisions and keep state are modelled here; the code that only builds SDK structures or
  calls them is not.

  \<^bold>\<open>Theories and sources.\<close>

    \<^item> Prelude: Go strings, durations, words, errors and panics, stable sorting, shuffling, maps as association
      lists, loops that fail (\<open>foldM\<close>). Locales \<open>slice_sort\<close>, \<open>key_order\<close> and \<open>map_range\<close> are the contracts of
      \<open>sort.SliceStable\<close>, of a comparison function given by a key, and of walking a Go map.
    \<^item> Go_Cache: the expiring cache (github.com/patrickmn/go-cache) as the locale \<open>go_cache\<close>, with an
      executable instance.
    \<^item> Karpenter_Core: instance types, offerings, requirements and node claims of Karpenter's core as far as the
      provider reads them, as the locale \<open>karpenter_core\<close>, with an executable instance on label lists.
    \<^item> Zones: pkg/utils/zones. Zone labels, placement scopes, normalization of CSI zone labels.
    \<^item> Unavailable_Offerings: pkg/cache/unavailableofferings.go. The two caches, their keys, every query and mark,
      and the views of capacity reservation groups.
    \<^item> Quota: pkg/providers/quota/quota.go. The usage snapshot, the adjustments made since, the delete tombstones,
      the refresh protocol, and the check whether a size fits. Quantities are 64-bit words.
    \<^item> Quota_Lifecycle: pkg/providers/instance/quota.go. Which launches and deletions are recorded.
    \<^item> Offering_Errors: pkg/providers/instance/offerings. The handler tables for response errors,
      provisioning errors and synchronous creation errors, and what each handler marks.
    \<^item> Offering_Rank, Sku_Mix, Capacity_Recommendation, Allocation: pkg/providers/allocationstrategy and
      pkg/providers/capacityrecommendation. The stages that filter and order the candidates, the
      recommendations of the placement API and their cache, and the choice of the offering.
    \<^item> Batcher: pkg/utils/batcher. The operations under its mutex, and a step relation that interleaves
      enqueuers, the background loop, timers, cancellation and the goroutines of the batches.
    \<^item> Header_Batch: pkg/providers/azclient/aksmachinesheaderbatch. The batch key, the header, the executor and the
      reading of batch errors; it interprets the batcher's locale \<open>batch_executor\<close>.
    \<^item> AKS_Machine, Machine_Poller, Machine_Cache: pkg/utils/machine, pkg/providers/instance/aksmachinepoller and
      pkg/providers/instance/machinecache. Provisioning states, the poller of one machine, and the cache
      of all machines with its background refresh.
    \<^item> Go_Regexp, Go_Float, Resource_Names: the regular expressions and floating-point numbers that the code uses,
      and pkg/utils with the names and identifiers of machines, virtual machines, subnets and images.
    \<^item> Node_Class: pkg/apis/v1beta1. The node class, its accessors and its status conditions (locale
      \<open>status_conditions\<close>).
    \<^item> Kubernetes_Version, Node_Images, Class_Status: pkg/controllers/nodeclass/status with
      pkg/providers/kubernetesversion and pkg/providers/localdns. The status controller and its six reconcilers
      (Kubernetes version, images, subnet, static validation, local DNS, capacity reservation group), and the local
      DNS mode that is sent for a node.
    \<^item> Instance_Capacity, Instance_Types: pkg/providers/instancetype. OS disks, overhead and capacity of a size; which
      sizes are admitted, their requirements and offerings, and the provider with its cache, generation and
      overlay of quota (locale \<open>scheduling\<close> for the scheduling package).
    \<^item> Image_Family: pkg/providers/imagefamily. The image tables of every family, the lists from both galleries with
      their cache, the newest versions, and the image and distribution of a launch.
    \<^item> Load_Balancer, Cloud_Resources: pkg/providers/loadbalancer, networksecuritygroup, and the public addresses and
      interfaces of pkg/providers/instance, with the collector of orphaned interfaces.
    \<^item> AKS_Instances, VM_Instances: pkg/providers/instance. Creation, adoption, waiting, updating, reading and deletion
      of AKS machines and of virtual machines, with the clean-up of every error path.
    \<^item> Node_Claims, Drift, Cloud_Provider: pkg/cloudprovider. Claims built from instances, drift, and the interface
      that Karpenter's core calls, over both instance providers.
    \<^item> Garbage_Collection, In_Place_Update: pkg/controllers/nodeclaim. The collector of leaked instances and the
      controller that patches running instances.
    \<^item> Pricing: pkg/providers/pricing and its client. The price tables, their update and the paged API.

  \<^bold>\<open>How the model reads.\<close> A struct is a record, an operation is a function on it that returns the new state, an
  error is the left side of a sum, a panic is a value too. What is written elsewhere (the SDK, Karpenter's
  core, the expiring cache, JSON, hashing, HTTP, the clock, the random source, the order in which Go walks a map) is
  an argument, and the laws that the code relies on are locales. Every locale is interpreted, on the
  model's own definitions where the program provides the operations and on an executable instance
  where a library does. Goroutines are step relations (Batcher, Machine_Cache, Quota) or an
  arrival order (Sku_Mix).

  \<^bold>\<open>What is shown.\<close>

    \<^item> Allocation: the chosen offering is available, fits the claim and is a best one in the order of
      the ranking; with recommendations it is recommended or nothing was; a failing placement API does
      not stop an allocation; the order in which the answers arrive does not matter; a request has at most ten sizes.
    \<^item> Unavailability: a mark blocks the size and the larger sizes of its family for its whole duration, in its view
      only; marks never unblock, and answers only change when the sequence number does; each error
      handler marks the scope that its error is about and no other.
    \<^item> Quota: the per-quota totals are always the sums of the adjustments; a published snapshot keeps exactly the
      later deletes; a create and its delete cancel; a repeated delete counts once; the check compares
      the effective usage with the limit.
    \<^item> Batching: a request is always in exactly one place, is answered at most once and, until shutdown, can always be
      answered; requests of a batch share path and template; an error of the API reaches the machines
      it is about and is never lost.
    \<^item> Machines: the poller gives up after exactly its budget of retries in a row and returns the final state; a
      poll through the cache reports only what a fresh cache held; reads are the fresh entry or the API's answer.
    \<^item> Launch and deletion: a failed launch leaves nothing behind and is undone when its wait fails; quota is charged
      for creates that were issued only; deletion of a machine refines removal of its name; deleting a
      claim that was listed reaches its instance; an instance that was built reads back.
    \<^item> Collectors: instances and interfaces that a claim refers to, or that are young, are spared, and
      orphans are collected.
    \<^item> Instance types: a list has exactly the sizes that pass every filter, with one offering per zone and capacity
      type and the availability of current sources; the quota overlay changes on-demand availability only; the OS disk
      fits the size; an admitted size keeps resources for pods.
    \<^item> Node classes: pins take effect only when they are valid and are then followed; versions never go back
      without a pin; the reconcilers of a pass do not disturb each other; a reservation group in the status is never
      stale and is ready exactly when a member backs a usable size; preferred local DNS is switched on exactly where
      every gate holds, and the mode on the wire follows the size of the node.
    \<^item> Images: an image has the features that were asked for, a listed image resolves to the distribution of its
      table entry, and the newest version of each image is kept.
    \<^item> Drift and in-place updates: a drift reason is backed by a difference between node and class; patches
      reach the goal state.
    \<^item> Pricing: prices are those of current Linux items; a failed or empty update loses nothing.
    \<^item> Divergences from comments in the source, among others: a later mark can shorten a block
      (\<open>later_mark_shortens_family_block\<close>); a request accepted after the batcher stopped is never
      answered (\<open>requests_after_shutdown_are_never_answered\<close>); a refresh under way undoes an invalidation
      (\<open>refresh_under_way_undoes_Invalidate\<close>); a name collision deletes the machine of another claim
      (\<open>name_collision_deletes_the_other_machine\<close>); a pin can be reported without being followed
      (\<open>pin_reported_but_not_followed\<close>); local DNS that the mode Required left on is never judged again
      (\<open>required_then_preferred\<close>).

  \<^bold>\<open>Loops and bounds.\<close> No model has fuel. Loops over data are structural recursion; the two polling loops
  recurse over the sequence of events they meet, and \<open>None\<close> means that they still poll at its end; the
  paging loop of the price client is a partial function, shown to return for every finite chain of pages.
  Progress of the batcher is stated as the existence of a run without new requests.

  \<^bold>\<open>Not modelled.\<close> Log lines, metrics and traces; construction of SDK clients, of machine templates and of bootstrap
  scripts, which only copy fields into structures; Azure Resource Graph queries; the hash and
  termination controllers of the node class; option parsing, authentication and wiring of the operator; generated code
  (provision clients, deep copies, price and instance type tables); fakes and tests.
\<close>

end
